(* ===== verification/Prelude.thy ===== *)
theory Prelude
  imports Main "HOL-Library.AList" "HOL-Library.Char_ord" "HOL-Library.List_Lexorder"
    "HOL-Library.Sublist"
begin

text \<open>
  The vocabulary every component shares: Python strings (as lists of the 256 Latin-1
  characters), insertion-ordered dictionaries (association lists with the library's
  \<open>AList.update\<close> and \<open>AList.delete\<close>), the few SQL statements the stores issue (tables
  are lists of rows), and the two locales that every transition system of the library
  is an instance of.
\<close>

named_theorems row_simps \<open>rewrite rules of the SQL helpers\<close>

section \<open>Python strings\<close>

text \<open>A Latin-1 character is its code point below 256.\<close>

definition code_point :: "char \<Rightarrow> nat" where
  "code_point c = of_char c"

definition py_isascii :: "char \<Rightarrow> bool" where
  "py_isascii c \<longleftrightarrow> code_point c < 128"

definition ascii_alpha :: "char \<Rightarrow> bool" where
  "ascii_alpha c \<longleftrightarrow>
     (65 \<le> code_point c \<and> code_point c \<le> 90) \<or> (97 \<le> code_point c \<and> code_point c \<le> 122)"

definition ascii_digit :: "char \<Rightarrow> bool" where
  "ascii_digit c \<longleftrightarrow> 48 \<le> code_point c \<and> code_point c \<le> 57"

text \<open>\<open>str.isspace\<close> on Latin-1: the ASCII controls 9--13 and 28--31, the blank, NEL, NBSP.\<close>

definition py_isspace :: "char \<Rightarrow> bool" where
  "py_isspace c \<longleftrightarrow>
     (9 \<le> code_point c \<and> code_point c \<le> 13) \<or> (28 \<le> code_point c \<and> code_point c \<le> 32) \<or>
     code_point c = 133 \<or> code_point c = 160"

definition py_lower_char :: "char \<Rightarrow> char" where
  "py_lower_char c =
     (let n = code_point c
      in if (65 \<le> n \<and> n \<le> 90) \<or> (192 \<le> n \<and> n \<le> 222 \<and> n \<noteq> 215) then char_of (n + 32) else c)"

definition py_lower :: "string \<Rightarrow> string" where
  "py_lower s = map py_lower_char s"

definition py_strip :: "string \<Rightarrow> string" where
  "py_strip s = rev (dropWhile py_isspace (rev (dropWhile py_isspace s)))"

text \<open>The blanks \<open>int(text)\<close> and \<open>float(text)\<close> ignore around a number; the controls 28--31 are not among them.\<close>

definition number_space :: "char \<Rightarrow> bool" where
  "number_space c \<longleftrightarrow>
     (9 \<le> code_point c \<and> code_point c \<le> 13) \<or> code_point c = 32 \<or> code_point c = 133 \<or> code_point c = 160"

definition number_strip :: "string \<Rightarrow> string" where
  "number_strip s = rev (dropWhile number_space (rev (dropWhile number_space s)))"

text \<open>\<open>p in s\<close> for strings.\<close>

fun py_contains :: "string \<Rightarrow> string \<Rightarrow> bool" where
  "py_contains p [] = (p = [])"
| "py_contains p (c # s) = (prefix p (c # s) \<or> py_contains p s)"

definition newline :: char where "newline = CHR 0x0A"

definition carriage_return :: char where "carriage_return = CHR 0x0D"

lemma length_py_lower [simp]: "length (py_lower s) = length s"
  by (simp add: py_lower_def)

lemma py_lower_Nil [simp]: "py_lower [] = []"
  by (simp add: py_lower_def)

lemma py_contains_Nil [simp]: "py_contains [] s"
  by (induction s) auto

lemma py_contains_iff_sublist: "py_contains p s \<longleftrightarrow> sublist p s"
  by (induction s) (auto simp: sublist_Cons_right)

lemma py_strip_eq_Nil: "py_strip s = [] \<longleftrightarrow> list_all py_isspace s"
proof -
  have all_drop: "(\<forall>c \<in> set (dropWhile py_isspace s). py_isspace c) \<longleftrightarrow> dropWhile py_isspace s = []"
    by (induction s) auto
  have "py_strip s = [] \<longleftrightarrow> (\<forall>c \<in> set (dropWhile py_isspace s). py_isspace c)"
    by (simp add: py_strip_def)
  then show ?thesis
    unfolding all_drop by (simp add: list_all_iff)
qed

section \<open>Dictionaries\<close>

text \<open>
  A Python dict is its list of items in insertion order: \<open>d[k] = v\<close> is
  \<open>AList.update k v d\<close> (an existing key keeps its place), \<open>d.pop(k, None)\<close> is
  \<open>AList.delete k d\<close>, \<open>d.get(k)\<close> is \<open>map_of d k\<close>.
\<close>

lemma map_of_update_same [simp]: "map_of (AList.update k v d) k = Some v"
  by (simp add: update_conv)

lemma map_of_update_other [simp]: "k \<noteq> k' \<Longrightarrow> map_of (AList.update k v d) k' = map_of d k'"
  by (simp add: update_conv)

lemma map_of_delete_same [simp]: "map_of (AList.delete k d) k = None"
  by (simp add: delete_conv)

lemma map_of_delete_other [simp]: "k \<noteq> k' \<Longrightarrow> map_of (AList.delete k d) k' = map_of d k'"
  by (simp add: delete_conv)

section \<open>SQL statements on tables of rows\<close>

text \<open>A table is the list of its rows in insertion order.\<close>

definition sql_update :: "('r \<Rightarrow> bool) \<Rightarrow> ('r \<Rightarrow> 'r) \<Rightarrow> 'r list \<Rightarrow> 'r list" where
  "sql_update cond f rows = map (\<lambda>r. if cond r then f r else r) rows"

definition sql_rowcount :: "('r \<Rightarrow> bool) \<Rightarrow> 'r list \<Rightarrow> nat" where
  "sql_rowcount cond rows = length (filter cond rows)"

definition sql_fetchone :: "('r \<Rightarrow> bool) \<Rightarrow> 'r list \<Rightarrow> 'r option" where
  "sql_fetchone cond rows = List.find cond rows"

definition sql_delete :: "('r \<Rightarrow> bool) \<Rightarrow> 'r list \<Rightarrow> 'r list" where
  "sql_delete cond rows = filter (\<lambda>r. \<not> cond r) rows"

lemma sql_update_Nil [row_simps]: "sql_update cond f [] = []"
  by (simp add: sql_update_def)

lemma sql_update_Cons [row_simps]:
  "sql_update cond f (r # rows) = (if cond r then f r else r) # sql_update cond f rows"
  by (simp add: sql_update_def)

lemma length_sql_update [simp]: "length (sql_update cond f rows) = length rows"
  by (simp add: sql_update_def)

lemma sql_update_id: "sql_rowcount cond rows = 0 \<Longrightarrow> sql_update cond f rows = rows"
  by (induction rows) (auto simp: sql_update_def sql_rowcount_def split: if_splits)

lemma in_sql_update:
  "r' \<in> set (sql_update cond f rows) \<longleftrightarrow>
     (\<exists>r \<in> set rows. (cond r \<and> r' = f r) \<or> (\<not> cond r \<and> r' = r))"
  by (auto simp: sql_update_def)

lemma sql_fetchone_Some: "sql_fetchone cond rows = Some r \<Longrightarrow> r \<in> set rows \<and> cond r"
  by (auto simp: sql_fetchone_def find_Some_iff)

lemma sql_fetchone_None: "sql_fetchone cond rows = None \<longleftrightarrow> (\<forall>r \<in> set rows. \<not> cond r)"
  by (auto simp: sql_fetchone_def find_None_iff)

lemma sql_fetchone_Nil [row_simps]: "sql_fetchone cond [] = None"
  by (simp add: sql_fetchone_def)

lemma sql_fetchone_Cons [row_simps]:
  "sql_fetchone cond (r # rows) = (if cond r then Some r else sql_fetchone cond rows)"
  by (simp add: sql_fetchone_def)

lemma sql_fetchone_append:
  "sql_fetchone cond (xs @ ys) =
     (case sql_fetchone cond xs of None \<Rightarrow> sql_fetchone cond ys | Some r \<Rightarrow> Some r)"
  by (induction xs) (auto simp: row_simps)

lemma sql_rowcount_pos: "0 < sql_rowcount cond rows \<longleftrightarrow> (\<exists>r \<in> set rows. cond r)"
  by (auto simp: sql_rowcount_def filter_empty_conv)

text \<open>A unique key makes a statement that selects by it touch exactly one row.\<close>

lemma fetchone_unique:
  assumes "distinct (map key rows)" "r \<in> set rows" "cond = (\<lambda>x. key x = key r)"
  shows "sql_fetchone cond rows = Some r"
  using assms by (induction rows) (auto simp: row_simps image_iff)

lemma rowcount_unique:
  assumes "distinct (map key rows)" "r \<in> set rows" "\<And>x. x \<in> set rows \<Longrightarrow> cond x \<longleftrightarrow> x = r"
  shows "sql_rowcount cond rows = 1"
proof -
  have "filter cond rows = filter (\<lambda>x. x = r) rows"
    using assms(3) by (auto intro: filter_cong)
  moreover have "distinct rows" using assms(1) by (simp add: distinct_map)
  ultimately show ?thesis
    using assms(2) by (simp add: sql_rowcount_def distinct_length_filter)
qed

lemma map_key_sql_update [simp]:
  assumes "\<And>r. key (f r) = key r"
  shows "map key (sql_update cond f rows) = map key rows"
  using assms by (simp add: sql_update_def)

lemma fetchone_sql_update:
  assumes "\<And>r. sel (f r) = sel r"
  shows "sql_fetchone sel (sql_update cond f rows) =
           map_option (\<lambda>r. if cond r then f r else r) (sql_fetchone sel rows)"
  using assms by (induction rows) (auto simp: row_simps)

section \<open>Transition systems\<close>

text \<open>
  A system whose every step keeps an invariant. The client facts (the invariant holds
  along every run) are proved once here; each store interprets the locale on its own
  initial states and atomic statements.
\<close>

locale guarded_system =
  fixes init :: "'s \<Rightarrow> bool"
    and step :: "'s \<Rightarrow> 's \<Rightarrow> bool"
    and inv :: "'s \<Rightarrow> bool"
  assumes inv_init: "init s \<Longrightarrow> inv s"
    and inv_step: "step s t \<Longrightarrow> inv s \<Longrightarrow> inv t"
begin

lemma inv_steps: "step\<^sup>*\<^sup>* s t \<Longrightarrow> inv s \<Longrightarrow> inv t"
  by (induction rule: rtranclp_induct) (auto intro: inv_step)

lemma inv_reachable: "init s \<Longrightarrow> step\<^sup>*\<^sup>* s t \<Longrightarrow> inv t"
  using inv_init inv_steps by blast

end

text \<open>
  A ledger is a guarded system in which some observed outcomes are final: once a key
  shows a final value, no step changes it.
\<close>

locale outcome_ledger = guarded_system init step inv
  for init :: "'s \<Rightarrow> bool" and step :: "'s \<Rightarrow> 's \<Rightarrow> bool" and inv :: "'s \<Rightarrow> bool" +
  fixes outcome :: "'s \<Rightarrow> 'k \<Rightarrow> 'v option"
    and final :: "'v \<Rightarrow> bool"
  assumes final_step: "step s t \<Longrightarrow> inv s \<Longrightarrow> outcome s k = Some v \<Longrightarrow> final v \<Longrightarrow> outcome t k = Some v"
begin

lemma final_steps:
  "step\<^sup>*\<^sup>* s t \<Longrightarrow> inv s \<Longrightarrow> outcome s k = Some v \<Longrightarrow> final v \<Longrightarrow> outcome t k = Some v"
proof (induction rule: rtranclp_induct)
  case base
  then show ?case by simp
next
  case (step y z)
  then show ?case using inv_steps final_step by blast
qed

lemma no_two_final_outcomes:
  assumes "step\<^sup>*\<^sup>* s t" "inv s"
    and "outcome s k = Some v" "final v" "outcome t k = Some w"
  shows "w = v"
  using final_steps [OF assms(1-4)] assms(5) by simp

end

section \<open>Sequencing\<close>

text \<open>A computation that may raise, followed by another one.\<close>

definition and_then :: "'e + 'a \<Rightarrow> ('a \<Rightarrow> 'e + 'b) \<Rightarrow> 'e + 'b" where
  "and_then r f = (case r of Inl e \<Rightarrow> Inl e | Inr a \<Rightarrow> f a)"

lemma and_then_Inr [simp]: "and_then (Inr a) f = f a"
  by (simp add: and_then_def)

lemma and_then_Inl [simp]: "and_then (Inl e) f = Inl e"
  by (simp add: and_then_def)

lemma and_then_eq_Inr: "and_then r f = Inr b \<longleftrightarrow> (\<exists>a. r = Inr a \<and> f a = Inr b)"
  by (cases r) auto

end
