(* ===== verification/Py_Values.thy ===== *)
theory Py_Values
  imports Complex_Main Prelude "HOL-Library.Multiset"
begin

text \<open>
  The Python values that flow through plans, schemas and envelopes: what \<open>json.loads\<close>
  produces, plus tuples (a frozen list is a tuple). Finite floats are the rationals they
  denote. Sets and objects never enter a stored plan and are not represented.

  A TEXT column or digest input holding \<open>json.dumps(v, sort_keys=True)\<close> is represented
  by the value \<open>canonicalize v\<close>: object keys sorted, tuples turned into lists. Text and
  canonical value determine each other, so equality of texts is equality of these values.
\<close>

datatype pyfloat = Finite rat | Infinite bool | NaN

datatype pyval =
    PyNone
  | PyBool bool
  | PyInt int
  | PyFloat pyfloat
  | PyStr string
  | PyList "pyval list"
  | PyTuple "pyval list"
  | PyDict "(string \<times> pyval) list"

type_synonym pydict = "(string \<times> pyval) list"

section \<open>Size of nested values\<close>

lemma size_dict_value [termination_simp]:
  "(k, v) \<in> set d \<Longrightarrow> size v < Suc (size_list (size_prod (\<lambda>_. 0) size) d)"
  by (induction d) auto

lemma size_list_value [termination_simp]:
  "v \<in> set vs \<Longrightarrow> size v < Suc (size_list size vs)"
  by (induction vs) auto

lemma size_zip_value [termination_simp]:
  "(v, w) \<in> set (zip vs ws) \<Longrightarrow> size v < Suc (size_list size vs)"
  by (rule size_list_value) (rule set_zip_leftD)

section \<open>Truth, equality, canonical form\<close>

fun py_truthy :: "pyval \<Rightarrow> bool" where
  "py_truthy PyNone = False"
| "py_truthy (PyBool b) = b"
| "py_truthy (PyInt i) = (i \<noteq> 0)"
| "py_truthy (PyFloat f) = (f \<noteq> Finite 0)"
| "py_truthy (PyStr s) = (s \<noteq> [])"
| "py_truthy (PyList vs) = (vs \<noteq> [])"
| "py_truthy (PyTuple vs) = (vs \<noteq> [])"
| "py_truthy (PyDict d) = (d \<noteq> [])"

text \<open>Numbers of the three numeric types compare by value; a bool is 0 or 1.\<close>

fun py_number :: "pyval \<Rightarrow> pyfloat option" where
  "py_number (PyBool b) = Some (Finite (if b then 1 else 0))"
| "py_number (PyInt i) = Some (Finite (of_int i))"
| "py_number (PyFloat f) = Some f"
| "py_number _ = None"

definition py_number_eq :: "pyval \<Rightarrow> pyval \<Rightarrow> bool" where
  "py_number_eq v w =
     (case (py_number v, py_number w) of
        (Some x, Some y) \<Rightarrow> x = y \<and> x \<noteq> NaN
      | _ \<Rightarrow> False)"

text \<open>\<open>v == w\<close>: sequences elementwise, dictionaries by key whatever their order.\<close>

fun py_eq :: "pyval \<Rightarrow> pyval \<Rightarrow> bool" where
  "py_eq PyNone w = (w = PyNone)"
| "py_eq (PyStr s) w = (w = PyStr s)"
| "py_eq (PyList vs) w =
     (case w of PyList ws \<Rightarrow> length vs = length ws \<and> (\<forall>(x, y) \<in> set (zip vs ws). py_eq x y) | _ \<Rightarrow> False)"
| "py_eq (PyTuple vs) w =
     (case w of PyTuple ws \<Rightarrow> length vs = length ws \<and> (\<forall>(x, y) \<in> set (zip vs ws). py_eq x y) | _ \<Rightarrow> False)"
| "py_eq (PyDict d) w =
     (case w of
        PyDict e \<Rightarrow> length d = length e \<and>
          (\<forall>(k, x) \<in> set d. case map_of e k of None \<Rightarrow> False | Some y \<Rightarrow> py_eq x y)
      | _ \<Rightarrow> False)"
| "py_eq v w = py_number_eq v w"

text \<open>\<open>_canonicalize\<close> of \<open>plan_hash.py\<close>: keys sorted at every level, tuples as lists.\<close>

fun canonicalize :: "pyval \<Rightarrow> pyval" where
  "canonicalize (PyDict d) = PyDict (sort_key fst (map (\<lambda>(k, v). (k, canonicalize v)) d))"
| "canonicalize (PyList vs) = PyList (map canonicalize vs)"
| "canonicalize (PyTuple vs) = PyList (map canonicalize vs)"
| "canonicalize v = v"

text \<open>The keys of every dictionary inside a value are distinct, as Python guarantees.\<close>

fun py_wf :: "pyval \<Rightarrow> bool" where
  "py_wf (PyDict d) = (distinct (map fst d) \<and> (\<forall>(k, v) \<in> set d. py_wf v))"
| "py_wf (PyList vs) = (\<forall>v \<in> set vs. py_wf v)"
| "py_wf (PyTuple vs) = (\<forall>v \<in> set vs. py_wf v)"
| "py_wf v = True"

section \<open>Reading dictionaries\<close>

definition dict_get :: "pydict \<Rightarrow> string \<Rightarrow> pyval" where
  "dict_get d k = (case map_of d k of None \<Rightarrow> PyNone | Some v \<Rightarrow> v)"

text \<open>\<open>d.get(k, v)\<close>\<close>

definition get_default :: "pydict \<Rightarrow> string \<Rightarrow> pyval \<Rightarrow> pyval" where
  "get_default d k v = (case map_of d k of Some x \<Rightarrow> x | None \<Rightarrow> v)"

definition py_get :: "pyval \<Rightarrow> string \<Rightarrow> pyval option" where
  "py_get v k = (case v of PyDict d \<Rightarrow> map_of d k | _ \<Rightarrow> None)"

definition py_or :: "pyval \<Rightarrow> pyval \<Rightarrow> pyval" where
  "py_or v w = (if py_truthy v then v else w)"

definition opt_str :: "string option \<Rightarrow> pyval" where
  "opt_str s = (case s of None \<Rightarrow> PyNone | Some t \<Rightarrow> PyStr t)"

definition opt_int :: "int option \<Rightarrow> pyval" where
  "opt_int i = (case i of None \<Rightarrow> PyNone | Some n \<Rightarrow> PyInt n)"

definition opt_dict :: "pydict option \<Rightarrow> pyval" where
  "opt_dict d = (case d of None \<Rightarrow> PyNone | Some e \<Rightarrow> PyDict e)"

text \<open>\<open>v in (None, "")\<close>\<close>

definition blank_id :: "pyval \<Rightarrow> bool" where
  "blank_id v \<longleftrightarrow> v = PyNone \<or> v = PyStr []"

text \<open>The values that may enter a set or be a dictionary key.\<close>

fun hashable :: "pyval \<Rightarrow> bool" where
  "hashable (PyList _) = False"
| "hashable (PyDict _) = False"
| "hashable (PyTuple vs) = (\<forall>v \<in> set vs. hashable v)"
| "hashable _ = True"

text \<open>\<open>for x in v\<close>: \<open>None\<close> where Python raises \<open>TypeError\<close>.\<close>

fun iterate :: "pyval \<Rightarrow> pyval list option" where
  "iterate (PyList vs) = Some vs"
| "iterate (PyTuple vs) = Some vs"
| "iterate (PyDict d) = Some (map (\<lambda>(k, v). PyStr k) d)"
| "iterate (PyStr s) = Some (map (\<lambda>c. PyStr [c]) s)"
| "iterate _ = None"

text \<open>
  What the functions over these values raise, with the text where a caller reports it.
  \<open>RaisesNamed c m\<close> is an exception of the class \<open>c\<close> outside the built-in ones above.
\<close>

datatype py_exception =
    RaisesType
  | RaisesKey string
  | RaisesAttribute
  | RaisesValue string
  | RaisesRuntime string
  | RaisesOverflow
  | RaisesNamed string string

definition loop_over :: "pyval \<Rightarrow> py_exception + pyval list" where
  "loop_over v = (case iterate v of None \<Rightarrow> Inl RaisesType | Some vs \<Rightarrow> Inr vs)"

definition item_of :: "pydict \<Rightarrow> string \<Rightarrow> py_exception + pyval" where
  "item_of d k = (case map_of d k of None \<Rightarrow> Inl (RaisesKey k) | Some v \<Rightarrow> Inr v)"

lemma dict_get_Nil [simp]: "dict_get [] k = PyNone"
  by (simp add: dict_get_def)

lemma dict_get_Cons [simp]: "dict_get ((k', v) # d) k = (if k = k' then v else dict_get d k)"
  by (simp add: dict_get_def)

lemma py_get_PyDict [simp]: "py_get (PyDict d) k = map_of d k"
  by (simp add: py_get_def)

section \<open>Facts about equality and canonical forms\<close>

lemma py_eq_refl_float: "py_eq (PyFloat f) (PyFloat f) \<longleftrightarrow> f \<noteq> NaN"
  by (simp add: py_number_eq_def)

fun nan_free :: "pyval \<Rightarrow> bool" where
  "nan_free (PyFloat f) = (f \<noteq> NaN)"
| "nan_free (PyDict d) = (\<forall>(k, v) \<in> set d. nan_free v)"
| "nan_free (PyList vs) = (\<forall>v \<in> set vs. nan_free v)"
| "nan_free (PyTuple vs) = (\<forall>v \<in> set vs. nan_free v)"
| "nan_free v = True"

lemma py_eq_refl: "py_wf v \<Longrightarrow> nan_free v \<Longrightarrow> py_eq v v"
proof (induction v rule: py_wf.induct)
  case (1 d)
  have "case map_of d k of None \<Rightarrow> False | Some y \<Rightarrow> py_eq x y" if "(k, x) \<in> set d" for k x
  proof -
    have "map_of d k = Some x" using that 1 by (simp add: map_of_is_SomeI)
    moreover have "py_eq x x" using that 1 by fastforce
    ultimately show ?thesis by simp
  qed
  then show ?case by auto
qed (auto simp: zip_same py_number_eq_def)

lemma canonicalize_idem: "canonicalize (canonicalize v) = canonicalize v"
proof (induction v rule: canonicalize.induct)
  case (1 d)
  let ?c = "\<lambda>(k, v). (k, canonicalize v)"
  have same: "?c kv = kv" if "kv \<in> set (sort_key fst (map ?c d))" for kv
    using that 1 by auto
  have "map ?c (sort_key fst (map ?c d)) = sort_key fst (map ?c d)"
    using same by (rule map_idI)
  then show ?case by (simp add: sort_key_id_if_sorted)
qed (auto)

text \<open>Two dictionaries with the same items in another order have the same canonical form.\<close>

lemma sort_key_mset_unique:
  assumes "mset xs = mset ys" "distinct (map f xs)"
  shows "sort_key f xs = sort_key f ys"
proof (rule map_sorted_distinct_set_unique)
  have set: "set xs = set ys" using assms(1) by (rule mset_eq_setD)
  have dist: "distinct (map f ys)"
    using assms by (metis mset_map mset_eq_imp_distinct_iff)
  show "inj_on f (set (sort_key f xs) \<union> set (sort_key f ys))"
    using assms(2) set by (simp add: distinct_map)
  show "distinct (map f (sort_key f xs))" "distinct (map f (sort_key f ys))"
    using assms(2) dist by (simp_all add: distinct_map)
  show "set (sort_key f xs) = set (sort_key f ys)" using set by simp
qed simp_all

lemma canonicalize_perm:
  assumes "distinct (map fst d)" "mset d = mset e"
  shows "canonicalize (PyDict d) = canonicalize (PyDict e)"
proof -
  let ?c = "\<lambda>(k, v). (k, canonicalize v)"
  have "map fst (map ?c d) = map fst d" by auto
  then have "sort_key fst (map ?c d) = sort_key fst (map ?c e)"
    using assms by (intro sort_key_mset_unique) (simp_all del: map_map)
  then show ?thesis by simp
qed

end
