(* ===== verification/Envelope.thy ===== *)
theory Envelope
  imports Py_Values
begin

text \<open>
  \<open>hugegraph_mcp/envelope.py\<close>: the error types and the arguments a handler passes to
  \<open>envelope_ok\<close> and \<open>envelope_err\<close>. A \<open>reply\<close> is that call: the payload of a success,
  or type, message, suggestion, retry flag and details of a failure (absent details are
  the empty object, as in the code). The \<open>meta\<close> block and the redaction of secrets in
  messages and details are applied by the envelope to every reply alike and are not part
  of a reply.
\<close>

datatype error_type =
    CONNECTION_FAILED | AUTHENTICATION_FAILED | AUTHORIZATION_FAILED | VALIDATION_ERROR
  | READONLY_VIOLATION | CONFIRM_REQUIRED | PLAN_HASH_MISMATCH | PLAN_EXPIRED
  | PLAN_ALREADY_USED | TARGET_CHANGED | WRITE_CONFLICT | WRITE_OUTCOME_UNKNOWN
  | PARTIAL_APPLY | NOT_FOUND | NO_INDEX | UNSAFE_GREMLIN | QUERY_SYNTAX_ERROR
  | SERVER_ERROR | SCHEMA_MISMATCH | INVALID_GRAPH_DATA | HUGEGRAPH_AI_UNAVAILABLE
  | FEATURE_DISABLED | FLOW_EXECUTION_FAILED | LLM_FAILED | EMBEDDING_FAILED | TIMEOUT

record error_info =
  ei_type :: error_type
  ei_message :: string
  ei_suggestion :: "string option"
  ei_retryable :: bool
  ei_details :: pyval

datatype reply = EnvelopeOk pyval | EnvelopeErr error_info

definition envelope_ok :: "pyval \<Rightarrow> reply" where
  "envelope_ok data = EnvelopeOk data"

definition envelope_err ::
  "error_type \<Rightarrow> string \<Rightarrow> string option \<Rightarrow> bool \<Rightarrow> pyval option \<Rightarrow> reply" where
  "envelope_err etype message suggestion retryable details =
     EnvelopeErr \<lparr>ei_type = etype, ei_message = message, ei_suggestion = suggestion,
       ei_retryable = retryable,
       ei_details = (case details of None \<Rightarrow> PyDict [] | Some d \<Rightarrow> d)\<rparr>"

fun reply_is_ok :: "reply \<Rightarrow> bool" where
  "reply_is_ok (EnvelopeOk _) = True"
| "reply_is_ok (EnvelopeErr _) = False"

fun reply_error :: "reply \<Rightarrow> error_type option" where
  "reply_error (EnvelopeOk _) = None"
| "reply_error (EnvelopeErr e) = Some (ei_type e)"

fun reply_data :: "reply \<Rightarrow> pyval option" where
  "reply_data (EnvelopeOk d) = Some d"
| "reply_data (EnvelopeErr _) = None"

lemma reply_is_ok_envelope_ok [simp]: "reply_is_ok (envelope_ok d)"
  by (simp add: envelope_ok_def)

lemma reply_error_envelope_err [simp]: "reply_error (envelope_err t m s r d) = Some t"
  by (simp add: envelope_err_def)

lemma reply_error_envelope_ok [simp]: "reply_error (envelope_ok d) = None"
  by (simp add: envelope_ok_def)

lemma not_ok_envelope_err [simp]: "\<not> reply_is_ok (envelope_err t m s r d)"
  by (simp add: envelope_err_def)

lemma reply_is_ok_iff: "reply_is_ok r \<longleftrightarrow> reply_error r = None"
  by (cases r) auto

end
