(* ===== verification/Write_Plan.thy ===== *)
theory Write_Plan
  imports Envelope
begin

text \<open>
  \<open>hugegraph_mcp/write_plan.py\<close>: the two status enumerations, the plan state machine,
  immutable plans, operations and receipts with the checks of their constructors, and
  the aggregation of operation outcomes into a plan outcome.
\<close>

section \<open>Statuses\<close>

datatype apply_status =
    APPLIED | ALREADY_APPLIED | REJECTED | CONFLICT | PARTIAL | UNKNOWN | LEGACY_UNKNOWN
  | RETRYABLE_NOT_APPLIED

datatype plan_status =
    ISSUED | EXECUTING | APPLIED | ALREADY_APPLIED | REJECTED | CONFLICT | PARTIAL | UNKNOWN
  | LEGACY_UNKNOWN | RETRYABLE_NOT_APPLIED | EXPIRED

text \<open>The library's enumeration class makes quantifiers over statuses executable.\<close>

instantiation plan_status :: enum
begin

definition enum_plan_status :: "plan_status list" where
  "enum_plan_status = [ISSUED, EXECUTING, APPLIED, ALREADY_APPLIED, REJECTED, CONFLICT, PARTIAL,
     UNKNOWN, LEGACY_UNKNOWN, RETRYABLE_NOT_APPLIED, EXPIRED]"

definition enum_all_plan_status :: "(plan_status \<Rightarrow> bool) \<Rightarrow> bool" where
  "enum_all_plan_status P \<longleftrightarrow> list_all P Enum.enum"

definition enum_ex_plan_status :: "(plan_status \<Rightarrow> bool) \<Rightarrow> bool" where
  "enum_ex_plan_status P \<longleftrightarrow> list_ex P Enum.enum"

instance
proof
  show univ: "UNIV = set (Enum.enum :: plan_status list)"
    unfolding enum_plan_status_def using plan_status.exhaust by auto
  show "distinct (Enum.enum :: plan_status list)"
    by (simp add: enum_plan_status_def)
  show "\<And>P. Enum.enum_all P \<longleftrightarrow> Ball (UNIV :: plan_status set) P"
    unfolding univ enum_all_plan_status_def by (simp add: list_all_iff)
  show "\<And>P. Enum.enum_ex P \<longleftrightarrow> Bex (UNIV :: plan_status set) P"
    unfolding univ enum_ex_plan_status_def by (simp add: list_ex_iff)
qed

end

fun plan_status_value :: "plan_status \<Rightarrow> string" where
  "plan_status_value ISSUED = ''ISSUED''"
| "plan_status_value EXECUTING = ''EXECUTING''"
| "plan_status_value APPLIED = ''APPLIED''"
| "plan_status_value ALREADY_APPLIED = ''ALREADY_APPLIED''"
| "plan_status_value REJECTED = ''REJECTED''"
| "plan_status_value CONFLICT = ''CONFLICT''"
| "plan_status_value PARTIAL = ''PARTIAL''"
| "plan_status_value UNKNOWN = ''UNKNOWN''"
| "plan_status_value LEGACY_UNKNOWN = ''LEGACY_UNKNOWN''"
| "plan_status_value RETRYABLE_NOT_APPLIED = ''RETRYABLE_NOT_APPLIED''"
| "plan_status_value EXPIRED = ''EXPIRED''"

text \<open>\<open>PlanStatus(receipt.status.value)\<close>: every apply status is a plan status.\<close>

fun plan_status_of :: "apply_status \<Rightarrow> plan_status" where
  "plan_status_of apply_status.APPLIED = APPLIED"
| "plan_status_of apply_status.ALREADY_APPLIED = ALREADY_APPLIED"
| "plan_status_of apply_status.REJECTED = REJECTED"
| "plan_status_of apply_status.CONFLICT = CONFLICT"
| "plan_status_of apply_status.PARTIAL = PARTIAL"
| "plan_status_of apply_status.UNKNOWN = UNKNOWN"
| "plan_status_of apply_status.LEGACY_UNKNOWN = LEGACY_UNKNOWN"
| "plan_status_of apply_status.RETRYABLE_NOT_APPLIED = RETRYABLE_NOT_APPLIED"

text \<open>\<open>ApplyStatus(text)\<close>: a \<open>ValueError\<close> (here \<open>None\<close>) for a status that is no outcome.\<close>

fun apply_status_of :: "plan_status \<Rightarrow> apply_status option" where
  "apply_status_of APPLIED = Some apply_status.APPLIED"
| "apply_status_of ALREADY_APPLIED = Some apply_status.ALREADY_APPLIED"
| "apply_status_of REJECTED = Some apply_status.REJECTED"
| "apply_status_of CONFLICT = Some apply_status.CONFLICT"
| "apply_status_of PARTIAL = Some apply_status.PARTIAL"
| "apply_status_of UNKNOWN = Some apply_status.UNKNOWN"
| "apply_status_of LEGACY_UNKNOWN = Some apply_status.LEGACY_UNKNOWN"
| "apply_status_of RETRYABLE_NOT_APPLIED = Some apply_status.RETRYABLE_NOT_APPLIED"
| "apply_status_of _ = None"

lemma apply_status_of_plan_status_of [simp]: "apply_status_of (plan_status_of a) = Some a"
  by (cases a) auto

lemma plan_status_of_inject [simp]: "plan_status_of a = plan_status_of b \<longleftrightarrow> a = b"
  by (cases a; cases b) auto

lemma plan_status_value_inject [simp]: "plan_status_value a = plan_status_value b \<longleftrightarrow> a = b"
  by (cases a; cases b) auto

section \<open>The plan state machine\<close>

fun allowed_plan_transitions :: "plan_status \<Rightarrow> plan_status set" where
  "allowed_plan_transitions ISSUED = {EXECUTING, EXPIRED}"
| "allowed_plan_transitions EXECUTING =
     {APPLIED, ALREADY_APPLIED, REJECTED, CONFLICT, PARTIAL, UNKNOWN}"
| "allowed_plan_transitions UNKNOWN = {APPLIED, CONFLICT, RETRYABLE_NOT_APPLIED}"
| "allowed_plan_transitions LEGACY_UNKNOWN = {APPLIED, CONFLICT, RETRYABLE_NOT_APPLIED}"
| "allowed_plan_transitions RETRYABLE_NOT_APPLIED = {EXECUTING}"
| "allowed_plan_transitions PARTIAL = {PARTIAL, APPLIED, UNKNOWN}"
| "allowed_plan_transitions APPLIED = {}"
| "allowed_plan_transitions ALREADY_APPLIED = {}"
| "allowed_plan_transitions REJECTED = {}"
| "allowed_plan_transitions CONFLICT = {}"
| "allowed_plan_transitions EXPIRED = {}"

definition can_transition :: "plan_status \<Rightarrow> plan_status \<Rightarrow> bool" where
  "can_transition current target \<longleftrightarrow> target \<in> allowed_plan_transitions current"

definition terminal_plan_status :: "plan_status \<Rightarrow> bool" where
  "terminal_plan_status s \<longleftrightarrow> s \<in> {APPLIED, ALREADY_APPLIED, REJECTED, CONFLICT, EXPIRED}"

lemma can_transition_terminal: "can_transition s t \<Longrightarrow> \<not> terminal_plan_status s"
  by (cases s) (auto simp: can_transition_def terminal_plan_status_def)

lemma can_transition_not_issued: "\<not> can_transition s ISSUED"
  by (cases s) (auto simp: can_transition_def)

section \<open>Plans, operations, receipts\<close>

datatype value_error = ValueError string

record graph_target =
  gt_graph_url :: string
  gt_graph_name :: string
  gt_graphspace :: "string option"

definition graph_target_to_dict :: "graph_target \<Rightarrow> pydict" where
  "graph_target_to_dict g =
     [(''graph_url'', PyStr (gt_graph_url g)), (''graph_name'', PyStr (gt_graph_name g)),
      (''graphspace'', opt_str (gt_graphspace g))]"

text \<open>\<open>_freeze\<close> turns lists into tuples, \<open>_thaw\<close> turns them back.\<close>

fun freeze :: "pyval \<Rightarrow> pyval" where
  "freeze (PyDict d) = PyDict (map (\<lambda>(k, v). (k, freeze v)) d)"
| "freeze (PyList vs) = PyTuple (map freeze vs)"
| "freeze (PyTuple vs) = PyTuple (map freeze vs)"
| "freeze v = v"

fun thaw :: "pyval \<Rightarrow> pyval" where
  "thaw (PyDict d) = PyDict (map (\<lambda>(k, v). (k, thaw v)) d)"
| "thaw (PyTuple vs) = PyList (map thaw vs)"
| "thaw v = v"

definition freeze_mapping :: "pydict \<Rightarrow> pydict" where
  "freeze_mapping d = map (\<lambda>(k, v). (k, freeze v)) d"

definition thaw_mapping :: "pydict \<Rightarrow> pydict" where
  "thaw_mapping d = map (\<lambda>(k, v). (k, thaw v)) d"

text \<open>A JSON value has no tuples.\<close>

fun json_value :: "pyval \<Rightarrow> bool" where
  "json_value (PyDict d) = (\<forall>(k, v) \<in> set d. json_value v)"
| "json_value (PyList vs) = (\<forall>v \<in> set vs. json_value v)"
| "json_value (PyTuple vs) = False"
| "json_value v = True"

definition json_dict :: "pydict \<Rightarrow> bool" where
  "json_dict d \<longleftrightarrow> (\<forall>(k, v) \<in> set d. json_value v)"

lemma thaw_freeze: "json_value v \<Longrightarrow> thaw (freeze v) = v"
  by (induction v rule: json_value.induct) (auto intro!: map_idI)

lemma json_value_thaw_freeze: "json_value (thaw (freeze v))"
  by (induction v rule: freeze.induct) auto

lemma freeze_thaw_freeze: "freeze (thaw (freeze v)) = freeze v"
  by (induction v rule: freeze.induct) auto

lemma thaw_freeze_mapping: "json_dict d \<Longrightarrow> thaw_mapping (freeze_mapping d) = d"
  by (auto simp: json_dict_def thaw_mapping_def freeze_mapping_def thaw_freeze intro!: map_idI)

lemma freeze_thaw_freeze_mapping:
  "freeze_mapping (thaw_mapping (freeze_mapping d)) = freeze_mapping d"
  by (simp add: thaw_mapping_def freeze_mapping_def split_beta freeze_thaw_freeze comp_def)

record operation_plan =
  op_operation_id :: string
  op_kind :: string
  op_target :: pydict
  op_expected_state :: pydict
  op_desired_state :: pydict
  op_depends_on :: "string list"
  op_idempotency_key :: "string option"

text \<open>\<open>OperationPlan(...)\<close> with \<open>__post_init__\<close>.\<close>

definition make_operation_plan ::
  "string \<Rightarrow> string \<Rightarrow> pydict \<Rightarrow> pydict \<Rightarrow> pydict \<Rightarrow> string list \<Rightarrow> string option
     \<Rightarrow> value_error + operation_plan" where
  "make_operation_plan operation_id kind target expected desired depends_on key =
     (if operation_id = [] then Inl (ValueError ''operation_id must be non-empty'')
      else if kind = [] then Inl (ValueError ''operation kind must be non-empty'')
      else Inr \<lparr>op_operation_id = operation_id, op_kind = kind,
        op_target = freeze_mapping target, op_expected_state = freeze_mapping expected,
        op_desired_state = freeze_mapping desired, op_depends_on = depends_on,
        op_idempotency_key = key\<rparr>)"

definition operation_to_dict :: "operation_plan \<Rightarrow> pydict" where
  "operation_to_dict o' =
     [(''operation_id'', PyStr (op_operation_id o')), (''kind'', PyStr (op_kind o')),
      (''target'', PyDict (thaw_mapping (op_target o'))),
      (''expected_state'', PyDict (thaw_mapping (op_expected_state o'))),
      (''desired_state'', PyDict (thaw_mapping (op_desired_state o'))),
      (''depends_on'', PyList (map PyStr (op_depends_on o'))),
      (''idempotency_key'', opt_str (op_idempotency_key o'))]"

record write_plan =
  wp_plan_id :: string
  wp_tool_name :: string
  wp_graph_target :: graph_target
  wp_principal :: string
  wp_operations :: "operation_plan list"
  wp_payload_digest :: string
  wp_schema_fingerprint :: "string option"
  wp_status :: plan_status
  wp_created_at :: int
  wp_expires_at :: int

fun py_join :: "string \<Rightarrow> string list \<Rightarrow> string" where
  "py_join sep [] = []"
| "py_join sep [s] = s"
| "py_join sep (s # ss) = s @ sep @ py_join sep ss"

text \<open>The loop of \<open>WritePlan.__post_init__\<close> over the operations, with its \<open>seen\<close> set.\<close>

fun check_operations :: "string list \<Rightarrow> operation_plan list \<Rightarrow> value_error option" where
  "check_operations seen [] = None"
| "check_operations seen (o' # os) =
     (if op_operation_id o' \<in> set seen
      then Some (ValueError (''duplicate operation_id: '' @ op_operation_id o'))
      else let missing = filter (\<lambda>d. d \<notin> set seen) (op_depends_on o')
        in if missing \<noteq> []
           then Some (ValueError (''operation '' @ op_operation_id o' @
                  '' depends on an earlier operation: '' @ py_join '', '' missing))
           else check_operations (op_operation_id o' # seen) os)"

definition make_write_plan :: "write_plan \<Rightarrow> value_error + write_plan" where
  "make_write_plan p =
     (if wp_plan_id p = [] then Inl (ValueError ''plan_id must be non-empty'')
      else if wp_tool_name p = [] then Inl (ValueError ''tool_name must be non-empty'')
      else case check_operations [] (wp_operations p) of
        Some e \<Rightarrow> Inl e
      | None \<Rightarrow>
          if wp_created_at p < 0 \<or> wp_expires_at p \<le> wp_created_at p
          then Inl (ValueError ''expires_at must be greater than created_at'')
          else Inr p)"

definition write_plan_to_dict :: "write_plan \<Rightarrow> pydict" where
  "write_plan_to_dict p =
     [(''plan_id'', PyStr (wp_plan_id p)), (''tool_name'', PyStr (wp_tool_name p)),
      (''graph_target'', PyDict (graph_target_to_dict (wp_graph_target p))),
      (''principal'', PyStr (wp_principal p)),
      (''operations'', PyList (map (\<lambda>o'. PyDict (operation_to_dict o')) (wp_operations p))),
      (''payload_digest'', PyStr (wp_payload_digest p)),
      (''schema_fingerprint'', opt_str (wp_schema_fingerprint p)),
      (''status'', PyStr (plan_status_value (wp_status p))),
      (''created_at'', PyInt (wp_created_at p)), (''expires_at'', PyInt (wp_expires_at p))]"

definition canonical_plan_json :: "write_plan \<Rightarrow> pyval" where
  "canonical_plan_json p = canonicalize (PyDict (write_plan_to_dict p))"

record apply_receipt =
  rc_status :: apply_status
  rc_plan_id :: "string option"
  rc_operation_id :: "string option"
  rc_observed_state :: "pydict option"
  rc_reason_code :: "string option"
  rc_attempt :: int
  rc_attempt_token :: "string option"
  rc_reconciliation_required :: bool
  rc_committed_at :: "int option"
  rc_operation :: "pydict option"
  rc_reason :: "string option"

definition make_apply_receipt :: "apply_receipt \<Rightarrow> value_error + apply_receipt" where
  "make_apply_receipt r =
     (if rc_attempt r < 0 then Inl (ValueError ''attempt must not be negative'')
      else Inr (r\<lparr>rc_observed_state := map_option freeze_mapping (rc_observed_state r),
                  rc_operation := map_option freeze_mapping (rc_operation r)\<rparr>))"

definition receipt_to_dict :: "apply_receipt \<Rightarrow> pydict" where
  "receipt_to_dict r =
     (let status = PyStr (plan_status_value (plan_status_of (rc_status r)));
          observed = opt_dict (map_option thaw_mapping (rc_observed_state r))
      in if rc_plan_id r = None \<and> rc_operation_id r = None
         then [(''status'', status),
               (''operation'', opt_dict (map_option thaw_mapping (rc_operation r))),
               (''observed_state'', observed), (''reason'', opt_str (rc_reason r)),
               (''reconciliation_required'', PyBool (rc_reconciliation_required r))]
         else [(''plan_id'', opt_str (rc_plan_id r)),
               (''operation_id'', opt_str (rc_operation_id r)), (''status'', status),
               (''observed_state'', observed), (''reason_code'', opt_str (rc_reason_code r)),
               (''attempt'', PyInt (rc_attempt r)),
               (''reconciliation_required'', PyBool (rc_reconciliation_required r)),
               (''committed_at'', opt_int (rc_committed_at r))]
              @ (case rc_attempt_token r of None \<Rightarrow> [] | Some t \<Rightarrow> [(''attempt_token'', PyStr t)]))"

section \<open>Aggregation of operation outcomes\<close>

definition success :: "apply_status \<Rightarrow> bool" where
  "success s \<longleftrightarrow> s = apply_status.APPLIED \<or> s = apply_status.ALREADY_APPLIED"

definition aggregate_plan_status :: "apply_status list \<Rightarrow> plan_status" where
  "aggregate_plan_status statuses =
     (if statuses = [] then ISSUED
      else if list_all success statuses then
        (if list_all (\<lambda>s. s = apply_status.ALREADY_APPLIED) statuses then ALREADY_APPLIED else APPLIED)
      else if list_ex success statuses then PARTIAL
      else if apply_status.PARTIAL \<in> set statuses then PARTIAL
      else if apply_status.UNKNOWN \<in> set statuses then UNKNOWN
      else if apply_status.CONFLICT \<in> set statuses then CONFLICT
      else if apply_status.RETRYABLE_NOT_APPLIED \<in> set statuses then RETRYABLE_NOT_APPLIED
      else REJECTED)"

end
