(* ===== verification/Confirmation_Store.thy ===== *)
theory Confirmation_Store
  imports Write_Plan
begin

text \<open>
  \<open>hugegraph_mcp/confirmation_store.py\<close>: the SQLite ledger of single-use confirmations.
  The database is a record of its three tables; each method is one function from the
  database, its arguments, the clock reading and whether the SQLite and file-system calls
  succeed (\<open>disk\<close>) to the raised error or result and the database it leaves. \<open>digest\<close> is
  the hexadecimal SHA-256 of a string. Rows deleted by the committed cleanup stay deleted
  when a later check raises; everything else a raising method wrote is rolled back.
\<close>

datatype confirmation_error =
    ConfirmationAlreadyUsed
  | ConfirmationStoreUnavailable
  | ConfirmationNotIssued
  | ConfirmationPlanMismatch
  | ConfirmationPlanExpired

text \<open>A nullable TEXT column expected to hold JSON either decodes to a value or does not.\<close>

datatype json_text = JsonText pyval | CorruptText string

record issued_row =
  ir_nonce_digest :: string
  ir_plan_hash :: string
  ir_expires_at :: int
  ir_issued_at :: int
  ir_payload_json :: "json_text option"

record consumed_row =
  cr_nonce_digest :: string
  cr_plan_hash :: string
  cr_expires_at :: int
  cr_consumed_at :: int

record operation_row =
  wr_plan_hash :: string
  wr_nonce_digest :: string
  wr_payload_json :: "json_text option"
  wr_status :: string
  wr_receipt_json :: "json_text option"
  wr_updated_at :: int

record confirmation_db =
  cd_exists :: bool
  cd_issued :: "issued_row list"
  cd_consumed :: "consumed_row list"
  cd_operations :: "operation_row list"

definition empty_confirmation_db :: confirmation_db where
  "empty_confirmation_db = \<lparr>cd_exists = False, cd_issued = [], cd_consumed = [], cd_operations = []\<rparr>"

definition DEFAULT_PLAN_TTL_SECONDS :: int where
  "DEFAULT_PLAN_TTL_SECONDS = 600"

section \<open>Storage helpers\<close>

text \<open>\<open>_prepare_storage\<close> creates the file, \<open>_ensure_schema\<close> the tables.\<close>

definition prepare_confirmation_storage :: "confirmation_db \<Rightarrow> confirmation_db" where
  "prepare_confirmation_storage db = db\<lparr>cd_exists := True\<rparr>"

definition cleanup_expired :: "int \<Rightarrow> confirmation_db \<Rightarrow> confirmation_db" where
  "cleanup_expired current_time db =
     db\<lparr>cd_consumed := sql_delete (\<lambda>r. cr_expires_at r < current_time) (cd_consumed db),
        cd_issued := sql_delete (\<lambda>r. ir_expires_at r < current_time) (cd_issued db)\<rparr>"

text \<open>\<open>json.loads(text) if text is not None else None\<close>\<close>

definition loads_column :: "json_text option \<Rightarrow> confirmation_error + pyval" where
  "loads_column column =
     (case column of
        None \<Rightarrow> Inr PyNone
      | Some (JsonText v) \<Rightarrow> Inr v
      | Some (CorruptText _) \<Rightarrow> Inl ConfirmationStoreUnavailable)"

definition issued_for :: "confirmation_db \<Rightarrow> string \<Rightarrow> issued_row option" where
  "issued_for db nonce_digest = sql_fetchone (\<lambda>r. ir_nonce_digest r = nonce_digest) (cd_issued db)"

definition consumed_for :: "confirmation_db \<Rightarrow> string \<Rightarrow> consumed_row option" where
  "consumed_for db nonce_digest = sql_fetchone (\<lambda>r. cr_nonce_digest r = nonce_digest) (cd_consumed db)"

section \<open>Methods\<close>

definition has_consumed ::
  "(string \<Rightarrow> string) \<Rightarrow> confirmation_db \<Rightarrow> string option \<Rightarrow> bool \<Rightarrow> confirmation_error + bool" where
  "has_consumed digest db nonce disk =
     (case nonce of
        None \<Rightarrow> Inr False
      | Some n \<Rightarrow>
          if n = [] \<or> \<not> cd_exists db then Inr False
          else if \<not> disk then Inl ConfirmationStoreUnavailable
          else Inr (consumed_for db (digest n) \<noteq> None))"

definition operation_row_to_dict :: "operation_row \<Rightarrow> confirmation_error + pydict" where
  "operation_row_to_dict r =
     (case (loads_column (wr_payload_json r), loads_column (wr_receipt_json r)) of
        (Inr plan, Inr receipt) \<Rightarrow>
          Inr [(''plan_hash'', PyStr (wr_plan_hash r)), (''status'', PyStr (wr_status r)),
               (''plan'', plan), (''receipt'', receipt), (''updated_at'', PyInt (wr_updated_at r))]
      | _ \<Rightarrow> Inl ConfirmationStoreUnavailable)"

text \<open>\<open>_operation_row(field, value)\<close> with \<open>field\<close> one of the two selectors below.\<close>

definition find_operation_row ::
  "confirmation_db \<Rightarrow> (operation_row \<Rightarrow> string) \<Rightarrow> string \<Rightarrow> bool
     \<Rightarrow> confirmation_error + pydict option" where
  "find_operation_row db field v disk =
     (if \<not> disk then Inl ConfirmationStoreUnavailable
      else case sql_fetchone (\<lambda>r. field r = v) (cd_operations db) of
        None \<Rightarrow> Inr None
      | Some r \<Rightarrow> (case operation_row_to_dict r of Inl e \<Rightarrow> Inl e | Inr d \<Rightarrow> Inr (Some d)))"

definition operation_for_nonce ::
  "(string \<Rightarrow> string) \<Rightarrow> confirmation_db \<Rightarrow> string option \<Rightarrow> bool
     \<Rightarrow> confirmation_error + pydict option" where
  "operation_for_nonce digest db nonce disk =
     (case nonce of
        None \<Rightarrow> Inr None
      | Some n \<Rightarrow>
          if n = [] \<or> \<not> cd_exists db then Inr None
          else find_operation_row db wr_nonce_digest (digest n) disk)"

definition operation_for_plan ::
  "confirmation_db \<Rightarrow> string option \<Rightarrow> bool \<Rightarrow> confirmation_error + pydict option" where
  "operation_for_plan db plan_hash disk =
     (case plan_hash of
        None \<Rightarrow> Inr None
      | Some h \<Rightarrow>
          if h = [] \<or> \<not> cd_exists db then Inr None
          else find_operation_row db wr_plan_hash h disk)"

definition record_outcome ::
  "confirmation_db \<Rightarrow> string \<Rightarrow> plan_status \<Rightarrow> pyval \<Rightarrow> int \<Rightarrow> bool
     \<Rightarrow> (confirmation_error + unit) \<times> confirmation_db" where
  "record_outcome db plan_hash status receipt now disk =
     (if \<not> disk then (Inl ConfirmationStoreUnavailable, db)
      else
        let db' = prepare_confirmation_storage db;
            here = (\<lambda>r. wr_plan_hash r = plan_hash)
        in if sql_rowcount here (cd_operations db') \<noteq> 1
           then (Inl ConfirmationNotIssued, db')
           else (Inr (), db'\<lparr>cd_operations := sql_update here
                  (\<lambda>r. r\<lparr>wr_status := plan_status_value status,
                         wr_receipt_json := Some (JsonText (canonicalize receipt)),
                         wr_updated_at := now\<rparr>) (cd_operations db')\<rparr>))"

definition issue ::
  "(string \<Rightarrow> string) \<Rightarrow> confirmation_db \<Rightarrow> string \<Rightarrow> string \<Rightarrow> int \<Rightarrow> pyval option \<Rightarrow> int \<Rightarrow> bool
     \<Rightarrow> (confirmation_error + unit) \<times> confirmation_db" where
  "issue digest db nonce plan_hash expires_at plan_payload now disk =
     (let nonce_digest = digest nonce;
          payload_json = map_option (\<lambda>p. JsonText (canonicalize p)) plan_payload
      in if expires_at \<le> now \<or> expires_at > now + DEFAULT_PLAN_TTL_SECONDS
         then (Inl ConfirmationPlanExpired, db)
         else if \<not> disk then (Inl ConfirmationStoreUnavailable, db)
         else
           let db1 = cleanup_expired now (prepare_confirmation_storage db);
               row = \<lparr>ir_nonce_digest = nonce_digest, ir_plan_hash = plan_hash,
                      ir_expires_at = expires_at, ir_issued_at = now,
                      ir_payload_json = payload_json\<rparr>;
               db2 = (case issued_for db1 nonce_digest of
                        None \<Rightarrow> db1\<lparr>cd_issued := cd_issued db1 @ [row]\<rparr>
                      | Some old \<Rightarrow> db1\<lparr>cd_issued := sql_update
                          (\<lambda>r. ir_nonce_digest r = nonce_digest \<and> ir_plan_hash r = plan_hash)
                          (\<lambda>r. row) (cd_issued db1)\<rparr>)
           in case issued_for db2 nonce_digest of
                Some r \<Rightarrow>
                  if ir_plan_hash r = plan_hash \<and> ir_expires_at r = expires_at
                     \<and> ir_payload_json r = payload_json
                  then (Inr (), db2) else (Inl ConfirmationPlanMismatch, db1)
              | None \<Rightarrow> (Inl ConfirmationPlanMismatch, db1))"

definition check_issued :: "issued_row \<Rightarrow> string \<Rightarrow> int \<Rightarrow> int \<Rightarrow> confirmation_error option" where
  "check_issued r plan_hash expires_at current_time =
     (if ir_plan_hash r \<noteq> plan_hash \<or> ir_expires_at r \<noteq> expires_at
      then Some ConfirmationPlanMismatch
      else if current_time > ir_expires_at r
              \<or> ir_expires_at r > ir_issued_at r + DEFAULT_PLAN_TTL_SECONDS
      then Some ConfirmationPlanExpired
      else None)"

definition issued_payload ::
  "(string \<Rightarrow> string) \<Rightarrow> confirmation_db \<Rightarrow> string \<Rightarrow> string \<Rightarrow> int \<Rightarrow> int \<Rightarrow> bool
     \<Rightarrow> confirmation_error + pyval" where
  "issued_payload digest db nonce plan_hash expires_at now disk =
     (if \<not> cd_exists db then Inl ConfirmationNotIssued
      else if \<not> disk then Inl ConfirmationStoreUnavailable
      else case issued_for db (digest nonce) of
        None \<Rightarrow> Inl ConfirmationNotIssued
      | Some r \<Rightarrow>
          (case check_issued r plan_hash expires_at now of
             Some e \<Rightarrow> Inl e
           | None \<Rightarrow> loads_column (ir_payload_json r)))"

text \<open>
  The two INSERT statements of \<open>consume\<close> violate a key of \<open>write_operations\<close> when the plan
  hash or the nonce digest was used before; \<open>sqlite3.IntegrityError\<close> becomes
  \<open>ConfirmationAlreadyUsedError\<close>.
\<close>

definition consume ::
  "(string \<Rightarrow> string) \<Rightarrow> confirmation_db \<Rightarrow> string \<Rightarrow> string \<Rightarrow> int \<Rightarrow> int \<Rightarrow> bool
     \<Rightarrow> (confirmation_error + pyval) \<times> confirmation_db" where
  "consume digest db nonce plan_hash expires_at now disk =
     (let nonce_digest = digest nonce
      in if \<not> disk then (Inl ConfirmationStoreUnavailable, db)
         else
           let db1 = cleanup_expired now (prepare_confirmation_storage db)
           in if consumed_for db1 nonce_digest \<noteq> None then (Inl ConfirmationAlreadyUsed, db1)
              else case issued_for db1 nonce_digest of
                None \<Rightarrow> (Inl ConfirmationNotIssued, db1)
              | Some r \<Rightarrow>
                  (case check_issued r plan_hash expires_at now of
                     Some e \<Rightarrow> (Inl e, db1)
                   | None \<Rightarrow>
                       if sql_rowcount (\<lambda>w. wr_plan_hash w = plan_hash
                                          \<or> wr_nonce_digest w = nonce_digest) (cd_operations db1) \<noteq> 0
                       then (Inl ConfirmationAlreadyUsed, db1)
                       else
                         (loads_column (ir_payload_json r),
                          db1\<lparr>cd_consumed := cd_consumed db1 @
                                [\<lparr>cr_nonce_digest = nonce_digest, cr_plan_hash = plan_hash,
                                  cr_expires_at = expires_at, cr_consumed_at = now\<rparr>],
                              cd_operations := cd_operations db1 @
                                [\<lparr>wr_plan_hash = plan_hash, wr_nonce_digest = nonce_digest,
                                  wr_payload_json = ir_payload_json r,
                                  wr_status = plan_status_value EXECUTING,
                                  wr_receipt_json = None, wr_updated_at = now\<rparr>],
                              cd_issued := sql_delete (\<lambda>i. ir_nonce_digest i = nonce_digest)
                                (cd_issued db1)\<rparr>)))"

section \<open>The ledger as a transition system\<close>

inductive confirmation_step :: "(string \<Rightarrow> string) \<Rightarrow> confirmation_db \<Rightarrow> confirmation_db \<Rightarrow> bool"
  for digest where
  step_issue: "issue digest db nonce h e p now disk = (r, db') \<Longrightarrow> confirmation_step digest db db'"
| step_consume: "consume digest db nonce h e now disk = (r, db') \<Longrightarrow> confirmation_step digest db db'"
| step_outcome: "record_outcome db h st rc now disk = (r, db') \<Longrightarrow> confirmation_step digest db db'"

inductive_cases confirmation_stepE: "confirmation_step digest db db'"

text \<open>
  Which nonce digests ever authorised a write, and for which plan hash: the key columns of
  \<open>write_operations\<close>, from which no method deletes.
\<close>

definition operation_keys :: "confirmation_db \<Rightarrow> (string \<times> string) list" where
  "operation_keys db = map (\<lambda>w. (wr_nonce_digest w, wr_plan_hash w)) (cd_operations db)"

definition authorised :: "confirmation_db \<Rightarrow> string \<Rightarrow> string option" where
  "authorised db nonce_digest = map_of (operation_keys db) nonce_digest"

definition confirmation_inv :: "confirmation_db \<Rightarrow> bool" where
  "confirmation_inv db \<longleftrightarrow>
     distinct (map fst (operation_keys db)) \<and>
     distinct (map snd (operation_keys db)) \<and>
     distinct (map ir_nonce_digest (cd_issued db)) \<and>
     (\<forall>c \<in> set (cd_consumed db). (cr_nonce_digest c, cr_plan_hash c) \<in> set (operation_keys db)) \<and>
     (\<forall>i \<in> set (cd_issued db). ir_expires_at i \<le> ir_issued_at i + DEFAULT_PLAN_TTL_SECONDS)"

lemma operation_keys_simps [simp]:
  "operation_keys (cleanup_expired t db) = operation_keys db"
  "operation_keys (prepare_confirmation_storage db) = operation_keys db"
  "operation_keys (db\<lparr>cd_issued := is\<rparr>) = operation_keys db"
  by (simp_all add: operation_keys_def cleanup_expired_def prepare_confirmation_storage_def)

lemma prepare_storage_simps [simp]:
  "cd_operations (prepare_confirmation_storage db) = cd_operations db"
  "cd_issued (prepare_confirmation_storage db) = cd_issued db"
  "cd_consumed (prepare_confirmation_storage db) = cd_consumed db"
  by (simp_all add: prepare_confirmation_storage_def)

lemma distinct_filter_map: "distinct (map f xs) \<Longrightarrow> distinct (map f (filter P xs))"
  by (induction xs) auto

lemma confirmation_inv_cleanup:
  "confirmation_inv db \<Longrightarrow> confirmation_inv (cleanup_expired t (prepare_confirmation_storage db))"
  unfolding confirmation_inv_def operation_keys_simps
  by (simp add: cleanup_expired_def sql_delete_def distinct_filter_map)

lemma issued_for_None: "issued_for db d = None \<longleftrightarrow> d \<notin> ir_nonce_digest ` set (cd_issued db)"
  by (auto simp: issued_for_def sql_fetchone_None)

text \<open>What a run of \<open>issue\<close> can leave behind.\<close>

lemma issue_cases:
  assumes "issue digest db nonce h e p now disk = (r, db')"
  obtains (same) "db' = db" "r \<noteq> Inr ()"
  | (cleaned) "db' = cleanup_expired now (prepare_confirmation_storage db)"
      "r = Inl ConfirmationPlanMismatch"
  | (issued) db1 row where "db1 = cleanup_expired now (prepare_confirmation_storage db)"
      "ir_nonce_digest row = digest nonce"
      "ir_expires_at row \<le> ir_issued_at row + DEFAULT_PLAN_TTL_SECONDS"
      "db' = db1\<lparr>cd_issued := cd_issued db1 @ [row]\<rparr> \<and> issued_for db1 (digest nonce) = None \<or>
       db' = db1\<lparr>cd_issued := sql_update (\<lambda>r. ir_nonce_digest r = digest nonce \<and> ir_plan_hash r = h)
                 (\<lambda>r. row) (cd_issued db1)\<rparr>"
      "r = Inr ()"
proof (cases "e \<le> now \<or> e > now + DEFAULT_PLAN_TTL_SECONDS \<or> \<not> disk")
  case True
  then show ?thesis using assms same by (auto simp: issue_def Let_def split: if_splits)
next
  case False
  define db1 where "db1 = cleanup_expired now (prepare_confirmation_storage db)"
  define row where "row = \<lparr>ir_nonce_digest = digest nonce, ir_plan_hash = h, ir_expires_at = e,
    ir_issued_at = now, ir_payload_json = map_option (\<lambda>p. JsonText (canonicalize p)) p\<rparr>"
  have row: "ir_nonce_digest row = digest nonce"
    "ir_expires_at row \<le> ir_issued_at row + DEFAULT_PLAN_TTL_SECONDS"
    using False by (simp_all add: row_def)
  have "(r = Inl ConfirmationPlanMismatch \<and> db' = db1) \<or>
    (r = Inr () \<and>
      (db' = db1\<lparr>cd_issued := cd_issued db1 @ [row]\<rparr> \<and> issued_for db1 (digest nonce) = None \<or>
       db' = db1\<lparr>cd_issued := sql_update (\<lambda>r. ir_nonce_digest r = digest nonce \<and> ir_plan_hash r = h)
                 (\<lambda>r. row) (cd_issued db1)\<rparr>))"
    using assms False
    unfolding issue_def Let_def row_def [symmetric] db1_def [symmetric]
    by (cases "issued_for db1 (digest nonce)") (auto split: option.splits if_splits)
  then show ?thesis
    using cleaned issued [OF db1_def row] db1_def by blast
qed

lemma issue_inv:
  assumes "issue digest db nonce h e p now disk = (r, db')" "confirmation_inv db"
  shows "confirmation_inv db'"
  using assms(1)
proof (cases rule: issue_cases)
  case same
  then show ?thesis using assms(2) by simp
next
  case cleaned
  then show ?thesis using confirmation_inv_cleanup [OF assms(2)] by simp
next
  case (issued db1 row)
  have inv1: "confirmation_inv db1"
    using issued(1) confirmation_inv_cleanup [OF assms(2)] by simp
  from issued(4) show ?thesis
  proof
    assume "db' = db1\<lparr>cd_issued := cd_issued db1 @ [row]\<rparr> \<and> issued_for db1 (digest nonce) = None"
    then show ?thesis
      using inv1 issued(2,3) by (auto simp: confirmation_inv_def issued_for_None)
  next
    assume upd: "db' = db1\<lparr>cd_issued := sql_update
      (\<lambda>r. ir_nonce_digest r = digest nonce \<and> ir_plan_hash r = h) (\<lambda>r. row) (cd_issued db1)\<rparr>"
    have "map ir_nonce_digest (cd_issued db') = map ir_nonce_digest (cd_issued db1)"
      using upd issued(2) by (auto simp: sql_update_def)
    moreover have "ir_expires_at i \<le> ir_issued_at i + DEFAULT_PLAN_TTL_SECONDS"
      if "i \<in> set (cd_issued db')" for i
      using that inv1 issued(3) upd
      by (auto simp: confirmation_inv_def in_sql_update)
    ultimately show ?thesis using inv1 upd by (simp add: confirmation_inv_def)
  qed
qed

text \<open>What a run of \<open>consume\<close> can leave behind.\<close>

lemma consume_cases:
  assumes "consume digest db nonce h e now disk = (r, db')"
  obtains (same) "db' = db" "r = Inl ConfirmationStoreUnavailable"
  | (cleaned) x where "db' = cleanup_expired now (prepare_confirmation_storage db)" "r = Inl x"
  | (consumed) db1 i c where "db1 = cleanup_expired now (prepare_confirmation_storage db)"
      "issued_for db1 (digest nonce) = Some i" "check_issued i h e now = None"
      "cr_nonce_digest c = digest nonce" "cr_plan_hash c = h"
      "digest nonce \<notin> fst ` set (operation_keys db)" "h \<notin> snd ` set (operation_keys db)"
      "cd_consumed db' = cd_consumed db1 @ [c]"
      "operation_keys db' = operation_keys db @ [(digest nonce, h)]"
      "cd_issued db' = sql_delete (\<lambda>i. ir_nonce_digest i = digest nonce) (cd_issued db1)"
      "r = loads_column (ir_payload_json i)"
proof (cases disk)
  case False
  then show ?thesis using assms same by (simp add: consume_def)
next
  case True
  define db1 where "db1 = cleanup_expired now (prepare_confirmation_storage db)"
  have ops1: "cd_operations db1 = cd_operations db"
    by (simp add: db1_def cleanup_expired_def)
  show ?thesis
  proof (cases "consumed_for db1 (digest nonce) = None \<and>
      (\<exists>i. issued_for db1 (digest nonce) = Some i \<and> check_issued i h e now = None) \<and>
      sql_rowcount (\<lambda>w. wr_plan_hash w = h \<or> wr_nonce_digest w = digest nonce) (cd_operations db1) = 0")
    case False
    then have "\<exists>x. db' = db1 \<and> r = Inl x"
      using assms True
      by (auto simp: consume_def Let_def db1_def [symmetric] split: if_splits option.splits)
    then show ?thesis using cleaned db1_def by blast
  next
    case hit: True
    then obtain i where i: "issued_for db1 (digest nonce) = Some i" "check_issued i h e now = None"
      by blast
    have fresh: "digest nonce \<notin> fst ` set (operation_keys db)" "h \<notin> snd ` set (operation_keys db)"
      using hit by (auto simp: sql_rowcount_def filter_empty_conv ops1 operation_keys_def)
    define c where "c = \<lparr>cr_nonce_digest = digest nonce, cr_plan_hash = h, cr_expires_at = e,
      cr_consumed_at = now\<rparr>"
    have "r = loads_column (ir_payload_json i) \<and>
      cd_consumed db' = cd_consumed db1 @ [c] \<and>
      operation_keys db' = operation_keys db @ [(digest nonce, h)] \<and>
      cd_issued db' = sql_delete (\<lambda>i. ir_nonce_digest i = digest nonce) (cd_issued db1)"
      using assms True hit i
      by (auto simp: consume_def Let_def db1_def [symmetric] c_def operation_keys_def ops1)
    then show ?thesis
      using consumed [OF db1_def i _ _ fresh, of c] by (simp add: c_def)
  qed
qed

lemma consume_inv:
  assumes "consume digest db nonce h e now disk = (r, db')" "confirmation_inv db"
  shows "confirmation_inv db'"
  using assms(1)
proof (cases rule: consume_cases)
  case same
  then show ?thesis using assms(2) by simp
next
  case cleaned
  then show ?thesis using confirmation_inv_cleanup [OF assms(2)] by simp
next
  case (consumed db1 i c)
  have inv1: "confirmation_inv db1"
    using consumed(1) confirmation_inv_cleanup [OF assms(2)] by simp
  have "operation_keys db1 = operation_keys db" using consumed(1) by simp
  then show ?thesis
    using inv1 consumed(4-10)
    by (auto simp: confirmation_inv_def sql_delete_def distinct_filter_map)
qed

lemma outcome_keys:
  assumes "record_outcome db h st rc now disk = (r, db')"
  shows "operation_keys db' = operation_keys db" "cd_issued db' = cd_issued db"
    "cd_consumed db' = cd_consumed db"
  using assms
  by (auto simp: record_outcome_def Let_def operation_keys_def sql_update_def split: if_splits)

lemma authorised_step:
  assumes "confirmation_step digest db db'" "authorised db d = Some h"
  shows "authorised db' d = Some h"
  using assms(1)
proof (cases rule: confirmation_step.cases)
  case (step_issue nonce h' e p now disk r)
  have "operation_keys db' = operation_keys db"
    using step_issue by (cases rule: issue_cases) auto
  then show ?thesis using assms(2) by (simp add: authorised_def)
next
  case (step_consume nonce h' e now disk r)
  then show ?thesis
    using assms(2) by (cases rule: consume_cases) (auto simp: authorised_def map_add_def)
next
  case (step_outcome h' st rc now disk r)
  then show ?thesis using assms(2) by (simp add: authorised_def outcome_keys)
qed

lemma confirmation_step_inv: "confirmation_step digest s t \<Longrightarrow> confirmation_inv s \<Longrightarrow> confirmation_inv t"
proof (erule confirmation_stepE)
  fix h st rc now disk r
  assume "record_outcome s h st rc now disk = (r, t)" "confirmation_inv s"
  then show "confirmation_inv t" by (simp add: confirmation_inv_def outcome_keys)
qed (auto intro: issue_inv consume_inv)

interpretation confirmations:
  outcome_ledger "\<lambda>db. db = empty_confirmation_db" "confirmation_step digest" confirmation_inv
    authorised "\<lambda>_. True" for digest
proof unfold_locales
  show "confirmation_inv s" if "s = empty_confirmation_db" for s
    using that by (simp add: confirmation_inv_def empty_confirmation_db_def operation_keys_def)
qed (auto intro: confirmation_step_inv authorised_step)

lemma consume_success:
  assumes "consume digest db nonce h e now disk = (Inr payload, db')"
  shows "authorised db (digest nonce) = None" "h \<notin> snd ` set (operation_keys db)"
    "authorised db' (digest nonce) = Some h"
proof -
  from assms have k: "digest nonce \<notin> fst ` set (operation_keys db)"
    "h \<notin> snd ` set (operation_keys db)"
    "operation_keys db' = operation_keys db @ [(digest nonce, h)]"
    by (cases rule: consume_cases; simp)+
  then show "authorised db (digest nonce) = None" "h \<notin> snd ` set (operation_keys db)"
    by (simp_all add: authorised_def map_of_eq_None_iff)
  show "authorised db' (digest nonce) = Some h"
  proof -
    have "map_of (operation_keys db) (digest nonce) = None"
      using k(1) by (simp add: map_of_eq_None_iff)
    then show ?thesis using k(3) by (simp add: authorised_def map_add_def)
  qed
qed

lemma consume_refuses_used:
  assumes "authorised db (digest nonce) \<noteq> None \<or> h \<in> snd ` set (operation_keys db)"
  shows "\<exists>x. fst (consume digest db nonce h e now disk) = Inl x"
proof (cases "fst (consume digest db nonce h e now disk)")
  case (Inr payload)
  then have "consume digest db nonce h e now disk =
      (Inr payload, snd (consume digest db nonce h e now disk))"
    by (metis prod.collapse)
  from consume_success [OF this] assms show ?thesis by simp
qed auto

section \<open>Properties\<close>

text \<open>
  C2: a confirmation is single-use. After one successful \<open>consume\<close> of a nonce for a plan
  hash, whatever the ledger does next (re-issuing the nonce, expiry and cleanup of its rows,
  recording outcomes, failing disks), no later \<open>consume\<close> of that nonce or of that plan hash
  succeeds.
\<close>

theorem confirmation_is_single_use:
  assumes "(confirmation_step digest)\<^sup>*\<^sup>* empty_confirmation_db db"
    and "consume digest db nonce h e now disk = (Inr payload, db1)"
    and "(confirmation_step digest)\<^sup>*\<^sup>* db1 db2"
    and "nonce' = nonce \<or> h' = h"
  shows "\<exists>x. fst (consume digest db2 nonce' h' e' now' disk') = Inl x"
proof (rule consume_refuses_used)
  have inv: "confirmation_inv db1"
    using confirmations.inv_reachable [OF refl assms(1)] assms(2) consume_inv by blast
  have "authorised db1 (digest nonce) = Some h"
    using assms(2) by (rule consume_success)
  then have "authorised db2 (digest nonce) = Some h"
    using confirmations.final_steps [OF assms(3) inv] by simp
  then show "authorised db2 (digest nonce') \<noteq> None \<or> h' \<in> snd ` set (operation_keys db2)"
    using assms(4) by (force simp: authorised_def dest: map_of_SomeD)
qed

theorem confirmation_is_single_use_witness:
  "let db0 = snd (issue (\<lambda>s. s) empty_confirmation_db ''n'' ''h'' 100 (Some (PyInt 7)) 0 True);
       db1 = snd (consume (\<lambda>s. s) db0 ''n'' ''h'' 100 50 True);
       db2 = snd (issue (\<lambda>s. s) db1 ''n'' ''h'' 700 None 200 True)
   in fst (consume (\<lambda>s. s) db0 ''n'' ''h'' 100 50 True) = Inr (PyInt 7) \<and>
      (\<exists>x. fst (consume (\<lambda>s. s) db2 ''n'' ''h'' 700 300 True) = Inl x)"
proof -
  define db0 where "db0 = snd (issue (\<lambda>s. s) empty_confirmation_db ''n'' ''h'' 100 (Some (PyInt 7)) 0 True)"
  define db1 where "db1 = snd (consume (\<lambda>s. s) db0 ''n'' ''h'' 100 50 True)"
  define db2 where "db2 = snd (issue (\<lambda>s. s) db1 ''n'' ''h'' 700 None 200 True)"
  have c: "consume (\<lambda>s. s) db0 ''n'' ''h'' 100 50 True = (Inr (PyInt 7), db1)"
    unfolding db1_def db0_def by code_simp
  have "confirmation_step (\<lambda>s. s) empty_confirmation_db db0"
    unfolding db0_def by (rule step_issue) (rule prod.collapse [symmetric])
  then have r0: "(confirmation_step (\<lambda>s. s))\<^sup>*\<^sup>* empty_confirmation_db db0" by (rule r_into_rtranclp)
  have "(confirmation_step (\<lambda>s. s))\<^sup>*\<^sup>* db1 db2"
    unfolding db2_def
    by (rule r_into_rtranclp, rule step_issue) (rule prod.collapse [symmetric])
  from confirmation_is_single_use [OF r0 c this, of "''n''" "''h''" 700 300 True] c
  show ?thesis
    unfolding Let_def db0_def [symmetric] db1_def [symmetric] db2_def [symmetric] by simp
qed

text \<open>
  A successful \<open>consume\<close> returns exactly the payload the server persisted when it
  issued the plan under this nonce: there was an issued row with the submitted plan hash and
  expiry, it was not expired and within the ten-minute window, its stored payload decodes
  to the returned value, and no issued row for the nonce is left.
\<close>

theorem consume_returns_issued_payload:
  assumes "consume digest db nonce h e now disk = (Inr payload, db')"
  shows "(\<exists>i \<in> set (cd_issued db). ir_nonce_digest i = digest nonce \<and> ir_plan_hash i = h \<and>
           ir_expires_at i = e \<and> now \<le> e \<and> e \<le> ir_issued_at i + DEFAULT_PLAN_TTL_SECONDS \<and>
           loads_column (ir_payload_json i) = Inr payload)
         \<and> issued_for db' (digest nonce) = None"
proof
  from assms obtain i where i: "issued_for (cleanup_expired now (prepare_confirmation_storage db))
      (digest nonce) = Some i" "check_issued i h e now = None"
    "loads_column (ir_payload_json i) = Inr payload"
    by (cases rule: consume_cases) auto
  then have "i \<in> set (cd_issued db)" "ir_nonce_digest i = digest nonce"
    by (auto simp: issued_for_def cleanup_expired_def sql_delete_def dest!: sql_fetchone_Some)
  moreover have "ir_plan_hash i = h" "ir_expires_at i = e" "now \<le> e"
    "e \<le> ir_issued_at i + DEFAULT_PLAN_TTL_SECONDS"
    using i(2) by (auto simp: check_issued_def split: if_splits)
  ultimately show "\<exists>i \<in> set (cd_issued db). ir_nonce_digest i = digest nonce \<and> ir_plan_hash i = h \<and>
      ir_expires_at i = e \<and> now \<le> e \<and> e \<le> ir_issued_at i + DEFAULT_PLAN_TTL_SECONDS \<and>
      loads_column (ir_payload_json i) = Inr payload"
    using i(3) by blast
  show "issued_for db' (digest nonce) = None"
    using assms by (cases rule: consume_cases) (auto simp: issued_for_None sql_delete_def)
qed

theorem consume_returns_issued_payload_witness:
  "let db0 = snd (issue (\<lambda>s. s) empty_confirmation_db ''n'' ''h'' 100 (Some (PyInt 7)) 0 True)
   in issued_for (snd (consume (\<lambda>s. s) db0 ''n'' ''h'' 100 50 True)) ''n'' = None"
proof -
  define db0 where "db0 = snd (issue (\<lambda>s. s) empty_confirmation_db ''n'' ''h'' 100 (Some (PyInt 7)) 0 True)"
  have "fst (consume (\<lambda>s. s) db0 ''n'' ''h'' 100 50 True) = Inr (PyInt 7)"
    unfolding db0_def by code_simp
  then have "consume (\<lambda>s. s) db0 ''n'' ''h'' 100 50 True =
      (Inr (PyInt 7), snd (consume (\<lambda>s. s) db0 ''n'' ''h'' 100 50 True))"
    by (metis prod.collapse)
  from consume_returns_issued_payload [OF this] show ?thesis
    by (simp add: db0_def Let_def)
qed

text \<open>
  The expiry branch of \<open>consume\<close> is dead whenever its cleanup statement runs. The cleanup that runs first has already
  deleted every expired issued row, and \<open>issue\<close> bounds the lifetime of the others, so on a
  ledger built by the store's own methods \<open>consume\<close> never raises
  \<open>ConfirmationPlanExpiredError\<close>: an expired confirmation is reported as one the server never
  issued.
\<close>

theorem consume_never_reports_expiry:
  assumes "(confirmation_step digest)\<^sup>*\<^sup>* empty_confirmation_db db"
  shows "fst (consume digest db nonce h e now disk) \<noteq> Inl ConfirmationPlanExpired"
proof
  assume expired: "fst (consume digest db nonce h e now disk) = Inl ConfirmationPlanExpired"
  let ?db1 = "cleanup_expired now (prepare_confirmation_storage db)"
  have inv: "confirmation_inv db"
    using confirmations.inv_reachable [OF refl assms] .
  from expired obtain i where i: "issued_for ?db1 (digest nonce) = Some i"
    "check_issued i h e now = Some ConfirmationPlanExpired"
    by (auto simp: consume_def Let_def loads_column_def split: if_splits option.splits json_text.splits)
  then have "i \<in> set (cd_issued db)" "\<not> ir_expires_at i < now"
    by (auto simp: issued_for_def cleanup_expired_def sql_delete_def dest!: sql_fetchone_Some)
  then show False
    using i(2) inv by (auto simp: check_issued_def confirmation_inv_def split: if_splits)
qed

theorem consume_never_reports_expiry_witness:
  "let db0 = snd (issue (\<lambda>s. s) empty_confirmation_db ''n'' ''h'' 100 None 0 True)
   in fst (consume (\<lambda>s. s) db0 ''n'' ''h'' 100 101 True) = Inl ConfirmationNotIssued \<and>
      fst (consume (\<lambda>s. s) db0 ''n'' ''h'' 100 101 True) \<noteq> Inl ConfirmationPlanExpired"
proof -
  define db0 where "db0 = snd (issue (\<lambda>s. s) empty_confirmation_db ''n'' ''h'' 100 None 0 True)"
  have "confirmation_step (\<lambda>s. s) empty_confirmation_db db0"
    unfolding db0_def by (rule step_issue) (rule prod.collapse [symmetric])
  then have "(confirmation_step (\<lambda>s. s))\<^sup>*\<^sup>* empty_confirmation_db db0" by (rule r_into_rtranclp)
  note never = consume_never_reports_expiry [OF this, of "''n''" "''h''" 100 101 True]
  have "fst (consume (\<lambda>s. s) db0 ''n'' ''h'' 100 101 True) = Inl ConfirmationNotIssued"
    unfolding db0_def by code_simp
  with never show ?thesis by (simp add: db0_def Let_def)
qed

end
