(* ===== verification/Plan_Store.thy ===== *)
theory Plan_Store
  imports Confirmation_Store
begin

text \<open>
  \<open>hugegraph_mcp/plan_store.py\<close>: \<open>SQLitePlanStore\<close>, the durable store of write plans. The
  state is the content of \<open>write_plans.sqlite3\<close> (schema version and columns, the two
  tables) and of the legacy confirmation database it migrates from. Every method is a
  function from the store, its arguments and the clock reading to the error raised or the
  value returned together with the store left behind: a method runs in one
  \<open>BEGIN IMMEDIATE\<close> transaction, so it is one atomic step. The random tokens of
  \<open>uuid4().hex\<close> are arguments.
\<close>

datatype store_error =
    PlanTransitionError string
  | PlanStoreUnavailableError string
  | StoreValueError string
  | IntegrityError
  | MalformedRow

record plan_row =
  pr_plan_id :: string
  pr_tool_name :: string
  pr_graph_target_json :: pyval
  pr_principal :: string
  pr_payload_json :: pyval
  pr_payload_digest :: string
  pr_schema_fingerprint :: "string option"
  pr_status :: plan_status
  pr_created_at :: int
  pr_expires_at :: int
  pr_confirmed_at :: "int option"
  pr_lease_owner :: "string option"
  pr_lease_expires_at :: "int option"

record op_row =
  or_operation_id :: string
  or_plan_id :: string
  or_ordinal :: nat
  or_kind :: string
  or_payload_json :: pyval
  or_status :: plan_status
  or_attempt :: int
  or_receipt_json :: "pyval option"
  or_updated_at :: int
  or_attempt_token :: "string option"
  or_reconciled :: bool

record schema_state =
  ss_user_version :: int
  ss_plan_columns :: "string list"
  ss_operation_columns :: "string list"

record plan_store =
  ps_schema :: schema_state
  ps_plans :: "plan_row list"
  ps_ops :: "op_row list"
  ps_legacy :: confirmation_db

definition empty_plan_store :: plan_store where
  "empty_plan_store =
     \<lparr>ps_schema = \<lparr>ss_user_version = 0, ss_plan_columns = [], ss_operation_columns = []\<rparr>,
      ps_plans = [], ps_ops = [], ps_legacy = empty_confirmation_db\<rparr>"

definition SCHEMA_VERSION :: int where "SCHEMA_VERSION = 3"

section \<open>Schema migration\<close>

definition v1_plan_columns :: "string list" where
  "v1_plan_columns = [''plan_id'', ''tool_name'', ''graph_target_json'', ''principal'',
     ''payload_json'', ''payload_digest'', ''schema_fingerprint'', ''status'', ''created_at'',
     ''expires_at'', ''confirmed_at'']"

definition v1_operation_columns :: "string list" where
  "v1_operation_columns = [''operation_id'', ''plan_id'', ''ordinal'', ''kind'', ''payload_json'',
     ''status'', ''attempt'', ''receipt_json'', ''updated_at'']"

text \<open>\<open>CREATE TABLE IF NOT EXISTS\<close>: an existing table keeps its columns.\<close>

definition ensure_v1_schema :: "schema_state \<Rightarrow> schema_state" where
  "ensure_v1_schema s =
     s\<lparr>ss_plan_columns := (if ss_plan_columns s = [] then v1_plan_columns else ss_plan_columns s),
       ss_operation_columns :=
         (if ss_operation_columns s = [] then v1_operation_columns else ss_operation_columns s)\<rparr>"

definition add_column :: "string \<Rightarrow> string list \<Rightarrow> string list" where
  "add_column c cols = (if c \<in> set cols then cols else cols @ [c])"

definition migrate_schema :: "schema_state \<Rightarrow> schema_state" where
  "migrate_schema s =
     (let s1 = (if ss_user_version s < 1
                then (ensure_v1_schema s)\<lparr>ss_user_version := 1\<rparr> else s);
          s2 = (if ss_user_version s1 < 2
                then s1\<lparr>ss_plan_columns := add_column ''lease_expires_at''
                          (add_column ''lease_owner'' (ss_plan_columns s1)),
                        ss_operation_columns := add_column ''attempt_token'' (ss_operation_columns s1),
                        ss_user_version := 2\<rparr> else s1)
      in (if ss_user_version s2 < 3
          then s2\<lparr>ss_operation_columns := add_column ''reconciled'' (ss_operation_columns s2),
                  ss_user_version := 3\<rparr> else s2))"

section \<open>Migration of the legacy confirmation ledger\<close>

definition legacy_plan_id :: "string \<Rightarrow> string" where
  "legacy_plan_id plan_hash = ''wp_legacy_'' @ plan_hash"

definition legacy_operation_id :: "string \<Rightarrow> string" where
  "legacy_operation_id plan_hash = ''op_legacy_'' @ plan_hash"

text \<open>\<open>_legacy_rows\<close>: a dictionary by plan hash, in which the last row of a hash wins.\<close>

definition legacy_row :: "('r \<Rightarrow> string) \<Rightarrow> 'r list \<Rightarrow> string \<Rightarrow> 'r option" where
  "legacy_row key rows plan_hash = sql_fetchone (\<lambda>r. key r = plan_hash) (rev rows)"

definition safe_json :: "json_text option \<Rightarrow> pyval \<times> bool" where
  "safe_json t =
     (case t of None \<Rightarrow> (PyNone, True) | Some (JsonText v) \<Rightarrow> (v, True)
      | Some (CorruptText _) \<Rightarrow> (PyNone, False))"

definition plan_status_of_value :: "string \<Rightarrow> plan_status option" where
  "plan_status_of_value text = List.find (\<lambda>s. plan_status_value s = text) Enum.enum"

definition legacy_status ::
  "operation_row option \<Rightarrow> consumed_row option \<Rightarrow> bool \<Rightarrow> bool \<Rightarrow> plan_status" where
  "legacy_status operation consumed payload_valid receipt_valid =
     (if \<not> payload_valid \<or> \<not> receipt_valid then LEGACY_UNKNOWN
      else case operation of
        Some w \<Rightarrow> (case plan_status_of_value (wr_status w) of Some s \<Rightarrow> s | None \<Rightarrow> LEGACY_UNKNOWN)
      | None \<Rightarrow> (if consumed \<noteq> None then LEGACY_UNKNOWN else ISSUED))"

text \<open>\<open>a or b or ... or z\<close> on nullable integers, where 0 counts as missing.\<close>

fun int_or :: "int option list \<Rightarrow> int \<Rightarrow> int" where
  "int_or [] z = z"
| "int_or (None # xs) z = int_or xs z"
| "int_or (Some i # xs) z = (if i \<noteq> 0 then i else int_or xs z)"

definition insert_or_ignore_plan :: "plan_row \<Rightarrow> plan_store \<Rightarrow> plan_store" where
  "insert_or_ignore_plan r s =
     (if pr_plan_id r \<in> pr_plan_id ` set (ps_plans s) then s
      else s\<lparr>ps_plans := ps_plans s @ [r]\<rparr>)"

definition insert_or_ignore_op :: "op_row \<Rightarrow> plan_store \<Rightarrow> plan_store" where
  "insert_or_ignore_op r s =
     (if or_operation_id r \<in> or_operation_id ` set (ps_ops s)
         \<or> (or_plan_id r, or_ordinal r) \<in> (\<lambda>x. (or_plan_id x, or_ordinal x)) ` set (ps_ops s)
      then s else s\<lparr>ps_ops := ps_ops s @ [r]\<rparr>)"

definition migrate_legacy_plan ::
  "string \<Rightarrow> issued_row option \<Rightarrow> consumed_row option \<Rightarrow> operation_row option
     \<Rightarrow> plan_store \<Rightarrow> plan_store" where
  "migrate_legacy_plan plan_hash issued consumed operation s =
     (let payload_text = (case Option.bind operation wr_payload_json of
            None \<Rightarrow> Option.bind issued ir_payload_json | Some t \<Rightarrow> Some t);
          (payload, payload_valid) = safe_json payload_text;
          (receipt0, receipt_valid) = safe_json (Option.bind operation wr_receipt_json);
          status = legacy_status operation consumed payload_valid receipt_valid;
          receipt = (if \<not> payload_valid \<or> \<not> receipt_valid
            then PyDict [(''reason_code'', PyStr ''CORRUPT_LEGACY_STATE'')] else receipt0);
          created_at = int_or [map_option ir_issued_at issued, map_option cr_consumed_at consumed,
                               map_option wr_updated_at operation] 0;
          expires_at = int_or [map_option ir_expires_at issued, map_option cr_expires_at consumed]
                         created_at;
          confirmed_at = map_option cr_consumed_at consumed;
          plan_id = legacy_plan_id plan_hash;
          payload_json = canonicalize payload;
          receipt_json = (if receipt = PyNone then None else Some (canonicalize receipt))
      in insert_or_ignore_op
           \<lparr>or_operation_id = legacy_operation_id plan_hash, or_plan_id = plan_id, or_ordinal = 0,
            or_kind = ''LEGACY_CONFIRMATION'', or_payload_json = payload_json, or_status = status,
            or_attempt = (if consumed \<noteq> None then 1 else 0), or_receipt_json = receipt_json,
            or_updated_at = int_or [map_option wr_updated_at operation] created_at,
            or_attempt_token = None, or_reconciled = False\<rparr>
         (insert_or_ignore_plan
           \<lparr>pr_plan_id = plan_id, pr_tool_name = ''legacy'', pr_graph_target_json = PyDict [],
            pr_principal = ''legacy'', pr_payload_json = payload_json, pr_payload_digest = plan_hash,
            pr_schema_fingerprint = None, pr_status = status, pr_created_at = created_at,
            pr_expires_at = expires_at, pr_confirmed_at = confirmed_at,
            pr_lease_owner = None, pr_lease_expires_at = None\<rparr> s))"

definition legacy_hashes :: "confirmation_db \<Rightarrow> string list" where
  "legacy_hashes db =
     sort (remdups (map ir_plan_hash (cd_issued db) @ map cr_plan_hash (cd_consumed db)
                    @ map wr_plan_hash (cd_operations db)))"

definition migrate_legacy :: "plan_store \<Rightarrow> plan_store" where
  "migrate_legacy s =
     (let db = ps_legacy s
      in if \<not> cd_exists db then s
         else fold (\<lambda>h. migrate_legacy_plan h (legacy_row ir_plan_hash (cd_issued db) h)
                       (legacy_row cr_plan_hash (cd_consumed db) h)
                       (legacy_row wr_plan_hash (cd_operations db) h)) (legacy_hashes db) s)"

definition prepare :: "plan_store \<Rightarrow> store_error + plan_store" where
  "prepare s =
     (if ss_user_version (ps_schema s) > SCHEMA_VERSION
      then Inl (PlanStoreUnavailableError ''write plan database schema is newer than supported'')
      else Inr (migrate_legacy (s\<lparr>ps_schema := migrate_schema (ps_schema s)\<rparr>)))"

text \<open>Every method first calls \<open>self.prepare()\<close>.\<close>

definition with_prepared ::
  "plan_store \<Rightarrow> (plan_store \<Rightarrow> (store_error + 'a) \<times> plan_store) \<Rightarrow> (store_error + 'a) \<times> plan_store" where
  "with_prepared s body = (case prepare s of Inl e \<Rightarrow> (Inl e, s) | Inr s' \<Rightarrow> body s')"

section \<open>Reading\<close>

definition plan_row_for :: "plan_store \<Rightarrow> string \<Rightarrow> plan_row option" where
  "plan_row_for s plan_id = sql_fetchone (\<lambda>r. pr_plan_id r = plan_id) (ps_plans s)"

definition op_row_for :: "plan_store \<Rightarrow> string \<Rightarrow> string \<Rightarrow> op_row option" where
  "op_row_for s plan_id operation_id =
     sql_fetchone (\<lambda>r. or_plan_id r = plan_id \<and> or_operation_id r = operation_id) (ps_ops s)"

text \<open>\<open>SELECT ... FROM write_operations WHERE plan_id = ? ORDER BY ordinal\<close>\<close>

definition operations_of :: "plan_store \<Rightarrow> string \<Rightarrow> op_row list" where
  "operations_of s plan_id = sort_key or_ordinal (filter (\<lambda>r. or_plan_id r = plan_id) (ps_ops s))"

record plan_record =
  rec_plan :: plan_row
  rec_operations :: "op_row list"

definition select_plan_record :: "plan_store \<Rightarrow> string \<Rightarrow> plan_record option" where
  "select_plan_record s plan_id =
     (case plan_row_for s plan_id of
        None \<Rightarrow> None
      | Some p \<Rightarrow> Some \<lparr>rec_plan = p, rec_operations = operations_of s plan_id\<rparr>)"

definition get_plan_record ::
  "plan_store \<Rightarrow> string \<Rightarrow> (store_error + plan_record option) \<times> plan_store" where
  "get_plan_record s plan_id = with_prepared s (\<lambda>s. (Inr (select_plan_record s plan_id), s))"

text \<open>The dictionary \<open>get_plan_record\<close> builds from the rows, key by key.\<close>

definition operation_record_to_dict :: "op_row \<Rightarrow> pydict" where
  "operation_record_to_dict r =
     [(''operation_id'', PyStr (or_operation_id r)), (''ordinal'', PyInt (int (or_ordinal r))),
      (''kind'', PyStr (or_kind r)), (''payload'', or_payload_json r),
      (''status'', PyStr (plan_status_value (or_status r))), (''attempt'', PyInt (or_attempt r)),
      (''attempt_token'', opt_str (or_attempt_token r)), (''reconciled'', PyBool (or_reconciled r)),
      (''receipt'', (case or_receipt_json r of None \<Rightarrow> PyNone | Some v \<Rightarrow> v)),
      (''updated_at'', PyInt (or_updated_at r))]"

definition plan_record_to_dict :: "plan_record \<Rightarrow> pydict" where
  "plan_record_to_dict rec =
     (let p = rec_plan rec
      in [(''plan_id'', PyStr (pr_plan_id p)), (''tool_name'', PyStr (pr_tool_name p)),
          (''graph_target'', pr_graph_target_json p), (''principal'', PyStr (pr_principal p)),
          (''payload'', pr_payload_json p), (''payload_digest'', PyStr (pr_payload_digest p)),
          (''schema_fingerprint'', opt_str (pr_schema_fingerprint p)),
          (''status'', PyStr (plan_status_value (pr_status p))),
          (''created_at'', PyInt (pr_created_at p)), (''expires_at'', PyInt (pr_expires_at p)),
          (''confirmed_at'', opt_int (pr_confirmed_at p)),
          (''lease_owner'', opt_str (pr_lease_owner p)),
          (''lease_expires_at'', opt_int (pr_lease_expires_at p)),
          (''operations'', PyList (map (\<lambda>r. PyDict (operation_record_to_dict r)) (rec_operations rec)))])"

section \<open>Rehydration\<close>

definition py_str_option :: "pyval option \<Rightarrow> string option option" where
  "py_str_option v =
     (case v of None \<Rightarrow> Some None | Some PyNone \<Rightarrow> Some None | Some (PyStr s) \<Rightarrow> Some (Some s)
      | _ \<Rightarrow> None)"

definition py_str_of :: "pyval \<Rightarrow> string option" where
  "py_str_of v = (case v of PyStr s \<Rightarrow> Some s | _ \<Rightarrow> None)"

fun py_str_list :: "pyval list \<Rightarrow> string list option" where
  "py_str_list [] = Some []"
| "py_str_list (v # vs) =
     (case (py_str_of v, py_str_list vs) of (Some s, Some ss) \<Rightarrow> Some (s # ss) | _ \<Rightarrow> None)"

definition graph_target_of_dict :: "pyval \<Rightarrow> graph_target option" where
  "graph_target_of_dict v =
     (case (py_get v ''graph_url'', py_get v ''graph_name'', py_str_option (py_get v ''graphspace'')) of
        (Some (PyStr u), Some (PyStr n), Some sp) \<Rightarrow>
          Some \<lparr>gt_graph_url = u, gt_graph_name = n, gt_graphspace = sp\<rparr>
      | _ \<Rightarrow> None)"

text \<open>\<open>tuple(payload.get("depends_on") or ())\<close>\<close>

definition depends_on_of :: "pyval option \<Rightarrow> string list option" where
  "depends_on_of v =
     (case v of None \<Rightarrow> Some [] | Some PyNone \<Rightarrow> Some [] | Some (PyList vs) \<Rightarrow> py_str_list vs | _ \<Rightarrow> None)"

definition operation_of_dict :: "pyval \<Rightarrow> store_error + operation_plan" where
  "operation_of_dict v =
     (case (py_get v ''operation_id'', py_get v ''kind'', py_get v ''target'',
            py_get v ''expected_state'', py_get v ''desired_state'',
            depends_on_of (py_get v ''depends_on''), py_str_option (py_get v ''idempotency_key'')) of
        (Some (PyStr i), Some (PyStr k), Some (PyDict t), Some (PyDict e), Some (PyDict d),
         Some deps, Some key) \<Rightarrow>
          (case make_operation_plan i k t e d deps key of
             Inl (ValueError m) \<Rightarrow> Inl (StoreValueError m) | Inr o' \<Rightarrow> Inr o')
      | _ \<Rightarrow> Inl MalformedRow)"

fun rehydrate_operations :: "op_row list \<Rightarrow> store_error + operation_plan list" where
  "rehydrate_operations [] = Inr []"
| "rehydrate_operations (r # rs) =
     (case operation_of_dict (or_payload_json r) of
        Inl e \<Rightarrow> Inl e
      | Inr o' \<Rightarrow> (case rehydrate_operations rs of Inl e \<Rightarrow> Inl e | Inr os \<Rightarrow> Inr (o' # os)))"

text \<open>Legacy rows are never rehydrated.\<close>

definition rehydrate_plan :: "plan_record \<Rightarrow> store_error + write_plan option" where
  "rehydrate_plan rec =
     (let p = rec_plan rec
      in if pr_tool_name p = ''legacy'' then Inr None
         else case rehydrate_operations (rec_operations rec) of
           Inl e \<Rightarrow> Inl e
         | Inr operations \<Rightarrow>
             (case graph_target_of_dict (pr_graph_target_json p) of
                None \<Rightarrow> Inl MalformedRow
              | Some target \<Rightarrow>
                  (case make_write_plan
                     \<lparr>wp_plan_id = pr_plan_id p, wp_tool_name = pr_tool_name p,
                      wp_graph_target = target, wp_principal = pr_principal p,
                      wp_operations = operations, wp_payload_digest = pr_payload_digest p,
                      wp_schema_fingerprint = pr_schema_fingerprint p, wp_status = pr_status p,
                      wp_created_at = pr_created_at p, wp_expires_at = pr_expires_at p\<rparr> of
                     Inl (ValueError m) \<Rightarrow> Inl (StoreValueError m)
                   | Inr wp \<Rightarrow> Inr (Some wp))))"

definition get_plan ::
  "plan_store \<Rightarrow> string \<Rightarrow> (store_error + write_plan option) \<times> plan_store" where
  "get_plan s plan_id =
     (case get_plan_record s plan_id of
        (Inl e, s') \<Rightarrow> (Inl e, s')
      | (Inr None, s') \<Rightarrow> (Inr None, s')
      | (Inr (Some rec), s') \<Rightarrow> (rehydrate_plan rec, s'))"

text \<open>\<open>plan = self.get_plan(plan_id); if plan is None: raise PlanTransitionError(message)\<close>\<close>

definition get_plan_or_raise ::
  "plan_store \<Rightarrow> string \<Rightarrow> string \<Rightarrow> (store_error + write_plan) \<times> plan_store" where
  "get_plan_or_raise s plan_id message =
     (case get_plan s plan_id of
        (Inl e, s') \<Rightarrow> (Inl e, s')
      | (Inr None, s') \<Rightarrow> (Inl (PlanTransitionError message), s')
      | (Inr (Some p), s') \<Rightarrow> (Inr p, s'))"

end
