(* ===== verification/Plan_Transitions.thy ===== *)
theory Plan_Transitions
  imports Plan_Store
begin

text \<open>
  The writing methods of \<open>SQLitePlanStore\<close> (\<open>hugegraph_mcp/plan_store.py\<close>): saving a plan,
  compare-and-set transitions, electing an executor, claiming operations, fenced receipts,
  and reconciliation. A \<open>rollback\<close> leaves the prepared store; a method that raises after its
  \<open>commit\<close> (because the plan cannot be rehydrated) leaves the committed store.
\<close>

section \<open>Row updates\<close>

definition update_plan :: "string \<Rightarrow> (plan_row \<Rightarrow> plan_row) \<Rightarrow> plan_store \<Rightarrow> plan_store" where
  "update_plan plan_id f s =
     s\<lparr>ps_plans := sql_update (\<lambda>r. pr_plan_id r = plan_id) f (ps_plans s)\<rparr>"

definition update_op :: "string \<Rightarrow> string \<Rightarrow> (op_row \<Rightarrow> op_row) \<Rightarrow> plan_store \<Rightarrow> plan_store" where
  "update_op plan_id operation_id f s =
     s\<lparr>ps_ops := sql_update (\<lambda>r. or_plan_id r = plan_id \<and> or_operation_id r = operation_id) f (ps_ops s)\<rparr>"

text \<open>\<open>a or b\<close> on nullable strings, where the empty string counts as missing.\<close>

definition str_or :: "string option \<Rightarrow> string option \<Rightarrow> string option" where
  "str_or a b = (case a of None \<Rightarrow> b | Some t \<Rightarrow> if t = [] then b else a)"

definition lease_active :: "int option \<Rightarrow> int \<Rightarrow> bool" where
  "lease_active lease now = (case lease of None \<Rightarrow> False | Some t \<Rightarrow> now < t)"

section \<open>Saving a plan\<close>

definition plan_row_of :: "write_plan \<Rightarrow> plan_row" where
  "plan_row_of p =
     \<lparr>pr_plan_id = wp_plan_id p, pr_tool_name = wp_tool_name p,
      pr_graph_target_json = canonicalize (PyDict (graph_target_to_dict (wp_graph_target p))),
      pr_principal = wp_principal p, pr_payload_json = canonical_plan_json p,
      pr_payload_digest = wp_payload_digest p, pr_schema_fingerprint = wp_schema_fingerprint p,
      pr_status = wp_status p, pr_created_at = wp_created_at p, pr_expires_at = wp_expires_at p,
      pr_confirmed_at = None, pr_lease_owner = None, pr_lease_expires_at = None\<rparr>"

definition op_row_of :: "write_plan \<Rightarrow> nat \<Rightarrow> operation_plan \<Rightarrow> op_row" where
  "op_row_of p ordinal o' =
     \<lparr>or_operation_id = op_operation_id o', or_plan_id = wp_plan_id p, or_ordinal = ordinal,
      or_kind = op_kind o', or_payload_json = canonicalize (PyDict (operation_to_dict o')),
      or_status = ISSUED, or_attempt = 0, or_receipt_json = None,
      or_updated_at = wp_created_at p, or_attempt_token = None, or_reconciled = False\<rparr>"

definition plan_op_rows :: "write_plan \<Rightarrow> op_row list" where
  "plan_op_rows p = map (\<lambda>(i, o'). op_row_of p i o') (enumerate 0 (wp_operations p))"

text \<open>A duplicate primary key raises \<open>sqlite3.IntegrityError\<close> and nothing is inserted.\<close>

definition save_plan :: "plan_store \<Rightarrow> write_plan \<Rightarrow> (store_error + unit) \<times> plan_store" where
  "save_plan s p = with_prepared s (\<lambda>s.
     if wp_plan_id p \<in> pr_plan_id ` set (ps_plans s) then (Inl IntegrityError, s)
     else
       let rows = plan_op_rows p
       in if \<not> distinct (map or_operation_id rows)
             \<or> set (map or_operation_id rows) \<inter> or_operation_id ` set (ps_ops s) \<noteq> {}
             \<or> (\<lambda>r. (or_plan_id r, or_ordinal r)) ` set rows
               \<inter> (\<lambda>r. (or_plan_id r, or_ordinal r)) ` set (ps_ops s) \<noteq> {}
          then (Inl IntegrityError, s)
          else (Inr (), s\<lparr>ps_plans := ps_plans s @ [plan_row_of p], ps_ops := ps_ops s @ rows\<rparr>))"

section \<open>Compare-and-set transitions\<close>

definition move_status :: "plan_status \<Rightarrow> plan_status \<Rightarrow> int \<Rightarrow> plan_row \<Rightarrow> plan_row" where
  "move_status expected target now r =
     (if pr_status r = expected
      then r\<lparr>pr_status := target,
             pr_confirmed_at := (if target = EXECUTING
               then (case pr_confirmed_at r of None \<Rightarrow> Some now | Some t \<Rightarrow> Some t)
               else pr_confirmed_at r)\<rparr>
      else r)"

definition transition_plan ::
  "plan_store \<Rightarrow> string \<Rightarrow> plan_status \<Rightarrow> plan_status \<Rightarrow> int
     \<Rightarrow> (store_error + write_plan) \<times> plan_store" where
  "transition_plan s plan_id expected target now =
     (if \<not> can_transition expected target then (Inl (PlanTransitionError ''illegal transition''), s)
      else with_prepared s (\<lambda>s.
        if sql_rowcount (\<lambda>r. pr_plan_id r = plan_id \<and> pr_status r = expected) (ps_plans s) \<noteq> 1
        then (Inl (PlanTransitionError ''durable plan state did not match the expected state''), s)
        else get_plan_or_raise
          (update_plan plan_id (move_status expected target now) s) plan_id ''plan disappeared after transition''))"

section \<open>Electing one executor\<close>

definition claimable_plan :: "bool \<Rightarrow> plan_status \<Rightarrow> bool" where
  "claimable_plan resume current \<longleftrightarrow>
     current = ISSUED \<or> resume \<and> (current = RETRYABLE_NOT_APPLIED \<or> current = PARTIAL)"

definition grant_lease :: "int \<Rightarrow> string \<Rightarrow> int \<Rightarrow> plan_row \<Rightarrow> plan_row" where
  "grant_lease now owner lease_seconds r =
     r\<lparr>pr_status := (if pr_status r \<noteq> PARTIAL then EXECUTING else pr_status r),
       pr_confirmed_at := (case pr_confirmed_at r of None \<Rightarrow> Some now | Some t \<Rightarrow> Some t),
       pr_lease_owner := Some owner, pr_lease_expires_at := Some (now + lease_seconds)\<rparr>"

definition claim_plan ::
  "plan_store \<Rightarrow> string \<Rightarrow> string \<Rightarrow> int \<Rightarrow> bool \<Rightarrow> int
     \<Rightarrow> (store_error + write_plan \<times> bool) \<times> plan_store" where
  "claim_plan s plan_id owner_token lease_seconds resume now =
     (if lease_seconds \<le> 0 then (Inl (StoreValueError ''lease_seconds must be positive''), s)
      else with_prepared s (\<lambda>s.
        case plan_row_for s plan_id of
          None \<Rightarrow> (Inl (PlanTransitionError ''plan was not found''), s)
        | Some row \<Rightarrow>
            let claimed = claimable_plan resume (pr_status row)
                            \<and> \<not> lease_active (pr_lease_expires_at row) now;
                s' = (if claimed then update_plan plan_id (grant_lease now owner_token lease_seconds) s
                      else s)
            in (case get_plan_or_raise s' plan_id ''plan disappeared after claim'' of
                  (Inl e, s'') \<Rightarrow> (Inl e, s'')
                | (Inr p, s'') \<Rightarrow> (Inr (p, claimed), s''))))"

section \<open>Claiming one operation\<close>

definition claimable_op :: "plan_status \<Rightarrow> bool" where
  "claimable_op st \<longleftrightarrow> st = ISSUED \<or> st = RETRYABLE_NOT_APPLIED"

definition start_attempt :: "string \<Rightarrow> int \<Rightarrow> op_row \<Rightarrow> op_row" where
  "start_attempt attempt_token now r =
     r\<lparr>or_status := EXECUTING, or_attempt := or_attempt r + 1,
       or_attempt_token := Some attempt_token, or_reconciled := False, or_updated_at := now\<rparr>"

text \<open>\<open>str(plan_row[0])\<close> of a NULL owner is the text \<open>None\<close>, which no owner column equals.\<close>

definition claim_operation ::
  "plan_store \<Rightarrow> string \<Rightarrow> string \<Rightarrow> string option \<Rightarrow> string \<Rightarrow> int \<Rightarrow> int
     \<Rightarrow> (store_error + int) \<times> plan_store" where
  "claim_operation s plan_id operation_id owner_token attempt_token lease_seconds now =
     (if lease_seconds \<le> 0 then (Inl (StoreValueError ''lease_seconds must be positive''), s)
      else with_prepared s (\<lambda>s.
        case plan_row_for s plan_id of
          None \<Rightarrow> (Inl (PlanTransitionError ''executor lease is absent or expired''), s)
        | Some p \<Rightarrow>
            if \<not> lease_active (pr_lease_expires_at p) now
            then (Inl (PlanTransitionError ''executor lease is absent or expired''), s)
            else
              let effective_owner = (case str_or owner_token None of
                    Some t \<Rightarrow> t
                  | None \<Rightarrow> (case pr_lease_owner p of Some t \<Rightarrow> t | None \<Rightarrow> ''None''))
              in if pr_lease_owner p \<noteq> Some effective_owner
                 then (Inl (PlanTransitionError ''executor lease owner did not match''), s)
                 else (case op_row_for s plan_id operation_id of
                     None \<Rightarrow> (Inl (PlanTransitionError ''operation is not claimable''), s)
                   | Some r \<Rightarrow>
                       if \<not> claimable_op (or_status r)
                       then (Inl (PlanTransitionError ''operation is not claimable''), s)
                       else (Inr (or_attempt r + 1),
                         update_plan plan_id
                           (\<lambda>q. q\<lparr>pr_lease_expires_at := Some (now + lease_seconds)\<rparr>)
                           (update_op plan_id operation_id (start_attempt attempt_token now) s)))))"

section \<open>Aggregation over persisted statuses\<close>

text \<open>
  Statuses that are no outcome (\<open>ISSUED\<close>, \<open>EXECUTING\<close>, \<open>EXPIRED\<close>) raise \<open>ValueError\<close> in
  \<open>ApplyStatus(status)\<close> and make the plan pending.
\<close>

definition aggregate_persisted_statuses :: "plan_status list \<Rightarrow> plan_status" where
  "aggregate_persisted_statuses statuses =
     (let completed = List.map_filter apply_status_of statuses;
          pending = list_ex (\<lambda>s. apply_status_of s = None) statuses
      in if pending then
           (if list_ex success completed then PARTIAL
            else if apply_status.UNKNOWN \<in> set completed then UNKNOWN
            else if apply_status.CONFLICT \<in> set completed then CONFLICT
            else if apply_status.RETRYABLE_NOT_APPLIED \<in> set completed then RETRYABLE_NOT_APPLIED
            else if completed \<noteq> [] \<and> list_all (\<lambda>s. s = apply_status.REJECTED) completed then REJECTED
            else EXECUTING)
         else aggregate_plan_status completed)"

section \<open>Fenced receipts\<close>

definition finish_attempt :: "apply_receipt \<Rightarrow> op_row \<Rightarrow> op_row" where
  "finish_attempt rc r =
     r\<lparr>or_status := plan_status_of (rc_status rc), or_attempt := rc_attempt rc,
       or_receipt_json := Some (canonicalize (PyDict (receipt_to_dict rc))),
       or_updated_at := int_or [rc_committed_at rc] 0\<rparr>"

definition keeps_lease :: "apply_receipt \<Rightarrow> plan_status \<Rightarrow> bool" where
  "keeps_lease rc aggregate \<longleftrightarrow>
     success (rc_status rc) \<and> (aggregate = EXECUTING \<or> aggregate = PARTIAL)"

definition settle_plan :: "apply_receipt \<Rightarrow> plan_status \<Rightarrow> plan_row \<Rightarrow> plan_row" where
  "settle_plan rc aggregate p =
     p\<lparr>pr_status := aggregate,
       pr_lease_owner := (if keeps_lease rc aggregate then pr_lease_owner p else None),
       pr_lease_expires_at := (if keeps_lease rc aggregate then pr_lease_expires_at p else None)\<rparr>"

definition receipt_is_fenced ::
  "plan_row \<Rightarrow> op_row \<Rightarrow> apply_receipt \<Rightarrow> string option \<Rightarrow> string option \<Rightarrow> int \<Rightarrow> bool" where
  "receipt_is_fenced p r rc effective_owner effective_attempt_token now \<longleftrightarrow>
     or_status r = EXECUTING \<and> or_attempt r = rc_attempt rc \<and>
     str_or effective_attempt_token None \<noteq> None \<and> or_attempt_token r = effective_attempt_token \<and>
     pr_lease_owner p = effective_owner \<and> lease_active (pr_lease_expires_at p) now"

definition record_receipt ::
  "plan_store \<Rightarrow> apply_receipt \<Rightarrow> string option \<Rightarrow> string option \<Rightarrow> int
     \<Rightarrow> (store_error + unit) \<times> plan_store" where
  "record_receipt s rc owner_token attempt_token now =
     (case (str_or (rc_plan_id rc) None, str_or (rc_operation_id rc) None) of
        (Some plan_id, Some operation_id) \<Rightarrow> with_prepared s (\<lambda>s.
          case (op_row_for s plan_id operation_id, plan_row_for s plan_id) of
            (Some r, Some p) \<Rightarrow>
              let effective_owner = str_or owner_token (pr_lease_owner p);
                  effective_attempt_token =
                    str_or attempt_token (str_or (rc_attempt_token rc) (or_attempt_token r))
              in if \<not> receipt_is_fenced p r rc effective_owner effective_attempt_token now
                 then (Inl (PlanTransitionError ''stale or unfenced operation receipt''), s)
                 else
                   let s1 = update_op plan_id operation_id (finish_attempt rc) s;
                       aggregate = aggregate_persisted_statuses (map or_status (operations_of s1 plan_id))
                   in if pr_status p \<noteq> aggregate \<and> \<not> can_transition (pr_status p) aggregate
                      then (Inl (PlanTransitionError ''illegal receipt transition''), s)
                      else (Inr (), update_plan plan_id (settle_plan rc aggregate) s1)
          | _ \<Rightarrow> (Inl (PlanTransitionError ''operation receipt target was not found''), s))
      | _ \<Rightarrow> (Inl (StoreValueError ''canonical receipt requires plan_id and operation_id''), s))"

section \<open>Reconciliation\<close>

definition release_lease :: "plan_row \<Rightarrow> plan_row" where
  "release_lease p = p\<lparr>pr_lease_owner := None, pr_lease_expires_at := None\<rparr>"

definition begin_reconcile ::
  "plan_store \<Rightarrow> string \<Rightarrow> int \<Rightarrow> (store_error + write_plan) \<times> plan_store" where
  "begin_reconcile s plan_id now = with_prepared s (\<lambda>s.
     case plan_row_for s plan_id of
       None \<Rightarrow> (Inl (PlanTransitionError ''plan was not found''), s)
     | Some p \<Rightarrow>
         if lease_active (pr_lease_expires_at p) now
         then (Inl (PlanTransitionError ''execution lease is still active''), s)
         else
           let s' = (if pr_status p = EXECUTING
                     then update_plan plan_id (\<lambda>q. release_lease (q\<lparr>pr_status := UNKNOWN\<rparr>)) s
                     else if pr_status p \<in> {UNKNOWN, LEGACY_UNKNOWN, PARTIAL}
                     then update_plan plan_id release_lease s
                     else s)
           in get_plan_or_raise s' plan_id ''plan is not canonically rehydratable'')"

definition reconcilable_op :: "plan_status \<Rightarrow> bool" where
  "reconcilable_op st \<longleftrightarrow> st \<in> {ISSUED, EXECUTING, UNKNOWN, LEGACY_UNKNOWN}"

definition reconcile_op_row :: "apply_receipt \<Rightarrow> int \<Rightarrow> op_row \<Rightarrow> op_row" where
  "reconcile_op_row rc now r =
     r\<lparr>or_status := plan_status_of (rc_status rc),
       or_receipt_json := Some (canonicalize (PyDict (receipt_to_dict rc))),
       or_updated_at := int_or [rc_committed_at rc] now, or_reconciled := True\<rparr>"

definition record_reconciliation_receipt ::
  "plan_store \<Rightarrow> apply_receipt \<Rightarrow> int \<Rightarrow> (store_error + unit) \<times> plan_store" where
  "record_reconciliation_receipt s rc now =
     (case (str_or (rc_plan_id rc) None, str_or (rc_operation_id rc) None) of
        (Some plan_id, Some operation_id) \<Rightarrow> with_prepared s (\<lambda>s.
          case plan_row_for s plan_id of
            None \<Rightarrow> (Inl (PlanTransitionError ''reconciliation requires a fenced executor''), s)
          | Some p \<Rightarrow>
              if pr_lease_owner p \<noteq> None
              then (Inl (PlanTransitionError ''reconciliation requires a fenced executor''), s)
              else (case op_row_for s plan_id operation_id of
                  None \<Rightarrow> (Inl (PlanTransitionError ''operation is not reconcilable''), s)
                | Some r \<Rightarrow>
                    if \<not> reconcilable_op (or_status r)
                    then (Inl (PlanTransitionError ''operation is not reconcilable''), s)
                    else
                      let s1 = update_op plan_id operation_id (reconcile_op_row rc now) s;
                          aggregate = aggregate_persisted_statuses (map or_status (operations_of s1 plan_id))
                      in (Inr (), update_plan plan_id (\<lambda>q. q\<lparr>pr_status := aggregate\<rparr>) s1)))
      | _ \<Rightarrow> (Inl (StoreValueError ''canonical receipt requires plan_id and operation_id''), s))"

text \<open>
  What every method of the plan store keeps: preparation is idempotent and only appends
  legacy rows, keys stay unique, and the methods, taken as the atomic steps of any number
  of executors and reconcilers in any order, form a ledger of operation outcomes.
\<close>

named_theorems store_simps \<open>rewrite rules of the store's row updates\<close>

section \<open>Keys\<close>

definition plan_ids :: "plan_store \<Rightarrow> string list" where
  "plan_ids s = map pr_plan_id (ps_plans s)"

definition op_ids :: "plan_store \<Rightarrow> string list" where
  "op_ids s = map or_operation_id (ps_ops s)"

definition op_slots :: "plan_store \<Rightarrow> (string \<times> nat) list" where
  "op_slots s = map (\<lambda>r. (or_plan_id r, or_ordinal r)) (ps_ops s)"

lemma update_plan_frame [store_simps]:
  "ps_schema (update_plan p f s) = ps_schema s" "ps_ops (update_plan p f s) = ps_ops s"
  "ps_legacy (update_plan p f s) = ps_legacy s"
  "op_ids (update_plan p f s) = op_ids s" "op_slots (update_plan p f s) = op_slots s"
  by (simp_all add: update_plan_def op_ids_def op_slots_def)

lemma update_op_frame [store_simps]:
  "ps_schema (update_op p i f s) = ps_schema s" "ps_plans (update_op p i f s) = ps_plans s"
  "ps_legacy (update_op p i f s) = ps_legacy s" "plan_ids (update_op p i f s) = plan_ids s"
  "plan_row_for (update_op p i f s) q = plan_row_for s q"
  by (simp_all add: update_op_def plan_ids_def plan_row_for_def)

lemma plan_ids_update [store_simps]:
  "(\<And>r. pr_plan_id (f r) = pr_plan_id r) \<Longrightarrow> plan_ids (update_plan p f s) = plan_ids s"
  by (simp add: plan_ids_def update_plan_def)

text \<open>An operation update that leaves the keys alone.\<close>

definition keeps_op_keys :: "(op_row \<Rightarrow> op_row) \<Rightarrow> bool" where
  "keeps_op_keys f \<longleftrightarrow> (\<forall>r. or_operation_id (f r) = or_operation_id r \<and> or_plan_id (f r) = or_plan_id r
     \<and> or_ordinal (f r) = or_ordinal r)"

lemma keeps_op_keys_rows [simp]:
  "keeps_op_keys (start_attempt t n)" "keeps_op_keys (finish_attempt rc)"
  "keeps_op_keys (reconcile_op_row rc n)"
  by (simp_all add: keeps_op_keys_def start_attempt_def finish_attempt_def reconcile_op_row_def)

lemma plan_id_rows [simp]:
  "pr_plan_id (grant_lease n t l r) = pr_plan_id r" "pr_plan_id (release_lease r) = pr_plan_id r"
  "pr_plan_id (settle_plan rc a r) = pr_plan_id r"
  by (simp_all add: grant_lease_def release_lease_def settle_plan_def)

lemma op_keys_update [store_simps]:
  "keeps_op_keys f \<Longrightarrow> op_ids (update_op p i f s) = op_ids s"
  "keeps_op_keys f \<Longrightarrow> op_slots (update_op p i f s) = op_slots s"
  by (simp_all add: op_ids_def op_slots_def update_op_def keeps_op_keys_def)

section \<open>Preparation\<close>

definition legacy_present :: "string \<Rightarrow> plan_store \<Rightarrow> bool" where
  "legacy_present h s \<longleftrightarrow> legacy_plan_id h \<in> set (plan_ids s) \<and>
     (legacy_operation_id h \<in> set (op_ids s) \<or> (legacy_plan_id h, 0) \<in> set (op_slots s))"

lemma insert_or_ignore_plan_keys [simp]:
  "set (plan_ids (insert_or_ignore_plan r s)) = insert (pr_plan_id r) (set (plan_ids s))"
  "ps_ops (insert_or_ignore_plan r s) = ps_ops s"
  "op_ids (insert_or_ignore_plan r s) = op_ids s" "op_slots (insert_or_ignore_plan r s) = op_slots s"
  "ps_schema (insert_or_ignore_plan r s) = ps_schema s"
  "ps_legacy (insert_or_ignore_plan r s) = ps_legacy s"
  by (auto simp: insert_or_ignore_plan_def plan_ids_def op_ids_def op_slots_def)

lemma insert_or_ignore_op_keys [simp]:
  "plan_ids (insert_or_ignore_op r s) = plan_ids s"
  "ps_plans (insert_or_ignore_op r s) = ps_plans s"
  "ps_schema (insert_or_ignore_op r s) = ps_schema s"
  "ps_legacy (insert_or_ignore_op r s) = ps_legacy s"
  by (auto simp: insert_or_ignore_op_def plan_ids_def)

lemma insert_or_ignore_op_ids:
  "set (op_ids s) \<subseteq> set (op_ids (insert_or_ignore_op r s))"
  "set (op_slots s) \<subseteq> set (op_slots (insert_or_ignore_op r s))"
  "or_operation_id r \<in> set (op_ids (insert_or_ignore_op r s)) \<or>
   (or_plan_id r, or_ordinal r) \<in> set (op_slots (insert_or_ignore_op r s))"
  by (auto simp: insert_or_ignore_op_def op_ids_def op_slots_def)

text \<open>The rows a legacy migration may add.\<close>

definition legacy_id :: "string \<Rightarrow> bool" where
  "legacy_id i \<longleftrightarrow> prefix ''wp_legacy_'' i"

lemma legacy_id_legacy_plan_id [simp]: "legacy_id (legacy_plan_id h)"
  by (simp add: legacy_id_def legacy_plan_id_def)

definition legacy_extension :: "plan_store \<Rightarrow> plan_store \<Rightarrow> bool" where
  "legacy_extension s t \<longleftrightarrow>
     (\<exists>ps os. ps_plans t = ps_plans s @ ps \<and> ps_ops t = ps_ops s @ os \<and>
        (\<forall>p \<in> set ps. pr_tool_name p = ''legacy'' \<and> legacy_id (pr_plan_id p)) \<and>
        (\<forall>r \<in> set os. legacy_id (or_plan_id r) \<and> or_plan_id r \<in> set (plan_ids t)) \<and>
        (distinct (plan_ids s) \<longrightarrow> distinct (plan_ids t)) \<and>
        (distinct (op_ids s) \<longrightarrow> distinct (op_ids t)) \<and>
        (distinct (op_slots s) \<longrightarrow> distinct (op_slots t))) \<and>
     ps_legacy t = ps_legacy s"

lemma legacy_extension_refl [simp]: "legacy_extension s s"
  by (simp add: legacy_extension_def)

lemma legacy_extension_trans:
  assumes "legacy_extension s t" "legacy_extension t u"
  shows "legacy_extension s u"
proof -
  obtain ps os ps' os' where
    "ps_plans t = ps_plans s @ ps" "ps_ops t = ps_ops s @ os"
    "ps_plans u = ps_plans t @ ps'" "ps_ops u = ps_ops t @ os'"
    "\<forall>p \<in> set ps \<union> set ps'. pr_tool_name p = ''legacy'' \<and> legacy_id (pr_plan_id p)"
    "\<forall>r \<in> set os. legacy_id (or_plan_id r) \<and> or_plan_id r \<in> set (plan_ids t)"
    "\<forall>r \<in> set os'. legacy_id (or_plan_id r) \<and> or_plan_id r \<in> set (plan_ids u)"
    using assms unfolding legacy_extension_def by blast
  then show ?thesis
    using assms unfolding legacy_extension_def
    by (intro conjI exI [of _ "ps @ ps'"] exI [of _ "os @ os'"]) (auto simp: plan_ids_def)
qed

lemma migrate_legacy_plan_shape:
  "\<exists>r p. migrate_legacy_plan h i c w s = insert_or_ignore_op r (insert_or_ignore_plan p s) \<and>
     pr_plan_id p = legacy_plan_id h \<and> pr_tool_name p = ''legacy'' \<and>
     or_plan_id r = legacy_plan_id h \<and> or_operation_id r = legacy_operation_id h \<and> or_ordinal r = 0"
  unfolding migrate_legacy_plan_def Let_def split_beta
  by (rule exI, rule exI, rule conjI, rule refl) simp

lemma legacy_present_after: "legacy_present h (migrate_legacy_plan h i c w s)"
proof -
  obtain r p where "migrate_legacy_plan h i c w s = insert_or_ignore_op r (insert_or_ignore_plan p s)"
    "pr_plan_id p = legacy_plan_id h" "or_plan_id r = legacy_plan_id h"
    "or_operation_id r = legacy_operation_id h" "or_ordinal r = 0"
    using migrate_legacy_plan_shape by metis
  then show ?thesis
    using insert_or_ignore_op_ids(3) [of r "insert_or_ignore_plan p s"]
    by (simp add: legacy_present_def)
qed

lemma legacy_present_id: "legacy_present h s \<Longrightarrow> migrate_legacy_plan h i c w s = s"
proof -
  assume pres: "legacy_present h s"
  obtain r p where m: "migrate_legacy_plan h i c w s = insert_or_ignore_op r (insert_or_ignore_plan p s)"
    "pr_plan_id p = legacy_plan_id h" "or_plan_id r = legacy_plan_id h"
    "or_operation_id r = legacy_operation_id h" "or_ordinal r = 0"
    using migrate_legacy_plan_shape by metis
  have "insert_or_ignore_plan p s = s"
    using pres m(2) by (auto simp: insert_or_ignore_plan_def legacy_present_def plan_ids_def)
  moreover have "insert_or_ignore_op r s = s"
    using pres m(3-5) by (auto simp: insert_or_ignore_op_def legacy_present_def op_ids_def op_slots_def)
  ultimately show ?thesis using m(1) by simp
qed

lemma legacy_present_mono: "legacy_present h s \<Longrightarrow> legacy_present h (migrate_legacy_plan h' i c w s)"
proof -
  assume "legacy_present h s"
  moreover obtain r p where "migrate_legacy_plan h' i c w s =
      insert_or_ignore_op r (insert_or_ignore_plan p s)"
    using migrate_legacy_plan_shape by metis
  ultimately show ?thesis
    using insert_or_ignore_op_ids(1,2) [of "insert_or_ignore_plan p s" r]
    by (auto simp: legacy_present_def)
qed

lemma legacy_extension_step: "legacy_extension s (migrate_legacy_plan h i c w s)"
proof -
  obtain r p where m: "migrate_legacy_plan h i c w s = insert_or_ignore_op r (insert_or_ignore_plan p s)"
    "pr_plan_id p = legacy_plan_id h" "pr_tool_name p = ''legacy''" "or_plan_id r = legacy_plan_id h"
    using migrate_legacy_plan_shape by metis
  have "legacy_extension s (insert_or_ignore_plan p s)"
    using m(2,3) by (auto simp: legacy_extension_def insert_or_ignore_plan_def plan_ids_def op_ids_def
        op_slots_def)
  moreover have "legacy_extension (insert_or_ignore_plan p s)
      (insert_or_ignore_op r (insert_or_ignore_plan p s))"
    using m(2,4) insert_or_ignore_plan_keys(1) [of p s]
    by (auto simp: legacy_extension_def insert_or_ignore_op_def plan_ids_def op_ids_def op_slots_def)
  ultimately show ?thesis using m(1) legacy_extension_trans by metis
qed

lemma migrate_legacy_plan_schema [simp]: "ps_schema (migrate_legacy_plan h i c w s) = ps_schema s"
  using migrate_legacy_plan_shape [of h i c w s] by auto

definition migrate_hashes ::
  "(string \<Rightarrow> issued_row option) \<Rightarrow> (string \<Rightarrow> consumed_row option) \<Rightarrow> (string \<Rightarrow> operation_row option)
     \<Rightarrow> string list \<Rightarrow> plan_store \<Rightarrow> plan_store" where
  "migrate_hashes i c w hs s = fold (\<lambda>h. migrate_legacy_plan h (i h) (c h) (w h)) hs s"

lemma migrate_hashes_simps [simp]:
  "migrate_hashes i c w [] s = s"
  "migrate_hashes i c w (h # hs) s = migrate_hashes i c w hs (migrate_legacy_plan h (i h) (c h) (w h) s)"
  by (simp_all add: migrate_hashes_def)

lemma migrate_hashes_mono: "legacy_present h s \<Longrightarrow> legacy_present h (migrate_hashes i c w hs s)"
  by (induction hs arbitrary: s) (simp_all add: legacy_present_mono)

lemma migrate_hashes_present: "h \<in> set hs \<Longrightarrow> legacy_present h (migrate_hashes i c w hs s)"
  by (induction hs arbitrary: s) (auto intro: migrate_hashes_mono legacy_present_after)

lemma migrate_hashes_id: "(\<And>h. h \<in> set hs \<Longrightarrow> legacy_present h s) \<Longrightarrow> migrate_hashes i c w hs s = s"
  by (induction hs) (simp_all add: legacy_present_id)

lemma migrate_hashes_extension: "legacy_extension s (migrate_hashes i c w hs s)"
proof (induction hs arbitrary: s)
  case (Cons h hs)
  show ?case
    using legacy_extension_trans [OF legacy_extension_step Cons.IH] by simp
qed simp

lemma migrate_hashes_schema [simp]: "ps_schema (migrate_hashes i c w hs s) = ps_schema s"
  by (induction hs arbitrary: s) simp_all

definition legacy_done :: "plan_store \<Rightarrow> bool" where
  "legacy_done s \<longleftrightarrow> cd_exists (ps_legacy s) \<longrightarrow>
     (\<forall>h \<in> set (legacy_hashes (ps_legacy s)). legacy_present h s)"

lemma migrate_legacy_hashes:
  "migrate_legacy s =
     (if cd_exists (ps_legacy s)
      then migrate_hashes (legacy_row ir_plan_hash (cd_issued (ps_legacy s)))
             (legacy_row cr_plan_hash (cd_consumed (ps_legacy s)))
             (legacy_row wr_plan_hash (cd_operations (ps_legacy s))) (legacy_hashes (ps_legacy s)) s
      else s)"
  by (simp add: migrate_legacy_def migrate_hashes_def Let_def)

lemma migrate_legacy_extension: "legacy_extension s (migrate_legacy s)"
  by (simp add: migrate_legacy_hashes migrate_hashes_extension)

lemma migrate_legacy_frame [simp]:
  "ps_schema (migrate_legacy s) = ps_schema s" "ps_legacy (migrate_legacy s) = ps_legacy s"
  using migrate_legacy_extension [of s]
  by (simp_all add: migrate_legacy_hashes legacy_extension_def)

lemma migrate_legacy_done: "legacy_done (migrate_legacy s)"
  by (auto simp: legacy_done_def) (simp add: migrate_legacy_hashes migrate_hashes_present)

lemma legacy_done_id: "legacy_done s \<Longrightarrow> migrate_legacy s = s"
  by (auto simp: migrate_legacy_hashes legacy_done_def intro: migrate_hashes_id)

lemma migrate_schema_version:
  "ss_user_version (migrate_schema s) = max SCHEMA_VERSION (ss_user_version s)"
  by (auto simp: migrate_schema_def Let_def SCHEMA_VERSION_def)

lemma migrate_schema_id: "SCHEMA_VERSION \<le> ss_user_version s \<Longrightarrow> migrate_schema s = s"
  by (simp add: migrate_schema_def SCHEMA_VERSION_def)

definition prepared :: "plan_store \<Rightarrow> bool" where
  "prepared s \<longleftrightarrow> ss_user_version (ps_schema s) = SCHEMA_VERSION \<and> legacy_done s"

lemma prepare_prepared: "prepare s = Inr t \<Longrightarrow> prepared t"
  by (auto simp: prepare_def prepared_def migrate_legacy_done migrate_schema_version split: if_splits)

lemma prepared_prepare: "prepared s \<Longrightarrow> prepare s = Inr s"
  by (simp add: prepare_def prepared_def legacy_done_id migrate_schema_id)

lemma legacy_extension_schema:
  "legacy_extension (s\<lparr>ps_schema := v\<rparr>) t \<Longrightarrow> legacy_extension s t"
  by (simp add: legacy_extension_def plan_ids_def op_ids_def op_slots_def)

lemma prepare_extension: "prepare s = Inr t \<Longrightarrow> legacy_extension s t"
  using migrate_legacy_extension legacy_extension_schema
  by (auto simp: prepare_def split: if_splits)

lemma with_prepared_id [simp]: "prepared s \<Longrightarrow> with_prepared s body = body s"
  by (simp add: with_prepared_def prepared_prepare)

lemma with_prepared_cases:
  assumes "with_prepared s body = (r, t)"
  obtains (failed) e where "prepare s = Inl e" "r = Inl e" "t = s"
  | (run) u where "prepare s = Inr u" "prepared u" "legacy_extension s u" "body u = (r, t)"
  using assms
  by (cases "prepare s") (auto simp: with_prepared_def prepare_prepared prepare_extension)

lemma prepared_update_plan [store_simps]:
  "(\<And>r. pr_plan_id (f r) = pr_plan_id r) \<Longrightarrow> prepared (update_plan p f s) \<longleftrightarrow> prepared s"
  by (simp add: prepared_def legacy_done_def legacy_present_def store_simps)

lemma prepared_update_op [store_simps]:
  "keeps_op_keys f \<Longrightarrow> prepared (update_op p i f s) \<longleftrightarrow> prepared s"
  by (simp add: prepared_def legacy_done_def legacy_present_def store_simps)

text \<open>On a prepared store the readers leave the state alone.\<close>

lemma get_plan_record_prepared [simp]:
  "prepared s \<Longrightarrow> get_plan_record s p = (Inr (select_plan_record s p), s)"
  by (simp add: get_plan_record_def)

lemma get_plan_prepared:
  "prepared s \<Longrightarrow> get_plan s p =
     ((case select_plan_record s p of None \<Rightarrow> Inr None | Some rec \<Rightarrow> rehydrate_plan rec), s)"
  by (simp add: get_plan_def split: option.splits)

lemma get_plan_or_raise_prepared:
  "prepared s \<Longrightarrow> snd (get_plan_or_raise s p m) = s"
  by (auto simp: get_plan_or_raise_def get_plan_prepared split: option.splits sum.splits)

end
