(* ===== verification/Plan_Ledger.thy ===== *)
theory Plan_Ledger
  imports Plan_Transitions
begin

text \<open>
  The plan store as a transition system. \<open>store_step\<close> runs one method of
  \<open>SQLitePlanStore\<close> (one committed or rolled back transaction) with arbitrary arguments and
  an arbitrary clock reading, so a run of \<open>store_step\<close> is any interleaving of any number of
  executors and reconcilers. \<open>store_effect\<close> is the abstract machine the methods refine:
  plan rows never go back to \<open>ISSUED\<close>, operation rows move along \<open>op_move\<close>.
\<close>

section \<open>The abstract machine\<close>

text \<open>How one operation row may change: a claim, the receipt of its attempt, a reconciliation.\<close>

definition op_move :: "op_row \<Rightarrow> op_row \<Rightarrow> bool" where
  "op_move r r' \<longleftrightarrow>
     claimable_op (or_status r) \<and> or_status r' = EXECUTING \<and> or_attempt r' = or_attempt r + 1 \<or>
     or_status r = EXECUTING \<and> apply_status_of (or_status r') \<noteq> None
       \<and> or_status r' \<noteq> RETRYABLE_NOT_APPLIED \<and> or_attempt r' = or_attempt r \<or>
     reconcilable_op (or_status r) \<and> apply_status_of (or_status r') \<noteq> None
       \<and> or_attempt r' = or_attempt r
       \<and> (or_status r' = RETRYABLE_NOT_APPLIED \<longrightarrow> legacy_id (or_plan_id r) \<or> or_attempt r = 0)"

definition plan_move :: "plan_row \<Rightarrow> plan_row \<Rightarrow> bool" where
  "plan_move r r' \<longleftrightarrow> pr_plan_id r' = pr_plan_id r \<and> pr_tool_name r' = pr_tool_name r \<and>
     pr_payload_json r' = pr_payload_json r \<and> pr_payload_digest r' = pr_payload_digest r \<and>
     pr_expires_at r' = pr_expires_at r \<and> (pr_status r' = ISSUED \<longrightarrow> pr_status r = ISSUED)"

definition insert_plan :: "write_plan \<Rightarrow> plan_store \<Rightarrow> plan_store" where
  "insert_plan p s = s\<lparr>ps_plans := ps_plans s @ [plan_row_of p], ps_ops := ps_ops s @ plan_op_rows p\<rparr>"

definition insertable :: "write_plan \<Rightarrow> plan_store \<Rightarrow> bool" where
  "insertable p s \<longleftrightarrow> \<not> legacy_id (wp_plan_id p) \<and> wp_plan_id p \<notin> set (plan_ids s) \<and>
     distinct (map or_operation_id (plan_op_rows p)) \<and>
     set (map or_operation_id (plan_op_rows p)) \<inter> set (op_ids s) = {} \<and>
     (\<lambda>r. (or_plan_id r, or_ordinal r)) ` set (plan_op_rows p) \<inter> set (op_slots s) = {}"

inductive store_effect :: "plan_store \<Rightarrow> plan_store \<Rightarrow> bool" where
  effect_insert: "insertable p s \<Longrightarrow> store_effect s (insert_plan p s)"
| effect_plan: "(\<And>r. plan_move r (f r)) \<Longrightarrow> store_effect s (update_plan i f s)"
| effect_op: "op_row_for s p i = Some r \<Longrightarrow> keeps_op_keys f \<Longrightarrow> op_move r (f r)
    \<Longrightarrow> store_effect s (update_op p i f s)"

inductive_cases store_effectE: "store_effect s t"

section \<open>The methods as steps\<close>

text \<open>
  What the callers promise: a receipt is not \<open>RETRYABLE_NOT_APPLIED\<close>, and a reconciler
  reports that status only for an operation that was never claimed.
\<close>

definition retry_only_unclaimed :: "plan_store \<Rightarrow> apply_receipt \<Rightarrow> bool" where
  "retry_only_unclaimed s rc \<longleftrightarrow> rc_status rc = apply_status.RETRYABLE_NOT_APPLIED \<longrightarrow>
     (\<forall>r \<in> set (ps_ops s). rc_plan_id rc = Some (or_plan_id r)
        \<and> rc_operation_id rc = Some (or_operation_id r) \<longrightarrow> or_attempt r = 0)"

inductive store_step :: "plan_store \<Rightarrow> plan_store \<Rightarrow> bool" where
  step_prepare: "prepare s = Inr t \<Longrightarrow> store_step s t"
| step_save: "save_plan s p = (r0, t) \<Longrightarrow> \<not> legacy_id (wp_plan_id p) \<Longrightarrow> store_step s t"
| step_transition: "transition_plan s i e tg now = (r1, t) \<Longrightarrow> store_step s t"
| step_claim_plan: "claim_plan s i ow ls rs now = (r2, t) \<Longrightarrow> store_step s t"
| step_claim_operation: "claim_operation s i j ow' tk ls now = (r3, t) \<Longrightarrow> store_step s t"
| step_receipt: "record_receipt s rc ow' tk' now = (r0, t)
    \<Longrightarrow> rc_status rc \<noteq> apply_status.RETRYABLE_NOT_APPLIED \<Longrightarrow> store_step s t"
| step_begin_reconcile: "begin_reconcile s i now = (r1, t) \<Longrightarrow> store_step s t"
| step_reconcile: "record_reconciliation_receipt s rc now = (r0, t)
    \<Longrightarrow> retry_only_unclaimed s rc \<Longrightarrow> store_step s t"

inductive_cases store_stepE: "store_step s t"

text \<open>A method prepares the store and then runs effects.\<close>

definition refines_effects :: "plan_store \<Rightarrow> plan_store \<Rightarrow> bool" where
  "refines_effects s t \<longleftrightarrow> (\<exists>u. legacy_extension s u \<and> store_effect\<^sup>*\<^sup>* u t)"

lemma refines_self [intro]: "refines_effects s s"
  unfolding refines_effects_def using legacy_extension_refl by blast

lemma refines_prepare: "legacy_extension s u \<Longrightarrow> refines_effects s u"
  unfolding refines_effects_def by blast

lemma refines_one: "legacy_extension s u \<Longrightarrow> store_effect u t \<Longrightarrow> refines_effects s t"
  unfolding refines_effects_def by blast

lemma refines_two: "legacy_extension s u \<Longrightarrow> store_effect u v \<Longrightarrow> store_effect v t \<Longrightarrow> refines_effects s t"
  unfolding refines_effects_def by (meson converse_rtranclp_into_rtranclp r_into_rtranclp)

lemma plan_move_rows [simp]:
  "plan_move r (grant_lease n ow l r)" "plan_move r (release_lease r)" "plan_move r r"
  "plan_move r (release_lease (r\<lparr>pr_status := UNKNOWN\<rparr>))"
  "plan_move r (r\<lparr>pr_lease_expires_at := x\<rparr>)"
  "a \<noteq> ISSUED \<Longrightarrow> plan_move r (settle_plan rc a r)" "a \<noteq> ISSUED \<Longrightarrow> plan_move r (r\<lparr>pr_status := a\<rparr>)"
  "a \<noteq> ISSUED \<Longrightarrow> plan_move r (r\<lparr>pr_status := a, pr_confirmed_at := c\<rparr>)"
  by (auto simp: plan_move_def grant_lease_def release_lease_def settle_plan_def)

lemma plan_move_id: "plan_move r r' \<Longrightarrow> pr_plan_id r' = pr_plan_id r"
  by (simp add: plan_move_def)

lemma op_row_forD: "op_row_for s p i = Some r \<Longrightarrow> r \<in> set (ps_ops s) \<and> or_plan_id r = p \<and> or_operation_id r = i"
  by (auto simp: op_row_for_def dest!: sql_fetchone_Some)

lemma plan_row_forD: "plan_row_for s p = Some r \<Longrightarrow> r \<in> set (ps_plans s) \<and> pr_plan_id r = p"
  by (auto simp: plan_row_for_def dest!: sql_fetchone_Some)

lemma operations_of_nonempty: "op_row_for s p i = Some r \<Longrightarrow> operations_of s p \<noteq> []"
proof -
  assume "op_row_for s p i = Some r"
  then have "r \<in> set (operations_of s p)" by (auto simp: operations_of_def dest: op_row_forD)
  then show ?thesis by auto
qed

lemma operations_of_update_op:
  assumes "keeps_op_keys f" "op_row_for s p i \<noteq> None"
  shows "operations_of (update_op p i f s) p \<noteq> []"
proof -
  from assms(2) obtain r where r: "op_row_for s p i = Some r" by blast
  have "op_row_for (update_op p i f s) p i = Some (f r)"
    using assms(1) r op_row_forD [OF r]
    by (simp add: op_row_for_def update_op_def keeps_op_keys_def fetchone_sql_update)
  then show ?thesis by (rule operations_of_nonempty)
qed

text \<open>Only an empty plan aggregates to \<open>ISSUED\<close>.\<close>

lemma aggregate_plan_status_ISSUED: "aggregate_plan_status ss = ISSUED \<longleftrightarrow> ss = []"
  by (simp add: aggregate_plan_status_def)

lemma aggregate_persisted_ISSUED: "aggregate_persisted_statuses ss = ISSUED \<longleftrightarrow> ss = []"
proof
  assume a: "aggregate_persisted_statuses ss = ISSUED"
  show "ss = []"
  proof (rule ccontr)
    assume "ss \<noteq> []"
    then obtain x xs where ss: "ss = x # xs" by (cases ss) auto
    from a have np: "\<not> list_ex (\<lambda>s. apply_status_of s = None) ss"
      and e: "List.map_filter apply_status_of ss = []"
      by (auto simp: aggregate_persisted_statuses_def Let_def aggregate_plan_status_ISSUED split: if_splits)
    then show False unfolding ss by (auto simp: List.map_filter_def split: if_splits)
  qed
qed (simp add: aggregate_persisted_statuses_def List.map_filter_def aggregate_plan_status_def)


section \<open>Every method refines the abstract machine\<close>

lemma save_plan_refines:
  assumes "save_plan s p = (r, t)" "\<not> legacy_id (wp_plan_id p)"
  shows "refines_effects s t"
  using assms(1) unfolding save_plan_def
proof (cases rule: with_prepared_cases)
  case (run u)
  have "t = u \<or> insertable p u \<and> t = insert_plan p u"
    using run(4) assms(2)
    by (auto simp: Let_def insertable_def insert_plan_def plan_ids_def op_ids_def op_slots_def
        split: if_splits)
  then show ?thesis
    using run(3) effect_insert refines_one refines_prepare by blast
qed auto

lemma transition_plan_refines:
  assumes "transition_plan s i e tg now = (r, t)"
  shows "refines_effects s t"
proof (cases "can_transition e tg")
  case False
  then show ?thesis using assms by (auto simp: transition_plan_def)
next
  case True
  let ?f = "move_status e tg now"
  have move: "plan_move r (?f r)" for r
    using True can_transition_not_issued [of e] by (cases "tg = ISSUED") (auto simp: move_status_def)
  have nn: "\<not> \<not> can_transition e tg" using True by simp
  note w = assms [unfolded transition_plan_def if_not_P [OF nn]]
  from w show ?thesis
  proof (cases rule: with_prepared_cases)
    case (run u)
    have "prepared (update_plan i ?f u)"
      using run(2) move plan_move_id by (simp add: store_simps)
    note g = get_plan_or_raise_prepared [OF this]
    have "t = u \<or> t = update_plan i ?f u"
      using run(4) g [of i "''plan disappeared after transition''"] by (auto split: if_splits)
    then show ?thesis
      using refines_prepare [OF run(3)] refines_one [OF run(3) effect_plan [OF move]] by blast
  qed auto
qed

lemma claim_plan_run:
  assumes "claim_plan s i ow ls rs now = (r, t)"
  obtains (failed) e where "r = Inl e" "t = s"
  | (absent) e u where "prepare s = Inr u" "prepared u" "legacy_extension s u" "r = Inl e" "t = u"
  | (found) u row claimed where "prepare s = Inr u" "prepared u" "legacy_extension s u"
      "plan_row_for u i = Some row"
      "claimed \<longleftrightarrow> claimable_plan rs (pr_status row) \<and> \<not> lease_active (pr_lease_expires_at row) now"
      "t = (if claimed then update_plan i (grant_lease now ow ls) u else u)"
      "(\<exists>e. r = Inl e) \<or> (\<exists>p. r = Inr (p, claimed))"
proof (cases "ls \<le> 0")
  case True
  then show ?thesis using assms failed by (auto simp: claim_plan_def)
next
  case False
  from assms [unfolded claim_plan_def if_not_P [OF False]] show ?thesis
  proof (cases rule: with_prepared_cases)
    case (run u)
    show ?thesis
    proof (cases "plan_row_for u i")
      case None
      then show ?thesis using run absent by auto
    next
      case (Some row)
      define claimed where "claimed \<longleftrightarrow> claimable_plan rs (pr_status row)
        \<and> \<not> lease_active (pr_lease_expires_at row) now"
      define v where "v = (if claimed then update_plan i (grant_lease now ow ls) u else u)"
      have "prepared v" using run(2) by (simp add: v_def store_simps)
      then have snd: "snd (get_plan_or_raise v i m) = v" for m by (rule get_plan_or_raise_prepared)
      have "t = v \<and> ((\<exists>e. r = Inl e) \<or> (\<exists>p. r = Inr (p, claimed)))"
        using run(4) Some snd [of "''plan disappeared after claim''"]
        by (auto simp: Let_def claimed_def [symmetric] v_def [symmetric] split: prod.splits sum.splits)
      then show ?thesis using found [OF run(1-3) Some claimed_def] v_def by blast
    qed
  qed (auto intro: failed)
qed

lemma claim_plan_refines:
  assumes "claim_plan s i ow ls rs now = (r, t)"
  shows "refines_effects s t"
  using assms
proof (cases rule: claim_plan_run)
  case (found u row claimed)
  then show ?thesis
    using refines_prepare [of s u] refines_one [of s u, OF _ effect_plan, of "grant_lease now ow ls" i]
    by (simp split: if_splits)
qed (auto intro: refines_prepare)

lemma claim_operation_run:
  assumes "claim_operation s i j ow tk ls now = (r, t)"
  obtains (failed) e where "r = Inl e" "t = s \<or> prepare s = Inr t"
  | (claimed) u p row where "prepare s = Inr u" "prepared u" "legacy_extension s u"
      "plan_row_for u i = Some p" "lease_active (pr_lease_expires_at p) now"
      "\<And>ow'. ow = Some ow' \<Longrightarrow> ow' \<noteq> [] \<Longrightarrow> pr_lease_owner p = ow"
      "op_row_for u i j = Some row" "claimable_op (or_status row)" "r = Inr (or_attempt row + 1)"
      "t = update_plan i (\<lambda>q. q\<lparr>pr_lease_expires_at := Some (now + ls)\<rparr>)
             (update_op i j (start_attempt tk now) u)"
proof (cases "ls \<le> 0")
  case True
  then show ?thesis using assms failed by (auto simp: claim_operation_def)
next
  case False
  from assms [unfolded claim_operation_def if_not_P [OF False]] show ?thesis
  proof (cases rule: with_prepared_cases)
    case (run u)
    show ?thesis
    proof (cases r)
      case (Inl e)
      then have "t = u"
        using run(4) by (auto simp: Let_def split: option.splits if_splits)
      then show ?thesis using failed Inl run(1) by blast
    next
      case (Inr n)
      then show ?thesis
        using run(4) by (auto simp: Let_def str_or_def split: option.splits if_splits
            intro!: claimed [OF run(1-3)])
    qed
  qed (auto intro: failed)
qed

lemma claim_operation_refines:
  assumes "claim_operation s i j ow tk ls now = (r, t)"
  shows "refines_effects s t"
  using assms
proof (cases rule: claim_operation_run)
  case (failed e)
  then show ?thesis using refines_prepare prepare_extension by blast
next
  case (claimed u p row)
  have "op_move row (start_attempt tk now row)"
    using claimed(8) by (simp add: op_move_def start_attempt_def)
  then have "store_effect u (update_op i j (start_attempt tk now) u)"
    using claimed(7) by (intro effect_op) simp_all
  moreover have "store_effect (update_op i j (start_attempt tk now) u) t"
    unfolding claimed(10) by (rule effect_plan) simp
  ultimately show ?thesis by (rule refines_two [OF claimed(3)])
qed


text \<open>Both receipt methods recompute the plan status from the operation rows.\<close>

definition settled_status :: "string \<Rightarrow> plan_store \<Rightarrow> plan_status" where
  "settled_status i s = aggregate_persisted_statuses (map or_status (operations_of s i))"

lemma settled_not_issued:
  assumes "keeps_op_keys f" "op_row_for s i j = Some row"
  shows "settled_status i (update_op i j f s) \<noteq> ISSUED"
  using operations_of_update_op [of f s i j] assms
  by (simp add: settled_status_def aggregate_persisted_ISSUED)

lemma str_or_None: "str_or x None = Some y \<longleftrightarrow> x = Some y \<and> y \<noteq> []"
  by (cases x) (auto simp: str_or_def)

lemma record_receipt_run:
  assumes "record_receipt s rc ow tk now = (r, t)"
  obtains (failed) e where "r = Inl e" "t = s \<or> prepare s = Inr t"
  | (recorded) u i j p row where "prepare s = Inr u" "prepared u" "legacy_extension s u" "r = Inr ()"
      "rc_plan_id rc = Some i" "rc_operation_id rc = Some j"
      "plan_row_for u i = Some p" "op_row_for u i j = Some row"
      "receipt_is_fenced p row rc (str_or ow (pr_lease_owner p))
         (str_or tk (str_or (rc_attempt_token rc) (or_attempt_token row))) now"
      "t = update_plan i (settle_plan rc (settled_status i (update_op i j (finish_attempt rc) u)))
             (update_op i j (finish_attempt rc) u)"
      "settled_status i (update_op i j (finish_attempt rc) u) = pr_status p \<or>
       can_transition (pr_status p) (settled_status i (update_op i j (finish_attempt rc) u))"
proof -
  consider (no_key) "str_or (rc_plan_id rc) None = None \<or> str_or (rc_operation_id rc) None = None"
    | (key) i j where "str_or (rc_plan_id rc) None = Some i" "str_or (rc_operation_id rc) None = Some j"
    by (cases "str_or (rc_plan_id rc) None"; cases "str_or (rc_operation_id rc) None") auto
  then show ?thesis
  proof cases
    case no_key
    then show ?thesis
      using assms failed by (auto simp: record_receipt_def split: option.splits)
  next
    case (key i j)
    note w = assms [unfolded record_receipt_def key prod.case option.case]
    from w show ?thesis
    proof (cases rule: with_prepared_cases)
      case (run u)
      show ?thesis
      proof (cases r)
        case (Inl e)
        then have "t = u"
          using run(4) by (auto simp: Let_def split: option.splits if_splits)
        then show ?thesis using failed Inl run(1) by blast
      next
        case (Inr n)
        then show ?thesis
          using run(4) key unfolding str_or_None
          by (auto simp: Let_def settled_status_def split: option.splits if_splits
              intro!: recorded [OF run(1-3)])
      qed
    qed (auto intro: failed)
  qed
qed

lemma record_receipt_refines:
  assumes "record_receipt s rc ow tk now = (r, t)" "rc_status rc \<noteq> apply_status.RETRYABLE_NOT_APPLIED"
  shows "refines_effects s t"
  using assms(1)
proof (cases rule: record_receipt_run)
  case (failed e)
  then show ?thesis using refines_prepare prepare_extension by blast
next
  case (recorded u i j p row)
  have "op_move row (finish_attempt rc row)"
    using recorded(9) assms(2) plan_status_of_inject [of _ apply_status.RETRYABLE_NOT_APPLIED]
    by (auto simp: op_move_def finish_attempt_def receipt_is_fenced_def simp del: plan_status_of_inject)
  then have "store_effect u (update_op i j (finish_attempt rc) u)"
    using recorded(8) by (intro effect_op) simp_all
  moreover have "store_effect (update_op i j (finish_attempt rc) u) t"
    unfolding recorded(10) using settled_not_issued [OF _ recorded(8)] by (intro effect_plan) simp
  ultimately show ?thesis by (rule refines_two [OF recorded(3)])
qed

lemma begin_reconcile_refines:
  assumes "begin_reconcile s i now = (r, t)"
  shows "refines_effects s t"
  using assms unfolding begin_reconcile_def
proof (cases rule: with_prepared_cases)
  case (run u)
  let ?unknown = "\<lambda>q :: plan_row. release_lease (q\<lparr>pr_status := UNKNOWN\<rparr>)"
  have p: "prepared (update_plan i ?unknown u)" "prepared (update_plan i release_lease u)"
    using run(2) by (simp_all add: store_simps)
  let ?m = "''plan is not canonically rehydratable''"
  have "t = u \<or> t = update_plan i ?unknown u \<or> t = update_plan i release_lease u"
    using run(4) get_plan_or_raise_prepared [OF run(2), of i ?m]
      get_plan_or_raise_prepared [OF p(1), of i ?m] get_plan_or_raise_prepared [OF p(2), of i ?m]
    by (auto simp: Let_def split: option.splits if_splits)
  then show ?thesis
    using refines_prepare [OF run(3)] refines_one [OF run(3) effect_plan, of ?unknown i]
      refines_one [OF run(3) effect_plan, of release_lease i]
    by auto
qed auto

lemma record_reconciliation_run:
  assumes "record_reconciliation_receipt s rc now = (r, t)"
  obtains (failed) e where "r = Inl e" "t = s \<or> prepare s = Inr t"
  | (recorded) u i j p row where "prepare s = Inr u" "prepared u" "legacy_extension s u" "r = Inr ()"
      "rc_plan_id rc = Some i" "rc_operation_id rc = Some j"
      "plan_row_for u i = Some p" "pr_lease_owner p = None"
      "op_row_for u i j = Some row" "reconcilable_op (or_status row)"
      "t = update_plan i (\<lambda>q. q\<lparr>pr_status :=
               settled_status i (update_op i j (reconcile_op_row rc now) u)\<rparr>)
             (update_op i j (reconcile_op_row rc now) u)"
proof -
  consider (no_key) "str_or (rc_plan_id rc) None = None \<or> str_or (rc_operation_id rc) None = None"
    | (key) i j where "str_or (rc_plan_id rc) None = Some i" "str_or (rc_operation_id rc) None = Some j"
    by (cases "str_or (rc_plan_id rc) None"; cases "str_or (rc_operation_id rc) None") auto
  then show ?thesis
  proof cases
    case no_key
    then show ?thesis
      using assms failed by (auto simp: record_reconciliation_receipt_def split: option.splits)
  next
    case (key i j)
    note w = assms [unfolded record_reconciliation_receipt_def key prod.case option.case]
    from w show ?thesis
    proof (cases rule: with_prepared_cases)
      case (run u)
      show ?thesis
      proof (cases r)
        case (Inl e)
        then have "t = u"
          using run(4) by (auto simp: Let_def split: option.splits if_splits)
        then show ?thesis using failed Inl run(1) by blast
      next
        case (Inr n)
        then show ?thesis
          using run(4) key unfolding str_or_None
          by (auto simp: Let_def settled_status_def split: option.splits if_splits
              intro!: recorded [OF run(1-3)])
      qed
    qed (auto intro: failed)
  qed
qed


lemma record_reconciliation_refines:
  assumes "record_reconciliation_receipt s rc now = (r, t)" "retry_only_unclaimed s rc"
  shows "refines_effects s t"
  using assms(1)
proof (cases rule: record_reconciliation_run)
  case (failed e)
  then show ?thesis using refines_prepare prepare_extension by blast
next
  case (recorded u i j p row)
  have row: "row \<in> set (ps_ops u)" "or_plan_id row = i" "or_operation_id row = j"
    using op_row_forD [OF recorded(9)] by auto
  have "legacy_id i \<or> or_attempt row = 0" if "rc_status rc = apply_status.RETRYABLE_NOT_APPLIED"
    using that assms(2) recorded(3,5,6) row
    by (fastforce simp: retry_only_unclaimed_def legacy_extension_def)
  then have "op_move row (reconcile_op_row rc now row)"
    using recorded(10) row plan_status_of_inject [of _ apply_status.RETRYABLE_NOT_APPLIED]
    by (auto simp: op_move_def reconcile_op_row_def simp del: plan_status_of_inject)
  then have "store_effect u (update_op i j (reconcile_op_row rc now) u)"
    using recorded(9) by (intro effect_op) simp_all
  moreover have "store_effect (update_op i j (reconcile_op_row rc now) u) t"
    unfolding recorded(11) using settled_not_issued [OF _ recorded(9)] by (intro effect_plan) simp
  ultimately show ?thesis by (rule refines_two [OF recorded(3)])
qed

theorem store_step_refines: "store_step s t \<Longrightarrow> refines_effects s t"
  by (erule store_stepE)
     (auto intro: refines_prepare prepare_extension save_plan_refines transition_plan_refines
        claim_plan_refines claim_operation_refines record_receipt_refines begin_reconcile_refines
        record_reconciliation_refines)

section \<open>Invariant\<close>

text \<open>
  Keys are unique, an operation belongs to a stored plan, legacy plan ids carry the legacy
  tool, and an operation that may still be claimed was never dispatched.
\<close>

definition attempt_ok :: "op_row \<Rightarrow> bool" where
  "attempt_ok r \<longleftrightarrow> 0 \<le> or_attempt r \<and> or_attempt r \<le> 1 \<and> (claimable_op (or_status r) \<longrightarrow> or_attempt r = 0)"

definition store_inv :: "plan_store \<Rightarrow> bool" where
  "store_inv s \<longleftrightarrow> distinct (plan_ids s) \<and> distinct (op_ids s) \<and> distinct (op_slots s) \<and>
     (\<forall>p \<in> set (ps_plans s). legacy_id (pr_plan_id p) \<longrightarrow> pr_tool_name p = ''legacy'') \<and>
     (\<forall>r \<in> set (ps_ops s). or_plan_id r \<in> set (plan_ids s)) \<and>
     (\<forall>r \<in> set (ps_ops s). \<not> legacy_id (or_plan_id r) \<longrightarrow> attempt_ok r)"

text \<open>A new database file: no rows yet, whatever the legacy ledger beside it holds.\<close>

definition fresh_store :: "plan_store \<Rightarrow> bool" where
  "fresh_store s \<longleftrightarrow> ps_plans s = [] \<and> ps_ops s = []"

lemma store_inv_fresh: "fresh_store s \<Longrightarrow> store_inv s"
  by (simp add: store_inv_def fresh_store_def plan_ids_def op_ids_def op_slots_def)

lemma fresh_empty [simp]: "fresh_store empty_plan_store"
  by (simp add: fresh_store_def empty_plan_store_def)

lemma store_inv_extension: "legacy_extension s u \<Longrightarrow> store_inv s \<Longrightarrow> store_inv u"
  unfolding legacy_extension_def store_inv_def by (auto simp: plan_ids_def image_Un)

lemma plan_op_rows_keys:
  "r \<in> set (plan_op_rows p) \<Longrightarrow> or_plan_id r = wp_plan_id p \<and> or_status r = ISSUED \<and> or_attempt r = 0"
  by (auto simp: plan_op_rows_def op_row_of_def)

lemma distinct_map_nth_slots:
  "map (\<lambda>r. (or_plan_id r, or_ordinal r)) (plan_op_rows p) =
     map (\<lambda>i. (wp_plan_id p, i)) [0..<length (wp_operations p)]"
  by (auto simp: plan_op_rows_def op_row_of_def enumerate_eq_zip comp_def split_beta
      intro!: nth_equalityI)

lemma store_inv_insert: "insertable p s \<Longrightarrow> store_inv s \<Longrightarrow> store_inv (insert_plan p s)"
proof -
  assume ins: "insertable p s" and inv: "store_inv s"
  let ?t = "insert_plan p s"
  have slots: "distinct (map (\<lambda>r. (or_plan_id r, or_ordinal r)) (plan_op_rows p))"
    unfolding distinct_map_nth_slots by (simp add: distinct_map inj_on_def)
  have eqs: "plan_ids ?t = plan_ids s @ [wp_plan_id p]"
    "op_ids ?t = op_ids s @ map or_operation_id (plan_op_rows p)"
    "op_slots ?t = op_slots s @ map (\<lambda>r. (or_plan_id r, or_ordinal r)) (plan_op_rows p)"
    by (simp_all add: insert_plan_def plan_ids_def op_ids_def op_slots_def plan_row_of_def)
  have "distinct (plan_ids ?t)" "distinct (op_ids ?t)"
    using ins inv unfolding eqs by (auto simp: insertable_def store_inv_def)
  moreover have "distinct (op_slots ?t)"
    using ins inv slots unfolding eqs distinct_append
    by (simp add: insertable_def store_inv_def Int_commute)
  moreover have "\<forall>q \<in> set (ps_plans ?t). legacy_id (pr_plan_id q) \<longrightarrow> pr_tool_name q = ''legacy''"
    using ins inv by (simp add: insertable_def store_inv_def insert_plan_def plan_row_of_def)
  moreover have "\<forall>r \<in> set (ps_ops ?t). or_plan_id r \<in> set (plan_ids ?t)
      \<and> (\<not> legacy_id (or_plan_id r) \<longrightarrow> attempt_ok r)"
    using inv plan_op_rows_keys [of _ p] unfolding eqs
    by (auto simp: store_inv_def insert_plan_def attempt_ok_def)
  ultimately show ?thesis by (simp add: store_inv_def)
qed

lemma attempt_ok_move: "op_move r r' \<Longrightarrow> \<not> legacy_id (or_plan_id r) \<Longrightarrow> attempt_ok r \<Longrightarrow> attempt_ok r'"
  by (auto simp: op_move_def attempt_ok_def claimable_op_def)

text \<open>In a store with unique operation ids the selected row is the only one an update touches.\<close>

lemma op_row_for_unique:
  assumes "distinct (op_ids s)" "op_row_for s p i = Some r" "r' \<in> set (ps_ops s)"
    "or_operation_id r' = i"
  shows "r' = r"
  using assms op_row_forD [OF assms(2)]
  by (auto simp: op_ids_def distinct_map inj_on_def)

lemma update_op_rows:
  assumes "distinct (op_ids s)" "op_row_for s p i = Some r"
  shows "r' \<in> set (ps_ops (update_op p i f s)) \<longleftrightarrow>
    r' = f r \<or> r' \<in> set (ps_ops s) \<and> or_operation_id r' \<noteq> i"
  using op_row_for_unique [OF assms] op_row_forD [OF assms(2)]
  by (auto simp: update_op_def in_sql_update)

lemma store_inv_effect: "store_effect s t \<Longrightarrow> store_inv s \<Longrightarrow> store_inv t"
proof (erule store_effectE)
  fix i f assume t: "t = update_plan i f s" and mv: "\<And>r. plan_move r (f r)" and inv: "store_inv s"
  have ids: "plan_ids t = plan_ids s" using t mv plan_move_id by (simp add: store_simps)
  have "\<forall>p \<in> set (ps_plans t). legacy_id (pr_plan_id p) \<longrightarrow> pr_tool_name p = ''legacy''"
    using inv mv by (auto simp: t update_plan_def in_sql_update store_inv_def plan_move_def)
  then show "store_inv t" using inv ids by (simp add: store_inv_def t store_simps)
next
  fix p i r f assume t: "t = update_op p i f s" and r: "op_row_for s p i = Some r"
    and f: "keeps_op_keys f" "op_move r (f r)" and inv: "store_inv s"
  have d: "distinct (op_ids s)" using inv by (simp add: store_inv_def)
  have "\<not> legacy_id (or_plan_id (f r)) \<longrightarrow> attempt_ok (f r)"
    "or_plan_id (f r) \<in> set (plan_ids s)"
    using inv f op_row_forD [OF r] attempt_ok_move [OF f(2)]
    by (auto simp: store_inv_def keeps_op_keys_def)
  then show "store_inv t"
    using inv f by (auto simp: store_inv_def t store_simps update_op_rows [OF d r])
qed (simp add: store_inv_insert)

lemma store_inv_effects: "store_effect\<^sup>*\<^sup>* s t \<Longrightarrow> store_inv s \<Longrightarrow> store_inv t"
  by (induction rule: rtranclp_induct) (auto intro: store_inv_effect)

lemma store_inv_step: "store_step s t \<Longrightarrow> store_inv s \<Longrightarrow> store_inv t"
  using store_step_refines store_inv_extension store_inv_effects
  unfolding refines_effects_def by blast


section \<open>Rows along a run\<close>

definition op_for :: "plan_store \<Rightarrow> string \<Rightarrow> op_row option" where
  "op_for s j = sql_fetchone (\<lambda>r. or_operation_id r = j) (ps_ops s)"

lemma op_for_extension: "legacy_extension s u \<Longrightarrow> op_for s j = Some r \<Longrightarrow> op_for u j = Some r"
  by (auto simp: legacy_extension_def op_for_def sql_fetchone_append)

lemma plan_row_for_extension: "legacy_extension s u \<Longrightarrow> plan_row_for s i = Some r \<Longrightarrow> plan_row_for u i = Some r"
  by (auto simp: legacy_extension_def plan_row_for_def sql_fetchone_append)

lemma op_row_for_op_for: "distinct (op_ids s) \<Longrightarrow> op_row_for s i j = Some r \<Longrightarrow> op_for s j = Some r"
  using op_row_forD [of s i j r] unfolding op_for_def op_ids_def
  by (intro fetchone_unique [where key = or_operation_id]) auto

lemma op_for_effect:
  assumes "store_effect s t" "store_inv s" "op_for s j = Some r"
  obtains r' where "op_for t j = Some r'" "r' = r \<or> op_move r r'" "or_plan_id r' = or_plan_id r"
  using assms(1)
proof (cases rule: store_effect.cases)
  case (effect_insert p)
  then show ?thesis using assms(3) that by (simp add: op_for_def insert_plan_def sql_fetchone_append)
next
  case (effect_plan f i)
  then show ?thesis using assms(3) that by (simp add: op_for_def store_simps)
next
  case (effect_op p i q f)
  have d: "distinct (op_ids s)" using assms(2) by (simp add: store_inv_def)
  have q: "op_for s i = Some q" by (rule op_row_for_op_for [OF d effect_op(2)])
  have "op_for t j = map_option (\<lambda>r. if or_plan_id r = p \<and> or_operation_id r = i then f r else r) (op_for s j)"
    using effect_op(3) unfolding effect_op(1) op_for_def update_op_def
    by (simp add: keeps_op_keys_def fetchone_sql_update)
  moreover have "r = q" if "or_plan_id r = p \<and> or_operation_id r = i"
  proof -
    have "or_operation_id r = j" using assms(3) by (auto simp: op_for_def dest: sql_fetchone_Some)
    then show ?thesis using that assms(3) q by simp
  qed
  ultimately show ?thesis
    using assms(3) effect_op(3,4) that by (auto simp: keeps_op_keys_def split: if_splits)
qed

text \<open>A predicate that row moves keep is kept by every step.\<close>

lemma op_row_stable:
  assumes keeps: "\<And>r r'. P r \<Longrightarrow> op_move r r' \<Longrightarrow> or_plan_id r' = or_plan_id r \<Longrightarrow> P r'"
    and step: "store_step s t" and inv: "store_inv s" and r: "op_for s j = Some r" "P r"
  shows "\<exists>r'. op_for t j = Some r' \<and> P r'"
proof -
  obtain u where u: "legacy_extension s u" "store_effect\<^sup>*\<^sup>* u t"
    using store_step_refines [OF step] by (auto simp: refines_effects_def)
  have "store_inv u" "op_for u j = Some r"
    using u(1) inv r(1) store_inv_extension op_for_extension by auto
  with u(2) r(2) have "store_inv t \<and> (\<exists>r'. op_for t j = Some r' \<and> P r')"
  proof (induction rule: rtranclp_induct)
    case (step y z)
    then obtain q where q: "store_inv y" "op_for y j = Some q" "P q" by blast
    obtain q' where "op_for z j = Some q'" "q' = q \<or> op_move q q'" "or_plan_id q' = or_plan_id q"
      by (rule op_for_effect [OF step.hyps(2) q(1,2)])
    then show ?case using keeps q store_inv_effect [OF step.hyps(2) q(1)] by blast
  qed blast
  then show ?thesis by blast
qed

lemma plan_row_effect:
  assumes "store_effect s t" "plan_row_for s i = Some r"
  shows "\<exists>r'. plan_row_for t i = Some r' \<and> plan_move r r'"
  using assms(1)
proof (cases rule: store_effect.cases)
  case (effect_insert p)
  then show ?thesis using assms(2) by (simp add: plan_row_for_def insert_plan_def sql_fetchone_append)
next
  case (effect_plan f k)
  have "plan_row_for t i = map_option (\<lambda>r. if pr_plan_id r = k then f r else r) (plan_row_for s i)"
    using plan_move_id [OF effect_plan(2)] unfolding effect_plan(1) plan_row_for_def update_plan_def
    by (simp add: fetchone_sql_update)
  then show ?thesis using assms(2) effect_plan(2) by simp
next
  case (effect_op p k q f)
  then show ?thesis using assms(2) by (simp add: store_simps)
qed

lemma plan_move_trans: "plan_move a b \<Longrightarrow> plan_move b c \<Longrightarrow> plan_move a c"
  by (simp add: plan_move_def)

lemma plan_row_step:
  assumes "store_step s t" "plan_row_for s i = Some r"
  shows "\<exists>r'. plan_row_for t i = Some r' \<and> plan_move r r'"
proof -
  obtain u where u: "legacy_extension s u" "store_effect\<^sup>*\<^sup>* u t"
    using store_step_refines [OF assms(1)] by (auto simp: refines_effects_def)
  from u(2) plan_row_for_extension [OF u(1) assms(2)] show ?thesis
    by (induction rule: rtranclp_induct) (auto dest: plan_row_effect intro: plan_move_trans)
qed

section \<open>Three ledgers\<close>

text \<open>The recorded outcome of an operation.\<close>

definition op_outcome :: "plan_store \<Rightarrow> string \<Rightarrow> plan_status option" where
  "op_outcome s j = map_option or_status (op_for s j)"

definition settled_outcome :: "plan_status \<Rightarrow> bool" where
  "settled_outcome st \<longleftrightarrow> \<not> claimable_op st \<and> \<not> reconcilable_op st"

text \<open>Whether an operation of a live (non-legacy) plan was handed to an executor.\<close>

definition dispatched :: "plan_store \<Rightarrow> string \<Rightarrow> bool option" where
  "dispatched s j = map_option (\<lambda>r. \<not> legacy_id (or_plan_id r) \<and> or_attempt r = 1) (op_for s j)"

text \<open>Whether a plan has left \<open>ISSUED\<close>.\<close>

definition started :: "plan_store \<Rightarrow> string \<Rightarrow> bool option" where
  "started s i = map_option (\<lambda>r. pr_status r \<noteq> ISSUED) (plan_row_for s i)"

interpretation outcomes: outcome_ledger fresh_store store_step store_inv op_outcome settled_outcome
proof unfold_locales
  fix s t j v
  assume st: "store_step s t" "store_inv s" "op_outcome s j = Some v" "settled_outcome v"
  then obtain r where r: "op_for s j = Some r" "or_status r = v" by (auto simp: op_outcome_def)
  have "\<exists>r'. op_for t j = Some r' \<and> or_status r' = v"
    using st(4) by (intro op_row_stable [OF _ st(1,2) r(1)])
      (auto simp: op_move_def settled_outcome_def reconcilable_op_def r(2))
  then show "op_outcome t j = Some v" by (auto simp: op_outcome_def)
qed (auto intro: store_inv_step store_inv_fresh)

interpretation dispatches: outcome_ledger fresh_store store_step store_inv dispatched "\<lambda>v. v"
proof unfold_locales
  fix s t j v
  assume st: "store_step s t" "store_inv s" "dispatched s j = Some v" v
  define P where "P r \<longleftrightarrow> \<not> legacy_id (or_plan_id r) \<and> or_attempt r = 1 \<and> attempt_ok r" for r :: op_row
  obtain r where r: "op_for s j = Some r" "\<not> legacy_id (or_plan_id r)" "or_attempt r = 1"
    using st(3,4) by (auto simp: dispatched_def)
  have "r \<in> set (ps_ops s)" using r(1) sql_fetchone_Some by (fastforce simp: op_for_def)
  then have "P r" using r st(2) by (auto simp: P_def store_inv_def)
  then have "\<exists>r'. op_for t j = Some r' \<and> P r'"
    by (intro op_row_stable [OF _ st(1,2) r(1)])
      (auto simp: P_def op_move_def attempt_ok_def claimable_op_def)
  then show "dispatched t j = Some v" using st(4) by (auto simp: dispatched_def P_def)
qed

interpretation starts: outcome_ledger fresh_store store_step store_inv started "\<lambda>v. v"
proof unfold_locales
  fix s t i v
  assume "store_step s t" "store_inv s" "started s i = Some v" v
  then show "started t i = Some v"
    by (auto simp: started_def plan_move_def dest!: plan_row_step)
qed

end
