(* ===== verification/Plan_Properties.thy ===== *)
theory Plan_Properties
  imports Plan_Ledger
begin

text \<open>
  Properties of plans and of the plan store: single dispatch, single executor, fencing,
  final outcomes, the save/load round trip, migrations, aggregation.
\<close>

section \<open>A sample run\<close>

text \<open>Two edge deletions, the second depending on the first, for the concrete instances below.\<close>

definition sample_op :: "string \<Rightarrow> string list \<Rightarrow> operation_plan" where
  "sample_op i deps = \<lparr>op_operation_id = i, op_kind = ''DELETE_EDGE'', op_target = [(''id'', PyStr i)],
     op_expected_state = [], op_desired_state = [(''absent'', PyBool True)], op_depends_on = deps,
     op_idempotency_key = None\<rparr>"

definition sample_plan :: "write_plan" where
  "sample_plan = \<lparr>wp_plan_id = ''wp_1'', wp_tool_name = ''edge'',
     wp_graph_target = \<lparr>gt_graph_url = ''u'', gt_graph_name = ''g'', gt_graphspace = None\<rparr>,
     wp_principal = ''admin'', wp_operations = [sample_op ''a'' [], sample_op ''b'' [''a'']],
     wp_payload_digest = ''d'', wp_schema_fingerprint = None, wp_status = ISSUED,
     wp_created_at = 0, wp_expires_at = 600\<rparr>"

definition sample_receipt :: "apply_status \<Rightarrow> string \<Rightarrow> int \<Rightarrow> apply_receipt" where
  "sample_receipt st i n = \<lparr>rc_status = st, rc_plan_id = Some ''wp_1'', rc_operation_id = Some i,
     rc_observed_state = None, rc_reason_code = None, rc_attempt = n, rc_attempt_token = None,
     rc_reconciliation_required = False, rc_committed_at = Some 7, rc_operation = None, rc_reason = None\<rparr>"

definition store_saved :: plan_store where
  "store_saved = snd (save_plan empty_plan_store sample_plan)"

definition store_claimed :: plan_store where
  "store_claimed = snd (claim_plan store_saved ''wp_1'' ''o'' 30 False 5)"

definition store_dispatched :: plan_store where
  "store_dispatched = snd (claim_operation store_claimed ''wp_1'' ''a'' (Some ''o'') ''t'' 30 6)"

definition store_recorded :: plan_store where
  "store_recorded = snd (record_receipt store_dispatched
     (sample_receipt apply_status.ALREADY_APPLIED ''a'' 1) (Some ''o'') (Some ''t'') 8)"

lemma sample_runs:
  "save_plan empty_plan_store sample_plan = (Inr (), store_saved)"
  "fst (claim_plan store_saved ''wp_1'' ''o'' 30 False 5) = Inr (sample_plan\<lparr>wp_status := EXECUTING\<rparr>, True)"
  "claim_operation store_claimed ''wp_1'' ''a'' (Some ''o'') ''t'' 30 6 = (Inr 1, store_dispatched)"
  "record_receipt store_dispatched (sample_receipt apply_status.ALREADY_APPLIED ''a'' 1)
     (Some ''o'') (Some ''t'') 8 = (Inr (), store_recorded)"
  by code_simp+

lemma sample_claim: "claim_plan store_saved ''wp_1'' ''o'' 30 False 5 =
    (Inr (sample_plan\<lparr>wp_status := EXECUTING\<rparr>, True), store_claimed)"
  unfolding store_claimed_def sample_runs(2) [symmetric] by simp

lemma not_legacy_sample [simp]: "\<not> legacy_id ''wp_1''" "\<not> legacy_id (wp_plan_id sample_plan)"
  by (simp_all add: legacy_id_def sample_plan_def)

lemma sample_steps:
  "store_step\<^sup>*\<^sup>* empty_plan_store store_saved" "store_step\<^sup>*\<^sup>* empty_plan_store store_claimed"
  "store_step\<^sup>*\<^sup>* empty_plan_store store_dispatched" "store_step store_dispatched store_recorded"
proof -
  have a: "store_step empty_plan_store store_saved" by (rule step_save [OF sample_runs(1)]) simp
  have b: "store_step store_saved store_claimed" by (rule step_claim_plan [OF sample_claim])
  have c: "store_step store_claimed store_dispatched" by (rule step_claim_operation [OF sample_runs(3)])
  show "store_step store_dispatched store_recorded"
    by (rule step_receipt [OF sample_runs(4)]) (simp add: sample_receipt_def)
  show s: "store_step\<^sup>*\<^sup>* empty_plan_store store_saved" using a by blast
  show t: "store_step\<^sup>*\<^sup>* empty_plan_store store_claimed" using s b by (rule rtranclp.rtrancl_into_rtrancl)
  show "store_step\<^sup>*\<^sup>* empty_plan_store store_dispatched" using t c by (rule rtranclp.rtrancl_into_rtrancl)
qed

section \<open>Claims and receipts along runs\<close>

lemma claim_operation_dispatches:
  assumes "claim_operation s i j ow tk ls now = (Inr n, t)" "store_inv s" "\<not> legacy_id i"
  shows "n = 1" "dispatched t j = Some True" "store_inv t"
proof -
  from assms(1) obtain u row where u: "legacy_extension s u" "op_row_for u i j = Some row"
    "claimable_op (or_status row)" "n = or_attempt row + 1"
    "t = update_plan i (\<lambda>q. q\<lparr>pr_lease_expires_at := Some (now + ls)\<rparr>)
           (update_op i j (start_attempt tk now) u)"
    by (cases rule: claim_operation_run) auto
  have inv: "store_inv u" using u(1) assms(2) by (rule store_inv_extension)
  note row = op_row_forD [OF u(2)]
  have "attempt_ok row" using inv row assms(3) by (auto simp: store_inv_def)
  then show n: "n = 1" using u(3,4) by (simp add: attempt_ok_def)
  have d: "distinct (op_ids u)" using inv by (simp add: store_inv_def)
  have "op_for t j = Some (start_attempt tk now row)"
    using op_row_for_op_for [OF d u(2)] row
    by (simp add: u(5) op_for_def store_simps) (simp add: update_op_def fetchone_sql_update start_attempt_def)
  then show "dispatched t j = Some True"
    using n u(4) row assms(3) by (simp add: dispatched_def start_attempt_def)
  show "store_inv t"
    using store_inv_step [OF step_claim_operation [OF assms(1)] assms(2)] .
qed

lemma claim_operation_refuses_dispatched:
  assumes "store_inv s" "dispatched s j = Some True"
  shows "\<exists>e. fst (claim_operation s i j ow tk ls now) = Inl e"
proof -
  obtain r t where c: "claim_operation s i j ow tk ls now = (r, t)" by (cases "claim_operation s i j ow tk ls now")
  from c show ?thesis
  proof (cases rule: claim_operation_run)
    case (claimed u p row)
    have inv: "store_inv u" using claimed(3) assms(1) by (rule store_inv_extension)
    then have d: "distinct (op_ids u)" by (simp add: store_inv_def)
    obtain q where q: "op_for s j = Some q" "\<not> legacy_id (or_plan_id q)" "or_attempt q = 1"
      using assms(2) by (auto simp: dispatched_def)
    have "row = q"
      using op_for_extension [OF claimed(3) q(1)] op_row_for_op_for [OF d claimed(7)] by simp
    then have "attempt_ok row" using inv q op_row_forD [OF claimed(7)] by (auto simp: store_inv_def)
    then show ?thesis using \<open>row = q\<close> q claimed(8) by (simp add: attempt_ok_def)
  qed (use c in auto)
qed



lemma claim_plan_refuses_started:
  assumes "started s i = Some True"
  shows "fst (claim_plan s i ow ls False now) \<noteq> Inr (p, True)"
proof
  assume "fst (claim_plan s i ow ls False now) = Inr (p, True)"
  then obtain t where "claim_plan s i ow ls False now = (Inr (p, True), t)" by (metis prod.collapse)
  then obtain v row where "legacy_extension s v" "plan_row_for v i = Some row" "pr_status row = ISSUED"
    by (cases rule: claim_plan_run) (auto simp: claimable_plan_def)
  moreover obtain r where "plan_row_for s i = Some r" "pr_status r \<noteq> ISSUED"
    using assms by (auto simp: started_def)
  ultimately show False using plan_row_for_extension by fastforce
qed

lemma claim_plan_starts:
  assumes "claim_plan s i ow ls rs now = (Inr (p, True), t)"
  shows "started t i = Some True"
proof -
  from assms obtain u row where u: "plan_row_for u i = Some row" "t = update_plan i (grant_lease now ow ls) u"
    by (cases rule: claim_plan_run) auto
  have "plan_row_for t i = Some (grant_lease now ow ls row)"
    using u(1) plan_row_forD [OF u(1)]
    by (simp add: u(2) plan_row_for_def update_plan_def fetchone_sql_update)
  then show ?thesis by (simp add: started_def grant_lease_def)
qed

text \<open>
  One executor per plan. Once \<open>claim_plan\<close> elected an executor for a plan (the initial
  claim of \<open>confirm\<close>, without \<open>resume\<close>), no later initial claim of that plan by anyone reports
  having claimed it, in any interleaving and however much time passes.
\<close>

theorem initial_claim_succeeds_once:
  assumes "fresh_store s0" "store_step\<^sup>*\<^sup>* s0 s"
    and "claim_plan s i ow ls rs now = (Inr (p, True), s1)" "store_step\<^sup>*\<^sup>* s1 s2"
  shows "fst (claim_plan s2 i ow' ls' False now') \<noteq> Inr (p', True)"
proof (rule claim_plan_refuses_started)
  have inv: "store_inv s" using outcomes.inv_reachable [OF assms(1,2)] .
  have inv1: "store_inv s1" by (rule store_inv_step [OF step_claim_plan [OF assms(3)] inv])
  show "started s2 i = Some True"
    using starts.final_steps [OF assms(4) inv1 claim_plan_starts [OF assms(3)]] by simp
qed


theorem initial_claim_succeeds_once_witness:
  "fst (claim_plan store_saved ''wp_1'' ''o'' 30 False 5) = Inr (sample_plan\<lparr>wp_status := EXECUTING\<rparr>, True) \<and>
   fst (claim_plan store_dispatched ''wp_1'' ''o2'' 30 False 1000) \<noteq> Inr (sample_plan\<lparr>wp_status := EXECUTING\<rparr>, True)"
  using initial_claim_succeeds_once [OF fresh_empty sample_steps(1) sample_claim
      r_into_rtranclp [of store_step, OF step_claim_operation [OF sample_runs(3)]]]
  by (simp add: sample_runs(2))



text \<open>
  C4: fencing. A receipt that is accepted is the receipt of the running attempt: the
  operation is \<open>EXECUTING\<close> with the receipt's attempt number, the attempt token and the lease
  owner the caller presented are the stored ones, and the lease has not expired.
\<close>

theorem accepted_receipt_is_fenced:
  assumes "record_receipt s rc (Some ow) (Some tk) now = (Inr (), t)" "ow \<noteq> []" "tk \<noteq> []"
  shows "\<exists>u p r. prepare s = Inr u \<and>
     plan_row_for u (the (rc_plan_id rc)) = Some p \<and>
     op_row_for u (the (rc_plan_id rc)) (the (rc_operation_id rc)) = Some r \<and>
     or_status r = EXECUTING \<and> or_attempt r = rc_attempt rc \<and> or_attempt_token r = Some tk \<and>
     pr_lease_owner p = Some ow \<and> lease_active (pr_lease_expires_at p) now"
  using assms(1)
proof (cases rule: record_receipt_run)
  case (recorded u i j p row)
  then show ?thesis
    using assms(2,3) by (intro exI [of _ u] exI [of _ p] exI [of _ row])
      (simp add: receipt_is_fenced_def str_or_def)
qed simp

theorem accepted_receipt_is_fenced_witness:
  "\<exists>u p r. prepare store_dispatched = Inr u \<and> plan_row_for u ''wp_1'' = Some p \<and>
     op_row_for u ''wp_1'' ''a'' = Some r \<and> or_attempt_token r = Some ''t'' \<and> pr_lease_owner p = Some ''o''"
  using accepted_receipt_is_fenced [OF sample_runs(4)] by (auto simp: sample_receipt_def)

text \<open>
  A displaced executor is harmless. Right after another executor was granted the plan,
  every receipt and every operation claim under the old owner token raises and changes nothing,
  whatever attempt token it carries.
\<close>

theorem displaced_executor_is_refused:
  assumes "claim_plan s i new ls rs now = (Inr (p, True), t)" "old \<noteq> new" "old \<noteq> []"
    and "rc_plan_id rc = Some i"
  shows "(\<exists>e. record_receipt t rc (Some old) tk now' = (Inl e, t)) \<and>
         (\<exists>e. claim_operation t i j (Some old) tk' ls' now'' = (Inl e, t))"
proof -
  from assms(1) obtain u row where u: "prepared u" "plan_row_for u i = Some row"
    "t = update_plan i (grant_lease now new ls) u"
    by (cases rule: claim_plan_run) auto
  have prep: "prepared t" using u(1) by (simp add: u(3) store_simps)
  have row: "plan_row_for t i = Some (grant_lease now new ls row)"
    using u(2) plan_row_forD [OF u(2)]
    by (simp add: u(3) plan_row_for_def update_plan_def fetchone_sql_update)
  have "\<exists>e. record_receipt t rc (Some old) tk now' = (Inl e, t)"
  proof -
    obtain r t' where c: "record_receipt t rc (Some old) tk now' = (r, t')" by fastforce
    then show ?thesis
    proof (cases rule: record_receipt_run)
    case (failed e)
    then show ?thesis using c prepared_prepare [OF prep] by auto
  next
    case (recorded v i' j' p' row')
    then have "p' = grant_lease now new ls row"
      using row assms(4) prepared_prepare [OF prep] by simp
    then show ?thesis using recorded(9) assms(2,3)
      by (simp add: receipt_is_fenced_def str_or_def grant_lease_def)
    qed
  qed
  moreover have "\<exists>e. claim_operation t i j (Some old) tk' ls' now'' = (Inl e, t)"
  proof -
    obtain r t' where c: "claim_operation t i j (Some old) tk' ls' now'' = (r, t')" by fastforce
    then show ?thesis
    proof (cases rule: claim_operation_run)
    case (failed e)
    then show ?thesis using c prepared_prepare [OF prep] by auto
  next
    case (claimed v p' row')
    then show ?thesis using row assms(2,3) prepared_prepare [OF prep] by (auto simp: grant_lease_def)
    qed
  qed
  ultimately show ?thesis by simp
qed

theorem displaced_executor_is_refused_witness:
  "\<exists>e. record_receipt store_claimed (sample_receipt apply_status.APPLIED ''a'' 1) (Some ''z'') (Some ''t'') 6
     = (Inl e, store_claimed)"
  using displaced_executor_is_refused [OF sample_claim, of "''z''" "sample_receipt apply_status.APPLIED ''a'' 1"]
  by (simp add: sample_receipt_def)

end
