(* ===== verification/Plan_Shape.thy ===== *)
theory Plan_Shape
  imports Plan_Properties
begin

text \<open>
  Properties of \<open>write_plan.py\<close> and of the persisted form of a plan: which plans the
  constructor accepts, what the aggregated status says about the operations, the save/load
  round trip, the migrations, and two runs in which the store does not do what it promises.
\<close>

section \<open>Accepted plans\<close>

lemma check_operations_iff:
  "check_operations seen ops = None \<longleftrightarrow>
     distinct (map op_operation_id ops) \<and> set (map op_operation_id ops) \<inter> set seen = {} \<and>
     (\<forall>k < length ops. set (op_depends_on (ops ! k)) \<subseteq> set seen \<union> op_operation_id ` set (take k ops))"
proof (induction ops arbitrary: seen)
  case (Cons p ops)
  have split: "(\<forall>k < length (p # ops). set (op_depends_on ((p # ops) ! k)) \<subseteq>
        set seen \<union> op_operation_id ` set (take k (p # ops))) \<longleftrightarrow>
      set (op_depends_on p) \<subseteq> set seen \<and>
      (\<forall>k < length ops. set (op_depends_on (ops ! k)) \<subseteq>
        set (op_operation_id p # seen) \<union> op_operation_id ` set (take k ops))"
    by (auto simp: All_less_Suc2)
  have "filter (\<lambda>d. d \<notin> set seen) (op_depends_on p) = [] \<longleftrightarrow> set (op_depends_on p) \<subseteq> set seen"
    by (auto simp: filter_empty_conv)
  then show ?case
    unfolding split using Cons.IH [of "op_operation_id p # seen"] by (auto simp: Let_def)
qed simp

text \<open>
  Exactly the well-formed plans are constructed, unchanged: plan id and tool name are
  non-empty, operation ids are distinct, every dependency names an earlier operation (so the
  order of the operations is a topological order), and the plan expires after it was created.
\<close>

theorem make_write_plan_accepts:
  "make_write_plan p = Inr q \<longleftrightarrow>
     q = p \<and> wp_plan_id p \<noteq> [] \<and> wp_tool_name p \<noteq> [] \<and>
     distinct (map op_operation_id (wp_operations p)) \<and>
     (\<forall>k < length (wp_operations p). set (op_depends_on (wp_operations p ! k)) \<subseteq>
        op_operation_id ` set (take k (wp_operations p))) \<and>
     0 \<le> wp_created_at p \<and> wp_created_at p < wp_expires_at p"
  using check_operations_iff [of "[]" "wp_operations p"]
  by (auto simp: make_write_plan_def split: option.splits)

theorem make_write_plan_accepts_witness:
  "make_write_plan sample_plan = Inr sample_plan \<and> \<not> (\<exists>q. make_write_plan (sample_plan\<lparr>wp_operations :=
     [sample_op ''b'' [''a''], sample_op ''a'' []]\<rparr>) = Inr q)"
  unfolding make_write_plan_accepts by (auto simp: sample_plan_def sample_op_def All_less_Suc2)

section \<open>Aggregated status\<close>

lemma success_statuses: "success a \<longleftrightarrow> plan_status_of a \<in> {APPLIED, ALREADY_APPLIED}"
  by (cases a) (auto simp: success_def)

lemma aggregate_plan_success:
  "aggregate_plan_status ss \<in> {APPLIED, ALREADY_APPLIED} \<longleftrightarrow> ss \<noteq> [] \<and> list_all success ss"
  by (auto simp: aggregate_plan_status_def)

lemma aggregate_plan_partial:
  "aggregate_plan_status ss = PARTIAL \<longleftrightarrow>
     list_ex success ss \<and> \<not> list_all success ss \<or> \<not> list_ex success ss \<and> apply_status.PARTIAL \<in> set ss"
  by (auto simp: aggregate_plan_status_def list_ex_iff list_all_iff success_def)

lemma apply_status_of_Some: "apply_status_of s = Some a \<longleftrightarrow> s = plan_status_of a"
  by (cases s; cases a) auto

lemma set_completed: "set (List.map_filter apply_status_of ss) = {a. plan_status_of a \<in> set ss}"
  by (force simp: List.map_filter_def apply_status_of_Some)

lemma pending_status: "apply_status_of s = None \<longleftrightarrow> s \<in> {ISSUED, EXECUTING, EXPIRED}"
  by (cases s) auto

lemma outcome_status: "s \<notin> {ISSUED, EXECUTING, EXPIRED} \<Longrightarrow> \<exists>a. s = plan_status_of a"
  using pending_status [of s] apply_status_of_Some [of s] by (cases "apply_status_of s") auto

text \<open>
  A plan is never reported applied while an operation is not. Over the persisted operation
  statuses, the aggregate is \<open>APPLIED\<close> or \<open>ALREADY_APPLIED\<close> exactly when there is an operation and
  every operation has one of these two statuses. It is \<open>PARTIAL\<close> exactly when one operation has
  succeeded and another has not (pending and failed alike), or when all have an outcome, none
  succeeded and one is itself \<open>PARTIAL\<close>.
\<close>

theorem aggregate_hides_no_failure:
  "(aggregate_persisted_statuses ss \<in> {APPLIED, ALREADY_APPLIED} \<longleftrightarrow>
      ss \<noteq> [] \<and> set ss \<subseteq> {APPLIED, ALREADY_APPLIED}) \<and>
   (aggregate_persisted_statuses ss = PARTIAL \<longleftrightarrow>
      set ss \<inter> {APPLIED, ALREADY_APPLIED} \<noteq> {} \<and> \<not> set ss \<subseteq> {APPLIED, ALREADY_APPLIED} \<or>
      set ss \<inter> {APPLIED, ALREADY_APPLIED, ISSUED, EXECUTING, EXPIRED} = {} \<and> PARTIAL \<in> set ss)"
proof -
  define cs where "cs = List.map_filter apply_status_of ss"
  have cs: "a \<in> set cs \<longleftrightarrow> plan_status_of a \<in> set ss" for a
    by (simp add: cs_def set_completed)
  have mem: "apply_status.APPLIED \<in> set cs \<longleftrightarrow> APPLIED \<in> set ss"
    "apply_status.ALREADY_APPLIED \<in> set cs \<longleftrightarrow> ALREADY_APPLIED \<in> set ss"
    "apply_status.PARTIAL \<in> set cs \<longleftrightarrow> PARTIAL \<in> set ss"
    by (simp_all add: cs)
  have some: "list_ex success cs \<longleftrightarrow> set ss \<inter> {APPLIED, ALREADY_APPLIED} \<noteq> {}"
    using mem by (auto simp: list_ex_iff success_def)
  have pend: "list_ex (\<lambda>s. apply_status_of s = None) ss \<longleftrightarrow> set ss \<inter> {ISSUED, EXECUTING, EXPIRED} \<noteq> {}"
    by (auto simp: list_ex_iff pending_status)
  have outcome: "\<exists>a. s = plan_status_of a" if "set ss \<inter> {ISSUED, EXECUTING, EXPIRED} = {}" "s \<in> set ss" for s
    using that by (intro outcome_status) auto
  have done_all: "list_all success cs \<longleftrightarrow> set ss \<subseteq> {APPLIED, ALREADY_APPLIED}"
    if none: "set ss \<inter> {ISSUED, EXECUTING, EXPIRED} = {}"
    using outcome [OF none] cs by (fastforce simp: list_all_iff success_statuses)
  have empty: "cs = [] \<longleftrightarrow> ss = []" if none: "set ss \<inter> {ISSUED, EXECUTING, EXPIRED} = {}"
  proof (cases ss)
    case (Cons x xs)
    then obtain a where "plan_status_of a \<in> set ss" using outcome [OF none, of x] by auto
    then have "a \<in> set cs" using cs by simp
    then show ?thesis using Cons by auto
  qed (simp add: cs_def List.map_filter_def)
  show ?thesis
  proof (cases "set ss \<inter> {ISSUED, EXECUTING, EXPIRED} = {}")
    case True
    then have agg: "aggregate_persisted_statuses ss = aggregate_plan_status cs"
      using pend by (simp add: aggregate_persisted_statuses_def Let_def cs_def [symmetric])
    show ?thesis
      unfolding agg aggregate_plan_success aggregate_plan_partial some mem done_all [OF True] empty [OF True]
      using True by blast
  next
    case False
    then show ?thesis
      using some pend by (auto simp: aggregate_persisted_statuses_def Let_def cs_def [symmetric])
  qed
qed


section \<open>Two runs the store does not handle\<close>

lemma operations_of_update_op_rows:
  "set (operations_of (update_op i j f u) i) \<subseteq>
     f ` {q \<in> set (ps_ops u). or_plan_id q = i \<and> or_operation_id q = j}
     \<union> {q \<in> set (ps_ops u). or_plan_id q = i \<and> or_operation_id q \<noteq> j}"
  by (auto simp: operations_of_def update_op_def in_sql_update)

lemma aggregate_all_already:
  assumes "ss \<noteq> []" "\<forall>s \<in> set ss. s = ALREADY_APPLIED"
  shows "aggregate_persisted_statuses ss = ALREADY_APPLIED"
proof -
  have "List.map_filter apply_status_of ss = map (\<lambda>_. apply_status.ALREADY_APPLIED) ss"
    using assms(2) by (induction ss) (simp_all add: List.map_filter_def)
  moreover have "\<not> list_ex (\<lambda>s. apply_status_of s = None) ss"
    using assms(2) by (auto simp: list_ex_iff)
  ultimately show ?thesis
    using assms(1)
    by (simp add: aggregate_persisted_statuses_def aggregate_plan_status_def list_all_iff success_def)
qed

text \<open>
  The last receipt of a plan whose operations all turn out to be already applied is
  refused. Once an earlier \<open>ALREADY_APPLIED\<close> receipt has made the plan \<open>PARTIAL\<close>, the aggregate
  of the last one is \<open>ALREADY_APPLIED\<close>, a transition the table does not allow from \<open>PARTIAL\<close>:
  \<open>record_receipt\<close> raises, and the operation that was just reported stays \<open>EXECUTING\<close>.
\<close>

theorem last_already_applied_receipt_raises:
  assumes "prepare s = Inr u" "plan_row_for u i = Some p" "pr_status p = PARTIAL"
    and "op_row_for u i j = Some r"
    and "rc_plan_id rc = Some i" "rc_operation_id rc = Some j" "rc_status rc = apply_status.ALREADY_APPLIED"
    and "\<forall>q \<in> set (ps_ops u). or_plan_id q = i \<and> or_operation_id q \<noteq> j \<longrightarrow> or_status q = ALREADY_APPLIED"
  shows "\<exists>e t. record_receipt s rc ow tk now = (Inl e, t) \<and> (t = s \<or> t = u)"
proof -
  obtain x t where c: "record_receipt s rc ow tk now = (x, t)" by fastforce
  then show ?thesis
  proof (cases rule: record_receipt_run)
    case (failed e)
    then show ?thesis using c assms(1) by auto
  next
    case (recorded u' i' j' p' r')
    then have eqs: "u' = u" "i' = i" "j' = j" "p' = p" using assms(1,2,5,6) by simp_all
    let ?ss = "map or_status (operations_of (update_op i j (finish_attempt rc) u) i)"
    have "\<forall>q \<in> set (operations_of (update_op i j (finish_attempt rc) u) i). or_status q = ALREADY_APPLIED"
      using operations_of_update_op_rows [of i j "finish_attempt rc" u] assms(7,8)
      by (fastforce simp: finish_attempt_def)
    then have "aggregate_persisted_statuses ?ss = ALREADY_APPLIED"
      using operations_of_update_op [of "finish_attempt rc" u i j] assms(4)
      by (intro aggregate_all_already) auto
    then show ?thesis
      using recorded(11) assms(3) unfolding eqs settled_status_def by (simp add: can_transition_def)
  qed
qed


definition store_second :: plan_store where
  "store_second = snd (claim_operation store_recorded ''wp_1'' ''b'' (Some ''o'') ''t2'' 30 9)"

theorem last_already_applied_receipt_raises_witness:
  "fst (claim_operation store_recorded ''wp_1'' ''b'' (Some ''o'') ''t2'' 30 9) = Inr 1 \<and>
   (\<exists>e. record_receipt store_second (sample_receipt apply_status.ALREADY_APPLIED ''b'' 1)
     (Some ''o'') (Some ''t2'') 10 = (Inl e, store_second))"
proof -
  have a: "fst (claim_operation store_recorded ''wp_1'' ''b'' (Some ''o'') ''t2'' 30 9) = Inr 1"
    "prepare store_second = Inr store_second"
    "map_option pr_status (plan_row_for store_second ''wp_1'') = Some PARTIAL"
    "op_row_for store_second ''wp_1'' ''b'' \<noteq> None"
    "\<forall>q \<in> set (ps_ops store_second). or_plan_id q = ''wp_1'' \<and> or_operation_id q \<noteq> ''b''
       \<longrightarrow> or_status q = ALREADY_APPLIED"
    by code_simp+
  then obtain p r where "plan_row_for store_second ''wp_1'' = Some p" "pr_status p = PARTIAL"
    "op_row_for store_second ''wp_1'' ''b'' = Some r" by auto
  from last_already_applied_receipt_raises [OF a(2) this _ _ _ a(5),
      of "sample_receipt apply_status.ALREADY_APPLIED ''b'' 1" "Some ''o''" "Some ''t2''" 10] a(1)
  show ?thesis by (auto simp: sample_receipt_def)
qed

text \<open>
  A run with two reconcilers: operation \<open>a\<close> is applied and its executor dies; the first
  reconciler reads operation \<open>b\<close> as never claimed; a second one authorises it for replay, it
  is dispatched and its outcome is unknown; then the first reconciler writes what it had read.
\<close>

definition store_partial :: plan_store where
  "store_partial = snd (begin_reconcile
     (snd (record_receipt store_dispatched (sample_receipt apply_status.APPLIED ''a'' 1)
       (Some ''o'') (Some ''t'') 8)) ''wp_1'' 100)"

definition retry_receipt :: apply_receipt where
  "retry_receipt = sample_receipt apply_status.RETRYABLE_NOT_APPLIED ''b'' 0"

definition store_redispatched :: plan_store where
  "store_redispatched =
     (let s1 = snd (record_reconciliation_receipt store_partial retry_receipt 101);
          s2 = snd (claim_plan s1 ''wp_1'' ''o2'' 30 True 102)
      in snd (claim_operation s2 ''wp_1'' ''b'' (Some ''o2'') ''t2'' 30 103))"

definition store_unknown :: plan_store where
  "store_unknown = snd (record_receipt store_redispatched (sample_receipt apply_status.UNKNOWN ''b'' 1)
     (Some ''o2'') (Some ''t2'') 104)"

text \<open>
  C7: a reconciler working from an old snapshot authorises a second dispatch. There is a run
  in which the receipt that reports operation \<open>b\<close> as never claimed is justified when the
  reconciler reads the store, yet the store still accepts it after \<open>b\<close> has been dispatched and
  its outcome is \<open>UNKNOWN\<close>; the plan can then be resumed and \<open>b\<close> is claimed as attempt 2.
  (\<open>record_reconciliation_receipt\<close> compares neither attempt nor status with what was read.)
\<close>

theorem stale_reconciliation_dispatches_twice:
  "store_step\<^sup>*\<^sup>* empty_plan_store store_partial \<and> retry_only_unclaimed store_partial retry_receipt \<and>
   store_step\<^sup>*\<^sup>* store_partial store_unknown \<and> op_outcome store_unknown ''b'' = Some UNKNOWN \<and>
   (let (r, s) = record_reconciliation_receipt store_unknown retry_receipt 105;
        s' = snd (claim_plan s ''wp_1'' ''o3'' 30 True 106)
    in r = Inr () \<and> op_outcome s ''b'' = Some RETRYABLE_NOT_APPLIED \<and>
       fst (claim_operation s' ''wp_1'' ''b'' (Some ''o3'') ''t3'' 30 107) = Inr 2)"
proof -
  have retry: "retry_only_unclaimed store_partial retry_receipt"
    unfolding retry_only_unclaimed_def by code_simp
  have claims: "rc_status (sample_receipt apply_status.UNKNOWN i n) \<noteq> apply_status.RETRYABLE_NOT_APPLIED"
    "rc_status (sample_receipt apply_status.APPLIED i n) \<noteq> apply_status.RETRYABLE_NOT_APPLIED" for i n
    by (simp_all add: sample_receipt_def)
  have "store_step\<^sup>*\<^sup>* empty_plan_store store_partial"
    unfolding store_partial_def
    using sample_steps(3) step_receipt [OF prod.collapse [symmetric] claims(2)]
      step_begin_reconcile [OF prod.collapse [symmetric]]
    by (meson rtranclp.rtrancl_into_rtrancl)
  moreover have "store_step\<^sup>*\<^sup>* store_partial store_unknown"
    unfolding store_unknown_def store_redispatched_def Let_def
    using step_reconcile [OF prod.collapse [symmetric] retry] step_claim_plan [OF prod.collapse [symmetric]]
      step_claim_operation [OF prod.collapse [symmetric]] step_receipt [OF prod.collapse [symmetric] claims(1)]
    by (meson rtranclp.rtrancl_into_rtrancl rtranclp.rtrancl_refl)
  moreover have "op_outcome store_unknown ''b'' = Some UNKNOWN" by code_simp
  moreover have "let (r, s) = record_reconciliation_receipt store_unknown retry_receipt 105;
        s' = snd (claim_plan s ''wp_1'' ''o3'' 30 True 106)
    in r = Inr () \<and> op_outcome s ''b'' = Some RETRYABLE_NOT_APPLIED \<and>
       fst (claim_operation s' ''wp_1'' ''b'' (Some ''o3'') ''t3'' 30 107) = Inr 2"
    by code_simp
  ultimately show ?thesis using retry by simp
qed

end
