(* ===== verification/Plan_Persistence.thy ===== *)
theory Plan_Persistence
  imports Plan_Properties
begin

text \<open>
  The persisted form of a plan: saving and loading a plan gives back the same canonical JSON
  (the text its digest is computed from), the schema migration always reaches version 3, and
  plans migrated from the legacy ledger are never executable.
\<close>

section \<open>Canonical dictionaries\<close>

definition canon_dict :: "pydict \<Rightarrow> pydict" where
  "canon_dict d = sort_key fst (map (\<lambda>(k, v). (k, canonicalize v)) d)"

lemma canonicalize_PyDict: "canonicalize (PyDict d) = PyDict (canon_dict d)"
  by (simp add: canon_dict_def)

lemma map_of_sort_key: "distinct (map fst d) \<Longrightarrow> map_of (sort_key fst d) k = map_of d k"
  by (rule map_of_eqI [THEN fun_cong]) (auto simp: map_of_eq_Some_iff distinct_map)

lemma map_of_canon_dict:
  "distinct (map fst d) \<Longrightarrow> map_of (canon_dict d) k = map_option canonicalize (map_of d k)"
  by (simp add: canon_dict_def map_of_sort_key comp_def split_beta map_of_map)

lemma json_value_canonicalize: "json_value (canonicalize v)"
  by (induction v rule: canonicalize.induct) auto

lemma json_dict_canon_dict: "json_dict (canon_dict d)"
  using json_value_canonicalize [of "PyDict d"]
  by (simp add: canonicalize_PyDict json_dict_def del: canonicalize.simps)

lemma thaw_freeze_canon [simp]: "thaw_mapping (freeze_mapping (canon_dict d)) = canon_dict d"
  by (rule thaw_freeze_mapping) (rule json_dict_canon_dict)

lemma canonicalize_canon_dict: "canonicalize (PyDict (canon_dict d)) = canonicalize (PyDict d)"
  using canonicalize_idem [of "PyDict d"] by (simp add: canonicalize_PyDict del: canonicalize.simps)

lemma canonicalize_opt_str [simp]: "canonicalize (opt_str s) = opt_str s"
  by (cases s) (simp_all add: opt_str_def)

lemma py_str_option_opt_str [simp]: "py_str_option (Some (opt_str s)) = Some s"
  by (cases s) (simp_all add: opt_str_def py_str_option_def)

lemma py_str_list_PyStr [simp]: "py_str_list (map PyStr ss) = Some ss"
  by (induction ss) (simp_all add: py_str_of_def)

section \<open>Loading what was saved\<close>

text \<open>The operation that comes back: its mappings are sorted by key.\<close>

definition reloaded :: "operation_plan \<Rightarrow> operation_plan" where
  "reloaded o' = o'\<lparr>op_target := freeze_mapping (canon_dict (thaw_mapping (op_target o'))),
     op_expected_state := freeze_mapping (canon_dict (thaw_mapping (op_expected_state o'))),
     op_desired_state := freeze_mapping (canon_dict (thaw_mapping (op_desired_state o')))\<rparr>"

lemma distinct_operation_keys: "distinct (map fst (operation_to_dict o'))"
  by (simp add: operation_to_dict_def)

lemma operation_of_saved:
  assumes "op_operation_id o' \<noteq> []" "op_kind o' \<noteq> []"
  shows "operation_of_dict (canonicalize (PyDict (operation_to_dict o'))) = Inr (reloaded o')"
proof -
  have get: "py_get (canonicalize (PyDict (operation_to_dict o'))) k =
      map_option canonicalize (map_of (operation_to_dict o') k)" for k
    by (simp add: canonicalize_PyDict map_of_canon_dict distinct_operation_keys del: canonicalize.simps)
  have deps: "map canonicalize (map PyStr ss) = map PyStr ss" for ss by simp
  show ?thesis
    unfolding operation_of_dict_def get
    using assms deps
    by (simp add: operation_to_dict_def depends_on_of_def make_operation_plan_def reloaded_def
        canonicalize_PyDict del: canonicalize.simps(1) map_map)
qed

lemma canonicalize_reloaded:
  "canonicalize (PyDict (operation_to_dict (reloaded o'))) = canonicalize (PyDict (operation_to_dict o'))"
proof -
  have "map (\<lambda>(k, v). (k, canonicalize v)) (operation_to_dict (reloaded o')) =
      map (\<lambda>(k, v). (k, canonicalize v)) (operation_to_dict o')"
    by (simp add: operation_to_dict_def reloaded_def canonicalize_canon_dict del: canonicalize.simps(1))
  then show ?thesis by simp
qed

lemma reloaded_keys [simp]:
  "op_operation_id (reloaded o') = op_operation_id o'" "op_kind (reloaded o') = op_kind o'"
  "op_depends_on (reloaded o') = op_depends_on o'"
  by (simp_all add: reloaded_def)

lemma check_operations_reloaded: "check_operations seen (map reloaded ops) = check_operations seen ops"
  by (induction ops arbitrary: seen) (simp_all add: Let_def)

lemma rehydrate_saved:
  assumes "\<forall>o' \<in> set ops. op_operation_id o' \<noteq> [] \<and> op_kind o' \<noteq> []"
    and "map or_payload_json rows = map (\<lambda>o'. canonicalize (PyDict (operation_to_dict o'))) ops"
  shows "rehydrate_operations rows = Inr (map reloaded ops)"
  using assms
proof (induction rows arbitrary: ops)
  case (Cons r rows)
  then obtain o' os where "ops = o' # os"
    "or_payload_json r = canonicalize (PyDict (operation_to_dict o'))"
    "map or_payload_json rows = map (\<lambda>o'. canonicalize (PyDict (operation_to_dict o'))) os"
    by (cases ops) auto
  then show ?case using Cons.IH [of os] Cons.prems(1) by (simp add: operation_of_saved del: canonicalize.simps)
qed simp

lemma operations_of_saved:
  assumes "store_inv u" "insertable p u"
  shows "operations_of (insert_plan p u) (wp_plan_id p) = plan_op_rows p"
proof -
  have "filter (\<lambda>r. or_plan_id r = wp_plan_id p) (ps_ops u) = []"
    using assms by (auto simp: filter_empty_conv store_inv_def insertable_def)
  moreover have "filter (\<lambda>r. or_plan_id r = wp_plan_id p) (plan_op_rows p) = plan_op_rows p"
    using plan_op_rows_keys by (auto simp: filter_id_conv)
  moreover have "map or_ordinal (plan_op_rows p) = [0..<length (wp_operations p)]"
    by (auto simp: plan_op_rows_def op_row_of_def enumerate_eq_zip intro!: nth_equalityI)
  ultimately show ?thesis
    by (simp add: operations_of_def insert_plan_def sort_key_id_if_sorted)
qed

lemma graph_target_saved:
  "graph_target_of_dict (canonicalize (PyDict (graph_target_to_dict g))) = Some g"
proof -
  have "py_get (canonicalize (PyDict (graph_target_to_dict g))) k =
      map_option canonicalize (map_of (graph_target_to_dict g) k)" for k
    by (simp add: canonicalize_PyDict map_of_canon_dict graph_target_to_dict_def del: canonicalize.simps)
  then show ?thesis
    by (simp add: graph_target_of_dict_def graph_target_to_dict_def del: canonicalize.simps(1))
qed


lemma row_of_saved:
  assumes "insertable p u"
  shows "plan_row_for (insert_plan p u) (wp_plan_id p) = Some (plan_row_of p)"
proof -
  have "sql_fetchone (\<lambda>r. pr_plan_id r = wp_plan_id p) (ps_plans u) = None"
    using assms unfolding sql_fetchone_None insertable_def plan_ids_def by (metis image_eqI list.set_map)
  then show ?thesis
    by (simp add: plan_row_for_def insert_plan_def sql_fetchone_append plan_row_of_def row_simps)
qed

text \<open>
  C5: save/load round trip. A plan that \<open>save_plan\<close> stores (with a non-legacy tool and
  non-empty operation ids and kinds, which the constructors enforce) is loaded back by
  \<open>get_plan\<close> as a plan with the same canonical JSON text, whatever else the store holds: target,
  principal, digest, dates, status, every operation with its states, dependencies and key.
\<close>

theorem saved_plan_loads_back:
  assumes "store_inv s" "save_plan s p = (Inr (), t)"
    and "make_write_plan p = Inr p" "\<not> legacy_id (wp_plan_id p)" "wp_tool_name p \<noteq> ''legacy''"
    and "\<forall>o' \<in> set (wp_operations p). op_operation_id o' \<noteq> [] \<and> op_kind o' \<noteq> []"
  shows "\<exists>q. get_plan t (wp_plan_id p) = (Inr (Some q), t) \<and>
    canonical_plan_json q = canonical_plan_json p"
proof -
  have "\<exists>u. prepared u \<and> store_inv u \<and> insertable p u \<and> t = insert_plan p u"
    using assms(2) unfolding save_plan_def
  proof (cases rule: with_prepared_cases)
    case (run u)
    then have "insertable p u \<and> t = insert_plan p u"
      using assms(4) by (auto simp: Let_def insertable_def insert_plan_def plan_ids_def op_ids_def
          op_slots_def split: if_splits)
    then show ?thesis using run(2) store_inv_extension [OF run(3) assms(1)] by blast
  qed auto
  then obtain u where u: "prepared u" "store_inv u" "insertable p u" "t = insert_plan p u" by blast
  have prep: "prepared t"
    using u(1) by (auto simp: u(4) prepared_def legacy_done_def legacy_present_def insert_plan_def
        plan_ids_def op_ids_def op_slots_def)
  have row: "plan_row_for t (wp_plan_id p) = Some (plan_row_of p)"
    unfolding u(4) by (rule row_of_saved [OF u(3)])
  let ?q = "p\<lparr>wp_operations := map reloaded (wp_operations p)\<rparr>"
  have ops: "map or_payload_json (plan_op_rows p) =
      map (\<lambda>o'. canonicalize (PyDict (operation_to_dict o'))) (wp_operations p)"
    by (auto simp: plan_op_rows_def op_row_of_def enumerate_eq_zip simp del: canonicalize.simps
        intro!: nth_equalityI)
  have mk: "make_write_plan ?q = Inr ?q"
    using assms(3) by (auto simp: make_write_plan_def check_operations_reloaded
        split: if_splits option.splits)
  have "\<lparr>wp_plan_id = wp_plan_id p, wp_tool_name = wp_tool_name p, wp_graph_target = wp_graph_target p,
      wp_principal = wp_principal p, wp_operations = map reloaded (wp_operations p),
      wp_payload_digest = wp_payload_digest p, wp_schema_fingerprint = wp_schema_fingerprint p,
      wp_status = wp_status p, wp_created_at = wp_created_at p, wp_expires_at = wp_expires_at p\<rparr> = ?q"
    by simp
  note mk = mk [folded this]
  have rec: "rehydrate_plan \<lparr>rec_plan = plan_row_of p, rec_operations = plan_op_rows p\<rparr> = Inr (Some ?q)"
    using assms(5) rehydrate_saved [OF assms(6) ops] mk
    by (simp add: rehydrate_plan_def Let_def plan_row_of_def graph_target_saved del: canonicalize.simps)
  have "get_plan t (wp_plan_id p) = (Inr (Some ?q), t)"
    using prep row operations_of_saved [OF u(2,3)] rec
    by (simp add: get_plan_prepared select_plan_record_def u(4))
  moreover have "canonical_plan_json ?q = canonical_plan_json p"
    by (simp add: canonical_plan_json_def write_plan_to_dict_def canonicalize_reloaded comp_def
        del: canonicalize.simps(1)) (use canonicalize_reloaded in simp)
  ultimately show ?thesis by blast
qed


theorem saved_plan_loads_back_witness:
  "\<exists>q. get_plan store_saved ''wp_1'' = (Inr (Some q), store_saved) \<and>
     canonical_plan_json q = canonical_plan_json sample_plan"
proof -
  have mk: "make_write_plan sample_plan = Inr sample_plan" by code_simp
  show ?thesis
    using saved_plan_loads_back [OF store_inv_fresh [OF fresh_empty] sample_runs(1) mk]
    by (simp add: sample_plan_def sample_op_def legacy_id_def)
qed

section \<open>Migrations\<close>

definition v3_plan_columns :: "string list" where
  "v3_plan_columns = v1_plan_columns @ [''lease_owner'', ''lease_expires_at'']"

definition v3_operation_columns :: "string list" where
  "v3_operation_columns = v1_operation_columns @ [''attempt_token'', ''reconciled'']"

text \<open>The tables an older version of the store left behind.\<close>

definition known_schema :: "schema_state \<Rightarrow> bool" where
  "known_schema s \<longleftrightarrow>
     ss_user_version s \<le> 0 \<and> ss_plan_columns s = [] \<and> ss_operation_columns s = [] \<or>
     ss_user_version s = 1 \<and> ss_plan_columns s = v1_plan_columns \<and> ss_operation_columns s = v1_operation_columns \<or>
     ss_user_version s = 2 \<and> ss_plan_columns s = v3_plan_columns
       \<and> ss_operation_columns s = v1_operation_columns @ [''attempt_token''] \<or>
     ss_user_version s = 3 \<and> ss_plan_columns s = v3_plan_columns \<and> ss_operation_columns s = v3_operation_columns"

text \<open>
  C6: schema migration. From an empty database file and from each of the schema versions the
  store ever wrote, preparation reaches version 3 with exactly the columns the statements use,
  and preparing the result again changes nothing.
\<close>

theorem migration_reaches_current_schema:
  assumes "known_schema (ps_schema s)"
  shows "\<exists>t. prepare s = Inr t \<and> ss_user_version (ps_schema t) = SCHEMA_VERSION \<and>
    ss_plan_columns (ps_schema t) = v3_plan_columns \<and>
    ss_operation_columns (ps_schema t) = v3_operation_columns \<and> prepare t = Inr t"
proof -
  have "ss_user_version (ps_schema s) \<le> SCHEMA_VERSION"
    using assms by (auto simp: known_schema_def SCHEMA_VERSION_def)
  then obtain t where t: "prepare s = Inr t" "ps_schema t = migrate_schema (ps_schema s)"
    by (auto simp: prepare_def)
  have "ss_plan_columns (migrate_schema (ps_schema s)) = v3_plan_columns"
    "ss_operation_columns (migrate_schema (ps_schema s)) = v3_operation_columns"
    using assms
    by (auto simp: known_schema_def migrate_schema_def ensure_v1_schema_def add_column_def Let_def
        v3_plan_columns_def v3_operation_columns_def v1_plan_columns_def v1_operation_columns_def)
  moreover have "prepared t" using t(1) by (rule prepare_prepared)
  ultimately show ?thesis
    using t prepared_prepare [of t] by (auto simp: prepared_def)
qed

theorem migration_reaches_current_schema_witness:
  "\<exists>t. prepare empty_plan_store = Inr t \<and> prepare t = Inr t"
  using migration_reaches_current_schema [of empty_plan_store]
  by (auto simp: known_schema_def empty_plan_store_def)

lemma store_inv_update_plan:
  "(\<And>r. plan_move r (f r)) \<Longrightarrow> store_inv s \<Longrightarrow> store_inv (update_plan i f s)"
  by (rule store_inv_effect [OF effect_plan])

lemma legacy_not_loaded:
  assumes "prepared t" "store_inv t" "legacy_id i"
  shows "get_plan t i = (Inr None, t)" "get_plan_or_raise t i m = (Inl (PlanTransitionError m), t)"
proof -
  have "pr_tool_name p = ''legacy''" if "plan_row_for t i = Some p" for p
    using plan_row_forD [OF that] assms(2,3) by (auto simp: store_inv_def)
  then show "get_plan t i = (Inr None, t)"
    using assms(1) by (auto simp: get_plan_prepared select_plan_record_def rehydrate_plan_def split: option.splits)
  then show "get_plan_or_raise t i m = (Inl (PlanTransitionError m), t)"
    by (simp add: get_plan_or_raise_def)
qed

lemma legacy_raises:
  assumes "prepared u" "store_inv u" "legacy_id i" "\<And>r. plan_move r (f r)"
  shows "get_plan_or_raise (update_plan i f u) i m = (Inl (PlanTransitionError m), update_plan i f u)"
  using assms plan_move_id [OF assms(4)]
  by (intro legacy_not_loaded(2) store_inv_update_plan) (simp_all add: store_simps)

lemma with_prepared_raises:
  assumes "store_inv s" "\<And>u. prepared u \<Longrightarrow> store_inv u \<Longrightarrow> \<exists>e. fst (body u) = Inl e"
  shows "\<exists>e. fst (with_prepared s body) = Inl e"
  using assms(2) prepare_prepared store_inv_extension [OF prepare_extension assms(1)]
  by (cases "prepare s") (auto simp: with_prepared_def)

lemma legacy_transition_raises:
  assumes "store_inv s" "legacy_id i"
  shows "\<exists>e. fst (transition_plan s i ex tg now) = Inl e"
proof (cases "can_transition ex tg")
  case True
  then have "plan_move r (move_status ex tg now r)" for r
    using can_transition_not_issued [of ex] by (cases "tg = ISSUED") (auto simp: move_status_def)
  from legacy_raises [OF _ _ assms(2) this] True show ?thesis
    by (simp add: transition_plan_def) (intro with_prepared_raises [OF assms(1)], simp)
qed (simp add: transition_plan_def)

lemma legacy_claim_raises:
  assumes "store_inv s" "legacy_id i"
  shows "\<exists>e. fst (claim_plan s i ow ls rs now) = Inl e"
proof (cases "ls \<le> 0")
  case False
  show ?thesis
    unfolding claim_plan_def if_not_P [OF False]
  proof (rule with_prepared_raises [OF assms(1)])
    fix u assume u: "prepared u" "store_inv u"
    show "\<exists>e. fst (case plan_row_for u i of
        None \<Rightarrow> (Inl (PlanTransitionError ''plan was not found''), u)
      | Some row \<Rightarrow>
          let claimed = claimable_plan rs (pr_status row) \<and> \<not> lease_active (pr_lease_expires_at row) now;
              s' = (if claimed then update_plan i (grant_lease now ow ls) u else u)
          in (case get_plan_or_raise s' i ''plan disappeared after claim'' of
                (Inl e, s'') \<Rightarrow> (Inl e, s'') | (Inr p, s'') \<Rightarrow> (Inr (p, claimed), s''))) = Inl e"
      using legacy_raises [OF u assms(2), of "grant_lease now ow ls"] legacy_not_loaded(2) [OF u assms(2)]
      by (simp add: Let_def split: option.splits)
  qed
qed (simp add: claim_plan_def)

lemma legacy_reconcile_raises:
  assumes "store_inv s" "legacy_id i"
  shows "\<exists>e. fst (begin_reconcile s i now) = Inl e"
  unfolding begin_reconcile_def
proof (rule with_prepared_raises [OF assms(1)], goal_cases)
  case (1 u)
  then show ?case
    using legacy_raises [OF 1 assms(2), of release_lease] legacy_not_loaded(2) [OF 1 assms(2)]
      legacy_raises [OF 1 assms(2), of "\<lambda>q. release_lease (q\<lparr>pr_status := UNKNOWN\<rparr>)"]
    by (simp add: Let_def split: option.splits)
qed

text \<open>
  Legacy plans are inert. In every reachable state of the store, a plan migrated from the
  legacy confirmation ledger is never loaded as an executable plan, and claiming it, moving its
  status or starting its reconciliation raises.
\<close>

theorem legacy_plans_are_inert:
  assumes "fresh_store s0" "store_step\<^sup>*\<^sup>* s0 s" "legacy_id i"
  shows "(\<nexists>p. fst (get_plan s i) = Inr (Some p)) \<and>
    (\<exists>e. fst (claim_plan s i ow ls rs now) = Inl e) \<and>
    (\<exists>e. fst (transition_plan s i ex tg now) = Inl e) \<and>
    (\<exists>e. fst (begin_reconcile s i now) = Inl e)"
proof -
  have inv: "store_inv s" using outcomes.inv_reachable [OF assms(1,2)] .
  have "\<nexists>p. fst (get_plan s i) = Inr (Some p)"
  proof (cases "prepare s")
    case (Inr u)
    then have u: "prepared u" "store_inv u"
      using prepare_prepared store_inv_extension [OF prepare_extension inv] by auto
    have "get_plan s i = get_plan u i"
      using Inr u(1) by (simp add: get_plan_def get_plan_record_def with_prepared_def prepared_prepare)
    then show ?thesis using legacy_not_loaded(1) [OF u assms(3)] by simp
  qed (simp add: get_plan_def get_plan_record_def with_prepared_def)
  then show ?thesis
    using legacy_claim_raises legacy_transition_raises legacy_reconcile_raises inv assms(3) by blast
qed

definition legacy_ledger :: confirmation_db where
  "legacy_ledger = snd (consume (\<lambda>s. s)
     (snd (issue (\<lambda>s. s) empty_confirmation_db ''n'' ''h'' 100 (Some (PyInt 7)) 0 True)) ''n'' ''h'' 100 50 True)"

definition legacy_store :: plan_store where
  "legacy_store = empty_plan_store\<lparr>ps_legacy := legacy_ledger\<rparr>"

theorem legacy_plans_are_inert_witness:
  "map pr_plan_id (case prepare legacy_store of Inr u \<Rightarrow> ps_plans u) = [''wp_legacy_h''] \<and>
   (\<exists>e. fst (claim_plan legacy_store ''wp_legacy_h'' ''o'' 30 False 60) = Inl e)"
proof -
  have "fresh_store legacy_store" by (simp add: legacy_store_def fresh_store_def empty_plan_store_def)
  moreover have "legacy_id ''wp_legacy_h''" by (simp add: legacy_id_def)
  moreover have "map pr_plan_id (case prepare legacy_store of Inr u \<Rightarrow> ps_plans u) = [''wp_legacy_h'']"
    by code_simp
  ultimately show ?thesis using legacy_plans_are_inert [OF _ rtranclp.rtrancl_refl] by blast
qed

end
