(* ===== verification/Write_Executor.thy ===== *)
theory Write_Executor
  imports Plan_Properties
begin

text \<open>
  \<open>hugegraph_mcp/write_executor.py\<close>: the adapter registry and the executor that confirms,
  resumes and reports a stored plan. The run state holds the plan store, the outside world
  the adapters change and the number of clock readings and store calls made so far. An
  executor is its registry and lease, with the clock, the tokens of \<open>uuid4().hex\<close> and, as
  \<open>ex_others\<close>, what the other processes sharing the database do to it just before each of its
  own transactions. Adapters (in \<open>tools/\<close>) are arbitrary functions of the world; an adapter
  that raises is \<open>Inl\<close> with the exception's class name.
\<close>

section \<open>Running store transactions\<close>

datatype exec_error = StoreRaised store_error | KeyMissing string | AssertionFailed | ReaderRaised string

record 'w run_state =
  xs_store :: plan_store
  xs_world :: 'w
  xs_time :: nat

type_synonym 'w adapter = "'w \<Rightarrow> write_plan \<Rightarrow> operation_plan \<Rightarrow> int \<Rightarrow> (string + apply_receipt) \<times> 'w"

record 'w executor =
  ex_registry :: "(string \<times> 'w adapter) list"
  ex_lease_seconds :: int
  ex_clock :: "nat \<Rightarrow> int"
  ex_token :: "nat \<Rightarrow> string"
  ex_others :: "nat \<Rightarrow> plan_store \<Rightarrow> plan_store"

type_synonym ('w, 'a) run = "'w run_state \<Rightarrow> (exec_error + 'a) \<times> 'w run_state"

definition run_return :: "'a \<Rightarrow> ('w, 'a) run" where
  "run_return x st = (Inr x, st)"

definition run_raise :: "exec_error \<Rightarrow> ('w, 'a) run" where
  "run_raise e st = (Inl e, st)"

definition run_bind :: "('w, 'a) run \<Rightarrow> ('a \<Rightarrow> ('w, 'b) run) \<Rightarrow> ('w, 'b) run" where
  "run_bind m k st = (case m st of (Inl e, st') \<Rightarrow> (Inl e, st') | (Inr x, st') \<Rightarrow> k x st')"

text \<open>One transaction at the current clock reading, after whatever the others did.\<close>

definition transact ::
  "'w executor \<Rightarrow> (int \<Rightarrow> plan_store \<Rightarrow> (store_error + 'a) \<times> plan_store) \<Rightarrow> ('w, store_error + 'a) run" where
  "transact ex f st =
     (let n = xs_time st;
          (r, s) = f (ex_clock ex n) (ex_others ex n (xs_store st))
      in (Inr r, st\<lparr>xs_store := s, xs_time := n + 1\<rparr>))"

definition store_call ::
  "'w executor \<Rightarrow> (int \<Rightarrow> plan_store \<Rightarrow> (store_error + 'a) \<times> plan_store) \<Rightarrow> ('w, 'a) run" where
  "store_call ex f = run_bind (transact ex f)
     (\<lambda>r. case r of Inl e \<Rightarrow> run_raise (StoreRaised e) | Inr x \<Rightarrow> run_return x)"

definition read_clock :: "'w executor \<Rightarrow> ('w, int) run" where
  "read_clock ex st = (Inr (ex_clock ex (xs_time st)), st\<lparr>xs_time := xs_time st + 1\<rparr>)"

definition fresh_token :: "'w executor \<Rightarrow> ('w, string) run" where
  "fresh_token ex st = (Inr (ex_token ex (xs_time st)), st\<lparr>xs_time := xs_time st + 1\<rparr>)"

definition call_adapter ::
  "'w adapter \<Rightarrow> write_plan \<Rightarrow> operation_plan \<Rightarrow> int \<Rightarrow> ('w, string + apply_receipt) run" where
  "call_adapter adapter p o' attempt st =
     (let (r, w) = adapter (xs_world st) p o' attempt in (Inr r, st\<lparr>xs_world := w\<rparr>))"

section \<open>Registry\<close>

definition register_adapter ::
  "string \<Rightarrow> 'w adapter \<Rightarrow> (string \<times> 'w adapter) list \<Rightarrow> value_error + (string \<times> 'w adapter) list" where
  "register_adapter kind adapter registry =
     (if kind = [] then Inl (ValueError ''adapter kind must be non-empty'')
      else Inr (AList.update kind adapter registry))"

definition adapter_for :: "'w executor \<Rightarrow> string \<Rightarrow> 'w adapter option" where
  "adapter_for ex kind = map_of (ex_registry ex) kind"

section \<open>Status\<close>

definition public_receipt :: "pyval \<Rightarrow> pyval" where
  "public_receipt v =
     (case v of PyDict d \<Rightarrow> PyDict (filter (\<lambda>(k, _). k \<noteq> ''attempt_token'') d) | _ \<Rightarrow> v)"

definition public_operation :: "pydict \<Rightarrow> pydict" where
  "public_operation operation =
     map (\<lambda>(k, v). (k, if k = ''receipt'' then public_receipt v else v))
       (filter (\<lambda>(k, _). k \<notin> {''payload'', ''attempt_token'', ''reconciled''}) operation)"

definition public_status :: "plan_record \<Rightarrow> int \<Rightarrow> pydict" where
  "public_status rec now =
     (let public = AList.delete ''payload'' (plan_record_to_dict rec);
          public = AList.update ''operations''
            (PyList (map (\<lambda>r. PyDict (public_operation (operation_record_to_dict r))) (rec_operations rec)))
            public;
          status = pr_status (rec_plan rec);
          public =
            (if status = LEGACY_UNKNOWN
             then AList.update ''reconciliation_required'' (PyBool True)
                    (AList.update ''status'' (PyStr (plan_status_value UNKNOWN)) public)
             else if status = EXECUTING then
               (if \<not> lease_active (pr_lease_expires_at (rec_plan rec)) now
                then AList.update ''reconciliation_required'' (PyBool True)
                       (AList.update ''status'' (PyStr (plan_status_value UNKNOWN)) public)
                else AList.update ''reconciliation_required'' (PyBool False) public)
             else public)
      in AList.delete ''lease_owner'' public)"

definition status :: "'w executor \<Rightarrow> string \<Rightarrow> ('w, reply) run" where
  "status ex plan_id =
     run_bind (store_call ex (\<lambda>now s. get_plan_record s plan_id)) (\<lambda>record.
       case record of
         None \<Rightarrow> run_return (envelope_err NOT_FOUND
           ''No persisted write plan matches this plan_id.'' None False None)
       | Some rec \<Rightarrow> run_bind (read_clock ex) (\<lambda>now. run_return (envelope_ok (PyDict (public_status rec now)))))"

definition confirmation_error_type :: "plan_status \<Rightarrow> error_type" where
  "confirmation_error_type st =
     (case st of PARTIAL \<Rightarrow> PARTIAL_APPLY | CONFLICT \<Rightarrow> WRITE_CONFLICT
      | REJECTED \<Rightarrow> FLOW_EXECUTION_FAILED | EXPIRED \<Rightarrow> PLAN_EXPIRED | _ \<Rightarrow> WRITE_OUTCOME_UNKNOWN)"

text \<open>\<open>PlanStatus(data["status"])\<close>\<close>

definition reported_status :: "pyval \<Rightarrow> plan_status option" where
  "reported_status data =
     Option.bind (py_get data ''status'') (\<lambda>v. Option.bind (py_str_of v) plan_status_of_value)"

definition confirmation_result :: "'w executor \<Rightarrow> string \<Rightarrow> ('w, reply) run" where
  "confirmation_result ex plan_id =
     run_bind (status ex plan_id) (\<lambda>status_result.
       case status_result of
         EnvelopeErr e \<Rightarrow> run_return status_result
       | EnvelopeOk data \<Rightarrow>
           (case reported_status data of
              None \<Rightarrow> run_raise (StoreRaised (StoreValueError ''not a valid PlanStatus''))
            | Some st \<Rightarrow>
                if st \<in> {APPLIED, ALREADY_APPLIED} then run_return status_result
                else run_return (envelope_err (confirmation_error_type st)
                  ''The confirmed write plan did not reach an applied final state.'' None False (Some data))))"

section \<open>Executing a claimed plan\<close>

text \<open>\<open>{operation["operation_id"]: operation["status"] for operation in record["operations"]}\<close>\<close>

definition operation_statuses :: "plan_record \<Rightarrow> string \<Rightarrow> plan_status option" where
  "operation_statuses rec =
     map_of (rev (map (\<lambda>r. (or_operation_id r, or_status r)) (rec_operations rec)))"

definition raised_receipt :: "string \<Rightarrow> operation_plan \<Rightarrow> int \<Rightarrow> string \<Rightarrow> apply_receipt" where
  "raised_receipt plan_id o' attempt exception =
     \<lparr>rc_status = apply_status.UNKNOWN, rc_plan_id = Some plan_id,
      rc_operation_id = Some (op_operation_id o'), rc_observed_state = None,
      rc_reason_code = Some exception, rc_attempt = attempt, rc_attempt_token = None,
      rc_reconciliation_required = True, rc_committed_at = None, rc_operation = None,
      rc_reason = None\<rparr>"

text \<open>Claim, dispatch and record one operation; the value is the receipt that was recorded.\<close>

definition dispatch_operation ::
  "'w executor \<Rightarrow> write_plan \<Rightarrow> string \<Rightarrow> 'w adapter \<Rightarrow> operation_plan \<Rightarrow> ('w, apply_receipt) run" where
  "dispatch_operation ex p owner_token adapter o' =
     run_bind (fresh_token ex) (\<lambda>attempt_token.
     run_bind (store_call ex (\<lambda>now s. claim_operation s (wp_plan_id p) (op_operation_id o')
         (Some owner_token) attempt_token (ex_lease_seconds ex) now)) (\<lambda>attempt.
     run_bind (call_adapter adapter p o' attempt) (\<lambda>outcome.
     let receipt = (case outcome of
           Inl exception \<Rightarrow> raised_receipt (wp_plan_id p) o' attempt exception
         | Inr r \<Rightarrow> r)\<lparr>rc_attempt_token := Some attempt_token\<rparr>
     in run_bind (store_call ex (\<lambda>now s. record_receipt s receipt (Some owner_token)
            (Some attempt_token) now)) (\<lambda>_. run_return receipt))))"

fun run_operations ::
  "'w executor \<Rightarrow> write_plan \<Rightarrow> (string \<Rightarrow> plan_status option) \<Rightarrow> plan_status set \<Rightarrow> string
     \<Rightarrow> operation_plan list \<Rightarrow> ('w, unit) run" where
  "run_operations ex p statuses claimable owner_token [] = run_return ()"
| "run_operations ex p statuses claimable owner_token (o' # os) =
     (case statuses (op_operation_id o') of
        None \<Rightarrow> run_raise (KeyMissing (op_operation_id o'))
      | Some st \<Rightarrow>
          if st \<notin> claimable then run_operations ex p statuses claimable owner_token os
          else (case adapter_for ex (op_kind o') of
              None \<Rightarrow> run_raise AssertionFailed
            | Some adapter \<Rightarrow>
                run_bind (dispatch_operation ex p owner_token adapter o') (\<lambda>receipt.
                  if \<not> success (rc_status receipt) then run_return ()
                  else run_operations ex p statuses claimable owner_token os)))"

definition execute_claimed ::
  "'w executor \<Rightarrow> write_plan \<Rightarrow> plan_status set \<Rightarrow> string \<Rightarrow> ('w, reply) run" where
  "execute_claimed ex p claimable owner_token =
     run_bind (store_call ex (\<lambda>now s. get_plan_record s (wp_plan_id p))) (\<lambda>record.
       case record of
         None \<Rightarrow> run_raise (StoreRaised (PlanTransitionError ''claimed plan disappeared before execution''))
       | Some rec \<Rightarrow>
           run_bind (run_operations ex p (operation_statuses rec) claimable owner_token (wp_operations p))
             (\<lambda>_. confirmation_result ex (wp_plan_id p)))"

section \<open>Confirm and resume\<close>

definition missing_kinds :: "'w executor \<Rightarrow> operation_plan list \<Rightarrow> string list" where
  "missing_kinds ex ops = map op_kind (filter (\<lambda>o'. adapter_for ex (op_kind o') = None) ops)"

definition missing_adapter_reply :: "string \<Rightarrow> string list \<Rightarrow> reply" where
  "missing_adapter_reply message kinds =
     envelope_err FEATURE_DISABLED message None False
       (Some (PyDict [(''missing_operation_kinds'', PyList (map PyStr (sort (remdups kinds))))]))"

definition confirm :: "'w executor \<Rightarrow> string \<Rightarrow> ('w, reply) run" where
  "confirm ex plan_id =
     run_bind (store_call ex (\<lambda>now s. get_plan s plan_id)) (\<lambda>loaded.
       case loaded of
         None \<Rightarrow> run_return (envelope_err NOT_FOUND
           ''No server-issued write plan matches this plan_id.'' None False None)
       | Some p \<Rightarrow>
           run_bind (read_clock ex) (\<lambda>now.
           if now > wp_expires_at p \<and> wp_status p = ISSUED
           then run_bind (store_call ex (\<lambda>now s. transition_plan s plan_id ISSUED EXPIRED now))
                  (\<lambda>_. confirmation_result ex plan_id)
           else let missing = missing_kinds ex (wp_operations p)
             in if missing \<noteq> []
                then run_return (missing_adapter_reply
                  ''The confirmed plan requires an unavailable atomic write adapter.'' missing)
                else
                  run_bind (fresh_token ex) (\<lambda>owner_token.
                  run_bind (transact ex (\<lambda>now s. claim_plan s plan_id owner_token
                      (ex_lease_seconds ex) False now)) (\<lambda>claim.
                  case claim of
                    Inl (PlanTransitionError m) \<Rightarrow> confirmation_result ex plan_id
                  | Inl e \<Rightarrow> run_raise (StoreRaised e)
                  | Inr (claimed_plan, claimed) \<Rightarrow>
                      if \<not> claimed then confirmation_result ex plan_id
                      else execute_claimed ex claimed_plan {ISSUED} owner_token))))"

text \<open>A plan may be resumed when all that is left is reconciled as not applied.\<close>

definition resumable :: "write_plan \<Rightarrow> plan_record \<Rightarrow> bool" where
  "resumable p rec \<longleftrightarrow>
     (let statuses = or_status ` set (rec_operations rec)
      in wp_status p \<in> {RETRYABLE_NOT_APPLIED, PARTIAL} \<and> RETRYABLE_NOT_APPLIED \<in> statuses \<and>
         statuses \<subseteq> {APPLIED, ALREADY_APPLIED, RETRYABLE_NOT_APPLIED} \<and>
         (\<forall>r \<in> set (rec_operations rec). or_status r = RETRYABLE_NOT_APPLIED \<longrightarrow> or_reconciled r))"

definition resume :: "'w executor \<Rightarrow> string \<Rightarrow> ('w, reply) run" where
  "resume ex plan_id =
     run_bind (store_call ex (\<lambda>now s. get_plan s plan_id)) (\<lambda>loaded.
     run_bind (store_call ex (\<lambda>now s. get_plan_record s plan_id)) (\<lambda>record.
       case (loaded, record) of
         (Some p, Some rec) \<Rightarrow>
           if \<not> resumable p rec
           then run_raise (StoreRaised (PlanTransitionError
             ''resume requires reconciled operations whose remaining state is RETRYABLE_NOT_APPLIED''))
           else (case List.find (\<lambda>o'. operation_statuses rec (op_operation_id o') = None) (wp_operations p) of
             Some o' \<Rightarrow> run_raise (KeyMissing (op_operation_id o'))
           | None \<Rightarrow>
             let missing = missing_kinds ex (filter (\<lambda>o'. operation_statuses rec (op_operation_id o')
                             = Some RETRYABLE_NOT_APPLIED) (wp_operations p))
             in if missing \<noteq> []
                then run_return (missing_adapter_reply
                  ''The reconciled plan requires an unavailable atomic write adapter.'' missing)
                else
                  run_bind (fresh_token ex) (\<lambda>owner_token.
                  run_bind (store_call ex (\<lambda>now s. claim_plan s plan_id owner_token
                      (ex_lease_seconds ex) True now)) (\<lambda>(claimed_plan, claimed).
                  if \<not> claimed
                  then run_raise (StoreRaised (PlanTransitionError
                    ''resumable plan could not be exclusively leased''))
                  else execute_claimed ex claimed_plan {RETRYABLE_NOT_APPLIED} owner_token)))
       | _ \<Rightarrow> run_raise (StoreRaised (PlanTransitionError
           ''resume requires a reconciled RETRYABLE_NOT_APPLIED plan''))))"

section \<open>Entry points\<close>

definition LEASE_SAFETY_MARGIN_SECONDS :: int where "LEASE_SAFETY_MARGIN_SECONDS = 5"

text \<open>
  \<open>confirm_write\<close> and \<open>get_write_status\<close>: reading the configuration and opening the store either
  raises (the class name) or gives the write timeout in seconds.
\<close>

definition store_unavailable_reply :: "string \<Rightarrow> reply" where
  "store_unavailable_reply exception =
     envelope_err SERVER_ERROR ''The durable plan store is unavailable.'' None False
       (Some (PyDict [(''reason'', PyStr exception)]))"

definition confirm_write :: "'w executor \<Rightarrow> string + rat \<Rightarrow> string \<Rightarrow> ('w, reply) run" where
  "confirm_write ex config plan_id =
     (case config of
        Inl exception \<Rightarrow> run_return (store_unavailable_reply exception)
      | Inr write_timeout_seconds \<Rightarrow>
          confirm (ex\<lparr>ex_lease_seconds := \<lceil>write_timeout_seconds\<rceil> + LEASE_SAFETY_MARGIN_SECONDS\<rparr>) plan_id)"

definition get_write_status :: "'w executor \<Rightarrow> string + rat \<Rightarrow> string \<Rightarrow> ('w, reply) run" where
  "get_write_status ex config plan_id =
     (case config of
        Inl exception \<Rightarrow> run_return (store_unavailable_reply exception)
      | Inr write_timeout_seconds \<Rightarrow> status ex plan_id)"

text \<open>
  Triples over executor runs: \<open>run_ok P m Q E\<close> says that from a state satisfying \<open>P\<close> the run \<open>m\<close>
  ends normally in \<open>Q\<close> or raises in \<open>E\<close>. The rules are collected in \<open>run_rules\<close>, so that a
  triple of a composed run is proved by \<open>intro run_rules\<close>.
\<close>

named_theorems run_rules \<open>introduction rules of run triples\<close>

definition run_ok ::
  "('w run_state \<Rightarrow> bool) \<Rightarrow> ('w, 'a) run \<Rightarrow> ('a \<Rightarrow> 'w run_state \<Rightarrow> bool) \<Rightarrow> ('w run_state \<Rightarrow> bool) \<Rightarrow> bool" where
  "run_ok P m Q E \<longleftrightarrow>
     (\<forall>st. P st \<longrightarrow> (case m st of (Inl e, st') \<Rightarrow> E st' | (Inr x, st') \<Rightarrow> Q x st'))"

text \<open>An invariant of a run, raising or not.\<close>

abbreviation run_keeps :: "('w run_state \<Rightarrow> bool) \<Rightarrow> ('w, 'a) run \<Rightarrow> bool" where
  "run_keeps I m \<equiv> run_ok I m (\<lambda>_. I) I"

lemma run_keepsD: "run_keeps I m \<Longrightarrow> I st \<Longrightarrow> I (snd (m st))"
  unfolding run_ok_def by (cases "m st" rule: prod.exhaust; cases "fst (m st)") force+

lemma run_return_ok [run_rules]: "run_keeps I (run_return x)"
  by (simp add: run_ok_def run_return_def)

lemma run_raise_ok [run_rules]: "run_keeps I (run_raise e)"
  by (simp add: run_ok_def run_raise_def)

lemma run_bind_ok:
  assumes "run_ok P m R E" "\<And>x. run_ok (R x) (k x) Q E"
  shows "run_ok P (run_bind m k) Q E"
  unfolding run_ok_def
proof (intro allI impI)
  fix st assume P: "P st"
  obtain r st' where m: "m st = (r, st')" by fastforce
  show "case run_bind m k st of (Inl e, st') \<Rightarrow> E st' | (Inr x, st') \<Rightarrow> Q x st'"
  proof (cases r)
    case (Inl e)
    then show ?thesis using P m assms(1) by (auto simp: run_bind_def run_ok_def)
  next
    case (Inr x)
    then have "R x st'" using P m assms(1) by (auto simp: run_ok_def)
    then show ?thesis using Inr m assms(2) [of x] by (simp add: run_bind_def run_ok_def)
  qed
qed

lemma run_keeps_bind [run_rules]:
  "run_keeps I m \<Longrightarrow> (\<And>x. run_keeps I (k x)) \<Longrightarrow> run_keeps I (run_bind m k)"
  by (rule run_bind_ok)

text \<open>A run whose value satisfies \<open>\<phi>\<close>.\<close>

lemma run_keeps_bind_value:
  assumes "run_ok I m (\<lambda>x st. I st \<and> \<phi> x) I" "\<And>x. \<phi> x \<Longrightarrow> run_keeps I (k x)"
  shows "run_keeps I (run_bind m k)"
  by (rule run_bind_ok [OF assms(1)]) (use assms(2) in \<open>auto simp: run_ok_def\<close>)

lemma run_keeps_case_option [run_rules]:
  "run_keeps I a \<Longrightarrow> (\<And>x. run_keeps I (b x)) \<Longrightarrow> run_keeps I (case v of None \<Rightarrow> a | Some x \<Rightarrow> b x)"
  by (cases v) auto

lemma run_keeps_case_sum [run_rules]:
  "(\<And>x. run_keeps I (a x)) \<Longrightarrow> (\<And>x. run_keeps I (b x)) \<Longrightarrow> run_keeps I (case v of Inl x \<Rightarrow> a x | Inr x \<Rightarrow> b x)"
  by (cases v) auto

lemma run_keeps_case_prod [run_rules]:
  "(\<And>x y. run_keeps I (a x y)) \<Longrightarrow> run_keeps I (case v of (x, y) \<Rightarrow> a x y)"
  by (cases v) auto

lemma run_keeps_case_reply [run_rules]:
  "(\<And>x. run_keeps I (a x)) \<Longrightarrow> (\<And>x. run_keeps I (b x)) \<Longrightarrow>
     run_keeps I (case v of EnvelopeOk x \<Rightarrow> a x | EnvelopeErr x \<Rightarrow> b x)"
  by (cases v) auto

lemma run_keeps_case_store_error [run_rules]:
  "(\<And>x. run_keeps I (a x)) \<Longrightarrow> (\<And>x. run_keeps I (b x)) \<Longrightarrow> (\<And>x. run_keeps I (c x)) \<Longrightarrow>
   run_keeps I d \<Longrightarrow> run_keeps I e \<Longrightarrow>
     run_keeps I (case v of PlanTransitionError x \<Rightarrow> a x | PlanStoreUnavailableError x \<Rightarrow> b x
       | StoreValueError x \<Rightarrow> c x | IntegrityError \<Rightarrow> d | MalformedRow \<Rightarrow> e)"
  by (cases v) auto

lemma run_keeps_if [run_rules]:
  "(b \<Longrightarrow> run_keeps I m) \<Longrightarrow> (\<not> b \<Longrightarrow> run_keeps I n) \<Longrightarrow> run_keeps I (if b then m else n)"
  by simp

lemma run_keeps_Let [run_rules]: "(\<And>x. x = v \<Longrightarrow> run_keeps I (k x)) \<Longrightarrow> run_keeps I (let x = v in k x)"
  by (simp add: Let_def)

text \<open>Invariants of the store and the world only.\<close>

definition state_inv :: "(plan_store \<Rightarrow> 'w \<Rightarrow> bool) \<Rightarrow> 'w run_state \<Rightarrow> bool" where
  "state_inv J st \<longleftrightarrow> J (xs_store st) (xs_world st)"

lemma read_clock_keeps [run_rules]: "run_keeps (state_inv J) (read_clock ex)"
  by (simp add: run_ok_def read_clock_def state_inv_def)

lemma fresh_token_keeps [run_rules]: "run_keeps (state_inv J) (fresh_token ex)"
  by (simp add: run_ok_def fresh_token_def state_inv_def)

text \<open>A transaction keeps what the others and the store method keep.\<close>

definition others_keep :: "'w executor \<Rightarrow> (plan_store \<Rightarrow> 'w \<Rightarrow> bool) \<Rightarrow> bool" where
  "others_keep ex J \<longleftrightarrow> (\<forall>n s w. J s w \<longrightarrow> J (ex_others ex n s) w)"

lemma transact_ok:
  assumes "others_keep ex J" "\<And>now s w. J s w \<Longrightarrow> J' (fst (f now s)) (snd (f now s)) w"
  shows "run_ok (state_inv J) (transact ex f) (\<lambda>r. state_inv (J' r)) E"
  using assms by (auto simp: run_ok_def transact_def state_inv_def Let_def others_keep_def split: prod.splits)
    (metis fst_conv snd_conv)

lemma store_call_keeps:
  assumes "others_keep ex J" "\<And>now s w. J s w \<Longrightarrow> J (snd (f now s)) w"
  shows "run_keeps (state_inv J) (store_call ex f)"
  unfolding store_call_def
  by (rule run_bind_ok [OF transact_ok [where J' = "\<lambda>_. J", OF assms]]) (auto intro!: run_rules)

end
