(* ===== verification/Executor_Properties.thy ===== *)
theory Executor_Properties
  imports Write_Executor Plan_Shape
begin

text \<open>
  Properties of the write executor: it drives the store only through its protocol, dispatches
  nothing for a plan that was started before or has expired, runs operations in order and stops
  at the first that is not applied, and its status replies carry no token.
\<close>

section \<open>Store methods inside runs\<close>

definition honest_adapter :: "'w adapter \<Rightarrow> bool" where
  "honest_adapter ad \<longleftrightarrow>
     (\<forall>w p o' a rc w'. ad w p o' a = (Inr rc, w') \<longrightarrow> rc_status rc \<noteq> apply_status.RETRYABLE_NOT_APPLIED)"

text \<open>The other processes run store methods; no adapter reports \<open>RETRYABLE_NOT_APPLIED\<close>.\<close>

definition honest :: "'w executor \<Rightarrow> bool" where
  "honest ex \<longleftrightarrow> (\<forall>n s. store_step\<^sup>*\<^sup>* s (ex_others ex n s)) \<and>
     (\<forall>kind ad. adapter_for ex kind = Some ad \<longrightarrow> honest_adapter ad)"

text \<open>A predicate every step of the store keeps, whatever the world.\<close>

definition step_closed :: "(plan_store \<Rightarrow> 'w \<Rightarrow> bool) \<Rightarrow> bool" where
  "step_closed J \<longleftrightarrow> (\<forall>s t w. J s w \<longrightarrow> store_step s t \<longrightarrow> J t w)"

lemma step_closed_steps:
  assumes "step_closed J" "store_step\<^sup>*\<^sup>* s t" "J s w"
  shows "J t w"
  using assms(2,3)
proof (induction rule: rtranclp_induct)
  case (step y z)
  then have "J y w" by simp
  then show ?case using assms(1) step.hyps(2) by (simp add: step_closed_def)
qed

lemma get_plan_record_step: "store_step\<^sup>*\<^sup>* s (snd (get_plan_record s i))"
  by (auto simp: get_plan_record_def with_prepared_def split: sum.splits intro: step_prepare)

lemma get_plan_state: "snd (get_plan s i) = snd (get_plan_record s i)"
  by (auto simp: get_plan_def split: prod.splits sum.splits option.splits)

lemma get_plan_step: "store_step\<^sup>*\<^sup>* s (snd (get_plan s i))"
  by (simp add: get_plan_state get_plan_record_step)

lemma others_keep_honest:
  assumes "honest ex" "step_closed J"
  shows "others_keep ex J"
  unfolding others_keep_def
proof (intro allI impI)
  fix n s w assume "J s w"
  moreover have "store_step\<^sup>*\<^sup>* s (ex_others ex n s)" using assms(1) by (simp add: honest_def)
  ultimately show "J (ex_others ex n s) w" using step_closed_steps [OF assms(2)] by blast
qed

lemma store_call_steps:
  assumes "honest ex" "step_closed J" "\<And>now s. store_step\<^sup>*\<^sup>* s (snd (f now s))"
  shows "run_keeps (state_inv J) (store_call ex f)"
proof (rule store_call_keeps)
  show "others_keep ex J" by (rule others_keep_honest [OF assms(1,2)])
qed (rule step_closed_steps [OF assms(2,3)])

lemma store_call_methods [run_rules]:
  assumes "honest ex" "step_closed J"
  shows "run_keeps (state_inv J) (store_call ex (\<lambda>now s. get_plan_record s i))"
    "run_keeps (state_inv J) (store_call ex (\<lambda>now s. get_plan s i))"
    "run_keeps (state_inv J) (store_call ex (\<lambda>now s. transition_plan s i e tg now))"
    "run_keeps (state_inv J) (store_call ex (\<lambda>now s. claim_plan s i ow ls rs now))"
    "run_keeps (state_inv J) (store_call ex (\<lambda>now s. claim_operation s i j ow' tk ls now))"
  by (rule store_call_steps [OF assms], rule get_plan_record_step get_plan_step r_into_rtranclp,
      (rule step_transition step_claim_plan step_claim_operation, rule prod.collapse [symmetric])?)+

lemma store_call_receipt [run_rules]:
  assumes "honest ex" "step_closed J" "rc_status rc \<noteq> apply_status.RETRYABLE_NOT_APPLIED"
  shows "run_keeps (state_inv J) (store_call ex (\<lambda>now s. record_receipt s rc ow' tk' now))"
  by (rule store_call_steps [OF assms(1,2)], rule r_into_rtranclp, rule step_receipt)
    (rule prod.collapse [symmetric], rule assms(3))

lemma transact_claim:
  assumes "honest ex" "step_closed J"
  shows "run_keeps (state_inv J) (transact ex (\<lambda>now s. claim_plan s i ow ls rs now))"
proof (rule transact_ok [where J' = "\<lambda>_. J"])
  show "others_keep ex J" by (rule others_keep_honest [OF assms(1,2)])
  show "J (snd (claim_plan s i ow ls rs now)) w" if "J s w" for now s w
    using step_closed_steps [OF assms(2) _ that] step_claim_plan [OF prod.collapse [symmetric]] by blast
qed

section \<open>Invariants of whole runs\<close>

lemma status_keeps [run_rules]:
  assumes "honest ex" "step_closed J"
  shows "run_keeps (state_inv J) (status ex i)"
  unfolding status_def by (intro run_rules assms)

lemma confirmation_result_keeps [run_rules]:
  assumes "honest ex" "step_closed J"
  shows "run_keeps (state_inv J) (confirmation_result ex i)"
  unfolding confirmation_result_def by (intro run_rules assms)

text \<open>The world may change under an adapter, in ways \<open>J\<close> tolerates.\<close>

definition world_free :: "(plan_store \<Rightarrow> 'w \<Rightarrow> bool) \<Rightarrow> bool" where
  "world_free J \<longleftrightarrow> (\<forall>s w w'. J s w \<longrightarrow> J s w')"

lemma call_adapter_keeps:
  assumes "world_free J" "honest_adapter ad"
  shows "run_ok (state_inv J) (call_adapter ad p o' a)
     (\<lambda>r st. state_inv J st \<and> (\<forall>rc. r = Inr rc \<longrightarrow> rc_status rc \<noteq> apply_status.RETRYABLE_NOT_APPLIED))
     (state_inv J)"
  unfolding run_ok_def
proof (intro allI impI)
  fix st :: "'a run_state" assume "state_inv J st"
  then have "J (xs_store st) w" for w using assms(1) unfolding state_inv_def world_free_def by blast
  moreover have "rc_status rc \<noteq> apply_status.RETRYABLE_NOT_APPLIED" if "fst (ad (xs_world st) p o' a) = Inr rc" for rc
    using assms(2) that prod.collapse [of "ad (xs_world st) p o' a"] unfolding honest_adapter_def by metis
  ultimately show "case call_adapter ad p o' a st of (Inl e, st') \<Rightarrow> state_inv J st'
      | (Inr r, st') \<Rightarrow> state_inv J st' \<and> (\<forall>rc. r = Inr rc \<longrightarrow> rc_status rc \<noteq> apply_status.RETRYABLE_NOT_APPLIED)"
    by (simp add: call_adapter_def state_inv_def split_beta)
qed

lemma dispatch_operation_keeps [run_rules]:
  assumes "honest ex" "step_closed J" "world_free J" "honest_adapter ad"
  shows "run_keeps (state_inv J) (dispatch_operation ex p ow ad o')"
  unfolding dispatch_operation_def Let_def
  by (intro run_rules assms run_keeps_bind_value [OF call_adapter_keeps [OF assms(3,4)]])
    (auto simp: raised_receipt_def split: sum.splits)

lemma run_operations_keeps [run_rules]:
  assumes "honest ex" "step_closed J" "world_free J"
  shows "run_keeps (state_inv J) (run_operations ex p statuses claimable ow ops)"
proof (induction ops)
  case Nil
  show ?case by (simp add: run_return_ok)
next
  case (Cons o' os)
  have "honest_adapter ad" if "adapter_for ex (op_kind o') = Some ad" for ad
    using assms(1) that by (simp add: honest_def)
  then have "run_keeps (state_inv J) (dispatch_operation ex p ow ad o')"
    if "adapter_for ex (op_kind o') = Some ad" for ad
    using dispatch_operation_keeps [OF assms] that by blast
  then show ?case
    using Cons.IH
    by (simp only: run_operations.simps) (auto split: option.split
        intro!: run_raise_ok run_keeps_bind run_return_ok run_keeps_if)
qed

lemma execute_claimed_keeps [run_rules]:
  assumes "honest ex" "step_closed J" "world_free J"
  shows "run_keeps (state_inv J) (execute_claimed ex p claimable ow)"
  unfolding execute_claimed_def by (intro run_rules assms)

lemma confirm_keeps [run_rules]:
  assumes "honest ex" "step_closed J" "world_free J"
  shows "run_keeps (state_inv J) (confirm ex i)"
  unfolding confirm_def by (intro run_rules assms transact_claim)

lemma resume_keeps [run_rules]:
  assumes "honest ex" "step_closed J" "world_free J"
  shows "run_keeps (state_inv J) (resume ex i)"
  unfolding resume_def by (intro run_rules assms)

section \<open>What confirming can do to the world\<close>

text \<open>
  \<open>confirm\<close> keeps any \<open>J\<close> the store's steps keep, as long as executing a plan right after a
  successful claim (when \<open>K\<close> holds) leads back to \<open>J\<close>.
\<close>

lemma confirm_rule:
  assumes "honest ex" "step_closed J"
    and claim: "\<And>s w now ow p t. J s w \<Longrightarrow>
      claim_plan s i ow (ex_lease_seconds ex) False now = (Inr (p, True), t) \<Longrightarrow> K t w"
    and exec: "\<And>p ow. run_ok (state_inv K) (execute_claimed ex p {ISSUED} ow) (\<lambda>_. state_inv J) (state_inv J)"
  shows "run_keeps (state_inv J) (confirm ex i)"
proof -
  let ?claim = "\<lambda>ow now s. claim_plan s i ow (ex_lease_seconds ex) False now"
  let ?Q = "\<lambda>r s w. J s w \<and> (\<forall>p. r = Inr (p, True) \<longrightarrow> K s w)"
  have tr: "run_ok (state_inv J) (transact ex (?claim ow)) (\<lambda>r. state_inv (?Q r)) (state_inv J)" for ow
  proof (rule transact_ok [OF others_keep_honest [OF assms(1,2)]])
    fix now s w assume J: "J s w"
    have "J (snd (?claim ow now s)) w"
      using step_closed_steps [OF assms(2) _ J] step_claim_plan [OF prod.collapse [symmetric]] by blast
    then show "?Q (fst (?claim ow now s)) (snd (?claim ow now s)) w"
      using claim [OF J] by (metis prod.collapse)
  qed
  have cont: "run_ok (state_inv (?Q r))
      (case r of Inl (PlanTransitionError m) \<Rightarrow> confirmation_result ex i
       | Inl e \<Rightarrow> run_raise (StoreRaised e)
       | Inr (p, claimed) \<Rightarrow> if \<not> claimed then confirmation_result ex i else execute_claimed ex p {ISSUED} ow)
      (\<lambda>_. state_inv J) (state_inv J)" for r ow
  proof (cases "\<exists>p. r = Inr (p, True)")
    case True
    then obtain p where "r = Inr (p, True)" by blast
    then show ?thesis using exec [of p ow] by (auto simp: run_ok_def state_inv_def)
  next
    case False
    have "run_keeps (state_inv J)
      (case r of Inl (PlanTransitionError m) \<Rightarrow> confirmation_result ex i
       | Inl e \<Rightarrow> run_raise (StoreRaised e)
       | Inr (p, claimed) \<Rightarrow> if \<not> claimed then confirmation_result ex i else execute_claimed ex p {ISSUED} ow)"
      using False by (cases r) (auto intro!: run_rules assms(1,2) split: prod.splits)
    then show ?thesis by (auto simp: run_ok_def state_inv_def)
  qed
  show ?thesis
    unfolding confirm_def
    by (intro run_keeps_bind run_keeps_case_option run_keeps_if run_keeps_Let store_call_methods
        read_clock_keeps fresh_token_keeps run_return_ok confirmation_result_keeps assms(1,2)
        run_bind_ok [OF tr cont])
qed


lemma step_closed_started:
  "step_closed (\<lambda>s w. store_inv s \<and> started s i = Some True \<and> P w)"
  unfolding step_closed_def
  using store_inv_step starts.final_step [where v = True] by blast

lemma started_confirm_is_quiet:
  assumes "honest ex" "store_inv (xs_store st)" "started (xs_store st) i = Some True"
  shows "xs_world (snd (confirm ex i st)) = xs_world st"
proof -
  let ?J = "\<lambda>s w. store_inv s \<and> started s i = Some True \<and> w = xs_world st"
  have "run_keeps (state_inv ?J) (confirm ex i)"
  proof (rule confirm_rule [OF assms(1) step_closed_started, where K = "\<lambda>_ _. False"])
    fix s w now ow p t
    assume "?J s w" "claim_plan s i ow (ex_lease_seconds ex) False now = (Inr (p, True), t)"
    then show False using claim_plan_refuses_started [of s i ow "ex_lease_seconds ex" now p] by simp
  qed (simp add: run_ok_def state_inv_def)
  then show ?thesis
    using assms(2,3) run_keepsD [of "state_inv ?J" "confirm ex i" st] by (simp add: state_inv_def)
qed

lemma confirm_changes_only_started:
  assumes "honest ex" "store_inv (xs_store st)"
  shows "store_inv (xs_store (snd (confirm ex i st))) \<and>
    (xs_world (snd (confirm ex i st)) = xs_world st \<or> started (xs_store (snd (confirm ex i st))) i = Some True)"
proof -
  let ?J = "\<lambda>s w. store_inv s \<and> (w = xs_world st \<or> started s i = Some True)"
  let ?K = "\<lambda>s w. store_inv s \<and> started s i = Some True"
  have closed: "step_closed ?J" "step_closed ?K" "world_free ?K"
    using store_inv_step starts.final_step [where v = True]
    by (auto simp: step_closed_def world_free_def)
  have "run_keeps (state_inv ?J) (confirm ex i)"
  proof (rule confirm_rule [OF assms(1) closed(1), where K = ?K])
    fix s w now ow p t
    assume "?J s w" and c: "claim_plan s i ow (ex_lease_seconds ex) False now = (Inr (p, True), t)"
    then show "?K t w" using claim_plan_starts [OF c] store_inv_step [OF step_claim_plan [OF c]] by simp
  next
    fix p ow
    show "run_ok (state_inv ?K) (execute_claimed ex p {ISSUED} ow) (\<lambda>_. state_inv ?J) (state_inv ?J)"
      using execute_claimed_keeps [OF assms(1) closed(2,3), of p "{ISSUED}" ow]
      by (auto simp: run_ok_def state_inv_def split: prod.splits sum.splits)
  qed
  then show ?thesis
    using assms(2) run_keepsD [of "state_inv ?J" "confirm ex i" st] by (simp add: state_inv_def)
qed

text \<open>
  C9: confirming is effective at most once. If a \<open>confirm\<close> of a plan has touched the outside
  world at all, then no later \<open>confirm\<close> of that plan, by any executor and after anything else has
  happened to the store, touches it: it calls no adapter.
\<close>

theorem confirm_is_effective_once:
  assumes "honest ex" "honest ex'" "fresh_store s0" "store_step\<^sup>*\<^sup>* s0 (xs_store st)"
    and "xs_world (snd (confirm ex i st)) \<noteq> xs_world st"
    and "store_step\<^sup>*\<^sup>* (xs_store (snd (confirm ex i st))) (xs_store st')"
  shows "xs_world (snd (confirm ex' i st')) = xs_world st'"
proof -
  have "store_inv (xs_store st)" using outcomes.inv_reachable [OF assms(3,4)] .
  then have inv: "store_inv (xs_store (snd (confirm ex i st)))"
    "started (xs_store (snd (confirm ex i st))) i = Some True"
    using confirm_changes_only_started [OF assms(1)] assms(5) by blast+
  show ?thesis
    using started_confirm_is_quiet [OF assms(2)] outcomes.inv_steps [OF assms(6) inv(1)]
      starts.final_steps [OF assms(6) inv] by blast
qed

section \<open>Order of dispatch\<close>

text \<open>An adapter that logs its calls in the world and answers like \<open>f\<close>.\<close>

type_synonym dispatch_log = "(operation_plan \<times> int) list"

definition recording ::
  "(write_plan \<Rightarrow> operation_plan \<Rightarrow> int \<Rightarrow> string + apply_receipt) \<Rightarrow> dispatch_log adapter" where
  "recording f w p o' a = (f p o' a, w @ [(o', a)])"

definition records ::
  "dispatch_log executor \<Rightarrow> (write_plan \<Rightarrow> operation_plan \<Rightarrow> int \<Rightarrow> string + apply_receipt) \<Rightarrow> bool" where
  "records ex f \<longleftrightarrow> (\<forall>kind ad. adapter_for ex kind = Some ad \<longrightarrow> ad = recording f)"

definition applied :: "string + apply_receipt \<Rightarrow> bool" where
  "applied x = (case x of Inl _ \<Rightarrow> False | Inr rc \<Rightarrow> success (rc_status rc))"

lemma transact_world [simp]: "xs_world (snd (transact ex f st)) = xs_world st"
  by (simp add: transact_def split_beta Let_def)

lemma store_call_world [simp]: "xs_world (snd (store_call ex f st)) = xs_world st"
  using transact_world [of ex f st]
  by (cases "transact ex f st") (auto simp: store_call_def run_bind_def run_raise_def run_return_def
      split: sum.splits)

lemma store_call_worldD: "store_call ex f st = (r, st') \<Longrightarrow> xs_world st' = xs_world st"
  using store_call_world [of ex f st] by simp

lemma dispatch_recording:
  assumes "dispatch_operation ex p ow (recording f) o' st = (r, st')"
  obtains (none) e where "r = Inl e" "xs_world st' = xs_world st"
  | (sent) a where "xs_world st' = xs_world st @ [(o', a)]"
      "\<And>rc. r = Inr rc \<Longrightarrow> success (rc_status rc) \<longleftrightarrow> applied (f p o' a)"
proof -
  obtain t st1 where t: "fresh_token ex st = (Inr t, st1)" "xs_world st1 = xs_world st"
    by (simp add: fresh_token_def)
  let ?claim = "store_call ex (\<lambda>now s. claim_operation s (wp_plan_id p) (op_operation_id o')
         (Some ow) t (ex_lease_seconds ex) now)"
  obtain c st2 where c: "?claim st1 = (c, st2)" by fastforce
  have w2: "xs_world st2 = xs_world st" using store_call_worldD [OF c] t(2) by simp
  show ?thesis
  proof (cases c)
    case (Inl e)
    then have "r = Inl e" "st' = st2"
      using assms t(1) c by (simp_all add: dispatch_operation_def run_bind_def)
    then show ?thesis using none w2 by blast
  next
    case (Inr a)
    define rc where "rc = (case f p o' a of Inl exception \<Rightarrow> raised_receipt (wp_plan_id p) o' a exception
       | Inr x \<Rightarrow> x)\<lparr>rc_attempt_token := Some t\<rparr>"
    define st3 where "st3 = st2\<lparr>xs_world := xs_world st2 @ [(o', a)]\<rparr>"
    let ?rec = "store_call ex (\<lambda>now s. record_receipt s rc (Some ow) (Some t) now)"
    obtain q st4 where q: "?rec st3 = (q, st4)" by fastforce
    have out: "(r, st') = (case q of Inl e \<Rightarrow> (Inl e, st4) | Inr _ \<Rightarrow> (Inr rc, st4))"
      using assms t(1) c Inr q
      by (simp add: dispatch_operation_def run_bind_def call_adapter_def recording_def rc_def st3_def
          Let_def run_return_def split: sum.splits)
    have "xs_world st' = xs_world st @ [(o', a)]"
      using out store_call_worldD [OF q] w2 by (auto simp: st3_def split: sum.splits)
    moreover have "success (rc_status rc) \<longleftrightarrow> applied (f p o' a)"
      by (auto simp: rc_def applied_def raised_receipt_def success_def split: sum.splits)
    ultimately show ?thesis using sent out by (auto split: sum.splits)
  qed
qed

definition claimable_in :: "(string \<Rightarrow> plan_status option) \<Rightarrow> plan_status set \<Rightarrow> operation_plan \<Rightarrow> bool" where
  "claimable_in statuses claimable o' \<longleftrightarrow> (\<exists>st \<in> claimable. statuses (op_operation_id o') = Some st)"

lemma run_operations_log:
  assumes "records ex f" "run_operations ex p statuses claimable ow ops st = (r, st')"
  shows "\<exists>ds. xs_world st' = xs_world st @ ds \<and>
    prefix (map fst ds) (filter (claimable_in statuses claimable) ops) \<and>
    (\<forall>d \<in> set (butlast ds). applied (f p (fst d) (snd d)))"
  using assms(2)
proof (induction ops arbitrary: st)
  case Nil
  then show ?case by (auto simp: run_return_def intro: exI [of _ "[]"])
next
  case (Cons o' os)
  have ad: "adapter_for ex (op_kind o') = None \<or> adapter_for ex (op_kind o') = Some (recording f)"
    using assms(1) unfolding records_def by (cases "adapter_for ex (op_kind o')") auto
  consider (stop) "xs_world st' = xs_world st"
    | (skip) "\<not> claimable_in statuses claimable o'"
        "run_operations ex p statuses claimable ow os st = (r, st')"
    | (run) "claimable_in statuses claimable o'" "adapter_for ex (op_kind o') = Some (recording f)"
        "run_bind (dispatch_operation ex p ow (recording f) o') (\<lambda>receipt.
           if \<not> success (rc_status receipt) then run_return ()
           else run_operations ex p statuses claimable ow os) st = (r, st')"
    using Cons.prems ad
    by (cases "statuses (op_operation_id o')"; cases "adapter_for ex (op_kind o')")
      (auto simp: claimable_in_def run_raise_def split: if_splits)
  then show ?case
  proof cases
    case stop
    then show ?thesis by (auto intro: exI [of _ "[]"])
  next
    case skip
    then show ?thesis using Cons.IH by simp
  next
    case run
    obtain q st1 where q: "dispatch_operation ex p ow (recording f) o' st = (q, st1)" by fastforce
    from q show ?thesis
    proof (cases rule: dispatch_recording)
      case (none e)
      then show ?thesis using run(3) q by (auto simp: run_bind_def intro: exI [of _ "[]"])
    next
      case (sent a)
      show ?thesis
      proof (cases "\<exists>rc. q = Inr rc \<and> success (rc_status rc)")
        case True
        then have "run_operations ex p statuses claimable ow os st1 = (r, st')" "applied (f p o' a)"
          using run(3) q sent(2) by (auto simp: run_bind_def)
        then obtain ds where ds: "xs_world st' = xs_world st1 @ ds"
          "prefix (map fst ds) (filter (claimable_in statuses claimable) os)"
          "\<forall>d \<in> set (butlast ds). applied (f p (fst d) (snd d))"
          using Cons.IH by blast
        show ?thesis
          using ds sent(1) run(1) \<open>applied (f p o' a)\<close> by (intro exI [of _ "(o', a) # ds"]) auto
      next
        case False
        then have "xs_world st' = xs_world st1"
          using run(3) q by (auto simp: run_bind_def run_return_def split: sum.splits if_splits)
        then show ?thesis using sent(1) run(1) by (intro exI [of _ "[(o', a)]"]) auto
      qed
    qed
  qed
qed

text \<open>An element before the \<open>k\<close>-th one that passes the filter is at an earlier place of the result.\<close>

lemma filter_earlier:
  assumes "k < length (filter P xs)" "m < length xs" "xs ! m = filter P xs ! k" "distinct xs"
    and "j < m" "P (xs ! j)"
  shows "\<exists>l < k. filter P xs ! l = xs ! j"
proof -
  have split: "xs = take m xs @ xs ! m # drop (Suc m) xs" using assms(2) by (simp add: id_take_nth_drop)
  have Pm: "P (xs ! m)" using assms(1,3) nth_mem [OF assms(1)] by simp
  let ?l = "length (filter P (take m xs))"
  have f: "filter P xs = filter P (take m xs) @ xs ! m # filter P (drop (Suc m) xs)"
    by (subst split) (simp add: Pm)
  have "filter P xs ! ?l = filter P xs ! k" using assms(3) by (subst f) simp
  moreover have "?l < length (filter P xs)" by (subst f) simp
  ultimately have k: "k = ?l" using assms(1,4) by (simp add: nth_eq_iff_index_eq)
  have "xs ! j \<in> set (take m xs)" using assms(2,5) by (auto simp: in_set_conv_nth intro: exI [of _ j])
  then have "xs ! j \<in> set (filter P (take m xs))" using assms(6) by simp
  then obtain l where "l < ?l" "filter P (take m xs) ! l = xs ! j" by (meson in_set_conv_nth)
  then show ?thesis using k by (intro exI [of _ l]) (subst f, simp add: nth_append)
qed


section \<open>Concrete runs\<close>

definition recording_executor ::
  "(write_plan \<Rightarrow> operation_plan \<Rightarrow> int \<Rightarrow> string + apply_receipt) \<Rightarrow> dispatch_log executor" where
  "recording_executor f = \<lparr>ex_registry = [(''DELETE_EDGE'', recording f)], ex_lease_seconds = 30,
     ex_clock = (\<lambda>n. 5 + int n), ex_token = (\<lambda>n. ''tok''), ex_others = (\<lambda>n s. s)\<rparr>"

text \<open>Answers \<open>APPLIED\<close> for operation \<open>a\<close> and raises for the rest.\<close>

definition sample_answer :: "write_plan \<Rightarrow> operation_plan \<Rightarrow> int \<Rightarrow> string + apply_receipt" where
  "sample_answer p o' a = (if op_operation_id o' = ''a''
     then Inr (sample_receipt apply_status.APPLIED ''a'' a) else Inl ''ConnectionError'')"

definition sample_start :: "dispatch_log run_state" where
  "sample_start = \<lparr>xs_store = store_saved, xs_world = [], xs_time = 0\<rparr>"

lemma records_recording_executor: "records (recording_executor f) f"
  by (simp add: records_def adapter_for_def recording_executor_def)

lemma honest_recording_executor: "honest (recording_executor sample_answer)"
  by (auto simp: honest_def adapter_for_def recording_executor_def honest_adapter_def recording_def
      sample_answer_def sample_receipt_def split: if_splits)

lemma sample_confirm:
  "map (\<lambda>(o', a). (op_operation_id o', a)) (xs_world (snd (confirm (recording_executor sample_answer) ''wp_1'' sample_start)))
     = [(''a'', 1), (''b'', 1)]"
  by code_simp


theorem confirm_is_effective_once_witness:
  "let ex = recording_executor sample_answer; st = snd (confirm ex ''wp_1'' sample_start)
   in xs_world st \<noteq> [] \<and> xs_world (snd (confirm ex ''wp_1'' st)) = xs_world st"
proof -
  let ?ex = "recording_executor sample_answer" and ?st = "snd (confirm (recording_executor sample_answer) ''wp_1'' sample_start)"
  have ne: "xs_world ?st \<noteq> []" using sample_confirm by auto
  have "store_step\<^sup>*\<^sup>* empty_plan_store (xs_store sample_start)"
    using sample_steps(1) by (simp add: sample_start_def)
  from confirm_is_effective_once [OF honest_recording_executor honest_recording_executor fresh_empty this _
      rtranclp.rtrancl_refl, of "''wp_1''"] ne
  show ?thesis by (simp add: Let_def sample_start_def)
qed

text \<open>The statuses \<open>execute_claimed\<close> reads for the sample plan.\<close>

definition sample_statuses :: "string \<Rightarrow> plan_status option" where
  "sample_statuses = map_of [(''a'', ISSUED), (''b'', ISSUED)]"


section \<open>Status replies\<close>

lemma keys_update: "fst ` set (AList.update k v d) = insert k (fst ` set d)"
  by (simp add: dom_update)

lemma keys_delete: "fst ` set (AList.delete k d) = fst ` set d - {k}"
  by (auto simp: AList.delete_eq)

lemma public_status_keys:
  "''payload'' \<notin> fst ` set (public_status rec now)" "''lease_owner'' \<notin> fst ` set (public_status rec now)"
  by (auto simp: public_status_def Let_def keys_update keys_delete)

lemma public_status_operations:
  "map_of (public_status rec now) ''operations'' =
     Some (PyList (map PyDict (map (\<lambda>r. public_operation (operation_record_to_dict r)) (rec_operations rec))))"
  by (auto simp: public_status_def Let_def comp_def)

lemma public_operation_keys:
  "fst ` set (public_operation (operation_record_to_dict r)) =
     {''operation_id'', ''ordinal'', ''kind'', ''status'', ''attempt'', ''receipt'', ''updated_at''}"
  by (auto simp: public_operation_def operation_record_to_dict_def)

lemma public_operation_receipt:
  "map_of (public_operation (operation_record_to_dict r)) ''receipt'' = Some (PyDict q) \<Longrightarrow>
     ''attempt_token'' \<notin> fst ` set q"
  by (auto simp: public_operation_def operation_record_to_dict_def public_receipt_def
      split: option.splits pyval.splits)

lemma status_reply:
  assumes "fst (status ex i st) = Inr (EnvelopeOk v)"
  obtains rec now where "v = PyDict (public_status rec now)"
  using assms
  by (auto simp: status_def run_bind_def run_return_def read_clock_def envelope_ok_def envelope_err_def
      split: prod.splits sum.splits option.splits)

text \<open>
  Status replies carry no secret of the execution protocol. The object \<open>status\<close> returns has
  neither the plan payload nor the lease owner; its operations have exactly seven public fields
  (no payload, attempt token or reconciliation flag), and no receipt in them carries an attempt
  token. So no client learns what it would need to forge a receipt of a running attempt.
\<close>

theorem status_reveals_no_token:
  assumes "fst (status ex i st) = Inr (EnvelopeOk v)"
  shows "\<exists>d os. v = PyDict d \<and> ''payload'' \<notin> fst ` set d \<and> ''lease_owner'' \<notin> fst ` set d \<and>
    map_of d ''operations'' = Some (PyList (map PyDict os)) \<and>
    (\<forall>op \<in> set os. fst ` set op =
        {''operation_id'', ''ordinal'', ''kind'', ''status'', ''attempt'', ''receipt'', ''updated_at''} \<and>
      (\<forall>q. map_of op ''receipt'' = Some (PyDict q) \<longrightarrow> ''attempt_token'' \<notin> fst ` set q))"
proof -
  obtain rec now where v: "v = PyDict (public_status rec now)" by (rule status_reply [OF assms])
  show ?thesis
    unfolding v
    by (intro exI [of _ "public_status rec now"]
        exI [of _ "map (\<lambda>r. public_operation (operation_record_to_dict r)) (rec_operations rec)"] conjI refl
        public_status_keys public_status_operations)
      (auto simp: public_operation_keys dest: public_operation_receipt)
qed

lemma ok_reply_exists:
  "(case x of Inr (EnvelopeOk v) \<Rightarrow> True | _ \<Rightarrow> False) \<Longrightarrow> \<exists>v. x = Inr (EnvelopeOk v)"
  by (auto split: sum.splits reply.splits)

theorem status_reveals_no_token_witness:
  "\<exists>v d. fst (status (recording_executor sample_answer) ''wp_1'' (sample_start\<lparr>xs_store := store_dispatched\<rparr>))
       = Inr (EnvelopeOk v) \<and> v = PyDict d \<and> ''lease_owner'' \<notin> fst ` set d"
proof -
  have "case fst (status (recording_executor sample_answer) ''wp_1'' (sample_start\<lparr>xs_store := store_dispatched\<rparr>))
       of Inr (EnvelopeOk v) \<Rightarrow> True | _ \<Rightarrow> False"
    by code_simp
  from ok_reply_exists [OF this] obtain v where
    v: "fst (status (recording_executor sample_answer) ''wp_1'' (sample_start\<lparr>xs_store := store_dispatched\<rparr>))
       = Inr (EnvelopeOk v)" by (elim exE)
  have "\<exists>d. v = PyDict d \<and> ''lease_owner'' \<notin> fst ` set d"
    using status_reveals_no_token [OF v] by (elim exE conjE) (intro exI conjI)
  with v show ?thesis by (intro exI [of _ v]) (elim exE conjE, intro exI conjI)
qed

section \<open>Expired plans, failing adapters\<close>

lemma quiet_keeps [run_rules]:
  "run_keeps (\<lambda>st. xs_world st = w) (store_call ex f)" "run_keeps (\<lambda>st. xs_world st = w) (read_clock ex)"
  by (auto simp: run_ok_def read_clock_def dest: store_call_worldD split: prod.splits sum.splits)

lemma quiet_result: "xs_world (snd (confirmation_result ex i st)) = xs_world st"
proof -
  have "run_keeps (\<lambda>st'. xs_world st' = xs_world st) (confirmation_result ex i)"
    unfolding confirmation_result_def status_def by (intro run_rules)
  then show ?thesis by (rule run_keepsD) simp
qed

text \<open>
  An expired plan is never dispatched. When the plan \<open>confirm\<close> loads is still \<open>ISSUED\<close> at a
  time after its expiry, no adapter is called, whatever the rest of the call returns or raises.
\<close>

theorem expired_plan_is_not_dispatched:
  assumes "fst (get_plan (ex_others ex (xs_time st) (xs_store st)) i) = Inr (Some p)"
    and "wp_status p = ISSUED" "wp_expires_at p < ex_clock ex (xs_time st + 1)"
  shows "xs_world (snd (confirm ex i st)) = xs_world st"
proof -
  obtain s where g: "get_plan (ex_others ex (xs_time st) (xs_store st)) i = (Inr (Some p), s)"
    using assms(1) by (metis prod.collapse)
  define st1 where "st1 = st\<lparr>xs_store := s, xs_time := xs_time st + 2\<rparr>"
  have "confirm ex i st =
      run_bind (store_call ex (\<lambda>now s. transition_plan s i ISSUED EXPIRED now))
        (\<lambda>_. confirmation_result ex i) st1"
    using assms(2,3) g
    by (simp add: confirm_def run_bind_def store_call_def transact_def read_clock_def run_return_def st1_def)
  moreover have "run_keeps (\<lambda>st'. xs_world st' = xs_world st1)
      (run_bind (store_call ex (\<lambda>now s. transition_plan s i ISSUED EXPIRED now)) (\<lambda>_. confirmation_result ex i))"
    unfolding confirmation_result_def status_def by (intro run_rules)
  ultimately show ?thesis using run_keepsD [of "\<lambda>st'. xs_world st' = xs_world st1" _ st1]
    by (simp add: st1_def)
qed

theorem expired_plan_is_not_dispatched_witness:
  "let ex = (recording_executor sample_answer)\<lparr>ex_clock := (\<lambda>n. 601)\<rparr>
   in xs_world (snd (confirm ex ''wp_1'' sample_start)) = [] \<and>
      map_sum (\<lambda>_. ()) reply_error (fst (confirm ex ''wp_1'' sample_start)) = Inr (Some PLAN_EXPIRED)"
proof -
  let ?ex = "(recording_executor sample_answer)\<lparr>ex_clock := (\<lambda>n. 601)\<rparr>"
  have "fst (get_plan (ex_others ?ex (xs_time sample_start) (xs_store sample_start)) ''wp_1'') = Inr (Some sample_plan)"
    by code_simp
  from expired_plan_is_not_dispatched [OF this] have "xs_world (snd (confirm ?ex ''wp_1'' sample_start)) = []"
    by (simp add: sample_plan_def sample_start_def)
  moreover have "map_sum (\<lambda>_. ()) reply_error (fst (confirm ?ex ''wp_1'' sample_start)) = Inr (Some PLAN_EXPIRED)"
    by code_simp
  ultimately show ?thesis by (simp add: Let_def)
qed

lemma op_row_for_recorded:
  assumes "keeps_op_keys f" "op_row_for u i j = Some r"
  shows "op_row_for (update_plan i g (update_op i j f u)) i j = Some (f r)"
  using assms op_row_forD [OF assms(2)]
  by (simp add: op_row_for_def update_plan_def update_op_def keeps_op_keys_def fetchone_sql_update)

lemma store_call_Inr:
  "store_call ex f st = (Inr x, st') \<Longrightarrow>
     f (ex_clock ex (xs_time st)) (ex_others ex (xs_time st) (xs_store st)) = (Inr x, xs_store st')"
  by (auto simp: store_call_def run_bind_def transact_def run_raise_def run_return_def Let_def
      split: prod.splits sum.splits)

text \<open>
  An adapter that raises leaves an unknown outcome, never a retry. When a dispatched operation
  raises and its receipt is recorded, the receipt and the stored operation say \<open>UNKNOWN\<close> with
  reconciliation required, so the operation can no longer be claimed without reconciliation.
\<close>

theorem raising_adapter_leaves_unknown:
  assumes "dispatch_operation ex p ow ad o' st = (Inr rc, st')"
    and "\<And>w a. \<exists>e w'. ad w p o' a = (Inl e, w')"
  shows "rc_status rc = apply_status.UNKNOWN \<and> rc_reconciliation_required rc \<and>
    (\<exists>r. op_row_for (xs_store st') (wp_plan_id p) (op_operation_id o') = Some r \<and> or_status r = UNKNOWN
       \<and> \<not> claimable_op (or_status r))"
proof -
  obtain t st1 a st2 where a: "fresh_token ex st = (Inr t, st1)"
    "store_call ex (\<lambda>now s. claim_operation s (wp_plan_id p) (op_operation_id o') (Some ow) t
       (ex_lease_seconds ex) now) st1 = (Inr a, st2)"
    using assms(1) by (auto simp: dispatch_operation_def run_bind_def fresh_token_def split: prod.splits sum.splits)
  obtain e w where e: "ad (xs_world st2) p o' a = (Inl e, w)" using assms(2) by blast
  let ?rc = "(raised_receipt (wp_plan_id p) o' a e)\<lparr>rc_attempt_token := Some t\<rparr>"
  have "store_call ex (\<lambda>now s. record_receipt s ?rc (Some ow) (Some t) now) (st2\<lparr>xs_world := w\<rparr>) = (Inr (), st')"
    and rc: "rc = ?rc"
    using assms(1) a e
    by (auto simp: dispatch_operation_def run_bind_def call_adapter_def Let_def run_return_def
        split: prod.splits sum.splits)
  from store_call_Inr [OF this(1)] obtain now s where
    "record_receipt s ?rc (Some ow) (Some t) now = (Inr (), xs_store st')" by blast
  then have "\<exists>r. op_row_for (xs_store st') (wp_plan_id p) (op_operation_id o') = Some (finish_attempt ?rc r)"
  proof (cases rule: record_receipt_run)
    case (recorded u i j q row)
    then have "i = wp_plan_id p" "j = op_operation_id o'" by (simp_all add: raised_receipt_def)
    then show ?thesis using recorded(8,10) op_row_for_recorded [of "finish_attempt ?rc" u i j row] by auto
  qed simp
  then show ?thesis by (auto simp: rc finish_attempt_def raised_receipt_def claimable_op_def)
qed

definition raising_adapter :: "dispatch_log adapter" where
  "raising_adapter = recording (\<lambda>p o' a. Inl ''TimeoutError'')"

theorem raising_adapter_leaves_unknown_witness:
  "\<exists>rc. fst (dispatch_operation (recording_executor sample_answer) sample_plan ''o'' raising_adapter
       (sample_op ''a'' []) (sample_start\<lparr>xs_store := store_claimed\<rparr>)) = Inr rc \<and> rc_status rc = apply_status.UNKNOWN"
proof -
  let ?d = "dispatch_operation (recording_executor sample_answer) sample_plan ''o'' raising_adapter
       (sample_op ''a'' []) (sample_start\<lparr>xs_store := store_claimed\<rparr>)"
  have "case fst ?d of Inr rc \<Rightarrow> True | Inl _ \<Rightarrow> False" by code_simp
  then obtain rc where rc: "?d = (Inr rc, snd ?d)" by (cases ?d; cases "fst ?d") auto
  have "rc_status rc = apply_status.UNKNOWN"
    using raising_adapter_leaves_unknown [OF rc] by (simp add: raising_adapter_def recording_def)
  with rc show ?thesis by (metis fst_conv)
qed

end
