(* ===== verification/Reconciler.thy ===== *)
theory Reconciler
  imports Executor_Properties
begin

text \<open>
  \<open>hugegraph_mcp/reconciler.py\<close>: classifying an observed state against the states of an
  operation, and the reconciler that turns the unresolved operations of a fenced plan into
  outcomes. A reader only reads the world; it answers a mapping or raises.
\<close>

section \<open>Classification\<close>

definition starts_with :: "string \<Rightarrow> string \<Rightarrow> bool" where
  "starts_with text p = prefix p text"

definition reconcile_operation_state :: "string \<Rightarrow> pydict \<Rightarrow> pydict \<Rightarrow> pydict \<Rightarrow> apply_status" where
  "reconcile_operation_state kind expected_state desired_state observed_state =
     (if py_eq (PyDict observed_state) (PyDict desired_state) then apply_status.APPLIED
      else if py_eq (PyDict observed_state) (PyDict expected_state) then apply_status.RETRYABLE_NOT_APPLIED
      else if starts_with kind ''DELETE_'' \<and> map_of observed_state ''exists'' = Some (PyBool False)
      then apply_status.APPLIED
      else apply_status.CONFLICT)"

section \<open>Reconciling a plan\<close>

type_synonym 'w reader = "'w \<Rightarrow> write_plan \<Rightarrow> operation_plan \<Rightarrow> string + pydict"

definition register_reader ::
  "string \<Rightarrow> 'w reader \<Rightarrow> (string \<times> 'w reader) list \<Rightarrow> value_error + (string \<times> 'w reader) list" where
  "register_reader kind reader readers =
     (if kind = [] then Inl (ValueError ''reader kind must be non-empty'')
      else Inr (AList.update kind reader readers))"

definition call_reader :: "'w reader \<Rightarrow> write_plan \<Rightarrow> operation_plan \<Rightarrow> ('w, pydict) run" where
  "call_reader reader p o' st =
     (case reader (xs_world st) p o' of
        Inl exception \<Rightarrow> (Inl (ReaderRaised exception), st) | Inr observed \<Rightarrow> (Inr observed, st))"

definition unclaimed_receipt :: "string \<Rightarrow> op_row \<Rightarrow> operation_plan \<Rightarrow> apply_receipt" where
  "unclaimed_receipt plan_id row o' =
     \<lparr>rc_status = apply_status.RETRYABLE_NOT_APPLIED, rc_plan_id = Some plan_id,
      rc_operation_id = Some (op_operation_id o'), rc_observed_state = None,
      rc_reason_code = Some ''RECONCILED_OPERATION_NOT_CLAIMED'', rc_attempt = or_attempt row,
      rc_attempt_token = None, rc_reconciliation_required = False, rc_committed_at = None,
      rc_operation = None, rc_reason = None\<rparr>"

text \<open>A backend read cannot exclude a late commit of an operation that was dispatched.\<close>

definition reconciled_status :: "op_row \<Rightarrow> operation_plan \<Rightarrow> pydict \<Rightarrow> apply_status \<times> string \<times> bool" where
  "reconciled_status row o' observed =
     (let status = reconcile_operation_state (op_kind o') (op_expected_state o') (op_desired_state o') observed
      in if status = apply_status.RETRYABLE_NOT_APPLIED \<and> or_attempt row > 0
         then (apply_status.UNKNOWN, ''IN_FLIGHT_COMMIT_NOT_EXCLUDED'', True)
         else (status, ''RECONCILED_CURRENT_STATE'', False))"

definition observed_receipt :: "string \<Rightarrow> op_row \<Rightarrow> operation_plan \<Rightarrow> pydict \<Rightarrow> int \<Rightarrow> apply_receipt" where
  "observed_receipt plan_id row o' observed now =
     (let (status, reason_code, reconciliation_required) = reconciled_status row o' observed
      in \<lparr>rc_status = status, rc_plan_id = Some plan_id,
          rc_operation_id = Some (op_operation_id o'),
          rc_observed_state = Some (freeze_mapping observed), rc_reason_code = Some reason_code,
          rc_attempt = or_attempt row, rc_attempt_token = None,
          rc_reconciliation_required = reconciliation_required,
          rc_committed_at = (if status = apply_status.APPLIED then Some now else None),
          rc_operation = None, rc_reason = None\<rparr>)"

definition missing_reader_reply :: "string \<Rightarrow> reply" where
  "missing_reader_reply kind =
     envelope_err FEATURE_DISABLED ''The write plan requires an unavailable reconciliation reader.'' None False
       (Some (PyDict [(''missing_operation_kind'', PyStr kind)]))"

text \<open>\<open>{item["operation_id"]: item for item in record["operations"]}\<close>\<close>

definition operation_records :: "plan_record \<Rightarrow> string \<Rightarrow> op_row option" where
  "operation_records rec = map_of (rev (map (\<lambda>r. (or_operation_id r, r)) (rec_operations rec)))"

text \<open>The loop over the operations; a reply is the early return.\<close>

fun reconcile_operations ::
  "'w executor \<Rightarrow> (string \<times> 'w reader) list \<Rightarrow> string \<Rightarrow> write_plan \<Rightarrow> plan_record
     \<Rightarrow> operation_plan list \<Rightarrow> ('w, reply option) run" where
  "reconcile_operations ex readers plan_id p rec [] = run_return None"
| "reconcile_operations ex readers plan_id p rec (o' # os) =
     (case operation_records rec (op_operation_id o') of
        None \<Rightarrow> run_raise (KeyMissing (op_operation_id o'))
      | Some row \<Rightarrow>
          if or_status row = ISSUED then
            run_bind (store_call ex (\<lambda>now s. record_reconciliation_receipt s (unclaimed_receipt plan_id row o') now))
              (\<lambda>_. reconcile_operations ex readers plan_id p rec os)
          else if or_status row \<notin> {EXECUTING, UNKNOWN, LEGACY_UNKNOWN} then
            reconcile_operations ex readers plan_id p rec os
          else (case map_of readers (op_kind o') of
              None \<Rightarrow> run_return (Some (missing_reader_reply (op_kind o')))
            | Some reader \<Rightarrow>
                run_bind (call_reader reader p o') (\<lambda>observed.
                run_bind (read_clock ex) (\<lambda>now.
                run_bind (store_call ex (\<lambda>now' s. record_reconciliation_receipt s
                    (observed_receipt plan_id row o' observed now) now')) (\<lambda>_.
                reconcile_operations ex readers plan_id p rec os)))))"

definition store_error_text :: "store_error \<Rightarrow> string" where
  "store_error_text e = (case e of PlanTransitionError m \<Rightarrow> m | PlanStoreUnavailableError m \<Rightarrow> m
     | StoreValueError m \<Rightarrow> m | _ \<Rightarrow> [])"

definition reconcile :: "'w executor \<Rightarrow> (string \<times> 'w reader) list \<Rightarrow> string \<Rightarrow> ('w, reply) run" where
  "reconcile ex readers plan_id =
     run_bind (store_call ex (\<lambda>now s. get_plan_record s plan_id)) (\<lambda>record.
       case record of
         None \<Rightarrow> run_return (envelope_err NOT_FOUND
           ''No persisted write plan matches this plan_id.'' None False None)
       | Some rec \<Rightarrow>
           if pr_tool_name (rec_plan rec) = ''legacy''
           then run_return (envelope_err FEATURE_DISABLED
             ''Legacy confirmation state cannot be safely reconciled.'' None False
             (Some (PyDict [(''reason_code'', PyStr ''LEGACY_PLAN_NOT_RECONCILABLE'')])))
           else run_bind (transact ex (\<lambda>now s. begin_reconcile s plan_id now)) (\<lambda>begun.
             case begun of
               Inl (PlanTransitionError m) \<Rightarrow> run_return (envelope_err WRITE_CONFLICT
                 ''The write plan still has an active execution lease.'' None False
                 (Some (PyDict [(''reason_code'', PyStr ''EXECUTION_LEASE_ACTIVE''), (''reason'', PyStr m)])))
             | Inl e \<Rightarrow> run_raise (StoreRaised e)
             | Inr p \<Rightarrow>
                 if wp_status p \<notin> {UNKNOWN, LEGACY_UNKNOWN, PARTIAL} then status ex plan_id
                 else run_bind (store_call ex (\<lambda>now s. get_plan_record s plan_id)) (\<lambda>record.
                   case record of
                     None \<Rightarrow> run_raise AssertionFailed
                   | Some rec \<Rightarrow>
                       run_bind (reconcile_operations ex readers plan_id p rec (wp_operations p)) (\<lambda>early.
                         case early of Some r \<Rightarrow> run_return r | None \<Rightarrow> status ex plan_id))))"

definition reconcile_write ::
  "'w executor \<Rightarrow> (string \<times> 'w reader) list \<Rightarrow> string + rat \<Rightarrow> string \<Rightarrow> ('w, reply) run" where
  "reconcile_write ex readers config plan_id st =
     (case config of
        Inl exception \<Rightarrow> run_return (store_unavailable_reply exception) st
      | Inr _ \<Rightarrow>
          (case reconcile ex readers plan_id st of
             (Inl (StoreRaised (PlanTransitionError m)), st') \<Rightarrow>
               (Inr (envelope_err WRITE_CONFLICT ''The persisted plan state changed during reconciliation.''
                  None False (Some (PyDict [(''reason'', PyStr m)]))), st')
           | r \<Rightarrow> r))"

section \<open>A reconciler that runs alone follows the protocol\<close>

definition alone :: "'w executor \<Rightarrow> bool" where
  "alone ex \<longleftrightarrow> honest ex \<and> (\<forall>n s. ex_others ex n s = s)"

definition attempts :: "plan_store \<Rightarrow> string \<Rightarrow> int option" where
  "attempts s j = map_option or_attempt (op_for s j)"

lemma attempts_extension: "legacy_extension s u \<Longrightarrow> attempts s j = Some a \<Longrightarrow> attempts u j = Some a"
  by (auto simp: attempts_def op_for_extension)

lemma reconcile_keeps_attempts:
  assumes "record_reconciliation_receipt s rc now = (r, t)" "attempts s j = Some a"
  shows "attempts t j = Some a"
  using assms(1)
proof (cases rule: record_reconciliation_run)
  case (failed e)
  then show ?thesis using assms(2) attempts_extension [OF prepare_extension] by blast
next
  case (recorded u i k p row)
  then have "attempts u j = Some a" using attempts_extension assms(2) by blast
  then show ?thesis
    by (auto simp: recorded(11) attempts_def op_for_def store_simps)
      (auto simp: update_op_def fetchone_sql_update reconcile_op_row_def)
qed

text \<open>What the loop relies on: the attempts are those of the snapshot \<open>u\<close> it read.\<close>

definition loop_inv :: "plan_store \<Rightarrow> plan_store \<Rightarrow> plan_store \<Rightarrow> 'w \<Rightarrow> bool" where
  "loop_inv s0 u s w \<longleftrightarrow> store_step\<^sup>*\<^sup>* s0 s \<and> store_inv u \<and> store_inv s \<and>
     (\<forall>j a. attempts u j = Some a \<longrightarrow> attempts s j = Some a)"

lemma loop_inv_receipt:
  assumes inv: "loop_inv s0 u s w" and row: "row \<in> set (ps_ops u)" "or_plan_id row = i"
    and rc: "rc_plan_id rc = Some i" "rc_operation_id rc = Some (or_operation_id row)"
      "rc_status rc = apply_status.RETRYABLE_NOT_APPLIED \<longrightarrow> or_attempt row = 0"
  shows "loop_inv s0 u (snd (record_reconciliation_receipt s rc now)) w"
proof -
  have d: "distinct (op_ids u)" "distinct (op_ids s)" and a: "\<forall>j a. attempts u j = Some a \<longrightarrow> attempts s j = Some a"
    using inv by (auto simp: loop_inv_def store_inv_def)
  have op_for: "op_for t (or_operation_id r) = Some r" if "distinct (op_ids t)" "r \<in> set (ps_ops t)" for t r
    using that unfolding op_for_def op_ids_def by (intro fetchone_unique [where key = or_operation_id]) auto
  have "retry_only_unclaimed s rc"
    unfolding retry_only_unclaimed_def
  proof (intro impI ballI)
    fix r assume retry: "rc_status rc = apply_status.RETRYABLE_NOT_APPLIED" and r: "r \<in> set (ps_ops s)"
      "rc_plan_id rc = Some (or_plan_id r) \<and> rc_operation_id rc = Some (or_operation_id r)"
    then have "attempts s (or_operation_id row) = Some (or_attempt r)"
      using op_for [OF d(2) r(1)] rc(2) by (simp add: attempts_def)
    moreover have "attempts s (or_operation_id row) = Some (or_attempt row)"
      using a op_for [OF d(1) row(1)] by (simp add: attempts_def)
    ultimately show "or_attempt r = 0" using rc(3) retry by simp
  qed
  then have "store_step s (snd (record_reconciliation_receipt s rc now))"
    by (rule step_reconcile [OF prod.collapse [symmetric]])
  then show ?thesis
    using inv store_inv_step reconcile_keeps_attempts [OF prod.collapse [symmetric]]
    unfolding loop_inv_def by (meson rtranclp.rtrancl_into_rtrancl)
qed

lemma operation_records_in: "operation_records rec j = Some row \<Longrightarrow> row \<in> set (rec_operations rec) \<and> or_operation_id row = j"
  by (auto simp: operation_records_def dest!: map_of_SomeD)

lemma reconciled_status_retry:
  "fst (reconciled_status row o' observed) = apply_status.RETRYABLE_NOT_APPLIED \<Longrightarrow> or_attempt row \<le> 0"
  by (auto simp: reconciled_status_def Let_def split: if_splits)

lemma call_reader_keeps [run_rules]: "run_keeps I (call_reader reader p o')"
  by (auto simp: run_ok_def call_reader_def split: sum.splits)

lemma reconcile_operations_keeps:
  assumes "alone ex" "\<not> legacy_id i" "rec_operations rec = operations_of u i"
  shows "run_keeps (state_inv (loop_inv s0 u)) (reconcile_operations ex readers i p rec ops)"
proof (induction ops)
  case Nil
  show ?case by (simp add: run_return_ok)
next
  case (Cons o' os)
  have others: "others_keep ex J" for J using assms(1) by (simp add: others_keep_def alone_def)
  have row: "row \<in> set (ps_ops u) \<and> or_plan_id row = i \<and> or_operation_id row = op_operation_id o'"
    if "operation_records rec (op_operation_id o') = Some row" for row
    using operation_records_in [OF that] assms(3) by (simp add: operations_of_def)
  have ok: "0 \<le> or_attempt row \<and> (or_status row = ISSUED \<longrightarrow> or_attempt row = 0)"
    if "loop_inv s0 u s w" "row \<in> set (ps_ops u)" "or_plan_id row = i" for row s w
    using that assms(2) by (auto simp: loop_inv_def store_inv_def attempt_ok_def claimable_op_def)
  have unclaimed: "run_keeps (state_inv (loop_inv s0 u)) (store_call ex
      (\<lambda>now s. record_reconciliation_receipt s (unclaimed_receipt i row o') now))"
    if "operation_records rec (op_operation_id o') = Some row" "or_status row = ISSUED" for row
  proof (rule store_call_keeps [OF others], rule loop_inv_receipt)
    fix s w now assume inv: "loop_inv s0 u s w"
    show "rc_status (unclaimed_receipt i row o') = apply_status.RETRYABLE_NOT_APPLIED \<longrightarrow> or_attempt row = 0"
      using ok [OF inv] row [OF that(1)] that(2) by blast
  qed (use row [OF that(1)] in \<open>auto simp: unclaimed_receipt_def\<close>)
  have observed: "run_keeps (state_inv (loop_inv s0 u)) (store_call ex
      (\<lambda>now' s. record_reconciliation_receipt s (observed_receipt i row o' ob now) now'))"
    if "operation_records rec (op_operation_id o') = Some row" for row ob now
  proof (rule store_call_keeps [OF others], rule loop_inv_receipt)
    fix s w now' assume inv: "loop_inv s0 u s w"
    show "rc_status (observed_receipt i row o' ob now) = apply_status.RETRYABLE_NOT_APPLIED \<longrightarrow> or_attempt row = 0"
    proof -
      have "0 \<le> or_attempt row" using ok [OF inv] row [OF that] by blast
      then show ?thesis
        using reconciled_status_retry [of row o' ob] by (auto simp: observed_receipt_def split_beta Let_def)
    qed
  qed (use row [OF that] in \<open>auto simp: observed_receipt_def split_beta Let_def\<close>)
  show ?case
    using Cons.IH unclaimed observed
    by (simp only: reconcile_operations.simps) (auto split: option.split intro!: run_rules)
qed


lemma begin_reconcile_steps: "store_step\<^sup>*\<^sup>* s (snd (begin_reconcile s i now))"
  using step_begin_reconcile [OF prod.collapse [symmetric]] by (rule r_into_rtranclp)

lemma get_plan_record_operations:
  "fst (get_plan_record s i) = Inr (Some rec) \<Longrightarrow>
     rec_operations rec = operations_of (snd (get_plan_record s i)) i"
  by (auto simp: get_plan_record_def with_prepared_def select_plan_record_def split: sum.splits option.splits)

text \<open>
  A reconciler that is not interfered with respects single dispatch. When no other process
  writes between its transactions, \<open>reconcile\<close> only takes steps of the ledger, whatever its
  readers observe: it authorises a replay (\<open>RETRYABLE_NOT_APPLIED\<close>) only of operations whose
  attempt count is zero, so the single-dispatch property holds with it as well.
\<close>

theorem lone_reconciler_follows_protocol:
  fixes ex :: "'w executor"
  assumes "alone ex" "\<not> legacy_id i" "store_inv (xs_store st)"
  shows "store_step\<^sup>*\<^sup>* (xs_store st) (xs_store (snd (reconcile ex readers i st)))"
proof -
  let ?J = "\<lambda>s (w :: 'w). store_step\<^sup>*\<^sup>* (xs_store st) s \<and> store_inv s"
  let ?R = "\<lambda>rec s (w :: 'w). ?J s w \<and> (\<forall>r. rec = Some r \<longrightarrow> rec_operations r = operations_of s i)"
  have hon: "honest ex" and others: "others_keep ex J" for J
    using assms(1) by (simp_all add: others_keep_def alone_def)
  have closed: "step_closed ?J"
    unfolding step_closed_def using store_inv_step by (blast intro: rtranclp.rtrancl_into_rtrancl)
  have J_steps: "?J t w" if "?J s w" "store_step\<^sup>*\<^sup>* s t" for s t w
    using step_closed_steps [OF closed that(2,1)] .
  have fence: "run_keeps (state_inv ?J) (transact ex (\<lambda>now s. begin_reconcile s i now))"
    by (rule transact_ok [OF others]) (use J_steps begin_reconcile_steps in blast)
  have snapshot: "run_ok (state_inv ?J) (store_call ex (\<lambda>now s. get_plan_record s i))
      (\<lambda>rec. state_inv (?R rec)) (state_inv ?J)"
    unfolding run_ok_def
  proof (intro allI impI)
    fix st' :: "'w run_state" assume J: "state_inv ?J st'"
    obtain r s where g: "get_plan_record (xs_store st') i = (r, s)" by fastforce
    have id: "ex_others ex n t = t" for n t using assms(1) by (simp add: alone_def)
    have step: "store_step\<^sup>*\<^sup>* (xs_store st') s"
      using get_plan_record_step [of "xs_store st'" i] unfolding g by simp
    have "?J (xs_store st') (xs_world st')" using J unfolding state_inv_def .
    from J_steps [OF this step] have Js: "?J s (xs_world st')" .
    show "case store_call ex (\<lambda>now s. get_plan_record s i) st' of
        (Inl e, st'') \<Rightarrow> state_inv ?J st'' | (Inr rec, st'') \<Rightarrow> state_inv (?R rec) st''"
    proof (cases r)
      case (Inl e)
      then show ?thesis
        using Js g id by (simp add: store_call_def run_bind_def transact_def run_raise_def state_inv_def)
    next
      case (Inr rec)
      then have "\<forall>q. rec = Some q \<longrightarrow> rec_operations q = operations_of s i"
        using get_plan_record_operations [of "xs_store st'" i] g by simp
      then show ?thesis
        using Inr Js g id by (simp add: store_call_def run_bind_def transact_def run_return_def state_inv_def)
    qed
  qed
  have loop: "run_ok (state_inv (?R (Some rec))) (reconcile_operations ex readers i p rec ops)
      (\<lambda>_. state_inv ?J) (state_inv ?J)" for p rec ops
    unfolding run_ok_def
  proof (intro allI impI)
    fix st' :: "'w run_state" assume R: "state_inv (?R (Some rec)) st'"
    then have "rec_operations rec = operations_of (xs_store st') i"
      and "state_inv (loop_inv (xs_store st) (xs_store st')) st'"
      by (auto simp: state_inv_def loop_inv_def)
    then show "case reconcile_operations ex readers i p rec ops st' of
        (Inl e, st'') \<Rightarrow> state_inv ?J st'' | (Inr r, st'') \<Rightarrow> state_inv ?J st''"
      using reconcile_operations_keeps [OF assms(1,2), of rec "xs_store st'" "xs_store st" readers p ops]
      by (auto simp: run_ok_def state_inv_def loop_inv_def split: prod.splits sum.splits)
  qed
  have cont: "run_ok (state_inv (?R found))
      (case found of None \<Rightarrow> run_raise AssertionFailed
       | Some rec \<Rightarrow> run_bind (reconcile_operations ex readers i p rec (wp_operations p))
           (\<lambda>early. case early of Some r \<Rightarrow> run_return r | None \<Rightarrow> status ex i))
      (\<lambda>_. state_inv ?J) (state_inv ?J)" for found p
  proof (cases found)
    case (Some rec)
    show ?thesis
      unfolding Some option.case
      by (rule run_bind_ok [OF loop]) (intro run_keeps_case_option run_return_ok status_keeps hon closed)
  qed (auto simp: run_ok_def run_raise_def state_inv_def)
  have "run_keeps (state_inv ?J) (reconcile ex readers i)"
    unfolding reconcile_def
    by (intro run_keeps_bind run_keeps_case_option run_keeps_case_sum run_keeps_case_store_error run_keeps_if
        run_return_ok run_raise_ok store_call_methods status_keeps hon closed fence run_bind_ok [OF snapshot cont])
  then show ?thesis
    using assms(3) run_keepsD [of "state_inv ?J" "reconcile ex readers i" st] by (simp add: state_inv_def)
qed


definition sample_reconciler :: "dispatch_log executor" where
  "sample_reconciler = (recording_executor sample_answer)\<lparr>ex_clock := (\<lambda>n. 100)\<rparr>"

definition sample_readers :: "(string \<times> dispatch_log reader) list" where
  "sample_readers = [(''DELETE_EDGE'', \<lambda>w p o'. Inr [(''exists'', PyBool False)])]"

theorem lone_reconciler_follows_protocol_witness:
  "let t = xs_store (snd (reconcile sample_reconciler sample_readers ''wp_1''
       (sample_start\<lparr>xs_store := store_dispatched\<rparr>)))
   in store_step\<^sup>*\<^sup>* store_dispatched t \<and> op_outcome t ''a'' = Some APPLIED \<and>
      op_outcome t ''b'' = Some RETRYABLE_NOT_APPLIED"
proof -
  let ?st = "sample_start\<lparr>xs_store := store_dispatched\<rparr>"
  have "alone sample_reconciler"
    using honest_recording_executor
    by (simp add: alone_def sample_reconciler_def honest_def adapter_for_def recording_executor_def)
  moreover have "store_inv (xs_store ?st)"
    using outcomes.inv_reachable [OF fresh_empty sample_steps(3)] by simp
  ultimately have "store_step\<^sup>*\<^sup>* store_dispatched
      (xs_store (snd (reconcile sample_reconciler sample_readers ''wp_1'' ?st)))"
    using lone_reconciler_follows_protocol [of sample_reconciler "''wp_1''" ?st sample_readers] by simp
  moreover have "map (op_outcome (xs_store (snd (reconcile sample_reconciler sample_readers ''wp_1'' ?st)))) [''a'', ''b'']
      = [Some APPLIED, Some RETRYABLE_NOT_APPLIED]"
    by code_simp
  ultimately show ?thesis by (simp add: Let_def)
qed

section \<open>States with lists\<close>

lemma py_eq_tuple_json: "json_value x \<Longrightarrow> \<not> py_eq x (PyTuple vs)"
  by (cases x) (auto simp: py_number_eq_def)

lemma py_eq_dict_keys:
  assumes "py_eq (PyDict d) (PyDict e)" "distinct (map fst d)" "distinct (map fst e)" "k \<in> fst ` set e"
  obtains x y where "(k, x) \<in> set d" "map_of e k = Some y" "py_eq x y"
proof -
  have len: "length d = length e" and
    ok: "\<forall>(k, x) \<in> set d. case map_of e k of None \<Rightarrow> False | Some y \<Rightarrow> py_eq x y"
    using assms(1) by simp_all
  have "fst ` set d \<subseteq> fst ` set e"
    using ok by (force simp: dom_map_of_conv_image_fst [symmetric] split: option.splits)
  moreover have "card (fst ` set d) = card (fst ` set e)"
    using len assms(2,3) by (metis distinct_card length_map set_map)
  ultimately have "k \<in> fst ` set d" using assms(4) by (metis card_subset_eq finite_imageI finite_set)
  then show ?thesis using ok that by (force split: option.splits)
qed

text \<open>
  A state that contains a list is never recognised. Operations keep their states frozen, with
  every list turned into a tuple, while readers observe JSON, whose arrays are lists, and Python
  never equates the two: so an object whose desired state holds a list is not classified
  \<open>APPLIED\<close> even when the reader observes exactly that state (deletions apart).
\<close>

theorem list_valued_state_is_never_applied:
  assumes "make_operation_plan i k t e d deps key = Inr o'" "\<not> starts_with k ''DELETE_''"
    and "map_of d l = Some (PyList vs)" "distinct (map fst d)"
    and "json_dict observed" "distinct (map fst observed)"
  shows "reconcile_operation_state (op_kind o') (op_expected_state o') (op_desired_state o') observed
    \<noteq> apply_status.APPLIED"
proof -
  have o': "op_kind o' = k" "op_desired_state o' = freeze_mapping d"
    using assms(1) by (auto simp: make_operation_plan_def split: if_splits)
  have get: "map_of (freeze_mapping d) l = Some (PyTuple (map freeze vs))"
    using assms(3) by (simp add: freeze_mapping_def map_of_map)
  have dist: "distinct (map fst (freeze_mapping d))"
    using assms(4) by (simp add: freeze_mapping_def comp_def split_beta)
  have "\<not> py_eq (PyDict observed) (PyDict (freeze_mapping d))"
  proof
    assume eq: "py_eq (PyDict observed) (PyDict (freeze_mapping d))"
    have "l \<in> fst ` set (freeze_mapping d)" using get map_of_SomeD by force
    then obtain x where "(l, x) \<in> set observed" "py_eq x (PyTuple (map freeze vs))"
      using get by (elim py_eq_dict_keys [OF eq assms(6) dist]) auto
    then show False using assms(5) py_eq_tuple_json by (auto simp: json_dict_def)
  qed
  then show ?thesis using assms(2) by (simp add: reconcile_operation_state_def o' del: py_eq.simps)
qed

theorem list_valued_state_is_never_applied_witness:
  "let d = [(''exists'', PyBool True), (''tags'', PyList [PyInt 1])]
   in case make_operation_plan ''o'' ''CREATE_VERTEX'' [] [(''exists'', PyBool False)] d [] None of
        Inl _ \<Rightarrow> False
      | Inr o' \<Rightarrow> reconcile_operation_state (op_kind o') (op_expected_state o') (op_desired_state o') d
                   \<noteq> apply_status.APPLIED"
proof -
  let ?d = "[(''exists'', PyBool True), (''tags'', PyList [PyInt 1])]"
  obtain o' where o': "make_operation_plan ''o'' ''CREATE_VERTEX'' [] [(''exists'', PyBool False)] ?d [] None = Inr o'"
    by (simp add: make_operation_plan_def)
  show ?thesis
    using list_valued_state_is_never_applied [OF o', of "''tags''" "[PyInt 1]" ?d]
    by (simp add: o' Let_def starts_with_def json_dict_def)
qed

end
