(* ===== verification/Mcp_Config.thy ===== *)
theory Mcp_Config
  imports Envelope
begin

text \<open>
  \<open>hugegraph_mcp/config.py\<close>, \<open>guard.py\<close>, \<open>toolsets.py\<close>: reading the configuration from the
  environment (a map from names to values), its cache, the capability guard built on it and the
  choice of the toolset. Log messages are not modelled; the warnings kept in the configuration
  are. \<open>Path(text).expanduser()\<close> is left unevaluated in \<open>state_path\<close>.
\<close>

section \<open>\<open>int(text)\<close> and \<open>float(text)\<close>\<close>

text \<open>Underscores may stand between two digits only; they are then dropped.\<close>

fun underscores_ok :: "char option \<Rightarrow> string \<Rightarrow> bool" where
  "underscores_ok prior [] = True"
| "underscores_ok prior (c # s) =
     (if c = CHR ''_''
      then (case prior of None \<Rightarrow> False | Some b \<Rightarrow> ascii_digit b)
           \<and> (case s of [] \<Rightarrow> False | d # _ \<Rightarrow> ascii_digit d) \<and> underscores_ok (Some c) s
      else underscores_ok (Some c) s)"

definition drop_underscores :: "string \<Rightarrow> string option" where
  "drop_underscores s =
     (if underscores_ok None s then Some (filter (\<lambda>c. c \<noteq> CHR ''_'') s) else None)"

definition digit_value :: "char \<Rightarrow> int" where
  "digit_value c = int (code_point c) - 48"

definition digits_value :: "string \<Rightarrow> int" where
  "digits_value s = foldl (\<lambda>n c. 10 * n + digit_value c) 0 s"

definition split_sign :: "string \<Rightarrow> int \<times> string" where
  "split_sign s =
     (case s of c # r \<Rightarrow> if c = CHR ''-'' then (-1, r) else if c = CHR ''+'' then (1, r) else (1, s)
      | [] \<Rightarrow> (1, s))"

text \<open>\<open>int(text)\<close>; CPython refuses more than 4300 digits with the same \<open>ValueError\<close>.\<close>

definition INT_MAX_STR_DIGITS :: nat where "INT_MAX_STR_DIGITS = 4300"

definition parse_int :: "string \<Rightarrow> int option" where
  "parse_int text =
     (case drop_underscores (number_strip text) of
        None \<Rightarrow> None
      | Some s \<Rightarrow>
          let (sign, digits) = split_sign s
          in if digits \<noteq> [] \<and> list_all ascii_digit digits \<and> length digits \<le> INT_MAX_STR_DIGITS
             then Some (sign * digits_value digits) else None)"

definition parse_exponent :: "string \<Rightarrow> int option" where
  "parse_exponent s =
     (case s of
        [] \<Rightarrow> Some 0
      | c # r \<Rightarrow>
          if c = CHR ''e'' \<or> c = CHR ''E''
          then let (sign, digits) = split_sign r
            in if digits \<noteq> [] \<and> list_all ascii_digit digits then Some (sign * digits_value digits) else None
          else None)"

definition power_of_ten :: "int \<Rightarrow> rat" where
  "power_of_ten e = (if 0 \<le> e then 10 ^ nat e else 1 / 10 ^ nat (- e))"

text \<open>The value is exact; the rounding to the nearest double is not modelled.\<close>

definition parse_float :: "string \<Rightarrow> pyfloat option" where
  "parse_float text =
     (case drop_underscores (number_strip text) of
        None \<Rightarrow> None
      | Some s \<Rightarrow>
          let (sign, body) = split_sign s
          in if py_lower body = ''inf'' \<or> py_lower body = ''infinity'' then Some (Infinite (sign = 1))
             else if py_lower body = ''nan'' then Some NaN
             else
               let whole = takeWhile ascii_digit body;
                   rest = dropWhile ascii_digit body;
                   (fraction, rest) = (case rest of
                       c # r \<Rightarrow> if c = CHR ''.'' then (takeWhile ascii_digit r, dropWhile ascii_digit r)
                                else ([], rest)
                     | [] \<Rightarrow> ([], rest))
               in if whole = [] \<and> fraction = [] then None
                  else (case parse_exponent rest of
                      None \<Rightarrow> None
                    | Some e \<Rightarrow> Some (Finite (of_int (sign * digits_value (whole @ fraction))
                        * power_of_ten (e - int (length fraction))))))"

section \<open>The configuration\<close>

datatype state_path = ExplicitDir string | XdgStateDir string | DefaultStateDir

record mcp_config =
  cf_url :: string
  cf_graph :: string
  cf_graphspace :: "string option"
  cf_user :: string
  cf_password :: string
  cf_readonly :: bool
  cf_ai_url :: string
  cf_ai_token :: "string option"
  cf_ai_graph_url :: "string option"
  cf_allow_ai :: bool
  cf_admin_mode :: bool
  cf_connect_timeout_seconds :: rat
  cf_read_timeout_seconds :: rat
  cf_write_timeout_seconds :: rat
  cf_timeout_seconds :: int
  cf_max_result_items :: int
  cf_max_result_bytes :: int
  cf_plan_store_backend :: string
  cf_write_instance_count :: int
  cf_state_dir :: state_path
  cf_warnings :: "string list"

type_synonym environment = "string \<Rightarrow> string option"

definition CONFIG_ENV_NAMES :: "string list" where
  "CONFIG_ENV_NAMES = [''HUGEGRAPH_URL'', ''HUGEGRAPH_GRAPH_PATH'', ''HUGEGRAPH_GRAPH'',
     ''HUGEGRAPH_GRAPHSPACE'', ''HUGEGRAPH_USER'', ''HUGEGRAPH_PASSWORD'', ''HUGEGRAPH_MCP_READONLY'',
     ''HUGEGRAPH_AI_URL'', ''HUGEGRAPH_AI_TOKEN'', ''HUGEGRAPH_AI_GRAPH_URL'', ''HUGEGRAPH_MCP_ALLOW_AI'',
     ''HUGEGRAPH_MCP_ADMIN_MODE'', ''HUGEGRAPH_MCP_TIMEOUT_SECONDS'', ''HUGEGRAPH_AI_TIMEOUT_SECONDS'',
     ''HUGEGRAPH_CONNECT_TIMEOUT_SECONDS'', ''HUGEGRAPH_READ_TIMEOUT_SECONDS'',
     ''HUGEGRAPH_WRITE_TIMEOUT_SECONDS'', ''HUGEGRAPH_MCP_MAX_RESULT_ITEMS'',
     ''HUGEGRAPH_MCP_MAX_RESULT_BYTES'', ''HUGEGRAPH_MCP_PLAN_STORE'',
     ''HUGEGRAPH_MCP_WRITE_INSTANCE_COUNT'', ''HUGEGRAPH_MCP_STATE_DIR'', ''XDG_STATE_HOME'']"

definition TRUE_VALUES :: "string list" where
  "TRUE_VALUES = [''1'', ''true'', ''yes'', ''on'']"

definition FALSE_VALUES :: "string list" where
  "FALSE_VALUES = [''0'', ''false'', ''no'', ''off'']"

definition non_empty :: "string \<Rightarrow> string \<Rightarrow> string" where
  "non_empty v dflt = (if py_strip v = [] then dflt else py_strip v)"

definition optional_non_empty :: "string option \<Rightarrow> string option" where
  "optional_non_empty v =
     (case v of None \<Rightarrow> None | Some t \<Rightarrow> if py_strip t = [] then None else Some (py_strip t))"

text \<open>\<open>graph_path.split("/", 1)\<close>\<close>

definition parse_graph_path :: "string \<Rightarrow> string \<times> string" where
  "parse_graph_path graph_path =
     (let (graphspace, graph) =
            (if CHR ''/'' \<in> set graph_path
             then (takeWhile (\<lambda>c. c \<noteq> CHR ''/'') graph_path, tl (dropWhile (\<lambda>c. c \<noteq> CHR ''/'') graph_path))
             else (''DEFAULT'', graph_path))
      in (non_empty graphspace ''DEFAULT'', non_empty graph ''hugegraph''))"

text \<open>The parsed value and the warning it appends.\<close>

definition parse_bool :: "string option \<Rightarrow> string \<Rightarrow> bool \<Rightarrow> bool \<times> string list" where
  "parse_bool v env_name safe_default =
     (case v of
        None \<Rightarrow> (safe_default, [])
      | Some t \<Rightarrow>
          let normalized = py_lower (py_strip t)
          in if normalized \<in> set TRUE_VALUES then (True, [])
             else if normalized \<in> set FALSE_VALUES then (False, [])
             else (safe_default,
                   [''Invalid boolean configuration: '' @ env_name @ ''; using safe default'']))"

definition parse_integer_field :: "string option \<Rightarrow> int \<Rightarrow> int \<Rightarrow> int \<Rightarrow> int" where
  "parse_integer_field v dflt minimum maximum =
     (case v of
        None \<Rightarrow> dflt
      | Some t \<Rightarrow>
          if py_strip t = [] then dflt
          else (case parse_int t of
              None \<Rightarrow> dflt
            | Some n \<Rightarrow> if n < minimum \<or> n > maximum then dflt else n))"

definition parse_numeric_field :: "string option \<Rightarrow> rat \<Rightarrow> rat \<Rightarrow> rat \<Rightarrow> rat" where
  "parse_numeric_field v dflt minimum maximum =
     (case v of
        None \<Rightarrow> dflt
      | Some t \<Rightarrow>
          if py_strip t = [] then dflt
          else (case parse_float t of
              Some (Finite x) \<Rightarrow> if x < minimum \<or> x > maximum then dflt else x
            | _ \<Rightarrow> dflt))"

definition state_dir :: "environment \<Rightarrow> state_path" where
  "state_dir env =
     (case env ''HUGEGRAPH_MCP_STATE_DIR'' of
        Some t \<Rightarrow> if py_strip t \<noteq> [] then ExplicitDir t
          else (case env ''XDG_STATE_HOME'' of
              Some x \<Rightarrow> if py_strip x \<noteq> [] then XdgStateDir x else DefaultStateDir | None \<Rightarrow> DefaultStateDir)
      | None \<Rightarrow> (case env ''XDG_STATE_HOME'' of
              Some x \<Rightarrow> if py_strip x \<noteq> [] then XdgStateDir x else DefaultStateDir | None \<Rightarrow> DefaultStateDir))"

definition env_get :: "environment \<Rightarrow> string \<Rightarrow> string \<Rightarrow> string" where
  "env_get env name dflt = (case env name of None \<Rightarrow> dflt | Some v \<Rightarrow> v)"

text \<open>\<open>MCPConfig.from_env(env)\<close> on a given mapping.\<close>

definition from_env :: "environment \<Rightarrow> mcp_config" where
  "from_env env =
     (let deprecated = (if env ''HUGEGRAPH_AI_GRAPH_URL'' \<noteq> None
            then [''HUGEGRAPH_AI_GRAPH_URL is deprecated and has no effect; configure GRAPH_URL on the AI service.'']
            else []);
          (path_graphspace, path_graph) = parse_graph_path (env_get env ''HUGEGRAPH_GRAPH_PATH'' ''DEFAULT/hugegraph'');
          split_graphspace = env ''HUGEGRAPH_GRAPHSPACE'';
          split_graph = env ''HUGEGRAPH_GRAPH'';
          override = (if env ''HUGEGRAPH_GRAPH_PATH'' \<noteq> None \<and> (split_graphspace \<noteq> None \<or> split_graph \<noteq> None)
            then [''HUGEGRAPH_GRAPHSPACE/HUGEGRAPH_GRAPH override HUGEGRAPH_GRAPH_PATH''] else []);
          graphspace = (case split_graphspace of None \<Rightarrow> path_graphspace | Some t \<Rightarrow> non_empty t ''DEFAULT'');
          graph = (case split_graph of None \<Rightarrow> path_graph | Some t \<Rightarrow> non_empty t ''hugegraph'');
          (readonly, w1) = parse_bool (env ''HUGEGRAPH_MCP_READONLY'') ''HUGEGRAPH_MCP_READONLY'' True;
          (allow_ai, w2) = parse_bool (env ''HUGEGRAPH_MCP_ALLOW_AI'') ''HUGEGRAPH_MCP_ALLOW_AI'' False;
          (admin_mode, w3) = parse_bool (env ''HUGEGRAPH_MCP_ADMIN_MODE'') ''HUGEGRAPH_MCP_ADMIN_MODE'' False;
          timeout = (case env ''HUGEGRAPH_AI_TIMEOUT_SECONDS'' of
              Some t \<Rightarrow> if t \<noteq> [] then Some t else env ''HUGEGRAPH_MCP_TIMEOUT_SECONDS''
            | None \<Rightarrow> env ''HUGEGRAPH_MCP_TIMEOUT_SECONDS'');
          backend = py_lower (py_strip (env_get env ''HUGEGRAPH_MCP_PLAN_STORE'' ''sqlite''))
      in \<lparr>cf_url = env_get env ''HUGEGRAPH_URL'' ''http://127.0.0.1:8080'', cf_graph = graph,
          cf_graphspace = Some graphspace, cf_user = env_get env ''HUGEGRAPH_USER'' ''admin'',
          cf_password = env_get env ''HUGEGRAPH_PASSWORD'' [], cf_readonly = readonly,
          cf_ai_url = env_get env ''HUGEGRAPH_AI_URL'' ''http://127.0.0.1:8001'',
          cf_ai_token = optional_non_empty (env ''HUGEGRAPH_AI_TOKEN''),
          cf_ai_graph_url = optional_non_empty (env ''HUGEGRAPH_AI_GRAPH_URL''),
          cf_allow_ai = allow_ai, cf_admin_mode = admin_mode,
          cf_connect_timeout_seconds =
            parse_numeric_field (env ''HUGEGRAPH_CONNECT_TIMEOUT_SECONDS'') (1 / 2) (1 / 1000) 86400,
          cf_read_timeout_seconds =
            parse_numeric_field (env ''HUGEGRAPH_READ_TIMEOUT_SECONDS'') 15 (1 / 1000) 86400,
          cf_write_timeout_seconds =
            parse_numeric_field (env ''HUGEGRAPH_WRITE_TIMEOUT_SECONDS'') 15 (1 / 1000) 86400,
          cf_timeout_seconds = parse_integer_field timeout 30 1 86400,
          cf_max_result_items =
            parse_integer_field (env ''HUGEGRAPH_MCP_MAX_RESULT_ITEMS'') 100 1 1000000,
          cf_max_result_bytes =
            parse_integer_field (env ''HUGEGRAPH_MCP_MAX_RESULT_BYTES'') 1048576 1 1073741824,
          cf_plan_store_backend = (if backend = [] then ''invalid'' else backend),
          cf_write_instance_count =
            parse_integer_field (env ''HUGEGRAPH_MCP_WRITE_INSTANCE_COUNT'') 1 1 1024,
          cf_state_dir = state_dir env, cf_warnings = deprecated @ override @ w1 @ w2 @ w3\<rparr>)"

definition has_safe_write_store :: "mcp_config \<Rightarrow> bool" where
  "has_safe_write_store cfg \<longleftrightarrow> cf_plan_store_backend cfg = ''sqlite'' \<and> cf_write_instance_count cfg = 1"

section \<open>The cache\<close>

type_synonym config_cache = "((string \<times> string option) list \<times> mcp_config) option"

definition env_cache_key :: "environment \<Rightarrow> (string \<times> string option) list" where
  "env_cache_key env = map (\<lambda>name. (name, env name)) CONFIG_ENV_NAMES"

definition environment_snapshot :: "environment \<Rightarrow> environment" where
  "environment_snapshot env = (\<lambda>name. if name \<in> set CONFIG_ENV_NAMES then env name else None)"

text \<open>\<open>MCPConfig.from_env()\<close> on the process environment, with the module's cache.\<close>

definition from_process_env :: "environment \<Rightarrow> config_cache \<Rightarrow> mcp_config \<times> config_cache" where
  "from_process_env env cache =
     (let snapshot = environment_snapshot env;
          cache_key = env_cache_key snapshot;
          fresh = (let config = from_env snapshot in (config, Some (cache_key, config)))
      in case cache of
           None \<Rightarrow> fresh
         | Some (key, config) \<Rightarrow> if cache_key = key then (config, cache) else fresh)"

section \<open>Guard\<close>

datatype capability = READ | GENERATE | DATA_WRITE | SCHEMA_WRITE | INDEX_WRITE | DEBUG_WRITE

fun capability_value :: "capability \<Rightarrow> string" where
  "capability_value READ = ''READ''"
| "capability_value GENERATE = ''GENERATE''"
| "capability_value DATA_WRITE = ''DATA_WRITE''"
| "capability_value SCHEMA_WRITE = ''SCHEMA_WRITE''"
| "capability_value INDEX_WRITE = ''INDEX_WRITE''"
| "capability_value DEBUG_WRITE = ''DEBUG_WRITE''"

definition READONLY_ALLOWED_CAPABILITIES :: "capability set" where
  "READONLY_ALLOWED_CAPABILITIES = {READ, GENERATE}"

definition WRITE_CAPABILITIES :: "capability set" where
  "WRITE_CAPABILITIES = {DATA_WRITE, SCHEMA_WRITE, INDEX_WRITE, DEBUG_WRITE}"

definition is_allowed_in_readonly :: "capability \<Rightarrow> bool" where
  "is_allowed_in_readonly c \<longleftrightarrow> c \<in> READONLY_ALLOWED_CAPABILITIES"

definition guard :: "capability \<Rightarrow> mcp_config \<Rightarrow> reply option" where
  "guard c cfg =
     (if c \<in> WRITE_CAPABILITIES \<and> \<not> cf_readonly cfg \<and> \<not> has_safe_write_store cfg
      then Some (envelope_err FEATURE_DISABLED
        ''Write capability requires a shared transactional plan store when multiple MCP instances are configured.''
        (Some ''Run one write-enabled MCP instance with the SQLite plan store, or configure a supported shared transactional PlanStore.'')
        False
        (Some (PyDict [(''plan_store_backend'', PyStr (cf_plan_store_backend cfg)),
                       (''write_instance_count'', PyInt (cf_write_instance_count cfg))])))
      else if \<not> cf_readonly cfg \<or> is_allowed_in_readonly c then None
      else Some (envelope_err READONLY_VIOLATION
        (capability_value c @ '' capability is disabled in read-only mode'')
        (Some ''Disable HUGEGRAPH_MCP_READONLY to allow this operation.'') False None))"

definition guard_write :: "capability \<Rightarrow> mcp_config \<Rightarrow> reply option" where
  "guard_write c cfg = guard c cfg"

text \<open>\<open>PermissionError(message)\<close> or nothing.\<close>

definition require_capability :: "capability \<Rightarrow> mcp_config \<Rightarrow> string option" where
  "require_capability c cfg =
     (case guard c cfg of Some (EnvelopeErr e) \<Rightarrow> Some (ei_message e) | _ \<Rightarrow> None)"

section \<open>Toolsets\<close>

definition VALID_TOOLSETS :: "string list" where
  "VALID_TOOLSETS = [''core'', ''legacy'']"

definition toolset_aliases :: "(string \<times> string) list" where
  "toolset_aliases = [(''v2_core'', ''core''), (''v1'', ''legacy'')]"

text \<open>\<open>Inl\<close> is the \<open>ValueError\<close> for the stripped value.\<close>

definition resolve_toolset :: "string option \<Rightarrow> string + string" where
  "resolve_toolset v =
     (case v of
        None \<Rightarrow> Inr ''core''
      | Some t \<Rightarrow>
          let text = py_strip t
          in if text \<in> set VALID_TOOLSETS then Inr text
             else (case map_of toolset_aliases text of Some canonical \<Rightarrow> Inr canonical | None \<Rightarrow> Inl text))"

section \<open>Properties\<close>

lemma snapshot_get: "name \<in> set CONFIG_ENV_NAMES \<Longrightarrow> environment_snapshot env name = env name"
  by (simp add: environment_snapshot_def)

lemma from_env_snapshot: "from_env (environment_snapshot env) = from_env env"
proof -
  note get = snapshot_get [of _ env, unfolded CONFIG_ENV_NAMES_def]
  have t: "environment_snapshot env ''HUGEGRAPH_MCP_TIMEOUT_SECONDS'' = env ''HUGEGRAPH_MCP_TIMEOUT_SECONDS''"
    and x: "environment_snapshot env ''XDG_STATE_HOME'' = env ''XDG_STATE_HOME''"
    by (simp_all add: get)
  show ?thesis
    unfolding from_env_def env_get_def state_dir_def t x by (simp add: get Let_def split_beta)
qed

lemma env_cache_key_inject:
  "env_cache_key (environment_snapshot e) = env_cache_key (environment_snapshot e') \<Longrightarrow>
     environment_snapshot e = environment_snapshot e'"
  by (rule ext) (auto simp: env_cache_key_def environment_snapshot_def split: if_splits)

text \<open>The configurations a process sees over a sequence of environments.\<close>

fun process_configs :: "environment list \<Rightarrow> config_cache \<Rightarrow> mcp_config list" where
  "process_configs [] cache = []"
| "process_configs (env # envs) cache =
     (let (config, cache') = from_process_env env cache in config # process_configs envs cache')"

definition cache_ok :: "config_cache \<Rightarrow> bool" where
  "cache_ok cache \<longleftrightarrow> (case cache of None \<Rightarrow> True
     | Some (key, config) \<Rightarrow> (\<exists>env. key = env_cache_key (environment_snapshot env) \<and> config = from_env env))"

lemma same_key_same_config:
  "env_cache_key (environment_snapshot e) = env_cache_key (environment_snapshot e') \<Longrightarrow> from_env e = from_env e'"
  using env_cache_key_inject from_env_snapshot by metis

lemma from_process_env_ok:
  assumes "cache_ok cache"
  shows "fst (from_process_env env cache) = from_env env \<and> cache_ok (snd (from_process_env env cache))"
proof -
  let ?key = "env_cache_key (environment_snapshot env)"
  have fresh: "cache_ok (Some (?key, from_env env))" by (auto simp: cache_ok_def)
  consider (hit) config where "cache = Some (?key, config)"
    | (miss) "\<forall>config. cache \<noteq> Some (?key, config)"
    by (cases "\<exists>config. cache = Some (?key, config)") auto
  then show ?thesis
  proof cases
    case hit
    then obtain e where "?key = env_cache_key (environment_snapshot e)" "config = from_env e"
      using assms by (auto simp: cache_ok_def)
    then have "config = from_env env" using same_key_same_config [of env e] by simp
    then show ?thesis using hit assms by (simp add: from_process_env_def Let_def)
  next
    case miss
    then have "from_process_env env cache = (from_env env, Some (?key, from_env env))"
      by (cases cache) (auto simp: from_process_env_def Let_def from_env_snapshot)
    then show ?thesis using fresh by simp
  qed
qed

lemma process_configs_ok: "cache_ok cache \<Longrightarrow> process_configs envs cache = map from_env envs"
proof (induction envs arbitrary: cache)
  case (Cons env envs)
  then show ?case
    using from_process_env_ok [OF Cons.prems, of env]
    by (cases "from_process_env env cache") simp
qed simp

text \<open>
  The configuration cache is invisible. Whatever sequence of environments a process goes
  through, each call of \<open>MCPConfig.from_env()\<close> returns what parsing the current environment
  afresh gives; a stale configuration is never served.
\<close>

theorem config_cache_is_transparent:
  "process_configs envs None = map from_env envs"
  by (rule process_configs_ok) (simp add: cache_ok_def)

lemma parse_integer_field_bounds:
  "minimum \<le> dflt \<Longrightarrow> dflt \<le> maximum \<Longrightarrow>
     minimum \<le> parse_integer_field v dflt minimum maximum \<and> parse_integer_field v dflt minimum maximum \<le> maximum"
  by (auto simp: parse_integer_field_def split: option.splits)

lemma parse_numeric_field_bounds:
  "minimum \<le> dflt \<Longrightarrow> dflt \<le> maximum \<Longrightarrow>
     minimum \<le> parse_numeric_field v dflt minimum maximum \<and> parse_numeric_field v dflt minimum maximum \<le> maximum"
  by (auto simp: parse_numeric_field_def split: option.splits pyfloat.splits)

lemma from_env_fields:
  "\<exists>v. cf_connect_timeout_seconds (from_env env) = parse_numeric_field v (1 / 2) (1 / 1000) 86400"
  "\<exists>v. cf_read_timeout_seconds (from_env env) = parse_numeric_field v 15 (1 / 1000) 86400"
  "\<exists>v. cf_write_timeout_seconds (from_env env) = parse_numeric_field v 15 (1 / 1000) 86400"
  "\<exists>v. cf_timeout_seconds (from_env env) = parse_integer_field v 30 1 86400"
  "\<exists>v. cf_max_result_items (from_env env) = parse_integer_field v 100 1 1000000"
  "\<exists>v. cf_max_result_bytes (from_env env) = parse_integer_field v 1048576 1 1073741824"
  "\<exists>v. cf_write_instance_count (from_env env) = parse_integer_field v 1 1 1024"
  by (simp_all add: from_env_def Let_def split_beta) blast+

text \<open>
  Every numeric setting is within its operational bounds, however malformed the environment
  is: unparsable, infinite, NaN and out-of-range values fall back to defaults that are themselves
  in range, so timeouts are positive and limits finite.
\<close>

theorem numeric_settings_are_in_bounds:
  "let cfg = from_env env
   in 1 / 1000 \<le> cf_connect_timeout_seconds cfg \<and> cf_connect_timeout_seconds cfg \<le> 86400 \<and>
      1 / 1000 \<le> cf_read_timeout_seconds cfg \<and> cf_read_timeout_seconds cfg \<le> 86400 \<and>
      1 / 1000 \<le> cf_write_timeout_seconds cfg \<and> cf_write_timeout_seconds cfg \<le> 86400 \<and>
      1 \<le> cf_timeout_seconds cfg \<and> cf_timeout_seconds cfg \<le> 86400 \<and>
      1 \<le> cf_max_result_items cfg \<and> cf_max_result_items cfg \<le> 1000000 \<and>
      1 \<le> cf_max_result_bytes cfg \<and> cf_max_result_bytes cfg \<le> 1073741824 \<and>
      1 \<le> cf_write_instance_count cfg \<and> cf_write_instance_count cfg \<le> 1024"
proof -
  note n = parse_numeric_field_bounds [of "1 / 1000" 15 86400] parse_numeric_field_bounds [of "1 / 1000" "1 / 2" 86400]
  note i = parse_integer_field_bounds [of 1 30 86400] parse_integer_field_bounds [of 1 100 1000000]
    parse_integer_field_bounds [of 1 1048576 1073741824] parse_integer_field_bounds [of 1 1 1024]
  obtain a b c d e f g where
    "cf_connect_timeout_seconds (from_env env) = parse_numeric_field a (1 / 2) (1 / 1000) 86400"
    "cf_read_timeout_seconds (from_env env) = parse_numeric_field b 15 (1 / 1000) 86400"
    "cf_write_timeout_seconds (from_env env) = parse_numeric_field c 15 (1 / 1000) 86400"
    "cf_timeout_seconds (from_env env) = parse_integer_field d 30 1 86400"
    "cf_max_result_items (from_env env) = parse_integer_field e 100 1 1000000"
    "cf_max_result_bytes (from_env env) = parse_integer_field f 1048576 1 1073741824"
    "cf_write_instance_count (from_env env) = parse_integer_field g 1 1 1024"
    using from_env_fields [of env] by metis
  then show ?thesis using n i by (simp add: Let_def)
qed

lemma parse_bool_false: "\<not> fst (parse_bool v n True) \<longleftrightarrow>
    (\<exists>t. v = Some t \<and> py_lower (py_strip t) \<in> set FALSE_VALUES)"
  by (auto simp: parse_bool_def Let_def TRUE_VALUES_def FALSE_VALUES_def split: option.splits)

lemma from_env_readonly:
  "cf_readonly (from_env env) = fst (parse_bool (env ''HUGEGRAPH_MCP_READONLY'') ''HUGEGRAPH_MCP_READONLY'' True)"
  by (simp add: from_env_def Let_def split_beta)

text \<open>
  C11: writing needs an explicit opt-in. Under the configuration read from an environment, the
  guard lets a capability pass exactly when it is \<open>READ\<close> or \<open>GENERATE\<close>, or when
  \<open>HUGEGRAPH_MCP_READONLY\<close> is set to one of the four false values (up to case and blanks) and a
  single instance uses the SQLite plan store: an absent, empty or misspelt setting stays
  read-only.
\<close>

theorem write_capability_needs_opt_in:
  "guard c (from_env env) = None \<longleftrightarrow>
     c \<in> {READ, GENERATE} \<or>
     (\<exists>t. env ''HUGEGRAPH_MCP_READONLY'' = Some t \<and> py_lower (py_strip t) \<in> {''0'', ''false'', ''no'', ''off''}) \<and>
     cf_plan_store_backend (from_env env) = ''sqlite'' \<and> cf_write_instance_count (from_env env) = 1"
proof -
  have ro: "\<not> cf_readonly (from_env env) \<longleftrightarrow>
      (\<exists>t. env ''HUGEGRAPH_MCP_READONLY'' = Some t \<and> py_lower (py_strip t) \<in> {''0'', ''false'', ''no'', ''off''})"
    unfolding from_env_readonly parse_bool_false FALSE_VALUES_def by simp
  have cap: "c \<in> WRITE_CAPABILITIES \<longleftrightarrow> c \<notin> {READ, GENERATE}" "is_allowed_in_readonly c \<longleftrightarrow> c \<in> {READ, GENERATE}"
    by (cases c; simp add: WRITE_CAPABILITIES_def is_allowed_in_readonly_def READONLY_ALLOWED_CAPABILITIES_def)+
  show ?thesis
    unfolding guard_def cap has_safe_write_store_def ro [symmetric] by auto
qed

lemma guard_not_ok: "guard c cfg = Some r \<Longrightarrow> \<not> reply_is_ok r"
  by (auto simp: guard_def Let_def split: if_split_asm)

end
