(* ===== verification/Plan_Hash.thy ===== *)
theory Plan_Hash
  imports Mcp_Config Confirmation_Store
begin

text \<open>
  \<open>hugegraph_mcp/plan_hash.py\<close>: plan contexts and the hash that binds a confirmation to a tool,
  a graph, a principal, a payload and a lifetime. \<open>sha\<close> stands for the hexadecimal SHA-256 of the
  JSON text of a value, a function of the value alone; nothing else is assumed of it.
\<close>

record plan_context =
  pc_tool_name :: string
  pc_mode :: string
  pc_graph_url :: string
  pc_graph_name :: string
  pc_graphspace :: string
  pc_principal :: string
  pc_readonly :: bool
  pc_payload_digest :: string
  pc_schema_hash :: "string option"
  pc_nonce :: string
  pc_expires_at :: int
  pc_extra_context :: pydict

text \<open>\<open>asdict(context)\<close>, fields in declaration order.\<close>

definition plan_context_to_dict :: "plan_context \<Rightarrow> pydict" where
  "plan_context_to_dict c =
     [(''tool_name'', PyStr (pc_tool_name c)), (''mode'', PyStr (pc_mode c)),
      (''graph_url'', PyStr (pc_graph_url c)), (''graph_name'', PyStr (pc_graph_name c)),
      (''graphspace'', PyStr (pc_graphspace c)), (''principal'', PyStr (pc_principal c)),
      (''readonly'', PyBool (pc_readonly c)), (''payload_digest'', PyStr (pc_payload_digest c)),
      (''schema_hash'', opt_str (pc_schema_hash c)), (''nonce'', PyStr (pc_nonce c)),
      (''expires_at'', PyInt (pc_expires_at c)), (''extra_context'', PyDict (pc_extra_context c))]"

definition compute_plan_hash :: "(pyval \<Rightarrow> string) \<Rightarrow> plan_context \<Rightarrow> string" where
  "compute_plan_hash sha context = take 32 (sha (canonicalize (PyDict (plan_context_to_dict context))))"

definition compute_payload_digest :: "(pyval \<Rightarrow> string) \<Rightarrow> pyval \<Rightarrow> string" where
  "compute_payload_digest sha payload = take 32 (sha (canonicalize payload))"

text \<open>\<open>cfg.graphspace or "DEFAULT"\<close>\<close>

definition config_graphspace :: "mcp_config \<Rightarrow> string" where
  "config_graphspace cfg =
     (case cf_graphspace cfg of None \<Rightarrow> ''DEFAULT'' | Some t \<Rightarrow> if t = [] then ''DEFAULT'' else t)"

text \<open>The context both dry run and confirmation build from the current configuration.\<close>

definition context_for ::
  "mcp_config \<Rightarrow> string \<Rightarrow> string \<Rightarrow> string \<Rightarrow> string option \<Rightarrow> string \<Rightarrow> int \<Rightarrow> pydict \<Rightarrow> plan_context" where
  "context_for cfg tool_name mode payload_digest schema_hash nonce expires_at extra =
     \<lparr>pc_tool_name = tool_name, pc_mode = mode, pc_graph_url = cf_url cfg, pc_graph_name = cf_graph cfg,
      pc_graphspace = config_graphspace cfg, pc_principal = cf_user cfg, pc_readonly = cf_readonly cfg,
      pc_payload_digest = payload_digest, pc_schema_hash = schema_hash, pc_nonce = nonce,
      pc_expires_at = expires_at, pc_extra_context = extra\<rparr>"

definition build_plan_context ::
  "(pyval \<Rightarrow> string) \<Rightarrow> mcp_config \<Rightarrow> int \<Rightarrow> string \<Rightarrow> string \<Rightarrow> string \<Rightarrow> string \<Rightarrow> string option
     \<Rightarrow> string option \<Rightarrow> int \<Rightarrow> pydict option \<Rightarrow> plan_context \<times> string" where
  "build_plan_context sha cfg now generated_nonce tool_name mode payload_digest schema_hash nonce
       ttl_seconds extra_context =
     (let context = context_for cfg tool_name mode payload_digest schema_hash
            (case nonce of None \<Rightarrow> generated_nonce | Some n \<Rightarrow> n) (now + ttl_seconds)
            (case extra_context of None \<Rightarrow> [] | Some d \<Rightarrow> d)
      in (context, compute_plan_hash sha context))"

text \<open>\<open>int(value)\<close>: an infinity raises \<open>OverflowError\<close>, the rest of what fails is caught.\<close>

datatype int_failure = IntTypeError | IntValueError | IntOverflowError

fun py_int :: "pyval \<Rightarrow> int_failure + int" where
  "py_int (PyBool b) = Inr (if b then 1 else 0)"
| "py_int (PyInt i) = Inr i"
| "py_int (PyFloat (Finite x)) = Inr (if 0 \<le> x then \<lfloor>x\<rfloor> else \<lceil>x\<rceil>)"
| "py_int (PyFloat (Infinite _)) = Inl IntOverflowError"
| "py_int (PyFloat NaN) = Inl IntValueError"
| "py_int (PyStr s) = (case parse_int s of None \<Rightarrow> Inl IntValueError | Some i \<Rightarrow> Inr i)"
| "py_int _ = Inl IntTypeError"

definition coerce_expires_at :: "pyval \<Rightarrow> int_failure + int option" where
  "coerce_expires_at v =
     (if v = PyNone then Inr None
      else case py_int v of
        Inr i \<Rightarrow> Inr (Some i)
      | Inl IntOverflowError \<Rightarrow> Inl IntOverflowError
      | Inl _ \<Rightarrow> Inr None)"

type_synonym rejection = "error_type \<times> pydict"

definition reason :: "string \<Rightarrow> pydict" where
  "reason text = [(''reason'', PyStr text)]"

text \<open>
  \<open>Inl\<close> is a raised exception; the value is \<open>None\<close> when the hash is valid (its expiry then is
  the integer returned beside it), else the error type and details.
\<close>

definition verify_plan_hash ::
  "(pyval \<Rightarrow> string) \<Rightarrow> mcp_config \<Rightarrow> int \<Rightarrow> string \<Rightarrow> string \<Rightarrow> string \<Rightarrow> string \<Rightarrow> string option
     \<Rightarrow> string option \<Rightarrow> pyval \<Rightarrow> pydict option \<Rightarrow> int_failure + rejection option" where
  "verify_plan_hash sha cfg now submitted_hash tool_name mode payload_digest schema_hash nonce expires_at
       extra_context =
     (case nonce of
        None \<Rightarrow> Inr (Some (PLAN_HASH_MISMATCH, reason ''Missing nonce in plan context.''))
      | Some n \<Rightarrow>
          (case coerce_expires_at expires_at of
             Inl e \<Rightarrow> Inl e
           | Inr expiry \<Rightarrow>
               (case expiry of
                  Some seconds \<Rightarrow>
                    if now > seconds
                    then Inr (Some (PLAN_EXPIRED, [(''expires_at'', expires_at), (''current_time'', PyInt now),
                      (''reason'', PyStr ''Plan has expired. Run dry_run again.'')]))
                    else
                      let context = context_for cfg tool_name mode payload_digest schema_hash n seconds
                            (case extra_context of None \<Rightarrow> [] | Some d \<Rightarrow> d)
                      in if submitted_hash \<noteq> compute_plan_hash sha context
                         then Inr (Some (PLAN_HASH_MISMATCH, [(''provided_hash'', PyStr submitted_hash),
                           (''reason'', PyStr ''Plan context has changed since dry_run.'')]))
                         else Inr None
                | None \<Rightarrow> Inr (Some (PLAN_EXPIRED, [(''expires_at'', expires_at), (''current_time'', PyInt now),
                      (''reason'', PyStr ''Plan has expired. Run dry_run again.'')])))))"

section \<open>What a hash binds\<close>

lemma canonical_items:
  assumes "canonicalize (PyDict d) = canonicalize (PyDict e)" "distinct (map fst d)" "distinct (map fst e)"
  shows "map_option canonicalize (map_of d k) = map_option canonicalize (map_of e k)"
proof -
  let ?c = "map (\<lambda>(k, v). (k, canonicalize v))"
  have "sort_key fst (?c d) = sort_key fst (?c e)" using assms(1) by simp
  then have "set (?c d) = set (?c e)" by (metis set_sort)
  moreover have "distinct (map fst (?c d))" "distinct (map fst (?c e))"
    using assms(2,3) by (simp_all add: comp_def split_beta)
  ultimately have "map_of (?c d) = map_of (?c e)" by (simp add: map_of_inject_set)
  then have "map_of (?c d) k = map_of (?c e) k" by simp
  then show ?thesis by (simp add: map_of_map)
qed

text \<open>
  The contexts a valid confirmation may have: everything but the key order (and tuples for
  lists) of the extra context is fixed.
\<close>

definition same_context :: "plan_context \<Rightarrow> plan_context \<Rightarrow> bool" where
  "same_context c d \<longleftrightarrow> c\<lparr>pc_extra_context := []\<rparr> = d\<lparr>pc_extra_context := []\<rparr> \<and>
     canonicalize (PyDict (pc_extra_context c)) = canonicalize (PyDict (pc_extra_context d))"

lemma opt_str_inject [simp]: "opt_str a = opt_str b \<longleftrightarrow> a = b"
  by (cases a; cases b) (simp_all add: opt_str_def)

lemma canonicalize_opt_str_id: "canonicalize (opt_str a) = opt_str a"
  by (cases a) (simp_all add: opt_str_def)

lemma canonical_context_inject:
  assumes "canonicalize (PyDict (plan_context_to_dict c)) = canonicalize (PyDict (plan_context_to_dict d))"
  shows "same_context c d"
proof -
  have "distinct (map fst (plan_context_to_dict x))" for x by (simp add: plan_context_to_dict_def)
  note items = canonical_items [OF assms this this]
  have "pc_tool_name c = pc_tool_name d" "pc_mode c = pc_mode d" "pc_graph_url c = pc_graph_url d"
    "pc_graph_name c = pc_graph_name d" "pc_graphspace c = pc_graphspace d" "pc_principal c = pc_principal d"
    "pc_readonly c = pc_readonly d" "pc_payload_digest c = pc_payload_digest d"
    "pc_schema_hash c = pc_schema_hash d" "pc_nonce c = pc_nonce d" "pc_expires_at c = pc_expires_at d"
    using items [of "''tool_name''"] items [of "''mode''"] items [of "''graph_url''"] items [of "''graph_name''"]
      items [of "''graphspace''"] items [of "''principal''"] items [of "''readonly''"]
      items [of "''payload_digest''"] items [of "''schema_hash''"] items [of "''nonce''"] items [of "''expires_at''"]
    by (simp_all add: plan_context_to_dict_def canonicalize_opt_str_id)
  moreover have "canonicalize (PyDict (pc_extra_context c)) = canonicalize (PyDict (pc_extra_context d))"
    using items [of "''extra_context''"] by (simp add: plan_context_to_dict_def)
  ultimately show ?thesis by (simp add: same_context_def)
qed

text \<open>
  C12: a plan hash binds the whole context. If a confirmation verifies against the hash issued for
  a context, then either tool, mode, graph URL, graph, graphspace, principal, readonly flag, payload
  digest, schema hash, nonce, expiry and (up to key order) extra context are those of the dry run
  and the plan has not expired, or the two contexts are a collision of the truncated digest.
\<close>

theorem verified_hash_binds_context:
  assumes "verify_plan_hash sha cfg now (compute_plan_hash sha issued) tool mode payload_digest schema_hash
      (Some n) expires_at extra = Inr None"
  shows "\<exists>seconds. coerce_expires_at expires_at = Inr (Some seconds) \<and> now \<le> seconds \<and>
    (let c = context_for cfg tool mode payload_digest schema_hash n seconds
           (case extra of None \<Rightarrow> [] | Some d \<Rightarrow> d);
         a = canonicalize (PyDict (plan_context_to_dict issued));
         b = canonicalize (PyDict (plan_context_to_dict c))
     in same_context issued c \<or> a \<noteq> b \<and> take 32 (sha a) = take 32 (sha b))"
proof -
  obtain seconds where s: "coerce_expires_at expires_at = Inr (Some seconds)" "now \<le> seconds"
    "compute_plan_hash sha issued = compute_plan_hash sha
       (context_for cfg tool mode payload_digest schema_hash n seconds (case extra of None \<Rightarrow> [] | Some d \<Rightarrow> d))"
    using assms by (auto simp: verify_plan_hash_def Let_def split: sum.splits option.splits if_splits)
  then show ?thesis
    using canonical_context_inject unfolding compute_plan_hash_def Let_def by blast
qed

theorem verified_hash_binds_context_witness:
  "let sha = (\<lambda>v. case v of PyDict d \<Rightarrow> concat (map fst d) | _ \<Rightarrow> []);
       c = context_for (from_env (\<lambda>_. None)) ''t'' ''m'' ''d'' None ''n'' 600 []
   in verify_plan_hash sha (from_env (\<lambda>_. None)) 10 (compute_plan_hash sha c) ''t'' ''m'' ''d'' None
        (Some ''n'') (PyInt 600) None = Inr None \<and>
      (\<exists>seconds. coerce_expires_at (PyInt 600) = Inr (Some seconds) \<and> 10 \<le> seconds)"
proof -
  define sha :: "pyval \<Rightarrow> string" where "sha = (\<lambda>v. case v of PyDict d \<Rightarrow> concat (map fst d) | _ \<Rightarrow> [])"
  define c where "c = context_for (from_env (\<lambda>_. None)) ''t'' ''m'' ''d'' None ''n'' 600 []"
  have "verify_plan_hash sha (from_env (\<lambda>_. None)) 10 (compute_plan_hash sha c) ''t'' ''m'' ''d'' None
        (Some ''n'') (PyInt 600) None = Inr None"
    by (simp add: verify_plan_hash_def coerce_expires_at_def c_def Let_def)
  with verified_hash_binds_context [OF this] show ?thesis
    unfolding sha_def [symmetric] c_def [symmetric] Let_def by blast
qed

end
