(* ===== verification/Confirmable_Workflow.thy ===== *)
theory Confirmable_Workflow
  imports Plan_Hash
begin

text \<open>
  \<open>hugegraph_mcp/confirmable_workflow.py\<close>: issuing a dry-run plan, loading it, and verifying and
  consuming its confirmation, over the ledger of \<open>Confirmation_Store\<close> and the hashes of
  \<open>Plan_Hash\<close>. The state is the ledger; \<open>digest\<close> is the nonce digest, \<open>now\<close> the clock readings in
  order, \<open>disk\<close> whether the SQLite calls succeed. The \<open>source\<close> tag of an envelope is part of the
  envelope's metadata and not modelled.
\<close>

definition plan_hash_error ::
  "error_type option \<Rightarrow> pydict \<Rightarrow> string \<Rightarrow> string option \<Rightarrow> string \<Rightarrow> reply" where
  "plan_hash_error error_type details mismatch_message expired_message suggestion =
     (let resolved = (case error_type of None \<Rightarrow> PLAN_HASH_MISMATCH | Some t \<Rightarrow> t);
          expired = (case expired_message of None \<Rightarrow> [] | Some m \<Rightarrow> m);
          (message, suggestion) =
            (if resolved = PLAN_EXPIRED \<and> expired \<noteq> [] then (expired, suggestion)
             else if resolved = PLAN_ALREADY_USED
             then (''This confirmation plan has already been used.'',
                   ''Inspect the current target state, then run dry_run again and use the new confirmation plan.'')
             else if resolved = SERVER_ERROR
             then (''Confirmation state could not be recorded safely.'',
                   ''Restore writable persistent confirmation state, then run dry_run again.'')
             else (mismatch_message, suggestion))
      in envelope_err resolved message (Some suggestion) False (Some (PyDict details)))"

definition confirm_required_error :: "string \<Rightarrow> string \<Rightarrow> reply" where
  "confirm_required_error message suggestion = envelope_err CONFIRM_REQUIRED message (Some suggestion) False None"

definition mark_readonly_preview :: "pydict \<Rightarrow> string \<Rightarrow> string \<Rightarrow> pydict \<times> string list \<times> string list" where
  "mark_readonly_preview payload warning next_action =
     (AList.update ''readonly_preview_only'' (PyBool True) (AList.update ''confirmable'' (PyBool False) payload),
      [warning], [next_action])"

section \<open>Issuing and loading\<close>

text \<open>\<open>None\<close> when the plan was persisted.\<close>

definition issue_plan ::
  "(string \<Rightarrow> string) \<Rightarrow> confirmation_db \<Rightarrow> plan_context \<Rightarrow> string \<Rightarrow> pyval option \<Rightarrow> int \<Rightarrow> bool
     \<Rightarrow> reply option \<times> confirmation_db" where
  "issue_plan digest db context plan_hash plan_payload now disk =
     (let (r, db') = issue digest db (pc_nonce context) plan_hash (pc_expires_at context) plan_payload now disk
      in (case r of
            Inr _ \<Rightarrow> None
          | Inl ConfirmationPlanExpired \<Rightarrow> Some (plan_hash_error (Some PLAN_EXPIRED)
              (reason ''The generated plan TTL is outside the allowed window.'')
              ''The generated confirmation plan is invalid.''
              (Some ''The generated confirmation plan is invalid.'') ''Run dry_run again.'')
          | Inl ConfirmationPlanMismatch \<Rightarrow> Some (plan_hash_error (Some PLAN_HASH_MISMATCH)
              (reason ''The nonce is already bound to another issued plan.'')
              ''The confirmation nonce conflicts with another plan.'' None
              ''Run dry_run again without supplying a nonce.'')
          | Inl _ \<Rightarrow> Some (plan_hash_error (Some SERVER_ERROR) (reason ''Confirmation state is unavailable.'')
              ''Confirmation state could not be recorded safely.'' None
              ''Restore writable persistent confirmation state, then retry.''), db'))"

definition nonempty :: "string option \<Rightarrow> string option" where
  "nonempty s = (case s of None \<Rightarrow> None | Some t \<Rightarrow> if t = [] then None else Some t)"

text \<open>The payload, or the error reply.\<close>

definition load_issued_plan ::
  "(string \<Rightarrow> string) \<Rightarrow> confirmation_db \<Rightarrow> string option \<Rightarrow> string option \<Rightarrow> pyval \<Rightarrow> int \<Rightarrow> int \<Rightarrow> bool
     \<Rightarrow> reply + pyval" where
  "load_issued_plan digest db nonce plan_hash expires_at now now' disk =
     (case (nonempty nonce, nonempty plan_hash, expires_at = PyNone) of
        (Some n, Some h, False) \<Rightarrow>
          (case py_int expires_at of
             Inl _ \<Rightarrow> Inl (plan_hash_error (Some PLAN_HASH_MISMATCH) (reason ''Plan expiry is invalid.'')
               ''The confirmation plan expiry is invalid.'' None
               ''Run dry_run again and use the returned confirmation plan.'')
           | Inr expiry \<Rightarrow>
               if expiry < now
               then Inl (plan_hash_error (Some PLAN_EXPIRED) (reason ''The server-issued plan has expired.'')
                 ''The server-issued plan has expired.'' (Some ''The server-issued plan has expired.'')
                 ''Run dry_run again and use the returned confirmation plan.'')
               else
                 let failed = (\<lambda>t text. Inl (plan_hash_error (Some t) (reason text)
                       ''No server-issued dry-run plan matches this confirmation.''
                       (Some ''The server-issued plan has expired.'')
                       ''Run dry_run again and use the returned confirmation plan.''))
                 in (case issued_payload digest db n h expiry now' disk of
                       Inr payload \<Rightarrow> Inr payload
                     | Inl ConfirmationNotIssued \<Rightarrow> failed PLAN_HASH_MISMATCH
                         ''No server-issued dry-run plan matches this confirmation.''
                     | Inl ConfirmationPlanMismatch \<Rightarrow> failed PLAN_HASH_MISMATCH
                         ''The confirmation does not match the server-issued plan.''
                     | Inl ConfirmationPlanExpired \<Rightarrow> failed PLAN_EXPIRED ''The server-issued plan has expired.''
                     | Inl _ \<Rightarrow> failed SERVER_ERROR ''Confirmation state is unavailable.''))
      | _ \<Rightarrow> Inl (plan_hash_error (Some PLAN_HASH_MISMATCH) (reason ''Plan confirmation fields are incomplete.'')
          ''No server-issued dry-run plan matches this confirmation.'' None
          ''Run dry_run again and use all returned confirmation fields.''))"

section \<open>Replays, outcomes, status\<close>

definition unresolved_status :: "pydict \<Rightarrow> bool" where
  "unresolved_status operation \<longleftrightarrow>
     map_of operation ''status'' \<in> {Some (PyStr (plan_status_value EXECUTING)), Some (PyStr (plan_status_value UNKNOWN))}"

definition replayed_plan_error ::
  "(string \<Rightarrow> string) \<Rightarrow> confirmation_db \<Rightarrow> string option \<Rightarrow> bool \<Rightarrow> bool \<Rightarrow> reply option" where
  "replayed_plan_error digest db nonce disk disk' =
     (case has_consumed digest db nonce disk of
        Inl _ \<Rightarrow> None
      | Inr False \<Rightarrow> None
      | Inr True \<Rightarrow>
          (let used = plan_hash_error (Some PLAN_ALREADY_USED)
                 (reason ''This confirmation has already been used. Inspect the target state and run dry_run again.'')
                 ''This confirmation plan has already been used.'' None
                 ''Inspect the current target state, then run dry_run again.''
           in (case operation_for_nonce digest db nonce disk' of
                 Inr (Some operation) \<Rightarrow>
                   if unresolved_status operation
                   then Some (envelope_err WRITE_OUTCOME_UNKNOWN
                     ''The prior write attempt has no confirmed outcome; reconcile before retrying.''
                     (Some ''Inspect the target state and query the persisted write status.'') False
                     (Some (PyDict [(''status'', PyStr (plan_status_value UNKNOWN)),
                       (''plan_hash'', dict_get operation ''plan_hash''),
                       (''reconciliation_required'', PyBool True)])))
                   else Some used
               | _ \<Rightarrow> Some used)))"

text \<open>The boolean, or a raised \<open>ValueError\<close> for a status text that is no plan status.\<close>

definition record_write_outcome ::
  "confirmation_db \<Rightarrow> string \<Rightarrow> string \<Rightarrow> pyval \<Rightarrow> int \<Rightarrow> bool \<Rightarrow> (value_error + bool) \<times> confirmation_db" where
  "record_write_outcome db plan_hash status receipt now disk =
     (case List.find (\<lambda>s. plan_status_value s = status) Enum.enum of
        None \<Rightarrow> (Inl (ValueError status), db)
      | Some st \<Rightarrow>
          (case record_outcome db plan_hash st receipt now disk of
             (Inr (), db') \<Rightarrow> (Inr True, db') | (Inl _, db') \<Rightarrow> (Inr False, db')))"

definition get_plan_write_status :: "confirmation_db \<Rightarrow> string \<Rightarrow> bool \<Rightarrow> reply" where
  "get_plan_write_status db plan_hash disk =
     (case operation_for_plan db (Some plan_hash) disk of
        Inl _ \<Rightarrow> envelope_err SERVER_ERROR ''Write status storage is unavailable.'' None False None
      | Inr None \<Rightarrow> envelope_err NOT_FOUND ''No persisted write operation matches this plan hash.'' None False None
      | Inr (Some operation) \<Rightarrow>
          let public = AList.delete ''plan'' operation
          in if map_of public ''status'' = Some (PyStr (plan_status_value EXECUTING))
             then envelope_ok (PyDict (AList.update ''reconciliation_required'' (PyBool True)
                    (AList.update ''status'' (PyStr (plan_status_value UNKNOWN)) public)))
             else envelope_ok (PyDict public))"

section \<open>Verify and consume\<close>

definition consume_rejection :: "confirmation_error \<Rightarrow> rejection" where
  "consume_rejection e =
     (case e of
        ConfirmationAlreadyUsed \<Rightarrow> (PLAN_ALREADY_USED,
          reason ''This confirmation has already been used. Inspect the target state and run dry_run again.'')
      | ConfirmationNotIssued \<Rightarrow> (PLAN_HASH_MISMATCH,
          reason ''No server-issued dry-run plan matches this confirmation.'')
      | ConfirmationPlanMismatch \<Rightarrow> (PLAN_HASH_MISMATCH,
          reason ''The confirmation does not match the server-issued plan.'')
      | ConfirmationPlanExpired \<Rightarrow> (PLAN_EXPIRED, reason ''The server-issued plan has expired.'')
      | ConfirmationStoreUnavailable \<Rightarrow> (SERVER_ERROR,
          reason ''Confirmation state is unavailable. The write was blocked before execution.''))"

text \<open>
  \<open>Inl\<close> is a raised exception, \<open>Inr (Inl _)\<close> the result tuple of an invalid plan, \<open>Inr (Inr payload)\<close>
  that of a valid one. The configuration is read twice: \<open>cfg\<close> for the hash, \<open>cfg'\<close> for the readonly check.
\<close>

definition verify_and_consume_issued_plan ::
  "(pyval \<Rightarrow> string) \<Rightarrow> (string \<Rightarrow> string) \<Rightarrow> mcp_config \<Rightarrow> mcp_config \<Rightarrow> confirmation_db \<Rightarrow> string \<Rightarrow> string
     \<Rightarrow> string \<Rightarrow> string \<Rightarrow> string option \<Rightarrow> string option \<Rightarrow> pyval \<Rightarrow> pydict option \<Rightarrow> int \<Rightarrow> int \<Rightarrow> bool
     \<Rightarrow> (int_failure + rejection + pyval) \<times> confirmation_db" where
  "verify_and_consume_issued_plan sha digest cfg cfg' db submitted_hash tool_name mode payload_digest
       schema_hash nonce expires_at extra_context now now' disk =
     (case verify_plan_hash sha cfg now submitted_hash tool_name mode payload_digest schema_hash nonce
             expires_at extra_context of
        Inl e \<Rightarrow> (Inl e, db)
      | Inr (Some r) \<Rightarrow> (Inr (Inl r), db)
      | Inr None \<Rightarrow>
          if cf_readonly cfg'
          then (Inr (Inl (READONLY_VIOLATION, reason ''Write confirmation is disabled in readonly mode.'')), db)
          else (case py_int (if py_truthy expires_at then expires_at else PyInt 0) of
              Inl e \<Rightarrow> (Inl e, db)
            | Inr expiry \<Rightarrow>
                let (r, db') = consume digest db (case nonce of None \<Rightarrow> [] | Some n \<Rightarrow> n) submitted_hash expiry now' disk
                in (case r of
                      Inr payload \<Rightarrow> (Inr (Inr payload), db')
                    | Inl e \<Rightarrow> (Inr (Inl (consume_rejection e)), db'))))"

text \<open>\<open>verify_and_consume_plan\<close> drops the payload.\<close>

definition verify_and_consume_plan ::
  "(pyval \<Rightarrow> string) \<Rightarrow> (string \<Rightarrow> string) \<Rightarrow> mcp_config \<Rightarrow> mcp_config \<Rightarrow> confirmation_db \<Rightarrow> string \<Rightarrow> string
     \<Rightarrow> string \<Rightarrow> string \<Rightarrow> string option \<Rightarrow> string option \<Rightarrow> pyval \<Rightarrow> pydict option \<Rightarrow> int \<Rightarrow> int \<Rightarrow> bool
     \<Rightarrow> (int_failure + rejection option) \<times> confirmation_db" where
  "verify_and_consume_plan sha digest cfg cfg' db submitted_hash tool_name mode payload_digest
       schema_hash nonce expires_at extra_context now now' disk =
     (let (r, db') = verify_and_consume_issued_plan sha digest cfg cfg' db submitted_hash tool_name mode
            payload_digest schema_hash nonce expires_at extra_context now now' disk
      in (case r of Inl e \<Rightarrow> Inl e | Inr (Inl e) \<Rightarrow> Inr (Some e) | Inr (Inr _) \<Rightarrow> Inr None, db'))"

section \<open>From dry run to confirmation\<close>

lemma issue_success:
  assumes "issue digest db nonce h e p now disk = (Inr (), db')"
  shows "\<exists>r. issued_for db' (digest nonce) = Some r \<and> ir_plan_hash r = h \<and> ir_expires_at r = e \<and>
    ir_payload_json r = map_option (\<lambda>p. JsonText (canonicalize p)) p"
    and "operation_keys db' = operation_keys db"
proof -
  show "operation_keys db' = operation_keys db"
    using assms by (cases rule: issue_cases) auto
  show "\<exists>r. issued_for db' (digest nonce) = Some r \<and> ir_plan_hash r = h \<and> ir_expires_at r = e \<and>
    ir_payload_json r = map_option (\<lambda>p. JsonText (canonicalize p)) p"
    using assms by (auto simp: issue_def Let_def split: if_splits option.splits)
qed

lemma consume_issued:
  assumes inv: "confirmation_inv db" and r: "issued_for db (digest nonce) = Some r" "ir_plan_hash r = h"
      "ir_expires_at r = e" "now \<le> e"
    and fresh: "authorised db (digest nonce) = None" "h \<notin> snd ` set (operation_keys db)"
  shows "fst (consume digest db nonce h e now True) = loads_column (ir_payload_json r)"
proof -
  let ?db1 = "cleanup_expired now (prepare_confirmation_storage db)"
  have row: "r \<in> set (cd_issued db)" "ir_nonce_digest r = digest nonce"
    using r(1) by (auto simp: issued_for_def dest!: sql_fetchone_Some)
  have issued: "issued_for ?db1 (digest nonce) = Some r"
  proof -
    have "distinct (map ir_nonce_digest (cd_issued ?db1))"
      using confirmation_inv_cleanup [OF inv] by (simp add: confirmation_inv_def)
    moreover have "r \<in> set (cd_issued ?db1)"
      using row r(3,4) by (simp add: cleanup_expired_def sql_delete_def)
    ultimately show ?thesis
      unfolding issued_for_def using row(2) by (intro fetchone_unique [where key = ir_nonce_digest]) auto
  qed
  have keys: "digest nonce \<notin> fst ` set (operation_keys db)"
    using fresh(1) by (simp add: authorised_def map_of_eq_None_iff)
  have "consumed_for ?db1 (digest nonce) = None"
    using inv keys by (force simp: consumed_for_def sql_fetchone_None cleanup_expired_def sql_delete_def
        confirmation_inv_def)
  moreover have "check_issued r h e now = None"
    using inv row r by (auto simp: check_issued_def confirmation_inv_def)
  moreover have "sql_rowcount (\<lambda>w. wr_plan_hash w = h \<or> wr_nonce_digest w = digest nonce) (cd_operations ?db1) = 0"
    using keys fresh(2)
    by (auto simp: sql_rowcount_def filter_empty_conv cleanup_expired_def operation_keys_def image_image
        dest: sym [of "wr_nonce_digest _"])
  ultimately show ?thesis using issued by (simp add: consume_def Let_def)
qed

lemma consume_again:
  assumes "consume digest db nonce h e now True = (Inr payload, db')" "now' \<le> e"
  shows "fst (consume digest db' nonce h e now' True) = Inl ConfirmationAlreadyUsed"
proof -
  define c where "c = \<lparr>cr_nonce_digest = digest nonce, cr_plan_hash = h, cr_expires_at = e, cr_consumed_at = now\<rparr>"
  have "c \<in> set (cd_consumed db')"
    using assms(1) by (auto simp: consume_def Let_def c_def split: if_splits option.splits)
  then have c: "c \<in> set (cd_consumed db')" "cr_nonce_digest c = digest nonce" "cr_expires_at c = e"
    by (simp_all add: c_def)
  then have "c \<in> set (cd_consumed (cleanup_expired now' (prepare_confirmation_storage db')))"
    using assms(2) by (simp add: cleanup_expired_def sql_delete_def)
  then have "consumed_for (cleanup_expired now' (prepare_confirmation_storage db')) (digest nonce) \<noteq> None"
    unfolding consumed_for_def sql_fetchone_None using c(2) by blast
  then show ?thesis by (simp add: consume_def Let_def)
qed

lemma verify_unchanged:
  assumes "build_plan_context sha cfg now0 g tool mode dig sh nonce ttl extra = (c, h)" "now \<le> pc_expires_at c"
  shows "verify_plan_hash sha cfg now h tool mode dig sh (Some (pc_nonce c)) (PyInt (pc_expires_at c)) extra = Inr None"
  using assms
  by (auto simp: verify_plan_hash_def build_plan_context_def context_for_def coerce_expires_at_def Let_def)

text \<open>
  C13: dry run to confirmation. A plan issued by a dry run is confirmed by resubmitting what the
  dry run returned, under an unchanged configuration and before it expires, and the confirmation
  hands back the payload persisted at dry run (in canonical form), provided neither its nonce nor
  its hash was used before; confirming it again before its expiry is rejected as already used.
\<close>

theorem issued_plan_confirms_once:
  assumes "confirmation_inv db"
    and "build_plan_context sha cfg now0 g tool mode dig sh nonce ttl extra = (c, h)"
    and "issue_plan digest db c h (Some payload) now1 True = (None, db1)"
    and "authorised db (digest (pc_nonce c)) = None" "h \<notin> snd ` set (operation_keys db)"
    and "\<not> cf_readonly cfg'" "0 < pc_expires_at c"
    and "now2 \<le> pc_expires_at c" "now3 \<le> pc_expires_at c" "now4 \<le> pc_expires_at c" "now5 \<le> pc_expires_at c"
  shows "\<exists>db2. verify_and_consume_issued_plan sha digest cfg cfg' db1 h tool mode dig sh (Some (pc_nonce c))
        (PyInt (pc_expires_at c)) extra now2 now3 True = (Inr (Inr (canonicalize payload)), db2) \<and>
      (\<exists>d. fst (verify_and_consume_issued_plan sha digest cfg cfg' db2 h tool mode dig sh (Some (pc_nonce c))
        (PyInt (pc_expires_at c)) extra now4 now5 True) = Inr (Inl (PLAN_ALREADY_USED, d)))"
proof -
  let ?e = "pc_expires_at c" and ?n = "pc_nonce c"
  have issued: "issue digest db ?n h ?e (Some payload) now1 True = (Inr (), db1)"
    using assms(3) by (auto simp: issue_plan_def Let_def split: prod.splits sum.splits confirmation_error.splits unit.splits)
  obtain r where r: "issued_for db1 (digest ?n) = Some r" "ir_plan_hash r = h" "ir_expires_at r = ?e"
    "ir_payload_json r = Some (JsonText (canonicalize payload))"
    using issue_success(1) [OF issued] by auto
  have inv: "confirmation_inv db1" by (rule issue_inv [OF issued assms(1)])
  have keys: "authorised db1 (digest ?n) = None" "h \<notin> snd ` set (operation_keys db1)"
    using assms(4,5) issue_success(2) [OF issued] by (simp_all add: authorised_def)
  have "fst (consume digest db1 ?n h ?e now3 True) = Inr (canonicalize payload)"
    using consume_issued [where digest = digest and nonce = ?n, OF inv r(1-3) assms(9) keys] r(4) by (simp add: loads_column_def)
  then obtain db2 where c1: "consume digest db1 ?n h ?e now3 True = (Inr (canonicalize payload), db2)"
    by (metis prod.collapse)
  have c2: "fst (consume digest db2 ?n h ?e now5 True) = Inl ConfirmationAlreadyUsed"
    by (rule consume_again [OF c1 assms(11)])
  show ?thesis
    using verify_unchanged [OF assms(2) assms(8)] verify_unchanged [OF assms(2) assms(10)] assms(6,7) c1 c2
    by (auto simp: verify_and_consume_issued_plan_def Let_def consume_rejection_def split: prod.splits)
qed

definition writable_env :: environment where
  "writable_env name = (if name = ''HUGEGRAPH_MCP_READONLY'' then Some ''false'' else None)"

lemma writable_guard: "guard_write DATA_WRITE (from_env writable_env) = None"
proof -
  have "\<not> cf_readonly (from_env writable_env)" "has_safe_write_store (from_env writable_env)"
    by code_simp+
  then show ?thesis
    by (simp add: guard_write_def guard_def)
qed

theorem issued_plan_confirms_once_witness:
  "let sha = (\<lambda>_. ''h''); (c, h) = build_plan_context sha (from_env writable_env) 0 ''g'' ''t'' ''m'' ''d'' None (Some ''n'') 600 None;
       db1 = snd (issue_plan (\<lambda>s. s) empty_confirmation_db c h (Some (PyInt 7)) 0 True)
   in \<exists>db2. verify_and_consume_issued_plan sha (\<lambda>s. s) (from_env writable_env) (from_env writable_env) db1 h
        ''t'' ''m'' ''d'' None (Some ''n'') (PyInt 600) None 10 10 True = (Inr (Inr (PyInt 7)), db2)"
proof -
  let ?b = "build_plan_context (\<lambda>_. ''h'') (from_env writable_env) 0 ''g'' ''t'' ''m'' ''d'' None (Some ''n'') 600 None"
  obtain c h where b: "?b = (c, h)" by fastforce
  then have c: "pc_nonce c = ''n''" "pc_expires_at c = 600" "h = ''h''"
    by (auto simp: build_plan_context_def context_for_def compute_plan_hash_def Let_def)
  have i: "issue_plan (\<lambda>s. s) empty_confirmation_db c h (Some (PyInt 7)) 0 True =
      (None, snd (issue_plan (\<lambda>s. s) empty_confirmation_db c h (Some (PyInt 7)) 0 True))"
    by (simp add: issue_plan_def Let_def issue_def c empty_confirmation_db_def cleanup_expired_def
        prepare_confirmation_storage_def issued_for_def sql_delete_def row_simps DEFAULT_PLAN_TTL_SECONDS_def)
  have "\<not> cf_readonly (from_env writable_env)" by code_simp
  moreover have "confirmation_inv empty_confirmation_db"
    using confirmations.inv_init [OF refl] .
  ultimately show ?thesis
    using issued_plan_confirms_once [OF _ b i, of "from_env writable_env" 10 10 10 10] c
    by (auto simp: b Let_def authorised_def operation_keys_def empty_confirmation_db_def)
qed

text \<open>
  In readonly mode nothing is consumed. Whatever is submitted, a confirmation under a readonly
  configuration never succeeds and leaves the ledger exactly as it was.
\<close>

theorem readonly_confirmation_consumes_nothing:
  assumes "cf_readonly cfg'"
  shows "snd (verify_and_consume_issued_plan sha digest cfg cfg' db h tool mode dig sh nonce e extra now now' disk) = db \<and>
    (\<nexists>payload. fst (verify_and_consume_issued_plan sha digest cfg cfg' db h tool mode dig sh nonce e extra now now' disk)
       = Inr (Inr payload))"
  using assms by (auto simp: verify_and_consume_issued_plan_def split: sum.splits option.splits)

theorem readonly_confirmation_consumes_nothing_witness:
  "cf_readonly (from_env (\<lambda>_. None)) \<and>
   snd (verify_and_consume_issued_plan (\<lambda>_. []) (\<lambda>s. s) (from_env (\<lambda>_. None)) (from_env (\<lambda>_. None))
     empty_confirmation_db [] ''t'' ''m'' ''d'' None (Some ''n'') (PyInt 600) None 10 10 True) = empty_confirmation_db"
proof -
  have "cf_readonly (from_env (\<lambda>_. None))" by code_simp
  with readonly_confirmation_consumes_nothing [OF this] show ?thesis by blast
qed

text \<open>
  An infinite expiry is not rejected but raises. \<open>_coerce_expires_at\<close> catches \<open>TypeError\<close> and
  \<open>ValueError\<close> only, and \<open>int\<close> of an infinity raises \<open>OverflowError\<close>, so a confirmation submitted
  with an infinite \<open>expires_at\<close> ends in an exception instead of the \<open>PLAN_EXPIRED\<close> answer malformed
  values are meant to get; the ledger is untouched.
\<close>

theorem infinite_expiry_raises:
  "verify_and_consume_issued_plan sha digest cfg cfg' db h tool mode dig sh (Some n) (PyFloat (Infinite b)) extra
     now now' disk = (Inl IntOverflowError, db)"
  by (simp add: verify_and_consume_issued_plan_def verify_plan_hash_def coerce_expires_at_def)

end
