(* ===== verification/Gremlin_Lexer.thy ===== *)
theory Gremlin_Lexer
  imports Prelude
begin

text \<open>
  The scanner of \<open>hugegraph_mcp/gremlin_policy.py\<close>. The loop over an index into the query is a
  recursion over the rest of the query, with the index carried along for the token positions.
\<close>

datatype token_kind = Identifier | Number | StringLit | Punctuation | Unknown

record gremlin_token =
  tk_kind :: token_kind
  tk_value :: string
  tk_start :: nat
  tk_end :: nat

record lex_result =
  lx_tokens :: "gremlin_token list"
  lx_valid :: bool
  lx_normalized :: string

definition is_identifier_start :: "char \<Rightarrow> bool" where
  "is_identifier_start c \<longleftrightarrow> c = CHR ''_'' \<or> ascii_alpha c"

definition is_identifier_part :: "char \<Rightarrow> bool" where
  "is_identifier_part c \<longleftrightarrow> is_identifier_start c \<or> ascii_digit c"

definition safe_punctuation :: "char set" where
  "safe_punctuation = {CHR ''.'', CHR ''('', CHR '')'', CHR '','', CHR ''['', CHR '']'', CHR '':'', CHR ''-''}"

definition blank :: char where "blank = CHR '' ''"

definition masked :: "string \<Rightarrow> string" where
  "masked source = map (\<lambda>c. if c = newline then newline else blank) source"

definition line_end :: "char \<Rightarrow> bool" where
  "line_end c \<longleftrightarrow> c = carriage_return \<or> c = newline"

definition triple_quote :: "char \<Rightarrow> string" where
  "triple_quote q = [q, q, q]"

definition backslash :: char where "backslash = CHR 0x5C"

definition single_quote :: char where "single_quote = CHR 0x27"

definition double_quote :: char where "double_quote = CHR 0x22"

text \<open>How many characters up to and including the closing delimiter; \<open>None\<close> if there is none.\<close>

fun scan_quoted :: "bool \<Rightarrow> char \<Rightarrow> string \<Rightarrow> nat option" where
  "scan_quoted triple quote [] = None"
| "scan_quoted triple quote (c # r) =
     (if c = backslash then (case r of [] \<Rightarrow> None | _ # r' \<Rightarrow> map_option (\<lambda>n. n + 2) (scan_quoted triple quote r'))
      else if triple then
        (if prefix (triple_quote quote) (c # r) then Some 3 else map_option Suc (scan_quoted triple quote r))
      else if c = quote then Some 1
      else if line_end c then None
      else map_option Suc (scan_quoted triple quote r))"

text \<open>The length of the literal that starts the (non-empty) text.\<close>

definition consume_quoted :: "string \<Rightarrow> nat option" where
  "consume_quoted s =
     (let quote = hd s; triple = prefix (triple_quote quote) s; n = (if triple then 3 else 1)
      in map_option (\<lambda>k. n + k) (scan_quoted triple quote (drop n s)))"

text \<open>\<open>text.find(pattern)\<close>\<close>

fun find_sub :: "string \<Rightarrow> string \<Rightarrow> nat option" where
  "find_sub p [] = (if p = [] then Some 0 else None)"
| "find_sub p (c # s) = (if prefix p (c # s) then Some 0 else map_option Suc (find_sub p s))"

fun number_tail :: "bool \<Rightarrow> string \<Rightarrow> nat" where
  "number_tail seen_dot [] = 0"
| "number_tail seen_dot (c # s) =
     (if ascii_digit c then Suc (number_tail seen_dot s)
      else if c = CHR ''.'' \<and> \<not> seen_dot then Suc (number_tail True s)
      else 0)"

definition token_at :: "token_kind \<Rightarrow> nat \<Rightarrow> string \<Rightarrow> gremlin_token" where
  "token_at kind i v = \<lparr>tk_kind = kind, tk_value = v, tk_start = i, tk_end = i + length v\<rparr>"

definition lex_end :: lex_result where
  "lex_end = \<lparr>lx_tokens = [], lx_valid = True, lx_normalized = []\<rparr>"

text \<open>The scanner gives up on the rest of the query.\<close>

definition lex_invalid :: "string \<Rightarrow> lex_result" where
  "lex_invalid rest = \<lparr>lx_tokens = [], lx_valid = False, lx_normalized = masked rest\<rparr>"

definition lex_skip :: "string \<Rightarrow> lex_result \<Rightarrow> lex_result" where
  "lex_skip text r = r\<lparr>lx_normalized := text @ lx_normalized r\<rparr>"

definition lex_token :: "gremlin_token \<Rightarrow> string \<Rightarrow> lex_result \<Rightarrow> lex_result" where
  "lex_token t text r = r\<lparr>lx_tokens := t # lx_tokens r, lx_normalized := text @ lx_normalized r\<rparr>"

text \<open>Delimiters stay visible, the contents of a literal are masked.\<close>

definition mask_literal :: "string \<Rightarrow> string" where
  "mask_literal text =
     (let d = (if prefix (triple_quote (hd text)) text then 3 else 1)
      in take d text @ masked (drop d (take (length text - d) text)) @ drop (length text - d) text)"

lemma consume_quoted_pos: "consume_quoted s = Some n \<Longrightarrow> 0 < n"
  by (auto simp: consume_quoted_def Let_def split: if_splits)

function (sequential) lex_from :: "nat \<Rightarrow> string \<Rightarrow> lex_result" where
  "lex_from i [] = lex_end"
| "lex_from i (c # r) =
     (if py_isspace c then lex_skip [c] (lex_from (i + 1) r)
      else if c = CHR ''/'' \<and> prefix ''/'' r then
        (let comment = c # takeWhile (\<lambda>x. \<not> line_end x) r
         in lex_skip (masked comment) (lex_from (i + length comment) (dropWhile (\<lambda>x. \<not> line_end x) r)))
      else if c = CHR ''/'' \<and> prefix ''*'' r then
        (case find_sub ''*/'' (tl r) of
           None \<Rightarrow> lex_invalid (c # r)
         | Some k \<Rightarrow>
             if py_contains ''/*'' (take k (tl r)) then lex_invalid (c # r)
             else lex_skip (masked (take (k + 4) (c # r))) (lex_from (i + k + 4) (drop (k + 3) r)))
      else if c = single_quote \<or> c = double_quote then
        (case consume_quoted (c # r) of
           None \<Rightarrow> lex_invalid (c # r)
         | Some n \<Rightarrow>
             let text = take n (c # r)
             in lex_token (token_at StringLit i text) (mask_literal text) (lex_from (i + n) (drop (n - 1) r)))
      else if is_identifier_start c then
        (let v = c # takeWhile is_identifier_part r
         in lex_token (token_at Identifier i v) v (lex_from (i + length v) (dropWhile is_identifier_part r)))
      else if ascii_digit c then
        (let n = number_tail False r; v = c # take n r
         in lex_token (token_at Number i v) v (lex_from (i + length v) (drop n r)))
      else if c \<in> safe_punctuation then
        lex_token (token_at Punctuation i [c]) [c] (lex_from (i + 1) r)
      else lex_token (token_at Unknown i [c]) [c] (lex_from (i + 1) r))"
  by pat_completeness auto
termination
  by (relation "measure (\<lambda>(i, s). length s)")
    (auto simp: length_dropWhile_le less_Suc_eq_le dest: consume_quoted_pos)

definition lex_gremlin_query :: "string \<Rightarrow> lex_result" where
  "lex_gremlin_query query = lex_from 0 query"

end
