(* ===== verification/Json_Text.thy ===== *)
theory Json_Text
  imports Py_Values
begin

text \<open>
  The text \<open>json.dumps(v, ensure_ascii=False)\<close> produces for a value, with its default separators,
  and the size of a text in UTF-8. The shortest decimal representation of a float,
  \<open>float.__repr__\<close>, is the parameter \<open>fl\<close>; JSON writes \<open>Infinity\<close>, \<open>-Infinity\<close> and \<open>NaN\<close> for the
  others.
\<close>

section \<open>Numbers\<close>

definition digit_char :: "nat \<Rightarrow> char" where
  "digit_char d = char_of (if d < 10 then 48 + d else 87 + d)"

fun show_nat :: "nat \<Rightarrow> string" where
  "show_nat n = (if n < 10 then [digit_char n] else show_nat (n div 10) @ [digit_char (n mod 10)])"

declare show_nat.simps [simp del]

definition show_int :: "int \<Rightarrow> string" where
  "show_int n = (if n < 0 then ''-'' @ show_nat (nat (- n)) else show_nat (nat n))"

text \<open>\<open>f"{n:04x}"\<close> for a code point below 256\<close>

definition hex4 :: "nat \<Rightarrow> string" where
  "hex4 n = [CHR ''0'', CHR ''0'', digit_char (n div 16 mod 16), digit_char (n mod 16)]"

definition json_float :: "(rat \<Rightarrow> string) \<Rightarrow> pyfloat \<Rightarrow> string" where
  "json_float fl f =
     (case f of Finite x \<Rightarrow> fl x | Infinite True \<Rightarrow> ''Infinity'' | Infinite False \<Rightarrow> ''-Infinity'' | NaN \<Rightarrow> ''NaN'')"

section \<open>Strings\<close>

definition json_char :: "char \<Rightarrow> string" where
  "json_char c =
     (if c = CHR 0x22 then [CHR 0x5C, CHR 0x22]
      else if c = CHR 0x5C then [CHR 0x5C, CHR 0x5C]
      else if c = CHR 0x0A then [CHR 0x5C, CHR ''n'']
      else if c = CHR 0x0D then [CHR 0x5C, CHR ''r'']
      else if c = CHR 0x09 then [CHR 0x5C, CHR ''t'']
      else if c = CHR 0x0C then [CHR 0x5C, CHR ''f'']
      else if c = CHR 0x08 then [CHR 0x5C, CHR ''b'']
      else if code_point c < 32 then [CHR 0x5C, CHR ''u''] @ hex4 (code_point c)
      else [c])"

definition json_string :: "string \<Rightarrow> string" where
  "json_string s = [CHR 0x22] @ concat (map json_char s) @ [CHR 0x22]"

fun join :: "string \<Rightarrow> string list \<Rightarrow> string" where
  "join sep [] = []"
| "join sep [x] = x"
| "join sep (x # y # xs) = x @ sep @ join sep (y # xs)"

section \<open>Values\<close>

fun json_dumps :: "(rat \<Rightarrow> string) \<Rightarrow> pyval \<Rightarrow> string" where
  "json_dumps fl PyNone = ''null''"
| "json_dumps fl (PyBool b) = (if b then ''true'' else ''false'')"
| "json_dumps fl (PyInt i) = show_int i"
| "json_dumps fl (PyFloat f) = json_float fl f"
| "json_dumps fl (PyStr s) = json_string s"
| "json_dumps fl (PyList vs) = ''['' @ join '', '' (map (json_dumps fl) vs) @ '']''"
| "json_dumps fl (PyTuple vs) = ''['' @ join '', '' (map (json_dumps fl) vs) @ '']''"
| "json_dumps fl (PyDict d) =
     ''{'' @ join '', '' (map (\<lambda>(k, v). json_string k @ '': '' @ json_dumps fl v) d) @ ''}''"

text \<open>A Latin-1 character takes one byte in UTF-8 if it is ASCII and two otherwise.\<close>

definition utf8_size :: "string \<Rightarrow> nat" where
  "utf8_size s = sum_list (map (\<lambda>c. if py_isascii c then 1 else 2) s)"

lemma length_le_utf8_size: "length s \<le> utf8_size s"
  by (induction s) (auto simp: utf8_size_def)

section \<open>\<open>repr\<close> and \<open>str\<close>\<close>

definition repr_float :: "(rat \<Rightarrow> string) \<Rightarrow> pyfloat \<Rightarrow> string" where
  "repr_float fl f =
     (case f of Finite x \<Rightarrow> fl x | Infinite True \<Rightarrow> ''inf'' | Infinite False \<Rightarrow> ''-inf'' | NaN \<Rightarrow> ''nan'')"

text \<open>\<open>str.isprintable\<close> on Latin-1\<close>

definition printable :: "char \<Rightarrow> bool" where
  "printable c \<longleftrightarrow>
     (32 \<le> code_point c \<and> code_point c < 127) \<or> (161 \<le> code_point c \<and> code_point c \<noteq> 173)"

definition repr_char :: "char \<Rightarrow> char \<Rightarrow> string" where
  "repr_char quote c =
     (if c = quote \<or> c = CHR 0x5C then [CHR 0x5C, c]
      else if c = CHR 0x0A then [CHR 0x5C, CHR ''n'']
      else if c = CHR 0x0D then [CHR 0x5C, CHR ''r'']
      else if c = CHR 0x09 then [CHR 0x5C, CHR ''t'']
      else if printable c then [c]
      else [CHR 0x5C, CHR ''x'', digit_char (code_point c div 16), digit_char (code_point c mod 16)])"

definition repr_string :: "string \<Rightarrow> string" where
  "repr_string s =
     (let quote = (if CHR 0x27 \<in> set s \<and> CHR 0x22 \<notin> set s then CHR 0x22 else CHR 0x27)
      in [quote] @ concat (map (repr_char quote) s) @ [quote])"

fun py_repr :: "(rat \<Rightarrow> string) \<Rightarrow> pyval \<Rightarrow> string" where
  "py_repr fl PyNone = ''None''"
| "py_repr fl (PyBool b) = (if b then ''True'' else ''False'')"
| "py_repr fl (PyInt i) = show_int i"
| "py_repr fl (PyFloat f) = repr_float fl f"
| "py_repr fl (PyStr s) = repr_string s"
| "py_repr fl (PyList vs) = ''['' @ join '', '' (map (py_repr fl) vs) @ '']''"
| "py_repr fl (PyTuple vs) =
     ''('' @ join '', '' (map (py_repr fl) vs) @ (if length vs = 1 then '',)'' else '')'')"
| "py_repr fl (PyDict d) =
     ''{'' @ join '', '' (map (\<lambda>(k, v). repr_string k @ '': '' @ py_repr fl v) d) @ ''}''"

definition py_str :: "(rat \<Rightarrow> string) \<Rightarrow> pyval \<Rightarrow> string" where
  "py_str fl v = (case v of PyStr s \<Rightarrow> s | _ \<Rightarrow> py_repr fl v)"

lemma py_str_PyStr [simp]: "py_str fl (PyStr s) = s"
  by (simp add: py_str_def)

end
