(* ===== verification/Gremlin_Policy.thy ===== *)
theory Gremlin_Policy
  imports Gremlin_Lexer Mcp_Config Json_Text
begin

text \<open>
  \<open>hugegraph_mcp/gremlin_policy.py\<close>: the conservative classifier that decides whether a
  Gremlin query may run through the read-only tool, the structured decision built on it and
  the cost warnings. The loops over token indices are recursions that carry the previous token
  (\<open>None\<close> exactly at index 0) and look at the head of the remaining tokens.
\<close>

section \<open>Vocabulary\<close>

definition DYNAMIC_MARKERS :: "string list" where
  "DYNAMIC_MARKERS = [''${'', ''#{'', ''->'']"

definition MAX_REPEAT_TIMES :: int where "MAX_REPEAT_TIMES = 10"

definition ALLOWED_ARG_TOKENS :: "string list" where
  "ALLOWED_ARG_TOKENS = [''true'', ''false'', ''null'']"

definition WRITE_METHODS :: "string list" where
  "WRITE_METHODS =
     [''addv'', ''adde'', ''drop'', ''dropv'', ''drope'', ''remove'', ''clear'', ''sideeffect'',
      ''io'', ''call'', ''program'']"

definition READ_METHODS :: "string list" where
  "READ_METHODS =
     [''v'', ''e'', ''count'', ''limit'', ''range'', ''has'', ''haslabel'', ''hasid'', ''values'',
      ''valuemap'', ''id'', ''label'', ''keys'', ''elementmap'', ''properties'', ''out'', ''in'',
      ''both'', ''oute'', ''ine'', ''bothe'', ''outv'', ''inv'', ''bothv'', ''otherv'', ''path'',
      ''order'', ''group'', ''groupcount'', ''by'', ''dedup'', ''sample'', ''where'', ''not'',
      ''and'', ''or'', ''as'', ''select'', ''unfold'', ''coalesce'', ''optional'', ''repeat'',
      ''times'', ''until'', ''emit'', ''simplepath'', ''cyclicpath'', ''skip'', ''tail'',
      ''tolist'', ''toset'', ''explain'', ''profile'']"

definition ANONYMOUS_READ_METHODS :: "string list" where
  "ANONYMOUS_READ_METHODS = [''outv'', ''inv'', ''bothv'', ''otherv'']"

definition OPEN_TO_CLOSE :: "(string \<times> string) list" where
  "OPEN_TO_CLOSE = [(''('', '')''), (''['', '']''), (''{'', ''}'')]"

definition CLOSE_TO_OPEN :: "(string \<times> string) list" where
  "CLOSE_TO_OPEN = map (\<lambda>(key, v). (v, key)) OPEN_TO_CLOSE"

definition is_opener :: "string \<Rightarrow> bool" where
  "is_opener v \<longleftrightarrow> v \<in> set (map fst OPEN_TO_CLOSE)"

definition is_closer :: "string \<Rightarrow> bool" where
  "is_closer v \<longleftrightarrow> v \<in> set (map fst CLOSE_TO_OPEN)"

text \<open>The write steps as the analyser tests for them.\<close>

definition names_write :: "string \<Rightarrow> bool" where
  "names_write lowered \<longleftrightarrow> lowered \<in> set WRITE_METHODS \<or> lowered \<in> {''property'', ''iterate''}"

definition has_dynamic_marker :: "string \<Rightarrow> bool" where
  "has_dynamic_marker text \<longleftrightarrow> list_ex (\<lambda>marker. py_contains marker text) DYNAMIC_MARKERS"

section \<open>Token adjacency\<close>

definition value_kind :: "token_kind \<Rightarrow> bool" where
  "value_kind k \<longleftrightarrow> k \<in> {Identifier, Number, StringLit}"

definition adjacent_values :: "gremlin_token \<Rightarrow> gremlin_token \<Rightarrow> bool" where
  "adjacent_values previous current \<longleftrightarrow>
     (tk_kind previous \<in> {Number, StringLit} \<and>
        (value_kind (tk_kind current) \<or> is_opener (tk_value current))) \<or>
     (tk_kind previous = Identifier \<and> value_kind (tk_kind current)) \<or>
     (tk_kind previous = Identifier \<and> py_lower (tk_value previous) \<in> set ALLOWED_ARG_TOKENS \<and>
        is_opener (tk_value current))"

definition track_delimiter :: "string list \<Rightarrow> string \<Rightarrow> string list" where
  "track_delimiter stack v =
     (if is_opener v then v # stack else if is_closer v \<and> stack \<noteq> [] then tl stack else stack)"

text \<open>The top of the stack is its head. A branch that returns early ends the recursion.\<close>

fun adjacency_from :: "string list \<Rightarrow> gremlin_token \<Rightarrow> gremlin_token list \<Rightarrow> bool" where
  "adjacency_from stack previous [] = False"
| "adjacency_from stack previous (current # rest) =
     (let pv = tk_value previous; cv = tk_value current; nv = map_option tk_value (find (\<lambda>_. True) rest)
      in if is_closer pv \<and> cv \<notin> {''.'', '','', '')'', '']'', ''}''} then True
         else if adjacent_values previous current then True
         else if tk_kind previous = Identifier \<and> tk_kind current = Identifier then True
         else if cv = '','' \<and> (stack = [] \<or> pv \<in> {''('', ''['', ''{'', '','', '':''}) then True
         else if cv = '','' \<and> (case nv of None \<Rightarrow> True | Some n \<Rightarrow> n \<in> {'','', '':'', '')'', '']'', ''}''}) then True
         else if cv = '':'' \<and> (stack = [] \<or> hd stack \<noteq> ''['') then True
         else if cv = '':'' \<and> pv \<in> {'','', '':'', ''('', ''{''} then True
         else if cv = '':'' \<and> rest = [] then True
         else if cv = '':'' \<and> pv = ''['' then nv \<noteq> Some '']''
         else if cv = '':'' \<and> nv \<in> Some ` {'','', '':'', '')'', ''}'', '']''} then True
         else if cv = ''-'' \<and> (rest = [] \<or> tk_kind (hd rest) \<noteq> Number) then True
         else adjacency_from (track_delimiter stack cv) current rest)"

definition has_invalid_token_adjacency :: "gremlin_token list \<Rightarrow> bool" where
  "has_invalid_token_adjacency tokens =
     (case tokens of [] \<Rightarrow> False | first # rest \<Rightarrow> adjacency_from [] first rest)"

section \<open>The analysis\<close>

record token_analysis =
  an_methods :: "string list"
  an_write :: bool
  an_uncertain :: bool

record analysis_state = token_analysis +
  an_stack :: "string list"

definition doubt :: "bool \<Rightarrow> analysis_state \<Rightarrow> analysis_state" where
  "doubt b st = st\<lparr>an_uncertain := b \<or> an_uncertain st\<rparr>"

definition note_write :: "bool \<Rightarrow> analysis_state \<Rightarrow> analysis_state" where
  "note_write b st = st\<lparr>an_write := b \<or> an_write st\<rparr>"

definition add_method :: "string \<Rightarrow> analysis_state \<Rightarrow> analysis_state" where
  "add_method m st = st\<lparr>an_methods := an_methods st @ [m]\<rparr>"

definition analyze_punctuation :: "string \<Rightarrow> analysis_state \<Rightarrow> analysis_state" where
  "analyze_punctuation v st =
     (if is_opener v then st\<lparr>an_stack := v # an_stack st\<rparr>
      else if is_closer v then
        (case an_stack st of
           [] \<Rightarrow> doubt True st
         | opened # below \<Rightarrow> doubt (map_of CLOSE_TO_OPEN v \<noteq> Some opened) (st\<lparr>an_stack := below\<rparr>))
      else doubt (v \<in> {'';'', ''+'', ''='', ''?'', ''!'', ''*'', ''%'', ''/''}) st)"

definition analyze_identifier ::
  "gremlin_token option \<Rightarrow> string \<Rightarrow> gremlin_token option \<Rightarrow> analysis_state \<Rightarrow> analysis_state" where
  "analyze_identifier previous v following st =
     (let lowered = py_lower v;
          is_member = map_option tk_value previous = Some ''.'';
          is_call = map_option tk_value following = Some ''(''
      in if is_member then
           (if \<not> is_call then note_write (names_write lowered) (doubt True st)
            else note_write (names_write lowered) (add_method lowered st))
         else if is_call then
           (if lowered \<in> set ANONYMOUS_READ_METHODS then add_method lowered st
            else if names_write lowered then note_write True st
            else doubt True st)
         else if previous = None \<and> lowered = ''g'' then st
         else if lowered \<in> set ALLOWED_ARG_TOKENS then st
         else doubt True st)"

definition analyze_token ::
  "gremlin_token option \<Rightarrow> gremlin_token \<Rightarrow> gremlin_token option \<Rightarrow> analysis_state \<Rightarrow> analysis_state" where
  "analyze_token previous t following st =
     (case tk_kind t of
        Unknown \<Rightarrow> doubt True st
      | StringLit \<Rightarrow> doubt (has_dynamic_marker (tk_value t)) st
      | Punctuation \<Rightarrow> analyze_punctuation (tk_value t) st
      | Number \<Rightarrow> st
      | Identifier \<Rightarrow> analyze_identifier previous (tk_value t) following st)"

fun analyze_from :: "gremlin_token option \<Rightarrow> gremlin_token list \<Rightarrow> analysis_state \<Rightarrow> analysis_state" where
  "analyze_from previous [] st = st"
| "analyze_from previous (t # rest) st =
     analyze_from (Some t) rest (analyze_token previous t (find (\<lambda>_. True) rest) st)"

definition root_ok :: "gremlin_token list \<Rightarrow> bool" where
  "root_ok tokens =
     (case tokens of
        a # b # c # d # _ \<Rightarrow>
          tk_kind a = Identifier \<and> py_lower (tk_value a) = ''g'' \<and> tk_value b = ''.'' \<and>
          tk_kind c = Identifier \<and> py_lower (tk_value c) \<in> {''v'', ''e''} \<and> tk_value d = ''(''
      | _ \<Rightarrow> False)"

fun dynamic_member :: "gremlin_token list \<Rightarrow> bool" where
  "dynamic_member [] = False"
| "dynamic_member (t # rest) \<longleftrightarrow>
     (tk_value t = ''.'' \<and> (rest = [] \<or> tk_kind (hd rest) \<noteq> Identifier)) \<or> dynamic_member rest"

definition initial_analysis :: "lex_result \<Rightarrow> analysis_state" where
  "initial_analysis lexed =
     \<lparr>an_methods = [], an_write = False,
      an_uncertain = (\<not> lx_valid lexed \<or> lx_tokens lexed = [] \<or>
                      has_invalid_token_adjacency (lx_tokens lexed)),
      an_stack = []\<rparr>"

definition analyze_tokens :: "lex_result \<Rightarrow> token_analysis" where
  "analyze_tokens lexed =
     (let tokens = lx_tokens lexed; st = analyze_from None tokens (initial_analysis lexed)
      in \<lparr>an_methods = an_methods st, an_write = an_write st,
          an_uncertain =
            (an_uncertain st \<or> an_stack st \<noteq> [] \<or> \<not> root_ok tokens \<or> dynamic_member tokens \<or>
             has_dynamic_marker (lx_normalized lexed) \<or>
             list_ex (\<lambda>t. tk_value t \<in> {''{'', ''}''}) tokens)\<rparr>)"

section \<open>The classifier and the decision\<close>

datatype gremlin_classification = Safe | Unsafe | Uncertain

definition classify_gremlin_read_safety :: "string \<Rightarrow> gremlin_classification" where
  "classify_gremlin_read_safety query =
     (if py_strip query = [] then Uncertain
      else let a = analyze_tokens (lex_gremlin_query query)
           in if an_write a then Unsafe
              else if an_uncertain a then Uncertain
              else if list_ex (\<lambda>m. m \<notin> set READ_METHODS) (an_methods a) then Uncertain
              else Safe)"

definition is_safe_gremlin_read :: "string \<Rightarrow> bool" where
  "is_safe_gremlin_read query \<longleftrightarrow> classify_gremlin_read_safety query = Safe"

definition extract_method_names :: "string \<Rightarrow> string list" where
  "extract_method_names text = an_methods (analyze_tokens (lex_gremlin_query text))"

definition has_unsafe_write_steps :: "string \<Rightarrow> string list \<Rightarrow> bool" where
  "has_unsafe_write_steps text lowered_methods = an_write (analyze_tokens (lex_gremlin_query text))"

definition has_dynamic_construction_markers :: "string \<Rightarrow> string \<Rightarrow> bool" where
  "has_dynamic_construction_markers original text =
     an_uncertain (analyze_tokens (lex_gremlin_query original))"

definition has_bare_identifier_arguments :: "string \<Rightarrow> bool" where
  "has_bare_identifier_arguments text = an_uncertain (analyze_tokens (lex_gremlin_query text))"

definition strip_string_literals :: "string \<Rightarrow> string" where
  "strip_string_literals query = lx_normalized (lex_gremlin_query query)"

record gremlin_decision =
  gd_allowed :: bool
  gd_classification :: gremlin_classification
  gd_reason :: string
  gd_error_type :: "string option"
  gd_suggestion :: "string option"

definition check_read :: "string \<Rightarrow> gremlin_decision" where
  "check_read query =
     (case classify_gremlin_read_safety query of
        Safe \<Rightarrow> \<lparr>gd_allowed = True, gd_classification = Safe,
                 gd_reason = ''Query is a known read-only traversal.'',
                 gd_error_type = None, gd_suggestion = None\<rparr>
      | Unsafe \<Rightarrow> \<lparr>gd_allowed = False, gd_classification = Unsafe,
                 gd_reason = ''Query contains write or mutate operations.'',
                 gd_error_type = Some ''UNSAFE_GREMLIN'',
                 gd_suggestion = Some ''Use execute_gremlin_write for write operations when write access is enabled.''\<rparr>
      | Uncertain \<Rightarrow> \<lparr>gd_allowed = False, gd_classification = Uncertain,
                 gd_reason = ''Query contains unknown or ambiguous steps; cannot confirm read-only safety.'',
                 gd_error_type = Some ''UNSAFE_GREMLIN'',
                 gd_suggestion = Some ''Use a clearly read-only Gremlin traversal starting with g.V() or g.E().''\<rparr>)"

section \<open>Cost warnings\<close>

definition parse_repeat_threshold :: "environment \<Rightarrow> int" where
  "parse_repeat_threshold env =
     (case env ''HUGEGRAPH_MCP_MAX_REPEAT_TIMES'' of
        None \<Rightarrow> MAX_REPEAT_TIMES
      | Some v \<Rightarrow>
          if py_strip v = [] then MAX_REPEAT_TIMES
          else (case parse_int v of
              None \<Rightarrow> MAX_REPEAT_TIMES
            | Some parsed \<Rightarrow> if parsed \<le> 0 then MAX_REPEAT_TIMES else parsed))"

text \<open>The digits matched by \<open>times\(\s*(\d+)\s*\)\<close> at the start of the text.\<close>

definition match_times :: "string \<Rightarrow> string option" where
  "match_times s =
     (if prefix ''times('' s then
        let r = dropWhile py_isspace (drop 6 s); digits = takeWhile ascii_digit r;
            after = dropWhile py_isspace (dropWhile ascii_digit r)
        in if digits \<noteq> [] \<and> prefix '')'' after then Some digits else None
      else None)"

fun search_times :: "string \<Rightarrow> string option" where
  "search_times [] = None"
| "search_times (c # s) =
     (case match_times (c # s) of Some digits \<Rightarrow> Some digits | None \<Rightarrow> search_times s)"

definition UNBOUNDED_WARNING :: string where
  "UNBOUNDED_WARNING =
     ''Unbounded traversal: result set is not limited; consider adding .limit() or .range().''"

definition NO_TIMES_WARNING :: string where
  "NO_TIMES_WARNING = ''repeat() without times() may recurse without an explicit depth bound.''"

definition HEAVY_WARNING :: string where
  "HEAVY_WARNING = ''Heavy step (path/group/profile) without limit/range may be expensive.''"

definition depth_warning :: "int \<Rightarrow> int \<Rightarrow> string" where
  "depth_warning depth max_times =
     ''repeat().times(n) depth '' @ show_int depth @ '' exceeds recommended maximum '' @
     show_int max_times @ ''.''"

datatype cost_failure = DepthValueError

text \<open>The only call that may raise is \<open>int(match.group(1))\<close>.\<close>

definition repeat_warnings :: "environment \<Rightarrow> string list \<Rightarrow> string \<Rightarrow> cost_failure + string list" where
  "repeat_warnings env methods text =
     (if ''repeat'' \<notin> set methods then Inr []
      else if ''times'' \<notin> set methods then Inr [NO_TIMES_WARNING]
      else (case search_times text of
          None \<Rightarrow> Inr []
        | Some digits \<Rightarrow>
            (case parse_int digits of
               None \<Rightarrow> Inl DepthValueError
             | Some depth \<Rightarrow>
                 Inr (if depth > parse_repeat_threshold env
                      then [depth_warning depth (parse_repeat_threshold env)] else []))))"

definition unbounded_warnings :: "string list \<Rightarrow> string list" where
  "unbounded_warnings methods =
     (if set methods \<inter> {''limit'', ''range'', ''count''} = {} then [UNBOUNDED_WARNING] else [])"

definition heavy_warnings :: "string list \<Rightarrow> string list" where
  "heavy_warnings methods =
     (if list_ex (\<lambda>m. m \<in> set methods) [''path'', ''group'', ''profile''] \<and>
         set methods \<inter> {''limit'', ''range''} = {} then [HEAVY_WARNING] else [])"

definition gremlin_cost_warnings :: "environment \<Rightarrow> string \<Rightarrow> cost_failure + string list" where
  "gremlin_cost_warnings env query =
     (let text = strip_string_literals query;
          methods = map py_lower (extract_method_names text)
      in map_sum id
           (\<lambda>w. rev (remdups (rev (unbounded_warnings methods @ w @ heavy_warnings methods))))
           (repeat_warnings env methods text))"

end
