(* ===== verification/Gremlin_Safety.thy ===== *)
theory Gremlin_Safety
  imports Gremlin_Policy
begin

text \<open>
  What the Gremlin classifier guarantees. The scanner is related to a step relation whose rule
  induction gives its layout facts; the analyser is characterised by what it leaves unsaid: an
  analysis that ends certain explained every identifier, and its delimiter stack recognised a
  properly nested sequence.
\<close>

section \<open>The scanner as a relation\<close>

text \<open>The text the scanner emits for a piece of source: the piece with some characters blanked.\<close>

definition masks :: "string \<Rightarrow> string \<Rightarrow> bool" where
  "masks source text \<longleftrightarrow> list_all2 (\<lambda>c m. m = c \<or> (m = blank \<and> c \<noteq> newline)) source text"

inductive scanned :: "nat \<Rightarrow> string \<Rightarrow> lex_result \<Rightarrow> bool" where
  scanned_end: "scanned i [] lex_end"
| scanned_invalid: "scanned i s (lex_invalid s)"
| scanned_skip:
    "scanned (i + length source) rest r \<Longrightarrow> source \<noteq> [] \<Longrightarrow> masks source text \<Longrightarrow>
     scanned i (source @ rest) (lex_skip text r)"
| scanned_token:
    "scanned (i + length source) rest r \<Longrightarrow> source \<noteq> [] \<Longrightarrow> masks source text \<Longrightarrow>
     scanned i (source @ rest) (lex_token (token_at k i source) text r)"

lemma masks_refl [simp]: "masks s s"
  by (simp add: masks_def list_all2_same)

lemma masks_masked [simp]: "masks s (masked s)"
  by (auto simp: masks_def masked_def list_all2_conv_all_nth)

lemma masks_append: "masks a a' \<Longrightarrow> masks b b' \<Longrightarrow> masks (a @ b) (a' @ b')"
  by (simp add: masks_def list_all2_appendI)

lemma masks_length: "masks a b \<Longrightarrow> length b = length a"
  by (simp add: masks_def list_all2_lengthD)

text \<open>A literal holds both of its delimiters.\<close>

lemma scan_quoted_bounds:
  "scan_quoted triple q s = Some n \<Longrightarrow> (if triple then 3 else 1) \<le> n \<and> n \<le> length s"
proof (induction triple q s arbitrary: n rule: scan_quoted.induct)
  case (2 triple q c r)
  show ?case
  proof (cases "c = backslash")
    case True
    with "2.prems" obtain d r' k where "r = d # r'" "scan_quoted triple q r' = Some k" "n = k + 2"
      by (auto split: list.splits)
    then show ?thesis
      using "2.IH"(1) [OF True, of d r' k] by (auto split: if_splits)
  next
    case False
    then show ?thesis
      using "2.prems" "2.IH"(2,3) [OF False]
      by (auto simp: triple_quote_def split: if_splits dest!: prefix_length_le)
  qed
qed simp

lemma consume_quoted_bounds:
  assumes "consume_quoted s = Some n"
  shows "(if prefix (triple_quote (hd s)) s then 6 else 2) \<le> n" "n \<le> length s"
proof -
  let ?t = "prefix (triple_quote (hd s)) s"
  obtain k where k: "scan_quoted ?t (hd s) (drop (if ?t then 3 else 1) s) = Some k"
      and n: "n = (if ?t then 3 else 1) + k"
    using assms by (auto simp: consume_quoted_def Let_def)
  have "s \<noteq> []"
    using k by (cases s) auto
  moreover have "?t \<Longrightarrow> 3 \<le> length s"
    by (drule prefix_length_le) (simp add: triple_quote_def)
  moreover have "1 \<le> length s"
    using \<open>s \<noteq> []\<close> by (cases s) auto
  ultimately show "(if ?t then 6 else 2) \<le> n" "n \<le> length s"
    using scan_quoted_bounds [OF k] n by (auto split: if_splits)
qed

lemma masks_between:
  assumes "2 * d \<le> length x"
  shows "masks x (take d x @ masked (drop d (take (length x - d) x)) @ drop (length x - d) x)"
proof -
  have "take d (take (length x - d) x) = take d x"
    using assms by (simp add: min_absorb1)
  then have e: "take d x @ drop d (take (length x - d) x) = take (length x - d) x"
    by (metis append_take_drop_id)
  have "masks (take d x @ drop d (take (length x - d) x) @ drop (length x - d) x)
          (take d x @ masked (drop d (take (length x - d) x)) @ drop (length x - d) x)"
    by (intro masks_append masks_refl masks_masked)
  then show ?thesis
    by (simp only: append.assoc [symmetric] e append_take_drop_id)
qed

lemma masks_literal:
  assumes "consume_quoted s = Some n"
  shows "masks (take n s) (mask_literal (take n s))"
proof -
  note b = consume_quoted_bounds [OF assms]
  have h: "hd (take n s) = hd s"
    using b by (cases s) (auto simp: take_Cons' split: if_splits)
  have "prefix (triple_quote (hd s)) (take n s) \<Longrightarrow> prefix (triple_quote (hd s)) s"
    by (meson prefix_order.trans take_is_prefix)
  then have "prefix (triple_quote (hd s)) (take n s) \<Longrightarrow> 6 \<le> n"
    using b(1) by simp
  moreover have "2 \<le> n"
    using b(1) by (simp split: if_splits)
  ultimately show ?thesis
    unfolding mask_literal_def Let_def h using b(2)
    by (cases "prefix (triple_quote (hd s)) (take n s)")
      (simp_all only: if_True if_False, (rule masks_between, simp)+)
qed

text \<open>One turn of the scanner's loop.\<close>

lemma scanned_skip':
  "scanned (i + length source) rest r \<Longrightarrow> source \<noteq> [] \<Longrightarrow> masks source text \<Longrightarrow> s = source @ rest \<Longrightarrow>
     scanned i s (lex_skip text r)"
  by (simp add: scanned_skip)

lemma scanned_token':
  "scanned (i + length source) rest r \<Longrightarrow> source \<noteq> [] \<Longrightarrow> masks source text \<Longrightarrow> s = source @ rest \<Longrightarrow>
     scanned i s (lex_token (token_at k i source) text r)"
  by (simp add: scanned_token)

lemma find_sub_bound: "find_sub p s = Some k \<Longrightarrow> k + length p \<le> length s"
  by (induction p s arbitrary: k rule: find_sub.induct) (auto split: if_splits dest: prefix_length_le)

lemma number_tail_le: "number_tail d s \<le> length s"
  by (induction d s rule: number_tail.induct) auto

lemma takeWhile_dropWhile_Cons: "c # r = (c # takeWhile P r) @ dropWhile P r"
  by simp

lemma take_drop_Cons: "c # r = (c # take n r) @ drop n r"
  by simp

theorem lex_from_scanned: "scanned i s (lex_from i s)"
proof (induction i s rule: lex_from.induct)
  case (1 i)
  then show ?case
    by (simp add: scanned_end)
next
  case (2 i c r)
  let ?stop = "\<lambda>x. \<not> line_end x"
  consider (space) "py_isspace c"
    | (line) "\<not> py_isspace c" "c = CHR ''/'' \<and> prefix ''/'' r"
    | (block) "\<not> py_isspace c" "\<not> (c = CHR ''/'' \<and> prefix ''/'' r)" "c = CHR ''/'' \<and> prefix ''*'' r"
    | (quote) "\<not> py_isspace c" "\<not> (c = CHR ''/'' \<and> prefix ''/'' r)" "\<not> (c = CHR ''/'' \<and> prefix ''*'' r)"
        "c = single_quote \<or> c = double_quote"
    | (other) "\<not> py_isspace c" "\<not> (c = CHR ''/'' \<and> prefix ''/'' r)" "\<not> (c = CHR ''/'' \<and> prefix ''*'' r)"
        "\<not> (c = single_quote \<or> c = double_quote)"
    by blast
  then show ?case
  proof cases
    case space
    have "scanned i (c # r) (lex_skip [c] (lex_from (i + 1) r))"
      using "2.IH"(1) [OF space] by (intro scanned_skip' [where source = "[c]"]) simp_all
    with space show ?thesis by simp
  next
    case line
    have "scanned i (c # r) (lex_skip (masked (c # takeWhile ?stop r))
            (lex_from (i + length (c # takeWhile ?stop r)) (dropWhile ?stop r)))"
      using "2.IH"(2) [OF line refl]
      by (rule scanned_skip' [OF _ _ _ takeWhile_dropWhile_Cons]) simp_all
    with line show ?thesis by (simp add: Let_def)
  next
    case block
    show ?thesis
    proof (cases "find_sub ''*/'' (tl r)")
      case None
      with block show ?thesis by (simp add: scanned_invalid)
    next
      case (Some k)
      have len: "length (take (k + 4) (c # r)) = k + 4"
        using find_sub_bound [OF Some] block(3) by (cases r) auto
      show ?thesis
      proof (cases "py_contains ''/*'' (take k (tl r))")
        case True
        with block Some show ?thesis by (simp add: scanned_invalid)
      next
        case False
        have "scanned i (c # r)
            (lex_skip (masked (take (k + 4) (c # r))) (lex_from (i + k + 4) (drop (k + 3) r)))"
        proof (rule scanned_skip')
          show "scanned (i + length (take (k + 4) (c # r))) (drop (k + 3) r)
              (lex_from (i + k + 4) (drop (k + 3) r))"
            unfolding len using "2.IH"(3) [OF block Some False] by (simp add: add.assoc)
          show "c # r = take (k + 4) (c # r) @ drop (k + 3) r"
            using append_take_drop_id [of "k + 4" "c # r"] by (simp add: numeral_eq_Suc)
        qed simp_all
        with block Some False show ?thesis by simp
      qed
    qed
  next
    case quote
    show ?thesis
    proof (cases "consume_quoted (c # r)")
      case None
      with quote show ?thesis by (auto simp: scanned_invalid)
    next
      case (Some n)
      note n = consume_quoted_pos [OF Some]
      have len: "length (take n (c # r)) = n"
        using consume_quoted_bounds(2) [OF Some] by simp
      have "scanned i (c # r) (lex_token (token_at StringLit i (take n (c # r)))
              (mask_literal (take n (c # r))) (lex_from (i + n) (drop (n - 1) r)))"
      proof (rule scanned_token' [OF _ _ masks_literal [OF Some]])
        show "scanned (i + length (take n (c # r))) (drop (n - 1) r) (lex_from (i + n) (drop (n - 1) r))"
          unfolding len using "2.IH"(4) [OF quote Some refl] by simp
        show "c # r = take n (c # r) @ drop (n - 1) r"
          using append_take_drop_id [of n "c # r"] n by (cases n) simp_all
      qed (use n in simp)
      with quote Some show ?thesis by (auto simp: Let_def)
    qed
  next
    case other
    consider (ident) "is_identifier_start c" | (digit) "\<not> is_identifier_start c" "ascii_digit c"
      | (punct) "\<not> is_identifier_start c" "\<not> ascii_digit c" "c \<in> safe_punctuation"
      | (unknown) "\<not> is_identifier_start c" "\<not> ascii_digit c" "c \<notin> safe_punctuation"
      by blast
    then show ?thesis
    proof cases
      case ident
      have "scanned i (c # r) (lex_token (token_at Identifier i (c # takeWhile is_identifier_part r))
              (c # takeWhile is_identifier_part r)
              (lex_from (i + length (c # takeWhile is_identifier_part r)) (dropWhile is_identifier_part r)))"
        using "2.IH"(5) [OF other ident refl]
        by (rule scanned_token' [OF _ _ _ takeWhile_dropWhile_Cons]) simp_all
      with other ident show ?thesis by (auto simp: Let_def)
    next
      case digit
      have "scanned i (c # r) (lex_token (token_at Number i (c # take (number_tail False r) r))
              (c # take (number_tail False r) r)
              (lex_from (i + length (c # take (number_tail False r) r)) (drop (number_tail False r) r)))"
        using "2.IH"(6) [OF other digit refl refl]
        by (rule scanned_token' [OF _ _ _ take_drop_Cons]) simp_all
      with other digit show ?thesis by (auto simp: Let_def)
    next
      case punct
      have "scanned i (c # r) (lex_token (token_at Punctuation i [c]) [c] (lex_from (i + 1) r))"
        using "2.IH"(7) [OF other punct]
        by (intro scanned_token' [where source = "[c]" and rest = r]) simp_all
      with other punct show ?thesis by auto
    next
      case unknown
      have "scanned i (c # r) (lex_token (token_at Unknown i [c]) [c] (lex_from (i + 1) r))"
        using "2.IH"(8) [OF other unknown]
        by (intro scanned_token' [where source = "[c]" and rest = r]) simp_all
      with other unknown show ?thesis by auto
    qed
  qed
qed

section \<open>Layout\<close>

lemma scanned_layout: "scanned i s r \<Longrightarrow> masks s (lx_normalized r)"
  by (induction rule: scanned.induct)
    (simp_all add: lex_end_def lex_invalid_def lex_skip_def lex_token_def masks_append)

definition slice_of :: "nat \<Rightarrow> string \<Rightarrow> gremlin_token \<Rightarrow> bool" where
  "slice_of i s t \<longleftrightarrow>
     i \<le> tk_start t \<and> tk_start t < tk_end t \<and> tk_end t \<le> i + length s \<and>
     tk_value t = take (tk_end t - tk_start t) (drop (tk_start t - i) s)"

lemma slice_of_shift:
  "slice_of (i + length source) rest t \<Longrightarrow> slice_of i (source @ rest) t"
  by (auto simp: slice_of_def)

lemma slice_of_first: "source \<noteq> [] \<Longrightarrow> slice_of i (source @ rest) (token_at k i source)"
  by (auto simp: slice_of_def token_at_def)

lemma scanned_slices:
  "scanned i s r \<Longrightarrow> list_all (slice_of i s) (lx_tokens r) \<and>
     sorted_wrt (\<lambda>a b. tk_end a \<le> tk_start b) (lx_tokens r)"
proof (induction rule: scanned.induct)
  case (scanned_token i source rest r out k)
  then show ?case
    by (auto simp: lex_token_def list_all_iff slice_of_shift slice_of_first)
      (auto simp: token_at_def slice_of_def)
qed (auto simp: lex_end_def lex_invalid_def lex_skip_def list_all_iff slice_of_shift)

text \<open>
  The scanner neither moves nor invents text. The normalised query has the characters of
  the source in their places, some of them blanked (a line feed never is), every token is the
  piece of the source between its two offsets, and the tokens follow each other without overlap.
\<close>

theorem scanner_keeps_the_layout:
  "masks query (lx_normalized (lex_gremlin_query query)) \<and>
   length (lx_normalized (lex_gremlin_query query)) = length query \<and>
   list_all (\<lambda>t. tk_start t < tk_end t \<and> tk_end t \<le> length query \<and>
       tk_value t = take (tk_end t - tk_start t) (drop (tk_start t) query)) (lx_tokens (lex_gremlin_query query)) \<and>
   sorted_wrt (\<lambda>a b. tk_end a \<le> tk_start b) (lx_tokens (lex_gremlin_query query))"
proof -
  note sc = lex_from_scanned [of 0 query]
  have "masks query (lx_normalized (lex_gremlin_query query))"
    using scanned_layout [OF sc] by (simp add: lex_gremlin_query_def)
  then show ?thesis
    using scanned_slices [OF sc]
    by (auto simp: lex_gremlin_query_def masks_length list_all_iff slice_of_def)
qed

section \<open>What a certain analysis explains\<close>

named_theorems analysis_defs \<open>the state updates of the analyser\<close>

lemmas [analysis_defs] = doubt_def note_write_def add_method_def analyze_punctuation_def
  analyze_identifier_def analyze_token_def Let_def

lemma analyze_token_keeps:
  "an_uncertain st \<Longrightarrow> an_uncertain (analyze_token p t n st)"
  "an_write st \<Longrightarrow> an_write (analyze_token p t n st)"
  "set (an_methods st) \<subseteq> set (an_methods (analyze_token p t n st))"
  by (auto simp: analysis_defs split: token_kind.splits list.splits)

lemma analyze_from_keeps:
  "an_uncertain st \<Longrightarrow> an_uncertain (analyze_from p ts st)"
  "an_write st \<Longrightarrow> an_write (analyze_from p ts st)"
  "m \<in> set (an_methods st) \<Longrightarrow> m \<in> set (an_methods (analyze_from p ts st))"
  by (induction p ts st rule: analyze_from.induct)
    (auto dest: analyze_token_keeps(1,2) analyze_token_keeps(3) [THEN subsetD])

lemma known_words_are_no_writes:
  "names_write w \<Longrightarrow> w \<notin> set READ_METHODS"
  "names_write w \<Longrightarrow> w \<notin> set ANONYMOUS_READ_METHODS"
  "names_write w \<Longrightarrow> w \<notin> set ALLOWED_ARG_TOKENS"
  "\<not> names_write ''g''"
  by (auto simp: names_write_def WRITE_METHODS_def READ_METHODS_def ANONYMOUS_READ_METHODS_def
      ALLOWED_ARG_TOKENS_def)

text \<open>
  A token explained by its neighbours and the collected calls: a member is a call of a collected
  method, a bare call an anonymous traversal step, any other word the leading \<open>g\<close> or a literal.
\<close>

definition explained ::
  "string list \<Rightarrow> gremlin_token option \<Rightarrow> gremlin_token \<Rightarrow> gremlin_token option \<Rightarrow> bool" where
  "explained methods previous t following \<longleftrightarrow>
     tk_kind t \<noteq> Unknown \<and>
     (tk_kind t = Identifier \<longrightarrow>
       (let w = py_lower (tk_value t); is_call = map_option tk_value following = Some ''(''
        in \<not> names_write w \<and>
           (if map_option tk_value previous = Some ''.'' then is_call \<and> w \<in> set methods
            else if is_call then w \<in> set ANONYMOUS_READ_METHODS
            else (previous = None \<and> w = ''g'') \<or> w \<in> set ALLOWED_ARG_TOKENS)))"

lemma analyze_token_explained:
  assumes "\<not> an_uncertain (analyze_token p t n st)" "\<not> an_write (analyze_token p t n st)"
  shows "explained (an_methods (analyze_token p t n st)) p t n"
  using assms
  by (auto simp: explained_def analysis_defs known_words_are_no_writes split: token_kind.splits if_splits)

lemma explained_mono:
  "explained ms p t n \<Longrightarrow> set ms \<subseteq> set ms' \<Longrightarrow> explained ms' p t n"
  by (auto simp: explained_def Let_def)

definition token_before :: "gremlin_token option \<Rightarrow> gremlin_token list \<Rightarrow> nat \<Rightarrow> gremlin_token option" where
  "token_before p ts i = (if i = 0 then p else Some (ts ! (i - 1)))"

definition token_after :: "gremlin_token list \<Rightarrow> nat \<Rightarrow> gremlin_token option" where
  "token_after ts i = (if i + 1 < length ts then Some (ts ! (i + 1)) else None)"

lemma find_True: "find (\<lambda>_. True) xs = (if xs = [] then None else Some (hd xs))"
  by (cases xs) auto

lemma analyze_from_explained:
  assumes "\<not> an_uncertain (analyze_from p ts st)" "\<not> an_write (analyze_from p ts st)" "i < length ts"
  shows "explained (an_methods (analyze_from p ts st)) (token_before p ts i) (ts ! i) (token_after ts i)"
  using assms
proof (induction ts arbitrary: p st i)
  case (Cons t ts)
  let ?n = "find (\<lambda>_. True) ts" and ?st = "analyze_token p t (find (\<lambda>_. True) ts) st"
  show ?case
  proof (cases i)
    case 0
    have "explained (an_methods ?st) p t ?n"
      using Cons.prems analyze_from_keeps(1,2) [of ?st "Some t" ts]
      by (intro analyze_token_explained) auto
    then have "explained (an_methods (analyze_from (Some t) ts ?st)) p t ?n"
      by (rule explained_mono) (auto intro: analyze_from_keeps(3))
    then show ?thesis
      using 0 by (cases ts) (simp_all add: token_before_def token_after_def)
  next
    case (Suc j)
    then show ?thesis
      using Cons.IH [of "Some t" ?st j] Cons.prems
      by (cases j) (auto simp: token_before_def token_after_def split: if_splits)
  qed
qed simp

lemma safe_analysis:
  assumes "classify_gremlin_read_safety query = Safe"
  shows "\<not> an_write (analyze_tokens (lex_gremlin_query query))"
    "\<not> an_uncertain (analyze_tokens (lex_gremlin_query query))"
    "set (an_methods (analyze_tokens (lex_gremlin_query query))) \<subseteq> set READ_METHODS"
  using assms by (auto simp: classify_gremlin_read_safety_def Let_def list_ex_iff split: if_splits)

text \<open>
  C14: a query classified as safe was scanned to its end, starts with \<open>g.V(\<close> or \<open>g.E(\<close>, and
  every one of its tokens is explained: no token is unknown, every member is a call of a method of
  the read list, every bare call one of the four anonymous steps, every other word the leading
  \<open>g\<close> or a literal. In particular no word outside strings and comments names a write step.
\<close>

theorem safe_query_only_reads:
  assumes "classify_gremlin_read_safety query = Safe"
  shows "lx_valid (lex_gremlin_query query) \<and> root_ok (lx_tokens (lex_gremlin_query query)) \<and>
    (\<forall>i < length (lx_tokens (lex_gremlin_query query)).
       explained READ_METHODS (token_before None (lx_tokens (lex_gremlin_query query)) i)
         (lx_tokens (lex_gremlin_query query) ! i) (token_after (lx_tokens (lex_gremlin_query query)) i))"
proof -
  let ?lexed = "lex_gremlin_query query"
  let ?st = "analyze_from None (lx_tokens ?lexed) (initial_analysis ?lexed)"
  note safe = safe_analysis [OF assms]
  have certain: "\<not> an_uncertain ?st" "\<not> an_write ?st" "root_ok (lx_tokens ?lexed)"
      and methods: "set (an_methods ?st) \<subseteq> set READ_METHODS"
    using safe by (auto simp: analyze_tokens_def Let_def)
  have "\<not> an_uncertain (initial_analysis ?lexed)"
    using certain(1) analyze_from_keeps(1) by blast
  then have "lx_valid ?lexed"
    by (simp add: initial_analysis_def)
  then show ?thesis
    using certain analyze_from_explained [OF certain(1,2)] explained_mono [OF _ methods] by blast
qed

theorem safe_query_only_reads_witness:
  "classify_gremlin_read_safety ''g.V().hasLabel(true).count()'' = Safe \<and>
   root_ok (lx_tokens (lex_gremlin_query ''g.V().hasLabel(true).count()''))"
proof -
  have "classify_gremlin_read_safety ''g.V().hasLabel(true).count()'' = Safe"
    by code_simp
  then show ?thesis
    using safe_query_only_reads by blast
qed

section \<open>Nesting\<close>

text \<open>Well-nested sequences of punctuation, independent of any stack.\<close>

inductive nested :: "string list \<Rightarrow> bool" where
  nested_Nil: "nested []"
| nested_other: "\<not> is_opener v \<Longrightarrow> \<not> is_closer v \<Longrightarrow> nested vs \<Longrightarrow> nested (v # vs)"
| nested_pair: "(b, e) \<in> set OPEN_TO_CLOSE \<Longrightarrow> nested xs \<Longrightarrow> nested ys \<Longrightarrow> nested (b # xs @ e # ys)"

inductive closing :: "string list \<Rightarrow> string list \<Rightarrow> bool" where
  closing_Nil: "nested vs \<Longrightarrow> closing [] vs"
| closing_Cons: "(b, e) \<in> set OPEN_TO_CLOSE \<Longrightarrow> nested xs \<Longrightarrow> closing stack ys \<Longrightarrow>
     closing (b # stack) (xs @ e # ys)"

inductive_cases closing_ConsE: "closing (b # stack) vs"
inductive_cases closing_NilE: "closing [] vs"

lemma closing_other:
  "closing stack vs \<Longrightarrow> \<not> is_opener v \<Longrightarrow> \<not> is_closer v \<Longrightarrow> closing stack (v # vs)"
proof (induction rule: closing.cases)
  case (closing_Cons b e xs stack' ys)
  then show ?thesis
    using closing.closing_Cons [of b e "v # xs" stack' ys] nested_other by simp
qed (simp add: closing_Nil nested_other)

lemma closing_opener: "closing (b # stack) vs \<Longrightarrow> closing stack (b # vs)"
proof (erule closing_ConsE)
  fix e xs ys
  assume v: "vs = xs @ e # ys" "(b, e) \<in> set OPEN_TO_CLOSE" "nested xs" "closing stack ys"
  show "closing stack (b # vs)"
    using v(4)
  proof (cases rule: closing.cases)
    case closing_Nil
    then show ?thesis
      using v nested_pair [of b e xs ys] by (auto intro: closing.closing_Nil)
  next
    case (closing_Cons b' e' xs' stack' ys')
    then show ?thesis
      using v nested_pair [of b e xs xs'] closing.closing_Cons [of b' e' "b # xs @ e # xs'" stack' ys']
      by simp
  qed
qed

lemma closing_closer: "(b, e) \<in> set OPEN_TO_CLOSE \<Longrightarrow> closing stack vs \<Longrightarrow> closing (b # stack) (e # vs)"
  using closing_Cons [of b e "[]"] nested_Nil by simp

definition punctuation_of :: "gremlin_token list \<Rightarrow> string list" where
  "punctuation_of ts = map tk_value (filter (\<lambda>t. tk_kind t = Punctuation) ts)"

lemma closer_pairs: "map_of CLOSE_TO_OPEN e = Some b \<Longrightarrow> (b, e) \<in> set OPEN_TO_CLOSE"
  by (auto simp: CLOSE_TO_OPEN_def OPEN_TO_CLOSE_def split: if_splits)

lemma analyze_from_nested:
  "\<not> an_uncertain (analyze_from p ts st) \<Longrightarrow> an_stack (analyze_from p ts st) = [] \<Longrightarrow>
     closing (an_stack st) (punctuation_of ts)"
proof (induction p ts st rule: analyze_from.induct)
  case (1 p st)
  then show ?case
    by (simp add: punctuation_of_def closing_Nil nested_Nil)
next
  case (2 p t ts st)
  let ?st = "analyze_token p t (find (\<lambda>_. True) ts) st"
  have ih: "closing (an_stack ?st) (punctuation_of ts)"
    using 2 by simp
  have certain: "\<not> an_uncertain ?st"
    using "2.prems" analyze_from_keeps(1) by auto
  show ?case
  proof (cases "tk_kind t = Punctuation")
    case False
    then have "an_stack ?st = an_stack st"
      by (auto simp: analysis_defs split: token_kind.splits)
    with ih False show ?thesis by (simp add: punctuation_of_def)
  next
    case True
    let ?v = "tk_value t"
    have st: "?st = analyze_punctuation ?v st"
      using True by (simp add: analyze_token_def)
    have p: "punctuation_of (t # ts) = ?v # punctuation_of ts"
      using True by (simp add: punctuation_of_def)
    consider "is_opener ?v" | "\<not> is_opener ?v" "is_closer ?v" | "\<not> is_opener ?v" "\<not> is_closer ?v"
      by blast
    then show ?thesis
    proof cases
      case 1
      with ih st p show ?thesis by (simp add: analyze_punctuation_def closing_opener)
    next
      case 2
      then obtain b below where "an_stack st = b # below" "map_of CLOSE_TO_OPEN ?v = Some b"
          "an_stack ?st = below"
        using certain st by (auto simp: analyze_punctuation_def doubt_def split: list.splits)
      with ih p show ?thesis by (simp add: closing_closer closer_pairs)
    next
      case 3
      then have "an_stack ?st = an_stack st"
        using st by (simp add: analyze_punctuation_def doubt_def)
      with ih p 3 show ?thesis by (simp add: closing_other)
    qed
  qed
qed

text \<open>
  The delimiters of a query classified as safe are properly nested: the analyser's stack
  accepts no crossed, missing or superfluous parenthesis, bracket or brace.
\<close>

theorem safe_query_is_nested:
  assumes "classify_gremlin_read_safety query = Safe"
  shows "nested (punctuation_of (lx_tokens (lex_gremlin_query query)))"
proof -
  let ?st = "analyze_from None (lx_tokens (lex_gremlin_query query)) (initial_analysis (lex_gremlin_query query))"
  have "\<not> an_uncertain ?st" "an_stack ?st = []"
    using safe_analysis(2) [OF assms] by (auto simp: analyze_tokens_def Let_def)
  from analyze_from_nested [OF this] show ?thesis
    by (auto simp: initial_analysis_def elim: closing_NilE)
qed

theorem safe_query_is_nested_witness:
  "nested (punctuation_of (lx_tokens (lex_gremlin_query ''g.V().where(inV())'')))"
  by (rule safe_query_is_nested) code_simp

section \<open>Write steps\<close>

lemma blank_has_no_tokens: "list_all py_isspace s \<Longrightarrow> lx_tokens (lex_from i s) = []"
  by (induction s arbitrary: i) (simp_all add: lex_end_def lex_skip_def)

lemma analyze_from_append:
  "\<exists>p' st'. analyze_from p (ts @ us) st = analyze_from p' us st'"
proof (induction ts arbitrary: p st)
  case Nil
  then show ?case by auto
next
  case (Cons t ts)
  then show ?case by auto
qed

lemma analyze_from_write_member:
  assumes "tk_value dot = ''.''" "tk_kind t = Identifier" "names_write (py_lower (tk_value t))"
  shows "an_write (analyze_from p (pre @ dot # t # post) st)"
proof -
  obtain p' st' where "analyze_from p (pre @ dot # t # post) st = analyze_from p' (dot # t # post) st'"
    using analyze_from_append by blast
  moreover have "an_write (analyze_token (Some dot) t n st'')" for n st''
    using assms by (simp add: analysis_defs)
  ultimately show ?thesis
    by (simp add: analyze_from_keeps(2))
qed

text \<open>
  A member named like a write step (in any case) makes the query unsafe, wherever it stands,
  called or not, and whatever else the query holds, malformed text included.
\<close>

theorem write_member_is_unsafe:
  assumes "lx_tokens (lex_gremlin_query query) = pre @ dot # t # post"
    and "tk_value dot = ''.''" "tk_kind t = Identifier" "names_write (py_lower (tk_value t))"
  shows "classify_gremlin_read_safety query = Unsafe"
proof -
  have "py_strip query \<noteq> []"
    using assms(1) blank_has_no_tokens [of query 0] by (auto simp: py_strip_eq_Nil lex_gremlin_query_def)
  moreover have "an_write (analyze_tokens (lex_gremlin_query query))"
    using analyze_from_write_member [OF assms(2-4)] assms(1) by (simp add: analyze_tokens_def Let_def)
  ultimately show ?thesis
    by (simp add: classify_gremlin_read_safety_def Let_def)
qed

theorem write_member_is_unsafe_witness:
  "classify_gremlin_read_safety ''}.DROP'' = Unsafe"
  by (rule write_member_is_unsafe [where pre = "[token_at Unknown 0 ''}'']"
        and dot = "token_at Punctuation 1 ''.''" and t = "token_at Identifier 2 ''DROP''" and post = "[]"])
    code_simp+

text \<open>
  The empty-map branch of the adjacency check ends the check. Text that the check refuses
  after \<open>g.V()\<close> is accepted after \<open>g.V([:])\<close>, so a query with a stray value is classified as safe.
\<close>

theorem empty_map_ends_the_adjacency_check:
  "classify_gremlin_read_safety ''g.V()true'' = Uncertain \<and>
   classify_gremlin_read_safety ''g.V([:])true'' = Safe \<and>
   classify_gremlin_read_safety ''g.V([:])true false 1 2'' = Safe"
  by (intro conjI) code_simp+

section \<open>Cost warnings\<close>

lemma remdups_first_set [simp]: "set (rev (remdups (rev xs))) = set xs" "distinct (rev (remdups (rev xs)))"
  by simp_all

lemma depth_warning_prefix: "prefix ''repeat().times(n) depth '' (depth_warning d m)"
  by (simp add: depth_warning_def)

lemma depth_warning_other [simp]:
  "depth_warning d m \<noteq> UNBOUNDED_WARNING" "depth_warning d m \<noteq> NO_TIMES_WARNING"
  "depth_warning d m \<noteq> HEAVY_WARNING" "UNBOUNDED_WARNING \<noteq> NO_TIMES_WARNING"
  "UNBOUNDED_WARNING \<noteq> HEAVY_WARNING" "NO_TIMES_WARNING \<noteq> HEAVY_WARNING"
  by (simp_all add: depth_warning_def UNBOUNDED_WARNING_def NO_TIMES_WARNING_def HEAVY_WARNING_def)

definition cost_methods :: "string \<Rightarrow> string set" where
  "cost_methods query = set (map py_lower (extract_method_names (strip_string_literals query)))"

text \<open>
  The cost warnings of a query are distinct, and each stands for its condition on the methods
  called by the masked query: no bound, a repeat without a depth, a heavy step without a bound.
\<close>

theorem cost_warnings_are_exact:
  assumes "gremlin_cost_warnings env query = Inr warnings"
  shows "distinct warnings \<and>
    (UNBOUNDED_WARNING \<in> set warnings \<longleftrightarrow> cost_methods query \<inter> {''limit'', ''range'', ''count''} = {}) \<and>
    (NO_TIMES_WARNING \<in> set warnings \<longleftrightarrow> ''repeat'' \<in> cost_methods query \<and> ''times'' \<notin> cost_methods query) \<and>
    (HEAVY_WARNING \<in> set warnings \<longleftrightarrow>
       cost_methods query \<inter> {''path'', ''group'', ''profile''} \<noteq> {} \<and> cost_methods query \<inter> {''limit'', ''range''} = {})"
proof -
  let ?m = "map py_lower (extract_method_names (strip_string_literals query))"
  obtain w where w: "repeat_warnings env ?m (strip_string_literals query) = Inr w"
      and warnings: "warnings = rev (remdups (rev (unbounded_warnings ?m @ w @ heavy_warnings ?m)))"
    using assms
    by (cases "repeat_warnings env ?m (strip_string_literals query)")
      (simp_all add: gremlin_cost_warnings_def Let_def)
  have ms: "set ?m = cost_methods query"
    by (simp add: cost_methods_def)
  have "UNBOUNDED_WARNING \<notin> set w \<and> HEAVY_WARNING \<notin> set w \<and>
      (NO_TIMES_WARNING \<in> set w \<longleftrightarrow> ''repeat'' \<in> cost_methods query \<and> ''times'' \<notin> cost_methods query)"
    using w depth_warning_other [symmetric]
    by (auto simp: repeat_warnings_def ms simp del: set_map split: if_splits option.splits)
  moreover have "set warnings = set (unbounded_warnings ?m) \<union> set w \<union> set (heavy_warnings ?m)"
      "distinct warnings"
    unfolding warnings remdups_first_set by auto
  ultimately show ?thesis
    using depth_warning_other(4-6) depth_warning_other(4-6) [symmetric]
    unfolding unbounded_warnings_def heavy_warnings_def ms by auto
qed

theorem cost_warnings_are_exact_witness:
  "''repeat'' \<in> cost_methods ''g.V().repeat(out())'' \<and> ''times'' \<notin> cost_methods ''g.V().repeat(out())''"
proof -
  have "gremlin_cost_warnings (\<lambda>_. None) ''g.V().repeat(out())'' = Inr [UNBOUNDED_WARNING, NO_TIMES_WARNING]"
    by code_simp
  from cost_warnings_are_exact [OF this] show ?thesis
    by simp
qed

text \<open>
  The warnings are computed from the masked query, and masking is not stable: it drops the
  escape before a line feed but keeps the line feed, so the masked literal no longer ends on its
  line. The bound of a bounded query behind such a literal is not seen.
\<close>

theorem escaped_newline_hides_the_bound:
  "''limit'' \<in> set (extract_method_names
       (''g.V().has('' @ [single_quote, backslash, newline, single_quote] @ '').limit(5)'')) \<and>
   gremlin_cost_warnings (\<lambda>_. None)
       (''g.V().has('' @ [single_quote, backslash, newline, single_quote] @ '').limit(5)'') = Inr [UNBOUNDED_WARNING]"
  by (intro conjI) code_simp+

end
