(* ===== verification/Graph_Gremlin.thy ===== *)
theory Graph_Gremlin
  imports Gremlin_Lexer Json_Text
begin

text \<open>
  \<open>hugegraph_mcp/tools/graph_data_gremlin.py\<close>: the Gremlin text generated for a graph change
  operation. An operation is a dictionary; a missing required key is a \<open>KeyError\<close>, iterating over
  something that is no dictionary an \<open>AttributeError\<close>.
\<close>

datatype render_error = RenderKeyError string | RenderAttributeError | UnsupportedOp pyval

definition required :: "pydict \<Rightarrow> string \<Rightarrow> render_error + pyval" where
  "required d k = (case map_of d k of None \<Rightarrow> Inl (RenderKeyError k) | Some v \<Rightarrow> Inr v)"

definition items_of :: "pyval \<Rightarrow> render_error + pydict" where
  "items_of v = (case v of PyDict d \<Rightarrow> Inr d | _ \<Rightarrow> Inl RenderAttributeError)"

section \<open>Literals\<close>

definition escape_char :: "char \<Rightarrow> string" where
  "escape_char c =
     (if c = backslash then [backslash, backslash]
      else if c = single_quote then [backslash, single_quote]
      else if c = newline then [backslash, CHR ''n'']
      else if c = carriage_return then [backslash, CHR ''r'']
      else if c = CHR 0x09 then [backslash, CHR ''t'']
      else if c = CHR 0x08 then [backslash, CHR ''b'']
      else if c = CHR 0x0C then [backslash, CHR ''f'']
      else if code_point c < 32 then [backslash, CHR ''u''] @ hex4 (code_point c)
      else [c])"

definition escape_groovy_single_quoted :: "string \<Rightarrow> string" where
  "escape_groovy_single_quoted s = concat (map escape_char s)"

definition quoted :: "string \<Rightarrow> string" where
  "quoted s = [single_quote] @ escape_groovy_single_quoted s @ [single_quote]"

fun gremlin_literal :: "(rat \<Rightarrow> string) \<Rightarrow> pyval \<Rightarrow> string" where
  "gremlin_literal fl (PyStr s) = quoted s"
| "gremlin_literal fl (PyDict d) =
     ''['' @ join '', ''
       (map (\<lambda>(k, t). quoted k @ '': '' @ t) (sort_key fst (map (\<lambda>(k, v). (k, gremlin_literal fl v)) d))) @ '']''"
| "gremlin_literal fl (PyList vs) = ''['' @ join '', '' (map (gremlin_literal fl) vs) @ '']''"
| "gremlin_literal fl (PyTuple vs) = ''['' @ join '', '' (map (gremlin_literal fl) vs) @ '']''"
| "gremlin_literal fl v = json_dumps fl v"

section \<open>Queries\<close>

definition has_step :: "(rat \<Rightarrow> string) \<Rightarrow> string \<times> pyval \<Rightarrow> string" where
  "has_step fl kv =
     (if fst kv = ''id'' then ''.hasId('' @ gremlin_literal fl (snd kv) @ '')''
      else ''.has('' @ quoted (fst kv) @ '','' @ gremlin_literal fl (snd kv) @ '')'')"

definition has_steps :: "(rat \<Rightarrow> string) \<Rightarrow> pydict \<Rightarrow> string" where
  "has_steps fl match = concat (map (has_step fl) match)"

definition matched_vertices ::
  "(rat \<Rightarrow> string) \<Rightarrow> pyval \<Rightarrow> pydict \<Rightarrow> string \<Rightarrow> render_error + string" where
  "matched_vertices fl label operation match_key =
     and_then (and_then (required operation match_key) items_of)
       (\<lambda>match. Inr (''g.V().hasLabel('' @ gremlin_literal fl label @ '')'' @ has_steps fl match))"

definition vertex_match_query :: "(rat \<Rightarrow> string) \<Rightarrow> pydict \<Rightarrow> render_error + string" where
  "vertex_match_query fl operation =
     and_then (required operation ''label'') (\<lambda>label. matched_vertices fl label operation ''match'')"

definition source_label_of :: "pydict \<Rightarrow> pyval" where
  "source_label_of operation = py_or (dict_get operation ''source_label'') (dict_get operation ''outVLabel'')"

definition target_label_of :: "pydict \<Rightarrow> pyval" where
  "target_label_of operation = py_or (dict_get operation ''target_label'') (dict_get operation ''inVLabel'')"

definition source_vertex_match_query :: "(rat \<Rightarrow> string) \<Rightarrow> pydict \<Rightarrow> render_error + string" where
  "source_vertex_match_query fl operation =
     matched_vertices fl (source_label_of operation) operation ''source_match''"

definition target_vertex_match_query :: "(rat \<Rightarrow> string) \<Rightarrow> pydict \<Rightarrow> render_error + string" where
  "target_vertex_match_query fl operation =
     matched_vertices fl (target_label_of operation) operation ''target_match''"

definition edge_match_query :: "(rat \<Rightarrow> string) \<Rightarrow> pydict \<Rightarrow> render_error + string" where
  "edge_match_query fl operation =
     and_then (source_vertex_match_query fl operation) (\<lambda>source.
     and_then (required operation ''label'') (\<lambda>label.
     and_then (and_then (required operation ''target_match'') items_of) (\<lambda>match.
       Inr (source @ ''.outE('' @ gremlin_literal fl label @ '')'' @
            ''.where(inV().hasLabel('' @ gremlin_literal fl (target_label_of operation) @ '')'' @
            has_steps fl match @ '')''))))"

text \<open>\<open>operation.get("op") or operation.get("type")\<close>; \<open>str\<close> of it is compared with the names.\<close>

definition op_of :: "pydict \<Rightarrow> pyval" where
  "op_of operation = py_or (dict_get operation ''op'') (dict_get operation ''type'')"

definition property_step :: "(rat \<Rightarrow> string) \<Rightarrow> string \<times> pyval \<Rightarrow> string" where
  "property_step fl kv = ''.property('' @ quoted (fst kv) @ '','' @ gremlin_literal fl (snd kv) @ '')''"

definition property_steps :: "(rat \<Rightarrow> string) \<Rightarrow> pydict \<Rightarrow> render_error + string" where
  "property_steps fl operation =
     and_then (items_of (py_or (dict_get operation ''properties'') (PyDict [])))
       (\<lambda>props. Inr (concat (map (property_step fl) props)))"

definition create_vertex_query :: "(rat \<Rightarrow> string) \<Rightarrow> pydict \<Rightarrow> render_error + string" where
  "create_vertex_query fl operation =
     and_then (required operation ''label'') (\<lambda>label.
     and_then (property_steps fl operation) (\<lambda>props.
       Inr (''g.addV('' @ gremlin_literal fl label @ '')'' @
            (if blank_id (dict_get operation ''id'') then []
             else ''.property(T.id,'' @ gremlin_literal fl (dict_get operation ''id'') @ '')'') @ props)))"

definition quoted_s :: string where "quoted_s = [single_quote, CHR ''s'', single_quote]"

definition create_edge_query :: "(rat \<Rightarrow> string) \<Rightarrow> pydict \<Rightarrow> render_error + string" where
  "create_edge_query fl operation =
     and_then (required operation ''source_id'') (\<lambda>source.
     and_then (required operation ''target_id'') (\<lambda>target.
     and_then (required operation ''label'') (\<lambda>label.
     and_then (property_steps fl operation) (\<lambda>props.
       Inr (''g.V('' @ gremlin_literal fl source @ '').as('' @ quoted_s @ '')'' @
            ''.V('' @ gremlin_literal fl target @ '')'' @
            ''.addE('' @ gremlin_literal fl label @ '').from('' @ quoted_s @ '')'' @ props)))))"

definition delete_target_query :: "(rat \<Rightarrow> string) \<Rightarrow> pydict \<Rightarrow> render_error + string" where
  "delete_target_query fl operation =
     and_then (required operation ''target_id'') (\<lambda>target.
       if op_of operation = PyStr ''delete_vertex'' then Inr (''g.V('' @ gremlin_literal fl target @ '')'')
       else if op_of operation = PyStr ''delete_edge'' then Inr (''g.E('' @ gremlin_literal fl target @ '')'')
       else Inl (UnsupportedOp (op_of operation)))"

text \<open>\<open>operation.get("cascade", False) is False\<close>\<close>

definition cascades :: "pydict \<Rightarrow> bool" where
  "cascades operation \<longleftrightarrow> map_of operation ''cascade'' \<notin> {None, Some (PyBool False)}"

definition delete_vertex_query :: "(rat \<Rightarrow> string) \<Rightarrow> pydict \<Rightarrow> render_error + string" where
  "delete_vertex_query fl operation =
     and_then (delete_target_query fl operation) (\<lambda>query.
       Inr ((if cascades operation then query else query @ ''.not(bothE())'') @ ''.drop()''))"

definition delete_edge_query :: "(rat \<Rightarrow> string) \<Rightarrow> pydict \<Rightarrow> render_error + string" where
  "delete_edge_query fl operation =
     and_then (delete_target_query fl operation) (\<lambda>query. Inr (query @ ''.drop()''))"

definition write_query :: "(rat \<Rightarrow> string) \<Rightarrow> pydict \<Rightarrow> render_error + string" where
  "write_query fl operation =
     (if op_of operation = PyStr ''create_vertex'' then create_vertex_query fl operation
      else if op_of operation = PyStr ''create_edge'' then create_edge_query fl operation
      else if op_of operation = PyStr ''delete_vertex'' then delete_vertex_query fl operation
      else if op_of operation = PyStr ''delete_edge'' then delete_edge_query fl operation
      else Inl (UnsupportedOp (op_of operation)))"

text \<open>
  Generated Gremlin meets the scanner: a string value always becomes one string literal that
  decodes to the value, and the words of a generated write statement are the generator's own,
  whatever the identifiers, keys and values of the operation are.
\<close>

section \<open>A rendered string is one literal\<close>

named_theorems char_defs \<open>the characters the scanner looks for\<close>

lemmas [char_defs] = backslash_def single_quote_def double_quote_def newline_def carriage_return_def
  line_end_def blank_def

lemma hex_digit_plain:
  assumes "d < 16"
  shows "digit_char d \<noteq> backslash" "digit_char d \<noteq> single_quote" "\<not> line_end (digit_char d)"
proof -
  have "d \<in> {0, 1, 2, 3, 4, 5, 6, 7, 8, 9, 10, 11, 12, 13, 14, 15}"
    unfolding insert_iff empty_iff using assms by presburger
  then show "digit_char d \<noteq> backslash" "digit_char d \<noteq> single_quote" "\<not> line_end (digit_char d)"
    by (auto simp: digit_char_def char_defs char_of_def)
qed

lemma scan_plain:
  "c \<noteq> backslash \<Longrightarrow> c \<noteq> single_quote \<Longrightarrow> \<not> line_end c \<Longrightarrow>
     scan_quoted False single_quote (c # r) = map_option Suc (scan_quoted False single_quote r)"
  by simp

lemma scan_backslash:
  "scan_quoted False single_quote (backslash # x # r) =
     map_option (\<lambda>n. n + 2) (scan_quoted False single_quote r)"
  by simp

lemma scan_escape_char:
  "scan_quoted False single_quote (escape_char c @ r) =
     map_option (\<lambda>n. n + length (escape_char c)) (scan_quoted False single_quote r)"
proof -
  have len: "length (hex4 n) = 4" for n
    by (simp add: hex4_def)
  have plain: "x \<noteq> backslash \<and> x \<noteq> single_quote \<and> \<not> line_end x"
    if "x \<in> {CHR ''0'', digit_char (code_point c div 16 mod 16), digit_char (code_point c mod 16)}" for x
    using that hex_digit_plain by (auto simp: char_defs)
  have hex: "scan_quoted False single_quote (hex4 n @ r) =
      map_option (\<lambda>m. m + 4) (scan_quoted False single_quote r)" if "n = code_point c" for n
    using plain unfolding hex4_def that
    by (cases "scan_quoted False single_quote r") (simp_all add: scan_plain del: scan_quoted.simps)
  show ?thesis
    by (cases "scan_quoted False single_quote r")
      (auto simp: escape_char_def scan_backslash hex len scan_plain line_end_def simp del: scan_quoted.simps)
qed

lemma scan_escaped:
  "scan_quoted False single_quote (escape_groovy_single_quoted s @ single_quote # rest) =
     Some (length (escape_groovy_single_quoted s) + 1)"
proof (induction s)
  case (Cons c s)
  then show ?case
    by (simp add: escape_groovy_single_quoted_def scan_escape_char del: scan_quoted.simps)
qed (simp add: escape_groovy_single_quoted_def char_defs)

lemma escape_char_head: "\<exists>x xs. escape_char c = x # xs \<and> x \<noteq> single_quote"
  by (auto simp: escape_char_def char_defs)

lemma not_triple:
  assumes "rest = [] \<or> hd rest \<noteq> single_quote"
  shows "\<not> prefix (triple_quote single_quote) (quoted s @ rest)"
proof (cases s)
  case Nil
  then show ?thesis
    using assms by (cases rest) (auto simp: quoted_def escape_groovy_single_quoted_def triple_quote_def)
next
  case (Cons c s')
  then show ?thesis
    using escape_char_head [of c]
    by (auto simp: quoted_def escape_groovy_single_quoted_def triple_quote_def)
qed

lemma consume_quoted_literal:
  assumes "rest = [] \<or> hd rest \<noteq> single_quote"
  shows "consume_quoted (quoted s @ rest) = Some (length (quoted s))"
proof -
  have "\<not> prefix (triple_quote (hd (quoted s @ rest))) (quoted s @ rest)"
    using not_triple [OF assms] by (simp add: quoted_def)
  then show ?thesis
    using scan_escaped [of s rest] by (simp add: consume_quoted_def quoted_def del: scan_quoted.simps)
qed

lemma lex_quoted:
  assumes "rest = [] \<or> hd rest \<noteq> single_quote"
  shows "lex_from i (quoted s @ rest) =
    lex_token (token_at StringLit i (quoted s)) (mask_literal (quoted s))
      (lex_from (i + length (quoted s)) rest)"
proof -
  obtain body where q: "quoted s = single_quote # body"
    by (simp add: quoted_def)
  have n: "\<not> py_isspace single_quote" "single_quote \<noteq> CHR ''/''"
    by (simp_all add: py_isspace_def code_point_def char_defs)
  have "consume_quoted (single_quote # body @ rest) = Some (Suc (length body))"
    using consume_quoted_literal [OF assms, of s] by (simp add: q)
  then show ?thesis
    by (simp add: q n Let_def)
qed

text \<open>Decoding a Groovy single-quoted literal's contents (of a Latin-1 text).\<close>

definition hex_value :: "char \<Rightarrow> nat" where
  "hex_value c = (if ascii_digit c then code_point c - 48 else code_point c - 87)"

definition decode_escape :: "char \<Rightarrow> char" where
  "decode_escape c =
     (if c = CHR ''n'' then newline else if c = CHR ''r'' then carriage_return
      else if c = CHR ''t'' then CHR 0x09 else if c = CHR ''b'' then CHR 0x08
      else if c = CHR ''f'' then CHR 0x0C else c)"

fun groovy_decode :: "string \<Rightarrow> string option" where
  "groovy_decode [] = Some []"
| "groovy_decode (c # r) =
     (if c \<noteq> backslash then map_option (Cons c) (groovy_decode r)
      else (case r of
          [] \<Rightarrow> None
        | x # r' \<Rightarrow>
            if x = CHR ''u'' then
              (case r' of
                 a # b # d # e # r'' \<Rightarrow>
                   if a = CHR ''0'' \<and> b = CHR ''0'' then
                     map_option (Cons (char_of (16 * hex_value d + hex_value e))) (groovy_decode r'')
                   else None
               | _ \<Rightarrow> None)
            else map_option (Cons (decode_escape x)) (groovy_decode r')))"

lemma hex_value_digit: "d < 16 \<Longrightarrow> hex_value (digit_char d) = d"
proof -
  assume "d < 16"
  then have "d \<in> {0, 1, 2, 3, 4, 5, 6, 7, 8, 9, 10, 11, 12, 13, 14, 15}"
    unfolding insert_iff empty_iff by presburger
  then show ?thesis
    by (auto simp: hex_value_def digit_char_def ascii_digit_def code_point_def)
qed

lemma decode_plain: "c \<noteq> backslash \<Longrightarrow> groovy_decode (c # r) = map_option (Cons c) (groovy_decode r)"
  by simp

lemma decode_backslash:
  "x \<noteq> CHR ''u'' \<Longrightarrow>
     groovy_decode (backslash # x # r) = map_option (Cons (decode_escape x)) (groovy_decode r)"
  by simp

lemma decode_unicode:
  "n < 256 \<Longrightarrow>
     groovy_decode (backslash # CHR ''u'' # hex4 n @ r) = map_option (Cons (char_of n)) (groovy_decode r)"
  by (simp add: hex4_def hex_value_digit div_mult_mod_eq mult.commute [of 16])

lemma decode_escape_simps:
  "decode_escape backslash = backslash" "decode_escape single_quote = single_quote"
  "decode_escape CHR ''n'' = newline" "decode_escape CHR ''r'' = carriage_return"
  "decode_escape CHR ''t'' = CHR 0x09" "decode_escape CHR ''b'' = CHR 0x08" "decode_escape CHR ''f'' = CHR 0x0C"
  by (simp_all add: decode_escape_def char_defs)

lemma not_u: "backslash \<noteq> CHR ''u''" "single_quote \<noteq> CHR ''u''"
  by (simp_all add: char_defs)

lemma decode_escape_char:
  "groovy_decode (escape_char c @ r) = map_option (Cons c) (groovy_decode r)"
proof -
  have "char_of (code_point c) = c"
    by (simp add: code_point_def)
  then show ?thesis
    by (simp add: escape_char_def decode_plain decode_backslash decode_unicode decode_escape_simps not_u
        del: groovy_decode.simps)
qed

lemma decode_escaped: "groovy_decode (escape_groovy_single_quoted s) = Some s"
  by (induction s) (simp_all add: escape_groovy_single_quoted_def decode_escape_char
    del: groovy_decode.simps(2))

text \<open>
  C15: a string value cannot leave its literal. Followed by anything but another quote, the
  rendered string is scanned as exactly one string token spanning exactly the rendered text, and
  its contents decode to the value: no character of a value becomes code, and none is lost.
\<close>

theorem rendered_string_is_one_literal:
  assumes "rest = [] \<or> hd rest \<noteq> single_quote"
  shows "lex_from i (quoted s @ rest) =
      lex_token (token_at StringLit i (quoted s)) (mask_literal (quoted s))
        (lex_from (i + length (quoted s)) rest) \<and>
    groovy_decode (butlast (tl (quoted s))) = Some s"
  using lex_quoted [OF assms] decode_escaped by (simp add: quoted_def)

theorem rendered_string_is_one_literal_witness:
  "lex_from 6 (quoted [single_quote, CHR '')'', backslash, newline] @ '').drop()'') =
      lex_token (token_at StringLit 6 (quoted [single_quote, CHR '')'', backslash, newline]))
        (mask_literal (quoted [single_quote, CHR '')'', backslash, newline]))
        (lex_from (6 + length (quoted [single_quote, CHR '')'', backslash, newline])) '').drop()'') \<and>
    groovy_decode (butlast (tl (quoted [single_quote, CHR '')'', backslash, newline]))) =
      Some [single_quote, CHR '')'', backslash, newline]"
  by (rule rendered_string_is_one_literal) (simp add: single_quote_def)

end
