(* ===== verification/Error_Mapping.thy ===== *)
theory Error_Mapping
  imports Envelope
begin

text \<open>
  \<open>hugegraph_mcp/error_mapping.py\<close>: the classification of the exceptions a HugeGraph client call
  can end with. The seven exceptions of \<open>pyhugegraph/utils/exceptions.py\<close> are direct subclasses of
  \<open>Exception\<close>, so the order of the tests does not matter; the constructors carry \<open>str(e)\<close>. An
  HTTP error also carries its response: the status code and what \<open>response.json()\<close> returns
  (\<open>None\<close> when that raises).
\<close>

record http_response =
  hr_status :: int
  hr_json :: "pyval option"

datatype client_exception =
    RequestsConnectionError string
  | RequestsTimeout string
  | RequestsHTTPError "http_response option" string
  | NotAuthorizedError string
  | NotFoundError string
  | InvalidParameterError string
  | DataFormatError string
  | ServiceUnavailableError string
  | ResponseParseError string
  | ServerError string
  | PyValueError string
  | OtherException string

fun exception_text :: "client_exception \<Rightarrow> string" where
  "exception_text (RequestsConnectionError m) = m"
| "exception_text (RequestsTimeout m) = m"
| "exception_text (RequestsHTTPError r m) = m"
| "exception_text (NotAuthorizedError m) = m"
| "exception_text (NotFoundError m) = m"
| "exception_text (InvalidParameterError m) = m"
| "exception_text (DataFormatError m) = m"
| "exception_text (ServiceUnavailableError m) = m"
| "exception_text (ResponseParseError m) = m"
| "exception_text (ServerError m) = m"
| "exception_text (PyValueError m) = m"
| "exception_text (OtherException m) = m"

text \<open>\<open>type(e).__name__\<close> of the classified exceptions\<close>

fun exception_name :: "client_exception \<Rightarrow> string" where
  "exception_name (NotAuthorizedError m) = ''NotAuthorizedError''"
| "exception_name (NotFoundError m) = ''NotFoundError''"
| "exception_name (InvalidParameterError m) = ''InvalidParameterError''"
| "exception_name (DataFormatError m) = ''DataFormatError''"
| "exception_name (ServiceUnavailableError m) = ''ServiceUnavailableError''"
| "exception_name (ResponseParseError m) = ''ResponseParseError''"
| "exception_name (ServerError m) = ''ServerError''"
| "exception_name _ = ''Exception''"

record error_classification =
  ec_error_type :: error_type
  ec_retryable :: bool
  ec_suggestion :: string
  ec_reason :: string

definition NO_INDEX_MARKERS :: "string list" where
  "NO_INDEX_MARKERS =
     [''noindexexception'', ''no index'', ''not indexed'', ''may not match secondary condition'']"

definition SCHEMA_MISSING_MARKERS :: "string list" where
  "SCHEMA_MISSING_MARKERS =
     [''property key does not exist'', ''propertykey does not exist'', ''vertex label does not exist'',
      ''vertexlabel does not exist'', ''edge label does not exist'', ''edgelabel does not exist'',
      ''schema does not exist'']"

definition NOT_FOUND_MARKERS :: "string list" where
  "NOT_FOUND_MARKERS = [''404'', ''notfound'', ''not found'', ''not exist'', ''does not exist'']"

definition any_marker :: "string list \<Rightarrow> string \<Rightarrow> bool" where
  "any_marker markers lowered \<longleftrightarrow> list_ex (\<lambda>m. py_contains m lowered) markers"

definition classification :: "error_type \<Rightarrow> bool \<Rightarrow> string \<Rightarrow> string \<Rightarrow> error_classification" where
  "classification etype retryable suggestion why =
     \<lparr>ec_error_type = etype, ec_retryable = retryable, ec_suggestion = suggestion, ec_reason = why\<rparr>"

definition classify_hugegraph_error_message :: "string \<Rightarrow> error_classification" where
  "classify_hugegraph_error_message message =
     (let lowered = py_lower message
      in if any_marker NO_INDEX_MARKERS lowered then
           classification NO_INDEX False
             ''Create an index for this condition query or retry with exact id lookup.'' ''no_index''
         else if any_marker SCHEMA_MISSING_MARKERS lowered then
           classification SCHEMA_MISMATCH False
             ''Check the live schema, label, and property key before retrying.'' ''schema_missing''
         else if any_marker NOT_FOUND_MARKERS lowered then
           classification NOT_FOUND False
             ''Verify the id, target type, graph, and graphspace before retrying.'' ''not_found''
         else
           classification SERVER_ERROR True
             ''Check query parameters and HugeGraph Server availability.'' ''server_error'')"

definition classify_hugegraph_exception :: "client_exception \<Rightarrow> error_classification" where
  "classify_hugegraph_exception exc =
     (case exc of
        NotAuthorizedError _ \<Rightarrow>
          classification AUTHENTICATION_FAILED False
            ''Check HUGEGRAPH_USER and HUGEGRAPH_PASSWORD.'' ''authentication_error''
      | NotFoundError _ \<Rightarrow>
          classification NOT_FOUND False
            ''Verify the graph, graphspace, and endpoint before retrying.'' ''not_found_error''
      | InvalidParameterError _ \<Rightarrow>
          classification VALIDATION_ERROR False
            ''Check the request parameters and data format.'' ''validation_error''
      | DataFormatError _ \<Rightarrow>
          classification VALIDATION_ERROR False
            ''Check the request parameters and data format.'' ''validation_error''
      | ServiceUnavailableError _ \<Rightarrow>
          classification SERVER_ERROR True
            ''Retry after checking HugeGraph Server availability.'' ''server_error''
      | ResponseParseError _ \<Rightarrow>
          classification SERVER_ERROR False
            ''Check the HugeGraph response and client/server compatibility.'' ''server_error''
      | _ \<Rightarrow> classify_hugegraph_error_message (exception_text exc))"

text \<open>Only server errors are ever reported as worth a retry.\<close>

lemma retryable_is_server_error:
  "ec_retryable (classify_hugegraph_exception exc) \<Longrightarrow>
     ec_error_type (classify_hugegraph_exception exc) = SERVER_ERROR"
  by (auto simp: classify_hugegraph_exception_def classify_hugegraph_error_message_def
      classification_def Let_def split: client_exception.splits if_splits)

text \<open>An exception message is classified as no index whatever else it mentions.\<close>

lemma no_index_has_priority:
  "any_marker NO_INDEX_MARKERS (py_lower m) \<Longrightarrow>
     ec_error_type (classify_hugegraph_exception (ServerError m)) = NO_INDEX"
  by (simp add: classify_hugegraph_exception_def classify_hugegraph_error_message_def classification_def Let_def)

end
