(* ===== verification/Write_Boundary.thy ===== *)
theory Write_Boundary
  imports Json_Text Envelope
begin

text \<open>
  The checks in front of a write: \<open>hugegraph_mcp/write_contract.py\<close>, which of the two confirmation
  protocols a call uses, and \<open>hugegraph_mcp/write_limits.py\<close>, the hard limits of a plan.
\<close>

section \<open>Confirmation protocols\<close>

definition LEGACY_DEPRECATION_CODE :: string where
  "LEGACY_DEPRECATION_CODE = ''LEGACY_CONFIRMATION_DEPRECATED''"

datatype confirmation_protocol = Canonical | Legacy

record confirmation_resolution =
  rs_protocol :: confirmation_protocol
  rs_plan_id :: "string option"
  rs_plan_hash :: "string option"
  rs_nonce :: "string option"
  rs_expires_at :: "pyfloat option"
  rs_warnings :: "string list"

definition protocol_error :: "string \<Rightarrow> reply" where
  "protocol_error why =
     envelope_err VALIDATION_ERROR ''Invalid write confirmation protocol.'' None False
       (Some (PyDict [(''reason'', PyStr why)]))"

text \<open>\<open>Inr\<close> the resolution, or \<open>Inl\<close> the error of the pair the code returns.\<close>

definition resolve_confirmation_protocol ::
  "string option \<Rightarrow> string option \<Rightarrow> string option \<Rightarrow> pyfloat option \<Rightarrow> reply + confirmation_resolution" where
  "resolve_confirmation_protocol plan_id plan_hash nonce expires_at =
     (let canonical_present = (plan_id \<noteq> None \<and> plan_id \<noteq> Some []);
          legacy_present = (plan_hash \<noteq> None \<or> nonce \<noteq> None \<or> expires_at \<noteq> None);
          legacy_complete = (plan_hash \<noteq> None \<and> nonce \<noteq> None \<and> expires_at \<noteq> None)
      in if canonical_present \<and> legacy_present then
           Inl (protocol_error ''plan_id cannot be combined with plan_hash, nonce, or expires_at.'')
         else if canonical_present then
           Inr \<lparr>rs_protocol = Canonical, rs_plan_id = plan_id, rs_plan_hash = None, rs_nonce = None,
                rs_expires_at = None, rs_warnings = []\<rparr>
         else if legacy_present \<and> \<not> legacy_complete then
           Inl (protocol_error ''plan_hash, nonce, and expires_at must be supplied together.'')
         else if legacy_complete then
           Inr \<lparr>rs_protocol = Legacy, rs_plan_id = None, rs_plan_hash = plan_hash, rs_nonce = nonce,
                rs_expires_at = expires_at,
                rs_warnings =
                  [LEGACY_DEPRECATION_CODE @ '': use plan_id with confirm_write_tool; '' @
                   ''legacy confirmation fields will be removed after one release.'']\<rparr>
         else Inl (protocol_error ''A plan_id or complete legacy locator is required.''))"

text \<open>\<open>None\<close> where the code returns the pair of two \<open>None\<close>.\<close>

definition resolve_optional_legacy_locator ::
  "string option \<Rightarrow> string option \<Rightarrow> pyfloat option \<Rightarrow> (reply + confirmation_resolution) option" where
  "resolve_optional_legacy_locator plan_hash nonce expires_at =
     (if plan_hash = None \<and> nonce = None \<and> expires_at = None then None
      else Some (resolve_confirmation_protocol None plan_hash nonce expires_at))"

text \<open>A resolution names exactly one protocol and carries exactly its locator.\<close>

lemma resolution_is_exclusive:
  "resolve_confirmation_protocol i h n e = Inr r \<Longrightarrow>
     (case rs_protocol r of
        Canonical \<Rightarrow> rs_plan_id r = i \<and> i \<noteq> None \<and> i \<noteq> Some [] \<and> h = None \<and> n = None \<and> e = None
      | Legacy \<Rightarrow> rs_plan_id r = None \<and> (i = None \<or> i = Some []) \<and> rs_plan_hash r = h \<and> h \<noteq> None \<and>
          rs_nonce r = n \<and> n \<noteq> None \<and> rs_expires_at r = e \<and> e \<noteq> None)"
  by (auto simp: resolve_confirmation_protocol_def Let_def split: if_splits)

lemma resolution_error:
  "resolve_confirmation_protocol i h n e = Inl r \<Longrightarrow> reply_error r = Some VALIDATION_ERROR"
  by (auto simp: resolve_confirmation_protocol_def protocol_error_def Let_def split: if_splits)

section \<open>Limits\<close>

definition MAX_OPERATIONS :: nat where "MAX_OPERATIONS = 200"

definition MAX_PAYLOAD_BYTES :: nat where "MAX_PAYLOAD_BYTES = 1048576"

definition payload_byte_size :: "(rat \<Rightarrow> string) \<Rightarrow> pyval \<Rightarrow> nat" where
  "payload_byte_size fl payload = utf8_size (json_dumps fl payload)"

definition limit_error :: "string \<Rightarrow> string \<Rightarrow> pyval" where
  "limit_error why suggestion =
     PyDict [(''operation_index'', PyInt (-1)), (''operation'', PyNone), (''reason'', PyStr why),
       (''suggestion'', PyStr suggestion), (''error_type'', PyStr ''VALIDATION_ERROR'')]"

definition collect_write_limit_errors :: "(rat \<Rightarrow> string) \<Rightarrow> nat \<Rightarrow> pyval \<Rightarrow> pyval list" where
  "collect_write_limit_errors fl operation_count payload =
     (let size = payload_byte_size fl payload
      in (if operation_count > MAX_OPERATIONS then
            [limit_error
               (''operation count '' @ show_nat operation_count @ '' exceeds MAX_OPERATIONS ('' @
                show_nat MAX_OPERATIONS @ '')'')
               (''Split the request so it contains at most '' @ show_nat MAX_OPERATIONS @
                '' operations, then retry dry-run.'')]
          else []) @
         (if size > MAX_PAYLOAD_BYTES then
            [limit_error
               (''payload size '' @ show_nat size @ '' exceeds MAX_PAYLOAD_BYTES ('' @
                show_nat MAX_PAYLOAD_BYTES @ '')'')
               ''Reduce the JSON payload to at most 1 MiB (1048576 bytes), then retry dry-run.'']
          else []))"

definition write_limit_envelope :: "(rat \<Rightarrow> string) \<Rightarrow> nat \<Rightarrow> pyval \<Rightarrow> reply option" where
  "write_limit_envelope fl operation_count payload =
     (let errors = collect_write_limit_errors fl operation_count payload
      in if errors = [] then None
         else Some (envelope_err VALIDATION_ERROR ''Write plan exceeds hard operation or payload limits.''
           (Some (''Reduce the number of operations to '' @ show_nat MAX_OPERATIONS @ '' or fewer '' @
                  ''and the JSON payload to at most 1 MiB, then retry dry-run.''))
           False
           (Some (PyDict [(''errors'', PyList errors), (''max_operations'', PyInt (int MAX_OPERATIONS)),
              (''max_payload_bytes'', PyInt (int MAX_PAYLOAD_BYTES))]))))"

definition operation_count_from_list :: "pyval \<Rightarrow> nat" where
  "operation_count_from_list operations = (case operations of PyList vs \<Rightarrow> length vs | _ \<Rightarrow> 0)"

definition graph_data_operation_count :: "pyval \<Rightarrow> nat" where
  "graph_data_operation_count graph_data =
     (case graph_data of
        PyDict d \<Rightarrow>
          operation_count_from_list (dict_get d ''vertices'') +
          operation_count_from_list (dict_get d ''edges'')
      | _ \<Rightarrow> 0)"

text \<open>A plan passes exactly when both limits hold.\<close>

lemma write_limit_envelope_None:
  "write_limit_envelope fl n payload = None \<longleftrightarrow>
     n \<le> MAX_OPERATIONS \<and> payload_byte_size fl payload \<le> MAX_PAYLOAD_BYTES"
  by (auto simp: write_limit_envelope_def collect_write_limit_errors_def Let_def)

end
