(* ===== verification/Backend_Capabilities.thy ===== *)
theory Backend_Capabilities
  imports Prelude
begin

text \<open>
  \<open>hugegraph_mcp/backend_capabilities.py\<close>: what a HugeGraph version with a backend is known to
  support. A profile is built by a checked constructor; an unknown version or backend gets the
  profile in which nothing is known.
\<close>

datatype backend_feature =
    VERTEX_CREATE_IF_ABSENT
  | EDGE_CREATE_IF_ABSENT
  | EDGE_ID_STABLE_ADDRESSING
  | EDGE_IDEMPOTENT_IDENTITY
  | ISOLATED_VERTEX_DELETE
  | PROPERTY_COMPARE_AND_SET
  | GREMLIN_EVALUATION_TIMEOUT
  | REST_GREMLIN_WAIT_TIMEOUT
  | TASK_RESULT_SIZE_LIMIT
  | QUERY_MEMORY_LIMIT
  | GREMLIN_RESULT_ITEM_LIMIT
  | HTTP_STREAMING_RESPONSE_LIMIT
  | READONLY_PRINCIPAL

datatype support_status = VERIFIED_SUPPORTED | VERIFIED_UNSUPPORTED | UNKNOWN_SUPPORT

text \<open>\<open>set(BackendFeature)\<close> and the iteration over the enumeration.\<close>

instantiation backend_feature :: enum
begin

definition enum_backend_feature :: "backend_feature list" where
  "enum_backend_feature =
     [VERTEX_CREATE_IF_ABSENT,
      EDGE_CREATE_IF_ABSENT,
      EDGE_ID_STABLE_ADDRESSING,
      EDGE_IDEMPOTENT_IDENTITY,
      ISOLATED_VERTEX_DELETE,
      PROPERTY_COMPARE_AND_SET,
      GREMLIN_EVALUATION_TIMEOUT,
      REST_GREMLIN_WAIT_TIMEOUT,
      TASK_RESULT_SIZE_LIMIT,
      QUERY_MEMORY_LIMIT,
      GREMLIN_RESULT_ITEM_LIMIT,
      HTTP_STREAMING_RESPONSE_LIMIT,
      READONLY_PRINCIPAL]"

definition enum_all_backend_feature :: "(backend_feature \<Rightarrow> bool) \<Rightarrow> bool" where
  "enum_all_backend_feature P \<longleftrightarrow> list_all P Enum.enum"

definition enum_ex_backend_feature :: "(backend_feature \<Rightarrow> bool) \<Rightarrow> bool" where
  "enum_ex_backend_feature P \<longleftrightarrow> list_ex P Enum.enum"

instance
proof
  show univ: "UNIV = set (Enum.enum :: backend_feature list)"
    unfolding enum_backend_feature_def using backend_feature.exhaust by auto
  show "distinct (Enum.enum :: backend_feature list)"
    by (simp add: enum_backend_feature_def)
  show "\<And>P. Enum.enum_all P \<longleftrightarrow> Ball (UNIV :: backend_feature set) P"
    unfolding univ enum_all_backend_feature_def by (simp add: list_all_iff)
  show "\<And>P. Enum.enum_ex P \<longleftrightarrow> Bex (UNIV :: backend_feature set) P"
    unfolding univ enum_ex_backend_feature_def by (simp add: list_ex_iff)
qed

end

record capability_evidence =
  ce_status :: support_status
  ce_source :: string
  ce_reason :: string

record backend_profile =
  bp_server_version :: string
  bp_backend :: string
  bp_capabilities :: "(backend_feature \<times> capability_evidence) list"

datatype profile_error = DuplicateFeatures | MissingFeatures

text \<open>\<open>BackendProfile(...)\<close> with the checks of \<open>__post_init__\<close>\<close>

definition make_backend_profile ::
  "string \<Rightarrow> string \<Rightarrow> (backend_feature \<times> capability_evidence) list \<Rightarrow> profile_error + backend_profile" where
  "make_backend_profile version backend capabilities =
     (let features = map fst capabilities
      in if \<not> distinct features then Inl DuplicateFeatures
         else if set features \<noteq> set Enum.enum then Inl MissingFeatures
         else Inr \<lparr>bp_server_version = version, bp_backend = backend, bp_capabilities = capabilities\<rparr>)"

definition supported :: "string \<Rightarrow> string \<Rightarrow> capability_evidence" where
  "supported source why = \<lparr>ce_status = VERIFIED_SUPPORTED, ce_source = source, ce_reason = why\<rparr>"

definition unsupported :: "string \<Rightarrow> string \<Rightarrow> capability_evidence" where
  "unsupported source why = \<lparr>ce_status = VERIFIED_UNSUPPORTED, ce_source = source, ce_reason = why\<rparr>"

definition unknown_evidence :: "string \<Rightarrow> string \<Rightarrow> capability_evidence" where
  "unknown_evidence why source = \<lparr>ce_status = UNKNOWN_SUPPORT, ce_source = source, ce_reason = why\<rparr>"

definition evidence_for :: "backend_profile \<Rightarrow> backend_feature \<Rightarrow> capability_evidence" where
  "evidence_for profile feature =
     (case map_of (bp_capabilities profile) feature of
        Some evidence \<Rightarrow> evidence
      | None \<Rightarrow> unknown_evidence ''Feature is absent from the profile'' [])"

definition status_for :: "backend_profile \<Rightarrow> backend_feature \<Rightarrow> support_status" where
  "status_for profile feature = ce_status (evidence_for profile feature)"

definition supports :: "backend_profile \<Rightarrow> backend_feature \<Rightarrow> bool" where
  "supports profile feature \<longleftrightarrow> status_for profile feature = VERIFIED_SUPPORTED"

definition hg17_capabilities :: "(backend_feature \<times> capability_evidence) list" where
  "hg17_capabilities =
     [(VERTEX_CREATE_IF_ABSENT, unsupported ''hugegraph-python-client/src/pyhugegraph/api/graph.py''
        (''The graph REST client exposes unconditional vertex POST only.'')),
      (EDGE_CREATE_IF_ABSENT, unsupported ''hugegraph-python-client/src/pyhugegraph/api/graph.py''
        (''The graph REST client exposes unconditional edge POST only.'')),
      (EDGE_ID_STABLE_ADDRESSING, supported ''hugegraph-mcp/tests/integration/test_real_write_path.py''
        (''HugeGraph 1.7 returns an edge ID that can be read and deleted by ID.'')),
      (EDGE_IDEMPOTENT_IDENTITY, unknown_evidence
        (''Duplicate-edge uniqueness and idempotency are not proven.'')
        []),
      (ISOLATED_VERTEX_DELETE, unknown_evidence
        (''A barrier-synchronized Docker stress probe observed edge creation '' @
        ''reporting success while concurrent not(bothE()).drop() removed both '' @
        ''the vertex and edge. The operation must fail closed because isolated '' @
        ''conditional deletion is not supported by the observed behavior.'')
        ''hugegraph-mcp/tests/integration/test_real_write_path.py''),
      (PROPERTY_COMPARE_AND_SET, unsupported ''hugegraph-python-client/src/pyhugegraph/api/graph.py''
        (''Property append/eliminate requests have no expected-state CAS field.'')),
      (GREMLIN_EVALUATION_TIMEOUT, supported ''hugegraph/hugegraph:1.7.0 conf/gremlin-server.yaml''
        (''The Docker image configures evaluationTimeout=30000 milliseconds.'')),
      (REST_GREMLIN_WAIT_TIMEOUT, supported ''HugeGraph 1.7 configuration option gremlinserver.timeout''
        (''The REST gateway has a bounded wait for Gremlin Server responses.'')),
      (TASK_RESULT_SIZE_LIMIT, supported ''HugeGraph 1.7 configuration option task.result_size_limit''
        (''Task/job results have a configured byte limit; it does not cap /gremlin responses.'')),
      (QUERY_MEMORY_LIMIT, unknown_evidence
        (''memory.one_query_max_capacity is present but disabled in the default Docker graph config.'')
        []),
      (GREMLIN_RESULT_ITEM_LIMIT, unknown_evidence
        (''No general server-side /gremlin result-item cap was verified.'')
        []),
      (HTTP_STREAMING_RESPONSE_LIMIT, unsupported ''hugegraph-python-client/src/pyhugegraph/utils/huge_requests.py''
        (''The client fully materializes responses and exposes no streaming byte budget.'')),
      (READONLY_PRINCIPAL, supported ''HugeGraph 1.7 StandardAuthenticator documentation''
        (''HugeGraph supports users, groups, operations, and resource-scoped permissions; '' @
        ''Docker defaults do not enable it.''))]"

definition HG17_ROCKSDB :: "profile_error + backend_profile" where
  "HG17_ROCKSDB = make_backend_profile ''1.7.0'' ''rocksdb'' hg17_capabilities"

definition unknown_capabilities :: "(backend_feature \<times> capability_evidence) list" where
  "unknown_capabilities =
     map (\<lambda>feature. (feature, unknown_evidence
       ''No evidence-backed profile exists for this exact server/backend combination.'' [])) Enum.enum"

text \<open>The table \<open>_PROFILES\<close> has the one key of the profile above.\<close>

definition profile_for :: "string \<Rightarrow> string \<Rightarrow> profile_error + backend_profile" where
  "profile_for server_version backend =
     (let version = py_strip server_version; name = py_lower (py_strip backend)
      in if version = ''1.7.0'' \<and> name = ''rocksdb'' then HG17_ROCKSDB
         else make_backend_profile version name unknown_capabilities)"

section \<open>Profiles are total and fail closed\<close>

lemma hg17_features: "map fst hg17_capabilities = Enum.enum"
  by (simp add: hg17_capabilities_def enum_backend_feature_def)

lemma unknown_features: "map fst unknown_capabilities = Enum.enum"
  by (simp add: unknown_capabilities_def comp_def)

lemma make_profile_of_enum:
  "map fst capabilities = Enum.enum \<Longrightarrow>
     make_backend_profile version backend capabilities =
       Inr \<lparr>bp_server_version = version, bp_backend = backend, bp_capabilities = capabilities\<rparr>"
  using enum_distinct [where 'a = backend_feature] by (simp add: make_backend_profile_def Let_def)

lemma profile_for_total: "\<exists>p. profile_for version backend = Inr p"
  by (simp add: profile_for_def Let_def HG17_ROCKSDB_def make_profile_of_enum hg17_features unknown_features)

lemma map_of_unknown: "map_of (map (\<lambda>x. (x, e)) xs) f = (if f \<in> set xs then Some e else None)"
  by (induction xs) auto

text \<open>Only version 1.7.0 on RocksDB supports anything, whatever the blanks and case of the request.\<close>

lemma unknown_backend_supports_nothing:
  assumes "profile_for version backend = Inr p"
    and "py_strip version \<noteq> ''1.7.0'' \<or> py_lower (py_strip backend) \<noteq> ''rocksdb''"
  shows "\<not> supports p f"
proof -
  have "bp_capabilities p = unknown_capabilities"
    using assms by (auto simp: profile_for_def Let_def make_profile_of_enum unknown_features)
  then show ?thesis
    by (simp add: supports_def status_for_def evidence_for_def unknown_capabilities_def map_of_unknown
        unknown_evidence_def split: option.splits)
qed

end
