(* ===== verification/Gremlin_Tools.thy ===== *)
theory Gremlin_Tools
  imports Gremlin_Safety Error_Mapping Write_Boundary Plan_Hash
begin

text \<open>
  \<open>hugegraph_mcp/gremlin_tools.py\<close>: executing Gremlin through the HugeGraph client. The client is a
  parameter: on a world and a query it answers with data, or raises one of the exceptions of
  \<open>client_exception\<close>, with the address \<open>_get_client_address\<close> finds; the truth value of a
  \<open>requests.Response\<close> is the parameter \<open>response_true\<close>, the milliseconds a call took are \<open>ms\<close>, and
  \<open>fl\<close> is the text of a float.
\<close>

type_synonym 'w gremlin_client = "'w \<Rightarrow> string \<Rightarrow> ((string \<times> client_exception) + pyval) \<times> 'w"

section \<open>Error envelopes\<close>

fun error_type_value :: "error_type \<Rightarrow> string" where
  "error_type_value CONNECTION_FAILED = ''CONNECTION_FAILED''"
| "error_type_value AUTHENTICATION_FAILED = ''AUTHENTICATION_FAILED''"
| "error_type_value AUTHORIZATION_FAILED = ''AUTHORIZATION_FAILED''"
| "error_type_value VALIDATION_ERROR = ''VALIDATION_ERROR''"
| "error_type_value READONLY_VIOLATION = ''READONLY_VIOLATION''"
| "error_type_value CONFIRM_REQUIRED = ''CONFIRM_REQUIRED''"
| "error_type_value PLAN_HASH_MISMATCH = ''PLAN_HASH_MISMATCH''"
| "error_type_value PLAN_EXPIRED = ''PLAN_EXPIRED''"
| "error_type_value PLAN_ALREADY_USED = ''PLAN_ALREADY_USED''"
| "error_type_value TARGET_CHANGED = ''TARGET_CHANGED''"
| "error_type_value WRITE_CONFLICT = ''WRITE_CONFLICT''"
| "error_type_value WRITE_OUTCOME_UNKNOWN = ''WRITE_OUTCOME_UNKNOWN''"
| "error_type_value PARTIAL_APPLY = ''PARTIAL_APPLY''"
| "error_type_value NOT_FOUND = ''NOT_FOUND''"
| "error_type_value NO_INDEX = ''NO_INDEX''"
| "error_type_value UNSAFE_GREMLIN = ''UNSAFE_GREMLIN''"
| "error_type_value QUERY_SYNTAX_ERROR = ''QUERY_SYNTAX_ERROR''"
| "error_type_value SERVER_ERROR = ''SERVER_ERROR''"
| "error_type_value SCHEMA_MISMATCH = ''SCHEMA_MISMATCH''"
| "error_type_value INVALID_GRAPH_DATA = ''INVALID_GRAPH_DATA''"
| "error_type_value HUGEGRAPH_AI_UNAVAILABLE = ''HUGEGRAPH_AI_UNAVAILABLE''"
| "error_type_value FEATURE_DISABLED = ''FEATURE_DISABLED''"
| "error_type_value FLOW_EXECUTION_FAILED = ''FLOW_EXECUTION_FAILED''"
| "error_type_value LLM_FAILED = ''LLM_FAILED''"
| "error_type_value EMBEDDING_FAILED = ''EMBEDDING_FAILED''"
| "error_type_value TIMEOUT = ''TIMEOUT''"

definition error_types :: "error_type list" where
  "error_types =
     [CONNECTION_FAILED, AUTHENTICATION_FAILED, AUTHORIZATION_FAILED, VALIDATION_ERROR,
      READONLY_VIOLATION, CONFIRM_REQUIRED, PLAN_HASH_MISMATCH, PLAN_EXPIRED, PLAN_ALREADY_USED,
      TARGET_CHANGED, WRITE_CONFLICT, WRITE_OUTCOME_UNKNOWN, PARTIAL_APPLY, NOT_FOUND, NO_INDEX,
      UNSAFE_GREMLIN, QUERY_SYNTAX_ERROR, SERVER_ERROR, SCHEMA_MISMATCH, INVALID_GRAPH_DATA,
      HUGEGRAPH_AI_UNAVAILABLE, FEATURE_DISABLED, FLOW_EXECUTION_FAILED, LLM_FAILED,
      EMBEDDING_FAILED, TIMEOUT]"

definition GREMLIN_ERROR_TYPE_MAP :: "(string \<times> error_type) list" where
  "GREMLIN_ERROR_TYPE_MAP =
     [(''connection_error'', CONNECTION_FAILED), (''timeout_error'', TIMEOUT),
      (''authentication_error'', AUTHENTICATION_FAILED), (''authorization_error'', AUTHORIZATION_FAILED),
      (''no_index_error'', NO_INDEX), (''query_syntax_error'', QUERY_SYNTAX_ERROR),
      (''server_error'', SERVER_ERROR), (''http_error'', SERVER_ERROR), (''not_found_error'', NOT_FOUND),
      (''unknown_error'', SERVER_ERROR)] @
     map (\<lambda>t. (error_type_value t, t)) error_types"

definition LIMIT_POLICIES :: "string list" where
  "LIMIT_POLICIES = [''warn'', ''reject_unbounded'', ''auto_append'']"

definition map_error_type :: "pyval \<Rightarrow> error_type" where
  "map_error_type v =
     (case v of
        PyStr s \<Rightarrow> (case map_of GREMLIN_ERROR_TYPE_MAP s of Some t \<Rightarrow> t | None \<Rightarrow> SERVER_ERROR)
      | _ \<Rightarrow> SERVER_ERROR)"

text \<open>A status code is an integer, the text \<open>unknown\<close> or absent; \<open>int\<close> of the latter two raises.\<close>

definition gremlin_error_retryable :: "pydict \<Rightarrow> bool" where
  "gremlin_error_retryable result =
     (case map_of result ''retryable'' of
        Some b \<Rightarrow> py_truthy b
      | None \<Rightarrow>
          let etype = dict_get result ''error_type''
          in if etype \<in> {PyStr ''connection_error'', PyStr ''timeout_error''} then True
             else if etype \<notin> {PyStr ''server_error'', PyStr ''http_error''} then False
             else (case py_int (dict_get result ''status_code'') of
                 Inl _ \<Rightarrow> etype = PyStr ''server_error''
               | Inr status \<Rightarrow> status \<in> {500, 502, 503, 504}))"

definition suggestion_texts :: "pyval \<Rightarrow> string list" where
  "suggestion_texts v = (case v of PyList vs \<Rightarrow> map (\<lambda>x. case x of PyStr s \<Rightarrow> s | _ \<Rightarrow> []) vs | _ \<Rightarrow> [])"

definition text_or :: "pyval option \<Rightarrow> string \<Rightarrow> string" where
  "text_or v dflt = (case v of Some (PyStr s) \<Rightarrow> s | _ \<Rightarrow> dflt)"

definition gremlin_error_envelope :: "pydict \<Rightarrow> reply" where
  "gremlin_error_envelope result =
     (let suggestions = suggestion_texts (dict_get result ''suggestions'')
      in envelope_err (map_error_type (dict_get result ''error_type''))
           (text_or (map_of result ''message'') ''Gremlin query failed'')
           (if suggestions = [] then None else Some (join ''; '' suggestions))
           (gremlin_error_retryable result) (Some (PyDict result)))"

section \<open>Results\<close>

definition sized :: "pyval \<Rightarrow> nat" where
  "sized v = (case v of PyNone \<Rightarrow> 0 | PyList vs \<Rightarrow> length vs | PyTuple vs \<Rightarrow> length vs | _ \<Rightarrow> 1)"

definition gremlin_result_count :: "pyval \<Rightarrow> nat" where
  "gremlin_result_count data = (case py_get data ''data'' of Some inner \<Rightarrow> sized inner | None \<Rightarrow> sized data)"

definition gremlin_result_byte_size :: "(rat \<Rightarrow> string) \<Rightarrow> pyval \<Rightarrow> nat" where
  "gremlin_result_byte_size fl data = utf8_size (json_dumps fl data)"

definition gremlin_output_guard_error ::
  "(rat \<Rightarrow> string) \<Rightarrow> mcp_config \<Rightarrow> pyval \<Rightarrow> nat \<Rightarrow> int option \<Rightarrow> string \<Rightarrow> reply option" where
  "gremlin_output_guard_error fl cfg data items max_items result_name =
     (let byte_size = gremlin_result_byte_size fl data;
          item_limit = (case max_items of None \<Rightarrow> cf_max_result_items cfg | Some m \<Rightarrow> min (cf_max_result_items cfg) m);
          exceeded =
            (if int items > item_limit then [''max_result_items''] else []) @
            (if int byte_size > cf_max_result_bytes cfg then [''max_result_bytes''] else [])
      in if exceeded = [] then None
         else Some (envelope_err VALIDATION_ERROR
           (result_name @ '' result exceeds the configured post-materialization output guard.'')
           (Some ''Use a smaller limit or return fewer/smaller properties.'') False
           (Some (PyDict
             [(''truncated'', PyBool False), (''guard_type'', PyStr ''post_materialization_output_guard''),
              (''hard_budget'', PyBool False), (''exceeded'', PyList (map PyStr exceeded)),
              (''result_items'', PyInt (int items)), (''max_result_items'', PyInt item_limit),
              (''result_bytes'', PyInt (int byte_size)), (''max_result_bytes'', PyInt (cf_max_result_bytes cfg))]))))"

section \<open>One call of the client\<close>

definition is_no_index_error :: "string \<Rightarrow> bool" where
  "is_no_index_error message \<longleftrightarrow>
     py_contains ''noindexexception'' (py_lower message) \<or> py_contains ''no index'' (py_lower message)"

definition strs :: "string list \<Rightarrow> pyval" where
  "strs xs = PyList (map PyStr xs)"

definition failure :: "string \<Rightarrow> pydict \<Rightarrow> string list \<Rightarrow> pydict \<Rightarrow> rat \<Rightarrow> string \<Rightarrow> pydict" where
  "failure etype extra suggestions flags ms operation_type =
     [(''success'', PyBool False), (''error_type'', PyStr etype)] @ extra @
     [(''suggestions'', strs suggestions)] @ flags @
     [(''duration_ms'', PyFloat (Finite ms)), (''operation_type'', PyStr operation_type)]"

definition no_index_error_result :: "string \<Rightarrow> rat \<Rightarrow> string \<Rightarrow> pydict" where
  "no_index_error_result message ms operation_type =
     failure ''no_index_error'' [(''message'', PyStr message)]
       [''Create an index for the queried property before using has() filters'',
        ''Use primary-key based lookups when possible'',
        ''Check HugeGraph schema index labels with inspect_graph_tool''] [] ms operation_type"

text \<open>The detail message of a 500 response; anything that raises leaves it empty.\<close>

definition error_detail :: "(rat \<Rightarrow> string) \<Rightarrow> http_response \<Rightarrow> pyval" where
  "error_detail fl response =
     (case hr_json response of
        Some (PyDict d) \<Rightarrow>
          let detail = py_or (dict_get d ''exception'') (PyStr [])
          in if py_truthy detail then detail
             else py_or (dict_get d ''message'') (py_or (dict_get d ''detail'') (py_or (dict_get d ''error'')
                    (PyStr (py_str fl (PyDict d)))))
      | _ \<Rightarrow> PyStr [])"

definition http_failure ::
  "(rat \<Rightarrow> string) \<Rightarrow> (http_response \<Rightarrow> bool) \<Rightarrow> http_response option \<Rightarrow> rat \<Rightarrow> string \<Rightarrow> pydict" where
  "http_failure fl response_true response ms operation_type =
     (let status_code = (case response of
            Some r \<Rightarrow> if response_true r then PyInt (hr_status r) else PyStr ''unknown''
          | None \<Rightarrow> PyStr ''unknown'');
          fail = (\<lambda>etype message suggestions.
            failure etype [(''message'', PyStr message), (''status_code'', status_code)]
              suggestions [] ms operation_type)
      in if status_code = PyInt 401 then
           fail ''authentication_error'' ''Authentication failed - invalid credentials''
             [''Check HUGEGRAPH_USER and HUGEGRAPH_PASSWORD environment variables'',
              ''Verify user permissions in HugeGraph'']
         else if status_code = PyInt 403 then
           fail ''authorization_error'' ''Authorization failed - insufficient permissions''
             [''Check if the user has permission to execute Gremlin queries'',
              ''Verify graph space permissions if using graph spaces'']
         else if status_code = PyInt 404 then
           fail ''not_found_error'' ''Graph or endpoint not found''
             [''Check if the graph name is correct'', ''Verify the graph exists in HugeGraph'']
         else if status_code = PyInt 500 then
           (let detail = (case response of Some r \<Rightarrow> error_detail fl r | None \<Rightarrow> PyStr [])
            in if py_truthy detail \<and> is_no_index_error (py_str fl detail) then
                 no_index_error_result (''Query requires an index: '' @ py_str fl detail) ms operation_type
               else fail ''server_error''
                 (if py_truthy detail then ''HugeGraph server internal error: '' @ py_str fl detail
                  else ''HugeGraph server internal error'')
                 [''Check the Gremlin query syntax'', ''Verify all referenced vertex/edge labels exist'',
                  ''Check HugeGraph server logs for details'',
                  ''Ensure the query doesn'' @ [single_quote] @ ''t violate graph constraints''])
         else fail ''http_error'' (''HTTP error '' @ py_str fl status_code)
           [''Check HugeGraph server status'', ''Verify the request format''])"

text \<open>\<open>str(e) or type(e).__name__\<close>\<close>

definition text_or_name :: "client_exception \<Rightarrow> string" where
  "text_or_name e = (if exception_text e = [] then exception_name e else exception_text e)"

definition classified_failure :: "client_exception \<Rightarrow> rat \<Rightarrow> string \<Rightarrow> pydict" where
  "classified_failure e ms operation_type =
     (let c = classify_hugegraph_exception e
      in if ec_error_type c = NO_INDEX then no_index_error_result (exception_text e) ms operation_type
         else failure (error_type_value (ec_error_type c))
           [(''reason'', PyStr (ec_reason c)), (''message'', PyStr (text_or_name e))] [ec_suggestion c]
           [(''retryable'', PyBool (ec_retryable c))] ms operation_type)"

definition syntax_failure :: "client_exception \<Rightarrow> rat \<Rightarrow> string \<Rightarrow> pydict" where
  "syntax_failure e ms operation_type =
     failure ''query_syntax_error'' [(''message'', PyStr (text_or_name e))]
       [''Check the Gremlin query syntax and parameters.''] [(''retryable'', PyBool False)] ms operation_type"

definition failure_of ::
  "(rat \<Rightarrow> string) \<Rightarrow> (http_response \<Rightarrow> bool) \<Rightarrow> string \<Rightarrow> client_exception \<Rightarrow> rat \<Rightarrow> string \<Rightarrow> pydict" where
  "failure_of fl response_true address e ms operation_type =
     (let plain = (\<lambda>etype message suggestions.
        failure etype [(''message'', PyStr message)] suggestions [] ms operation_type)
      in case e of
        RequestsConnectionError _ \<Rightarrow>
          plain ''connection_error'' (''Cannot connect to HugeGraph server at '' @ address)
            [''Check if HugeGraph server is running'', ''Verify the HUGEGRAPH_URL environment variable'',
             ''Check network connectivity to the server'']
      | RequestsTimeout _ \<Rightarrow>
          plain ''timeout_error'' (''HugeGraph request timed out at '' @ address)
            [''Retry the request after checking HugeGraph server health'',
             ''Verify the query is bounded and can complete within the client timeout'',
             ''Check network latency to the server'']
      | RequestsHTTPError response _ \<Rightarrow> http_failure fl response_true response ms operation_type
      | InvalidParameterError _ \<Rightarrow> syntax_failure e ms operation_type
      | DataFormatError _ \<Rightarrow> syntax_failure e ms operation_type
      | PyValueError m \<Rightarrow>
          plain ''query_syntax_error'' (''Gremlin query syntax error: '' @ m)
            [''Check Gremlin query syntax'', ''Verify all steps and parameters are valid'',
             ''Ensure proper use of Gremlin traversal steps'']
      | OtherException m \<Rightarrow>
          (let message = ''Unexpected error: '' @ m
           in if is_no_index_error message then no_index_error_result message ms operation_type
              else plain ''unknown_error'' message
                [''Check HugeGraph server logs'', ''Verify the query format and parameters'',
                 ''Try a simpler query to test connectivity''])
      | _ \<Rightarrow> classified_failure e ms operation_type)"

definition execute_with_error_handling ::
  "(rat \<Rightarrow> string) \<Rightarrow> (http_response \<Rightarrow> bool) \<Rightarrow> 'w gremlin_client \<Rightarrow> rat \<Rightarrow> string \<Rightarrow> string \<Rightarrow> 'w \<Rightarrow>
     pydict \<times> 'w" where
  "execute_with_error_handling fl response_true client ms query operation_type w =
     (case client w query of
        (Inr data, w') \<Rightarrow>
          ([(''success'', PyBool True), (''data'', data), (''count'', PyInt (int (gremlin_result_count data))),
            (''duration_ms'', PyFloat (Finite ms)), (''operation_type'', PyStr operation_type)], w')
      | (Inl (address, e), w') \<Rightarrow> (failure_of fl response_true address e ms operation_type, w'))"

section \<open>Reading and writing\<close>

definition has_unbounded_warning :: "string list \<Rightarrow> bool" where
  "has_unbounded_warning warnings \<longleftrightarrow> list_ex (py_contains ''Unbounded traversal'') warnings"

definition auto_append_limit :: "string \<Rightarrow> string option" where
  "auto_append_limit query =
     (let stripped = py_strip query
      in if \<not> suffix '')'' stripped then None
         else if list_ex (\<lambda>step. py_contains step (py_lower stripped))
           [''.group('', ''.path('', ''.profile('', ''.repeat(''] then None
         else Some (stripped @ ''.limit(100)''))"

definition cost_details :: "string \<Rightarrow> string list \<Rightarrow> pyval" where
  "cost_details query warnings = PyDict [(''gremlin_query'', PyStr query), (''warnings'', strs warnings)]"

text \<open>What is decided before the client is asked: the answer, or the query to run and why it was rewritten.\<close>

definition read_decision ::
  "environment \<Rightarrow> string \<Rightarrow> string \<Rightarrow> cost_failure + (reply + string \<times> string option)" where
  "read_decision env query limit_policy =
     (if limit_policy \<notin> set LIMIT_POLICIES then
        Inr (Inl (envelope_err VALIDATION_ERROR
          (''Unsupported limit_policy: '' @ repr_string limit_policy @ ''.'')
          (Some ''Use one of: warn, reject_unbounded, auto_append.'') False
          (Some (PyDict [(''limit_policy'', PyStr limit_policy)]))))
      else if \<not> gd_allowed (check_read query) then
        Inr (Inl (envelope_err UNSAFE_GREMLIN (gd_reason (check_read query)) (gd_suggestion (check_read query)) False
          (Some (PyDict [(''classification'', PyStr
            (case gd_classification (check_read query) of
               Safe \<Rightarrow> ''safe'' | Unsafe \<Rightarrow> ''unsafe'' | Uncertain \<Rightarrow> ''uncertain''))]))))
      else (case gremlin_cost_warnings env query of
          Inl e \<Rightarrow> Inl e
        | Inr warnings \<Rightarrow>
            if limit_policy = ''reject_unbounded'' \<and> has_unbounded_warning warnings then
              Inr (Inl (envelope_err VALIDATION_ERROR
                (''Gremlin read query is unbounded and limit_policy='' @ repr_string ''reject_unbounded'' @ ''.'')
                (Some (''Add .limit(n) or .range(start, end), or use limit_policy='' @ repr_string ''warn'' @ ''.''))
                False (Some (cost_details query warnings))))
            else if limit_policy = ''auto_append'' \<and> has_unbounded_warning warnings then
              (case auto_append_limit query of
                 None \<Rightarrow>
                   Inr (Inl (envelope_err VALIDATION_ERROR
                     ''Cannot safely auto-append limit to this Gremlin query.''
                     (Some (''Add an explicit .limit(n) yourself, or use limit_policy='' @ repr_string ''warn'' @ ''.''))
                     False (Some (cost_details query warnings))))
               | Some rewritten \<Rightarrow>
                   (case gremlin_cost_warnings env rewritten of
                      Inl e \<Rightarrow> Inl e
                    | Inr _ \<Rightarrow>
                        Inr (Inr (rewritten, Some (''limit_policy='' @ repr_string ''auto_append'' @
                          '' added .limit(100) to an unbounded read traversal.'')))))
            else Inr (Inr (query, None))))"

definition read_reply ::
  "(rat \<Rightarrow> string) \<Rightarrow> environment \<Rightarrow> string \<Rightarrow> string \<Rightarrow> string \<Rightarrow> string option \<Rightarrow> pydict \<Rightarrow> reply" where
  "read_reply fl env limit_policy original executed rewrite_reason result =
     (if py_truthy (dict_get result ''success'') then
        (case gremlin_output_guard_error fl (from_env env) (dict_get result ''data'')
            (gremlin_result_count (dict_get result ''data'')) None ''Gremlin'' of
           Some err \<Rightarrow> err
         | None \<Rightarrow>
             envelope_ok (PyDict
               [(''data'', dict_get result ''data''), (''total'', dict_get result ''count''),
                (''duration_ms'', dict_get result ''duration_ms''), (''is_read'', PyBool True),
                (''limit_policy'', PyStr limit_policy), (''original_gremlin'', PyStr original),
                (''executed_gremlin'', PyStr executed), (''rewrite_reason'', opt_str rewrite_reason)]))
      else gremlin_error_envelope result)"

definition execute_gremlin_read ::
  "(rat \<Rightarrow> string) \<Rightarrow> (http_response \<Rightarrow> bool) \<Rightarrow> environment \<Rightarrow> 'w gremlin_client \<Rightarrow> rat \<Rightarrow> string \<Rightarrow> string \<Rightarrow>
     'w \<Rightarrow> (cost_failure + reply) \<times> 'w" where
  "execute_gremlin_read fl response_true env client ms query limit_policy w =
     (case read_decision env query limit_policy of
        Inl e \<Rightarrow> (Inl e, w)
      | Inr (Inl answer) \<Rightarrow> (Inr answer, w)
      | Inr (Inr (executed, rewrite_reason)) \<Rightarrow>
          (case execute_with_error_handling fl response_true client ms executed ''read'' w of
             (result, w') \<Rightarrow>
               (Inr (read_reply fl env limit_policy query executed rewrite_reason result), w')))"

definition execute_gremlin_write ::
  "(rat \<Rightarrow> string) \<Rightarrow> (http_response \<Rightarrow> bool) \<Rightarrow> environment \<Rightarrow> 'w gremlin_client \<Rightarrow> rat \<Rightarrow> string \<Rightarrow> capability \<Rightarrow>
     'w \<Rightarrow> reply \<times> 'w" where
  "execute_gremlin_write fl response_true env client ms query cap w =
     (case guard_write cap (from_env env) of
        Some violation \<Rightarrow> (violation, w)
      | None \<Rightarrow>
          (case execute_with_error_handling fl response_true client ms query ''write'' w of
             (result, w') \<Rightarrow>
               (if py_truthy (dict_get result ''success'') then
                  envelope_ok (PyDict
                    [(''affected'', dict_get result ''count''), (''duration_ms'', dict_get result ''duration_ms''),
                     (''is_write'', PyBool True)])
                else gremlin_error_envelope result, w')))"

end
