(* ===== verification/Gremlin_Rewrite.thy ===== *)
theory Gremlin_Rewrite
  imports Gremlin_Safety Graph_Gremlin
begin

text \<open>
  How the classifier reacts to text around a query: blanks before and after it, and a step appended
  behind its last parenthesis. The scanner either takes the appended text into a line comment the
  query ends with, or scans it on its own behind the query's tokens.
\<close>

section \<open>One turn of the scanner\<close>

text \<open>
  What the scanner does at the head of a text: the kind of the token, if any, the number of
  characters taken, and the text put into the normalised query; \<open>None\<close> if it gives up.
\<close>

fun lex_head :: "string \<Rightarrow> (token_kind option \<times> nat \<times> string) option" where
  "lex_head [] = None"
| "lex_head (c # r) =
     (if py_isspace c then Some (None, 1, [c])
      else if c = CHR ''/'' \<and> prefix ''/'' r then
        (let n = Suc (length (takeWhile (\<lambda>x. \<not> line_end x) r)) in Some (None, n, masked (take n (c # r))))
      else if c = CHR ''/'' \<and> prefix ''*'' r then
        (case find_sub ''*/'' (tl r) of
           None \<Rightarrow> None
         | Some k \<Rightarrow>
             if py_contains ''/*'' (take k (tl r)) then None else Some (None, k + 4, masked (take (k + 4) (c # r))))
      else if c = single_quote \<or> c = double_quote then
        map_option (\<lambda>n. (Some StringLit, n, mask_literal (take n (c # r)))) (consume_quoted (c # r))
      else if is_identifier_start c then
        (let n = Suc (length (takeWhile is_identifier_part r)) in Some (Some Identifier, n, take n (c # r)))
      else if ascii_digit c then
        (let n = Suc (number_tail False r) in Some (Some Number, n, take n (c # r)))
      else Some (Some (if c \<in> safe_punctuation then Punctuation else Unknown), 1, [c]))"

definition lex_turn :: "nat \<Rightarrow> string \<Rightarrow> token_kind option \<times> nat \<times> string \<Rightarrow> lex_result" where
  "lex_turn i s turn =
     (case turn of (kind, n, out) \<Rightarrow>
        (case kind of None \<Rightarrow> lex_skip out | Some k \<Rightarrow> lex_token (token_at k i (take n s)) out)
          (lex_from (i + n) (drop n s)))"

lemma scanner_cases:
  fixes c :: char and r :: string
  obtains (space) "py_isspace c"
  | (line) "\<not> py_isspace c" "c = CHR ''/'' \<and> prefix ''/'' r"
  | (block) "\<not> py_isspace c" "\<not> (c = CHR ''/'' \<and> prefix ''/'' r)" "c = CHR ''/'' \<and> prefix ''*'' r"
  | (quote) "\<not> py_isspace c" "\<not> (c = CHR ''/'' \<and> prefix ''/'' r)" "\<not> (c = CHR ''/'' \<and> prefix ''*'' r)"
      "c = single_quote \<or> c = double_quote"
  | (ident) "\<not> py_isspace c" "\<not> (c = CHR ''/'' \<and> prefix ''/'' r)" "\<not> (c = CHR ''/'' \<and> prefix ''*'' r)"
      "\<not> (c = single_quote \<or> c = double_quote)" "is_identifier_start c"
  | (digit) "\<not> py_isspace c" "\<not> (c = CHR ''/'' \<and> prefix ''/'' r)" "\<not> (c = CHR ''/'' \<and> prefix ''*'' r)"
      "\<not> (c = single_quote \<or> c = double_quote)" "\<not> is_identifier_start c" "ascii_digit c"
  | (other) "\<not> py_isspace c" "\<not> (c = CHR ''/'' \<and> prefix ''/'' r)" "\<not> (c = CHR ''/'' \<and> prefix ''*'' r)"
      "\<not> (c = single_quote \<or> c = double_quote)" "\<not> is_identifier_start c" "\<not> ascii_digit c"
  by blast

lemma lex_from_turn:
  assumes "s \<noteq> []"
  shows "lex_from i s = (case lex_head s of None \<Rightarrow> lex_invalid s | Some turn \<Rightarrow> lex_turn i s turn)"
proof -
  obtain c r where s: "s = c # r"
    using assms by (cases s) auto
  have len: "Suc (i + n) = i + Suc n" for n
    by simp
  have pos: "n = Suc (n - 1)" if "consume_quoted (c # r) = Some n" for n
    using consume_quoted_pos [OF that] by simp
  have drop: "drop n (c # r) = drop (n - 1) r" if "consume_quoted (c # r) = Some n" for n
    using pos [OF that] by (metis drop_Suc_Cons)
  have four: "drop (k + 4) (x # r) = drop (k + 3) r" "i + (k + 4) = i + k + 4" for k and x :: char
    by (simp_all add: numeral_eq_Suc)
  show ?thesis
    unfolding s
  proof (cases rule: scanner_cases [where c = c and r = r])
    case block
    then show "lex_from i (c # r) = (case lex_head (c # r) of None \<Rightarrow> lex_invalid (c # r) | Some turn \<Rightarrow> lex_turn i (c # r) turn)"
      by (cases "find_sub ''*/'' (tl r)") (auto simp: lex_turn_def four simp del: drop_Suc_Cons take_Suc_Cons)
  next
    case quote
    then show "lex_from i (c # r) = (case lex_head (c # r) of None \<Rightarrow> lex_invalid (c # r) | Some turn \<Rightarrow> lex_turn i (c # r) turn)"
      by (cases "consume_quoted (c # r)") (auto simp: lex_turn_def drop Let_def)
  qed (auto simp: lex_turn_def Let_def takeWhile_eq_take [symmetric] dropWhile_eq_drop min_absorb2 number_tail_le)
qed

lemma lex_head_bounds:
  assumes "lex_head s = Some (k, n, out)"
  shows "0 < n" "n \<le> length s"
proof -
  obtain c r where s: "s = c # r"
    using assms by (cases s) auto
  have "0 < n \<and> n \<le> length s"
    using assms consume_quoted_pos [of "c # r" n] consume_quoted_bounds(2) [of "c # r" n]
      find_sub_bound [of "''*/''" "tl r"] number_tail_le [of False r] length_takeWhile_le [of _ r]
    unfolding s by (fastforce simp: Let_def split: if_splits option.splits)
  then show "0 < n" "n \<le> length s" by simp_all
qed

section \<open>Positions do not matter\<close>

definition same_token :: "gremlin_token \<Rightarrow> gremlin_token \<Rightarrow> bool" where
  "same_token a b \<longleftrightarrow> tk_kind a = tk_kind b \<and> tk_value a = tk_value b"

definition same_tokens :: "gremlin_token list \<Rightarrow> gremlin_token list \<Rightarrow> bool" where
  "same_tokens as bs \<longleftrightarrow> list_all2 same_token as bs"

lemma same_tokens_Nil [simp]: "same_tokens [] bs \<longleftrightarrow> bs = []" "same_tokens as [] \<longleftrightarrow> as = []"
  by (auto simp: same_tokens_def)

lemma same_tokens_refl [simp]: "same_tokens as as"
  by (simp add: same_tokens_def list_all2_refl same_token_def)

lemma same_tokens_Cons: "same_tokens (a # as) bs \<longleftrightarrow>
    (\<exists>b bs'. bs = b # bs' \<and> same_token a b \<and> same_tokens as bs')"
  by (auto simp: same_tokens_def list_all2_Cons1)

lemma same_tokens_sym: "same_tokens as bs \<Longrightarrow> same_tokens bs as"
  unfolding same_tokens_def by (rule list_all2_conv_all_nth [THEN iffD2]) (auto simp: list_all2_conv_all_nth same_token_def)

lemma same_tokens_append: "same_tokens as bs \<Longrightarrow> same_tokens cs ds \<Longrightarrow> same_tokens (as @ cs) (bs @ ds)"
  by (simp add: same_tokens_def list_all2_appendI)

definition same_lex :: "lex_result \<Rightarrow> lex_result \<Rightarrow> bool" where
  "same_lex a b \<longleftrightarrow> same_tokens (lx_tokens a) (lx_tokens b) \<and> lx_valid a = lx_valid b \<and>
     lx_normalized a = lx_normalized b"

lemma same_lex_step:
  "same_lex a b \<Longrightarrow> same_lex (lex_skip x a) (lex_skip x b)"
  "same_lex a b \<Longrightarrow> same_lex (lex_token (token_at k i v) x a) (lex_token (token_at k j v) x b)"
  by (auto simp: same_lex_def lex_skip_def lex_token_def same_tokens_Cons same_token_def token_at_def)

lemma same_lex_refl [simp]: "same_lex a a"
  by (simp add: same_lex_def)

lemma lex_position: "same_lex (lex_from i s) (lex_from j s)"
proof (induction s arbitrary: i j rule: length_induct)
  case (1 s)
  show ?case
  proof (cases "s = [] \<or> lex_head s = None")
    case True
    then show ?thesis by (cases "s = []") (simp_all add: lex_from_turn)
  next
    case False
    then obtain k n out where turn: "lex_head s = Some (k, n, out)"
      by auto
    have "same_lex (lex_from (i + n) (drop n s)) (lex_from (j + n) (drop n s))"
      using 1 lex_head_bounds [OF turn] by simp
    then show ?thesis
      using False turn by (cases k) (simp_all add: lex_from_turn lex_turn_def same_lex_step)
  qed
qed

lemma find_same:
  "same_tokens as bs \<Longrightarrow> map_option tk_value (find (\<lambda>_. True) as) = map_option tk_value (find (\<lambda>_. True) bs)"
  by (cases as) (auto simp: same_tokens_Cons same_token_def)

lemma adjacency_same:
  "same_tokens as bs \<Longrightarrow> same_token p q \<Longrightarrow> adjacency_from st p as = adjacency_from st q bs"
proof (induction as arbitrary: bs p q st)
  case (Cons a as)
  then obtain b bs' where b: "bs = b # bs'" "same_token a b" "same_tokens as bs'"
    by (auto simp: same_tokens_Cons)
  have minus: "(bs' = [] \<or> tk_kind (hd as) \<noteq> Number) = (bs' = [] \<or> tk_kind (hd bs') \<noteq> Number)"
      and empty: "(as = []) = (bs' = [])"
    using b(3) by (cases as; auto simp: same_tokens_Cons same_token_def)+
  have vals: "tk_value a = tk_value b" "tk_kind a = tk_kind b" "tk_value p = tk_value q" "tk_kind p = tk_kind q"
    using b(2) Cons.prems(2) by (simp_all add: same_token_def)
  show ?case
    by (simp only: b(1) adjacency_from.simps Let_def adjacent_values_def vals minus empty
        find_same [OF b(3)] Cons.IH [OF b(3) b(2)])
qed simp

lemma analyze_identifier_same:
  assumes "map_option tk_value p = map_option tk_value q" "map_option tk_value n = map_option tk_value m"
  shows "analyze_identifier p v n st = analyze_identifier q v m st"
proof -
  have "p = None \<longleftrightarrow> q = None"
    using assms(1) by (metis option.map_disc_iff)
  then show ?thesis
    by (simp only: analyze_identifier_def Let_def assms)
qed

lemma analyze_same:
  assumes "same_tokens as bs" "map_option tk_value p = map_option tk_value q"
  shows "analyze_from p as st = analyze_from q bs st"
  using assms
proof (induction as arbitrary: bs p q st)
  case (Cons a as)
  then obtain b bs' where b: "bs = b # bs'" "same_token a b" "same_tokens as bs'"
    by (auto simp: same_tokens_Cons)
  then have vals: "tk_value a = tk_value b" "tk_kind a = tk_kind b"
    by (simp_all add: same_token_def)
  have "analyze_token p a (find (\<lambda>_. True) as) st = analyze_token q b (find (\<lambda>_. True) bs') st"
    by (simp only: analyze_token_def vals analyze_identifier_same [OF Cons.prems(2) find_same [OF b(3)]])
  then show ?case
    using Cons.IH [OF b(3), of "Some a" "Some b"] vals by (simp only: b(1) analyze_from.simps option.map)
qed simp

lemma root_same: "same_tokens as bs \<Longrightarrow> root_ok as = root_ok bs"
  by (auto simp: root_ok_def same_tokens_Cons same_token_def split: list.splits)

lemma dynamic_same: "same_tokens as bs \<Longrightarrow> dynamic_member as = dynamic_member bs"
proof (induction as arbitrary: bs)
  case (Cons a as)
  then obtain b bs' where b: "bs = b # bs'" "same_token a b" "same_tokens as bs'"
    by (auto simp: same_tokens_Cons)
  have "as = [] \<longleftrightarrow> bs' = []" "as \<noteq> [] \<Longrightarrow> tk_kind (hd as) = tk_kind (hd bs')"
    using b(3) by (cases as; auto simp: same_tokens_Cons same_token_def)+
  with Cons.IH [OF b(3)] b show ?case by (auto simp: same_token_def)
qed simp

lemma braces_same: "same_tokens as bs \<Longrightarrow> list_ex (\<lambda>t. P (tk_value t)) as = list_ex (\<lambda>t. P (tk_value t)) bs"
  by (induction as arbitrary: bs) (auto simp: same_tokens_Cons same_token_def)

section \<open>Text behind the last parenthesis\<close>

text \<open>Text without quotes, comment marks and escapes.\<close>

definition quiet_char :: "char \<Rightarrow> bool" where
  "quiet_char c \<longleftrightarrow> c \<notin> {single_quote, double_quote, backslash, CHR ''*'', CHR ''/''}"

abbreviation in_line :: "char \<Rightarrow> bool" where
  "in_line \<equiv> \<lambda>x. \<not> line_end x"

lemma find_sub_append_Some: "find_sub p s = Some k \<Longrightarrow> find_sub p (s @ t) = Some k"
proof (induction p s arbitrary: k rule: find_sub.induct)
  case (1 p)
  then show ?case by (cases t) (auto split: if_splits)
next
  case (2 p c s)
  show ?case
  proof (cases "prefix p (c # s)")
    case True
    then have "prefix p (c # s @ t)"
      by (metis append_Cons prefix_prefix)
    with True 2 show ?thesis by simp
  next
    case False
    then obtain j where j: "find_sub p s = Some j" "k = Suc j"
      using 2(2) by auto
    have "\<not> prefix p ((c # s) @ t)"
      using False find_sub_bound [OF j(1)] prefix_length_prefix [of p "(c # s) @ t" "c # s"] by auto
    with False j 2(1) show ?thesis by simp
  qed
qed

lemma find_sub_quiet: "list_all quiet_char t \<Longrightarrow> find_sub ''*/'' t = None"
  by (induction t) (auto simp: quiet_char_def)

lemma find_sub_append_None:
  "find_sub ''*/'' s = None \<Longrightarrow> list_all quiet_char t \<Longrightarrow> find_sub ''*/'' (s @ t) = None"
proof (induction s)
  case (Cons c s)
  then show ?case
    by (cases s; cases t) (auto simp: quiet_char_def split: if_splits)
qed (simp add: find_sub_quiet)

lemma find_sub_at: "find_sub p s = Some k \<Longrightarrow> prefix p (drop k s)"
  by (induction p s arbitrary: k rule: find_sub.induct) (auto split: if_splits)

lemma scan_quiet: "q \<notin> set t \<Longrightarrow> scan_quoted triple q t = None"
  by (induction triple q t rule: scan_quoted.induct) (auto simp: triple_quote_def split: list.splits)

lemma prefix_triple_append: "q \<notin> set t \<Longrightarrow> prefix (triple_quote q) (s @ t) = prefix (triple_quote q) s"
proof -
  have "prefix [q, q, q] (s @ t) \<longleftrightarrow> prefix [q, q, q] s" if "q \<notin> set t"
    using that by (cases s rule: remdups_adj.cases; cases "tl (tl s)"; cases t) (auto simp: neq_Nil_conv prefix_Cons)
  then show "q \<notin> set t \<Longrightarrow> prefix (triple_quote q) (s @ t) = prefix (triple_quote q) s"
    by (simp add: triple_quote_def)
qed

lemma scan_append:
  "q \<notin> set t \<Longrightarrow> scan_quoted triple q (s @ t) = scan_quoted triple q s"
proof (induction triple q s rule: scan_quoted.induct)
  case (1 triple q)
  then show ?case by (simp add: scan_quiet)
next
  case (2 triple q c r)
  show ?case
  proof (cases "c = backslash")
    case True
    show ?thesis
    proof (cases r)
      case Nil
      then show ?thesis
        using True 2(4) scan_quiet [of q "tl t" triple] by (cases t) auto
    next
      case (Cons d r')
      then show ?thesis using True 2 by simp
    qed
  next
    case False
    have "prefix (triple_quote q) (c # r @ t) = prefix (triple_quote q) (c # r)"
      using prefix_triple_append [OF 2(4), of "c # r"] by simp
    then show ?thesis
      using False 2 by (auto simp del: append_Cons simp: append_Cons)
  qed
qed

lemma scan_last: "scan_quoted triple q s = Some n \<Longrightarrow> s ! (n - 1) = q"
proof (induction triple q s arbitrary: n rule: scan_quoted.induct)
  case (2 triple q c r)
  show ?case
  proof (cases "c = backslash")
    case True
    with "2.prems" obtain d r' k where k: "r = d # r'" "scan_quoted triple q r' = Some k" "n = k + 2"
      by (auto split: list.splits)
    have "0 < k"
      using scan_quoted_bounds [OF k(2)] by (auto split: if_splits)
    then show ?thesis
      using "2.IH"(1) [OF True k(1,2)] k by (cases k) auto
  next
    case False
    show ?thesis
    proof (cases "triple \<and> prefix (triple_quote q) (c # r)")
      case True
      then show ?thesis
        using "2.prems" False by (auto simp: triple_quote_def prefix_def numeral_2_eq_2)
    next
      case not_end: False
      show ?thesis
      proof (cases "\<not> triple \<and> c = q")
        case True
        then show ?thesis using "2.prems" False by auto
      next
        case not_close: False
        then obtain k where k: "scan_quoted triple q r = Some k" "n = Suc k"
          using "2.prems" False not_end by (auto split: if_splits)
        have "0 < k"
          using scan_quoted_bounds [OF k(1)] by (auto split: if_splits)
        moreover have "r ! (k - 1) = q"
        proof (cases triple)
          case True
          then show ?thesis using "2.IH"(2) [OF False True] k not_end by simp
        next
          case single: False
          moreover have "\<not> line_end c"
            using "2.prems" False single not_close by (auto split: if_splits)
          ultimately show ?thesis using "2.IH"(3) [OF False] k not_close by simp
        qed
        ultimately show ?thesis using k by (cases k) auto
      qed
    qed
  qed
qed simp

lemma consume_append:
  assumes "hd s \<notin> set t" "s \<noteq> []"
  shows "consume_quoted (s @ t) = consume_quoted s"
proof -
  have "prefix (triple_quote (hd s)) (s @ t) = prefix (triple_quote (hd s)) s"
    using prefix_triple_append [OF assms(1)] by simp
  moreover have "prefix (triple_quote (hd s)) s \<Longrightarrow> 3 \<le> length s"
    by (drule prefix_length_le) (simp add: triple_quote_def)
  ultimately show ?thesis
    using assms by (auto simp: consume_quoted_def Let_def scan_append Suc_le_eq)
qed

lemma consume_last:
  assumes "consume_quoted s = Some n"
  shows "s ! (n - 1) = hd s"
proof -
  let ?d = "if prefix (triple_quote (hd s)) s then 3 else (1::nat)"
  obtain k where k: "scan_quoted (prefix (triple_quote (hd s)) s) (hd s) (drop ?d s) = Some k" "n = ?d + k"
    using assms by (auto simp: consume_quoted_def Let_def)
  have "0 < k" "k \<le> length (drop ?d s)"
    using scan_quoted_bounds [OF k(1)] by (auto split: if_splits)
  then have "s ! (n - 1) = drop ?d s ! (k - 1)"
    using k(2) by (subst nth_drop) auto
  then show ?thesis using scan_last [OF k(1)] by simp
qed

lemma takeWhile_stops: "s \<noteq> [] \<Longrightarrow> \<not> P (last s) \<Longrightarrow> takeWhile P (s @ t) = takeWhile P s"
  by (rule takeWhile_append1 [OF last_in_set])

lemma length_takeWhile_stops: "s \<noteq> [] \<Longrightarrow> \<not> P (last s) \<Longrightarrow> length (takeWhile P s) < length s"
  by (induction s) (auto split: if_splits)

lemma number_tail_stops:
  "s \<noteq> [] \<Longrightarrow> last s = CHR '')'' \<Longrightarrow> number_tail d (s @ t) = number_tail d s \<and> number_tail d s < length s"
  by (induction d s rule: number_tail.induct) (auto simp: ascii_digit_def code_point_def split: if_splits)

lemma close_char:
  "\<not> py_isspace CHR '')''" "CHR '')'' \<noteq> single_quote" "CHR '')'' \<noteq> double_quote"
  "\<not> is_identifier_part CHR '')''" "\<not> is_identifier_start CHR '')''" "\<not> ascii_digit CHR '')''"
  "CHR '')'' \<in> safe_punctuation" "\<not> line_end CHR '')''"
  by (simp_all add: py_isspace_def code_point_def char_defs is_identifier_part_def is_identifier_start_def
      ascii_alpha_def ascii_digit_def safe_punctuation_def)

text \<open>
  Quiet text \<open>t\<close> behind a text that ends with a parenthesis changes the scanner's turn only when the
  turn takes the whole text: then it is a line comment, which swallows the line, or the parenthesis.
\<close>

definition head_extends :: "string \<Rightarrow> string \<Rightarrow> bool" where
  "head_extends s t \<longleftrightarrow>
     (case lex_head s of
        None \<Rightarrow> lex_head (s @ t) = None
      | Some (k, n, out) \<Rightarrow>
          (n < length s \<and> lex_head (s @ t) = Some (k, n, out)) \<or>
          (n = length s \<and> k = None \<and> out = masked s \<and>
             lex_head (s @ t) = Some (None, n + length (takeWhile in_line t), out @ masked (takeWhile in_line t))) \<or>
          (s = [CHR '')''] \<and> k = Some Punctuation \<and> n = 1 \<and> out = s \<and> lex_head (s @ t) = Some (k, 1, s)))"

lemma masked_append: "masked (a @ b) = masked a @ masked b"
  by (simp add: masked_def)

lemma quiet_not_in: "list_all quiet_char t \<Longrightarrow> \<not> quiet_char q \<Longrightarrow> q \<notin> set t"
  by (auto simp: list_all_iff)

lemma head_extends:
  assumes ends: "s \<noteq> []" "last s = CHR '')''" and quiet: "list_all quiet_char t"
  shows "head_extends s t"
proof -
  obtain c r where s: "s = c # r"
    using ends(1) by (cases s) auto
  have last: "r = [] \<Longrightarrow> c = CHR '')''" "r \<noteq> [] \<Longrightarrow> last r = CHR '')''"
    using ends(2) s by auto
  have pre: "prefix [x] (r @ t) = prefix [x] r" if "r \<noteq> []" for x
    using that by (cases r) auto
  show ?thesis
    unfolding s
  proof (cases rule: scanner_cases [where c = c and r = r])
    case space
    then show "head_extends (c # r) t"
      using last(1) close_char(1) by (auto simp: head_extends_def)
  next
    case line
    then have r: "r \<noteq> []" by auto
    show "head_extends (c # r) t"
    proof (cases "takeWhile in_line r = r")
      case True
      then have app: "takeWhile in_line (r @ t) = r @ takeWhile in_line t"
        by (metis set_takeWhileD takeWhile_append2)
      have "lex_head (c # r) = Some (None, length (c # r), masked (c # r))"
        using line r by (simp only: lex_head.simps True Let_def if_False if_True simp_thms) simp
      moreover have "lex_head ((c # r) @ t) =
          Some (None, length (c # r) + length (takeWhile in_line t), masked (c # r) @ masked (takeWhile in_line t))"
        using line r pre [OF r] unfolding append_Cons lex_head.simps app
        by (simp add: masked_append takeWhile_eq_take [symmetric] flip: append_Cons)
      ultimately show ?thesis
        by (simp add: head_extends_def)
    next
      case False
      then obtain x where x: "x \<in> set r" "\<not> in_line x"
        by (metis takeWhile_eq_all_conv)
      then have "takeWhile in_line (r @ t) = takeWhile in_line r"
        by (rule takeWhile_append1)
      moreover have "length (takeWhile in_line r) < length r"
        using False by (metis length_takeWhile_le nat_less_le takeWhile_eq_take take_all_iff order_refl)
      ultimately show ?thesis
        using line r by (simp add: head_extends_def pre Let_def)
    qed
  next
    case block
    then obtain u where u: "r = CHR ''*'' # u" "u \<noteq> []" "last u = CHR '')''"
      using last by (cases r) (auto split: if_splits)
    show "head_extends (c # r) t"
    proof (cases "find_sub ''*/'' u")
      case None
      then show ?thesis
        using block u find_sub_append_None [OF None quiet] by (simp add: head_extends_def)
    next
      case (Some k)
      have "k + 2 \<le> length u"
        using find_sub_bound [OF Some] by simp
      moreover have "k + 2 \<noteq> length u"
      proof
        assume "k + 2 = length u"
        then have len: "length (drop k u) = 2" by simp
        obtain zs where "drop k u = ''*/'' @ zs"
          using find_sub_at [OF Some] by (auto simp: prefix_def)
        with len have "drop k u = ''*/''" by simp
        then have "last u = CHR ''/''"
          by (metis append_take_drop_id last.simps last_append list.distinct(1))
        then show False using u(3) by simp
      qed
      ultimately have "k + 4 < length (c # r)" "k \<le> length u"
          "take (k + 4) (x # y # u @ t) = take (k + 4) (x # y # u)" for x y
        using u(1) by (simp_all add: numeral_eq_Suc)
      then show ?thesis
        using block u Some find_sub_append_Some [OF Some, of t]
        by (simp add: head_extends_def)
    qed
  next
    case quote
    then have nq: "c \<notin> set t"
      using quiet_not_in [OF quiet] by (auto simp: quiet_char_def)
    have r: "r \<noteq> []"
      using quote last(1) close_char(2,3) by auto
    have app: "consume_quoted (c # r @ t) = consume_quoted (c # r)"
      using consume_append [of "c # r" t] nq by simp
    have head: "lex_head (c # r') =
        map_option (\<lambda>n. (Some StringLit, n, mask_literal (take n (c # r')))) (consume_quoted (c # r'))"
      if "r' \<in> {r, r @ t}" for r'
    proof -
      have "\<not> (c = CHR ''/'' \<and> prefix ''/'' r')" "\<not> (c = CHR ''/'' \<and> prefix ''*'' r')"
        using that quote pre [OF r] by auto
      then show ?thesis
        by (simp only: lex_head.simps quote(1,4) if_False if_True)
    qed
    show "head_extends (c # r) t"
    proof (cases "consume_quoted (c # r)")
      case None
      then show ?thesis
        using head app by (simp add: head_extends_def del: lex_head.simps)
    next
      case (Some n)
      have "(c # r) ! (n - 1) = c" "n \<le> length (c # r)"
        using consume_last [OF Some] consume_quoted_bounds(2) [OF Some] by simp_all
      moreover have "n \<noteq> length (c # r)"
      proof
        assume "n = length (c # r)"
        then have "last (c # r) = c"
          using \<open>(c # r) ! (n - 1) = c\<close> by (simp only: last_conv_nth list.distinct not_False_eq_True)
        then show False
          using last(2) [OF r] r quote(4) close_char(2,3) by auto
      qed
      ultimately have n: "n < length (c # r)" by simp
      then have "take n (c # r @ t) = take n (c # r)"
        using take_append [of n "c # r" t] by (simp del: take_append)
      with n show ?thesis
        using head app Some by (simp add: head_extends_def del: lex_head.simps)
    qed
  next
    case ident
    then have r: "r \<noteq> []"
      using last(1) close_char(5) by auto
    have "length (takeWhile is_identifier_part r) < length r"
        "takeWhile is_identifier_part (r @ t) = takeWhile is_identifier_part r"
      using length_takeWhile_stops [of r is_identifier_part] takeWhile_stops [of r is_identifier_part t]
        r last(2) close_char(4) by simp_all
    then show "head_extends (c # r) t"
      using ident r pre by (auto simp: head_extends_def Let_def)
  next
    case digit
    then have r: "r \<noteq> []"
      using last(1) close_char(6) by auto
    have "number_tail False (r @ t) = number_tail False r" "number_tail False r < length r"
      using number_tail_stops [OF r last(2) [OF r]] by simp_all
    then show "head_extends (c # r) t"
      using digit r pre by (auto simp: head_extends_def Let_def)
  next
    case other
    show "head_extends (c # r) t"
      using other last(1) pre close_char(7) by (cases "r = []") (auto simp: head_extends_def)
  qed
qed

text \<open>The scan of a text and of the text with more behind it.\<close>

definition joined :: "lex_result \<Rightarrow> lex_result \<Rightarrow> lex_result \<Rightarrow> string \<Rightarrow> bool" where
  "joined a b c between \<longleftrightarrow>
     lx_tokens b = lx_tokens a @ lx_tokens c \<and> lx_valid b = lx_valid c \<and>
     lx_normalized b = lx_normalized a @ between @ lx_normalized c"

definition lex_extends :: "string \<Rightarrow> lex_result \<Rightarrow> lex_result \<Rightarrow> bool" where
  "lex_extends t a b \<longleftrightarrow>
     (\<not> lx_valid a \<and> \<not> lx_valid b) \<or>
     (lx_valid a \<and> lx_normalized a \<noteq> [] \<and> last (lx_normalized a) = blank \<and>
        (\<exists>j. joined a b (lex_from j (dropWhile in_line t)) (masked (takeWhile in_line t)))) \<or>
     (lx_valid a \<and> lx_normalized a \<noteq> [] \<and> last (lx_normalized a) = CHR '')'' \<and>
        lx_tokens a \<noteq> [] \<and> tk_value (last (lx_tokens a)) = '')'' \<and> tk_kind (last (lx_tokens a)) = Punctuation \<and>
        (\<exists>j. joined a b (lex_from j t) []))"

lemma lex_extends_step:
  "lex_extends t a b \<Longrightarrow> lex_extends t (lex_skip x a) (lex_skip x b)"
  "lex_extends t a b \<Longrightarrow> lex_extends t (lex_token k x a) (lex_token k x b)"
  by (auto simp: lex_extends_def joined_def lex_skip_def lex_token_def)

lemma masked_ends: "s \<noteq> [] \<Longrightarrow> last s = CHR '')'' \<Longrightarrow> masked s \<noteq> [] \<and> last (masked s) = blank"
  by (auto simp: masked_def last_map newline_def)

lemma lex_invalid_valid [simp]: "\<not> lx_valid (lex_invalid s)"
  by (simp add: lex_invalid_def)

theorem lex_append:
  assumes "s \<noteq> []" "last s = CHR '')''" and quiet: "list_all quiet_char t"
  shows "lex_extends t (lex_from i s) (lex_from i (s @ t))"
  using assms(1,2)
proof (induction s arbitrary: i rule: length_induct)
  case (1 s)
  note ext = head_extends [OF 1(2,3) quiet]
  have ne: "s @ t \<noteq> []"
    using 1(2) by simp
  show ?case
  proof (cases "lex_head s")
    case None
    then show ?thesis
      using ext 1(2) ne by (simp add: head_extends_def lex_from_turn lex_extends_def)
  next
    case (Some turn)
    obtain k n out where turn: "turn = (k, n, out)"
      by (cases turn)
    note b = lex_head_bounds [OF Some [unfolded turn]]
    have a: "lex_from i s = lex_turn i s (k, n, out)"
      using Some turn 1(2) by (simp add: lex_from_turn)
    consider (inside) "n < length s" "lex_head (s @ t) = Some (k, n, out)"
      | (comment) "n = length s" "k = None" "out = masked s"
          "lex_head (s @ t) = Some (None, n + length (takeWhile in_line t), out @ masked (takeWhile in_line t))"
      | (close) "s = [CHR '')'']" "k = Some Punctuation" "n = 1" "out = s" "lex_head (s @ t) = Some (k, 1, s)"
      using ext Some turn by (auto simp: head_extends_def)
    then show ?thesis
    proof cases
      case inside
      have "lex_extends t (lex_from (i + n) (drop n s)) (lex_from (i + n) (drop n s @ t))"
        using 1 b inside by simp
      moreover have "lex_from i (s @ t) = lex_turn i (s @ t) (k, n, out)"
        using inside ne by (simp add: lex_from_turn)
      ultimately show ?thesis
        using a inside by (cases k) (simp_all add: lex_turn_def lex_extends_step)
    next
      case comment
      have "lex_from i s = lex_skip (masked s) lex_end"
        using a comment by (simp add: lex_turn_def)
      moreover have "lex_from i (s @ t) = lex_skip (masked s @ masked (takeWhile in_line t))
          (lex_from (i + length s + length (takeWhile in_line t)) (dropWhile in_line t))"
        using comment ne by (simp add: lex_from_turn lex_turn_def dropWhile_eq_drop add.assoc)
      ultimately show ?thesis
        using masked_ends [OF 1(2,3)]
        by (auto simp: lex_extends_def joined_def lex_skip_def lex_end_def)
    next
      case close
      have "lex_from i s = lex_token (token_at Punctuation i s) s lex_end"
        using a close by (simp add: lex_turn_def)
      moreover have "lex_from i (s @ t) = lex_turn i (s @ t) (k, 1, s)"
        unfolding lex_from_turn [OF ne] close(5) by simp
      then have "lex_from i (s @ t) = lex_token (token_at Punctuation i s) s (lex_from (i + 1) t)"
        unfolding lex_turn_def close(1,2) by simp
      ultimately show ?thesis
        using close(1)
        by (auto simp: lex_extends_def joined_def lex_token_def token_at_def lex_end_def)
    qed
  qed
qed

section \<open>The analysis of an extended query\<close>

definition accepts :: "lex_result \<Rightarrow> bool" where
  "accepts lexed \<longleftrightarrow>
     \<not> an_write (analyze_tokens lexed) \<and> \<not> an_uncertain (analyze_tokens lexed) \<and>
     set (an_methods (analyze_tokens lexed)) \<subseteq> set READ_METHODS"

lemma classify_accepts:
  "classify_gremlin_read_safety query = Safe \<longleftrightarrow> py_strip query \<noteq> [] \<and> accepts (lex_gremlin_query query)"
  by (auto simp: classify_gremlin_read_safety_def accepts_def Let_def list_ex_iff)

definition final_analysis :: "gremlin_token list \<Rightarrow> analysis_state" where
  "final_analysis ts =
     analyze_from None ts \<lparr>an_methods = [], an_write = False, an_uncertain = False, an_stack = []\<rparr>"

lemma accepts_iff:
  "accepts lexed \<longleftrightarrow>
     lx_valid lexed \<and> lx_tokens lexed \<noteq> [] \<and> \<not> has_invalid_token_adjacency (lx_tokens lexed) \<and>
     \<not> an_write (final_analysis (lx_tokens lexed)) \<and> \<not> an_uncertain (final_analysis (lx_tokens lexed)) \<and>
     an_stack (final_analysis (lx_tokens lexed)) = [] \<and>
     set (an_methods (final_analysis (lx_tokens lexed))) \<subseteq> set READ_METHODS \<and>
     root_ok (lx_tokens lexed) \<and> \<not> dynamic_member (lx_tokens lexed) \<and>
     \<not> has_dynamic_marker (lx_normalized lexed) \<and>
     \<not> list_ex (\<lambda>t. tk_value t \<in> {''{'', ''}''}) (lx_tokens lexed)"
proof -
  have "\<not> an_uncertain (analyze_from None (lx_tokens lexed) (initial_analysis lexed)) \<Longrightarrow>
      \<not> an_uncertain (initial_analysis lexed)"
    using analyze_from_keeps(1) by blast
  then show ?thesis
    by (cases "an_uncertain (initial_analysis lexed)")
      (auto simp: accepts_def analyze_tokens_def final_analysis_def initial_analysis_def Let_def)
qed

lemma final_same: "same_tokens as bs \<Longrightarrow> final_analysis as = final_analysis bs"
  unfolding final_analysis_def by (rule analyze_same) simp_all

lemma adjacency_list_same:
  "same_tokens as bs \<Longrightarrow> has_invalid_token_adjacency as = has_invalid_token_adjacency bs"
  by (cases as) (auto simp: has_invalid_token_adjacency_def same_tokens_Cons adjacency_same)

lemma accepts_same:
  assumes "accepts a" "same_tokens (lx_tokens a) (lx_tokens b)" "lx_valid b" "\<not> has_dynamic_marker (lx_normalized b)"
  shows "accepts b"
proof -
  have "lx_tokens b \<noteq> []"
    using assms(1,2) by (auto simp: accepts_iff)
  then show ?thesis
    using assms by (simp add: accepts_iff final_same adjacency_list_same root_same dynamic_same
        braces_same [where P = "\<lambda>v. v = ''{'' \<or> v = ''}''"])
qed

lemma marker_append:
  assumes "\<not> has_dynamic_marker x" "\<not> has_dynamic_marker y" "x = [] \<or> last x \<notin> {CHR ''$'', CHR ''#'', CHR ''-''}"
  shows "\<not> has_dynamic_marker (x @ y)"
proof -
  have pair: "py_contains [m, n] (x @ y) \<longleftrightarrow>
      py_contains [m, n] x \<or> py_contains [m, n] y \<or> (x \<noteq> [] \<and> y \<noteq> [] \<and> last x = m \<and> hd y = n)" for m n
    by (induction x; cases y) (auto simp: neq_Nil_conv prefix_Cons split: if_splits)
  show ?thesis
    using assms by (auto simp: has_dynamic_marker_def DYNAMIC_MARKERS_def pair)
qed

lemma marker_part: "has_dynamic_marker x \<Longrightarrow> has_dynamic_marker (p @ x @ q)"
  unfolding has_dynamic_marker_def list_ex_iff py_contains_iff_sublist
  by (auto simp: sublist_def) (metis append.assoc)

lemma lex_spaces:
  "list_all py_isspace ws \<Longrightarrow> lex_from i (ws @ s) = lex_skip ws (lex_from (i + length ws) s)"
  by (induction ws arbitrary: i) (auto simp: lex_skip_def lex_end_def)

lemma lex_blank: "list_all py_isspace ws \<Longrightarrow> lx_tokens (lex_from i ws) = [] \<and> lx_valid (lex_from i ws)"
  by (induction ws arbitrary: i) (simp_all add: lex_end_def lex_skip_def)

lemma space_quiet: "py_isspace c \<Longrightarrow> quiet_char c"
  by (auto simp: quiet_char_def py_isspace_def code_point_def char_defs)

lemma py_strip_split:
  "\<exists>ws ws'. s = ws @ py_strip s @ ws' \<and> list_all py_isspace ws \<and> list_all py_isspace ws'"
proof -
  have drop: "\<exists>ws. xs = ws @ dropWhile py_isspace xs \<and> list_all py_isspace ws" for xs
    by (metis takeWhile_dropWhile_id list_all_iff set_takeWhileD)
  obtain ws where ws: "s = ws @ dropWhile py_isspace s" "list_all py_isspace ws"
    using drop by blast
  obtain vs where vs: "rev (dropWhile py_isspace s) = vs @ dropWhile py_isspace (rev (dropWhile py_isspace s))"
      "list_all py_isspace vs"
    using drop by blast
  have "dropWhile py_isspace s = py_strip s @ rev vs"
    using arg_cong [OF vs(1), of rev] by (simp add: py_strip_def)
  then have "s = ws @ py_strip s @ rev vs"
    using ws(1) by simp
  moreover have "list_all py_isspace (rev vs)"
    using vs(2) by simp
  ultimately show ?thesis
    using ws(2) by blast
qed

lemma strip_accepts:
  assumes "accepts (lex_gremlin_query q)" "py_strip q \<noteq> []" "last (py_strip q) = CHR '')''"
  shows "accepts (lex_gremlin_query (py_strip q))"
proof -
  let ?s = "py_strip q"
  obtain ws ws' where q: "q = ws @ ?s @ ws'" "list_all py_isspace ws" "list_all py_isspace ws'"
    using py_strip_split by blast
  let ?a = "lex_from (length ws) ?s" and ?b = "lex_from (length ws) (?s @ ws')"
  have quiet: "list_all quiet_char ws'"
    using q(3) by (auto simp: list_all_iff space_quiet)
  have blank: "list_all py_isspace (dropWhile in_line ws')"
    using q(3) by (auto simp: list_all_iff dest: set_dropWhileD)
  have skip: "lex_from 0 (ws @ ?s @ ws') = lex_skip ws ?b"
    using lex_spaces [OF q(2), of 0 "?s @ ws'"] by simp
  have "lex_gremlin_query q = lex_skip ws ?b"
    unfolding lex_gremlin_query_def using q(1) skip by simp
  then have b: "lx_tokens (lex_gremlin_query q) = lx_tokens ?b" "lx_valid ?b"
      "\<not> has_dynamic_marker (lx_normalized ?b)"
    using assms(1) marker_part [of "lx_normalized ?b" ws "[]"]
    by (auto simp: accepts_iff lex_skip_def)
  have "lex_extends ws' ?a ?b"
    by (rule lex_append [OF assms(2,3) quiet])
  then have a: "lx_valid ?a" "lx_tokens ?b = lx_tokens ?a" "\<exists>u. lx_normalized ?b = lx_normalized ?a @ u"
    using b(2) lex_blank [OF blank] lex_blank [OF q(3)]
    by (auto simp: lex_extends_def joined_def)
  then have "\<not> has_dynamic_marker (lx_normalized ?a)"
    using b(3) marker_part [of "lx_normalized ?a" "[]"] by auto
  then have "accepts ?a"
    using accepts_same [OF assms(1)] a b by simp
  moreover have "same_lex ?a (lex_gremlin_query ?s)"
    unfolding lex_gremlin_query_def by (rule lex_position)
  ultimately show ?thesis
    using accepts_same [of ?a "lex_gremlin_query ?s"] by (auto simp: same_lex_def accepts_iff)
qed

section \<open>Appending a limit\<close>

definition limit_tokens :: "gremlin_token list" where
  "limit_tokens = [token_at Punctuation 0 ''.'', token_at Identifier 1 ''limit'', token_at Punctuation 6 ''('',
     token_at Number 7 ''100'', token_at Punctuation 10 '')'']"

lemma lex_limit: "lex_from 0 ''.limit(100)'' =
    \<lparr>lx_tokens = limit_tokens, lx_valid = True, lx_normalized = ''.limit(100)''\<rparr>"
  by code_simp

lemma limit_quiet: "list_all quiet_char ''.limit(100)''" "dropWhile in_line ''.limit(100)'' = []"
  by (simp_all add: quiet_char_def char_defs)

lemma limit_markers:
  "\<not> has_dynamic_marker ''.limit(100)''" "\<not> has_dynamic_marker (masked ''.limit(100)'')"
  by code_simp+

lemma find_append: "ts \<noteq> [] \<Longrightarrow> find (\<lambda>_. True) (ts @ us) = find (\<lambda>_. True) ts"
  by (cases ts) auto

text \<open>One turn of the adjacency check: an early answer, or none.\<close>

definition verdict ::
  "string list \<Rightarrow> gremlin_token \<Rightarrow> gremlin_token \<Rightarrow> string option \<Rightarrow> bool \<Rightarrow> bool \<Rightarrow> bool option" where
  "verdict stack previous current nv final number_next =
     (let pv = tk_value previous; cv = tk_value current
      in if is_closer pv \<and> cv \<notin> {''.'', '','', '')'', '']'', ''}''} then Some True
         else if adjacent_values previous current then Some True
         else if tk_kind previous = Identifier \<and> tk_kind current = Identifier then Some True
         else if cv = '','' \<and> (stack = [] \<or> pv \<in> {''('', ''['', ''{'', '','', '':''}) then Some True
         else if cv = '','' \<and> (case nv of None \<Rightarrow> True | Some n \<Rightarrow> n \<in> {'','', '':'', '')'', '']'', ''}''}) then Some True
         else if cv = '':'' \<and> (stack = [] \<or> hd stack \<noteq> ''['') then Some True
         else if cv = '':'' \<and> pv \<in> {'','', '':'', ''('', ''{''} then Some True
         else if cv = '':'' \<and> final then Some True
         else if cv = '':'' \<and> pv = ''['' then Some (nv \<noteq> Some '']'')
         else if cv = '':'' \<and> nv \<in> Some ` {'','', '':'', '')'', ''}'', '']''} then Some True
         else if cv = ''-'' \<and> \<not> number_next then Some True
         else None)"

lemma adjacency_verdict:
  "adjacency_from stack previous (current # rest) =
     (case verdict stack previous current (map_option tk_value (find (\<lambda>_. True) rest)) (rest = [])
         (rest \<noteq> [] \<and> tk_kind (hd rest) = Number) of
        Some b \<Rightarrow> b
      | None \<Rightarrow> adjacency_from (track_delimiter stack (tk_value current)) current rest)"
  by (simp only: adjacency_from.simps verdict_def Let_def if_distrib [where f = "case_option a (\<lambda>b. b)" for a]
      option.case de_Morgan_conj not_not)

lemma verdict_closer:
  "tk_value current = '')'' \<Longrightarrow> verdict stack previous current nv f n = verdict stack previous current nv' f' n'"
  by (simp add: verdict_def Let_def)

lemma adjacency_append:
  assumes "\<not> adjacency_from st p ts" "tk_value (last (p # ts)) = '')''"
    and "\<And>st'. \<not> adjacency_from st' (last (p # ts)) us"
  shows "\<not> adjacency_from st p (ts @ us)"
  using assms
proof (induction ts arbitrary: st p)
  case Nil
  then show ?case by simp
next
  case (Cons t ts)
  show ?case
  proof (cases ts)
    case Nil
    have "tk_value t = '')''"
      using Cons.prems(2) Nil by simp
    note v = verdict_closer [OF this, of st p "map_option tk_value (find (\<lambda>_. True) us)" "us = []"
        "us \<noteq> [] \<and> tk_kind (hd us) = Number" None True False]
    show ?thesis
      using Cons.prems(1,3) Nil unfolding append_Cons adjacency_verdict
      by (simp add: v del: adjacency_from.simps split: option.splits)
  next
    case (Cons u us')
    have "\<not> adjacency_from st' t (ts @ us)" if "\<not> adjacency_from st' t ts" for st'
      using Cons.IH [OF that] Cons.prems(2,3) Cons by simp
    then show ?thesis
      using Cons.prems(1) Cons unfolding append_Cons adjacency_verdict
      by (simp del: adjacency_from.simps split: option.splits)
  qed
qed

lemma adjacency_limit:
  assumes "tk_value t = '')''" "tk_kind t = Punctuation"
  shows "\<not> adjacency_from st t limit_tokens"
  using assms
  by (simp add: limit_tokens_def token_at_def Let_def is_closer_def CLOSE_TO_OPEN_def OPEN_TO_CLOSE_def
      adjacent_values_def value_kind_def is_opener_def ALLOWED_ARG_TOKENS_def py_lower_def
      py_lower_char_def code_point_def)

lemma analyze_append:
  assumes "ts \<noteq> []" "tk_kind (last ts) = Punctuation"
  shows "analyze_from p (ts @ us) st = analyze_from (Some (last ts)) us (analyze_from p ts st)"
  using assms
proof (induction ts arbitrary: p st)
  case (Cons t ts)
  show ?case
  proof (cases ts)
    case Nil
    then show ?thesis using Cons.prems(2) by (simp add: analyze_token_def)
  next
    case (Cons u us')
    have "find (\<lambda>_. True) (ts @ us) = find (\<lambda>_. True) ts"
      using Cons by simp
    then show ?thesis using Cons.IH Cons.prems(2) Cons by simp
  qed
qed simp

lemma analyze_limit:
  "analyze_from (Some t) limit_tokens st = add_method ''limit'' st"
  by (simp add: limit_tokens_def token_at_def analysis_defs is_opener_def is_closer_def CLOSE_TO_OPEN_def
      OPEN_TO_CLOSE_def names_write_def WRITE_METHODS_def py_lower_def py_lower_char_def code_point_def)

lemma dynamic_append:
  "ts \<noteq> [] \<Longrightarrow> tk_value (last ts) \<noteq> ''.'' \<Longrightarrow> dynamic_member (ts @ us) \<longleftrightarrow> dynamic_member ts \<or> dynamic_member us"
proof (induction ts)
  case (Cons t ts)
  then show ?case by (cases ts) auto
qed simp

lemma root_append: "root_ok ts \<Longrightarrow> root_ok (ts @ us)"
  by (auto simp: root_ok_def split: list.splits)

lemma limit_checks:
  "\<not> dynamic_member limit_tokens" "\<not> list_ex (\<lambda>t. tk_value t \<in> {''{'', ''}''}) limit_tokens"
  "''limit'' \<in> set READ_METHODS"
  by code_simp+

lemma accepts_limit:
  assumes a: "accepts a" and last: "tk_value (last (lx_tokens a)) = '')''" "tk_kind (last (lx_tokens a)) = Punctuation"
    and b: "lx_tokens b = lx_tokens a @ limit_tokens" "lx_valid b" "\<not> has_dynamic_marker (lx_normalized b)"
  shows "accepts b"
proof -
  have ne: "lx_tokens a \<noteq> []"
    using a by (simp add: accepts_iff)
  have "final_analysis (lx_tokens b) = add_method ''limit'' (final_analysis (lx_tokens a))"
    using analyze_append [OF ne last(2)] by (simp add: final_analysis_def b analyze_limit)
  moreover have "\<not> has_invalid_token_adjacency (lx_tokens b)"
  proof -
    obtain t ts where ts: "lx_tokens a = t # ts"
      using ne by (cases "lx_tokens a") auto
    have "\<not> adjacency_from [] t ts"
      using a ts by (simp add: accepts_iff has_invalid_token_adjacency_def)
    then have "\<not> adjacency_from [] t (ts @ limit_tokens)"
      using adjacency_append [of "[]" t ts limit_tokens] adjacency_limit last ts by simp
    then show ?thesis
      using ts b(1) by (simp add: has_invalid_token_adjacency_def)
  qed
  ultimately show ?thesis
    using a b limit_checks ne last(1) dynamic_append [OF ne, of limit_tokens] root_append
    by (simp add: accepts_iff add_method_def)
qed

lemma append_limit_accepts:
  assumes "accepts (lex_gremlin_query s)" "s \<noteq> []" "last s = CHR '')''"
  shows "accepts (lex_gremlin_query (s @ ''.limit(100)''))"
proof -
  let ?t = "''.limit(100)''"
  let ?a = "lex_gremlin_query s" and ?b = "lex_gremlin_query (s @ ?t)"
  have ext: "lex_extends ?t ?a ?b"
    unfolding lex_gremlin_query_def by (rule lex_append [OF assms(2,3) limit_quiet(1)])
  have a: "lx_valid ?a" "\<not> has_dynamic_marker (lx_normalized ?a)"
    using assms(1) by (simp_all add: accepts_iff)
  consider (comment) j where "last (lx_normalized ?a) = blank"
        "joined ?a ?b (lex_from j (dropWhile in_line ?t)) (masked (takeWhile in_line ?t))"
    | (close) j where "last (lx_normalized ?a) = CHR '')''" "tk_value (last (lx_tokens ?a)) = '')''"
        "tk_kind (last (lx_tokens ?a)) = Punctuation" "joined ?a ?b (lex_from j ?t) []"
    using ext a(1) unfolding lex_extends_def by blast
  then have "accepts ?b" if "\<And>j. same_lex (lex_from j ?t) (lex_from 0 ?t)"
  proof cases
    case comment
    have tw: "takeWhile in_line ?t = ?t"
      by (metis append_Nil2 limit_quiet(2) takeWhile_dropWhile_id)
    have "\<not> has_dynamic_marker (lx_normalized ?a @ masked ?t)"
      using marker_append [OF a(2) limit_markers(2)] comment(1) by (auto simp: blank_def)
    then show ?thesis
      using comment(2) accepts_same [OF assms(1)]
      unfolding joined_def limit_quiet(2) tw by (simp add: lex_end_def)
  next
    case close
    obtain c where c': "c = lex_from j ?t"
      by (rule that [OF refl])
    have j: "joined ?a ?b c []"
      unfolding c' by (rule close(4))
    have "same_lex c (lex_from 0 ?t)"
      unfolding c' by (rule that)
    then have c: "same_tokens (lx_tokens c) limit_tokens" "lx_valid c" "lx_normalized c = ?t"
      unfolding lex_limit same_lex_def by simp_all
    have m: "\<not> has_dynamic_marker (lx_normalized ?b)"
      using marker_append [OF a(2) limit_markers(1)] close(1) j c(3) by (auto simp: joined_def)
    let ?b' = "?b\<lparr>lx_tokens := lx_tokens ?a @ limit_tokens\<rparr>"
    have "accepts ?b'"
      using accepts_limit [OF assms(1) close(2,3), of ?b'] j c(2) m by (simp add: joined_def)
    moreover have "same_tokens (lx_tokens ?b') (lx_tokens ?b)"
      using j c(1) by (simp add: joined_def same_tokens_append same_tokens_sym)
    ultimately show ?thesis
      using accepts_same [of ?b' ?b] j c(2) m by (simp add: joined_def)
  qed
  from this [OF lex_position] show ?thesis .
qed

end
