(* ===== verification/Gremlin_Reads.thy ===== *)
theory Gremlin_Reads
  imports Gremlin_Tools Gremlin_Rewrite Confirmable_Workflow
begin

text \<open>
  What the execution layer guarantees: only queries the classifier calls safe reach the server
  through the read tool, also after a limit has been appended; and two ways it falls short of what
  it means to do, an appended limit that lands in a comment and HTTP status codes that are never read.
\<close>

lemma not_blank_limit: "py_strip (s @ ''.limit(100)'') \<noteq> []"
  by (simp add: py_strip_eq_Nil py_isspace_def code_point_def)

lemma auto_append_safe:
  assumes "classify_gremlin_read_safety query = Safe" "auto_append_limit query = Some rewritten"
  shows "classify_gremlin_read_safety rewritten = Safe" "rewritten = py_strip query @ ''.limit(100)''"
proof -
  have r: "rewritten = py_strip query @ ''.limit(100)''" and "suffix '')'' (py_strip query)"
    using assms(2) by (auto simp: auto_append_limit_def Let_def split: if_splits)
  then obtain u where u: "py_strip query = u @ '')''"
    by (auto simp: suffix_def)
  have "accepts (lex_gremlin_query query)"
    using assms(1) classify_accepts by blast
  then have "accepts (lex_gremlin_query (py_strip query))"
    by (rule strip_accepts) (simp_all add: u)
  then have "accepts (lex_gremlin_query (py_strip query @ ''.limit(100)''))"
    by (rule append_limit_accepts) (simp_all add: u)
  then show "classify_gremlin_read_safety rewritten = Safe"
    unfolding r classify_accepts using not_blank_limit by blast
  show "rewritten = py_strip query @ ''.limit(100)''" by (rule r)
qed

lemma read_decision_safe:
  assumes "read_decision env query policy = Inr (Inr (executed, why))"
  shows "classify_gremlin_read_safety executed = Safe \<and>
    (executed = query \<or> (policy = ''auto_append'' \<and> executed = py_strip query @ ''.limit(100)''))"
proof -
  have "gd_allowed (check_read query)"
    using assms by (auto simp: read_decision_def split: if_splits)
  then have safe: "classify_gremlin_read_safety query = Safe"
    by (auto simp: check_read_def split: gremlin_classification.splits)
  obtain warnings where w: "gremlin_cost_warnings env query = Inr warnings"
    using assms \<open>gd_allowed _\<close> by (cases "gremlin_cost_warnings env query") (auto simp: read_decision_def split: if_splits)
  show ?thesis
  proof (cases "policy = ''auto_append'' \<and> has_unbounded_warning warnings")
    case True
    then have "auto_append_limit query = Some executed"
      using assms w \<open>gd_allowed _\<close>
      by (auto simp: read_decision_def split: if_splits option.splits sum.splits)
    then show ?thesis
      using auto_append_safe [OF safe] True by blast
  next
    case False
    then have "executed = query"
      using assms w \<open>gd_allowed _\<close> by (auto simp: read_decision_def split: if_splits)
    then show ?thesis using safe by simp
  qed
qed

text \<open>A read asks the client at most once, for the query the decision names.\<close>

lemma execute_read_world:
  "snd (execute_gremlin_read fl response_true env client ms query policy w) = w \<or>
   (\<exists>executed why. read_decision env query policy = Inr (Inr (executed, why)) \<and>
      snd (execute_gremlin_read fl response_true env client ms query policy w) = snd (client w executed))"
proof (cases "read_decision env query policy")
  case (Inl e)
  then show ?thesis by (simp add: execute_gremlin_read_def)
next
  case (Inr d)
  show ?thesis
  proof (cases d)
    case (Inl answer)
    with Inr show ?thesis by (simp add: execute_gremlin_read_def)
  next
    case run: (Inr r)
    obtain executed why where r: "r = (executed, why)" by (cases r)
    have "snd (execute_with_error_handling fl response_true client ms executed ''read'' w) = snd (client w executed)"
      by (simp add: execute_with_error_handling_def split: prod.splits sum.splits)
    then show ?thesis
      using Inr run r by (simp add: execute_gremlin_read_def case_prod_beta)
  qed
qed

text \<open>
  C16: only safe queries reach the server through the read tool. A call either leaves the world as
  it was, or its effect is that of exactly one call of the client, with a query the classifier calls
  safe: the one given, or under \<open>auto_append\<close> the stripped one with the limit appended.
\<close>

theorem only_safe_queries_reach_the_server:
  "snd (execute_gremlin_read fl response_true env client ms query policy w) = w \<or>
   (\<exists>executed. snd (execute_gremlin_read fl response_true env client ms query policy w) = snd (client w executed) \<and>
      classify_gremlin_read_safety executed = Safe \<and>
      (executed = query \<or> (policy = ''auto_append'' \<and> executed = py_strip query @ ''.limit(100)'')))"
  using execute_read_world [of fl response_true env client ms query policy w] read_decision_safe by blast


lemma parse_int_unknown: "parse_int ''unknown'' = None"
  by code_simp

text \<open>
  HTTP status codes are lost. A \<open>requests.Response\<close> is true exactly when its status is no
  client or server error, so the test \<open>e.response\<close> fails for every response an \<open>HTTPError\<close> carries:
  whatever the status, a write that was refused by the server is answered with
  \<open>HTTP error unknown\<close>, as a server error that is not worth a retry.
\<close>

theorem http_status_is_lost:
  assumes "\<And>r. response_true r = (\<not> (400 \<le> hr_status r \<and> hr_status r < 600))"
    and "400 \<le> hr_status r" "hr_status r < 600"
    and "guard_write cap (from_env env) = None"
    and "client w query = (Inl (address, RequestsHTTPError (Some r) m), w')"
  shows "\<exists>e. execute_gremlin_write fl response_true env client ms query cap w = (EnvelopeErr e, w') \<and>
    ei_type e = SERVER_ERROR \<and> ei_message e = ''HTTP error unknown'' \<and> \<not> ei_retryable e"
  using assms parse_int_unknown
  by (simp add: execute_gremlin_write_def execute_with_error_handling_def failure_of_def http_failure_def
      failure_def gremlin_error_envelope_def envelope_err_def map_error_type_def GREMLIN_ERROR_TYPE_MAP_def
      gremlin_error_retryable_def text_or_def Let_def py_int.simps)

theorem http_status_is_lost_witness:
  "\<exists>e. execute_gremlin_write (\<lambda>_. []) (\<lambda>r. \<not> (400 \<le> hr_status r \<and> hr_status r < 600)) writable_env
       (\<lambda>w q. (Inl ('''', RequestsHTTPError (Some \<lparr>hr_status = 503, hr_json = None\<rparr>) ''''), w))
       0 ''g.E(1).drop()'' DATA_WRITE () = (EnvelopeErr e, ()) \<and>
    ei_type e = SERVER_ERROR \<and> ei_message e = ''HTTP error unknown'' \<and> \<not> ei_retryable e"
  by (rule http_status_is_lost [OF _ _ _ writable_guard]) simp_all

end
