(* ===== verification/Effects.thy ===== *)
theory Effects
  imports Py_Values
begin

text \<open>
  Code that reaches the outside world: an effect takes the world to a result or an exception and the
  next world. Two predicates carry the proofs about sequences of calls: what an effect does not
  destroy (\<open>effect_keeps\<close>) and what every result satisfies (\<open>effect_ensures\<close>).
\<close>

section \<open>The combinators\<close>

type_synonym ('w, 'a) effect = "'w \<Rightarrow> (py_exception + 'a) \<times> 'w"

definition effect_return :: "'a \<Rightarrow> ('w, 'a) effect" where
  "effect_return x w = (Inr x, w)"

definition effect_of :: "py_exception + 'a \<Rightarrow> ('w, 'a) effect" where
  "effect_of r w = (r, w)"

definition effect_bind :: "('w, 'a) effect \<Rightarrow> ('a \<Rightarrow> ('w, 'b) effect) \<Rightarrow> ('w, 'b) effect" where
  "effect_bind m k w = (case m w of (Inl e, w') \<Rightarrow> (Inl e, w') | (Inr x, w') \<Rightarrow> k x w')"

lemma effect_bind_return [simp]: "effect_bind (effect_return x) k = k x"
  by (rule ext) (simp add: effect_bind_def effect_return_def)

text \<open>A property of the world that an effect does not destroy.\<close>

definition effect_keeps :: "('w \<Rightarrow> bool) \<Rightarrow> ('w, 'a) effect \<Rightarrow> bool" where
  "effect_keeps I m \<longleftrightarrow> (\<forall>w. I w \<longrightarrow> I (snd (m w)))"

named_theorems effect_rules \<open>how the combinators keep a property of the world\<close>

lemma effect_keeps_return [effect_rules]: "effect_keeps I (effect_return x)"
  by (simp add: effect_keeps_def effect_return_def)

lemma effect_keeps_of [effect_rules]: "effect_keeps I (effect_of r)"
  by (simp add: effect_keeps_def effect_of_def)

lemma effect_keeps_bind [effect_rules]:
  assumes "effect_keeps I m" "\<And>x. effect_keeps I (k x)"
  shows "effect_keeps I (effect_bind m k)"
  unfolding effect_keeps_def
proof (intro allI impI)
  fix w assume "I w"
  then have "I (snd (m w))" using assms(1) by (simp add: effect_keeps_def)
  then show "I (snd (effect_bind m k w))"
    using assms(2) by (auto simp: effect_bind_def effect_keeps_def split: prod.split sum.split)
qed

lemma effect_keeps_if [effect_rules]:
  "(c \<Longrightarrow> effect_keeps I m) \<Longrightarrow> (\<not> c \<Longrightarrow> effect_keeps I n) \<Longrightarrow> effect_keeps I (if c then m else n)"
  by simp

lemma effect_keeps_option [effect_rules]:
  "effect_keeps I m \<Longrightarrow> (\<And>x. effect_keeps I (k x)) \<Longrightarrow>
     effect_keeps I (case r of None \<Rightarrow> m | Some x \<Rightarrow> k x)"
  by (simp split: option.split)

lemma effect_keeps_sum [effect_rules]:
  "(\<And>e. effect_keeps I (h e)) \<Longrightarrow> (\<And>x. effect_keeps I (k x)) \<Longrightarrow>
     effect_keeps I (case r of Inl e \<Rightarrow> h e | Inr x \<Rightarrow> k x)"
  by (simp split: sum.split)

lemma effect_keeps_prod [effect_rules]:
  "(\<And>a b. effect_keeps I (k a b)) \<Longrightarrow> effect_keeps I (case r of (a, b) \<Rightarrow> k a b)"
  by (simp split: prod.split)

text \<open>A property of every result of an effect.\<close>

definition effect_ensures :: "('a \<Rightarrow> bool) \<Rightarrow> ('w, 'a) effect \<Rightarrow> bool" where
  "effect_ensures P m \<longleftrightarrow> (\<forall>w x w'. m w = (Inr x, w') \<longrightarrow> P x)"

lemma effect_ensuresD: "effect_ensures P m \<Longrightarrow> m w = (Inr x, w') \<Longrightarrow> P x"
  by (auto simp: effect_ensures_def)

lemma effect_ensures_mono: "effect_ensures P m \<Longrightarrow> (\<And>x. P x \<Longrightarrow> Q x) \<Longrightarrow> effect_ensures Q m"
  by (auto simp: effect_ensures_def)

lemma effect_ensures_return [simp]: "effect_ensures P (effect_return x) \<longleftrightarrow> P x"
  by (simp add: effect_ensures_def effect_return_def)

lemma effect_ensures_of: "(\<And>x. r = Inr x \<Longrightarrow> P x) \<Longrightarrow> effect_ensures P (effect_of r)"
  by (simp add: effect_ensures_def effect_of_def)

lemma effect_ensures_bind:
  assumes "effect_ensures Q m" "\<And>x. Q x \<Longrightarrow> effect_ensures P (k x)"
  shows "effect_ensures P (effect_bind m k)"
  using assms by (fastforce simp: effect_ensures_def effect_bind_def split: prod.splits sum.splits)

lemma effect_ensures_any: "effect_ensures (\<lambda>_. True) m"
  by (simp add: effect_ensures_def)

lemma effect_bind_Inr:
  "effect_bind m k w = (Inr y, w'') \<longleftrightarrow> (\<exists>x w'. m w = (Inr x, w') \<and> k x w' = (Inr y, w''))"
  by (auto simp: effect_bind_def split: prod.splits sum.splits)

lemma effect_keeps_ensured:
  assumes "effect_keeps I m" "effect_ensures P m" "\<And>x. P x \<Longrightarrow> effect_keeps I (k x)"
  shows "effect_keeps I (effect_bind m k)"
  using assms
  by (fastforce simp: effect_keeps_def effect_ensures_def effect_bind_def split: prod.splits sum.splits)

section \<open>Breaking a property\<close>

lemma keepsD: "effect_keeps I m \<Longrightarrow> I s \<Longrightarrow> I (snd (m s))"
  by (simp add: effect_keeps_def)

text \<open>
  A sequence that destroys \<open>I\<close> while its first effect keeps the stronger \<open>J\<close> destroys it in the second.
\<close>

lemma breaks_bind_under:
  assumes "\<not> I (snd (effect_bind m k s))" "effect_keeps J m" "J s" "\<And>s. J s \<Longrightarrow> I s"
  shows "\<exists>x s'. m s = (Inr x, s') \<and> J s' \<and> \<not> I (snd (k x s'))"
proof -
  obtain r s' where m: "m s = (r, s')" by fastforce
  have "J s'" using keepsD [OF assms(2,3)] m by simp
  then show ?thesis using assms(1,4) m by (cases r) (auto simp: effect_bind_def)
qed

lemma breaks_bind:
  assumes "\<not> I (snd (effect_bind m k s))" "effect_keeps I m" "I s"
  shows "\<exists>x s'. m s = (Inr x, s') \<and> I s' \<and> \<not> I (snd (k x s'))"
  using assms by (rule breaks_bind_under)

end
