(* ===== verification/Graph_Backend.thy ===== *)
theory Graph_Backend
  imports Effects Gremlin_Reads Graph_Gremlin Plan_Hash
begin

text \<open>
  How the data-plane tools reach the server: through \<open>execute_gremlin_read\<close> and
  \<open>execute_gremlin_write\<close>, with what surrounds them bundled in a \<open>backend\<close>. The two readers of
  \<open>tools/graph_data_execute.py\<close> follow. A reply of the execution layer always carries \<open>ok\<close>, so the
  branches for its older shape, recognised by \<open>success\<close>, are never taken and not modelled.
\<close>

record 'w backend =
  be_env :: environment
  be_client :: "'w gremlin_client"
  be_duration :: rat
  be_float_text :: "rat \<Rightarrow> string"
  be_response_true :: "http_response \<Rightarrow> bool"

section \<open>Asking the server\<close>

definition read_gremlin :: "'w backend \<Rightarrow> string \<Rightarrow> ('w, reply) effect" where
  "read_gremlin be query w =
     (case execute_gremlin_read (be_float_text be) (be_response_true be) (be_env be) (be_client be)
        (be_duration be) query ''warn'' w of
        (Inl _, w') \<Rightarrow> (Inl (RaisesValue ''Exceeds the limit for integer string conversion''), w')
      | (Inr r, w') \<Rightarrow> (Inr r, w'))"

definition write_gremlin :: "'w backend \<Rightarrow> string \<Rightarrow> ('w, reply) effect" where
  "write_gremlin be query w =
     (case execute_gremlin_write (be_float_text be) (be_response_true be) (be_env be) (be_client be)
        (be_duration be) query DATA_WRITE w of (r, w') \<Rightarrow> (Inr r, w'))"

text \<open>The exceptions of the query builders.\<close>

definition rendered :: "(rat \<Rightarrow> string) \<Rightarrow> render_error + string \<Rightarrow> py_exception + string" where
  "rendered fl r =
     (case r of
        Inr q \<Rightarrow> Inr q
      | Inl (RenderKeyError k) \<Rightarrow> Inl (RaisesKey k)
      | Inl RenderAttributeError \<Rightarrow> Inl RaisesAttribute
      | Inl (UnsupportedOp v) \<Rightarrow> Inl (RaisesValue (''Unsupported op: '' @ py_str fl v)))"

section \<open>Counts and values\<close>

lemma size_map_of_value [termination_simp]:
  "map_of d k = Some v \<Longrightarrow> size v < Suc (size_list (\<lambda>x. Suc (size (snd x))) d)"
  by (induction d) (auto split: if_splits)

fun extract_count_value :: "pyval \<Rightarrow> pyval" where
  "extract_count_value (PyDict d) =
     (case map_of d ''data'' of Some v \<Rightarrow> extract_count_value v | None \<Rightarrow> PyDict d)"
| "extract_count_value (PyList []) = PyInt 0"
| "extract_count_value (PyList (v # vs)) = extract_count_value v"
| "extract_count_value v = v"

text \<open>\<open>while isinstance(data, dict) and "data" in data: data = data["data"]\<close>\<close>

fun unwrap_data :: "pyval \<Rightarrow> pyval" where
  "unwrap_data (PyDict d) = (case map_of d ''data'' of Some v \<Rightarrow> unwrap_data v | None \<Rightarrow> PyDict d)"
| "unwrap_data v = v"

definition failed_envelope :: "error_type \<Rightarrow> string \<Rightarrow> string option \<Rightarrow> bool \<Rightarrow> pydict \<Rightarrow> error_info" where
  "failed_envelope etype message suggestion retryable details =
     \<lparr>ei_type = etype, ei_message = message, ei_suggestion = suggestion, ei_retryable = retryable,
      ei_details = PyDict details\<rparr>"

text \<open>The envelope of a success is its count or its values, that of a failure its error.\<close>

definition read_count :: "'w backend \<Rightarrow> string \<Rightarrow> ('w, error_info + int) effect" where
  "read_count be query =
     effect_bind (read_gremlin be (query @ ''.count()'')) (\<lambda>result.
       case result of
         EnvelopeErr e \<Rightarrow> effect_return (Inl e)
       | EnvelopeOk data \<Rightarrow>
           (case py_int (extract_count_value data) of
              Inr n \<Rightarrow> effect_return (Inr n)
            | Inl IntOverflowError \<Rightarrow> effect_of (Inl RaisesOverflow)
            | Inl _ \<Rightarrow> effect_return (Inl (failed_envelope INVALID_GRAPH_DATA
                ''HugeGraph count query returned a non-numeric result.'' None False
                [(''query'', PyStr query), (''data'', data)]))))"

definition read_values :: "'w backend \<Rightarrow> string \<Rightarrow> ('w, error_info + pyval list) effect" where
  "read_values be query =
     effect_bind (read_gremlin be query) (\<lambda>result.
       case result of
         EnvelopeErr e \<Rightarrow> effect_return (Inl e)
       | EnvelopeOk data \<Rightarrow>
           effect_return (Inr (case unwrap_data data of PyNone \<Rightarrow> [] | PyList vs \<Rightarrow> vs | v \<Rightarrow> [v])))"

section \<open>Reads are safe\<close>

text \<open>A world that only safe queries have touched.\<close>

definition safe_queries_keep :: "('w \<Rightarrow> bool) \<Rightarrow> 'w backend \<Rightarrow> bool" where
  "safe_queries_keep I be \<longleftrightarrow>
     (\<forall>w query. I w \<longrightarrow> classify_gremlin_read_safety query = Safe \<longrightarrow> I (snd (be_client be w query)))"

lemma read_gremlin_keeps [effect_rules]:
  assumes "safe_queries_keep I be"
  shows "effect_keeps I (read_gremlin be query)"
  unfolding effect_keeps_def
proof (intro allI impI)
  fix w assume w: "I w"
  let ?run = "execute_gremlin_read (be_float_text be) (be_response_true be) (be_env be) (be_client be)
    (be_duration be) query ''warn'' w"
  have "I (snd ?run)"
    using execute_read_world [of "be_float_text be" "be_response_true be" "be_env be" "be_client be"
        "be_duration be" query "''warn''" w] read_decision_safe w assms
    unfolding safe_queries_keep_def by metis
  then show "I (snd (read_gremlin be query w))"
    by (auto simp: read_gremlin_def split: prod.splits sum.splits)
qed

lemma read_count_keeps [effect_rules]:
  "safe_queries_keep I be \<Longrightarrow> effect_keeps I (read_count be query)"
  unfolding read_count_def
  by (intro effect_rules) (auto intro!: effect_rules split: reply.split sum.split int_failure.split)

lemma read_values_keeps [effect_rules]:
  "safe_queries_keep I be \<Longrightarrow> effect_keeps I (read_values be query)"
  unfolding read_values_def
  by (intro effect_rules) (auto intro!: effect_rules split: reply.split)

end
