(* ===== verification/Schema_Model.thy ===== *)
theory Schema_Model
  imports Json_Text
begin

text \<open>
  \<open>hugegraph_mcp/tools/schema_contract.py\<close> and \<open>schema_utils.py\<close>: the table of schema operation
  fields, and the parsing and normalisation of a live schema, which the plan hashes, the property
  validation and the plan compilers all start from. A schema is an arbitrary JSON value.
\<close>

section \<open>The field contract\<close>

datatype field_kind = KIdentity | KEnum | KList | KMapping | KBoolean | KScalar

datatype apply_mode = NoApply | ApplyIdentity | ApplyTyped | ApplyParameter | ApplyLink

record schema_field_spec =
  sf_aliases :: "string list"
  sf_kind :: field_kind
  sf_default :: "string option"
  sf_include_in_summary :: bool
  sf_apply_mode :: apply_mode

text \<open>\<open>_field\<close>; every call has at least one alias, duplicates keep their first place.\<close>

definition field ::
  "string list \<Rightarrow> field_kind \<Rightarrow> string option \<Rightarrow> bool \<Rightarrow> apply_mode \<Rightarrow> schema_field_spec" where
  "field aliases kind dflt include mode =
     \<lparr>sf_aliases = rev (remdups (rev aliases)), sf_kind = kind, sf_default = dflt,
      sf_include_in_summary = include, sf_apply_mode = mode\<rparr>"

type_synonym field_specs = "(string \<times> schema_field_spec) list"

definition SUPPORTED_FIELD_SPECS :: "(string \<times> field_specs) list" where
  "SUPPORTED_FIELD_SPECS =
     [(''create_property_key'',
       [(''type'', field [''type''] KIdentity None False ApplyIdentity),
        (''name'', field [''name'', ''property_name'', ''propertyName''] KIdentity None False ApplyIdentity),
        (''data_type'', field [''data_type'', ''dataType''] KEnum None True ApplyTyped),
        (''cardinality'', field [''cardinality'', ''cardinality_type'', ''cardinalityType''] KEnum (Some ''SINGLE'') True ApplyTyped),
        (''aggregate_type'', field [''aggregate_type'', ''aggregateType''] KEnum None True ApplyTyped),
        (''user_data'', field [''user_data'', ''userData'', ''userdata''] KMapping None True ApplyParameter)]),
      (''create_vertex_label'',
       [(''type'', field [''type''] KIdentity None False ApplyIdentity),
        (''name'', field [''name''] KIdentity None False ApplyIdentity),
        (''id_strategy'', field [''id_strategy'', ''idStrategy''] KEnum (Some ''PRIMARY_KEY'') True ApplyTyped),
        (''properties'', field [''properties''] KList None True ApplyTyped),
        (''primary_keys'', field [''primary_keys'', ''primaryKeys''] KList None True ApplyTyped),
        (''nullable_keys'', field [''nullable_keys'', ''nullableKeys''] KList None True ApplyTyped),
        (''index_labels'', field [''index_labels'', ''indexLabels''] KList None True ApplyParameter),
        (''enable_label_index'', field [''enable_label_index'', ''enableLabelIndex''] KBoolean None True ApplyTyped),
        (''user_data'', field [''user_data'', ''userData'', ''userdata''] KMapping None True ApplyParameter)]),
      (''create_edge_label'',
       [(''type'', field [''type''] KIdentity None False ApplyIdentity),
        (''name'', field [''name''] KIdentity None False ApplyIdentity),
        (''source_label'', field [''source_label'', ''sourceLabel''] KScalar None True ApplyLink),
        (''target_label'', field [''target_label'', ''targetLabel''] KScalar None True ApplyLink),
        (''properties'', field [''properties''] KList None True ApplyTyped),
        (''nullable_keys'', field [''nullable_keys'', ''nullableKeys''] KList None True ApplyTyped),
        (''sort_keys'', field [''sort_keys'', ''sortKeys''] KList None True ApplyTyped),
        (''frequency'', field [''frequency''] KEnum None True ApplyTyped),
        (''enable_label_index'', field [''enable_label_index'', ''enableLabelIndex''] KBoolean None True ApplyTyped),
        (''user_data'', field [''user_data'', ''userData'', ''userdata''] KMapping None True ApplyParameter)]),
      (''create_index_label'',
       [(''type'', field [''type''] KIdentity None False ApplyIdentity),
        (''name'', field [''name''] KIdentity None False ApplyIdentity),
        (''base_type'', field [''base_type'', ''baseType''] KEnum None True NoApply),
        (''base_label'', field [''base_label'', ''baseLabel'', ''base_value'', ''baseValue''] KScalar None True NoApply),
        (''fields'', field [''fields''] KList None True NoApply),
        (''index_type'', field [''index_type'', ''indexType''] KEnum None True NoApply),
        (''unique'', field [''unique''] KBoolean None True NoApply)])]"

definition SUPPORTED_FIELDS :: "(string \<times> string set) list" where
  "SUPPORTED_FIELDS = map (\<lambda>(op_type, specs). (op_type, set (map fst specs))) SUPPORTED_FIELD_SPECS"

definition OPERATION_KIND :: "(string \<times> string) list" where
  "OPERATION_KIND =
     [(''create_property_key'', ''property_key''), (''create_vertex_label'', ''vertex_label''),
      (''create_edge_label'', ''edge_label''), (''create_index_label'', ''index_label'')]"

definition SCHEMA_COLLECTIONS :: "(string \<times> string) list" where
  "SCHEMA_COLLECTIONS =
     [(''property_key'', ''propertykeys''), (''vertex_label'', ''vertexlabels''),
      (''edge_label'', ''edgelabels''), (''index_label'', ''indexlabels'')]"

definition field_specs_for_operation :: "string \<Rightarrow> field_specs" where
  "field_specs_for_operation op_type =
     (case map_of SUPPORTED_FIELD_SPECS op_type of Some specs \<Rightarrow> specs | None \<Rightarrow> [])"

definition field_specs_for_kind :: "string \<Rightarrow> field_specs" where
  "field_specs_for_kind kind =
     (case find (\<lambda>(op_type, k). k = kind) OPERATION_KIND of
        Some (op_type, _) \<Rightarrow> field_specs_for_operation op_type
      | None \<Rightarrow> [])"

definition apply_fields_for_operation :: "string \<Rightarrow> string set" where
  "apply_fields_for_operation op_type =
     set (map fst (filter (\<lambda>(f, spec). sf_apply_mode spec \<noteq> NoApply) (field_specs_for_operation op_type)))"

definition schema_collection_for_operation :: "string \<Rightarrow> string option" where
  "schema_collection_for_operation op_type =
     (case map_of OPERATION_KIND op_type of Some kind \<Rightarrow> map_of SCHEMA_COLLECTIONS kind | None \<Rightarrow> None)"

section \<open>\<open>str.upper\<close>\<close>

text \<open>The upper case of the micro sign and of y with diaeresis lies outside Latin-1; they are kept.\<close>

definition py_upper_char :: "char \<Rightarrow> string" where
  "py_upper_char c =
     (let n = code_point c
      in if (97 \<le> n \<and> n \<le> 122) \<or> (224 \<le> n \<and> n \<le> 254 \<and> n \<noteq> 247) then [char_of (n - 32)]
         else if n = 223 then ''SS'' else [c])"

definition py_upper :: "string \<Rightarrow> string" where
  "py_upper s = concat (map py_upper_char s)"

section \<open>Reading a live schema\<close>

definition schema_name :: "pyval \<Rightarrow> string option" where
  "schema_name item =
     (case item of
        PyStr s \<Rightarrow> Some s
      | PyDict d \<Rightarrow> (case dict_get d ''name'' of PyStr s \<Rightarrow> Some s | _ \<Rightarrow> None)
      | _ \<Rightarrow> None)"

text \<open>The non-empty names of a list.\<close>

definition names_in :: "pyval list \<Rightarrow> string list" where
  "names_in vs = filter (\<lambda>s. s \<noteq> []) (List.map_filter schema_name vs)"

definition property_names :: "pyval \<Rightarrow> string set" where
  "property_names properties = (case properties of PyList vs \<Rightarrow> set (names_in vs) | _ \<Rightarrow> {})"

definition primary_key_names :: "pydict \<Rightarrow> string list" where
  "primary_key_names vertex_label =
     (let keys = dict_get vertex_label ''primary_keys'';
          keys' = (if keys = PyNone then dict_get vertex_label ''primaryKeys'' else keys)
      in case keys' of PyList vs \<Rightarrow> names_in vs | _ \<Rightarrow> [])"

definition schema_payload :: "pyval \<Rightarrow> pydict option" where
  "schema_payload live_schema =
     (case live_schema of
        PyDict d \<Rightarrow> (case map_of d ''schema'' of Some (PyDict e) \<Rightarrow> Some e | Some _ \<Rightarrow> None | None \<Rightarrow> Some d)
      | _ \<Rightarrow> None)"

definition user_data_without_server_metadata :: "pyval \<Rightarrow> pyval" where
  "user_data_without_server_metadata v =
     (case v of PyDict d \<Rightarrow> PyDict (filter (\<lambda>(k, item). \<not> prefix ''~'' k) d) | _ \<Rightarrow> PyNone)"

definition edge_schema_endpoint_label :: "pydict \<Rightarrow> string \<Rightarrow> pyval" where
  "edge_schema_endpoint_label edge_schema endpoint =
     (if endpoint = ''source''
      then py_or (dict_get edge_schema ''source_label'') (dict_get edge_schema ''sourceLabel'')
      else py_or (dict_get edge_schema ''target_label'') (dict_get edge_schema ''targetLabel''))"

fun field_value :: "pydict \<Rightarrow> string list \<Rightarrow> pyval" where
  "field_value item [] = PyNone"
| "field_value item (name # names) =
     (case map_of item name of Some v \<Rightarrow> v | None \<Rightarrow> field_value item names)"

definition property_key_items :: "pydict \<Rightarrow> pyval" where
  "property_key_items raw = field_value raw [''propertykeys'', ''property_keys'', ''propertyKeys'']"

definition normalized_cardinality :: "(rat \<Rightarrow> string) \<Rightarrow> pyval \<Rightarrow> string" where
  "normalized_cardinality fl v = py_upper (py_strip (py_str fl (py_or v (PyStr ''SINGLE''))))"

definition add_cardinality :: "(rat \<Rightarrow> string) \<Rightarrow> (string \<times> string) list \<Rightarrow> pyval \<Rightarrow> (string \<times> string) list" where
  "add_cardinality fl cardinalities item =
     (case item of
        PyDict d \<Rightarrow>
          (case field_value d [''name'', ''property_name'', ''propertyName''] of
             PyStr name \<Rightarrow>
               AList.update name (normalized_cardinality fl
                 (field_value d [''cardinality'', ''cardinality_type'', ''cardinalityType''])) cardinalities
           | _ \<Rightarrow> cardinalities)
      | _ \<Rightarrow> cardinalities)"

definition property_cardinalities :: "(rat \<Rightarrow> string) \<Rightarrow> pyval \<Rightarrow> (string \<times> string) list" where
  "property_cardinalities fl live_schema =
     (case schema_payload live_schema of
        None \<Rightarrow> []
      | Some raw \<Rightarrow> (case property_key_items raw of PyList vs \<Rightarrow> foldl (add_cardinality fl) [] vs | _ \<Rightarrow> []))"

section \<open>The normalised summary\<close>

definition normalize_named_list :: "pyval \<Rightarrow> pyval" where
  "normalize_named_list values =
     (case values of PyList vs \<Rightarrow> PyList (map PyStr (sort (names_in vs))) | _ \<Rightarrow> PyList [])"

definition default_list_fields :: "string list" where
  "default_list_fields =
     [''fields'', ''index_labels'', ''nullable_keys'', ''primary_keys'', ''properties'', ''sort_keys'']"

definition summary_aliases :: "field_specs \<Rightarrow> bool \<Rightarrow> (string \<times> string list) list" where
  "summary_aliases specs include_user_data =
     map (\<lambda>(f, spec). (f, sf_aliases spec))
       (filter (\<lambda>(f, spec). sf_include_in_summary spec \<and> f \<notin> {''type'', ''name''} \<and>
                            (include_user_data \<or> sf_kind spec \<noteq> KMapping)) specs)"

definition summary_list_fields :: "field_specs \<Rightarrow> bool \<Rightarrow> string list" where
  "summary_list_fields specs include_user_data =
     map fst (filter (\<lambda>(f, spec). sf_include_in_summary spec \<and> sf_kind spec = KList \<and>
                            (include_user_data \<or> sf_kind spec \<noteq> KMapping)) specs)"

definition add_field :: "string list \<Rightarrow> pydict \<Rightarrow> pydict \<Rightarrow> string \<times> string list \<Rightarrow> pydict" where
  "add_field list_fields item result output =
     (let v = field_value item (snd output)
      in if v = PyNone then result
         else AList.update (fst output)
           (if fst output \<in> set list_fields then normalize_named_list v
            else if fst output = ''user_data'' then user_data_without_server_metadata v else v) result)"

definition normalize_item ::
  "(string \<times> string list) list \<Rightarrow> string list \<Rightarrow> string list \<Rightarrow> pyval \<Rightarrow> (string \<times> pydict) option" where
  "normalize_item aliases name_aliases list_fields item =
     (case item of
        PyDict d \<Rightarrow>
          (case field_value d name_aliases of
             PyStr name \<Rightarrow> Some (name, foldl (add_field list_fields d) [(''name'', PyStr name)] aliases)
           | _ \<Rightarrow> None)
      | _ \<Rightarrow> None)"

text \<open>Items are sorted by their name; the sort is stable.\<close>

definition normalize_schema_items ::
  "pyval \<Rightarrow> (string \<times> string list) list option \<Rightarrow> string list \<Rightarrow> field_specs option \<Rightarrow> bool \<Rightarrow> pyval" where
  "normalize_schema_items items field_aliases name_aliases specs include_user_data =
     (let aliases = (case specs of
            Some s \<Rightarrow> summary_aliases s include_user_data
          | None \<Rightarrow> (case field_aliases of Some a \<Rightarrow> a | None \<Rightarrow> []));
          names = (case specs of
            Some s \<Rightarrow> (case map_of s ''name'' of Some spec \<Rightarrow> sf_aliases spec | None \<Rightarrow> name_aliases)
          | None \<Rightarrow> name_aliases);
          list_fields = (case specs of Some s \<Rightarrow> summary_list_fields s include_user_data | None \<Rightarrow> default_list_fields)
      in case items of
           PyList vs \<Rightarrow>
             PyList (map (\<lambda>(name, d). PyDict d)
               (sort_key fst (List.map_filter (normalize_item aliases names list_fields) vs)))
         | _ \<Rightarrow> PyList [])"

definition schema_collection_items :: "pydict \<Rightarrow> string \<Rightarrow> pyval" where
  "schema_collection_items raw kind =
     field_value raw
       (if kind = ''property_key'' then [''propertykeys'', ''property_keys'', ''propertyKeys'']
        else if kind = ''vertex_label'' then [''vertexlabels'', ''vertex_labels'', ''vertexLabels'']
        else if kind = ''edge_label'' then [''edgelabels'', ''edge_labels'', ''edgeLabels'']
        else if kind = ''index_label'' then [''indexlabels'', ''index_labels'', ''indexLabels'']
        else [])"

definition normalized_collection :: "pyval \<Rightarrow> string \<Rightarrow> bool \<Rightarrow> pyval" where
  "normalized_collection items kind include_user_data =
     normalize_schema_items items None [''name''] (Some (field_specs_for_kind kind)) include_user_data"

definition normalized_schema_summary :: "pyval \<Rightarrow> bool \<Rightarrow> pydict option" where
  "normalized_schema_summary live_schema include_user_data =
     (case schema_payload live_schema of
        None \<Rightarrow> None
      | Some raw \<Rightarrow> Some
          [(''propertykeys'', normalized_collection (property_key_items raw) ''property_key'' include_user_data),
           (''vertexlabels'',
            normalized_collection (schema_collection_items raw ''vertex_label'') ''vertex_label'' include_user_data),
           (''edgelabels'',
            normalized_collection (schema_collection_items raw ''edge_label'') ''edge_label'' include_user_data),
           (''indexlabels'',
            normalized_collection (schema_collection_items raw ''index_label'') ''index_label'' include_user_data)])"

end
