(* ===== verification/Property_Validation.thy ===== *)
theory Property_Validation
  imports Schema_Model "HOL-Library.Word"
begin

text \<open>
  \<open>hugegraph_mcp/tools/property_validation.py\<close>: whether a JSON value can be stored under a property of
  the live schema. Two library routines whose behaviour depends on the Python version are parameters,
  bundled in a record of type \<open>text_formats\<close>: which texts \<open>datetime.fromisoformat\<close> and
  \<open>base64.b64decode(validate=True)\<close> accept. The bounds of FLOAT and DOUBLE are the integers the two
  hexadecimal literals denote.
\<close>

record text_formats =
  iso_date :: "string \<Rightarrow> bool"
  base64_text :: "string \<Rightarrow> bool"

type_synonym property_spec = "string \<times> string"

definition DATA_TYPE_ALIASES :: "(string \<times> string) list" where
  "DATA_TYPE_ALIASES = [(''BOOL'', ''BOOLEAN''), (''INTEGER'', ''INT''), (''STRING'', ''TEXT'')]"

definition SUPPORTED_DATA_TYPES :: "string list" where
  "SUPPORTED_DATA_TYPES = [''TEXT'', ''UUID'', ''INT'', ''LONG'', ''DOUBLE'', ''FLOAT'', ''BOOLEAN'', ''DATE'',
     ''BYTE'', ''BLOB'', ''OBJECT'']"

definition SUPPORTED_CARDINALITIES :: "string list" where
  "SUPPORTED_CARDINALITIES = [''SINGLE'', ''LIST'', ''SET'']"

definition INTEGER_RANGES :: "(string \<times> int \<times> int) list" where
  "INTEGER_RANGES =
     [(''BYTE'', - (2 ^ 7), 2 ^ 7 - 1), (''INT'', - (2 ^ 31), 2 ^ 31 - 1), (''LONG'', - (2 ^ 63), 2 ^ 63 - 1)]"

definition FLOATING_MAXIMUMS :: "(string \<times> int) list" where
  "FLOATING_MAXIMUMS = [(''FLOAT'', 2 ^ 128 - 2 ^ 104), (''DOUBLE'', 2 ^ 1024 - 2 ^ 971)]"

section \<open>The specifications of a schema\<close>

definition add_property_spec ::
  "(rat \<Rightarrow> string) \<Rightarrow> (string \<times> property_spec) list \<Rightarrow> pyval \<Rightarrow> (string \<times> property_spec) list" where
  "add_property_spec fl specs prop =
     (case prop of
        PyDict d \<Rightarrow>
          (case (dict_get d ''name'', dict_get d ''data_type'') of
             (PyStr name, PyStr data_type) \<Rightarrow>
               (let normalized_type = py_upper (py_strip data_type)
                in AList.update name
                     (case map_of DATA_TYPE_ALIASES normalized_type of Some t \<Rightarrow> t | None \<Rightarrow> normalized_type,
                      normalized_cardinality fl (dict_get d ''cardinality'')) specs)
           | _ \<Rightarrow> specs)
      | _ \<Rightarrow> specs)"

definition property_specs :: "(rat \<Rightarrow> string) \<Rightarrow> pyval \<Rightarrow> (string \<times> property_spec) list" where
  "property_specs fl live_schema =
     (case normalized_schema_summary live_schema False of
        None \<Rightarrow> []
      | Some summary \<Rightarrow>
          (case dict_get summary ''propertykeys'' of
             PyList props \<Rightarrow> foldl (add_property_spec fl) [] props
           | _ \<Rightarrow> []))"

section \<open>UUID, date and blob texts\<close>

definition hex_digit :: "char \<Rightarrow> bool" where
  "hex_digit c \<longleftrightarrow> ascii_digit c \<or> (97 \<le> code_point c \<and> code_point c \<le> 102) \<or>
     (65 \<le> code_point c \<and> code_point c \<le> 70)"

text \<open>\<open>s.replace(p, "")\<close> for a nonempty \<open>p\<close>; the number counts the characters still to skip.\<close>

fun remove_all :: "string \<Rightarrow> nat \<Rightarrow> string \<Rightarrow> string" where
  "remove_all p k [] = []"
| "remove_all p (Suc k) (c # s) = remove_all p k s"
| "remove_all p 0 (c # s) = (if prefix p (c # s) then remove_all p (length p - 1) s else c # remove_all p 0 s)"

definition strip_chars :: "char set \<Rightarrow> string \<Rightarrow> string" where
  "strip_chars cs s = rev (dropWhile (\<lambda>c. c \<in> cs) (rev (dropWhile (\<lambda>c. c \<in> cs) s)))"

text \<open>Hexadecimal digits with single underscores between them; the flag says that the last one was a digit.\<close>

fun hex_run :: "bool \<Rightarrow> string \<Rightarrow> bool" where
  "hex_run digit [] = digit"
| "hex_run digit (c # s) =
     (if hex_digit c then hex_run True s else c = CHR ''_'' \<and> digit \<and> hex_run False s)"

text \<open>Whether \<open>int(s, 16)\<close> accepts a text: a sign, the prefix \<open>0x\<close> with an underscore, digits.\<close>

definition parses_hex :: "string \<Rightarrow> bool" where
  "parses_hex s =
     (let t = number_strip s;
          u = (case t of c # r \<Rightarrow> if c = CHR ''+'' \<or> c = CHR ''-'' then r else t | [] \<Rightarrow> t);
          v = (if prefix ''0x'' (py_lower u)
               then (case drop 2 u of c # r \<Rightarrow> if c = CHR ''_'' then r else c # r | [] \<Rightarrow> []) else u)
      in hex_run False v)"

definition is_uuid :: "pyval \<Rightarrow> bool" where
  "is_uuid v =
     (case v of
        PyStr s \<Rightarrow>
          (let h = remove_all ''-'' 0 (strip_chars {CHR 0x7B, CHR 0x7D}
                     (remove_all ''uuid:'' 0 (remove_all ''urn:'' 0 s)))
           in length h = 32 \<and> parses_hex h)
      | _ \<Rightarrow> False)"

definition is_date :: "text_formats \<Rightarrow> pyval \<Rightarrow> bool" where
  "is_date tf v =
     (case v of
        PyInt n \<Rightarrow> - (2 ^ 63) \<le> n \<and> n \<le> 2 ^ 63 - 1
      | PyStr s \<Rightarrow>
          (let candidate = py_strip s
           in candidate \<noteq> [] \<and>
              iso_date tf (if suffix ''Z'' candidate then butlast candidate @ ''+00:00'' else candidate))
      | _ \<Rightarrow> False)"

text \<open>Whether \<open>bytes.fromhex\<close> accepts a text: pairs of digits, ASCII blanks between pairs.\<close>

fun bytes_fromhex :: "string \<Rightarrow> bool" where
  "bytes_fromhex [] = True"
| "bytes_fromhex (c # s) =
     (if py_isascii c \<and> number_space c then bytes_fromhex s
      else hex_digit c \<and> (case s of d # r \<Rightarrow> hex_digit d \<and> bytes_fromhex r | [] \<Rightarrow> False))"

definition is_blob :: "text_formats \<Rightarrow> pyval \<Rightarrow> bool" where
  "is_blob tf v =
     (case v of
        PyStr s \<Rightarrow> if prefix ''0x'' s then bytes_fromhex (drop 2 s) else base64_text tf s
      | PyList vs \<Rightarrow> list_all (\<lambda>e. case e of PyInt n \<Rightarrow> - 128 \<le> n \<and> n \<le> 255 | _ \<Rightarrow> False) vs
      | _ \<Rightarrow> False)"

section \<open>Values and types\<close>

definition value_matches_type :: "text_formats \<Rightarrow> pyval \<Rightarrow> string \<Rightarrow> bool" where
  "value_matches_type tf v data_type =
     (if v = PyNone then True
      else if data_type = ''TEXT'' then (case v of PyStr _ \<Rightarrow> True | _ \<Rightarrow> False)
      else case map_of INTEGER_RANGES data_type of
        Some (minimum, maximum) \<Rightarrow> (case v of PyInt n \<Rightarrow> minimum \<le> n \<and> n \<le> maximum | _ \<Rightarrow> False)
      | None \<Rightarrow>
         (case map_of FLOATING_MAXIMUMS data_type of
            Some maximum \<Rightarrow>
              (case v of
                 PyInt n \<Rightarrow> - maximum \<le> n \<and> n \<le> maximum
               | PyFloat (Finite x) \<Rightarrow> - of_int maximum \<le> x \<and> x \<le> of_int maximum
               | _ \<Rightarrow> False)
          | None \<Rightarrow>
             (if data_type = ''BOOLEAN'' then (case v of PyBool _ \<Rightarrow> True | _ \<Rightarrow> False)
              else if data_type = ''UUID'' then is_uuid v
              else if data_type = ''DATE'' then is_date tf v
              else if data_type = ''BLOB'' then is_blob tf v
              else if data_type = ''OBJECT'' then (case v of PyDict _ \<Rightarrow> True | _ \<Rightarrow> False)
              else False)))"

text \<open>\<open>type(v).__name__\<close>\<close>

fun py_type_name :: "pyval \<Rightarrow> string" where
  "py_type_name PyNone = ''NoneType''"
| "py_type_name (PyBool _) = ''bool''"
| "py_type_name (PyInt _) = ''int''"
| "py_type_name (PyFloat _) = ''float''"
| "py_type_name (PyStr _) = ''str''"
| "py_type_name (PyList _) = ''list''"
| "py_type_name (PyTuple _) = ''tuple''"
| "py_type_name (PyDict _) = ''dict''"

text \<open>The first element of a LIST or SET that is null or has another type.\<close>

fun element_error :: "text_formats \<Rightarrow> string \<Rightarrow> string \<Rightarrow> nat \<Rightarrow> pyval list \<Rightarrow> string option" where
  "element_error tf place data_type i [] = None"
| "element_error tf place data_type i (e # es) =
     (if e = PyNone \<or> \<not> value_matches_type tf e data_type
      then Some (place @ '' element '' @ show_nat i @ '' expects '' @ data_type @ '', got '' @ py_type_name e)
      else element_error tf place data_type (Suc i) es)"

definition property_value_error ::
  "text_formats \<Rightarrow> string \<Rightarrow> nat \<Rightarrow> string \<Rightarrow> pyval \<Rightarrow> property_spec option \<Rightarrow> string option" where
  "property_value_error tf item_kind item_index property_name v spec =
     (case spec of
        None \<Rightarrow> None
      | Some (data_type, cardinality) \<Rightarrow>
          (let place = item_kind @ '' '' @ show_nat item_index @ '' property '' @ [CHR 0x27] @ property_name @ [CHR 0x27];
               quoted_name = (\<lambda>s. [CHR 0x27] @ s @ [CHR 0x27])
           in if data_type \<notin> set SUPPORTED_DATA_TYPES
              then Some (place @ '' unsupported data_type '' @ quoted_name data_type)
              else if cardinality \<notin> set SUPPORTED_CARDINALITIES
              then Some (place @ '' unsupported cardinality '' @ quoted_name cardinality)
              else if cardinality \<in> {''LIST'', ''SET''} then
                (case v of
                   PyNone \<Rightarrow> None
                 | PyList es \<Rightarrow> element_error tf place data_type 0 es
                 | _ \<Rightarrow> Some (place @ '' expects '' @ cardinality @ '' of '' @ data_type @ '', got '' @ py_type_name v))
              else if \<not> value_matches_type tf v data_type
              then Some (place @ '' expects '' @ data_type @ '', got '' @ py_type_name v)
              else None))"

section \<open>What an accepted value is\<close>

text \<open>The values a property holds: the elements of a collection, or the value itself.\<close>

definition stored_values :: "string \<Rightarrow> pyval \<Rightarrow> pyval list" where
  "stored_values cardinality v =
     (if v = PyNone then []
      else if cardinality \<in> {''LIST'', ''SET''} then (case v of PyList es \<Rightarrow> es | _ \<Rightarrow> [v]) else [v])"

lemma element_error_None:
  "element_error tf place data_type i es = None \<longleftrightarrow>
     (\<forall>e \<in> set es. e \<noteq> PyNone \<and> value_matches_type tf e data_type)"
  by (induction es arbitrary: i) auto

lemma accepted_values_match:
  assumes "property_value_error tf item_kind i name v (Some (data_type, cardinality)) = None"
    and "e \<in> set (stored_values cardinality v)"
  shows "e \<noteq> PyNone \<and> value_matches_type tf e data_type \<and> data_type \<in> set SUPPORTED_DATA_TYPES"
  using assms
  by (auto simp: property_value_error_def stored_values_def Let_def element_error_None split: if_splits pyval.splits)

lemma sint_word_of_int:
  assumes "- (2 ^ (LENGTH('w::len) - 1)) \<le> n" "n < 2 ^ (LENGTH('w) - 1)"
  shows "sint (word_of_int n :: 'w word) = n"
  using assms by (simp add: sint_sbintrunc' signed_take_bit_int_eq_self)

text \<open>Every value of an integer type survives the conversion to the machine integer of its width.\<close>

definition fits_width :: "string \<Rightarrow> int \<Rightarrow> bool" where
  "fits_width data_type n \<longleftrightarrow>
     (if data_type = ''BYTE'' then sint (word_of_int n :: 8 word) = n
      else if data_type = ''INT'' then sint (word_of_int n :: 32 word) = n
      else sint (word_of_int n :: 64 word) = n)"

lemma integer_types_fit:
  assumes "value_matches_type tf v data_type" "v \<noteq> PyNone" "data_type \<in> {''BYTE'', ''INT'', ''LONG''}"
  shows "\<exists>n. v = PyInt n \<and> fits_width data_type n"
  using assms
  by (auto simp: value_matches_type_def INTEGER_RANGES_def fits_width_def sint_word_of_int split: pyval.splits)

lemma floating_types_fit:
  assumes "value_matches_type tf v data_type" "v \<noteq> PyNone" "data_type \<in> {''FLOAT'', ''DOUBLE''}"
  shows "\<exists>x. py_number v = Some (Finite x) \<and> \<bar>x\<bar> \<le> of_int (the (map_of FLOATING_MAXIMUMS data_type)) \<and>
    (\<forall>b. v \<noteq> PyBool b)"
proof -
  obtain m where m: "map_of FLOATING_MAXIMUMS data_type = Some m"
    using assms(3) by (auto simp: FLOATING_MAXIMUMS_def)
  have other: "map_of INTEGER_RANGES data_type = None" "data_type \<noteq> ''TEXT''"
    using assms(3) by (auto simp: INTEGER_RANGES_def)
  have "(\<exists>n. v = PyInt n \<and> - m \<le> n \<and> n \<le> m) \<or> (\<exists>x. v = PyFloat (Finite x) \<and> - of_int m \<le> x \<and> x \<le> of_int m)"
    using assms(1,2) m other by (auto simp: value_matches_type_def split: pyval.splits pyfloat.splits)
  moreover have "\<bar>of_int n :: rat\<bar> \<le> of_int m" if "- m \<le> n" "n \<le> m" for n
    using that by (simp add: abs_le_iff)
  ultimately show ?thesis using m by (auto simp: abs_le_iff)
qed

text \<open>
  C24: what is accepted can be stored. Every value an accepted property holds, an element of a
  collection or the value itself, has the type of the schema: an integer that survives the conversion
  to the machine integer of 8, 32 or 64 bits, a finite number within the range of the floating-point
  type, a text or a truth value; a truth value never passes for a number, and a collection holds no null.
\<close>

theorem accepted_values_fit_their_type:
  assumes "property_value_error tf item_kind i name v (Some (data_type, cardinality)) = None"
    and "e \<in> set (stored_values cardinality v)"
  shows "e \<noteq> PyNone \<and>
    (data_type \<in> {''BYTE'', ''INT'', ''LONG''} \<longrightarrow> (\<exists>n. e = PyInt n \<and> fits_width data_type n)) \<and>
    (data_type \<in> {''FLOAT'', ''DOUBLE''} \<longrightarrow>
       (\<exists>x. py_number e = Some (Finite x) \<and> \<bar>x\<bar> \<le> of_int (the (map_of FLOATING_MAXIMUMS data_type)) \<and>
          (\<forall>b. e \<noteq> PyBool b))) \<and>
    (data_type = ''TEXT'' \<longrightarrow> (\<exists>s. e = PyStr s)) \<and>
    (data_type = ''BOOLEAN'' \<longrightarrow> (\<exists>b. e = PyBool b))"
proof -
  have e: "e \<noteq> PyNone" "value_matches_type tf e data_type"
    using accepted_values_match [OF assms] by simp_all
  have "\<exists>s. e = PyStr s" if "data_type = ''TEXT''"
    using e that by (simp add: value_matches_type_def split: pyval.splits)
  moreover have "\<exists>b. e = PyBool b" if "data_type = ''BOOLEAN''"
    using e that by (simp add: value_matches_type_def INTEGER_RANGES_def FLOATING_MAXIMUMS_def split: pyval.splits)
  ultimately show ?thesis
    using integer_types_fit [OF e(2,1)] floating_types_fit [OF e(2,1)] e(1) by blast
qed

theorem accepted_values_fit_their_type_witness:
  "property_value_error \<lparr>iso_date = (\<lambda>_. False), base64_text = (\<lambda>_. False)\<rparr> ''vertex'' 0 ''ages''
     (PyList [PyInt 7, PyInt (-2147483648)]) (Some (''INT'', ''LIST'')) = None \<and>
   fits_width ''INT'' (-2147483648)"
proof -
  have ok: "property_value_error \<lparr>iso_date = (\<lambda>_. False), base64_text = (\<lambda>_. False)\<rparr> ''vertex'' 0 ''ages''
     (PyList [PyInt 7, PyInt (-2147483648)]) (Some (''INT'', ''LIST'')) = None"
    by code_simp
  have "PyInt (-2147483648) \<in> set (stored_values ''LIST'' (PyList [PyInt 7, PyInt (-2147483648)]))"
    by (simp add: stored_values_def)
  from accepted_values_fit_their_type [OF ok this] ok show ?thesis by simp
qed

end
