(* ===== verification/Graph_Validate.thy ===== *)
theory Graph_Validate
  imports Property_Validation
begin

text \<open>
  \<open>hugegraph_mcp/tools/graph_data_validate.py\<close>: whether the operations of a graph change plan are
  compatible with the live schema. The checks of one operation are applied to a record that holds
  the errors and warnings found so far and the vertex identities seen. An identity is the label, the
  kind of identity and the text \<open>json.dumps(value, sort_keys=True)\<close>, represented by the canonical value.
\<close>

definition ALLOWED_OPS :: "string list" where
  "ALLOWED_OPS = [''create_vertex'', ''create_edge'', ''delete_vertex'', ''delete_edge'']"

definition VERTEX_OPS :: "string list" where
  "VERTEX_OPS = [''create_vertex'', ''delete_vertex'']"

definition MODE_OPS :: "(string \<times> string list) list" where
  "MODE_OPS = [(''import'', [''create_edge'', ''create_vertex'']), (''delete'', [''delete_edge'', ''delete_vertex''])]"

section \<open>Indexing the schema\<close>

text \<open>\<open>_schema_payload(live_schema) or {}\<close>\<close>

definition schema_or_empty :: "pyval \<Rightarrow> pydict" where
  "schema_or_empty live_schema = (case schema_payload live_schema of None \<Rightarrow> [] | Some raw \<Rightarrow> raw)"

definition add_label :: "(string \<times> pydict) list \<Rightarrow> pyval \<Rightarrow> (string \<times> pydict) list" where
  "add_label labels item =
     (case item of
        PyDict d \<Rightarrow> (case dict_get d ''name'' of PyStr name \<Rightarrow> AList.update name d labels | _ \<Rightarrow> labels)
      | _ \<Rightarrow> labels)"

definition schema_labels :: "pydict \<Rightarrow> string \<Rightarrow> py_exception + (string \<times> pydict) list" where
  "schema_labels raw collection =
     and_then (loop_over (case map_of raw collection of None \<Rightarrow> PyList [] | Some v \<Rightarrow> v))
       (\<lambda>items. Inr (foldl add_label [] items))"

record schema_index =
  si_vertex_labels :: "(string \<times> pydict) list"
  si_edge_labels :: "(string \<times> pydict) list"
  si_specs :: "(string \<times> property_spec) list"

definition schema_index_of :: "(rat \<Rightarrow> string) \<Rightarrow> pyval \<Rightarrow> py_exception + schema_index" where
  "schema_index_of fl live_schema =
     (let raw = schema_or_empty live_schema
      in and_then (schema_labels raw ''vertexlabels'') (\<lambda>vertex_labels.
         and_then (schema_labels raw ''edgelabels'') (\<lambda>edge_labels.
           Inr \<lparr>si_vertex_labels = vertex_labels, si_edge_labels = edge_labels,
                si_specs = property_specs fl (PyDict raw)\<rparr>)))"

definition label_properties :: "pydict \<Rightarrow> string set" where
  "label_properties label_schema = property_names (dict_get label_schema ''properties'')"

text \<open>The operations of a plan; anything else counts as none.\<close>

definition plan_operations :: "pyval \<Rightarrow> pyval list" where
  "plan_operations change_plan =
     (case change_plan of
        PyList ops \<Rightarrow> ops
      | PyDict d \<Rightarrow> (case dict_get d ''operations'' of PyList ops \<Rightarrow> ops | _ \<Rightarrow> [])
      | _ \<Rightarrow> [])"

section \<open>Checks of one field\<close>

definition validation_error :: "int \<Rightarrow> pyval \<Rightarrow> string \<Rightarrow> string \<Rightarrow> string option \<Rightarrow> pyval" where
  "validation_error operation_index operation reason suggestion error_type =
     PyDict ([(''operation_index'', PyInt operation_index), (''operation'', operation),
       (''reason'', PyStr reason), (''suggestion'', PyStr suggestion)] @
       (case error_type of None \<Rightarrow> [] | Some t \<Rightarrow> [(''error_type'', PyStr t)]))"

definition validate_field_map ::
  "nat \<Rightarrow> pydict \<Rightarrow> string \<Rightarrow> string set \<Rightarrow> bool \<Rightarrow> pyval list" where
  "validate_field_map idx operation fld allowed_properties allow_id =
     (case dict_get operation fld of
        PyNone \<Rightarrow> []
      | PyDict values \<Rightarrow>
          (let unknown = sort (filter (\<lambda>k. \<not> (k \<in> allowed_properties \<or> (allow_id \<and> k = ''id'')))
                               (remdups (map fst values)))
           in if unknown = [] then []
              else [validation_error (int idx) (PyDict operation)
                (fld @ '' references property not on label: '' @ join '', '' unknown)
                ''Use only properties defined on the referenced label.'' None])
      | _ \<Rightarrow> [validation_error (int idx) (PyDict operation) (fld @ '' must be an object'')
               (''Use an object mapping property names to values for '' @ fld @ ''.'') None])"

definition validate_property_values ::
  "text_formats \<Rightarrow> nat \<Rightarrow> pydict \<Rightarrow> string \<Rightarrow> (string \<times> property_spec) list \<Rightarrow> pyval list" where
  "validate_property_values tf idx operation item_kind specs =
     (case dict_get operation ''properties'' of
        PyDict values \<Rightarrow>
          List.map_filter (\<lambda>(name, v).
            map_option (\<lambda>message. validation_error (int idx) (PyDict operation) message
                ''Use a JSON value compatible with the live HugeGraph property schema.'' None)
              (property_value_error tf item_kind idx name v (map_of specs name))) values
      | _ \<Rightarrow> [])"

definition validate_primary_key_match :: "nat \<Rightarrow> pydict \<Rightarrow> string \<Rightarrow> string list \<Rightarrow> pyval list" where
  "validate_primary_key_match idx operation fld primary_keys =
     (case dict_get operation fld of
        PyDict match \<Rightarrow>
          if \<not> blank_id (dict_get match ''id'') then []
          else (let missing = filter (\<lambda>pk. blank_id (dict_get match pk)) primary_keys
            in if missing = [] then []
               else [validation_error (int idx) (PyDict operation)
                 (fld @ '' must contain primary key(s): '' @ join '', '' missing)
                 ''Include every primary key from the referenced vertex label.'' None])
      | _ \<Rightarrow> [validation_error (int idx) (PyDict operation) (fld @ '' must be an object'')
               (''Use '' @ fld @ '' to identify a vertex by its primary key.'') None])"

section \<open>Checks of one operation\<close>

type_synonym vertex_identity = "string \<times> string \<times> pyval"

record validation_state =
  vs_errors :: "pyval list"
  vs_warnings :: "string list"
  vs_identities :: "(vertex_identity \<times> nat) list"

definition add_errors :: "pyval list \<Rightarrow> validation_state \<Rightarrow> validation_state" where
  "add_errors es st = st\<lparr>vs_errors := vs_errors st @ es\<rparr>"

definition add_warning :: "string \<Rightarrow> validation_state \<Rightarrow> validation_state" where
  "add_warning w st = st\<lparr>vs_warnings := vs_warnings st @ [w]\<rparr>"

definition batch_identities :: "string \<Rightarrow> string list \<Rightarrow> pydict \<Rightarrow> vertex_identity list" where
  "batch_identities label pks operation =
     (if blank_id (dict_get operation ''id'') then []
      else [(label, ''id'', canonicalize (dict_get operation ''id''))]) @
     (case dict_get operation ''properties'' of
        PyDict properties \<Rightarrow>
          if pks \<noteq> [] \<and> list_all (\<lambda>pk. \<not> blank_id (dict_get properties pk)) pks
          then [(label, ''primary_key'', canonicalize (PyList (map (dict_get properties) pks)))] else []
      | _ \<Rightarrow> [])"

definition register_identity :: "nat \<Rightarrow> pydict \<Rightarrow> validation_state \<Rightarrow> vertex_identity \<Rightarrow> validation_state" where
  "register_identity idx operation st identity =
     (case map_of (vs_identities st) identity of
        Some earlier \<Rightarrow>
          add_errors [validation_error (int idx) (PyDict operation)
            (''duplicate create_vertex '' @ fst (snd identity) @ '' identity with operation '' @ show_nat earlier)
            ''Keep one create_vertex operation per identity in the batch.'' (Some ''INVALID_GRAPH_DATA'')] st
      | None \<Rightarrow> st\<lparr>vs_identities := (identity, idx) # vs_identities st\<rparr>)"

definition vertex_field_errors ::
  "text_formats \<Rightarrow> schema_index \<Rightarrow> nat \<Rightarrow> pydict \<Rightarrow> string \<Rightarrow> pydict \<Rightarrow> pyval list" where
  "vertex_field_errors tf ix idx operation op vertex_label =
     validate_field_map idx operation ''properties'' (label_properties vertex_label) False @
     (if op = ''create_vertex'' then validate_property_values tf idx operation ''vertex'' (si_specs ix) else []) @
     validate_field_map idx operation ''match'' (label_properties vertex_label) True"

definition check_vertex ::
  "text_formats \<Rightarrow> schema_index \<Rightarrow> nat \<Rightarrow> pydict \<Rightarrow> string \<Rightarrow> string \<Rightarrow> validation_state \<Rightarrow> validation_state" where
  "check_vertex tf ix idx operation op label st =
     (case map_of (si_vertex_labels ix) label of
        None \<Rightarrow> add_errors [validation_error (int idx) (PyDict operation)
          (''label references undefined vertex label: '' @ label)
          ''Use an existing vertex label from the live schema.'' None] st
      | Some vertex_label \<Rightarrow>
          (let pks = primary_key_names vertex_label;
               st1 = (if pks = [] then add_warning (''operation '' @ show_nat idx @ '' references vertex label '' @
                        [CHR 0x27] @ label @ [CHR 0x27] @ '' with no primary_keys'') st else st);
               es = vertex_field_errors tf ix idx operation op vertex_label;
               st2 = add_errors es st1;
               st3 = (if op = ''create_vertex'' \<and> es = []
                      then foldl (register_identity idx operation) st2 (batch_identities label pks operation)
                      else st2)
           in if op = ''delete_vertex''
              then add_errors (validate_primary_key_match idx operation ''match'' pks) st3 else st3))"

definition known_label :: "schema_index \<Rightarrow> pyval \<Rightarrow> pydict option" where
  "known_label ix v = (case v of PyStr s \<Rightarrow> map_of (si_vertex_labels ix) s | _ \<Rightarrow> None)"

definition endpoint_label_errors ::
  "(rat \<Rightarrow> string) \<Rightarrow> schema_index \<Rightarrow> nat \<Rightarrow> pydict \<Rightarrow> string \<Rightarrow> pyval \<Rightarrow> pyval list" where
  "endpoint_label_errors fl ix idx operation endpoint_name v =
     (if known_label ix v = None
      then [validation_error (int idx) (PyDict operation)
        (endpoint_name @ '' references undefined vertex label: '' @ py_str fl v)
        ''Use existing source and target vertex labels from the live schema.'' None]
      else [])"

definition endpoint_direction_errors ::
  "(rat \<Rightarrow> string) \<Rightarrow> nat \<Rightarrow> pydict \<Rightarrow> string \<Rightarrow> string \<Rightarrow> pyval \<Rightarrow> pyval \<Rightarrow> pyval list" where
  "endpoint_direction_errors fl idx operation label side expected v =
     (if py_truthy expected \<and> py_truthy v \<and> \<not> py_eq v expected
      then [validation_error (int idx) (PyDict operation)
        (side @ ''_label does not match edge label '' @ [CHR 0x27] @ label @ [CHR 0x27] @ '' '' @ side @ ''_label '' @
           [CHR 0x27] @ py_str fl expected @ [CHR 0x27])
        (''Use the '' @ side @ '' label defined by the edge schema.'') None]
      else [])"

definition endpoint_match_errors ::
  "schema_index \<Rightarrow> nat \<Rightarrow> pydict \<Rightarrow> string \<Rightarrow> pyval \<Rightarrow> pyval list" where
  "endpoint_match_errors ix idx operation fld v =
     (case known_label ix v of
        None \<Rightarrow> []
      | Some vertex_label \<Rightarrow>
          validate_primary_key_match idx operation fld (primary_key_names vertex_label) @
          validate_field_map idx operation fld (label_properties vertex_label) True)"

definition check_edge ::
  "(rat \<Rightarrow> string) \<Rightarrow> text_formats \<Rightarrow> schema_index \<Rightarrow> nat \<Rightarrow> pydict \<Rightarrow> string \<Rightarrow> string \<Rightarrow>
     validation_state \<Rightarrow> validation_state" where
  "check_edge fl tf ix idx operation op label st =
     (case map_of (si_edge_labels ix) label of
        None \<Rightarrow> add_errors [validation_error (int idx) (PyDict operation)
          (''label references undefined edge label: '' @ label)
          ''Use an existing edge label from the live schema.'' None] st
      | Some edge_label \<Rightarrow>
          (let source = py_or (dict_get operation ''source_label'') (dict_get operation ''outVLabel'');
               target = py_or (dict_get operation ''target_label'') (dict_get operation ''inVLabel'')
           in add_errors
             (endpoint_label_errors fl ix idx operation ''source_label'' source @
              endpoint_label_errors fl ix idx operation ''target_label'' target @
              endpoint_direction_errors fl idx operation label ''source''
                (edge_schema_endpoint_label edge_label ''source'') source @
              endpoint_direction_errors fl idx operation label ''target''
                (edge_schema_endpoint_label edge_label ''target'') target @
              validate_field_map idx operation ''properties'' (label_properties edge_label) False @
              (if op = ''create_edge'' then validate_property_values tf idx operation ''edge'' (si_specs ix) else []) @
              endpoint_match_errors ix idx operation ''source_match'' source @
              endpoint_match_errors ix idx operation ''target_match'' target) st))"

text \<open>\<open>str(operation.get("op") or operation.get("type") or "")\<close>\<close>

definition op_text :: "(rat \<Rightarrow> string) \<Rightarrow> pydict \<Rightarrow> string" where
  "op_text fl operation =
     py_str fl (py_or (dict_get operation ''op'') (py_or (dict_get operation ''type'') (PyStr [])))"

definition validate_operation ::
  "(rat \<Rightarrow> string) \<Rightarrow> text_formats \<Rightarrow> schema_index \<Rightarrow> validation_state \<Rightarrow> nat \<times> pyval \<Rightarrow> validation_state" where
  "validate_operation fl tf ix st item =
     (case item of (idx, v) \<Rightarrow>
        (let refuse = (\<lambda>reason suggestion. add_errors [validation_error (int idx) v reason suggestion None])
         in case v of
              PyDict operation \<Rightarrow>
                (let op = op_text fl operation
                 in if op \<notin> set ALLOWED_OPS
                    then refuse (''unsupported op: '' @ op)
                      ''Use one of: create_vertex, create_edge, delete_vertex, delete_edge.'' st
                    else case dict_get operation ''label'' of
                      PyStr label \<Rightarrow>
                        if label = [] then refuse ''missing required field: label''
                          ''Add the schema label targeted by this operation.'' st
                        else (let st' = (if map_of operation ''set'' \<noteq> None
                                then refuse ''set is not supported by V1 graph data operations''
                                  ''Use properties for create operations, or submit update support in a later V2 change.'' st
                                else st)
                              in if op \<in> set VERTEX_OPS then check_vertex tf ix idx operation op label st'
                                 else check_edge fl tf ix idx operation op label st')
                    | _ \<Rightarrow> refuse ''missing required field: label''
                          ''Add the schema label targeted by this operation.'' st)
            | _ \<Rightarrow> refuse ''operation must be an object''
                ''Replace this item with a graph change operation object.'' st))"

section \<open>A whole plan\<close>

definition validation_report :: "pyval list \<Rightarrow> string list \<Rightarrow> pydict" where
  "validation_report errors warnings =
     [(''valid'', PyBool (errors = [])), (''errors'', PyList errors), (''warnings'', PyList (map PyStr warnings))]"

definition run_validation ::
  "(rat \<Rightarrow> string) \<Rightarrow> text_formats \<Rightarrow> schema_index \<Rightarrow> pyval list \<Rightarrow> validation_state" where
  "run_validation fl tf ix ops =
     foldl (validate_operation fl tf ix) \<lparr>vs_errors = [], vs_warnings = [], vs_identities = []\<rparr> (List.enumerate 0 ops)"

definition validate_graph_change_plan ::
  "(rat \<Rightarrow> string) \<Rightarrow> text_formats \<Rightarrow> pyval \<Rightarrow> pyval \<Rightarrow> py_exception + pydict" where
  "validate_graph_change_plan fl tf change_plan live_schema =
     (let refuse = (\<lambda>reason suggestion.
        Inr (validation_report [validation_error (- 1) change_plan reason suggestion None] []))
      in if \<not> (case change_plan of PyDict _ \<Rightarrow> True | PyList _ \<Rightarrow> True | _ \<Rightarrow> False)
         then refuse ''change_plan must be an object with operations''
           (''Pass {'' @ [CHR 0x27] @ ''operations'' @ [CHR 0x27] @ '': [...]} as the graph change plan.'')
         else if (case change_plan of
             PyDict d \<Rightarrow> \<not> (case dict_get d ''operations'' of PyList _ \<Rightarrow> True | _ \<Rightarrow> False) | _ \<Rightarrow> False)
         then refuse ''change_plan.operations must be a list''
           ''Pass graph change operations as a JSON array.''
         else and_then (schema_index_of fl live_schema) (\<lambda>ix.
           let st = run_validation fl tf ix (plan_operations change_plan)
           in Inr (validation_report (vs_errors st) (vs_warnings st))))"

definition mode_error ::
  "(rat \<Rightarrow> string) \<Rightarrow> string \<Rightarrow> string list \<Rightarrow> nat \<times> pyval \<Rightarrow> pyval option" where
  "mode_error fl mode allowed item =
     (case snd item of
        PyDict operation \<Rightarrow>
          if op_text fl operation \<in> set allowed then None
          else Some (validation_error (int (fst item)) (snd item)
            (''op '' @ op_text fl operation @ '' is not allowed in mode='' @ [CHR 0x27] @ mode @ [CHR 0x27])
            (''Use only '' @ join '', '' (sort allowed) @ '' operations for mode='' @ [CHR 0x27] @ mode @ [CHR 0x27] @ ''.'') None)
      | _ \<Rightarrow> Some (validation_error (int (fst item)) (snd item) ''operation must be an object''
          ''Replace this item with a graph change operation object.'' None))"

definition validate_mode_operations :: "(rat \<Rightarrow> string) \<Rightarrow> string \<Rightarrow> pyval \<Rightarrow> pydict" where
  "validate_mode_operations fl mode change_plan =
     (case map_of MODE_OPS mode of
        None \<Rightarrow> validation_report [validation_error (- 1) change_plan (''unknown mode: '' @ mode)
          (''Use mode='' @ [CHR 0x27] @ ''import'' @ [CHR 0x27] @ '' or mode='' @ [CHR 0x27] @ ''delete'' @ [CHR 0x27] @ ''.'') None] []
      | Some allowed \<Rightarrow>
          validation_report (List.map_filter (mode_error fl mode allowed)
            (List.enumerate 0 (plan_operations change_plan))) [])"

end
