(* ===== verification/Graph_Dry_Run.thy ===== *)
theory Graph_Dry_Run
  imports Graph_Backend Graph_Validate Write_Boundary
begin

text \<open>
  The dry run of \<open>hugegraph_mcp/tools/graph_data_execute.py\<close>: it validates a change plan, counts what
  each operation would touch and compiles the ids it found into a copy of the plan. The preview of one
  operation is a record: the errors it adds, its preview item (missing when the code skips it) and the
  compiled operation.
\<close>

definition WRITE_OPS :: "string list" where
  "WRITE_OPS = [''delete_vertex'', ''delete_edge'']"

text \<open>\<open>str(operation.get("op") or operation.get("type"))\<close>\<close>

definition op_name :: "(rat \<Rightarrow> string) \<Rightarrow> pydict \<Rightarrow> string" where
  "op_name fl operation = py_str fl (op_of operation)"

definition add_count :: "(rat \<Rightarrow> string) \<Rightarrow> (string \<times> int) list \<Rightarrow> pyval \<Rightarrow> (string \<times> int) list" where
  "add_count fl counts v =
     (case v of
        PyDict operation \<Rightarrow>
          (let op = py_str fl (py_or (op_of operation) (PyStr ''unknown''))
           in AList.update op ((case map_of counts op of None \<Rightarrow> 0 | Some n \<Rightarrow> n) + 1) counts)
      | _ \<Rightarrow> counts)"

definition mutation_summary :: "(rat \<Rightarrow> string) \<Rightarrow> pyval list \<Rightarrow> pydict" where
  "mutation_summary fl operations = map (\<lambda>(op, n). (op, PyInt n)) (foldl (add_count fl) [] operations)"

section \<open>The hash of a compiled plan\<close>

definition calculate_graph_change_plan_hash ::
  "(pyval \<Rightarrow> string) \<Rightarrow> mcp_config \<Rightarrow> pyval \<Rightarrow> string option \<Rightarrow> string option \<Rightarrow> pydict option \<Rightarrow>
     pydict option \<Rightarrow> string" where
  "calculate_graph_change_plan_hash sha cfg change_plan graph graphspace schema_summary extra_hash_context =
     take 32 (sha (canonicalize (PyDict
       ([(''change_plan'', change_plan),
         (''graph'', PyStr (case graph of None \<Rightarrow> cf_graph cfg | Some g \<Rightarrow> g)),
         (''graphspace'', opt_str (case graphspace of None \<Rightarrow> cf_graphspace cfg | Some g \<Rightarrow> Some g))] @
        (case schema_summary of None \<Rightarrow> [] | Some s \<Rightarrow> [(''schema_summary'', PyDict s)]) @
        (case extra_hash_context of None \<Rightarrow> [] | Some e \<Rightarrow> [(''extra_hash_context'', PyDict e)])))))"

section \<open>Endpoints planned in the same batch\<close>

definition planned_vertex_matches :: "pydict \<Rightarrow> pydict \<Rightarrow> bool" where
  "planned_vertex_matches operation match \<longleftrightarrow>
     list_all (\<lambda>(key, v).
       if key = ''id'' then py_eq (dict_get operation ''id'') v
       else case dict_get operation ''properties'' of
           PyDict properties \<Rightarrow> py_eq (dict_get properties key) v
         | _ \<Rightarrow> False) match \<and> match \<noteq> []"

definition endpoint_label_of :: "pydict \<Rightarrow> string \<Rightarrow> pyval" where
  "endpoint_label_of operation endpoint =
     (if endpoint = ''source'' then source_label_of operation else target_label_of operation)"

definition plans_endpoint :: "(rat \<Rightarrow> string) \<Rightarrow> pydict \<Rightarrow> string \<Rightarrow> pyval \<Rightarrow> bool" where
  "plans_endpoint fl operation endpoint planned \<longleftrightarrow>
     (case (endpoint_label_of operation endpoint, dict_get operation (endpoint @ ''_match''), planned) of
        (PyStr label, PyDict match, PyDict p) \<Rightarrow>
          op_text fl p = ''create_vertex'' \<and> py_eq (dict_get p ''label'') (PyStr label) \<and>
          planned_vertex_matches p match
      | _ \<Rightarrow> False)"

definition planned_endpoint_indexes ::
  "(rat \<Rightarrow> string) \<Rightarrow> pydict \<Rightarrow> string \<Rightarrow> pyval list \<Rightarrow> nat list" where
  "planned_endpoint_indexes fl operation endpoint planned =
     map fst (filter (\<lambda>(i, p). plans_endpoint fl operation endpoint p) (List.enumerate 0 planned))"

definition planned_endpoint_ids ::
  "(rat \<Rightarrow> string) \<Rightarrow> pydict \<Rightarrow> string \<Rightarrow> pyval list \<Rightarrow> pyval list" where
  "planned_endpoint_ids fl operation endpoint planned =
     filter (\<lambda>v. \<not> blank_id v)
       (map (\<lambda>p. case p of PyDict d \<Rightarrow> dict_get d ''id'' | _ \<Rightarrow> PyNone)
         (filter (plans_endpoint fl operation endpoint) planned))"

section \<open>Counting and resolving endpoints\<close>

record endpoint_state =
  es_item :: pydict
  es_errors :: "pyval list"
  es_compiled :: pydict
  es_failed :: bool

definition endpoint_error :: "nat \<Rightarrow> pydict \<Rightarrow> string \<Rightarrow> string \<Rightarrow> endpoint_state \<Rightarrow> endpoint_state" where
  "endpoint_error idx operation why suggestion st =
     st\<lparr>es_errors := es_errors st @ [validation_error (int idx) (PyDict operation) why suggestion None],
        es_failed := True\<rparr>"

definition note_item :: "string \<Rightarrow> pyval \<Rightarrow> endpoint_state \<Rightarrow> endpoint_state" where
  "note_item key v st = st\<lparr>es_item := AList.update key v (es_item st)\<rparr>"

definition compile_item :: "string \<Rightarrow> pyval \<Rightarrow> endpoint_state \<Rightarrow> endpoint_state" where
  "compile_item key v st =
     st\<lparr>es_item := AList.update key v (es_item st), es_compiled := AList.update key v (es_compiled st)\<rparr>"

definition unavailable :: string where
  "unavailable = ''Verify HugeGraph Server is available and retry the dry run.''"

definition narrow_endpoint :: string where
  "narrow_endpoint = ''Narrow the endpoint match criteria so exactly one vertex is selected.''"

definition count_endpoint ::
  "'w backend \<Rightarrow> nat \<Rightarrow> pydict \<Rightarrow> string \<Rightarrow> string \<times> string \<Rightarrow> endpoint_state \<Rightarrow> ('w, endpoint_state) effect" where
  "count_endpoint be idx operation op endpoint_query st =
     (case endpoint_query of (endpoint, query) \<Rightarrow>
        effect_bind (read_count be query) (\<lambda>r. effect_return (case r of
            Inl _ \<Rightarrow> endpoint_error idx operation (endpoint @ '' endpoint count query failed'') unavailable st
          | Inr n \<Rightarrow>
              (let st' = note_item (endpoint @ ''_matched_count'') (PyInt n) st
               in if n \<noteq> 1 then endpoint_error idx operation
                    (op @ '' '' @ endpoint @ '' endpoint matched_count must be 1, got '' @ show_int n) narrow_endpoint st'
                  else st'))))"

definition resolve_endpoint ::
  "'w backend \<Rightarrow> nat \<Rightarrow> pydict \<Rightarrow> string \<Rightarrow> pyval list \<Rightarrow> string \<times> string \<Rightarrow> endpoint_state \<Rightarrow>
     ('w, endpoint_state) effect" where
  "resolve_endpoint be idx operation op planned endpoint_query st =
     (case endpoint_query of (endpoint, query) \<Rightarrow>
        (let planned_ids = planned_endpoint_ids (be_float_text be) operation endpoint planned;
             planned_indexes = planned_endpoint_indexes (be_float_text be) operation endpoint planned
         in effect_bind (read_values be (query @ ''.limit(2).id()'')) (\<lambda>r. effect_return (case r of
            Inl _ \<Rightarrow> endpoint_error idx operation (endpoint @ '' endpoint id query failed'') unavailable st
          | Inr live_ids \<Rightarrow>
              (let total = length planned_indexes + length live_ids;
                   st' = note_item (endpoint @ ''_matched_count'') (PyInt (int total))
                      (note_item (endpoint @ ''_live_count'') (PyInt (int (length live_ids)))
                      (note_item (endpoint @ ''_planned_count'') (PyInt (int (length planned_indexes))) st))
               in if total \<noteq> 1 then endpoint_error idx operation
                    (op @ '' '' @ endpoint @ '' endpoint matched_count must be 1, got '' @ show_nat total)
                    narrow_endpoint st'
                  else (case planned_indexes of
                      i # _ \<Rightarrow>
                        (let st'' = compile_item (endpoint @ ''_operation_index'') (PyInt (int i)) st'
                         in case planned_ids of v # _ \<Rightarrow> compile_item (endpoint @ ''_id'') v st'' | [] \<Rightarrow> st'')
                    | [] \<Rightarrow> (case live_ids of v # _ \<Rightarrow> compile_item (endpoint @ ''_id'') v st' | [] \<Rightarrow> st')))))))"

text \<open>Both queries are built before the first is asked.\<close>

definition append_edge_endpoint_counts ::
  "'w backend \<Rightarrow> nat \<Rightarrow> pydict \<Rightarrow> string \<Rightarrow> pydict \<Rightarrow> pyval list option \<Rightarrow> ('w, endpoint_state) effect" where
  "append_edge_endpoint_counts be idx operation op item planned =
     (let fl = be_float_text be;
          st = \<lparr>es_item = item, es_errors = [], es_compiled = operation, es_failed = False\<rparr>;
          visit = (case planned of None \<Rightarrow> count_endpoint be idx operation op
                   | Some earlier \<Rightarrow> resolve_endpoint be idx operation op earlier)
      in effect_bind (effect_of (rendered fl (source_vertex_match_query fl operation))) (\<lambda>source.
         effect_bind (effect_of (rendered fl (target_vertex_match_query fl operation))) (\<lambda>target.
         effect_bind (visit (''source'', source) st) (visit (''target'', target)))))"

section \<open>Identities of vertices to create\<close>

fun first_label_named :: "string \<Rightarrow> pyval list \<Rightarrow> pydict option" where
  "first_label_named label [] = None"
| "first_label_named label (v # vs) =
     (case v of
        PyDict d \<Rightarrow> if py_eq (dict_get d ''name'') (PyStr label) then Some d else first_label_named label vs
      | _ \<Rightarrow> first_label_named label vs)"

definition create_vertex_primary_keys :: "string \<Rightarrow> pyval \<Rightarrow> py_exception + string list" where
  "create_vertex_primary_keys label live_schema =
     and_then (loop_over (case map_of (schema_or_empty live_schema) ''vertexlabels'' of
         None \<Rightarrow> PyList [] | Some v \<Rightarrow> v)) (\<lambda>labels.
       Inr (case first_label_named label labels of None \<Rightarrow> [] | Some d \<Rightarrow> primary_key_names d))"

definition create_vertex_identity_queries ::
  "(rat \<Rightarrow> string) \<Rightarrow> pydict \<Rightarrow> pyval \<Rightarrow> py_exception + (string \<times> string) list" where
  "create_vertex_identity_queries fl operation live_schema =
     (case dict_get operation ''label'' of
        PyStr label \<Rightarrow>
          if label = [] then Inr []
          else
            (let vertices = ''g.V().hasLabel('' @ quoted label @ '')'';
                 explicit_id = dict_get operation ''id''
             in and_then (create_vertex_primary_keys label live_schema) (\<lambda>primary_keys.
                  Inr ((if blank_id explicit_id then []
                        else [(''id'', vertices @ ''.hasId('' @ gremlin_literal fl explicit_id @ '')'')]) @
                       (case dict_get operation ''properties'' of
                          PyDict properties \<Rightarrow>
                            if primary_keys \<noteq> [] \<and> list_all (\<lambda>pk. \<not> blank_id (dict_get properties pk)) primary_keys
                            then [(''primary_key'', vertices @ concat (map (\<lambda>pk.
                               ''.has('' @ quoted pk @ '','' @ gremlin_literal fl (dict_get properties pk) @ '')'')
                               primary_keys))]
                            else []
                        | _ \<Rightarrow> []))))
      | _ \<Rightarrow> Inr [])"

fun identity_counts ::
  "'w backend \<Rightarrow> nat \<Rightarrow> pydict \<Rightarrow> (string \<times> string) list \<Rightarrow> endpoint_state \<Rightarrow> ('w, endpoint_state) effect" where
  "identity_counts be idx operation [] st = effect_return st"
| "identity_counts be idx operation ((identity_type, query) # queries) st =
     effect_bind (read_count be query) (\<lambda>r.
       identity_counts be idx operation queries
         (case r of
            Inl _ \<Rightarrow> endpoint_error idx operation
              (''create_vertex '' @ identity_type @ '' identity count query failed'') unavailable st
          | Inr n \<Rightarrow>
              (let st' = note_item (identity_type @ ''_live_count'') (PyInt n) st
               in if n > 0 then st'\<lparr>es_errors := es_errors st' @ [validation_error (int idx) (PyDict operation)
                      (''create_vertex '' @ identity_type @ '' identity already exists in live graph'')
                      ''Use a new vertex identity or remove the existing vertex before importing.''
                      (Some ''INVALID_GRAPH_DATA'')]\<rparr>
                  else st')))"

section \<open>The preview of one operation\<close>

record op_preview =
  op_errors :: "pyval list"
  op_item :: "pydict option"
  op_compiled :: pydict

definition preview_of :: "pydict \<Rightarrow> endpoint_state \<Rightarrow> op_preview" where
  "preview_of item st = \<lparr>op_errors = es_errors st, op_item = Some item, op_compiled = es_compiled st\<rparr>"

definition preview_create_edge ::
  "'w backend \<Rightarrow> nat \<Rightarrow> pyval list \<Rightarrow> pydict \<Rightarrow> pydict \<Rightarrow> ('w, op_preview) effect" where
  "preview_create_edge be idx planned operation item =
     effect_bind (append_edge_endpoint_counts be idx operation ''create_edge'' item (Some planned)) (\<lambda>st.
       effect_return (preview_of
         (if es_failed st then es_item st else AList.update ''matched_count'' PyNone (es_item st)) st))"

definition preview_create_vertex ::
  "'w backend \<Rightarrow> pyval \<Rightarrow> nat \<Rightarrow> pydict \<Rightarrow> pydict \<Rightarrow> ('w, op_preview) effect" where
  "preview_create_vertex be live_schema idx operation item =
     effect_bind (effect_of (create_vertex_identity_queries (be_float_text be) operation live_schema)) (\<lambda>queries.
     effect_bind (identity_counts be idx operation queries
         \<lparr>es_item = item, es_errors = [], es_compiled = operation, es_failed = False\<rparr>) (\<lambda>st.
       effect_return (preview_of (AList.update ''matched_count'' PyNone (es_item st)) st)))"

text \<open>A vertex to delete must have no edges, or its edges are shown and the deletion refused.\<close>

definition check_incident_edges ::
  "'w backend \<Rightarrow> nat \<Rightarrow> pydict \<Rightarrow> nat \<Rightarrow> pyval \<Rightarrow> endpoint_state \<Rightarrow> ('w, endpoint_state) effect" where
  "check_incident_edges be idx operation matched target_id st =
     (let vertex = ''g.V('' @ gremlin_literal (be_float_text be) target_id @ '')'';
          err = (\<lambda>reason suggestion etype st. st\<lparr>es_errors := es_errors st @
            [validation_error (int idx) (PyDict operation) reason suggestion etype]\<rparr>)
      in if \<not> cascades operation then
           (if matched \<noteq> 1 then effect_return st
            else effect_bind (read_count be (vertex @ ''.bothE()'')) (\<lambda>r. effect_return (case r of
                Inl _ \<Rightarrow> err ''associated edge count query failed'' unavailable None st
              | Inr n \<Rightarrow>
                  (let st' = note_item ''associated_edge_count'' (PyInt n) st
                   in if n > 0 then err ''delete_vertex cascade=false but vertex has associated edges''
                        (''Delete associated edges explicitly, then preview again. '' @
                         ''Vertex deletion confirmation remains disabled.'') (Some ''BLOCKED_BY_RELATIONSHIPS'') st'
                      else st'))))
         else if map_of operation ''cascade'' = Some (PyBool True) then
           effect_bind (read_values be (vertex @ ''.bothE().elementMap()'')) (\<lambda>r. effect_return (case r of
               Inl _ \<Rightarrow> err ''associated edge preview query failed'' unavailable None st
             | Inr edges \<Rightarrow>
                 err ''delete_vertex cascade=true is not enabled in this phase''
                   ''Delete associated edges explicitly, then delete the vertex with cascade=false.''
                   (Some ''CASCADE_NOT_ENABLED'') (note_item ''associated_edges'' (PyList edges) st)))
         else effect_return st)"

definition preview_target ::
  "'w backend \<Rightarrow> nat \<Rightarrow> pydict \<Rightarrow> string \<Rightarrow> pydict \<Rightarrow> ('w, op_preview) effect" where
  "preview_target be idx operation op item =
     (let fl = be_float_text be;
          match_query = (if op = ''delete_edge'' then edge_match_query fl operation else vertex_match_query fl operation)
      in effect_bind (effect_of (rendered fl match_query)) (\<lambda>query.
         effect_bind (read_values be (query @ ''.limit(2).id()'')) (\<lambda>r.
           case r of
             Inl _ \<Rightarrow> effect_return
               \<lparr>op_errors = [validation_error (int idx) (PyDict operation) ''target id query failed'' unavailable None],
                op_item = None, op_compiled = operation\<rparr>
           | Inr target_ids \<Rightarrow>
               (let matched = length target_ids;
                    st = \<lparr>es_item = AList.update ''matched_count'' (PyInt (int matched)) item,
                      es_errors = (if matched \<noteq> 1 then [validation_error (int idx) (PyDict operation)
                        (op @ '' matched_count must be 1, got '' @ show_nat matched)
                        ''Narrow the match criteria so exactly one graph element is affected.'' None] else []),
                      es_compiled = operation, es_failed = False\<rparr>;
                    target_id = (if matched = 1 then hd target_ids else PyNone);
                    st' = (if target_id = PyNone then st else compile_item ''target_id'' target_id st)
                in effect_bind
                     (if op = ''delete_vertex'' then check_incident_edges be idx operation matched target_id st'
                      else effect_return st')
                     (\<lambda>st''. effect_return (preview_of (es_item st'') st''))))))"

definition preview_operation ::
  "'w backend \<Rightarrow> pyval \<Rightarrow> nat \<Rightarrow> pyval list \<Rightarrow> pydict \<Rightarrow> ('w, op_preview) effect" where
  "preview_operation be live_schema idx planned operation =
     (let op = op_name (be_float_text be) operation;
          item = [(''operation_index'', PyInt (int idx)), (''op'', PyStr op),
                  (''label'', dict_get operation ''label''), (''action'', PyStr op)]
      in if op = ''create_edge'' then preview_create_edge be idx planned operation item
         else if op = ''create_vertex'' then preview_create_vertex be live_schema idx operation item
         else if op \<notin> set WRITE_OPS then
           effect_return \<lparr>op_errors = [], op_item = Some (AList.update ''matched_count'' PyNone item),
             op_compiled = operation\<rparr>
         else if op = ''delete_edge'' then
           effect_bind (append_edge_endpoint_counts be idx operation op item None) (\<lambda>st.
             if es_failed st then effect_return (preview_of (es_item st) st)
             else effect_bind (preview_target be idx operation op (es_item st)) (\<lambda>p.
               effect_return (p\<lparr>op_errors := es_errors st @ op_errors p\<rparr>)))
         else preview_target be idx operation op item)"

section \<open>The dry run\<close>

fun preview_all ::
  "'w backend \<Rightarrow> pyval \<Rightarrow> pyval list \<Rightarrow> pyval list \<Rightarrow> ('w, op_preview list) effect" where
  "preview_all be live_schema planned [] = effect_return []"
| "preview_all be live_schema planned (v # vs) =
     (case v of
        PyDict operation \<Rightarrow>
          effect_bind (preview_operation be live_schema (length planned) planned operation) (\<lambda>p.
          effect_bind (preview_all be live_schema (planned @ [v]) vs) (\<lambda>ps.
            effect_return (p # ps)))
      | _ \<Rightarrow> effect_of (Inl RaisesAttribute))"

text \<open>The copy of the plan that holds the compiled operations.\<close>

definition compiled_plan_of :: "pyval \<Rightarrow> op_preview list \<Rightarrow> pyval" where
  "compiled_plan_of change_plan ps =
     (let compiled = PyList (map (\<lambda>p. PyDict (op_compiled p)) ps)
      in case change_plan of PyDict d \<Rightarrow> PyDict (AList.update ''operations'' compiled d) | _ \<Rightarrow> compiled)"

definition preview_items :: "op_preview list \<Rightarrow> pyval" where
  "preview_items ps = PyList (map PyDict (List.map_filter op_item ps))"

definition dry_run_graph_change_plan ::
  "(pyval \<Rightarrow> string) \<Rightarrow> text_formats \<Rightarrow> 'w backend \<Rightarrow> pyval \<Rightarrow> pyval \<Rightarrow> pydict option \<Rightarrow> ('w, pydict) effect" where
  "dry_run_graph_change_plan sha tf be change_plan live_schema extra_hash_context =
     (let fl = be_float_text be;
          operations = plan_operations change_plan;
          limit_errors = collect_write_limit_errors fl (length operations) change_plan
      in if limit_errors \<noteq> [] then effect_return (validation_report limit_errors [])
         else effect_bind (effect_of (validate_graph_change_plan fl tf change_plan live_schema)) (\<lambda>validation.
           if \<not> py_truthy (dict_get validation ''valid'') then effect_return validation
           else effect_bind (preview_all be live_schema [] operations) (\<lambda>ps.
             let errors = concat (map op_errors ps)
             in effect_return (
               if errors \<noteq> [] then
                 [(''valid'', PyBool False), (''errors'', PyList errors),
                  (''warnings'', dict_get validation ''warnings''), (''preview'', preview_items ps)]
               else
                 [(''valid'', PyBool True),
                  (''plan_hash'', PyStr (calculate_graph_change_plan_hash sha (from_env (be_env be))
                     (compiled_plan_of change_plan ps) None None
                     (normalized_schema_summary live_schema False) extra_hash_context)),
                  (''compiled_plan'', compiled_plan_of change_plan ps),
                  (''mutation_summary'', PyDict (mutation_summary fl operations)),
                  (''preview'', preview_items ps),
                  (''warnings'', dict_get validation ''warnings'')]))))"

end
