(* ===== verification/Graph_Mapping.thy ===== *)
theory Graph_Mapping
  imports Graph_Dry_Run
begin

text \<open>
  \<open>hugegraph_mcp/tools/graph_data_mapping.py\<close>: vertices and edges of a payload become the operations
  of a change plan. The dictionaries the code indexes by label and text of an id are association lists.
  The last part relates the mapping to the dry run: an edge that names a vertex of its payload by id
  depends on the operation that creates it.
\<close>

type_synonym identity_map = "((string \<times> string) \<times> pyval) list"

definition change_plan_from_operations :: "pyval list \<Rightarrow> pyval" where
  "change_plan_from_operations operations = PyDict [(''operations'', PyList operations)]"

section \<open>Indexes of the payload and the schema\<close>

definition add_vertex_id :: "(rat \<Rightarrow> string) \<Rightarrow> identity_map \<Rightarrow> pyval \<Rightarrow> identity_map" where
  "add_vertex_id fl ids v =
     (case v of
        PyDict vertex \<Rightarrow>
          (case dict_get vertex ''label'' of
             PyStr label \<Rightarrow>
               (let vertex_id = dict_get vertex ''id''
                in if blank_id vertex_id then ids else AList.update (label, py_str fl vertex_id) vertex_id ids)
           | _ \<Rightarrow> ids)
      | _ \<Rightarrow> ids)"

definition vertex_ids_by_label :: "(rat \<Rightarrow> string) \<Rightarrow> pyval list \<Rightarrow> identity_map" where
  "vertex_ids_by_label fl vertices = foldl (add_vertex_id fl) [] vertices"

definition add_single_primary_key :: "(string \<times> string) list \<Rightarrow> pyval \<Rightarrow> (string \<times> string) list" where
  "add_single_primary_key keys v =
     (case v of
        PyDict vertex_label \<Rightarrow>
          (case (dict_get vertex_label ''name'', primary_key_names vertex_label) of
             (PyStr label, [pk]) \<Rightarrow> AList.update label pk keys
           | _ \<Rightarrow> keys)
      | _ \<Rightarrow> keys)"

definition single_primary_keys_by_label :: "pyval \<Rightarrow> py_exception + (string \<times> string) list" where
  "single_primary_keys_by_label live_schema =
     (case schema_payload live_schema of
        None \<Rightarrow> Inr []
      | Some raw \<Rightarrow>
          and_then (loop_over (py_or (dict_get raw ''vertexlabels'') (PyList [])))
            (\<lambda>labels. Inr (foldl add_single_primary_key [] labels)))"

definition add_primary_key_value ::
  "(rat \<Rightarrow> string) \<Rightarrow> (string \<times> string) list \<Rightarrow> identity_map \<Rightarrow> pyval \<Rightarrow> identity_map" where
  "add_primary_key_value fl single_primary_keys key_values v =
     (case v of
        PyDict vertex \<Rightarrow>
          (case (dict_get vertex ''label'', dict_get vertex ''properties'') of
             (PyStr label, PyDict properties) \<Rightarrow>
               (case map_of single_primary_keys label of
                  None \<Rightarrow> key_values
                | Some pk \<Rightarrow>
                    (let x = dict_get properties pk
                     in if blank_id x then key_values else AList.update (label, py_str fl x) x key_values))
           | _ \<Rightarrow> key_values)
      | _ \<Rightarrow> key_values)"

definition vertex_primary_key_values ::
  "(rat \<Rightarrow> string) \<Rightarrow> (string \<times> string) list \<Rightarrow> pyval list \<Rightarrow> identity_map" where
  "vertex_primary_key_values fl single_primary_keys vertices =
     foldl (add_primary_key_value fl single_primary_keys) [] vertices"

section \<open>Endpoints\<close>

text \<open>\<open>d.get(k)\<close> with the test \<open>is not None\<close>: a stored null counts as absent.\<close>

definition stored :: "identity_map \<Rightarrow> string \<times> string \<Rightarrow> pyval option" where
  "stored m k = (case map_of m k of Some v \<Rightarrow> if v = PyNone then None else Some v | None \<Rightarrow> None)"

text \<open>The part of a text behind its first colon.\<close>

definition after_colon :: "string \<Rightarrow> string option" where
  "after_colon s = (case dropWhile (\<lambda>c. c \<noteq> CHR '':'') s of [] \<Rightarrow> None | _ # r \<Rightarrow> Some r)"

definition edge_endpoint_match ::
  "(rat \<Rightarrow> string) \<Rightarrow> pydict \<Rightarrow> string \<Rightarrow> pyval \<Rightarrow> identity_map \<Rightarrow> (string \<times> string) list \<Rightarrow> identity_map \<Rightarrow>
     pydict" where
  "edge_endpoint_match fl edge endpoint endpoint_label vertex_ids single_primary_keys primary_key_values =
     (let explicit = dict_get edge endpoint;
          vertex_id = dict_get edge (if endpoint = ''source'' then ''outV'' else ''inV'');
          fallback_id = (if blank_id explicit then vertex_id else explicit);
          by_id = [(''id'', fallback_id)]
      in case explicit of
           PyDict d \<Rightarrow> d
         | _ \<Rightarrow>
             (case endpoint_label of
                PyStr label \<Rightarrow>
                  if blank_id fallback_id then by_id
                  else (case stored vertex_ids (label, py_str fl fallback_id) of
                      Some matched_vertex_id \<Rightarrow> [(''id'', matched_vertex_id)]
                    | None \<Rightarrow>
                        if map_of edge endpoint = None then by_id
                        else (let direct = stored primary_key_values (label, py_str fl fallback_id);
                                  key_value = (case (direct, fallback_id) of
                                      (None, PyStr s) \<Rightarrow>
                                        (case after_colon s of
                                           Some r \<Rightarrow> stored primary_key_values (label, r) | None \<Rightarrow> None)
                                    | _ \<Rightarrow> direct)
                              in case map_of single_primary_keys label of
                                   None \<Rightarrow> by_id
                                 | Some pk \<Rightarrow> [(pk, case key_value of Some v \<Rightarrow> v | None \<Rightarrow> fallback_id)]))
              | _ \<Rightarrow> by_id))"

section \<open>Operations\<close>

definition vertex_operation :: "pydict \<Rightarrow> pydict" where
  "vertex_operation vertex =
     [(''op'', PyStr ''create_vertex''), (''label'', dict_get vertex ''label''),
      (''properties'', py_or (dict_get vertex ''properties'') (PyDict []))] @
     (if blank_id (dict_get vertex ''id'') then [] else [(''id'', dict_get vertex ''id'')])"

definition edge_operation ::
  "(rat \<Rightarrow> string) \<Rightarrow> identity_map \<Rightarrow> (string \<times> string) list \<Rightarrow> identity_map \<Rightarrow> pydict \<Rightarrow> pydict" where
  "edge_operation fl vertex_ids single_primary_keys primary_key_values edge =
     (let source_label = source_label_of edge; target_label = target_label_of edge;
          match = (\<lambda>endpoint label. PyDict
            (edge_endpoint_match fl edge endpoint label vertex_ids single_primary_keys primary_key_values))
      in [(''op'', PyStr ''create_edge''), (''label'', dict_get edge ''label''),
          (''source_label'', source_label), (''target_label'', target_label),
          (''source_match'', match ''source'' source_label), (''target_match'', match ''target'' target_label),
          (''properties'', py_or (dict_get edge ''properties'') (PyDict []))])"

definition dicts_of :: "pyval list \<Rightarrow> pydict list" where
  "dicts_of vs = List.map_filter (\<lambda>v. case v of PyDict d \<Rightarrow> Some d | _ \<Rightarrow> None) vs"

definition graph_data_to_change_plan ::
  "(rat \<Rightarrow> string) \<Rightarrow> pydict \<Rightarrow> pyval \<Rightarrow> py_exception + pyval" where
  "graph_data_to_change_plan fl graph_data live_schema =
     and_then (loop_over (py_or (dict_get graph_data ''vertices'') (PyList []))) (\<lambda>vertices.
     and_then (single_primary_keys_by_label live_schema) (\<lambda>single_primary_keys.
     and_then (loop_over (py_or (dict_get graph_data ''edges'') (PyList []))) (\<lambda>edges.
       let vertex_ids = vertex_ids_by_label fl vertices;
           primary_key_values = vertex_primary_key_values fl single_primary_keys vertices
       in Inr (change_plan_from_operations
         (map (\<lambda>d. PyDict (vertex_operation d)) (dicts_of vertices) @
          map (\<lambda>d. PyDict (edge_operation fl vertex_ids single_primary_keys primary_key_values d)) (dicts_of edges))))))"

section \<open>Edges within a payload\<close>

text \<open>The key of a vertex that has a label and an id.\<close>

definition vertex_key :: "(rat \<Rightarrow> string) \<Rightarrow> pyval \<Rightarrow> (string \<times> string) option" where
  "vertex_key fl v =
     (case v of
        PyDict vertex \<Rightarrow>
          (case dict_get vertex ''label'' of
             PyStr label \<Rightarrow>
               if blank_id (dict_get vertex ''id'') then None else Some (label, py_str fl (dict_get vertex ''id''))
           | _ \<Rightarrow> None)
      | _ \<Rightarrow> None)"

lemma add_vertex_id_other: "vertex_key fl v \<noteq> Some k \<Longrightarrow> map_of (add_vertex_id fl ids v) k = map_of ids k"
  by (auto simp: add_vertex_id_def vertex_key_def Let_def update_conv' split: pyval.split)

lemma fold_vertex_ids_other:
  "\<forall>v \<in> set vs. vertex_key fl v \<noteq> Some k \<Longrightarrow> map_of (foldl (add_vertex_id fl) ids vs) k = map_of ids k"
  by (induction vs arbitrary: ids) (simp_all add: add_vertex_id_other)

lemma vertex_ids_last:
  assumes "vertex_key fl (PyDict vertex) = Some k" "\<forall>v \<in> set rest. vertex_key fl v \<noteq> Some k"
  shows "map_of (vertex_ids_by_label fl (earlier @ PyDict vertex # rest)) k = Some (dict_get vertex ''id'')"
proof -
  have "map_of (add_vertex_id fl ids (PyDict vertex)) k = Some (dict_get vertex ''id'')" for ids
    using assms(1)
    by (auto simp: vertex_key_def add_vertex_id_def Let_def update_conv' split: pyval.splits if_splits)
  then show ?thesis
    using assms(2) by (simp add: vertex_ids_by_label_def fold_vertex_ids_other)
qed

text \<open>
  An edge that names a vertex of its own payload depends on the operation that creates it. When the
  scalar endpoint of an edge has the text of the id of a vertex in the payload, with the non-empty label
  of that endpoint, and no later vertex has the same label and id, then the dry run recognises the operation
  mapped from that vertex as the endpoint of the operation mapped from the edge, whatever else the
  payload and the schema hold.
\<close>

theorem mapped_edge_finds_its_vertex:
  assumes "endpoint \<in> {''source'', ''target''}"
    and "vertices = earlier @ PyDict vertex # rest"
    and "vertex_key fl (PyDict vertex) = Some (label, shown)" "\<forall>v \<in> set rest. vertex_key fl v \<noteq> Some (label, shown)"
    and "endpoint_label_of edge endpoint = PyStr label"
    and "py_str fl (dict_get edge endpoint) = shown" "\<not> blank_id (dict_get edge endpoint)"
    and "\<forall>d. dict_get edge endpoint \<noteq> PyDict d"
    and "py_wf (dict_get vertex ''id'')" "nan_free (dict_get vertex ''id'')" "label \<noteq> []"
  shows "plans_endpoint fl
    (edge_operation fl (vertex_ids_by_label fl vertices) keys key_values edge) endpoint
    (PyDict (vertex_operation vertex))"
proof -
  let ?id = "dict_get vertex ''id''"
  have v: "dict_get vertex ''label'' = PyStr label" "\<not> blank_id ?id"
    using assms(3) by (auto simp: vertex_key_def split: pyval.splits if_splits)
  have found: "stored (vertex_ids_by_label fl vertices) (label, shown) = Some ?id"
    using vertex_ids_last [OF assms(3,4)] v(2) assms(2) by (simp add: stored_def blank_id_def)
  have match: "edge_endpoint_match fl edge endpoint (PyStr label) (vertex_ids_by_label fl vertices) keys key_values =
      [(''id'', ?id)]"
    using assms(6-8) found
    by (cases "dict_get edge endpoint") (simp_all add: edge_endpoint_match_def Let_def)
  let ?op = "edge_operation fl (vertex_ids_by_label fl vertices) keys key_values edge"
  have "endpoint_label_of ?op endpoint = PyStr label"
    using assms(1,5,11)
    by (auto simp: endpoint_label_of_def edge_operation_def source_label_of_def target_label_of_def py_or_def Let_def
        split: if_splits)
  moreover have "dict_get ?op (endpoint @ ''_match'') = PyDict [(''id'', ?id)]"
    using assms(1,5) match by (auto simp: edge_operation_def endpoint_label_of_def Let_def)
  moreover have "dict_get (vertex_operation vertex) ''id'' = ?id" "op_text fl (vertex_operation vertex) = ''create_vertex''"
      "dict_get (vertex_operation vertex) ''label'' = PyStr label"
    using v by (simp_all add: vertex_operation_def op_text_def py_or_def)
  ultimately show ?thesis
    using py_eq_refl [OF assms(9,10)]
    by (simp add: plans_endpoint_def planned_vertex_matches_def)
qed

theorem mapped_edge_finds_its_vertex_witness:
  "plans_endpoint (\<lambda>_. [])
     (edge_operation (\<lambda>_. []) (vertex_ids_by_label (\<lambda>_. [])
        [PyDict [(''label'', PyStr ''person''), (''id'', PyInt 7)]]) [] []
        [(''label'', PyStr ''knows''), (''source_label'', PyStr ''person''), (''source'', PyStr ''7'')])
     ''source'' (PyDict (vertex_operation [(''label'', PyStr ''person''), (''id'', PyInt 7)]))"
  by (rule mapped_edge_finds_its_vertex [where earlier = "[]" and rest = "[]" and label = "''person''" and shown = "''7''"])
    (simp_all add: vertex_key_def blank_id_def endpoint_label_of_def source_label_of_def py_or_def py_str_def
      show_int_def show_nat.simps digit_char_def, code_simp)

end
