(* ===== verification/Graph_Plan.thy ===== *)
theory Graph_Plan
  imports Graph_Dry_Run Plan_Shape
begin

text \<open>
  \<open>hugegraph_mcp/tools/graph_write_plan.py\<close>: compiling a validated, compiled change plan into the
  durable write plan. \<open>digest\<close> stands for the SHA-256 of the compact sorted JSON text, the identifier
  of \<open>uuid4\<close> and the clock reading are arguments. Properties are a mapping or absent here, since
  validation refuses anything else; the model raises \<open>TypeError\<close> for other values.
\<close>

definition GRAPH_OPERATION_KINDS :: "string list" where
  "GRAPH_OPERATION_KINDS = [''CREATE_VERTEX'', ''CREATE_EDGE'', ''DELETE_VERTEX'', ''DELETE_EDGE'']"

text \<open>\<open>f"{plan_id}:op:{index:04d}"\<close>\<close>

definition pad4 :: "nat \<Rightarrow> string" where
  "pad4 n = replicate (4 - length (show_nat n)) CHR ''0'' @ show_nat n"

definition operation_id_at :: "string \<Rightarrow> nat \<Rightarrow> string" where
  "operation_id_at plan_id index = plan_id @ '':op:'' @ pad4 index"

section \<open>Lookups in the schema\<close>

definition label_in :: "pyval \<Rightarrow> string \<Rightarrow> string \<Rightarrow> py_exception + pydict option" where
  "label_in live_schema collection name =
     and_then (loop_over (py_or (dict_get (schema_or_empty live_schema) collection) (PyList [])))
       (\<lambda>items. Inr (first_label_named name items))"

definition properties_of :: "pydict \<Rightarrow> py_exception + pydict" where
  "properties_of operation =
     (case py_or (dict_get operation ''properties'') (PyDict []) of PyDict d \<Rightarrow> Inr d | _ \<Rightarrow> Inl RaisesType)"

section \<open>Identities\<close>

definition vertex_identity_of ::
  "(rat \<Rightarrow> string) \<Rightarrow> pydict \<Rightarrow> pyval \<Rightarrow> py_exception + pydict" where
  "vertex_identity_of fl operation live_schema =
     (if \<not> blank_id (dict_get operation ''id'') then Inr [(''id'', dict_get operation ''id'')]
      else and_then (item_of operation ''label'') (\<lambda>label.
           and_then (label_in live_schema ''vertexlabels'' (py_str fl label)) (\<lambda>vertex_label.
           and_then (properties_of operation) (\<lambda>properties.
             let primary_keys = (case vertex_label of None \<Rightarrow> [] | Some d \<Rightarrow> primary_key_names d)
             in if primary_keys = [] \<or> list_ex (\<lambda>k. map_of properties k = None) primary_keys
                then Inl (RaisesValue ''create_vertex requires a stable ID or complete primary-key identity'')
                else Inr [(''primary_keys'', PyDict (map (\<lambda>k. (k, dict_get properties k)) (rev (remdups (rev primary_keys)))))]))))"

text \<open>The sort keys in order, each looked up in the properties; an unhashable key raises.\<close>

fun sort_key_values :: "pydict \<Rightarrow> pyval list \<Rightarrow> py_exception + pydict" where
  "sort_key_values properties [] = Inr []"
| "sort_key_values properties (k # ks) =
     (let missing = Inl (RaisesValue ''create_edge is missing a required sort-key identity value'')
      in case k of
           PyStr s \<Rightarrow>
             (case map_of properties s of
                None \<Rightarrow> missing
              | Some v \<Rightarrow> and_then (sort_key_values properties ks) (\<lambda>d. Inr (AList.update s v d)))
         | PyList _ \<Rightarrow> Inl RaisesType
         | PyDict _ \<Rightarrow> Inl RaisesType
         | _ \<Rightarrow> missing)"

definition edge_identity_properties ::
  "(rat \<Rightarrow> string) \<Rightarrow> pydict \<Rightarrow> pyval \<Rightarrow> py_exception + pydict" where
  "edge_identity_properties fl operation live_schema =
     and_then (item_of operation ''label'') (\<lambda>label.
     and_then (label_in live_schema ''edgelabels'' (py_str fl label)) (\<lambda>edge_label.
       case edge_label of
         None \<Rightarrow> Inl (RaisesValue (''unknown edge label: '' @ py_str fl label))
       | Some d \<Rightarrow>
           (let sort_keys = py_or (dict_get d ''sort_keys'') (py_or (dict_get d ''sortKeys'') (PyList []));
                frequency = py_upper (py_str fl (py_or (dict_get d ''frequency'') (PyStr ''SINGLE'')))
            in and_then (properties_of operation) (\<lambda>properties.
               if frequency = ''MULTIPLE'' \<and> \<not> py_truthy sort_keys
               then Inl (RaisesValue ''MULTIPLE create_edge requires schema sort keys for stable identity'')
               else and_then (loop_over sort_keys) (sort_key_values properties)))))"

definition py_index :: "pyval \<Rightarrow> int option" where
  "py_index v = (case v of PyInt n \<Rightarrow> Some n | PyBool b \<Rightarrow> Some (if b then 1 else 0) | _ \<Rightarrow> None)"

text \<open>An endpoint is an operation of the same plan, on which the edge depends, or a backend id.\<close>

definition endpoint_target ::
  "pydict \<Rightarrow> string \<Rightarrow> string list \<Rightarrow> py_exception + (pydict \<times> string list)" where
  "endpoint_target raw endpoint operation_ids =
     (let dependency_index = dict_get raw (endpoint @ ''_operation_index'');
          endpoint_id = dict_get raw (endpoint @ ''_id'')
      in if dependency_index \<noteq> PyNone then
           (case py_index dependency_index of
              Some n \<Rightarrow>
                if n < 0 \<or> n \<ge> int (length operation_ids)
                then Inl (RaisesValue (''invalid '' @ endpoint @ '' dependency operation index''))
                else (let operation_id = operation_ids ! nat n
                      in Inr ([(''operation_id'', PyStr operation_id)], [operation_id]))
            | None \<Rightarrow> Inl (RaisesValue (''invalid '' @ endpoint @ '' dependency operation index'')))
         else if blank_id endpoint_id then Inl (RaisesValue (''create_edge requires compiled '' @ endpoint @ ''_id''))
         else Inr ([(''id'', endpoint_id)], []))"

section \<open>Operations\<close>

definition plan_operation ::
  "(pyval \<Rightarrow> string) \<Rightarrow> string \<Rightarrow> string \<Rightarrow> pydict \<Rightarrow> pydict \<Rightarrow> pydict \<Rightarrow> string list \<Rightarrow>
     py_exception + operation_plan" where
  "plan_operation digest operation_id kind target expected desired depends_on =
     (case make_operation_plan operation_id kind target expected desired depends_on
        (Some (digest (canonicalize (PyDict [(''kind'', PyStr kind), (''target'', PyDict target),
           (''desired_state'', PyDict desired)])))) of
        Inl (ValueError m) \<Rightarrow> Inl (RaisesValue m)
      | Inr o' \<Rightarrow> Inr o')"

definition compile_create_vertex ::
  "(pyval \<Rightarrow> string) \<Rightarrow> (rat \<Rightarrow> string) \<Rightarrow> pydict \<Rightarrow> string \<Rightarrow> pyval \<Rightarrow> py_exception + operation_plan" where
  "compile_create_vertex digest fl raw operation_id live_schema =
     and_then (vertex_identity_of fl raw live_schema) (\<lambda>identity.
     and_then (item_of raw ''label'') (\<lambda>label.
     and_then (properties_of raw) (\<lambda>properties.
       plan_operation digest operation_id ''CREATE_VERTEX''
         [(''mutation'', PyDict raw), (''identity'', PyDict identity)]
         [(''exists'', PyBool False)]
         [(''exists'', PyBool True), (''element_type'', PyStr ''vertex''), (''label'', label),
          (''identity'', PyDict identity), (''properties'', PyDict properties)] [])))"

definition compile_create_edge ::
  "(pyval \<Rightarrow> string) \<Rightarrow> (rat \<Rightarrow> string) \<Rightarrow> pydict \<Rightarrow> string \<Rightarrow> string list \<Rightarrow> pyval \<Rightarrow>
     py_exception + operation_plan" where
  "compile_create_edge digest fl raw operation_id operation_ids live_schema =
     and_then (endpoint_target raw ''source'' operation_ids) (\<lambda>(source, source_dependencies).
     and_then (endpoint_target raw ''target'' operation_ids) (\<lambda>(target, target_dependencies).
     and_then (edge_identity_properties fl raw live_schema) (\<lambda>identity.
     and_then (item_of raw ''label'') (\<lambda>label.
     and_then (properties_of raw) (\<lambda>properties.
       plan_operation digest operation_id ''CREATE_EDGE''
         [(''mutation'', PyDict raw), (''source'', PyDict source), (''target'', PyDict target),
          (''identity_properties'', PyDict identity)]
         [(''exists'', PyBool False)]
         [(''exists'', PyBool True), (''element_type'', PyStr ''edge''), (''label'', label),
          (''source'', PyDict source), (''target'', PyDict target),
          (''identity_properties'', PyDict identity), (''properties'', PyDict properties)]
         (rev (remdups (rev (source_dependencies @ target_dependencies)))))))))"

definition compile_delete ::
  "(pyval \<Rightarrow> string) \<Rightarrow> pydict \<Rightarrow> string \<Rightarrow> string \<Rightarrow> py_exception + operation_plan" where
  "compile_delete digest raw op operation_id =
     (let target_id = dict_get raw ''target_id''
      in if blank_id target_id then Inl (RaisesValue (op @ '' requires a compiled target_id''))
         else and_then (item_of raw ''label'') (\<lambda>label.
           plan_operation digest operation_id (if op = ''delete_vertex'' then ''DELETE_VERTEX'' else ''DELETE_EDGE'')
             [(''mutation'', PyDict raw), (''id'', target_id), (''label'', label)]
             [(''exists'', PyBool True),
              (''element_type'', PyStr (if op = ''delete_vertex'' then ''vertex'' else ''edge'')),
              (''id'', target_id), (''label'', label)]
             [(''exists'', PyBool False)] []))"

definition compile_operation ::
  "(pyval \<Rightarrow> string) \<Rightarrow> (rat \<Rightarrow> string) \<Rightarrow> pyval \<Rightarrow> string list \<Rightarrow> nat \<times> pyval \<Rightarrow>
     py_exception + operation_plan" where
  "compile_operation digest fl live_schema operation_ids item =
     (case snd item of
        PyDict raw \<Rightarrow>
          (let op = op_name fl raw; operation_id = operation_ids ! fst item
           in if op = ''create_vertex'' then compile_create_vertex digest fl raw operation_id live_schema
              else if op = ''create_edge'' then compile_create_edge digest fl raw operation_id operation_ids live_schema
              else if op \<in> {''delete_vertex'', ''delete_edge''} then compile_delete digest raw op operation_id
              else Inl (RaisesValue (''unsupported graph operation: '' @ op)))
      | _ \<Rightarrow> Inl RaisesType)"

section \<open>The plan\<close>

fun compile_all :: "('a \<Rightarrow> 'e + 'b) \<Rightarrow> 'a list \<Rightarrow> 'e + 'b list" where
  "compile_all f [] = Inr []"
| "compile_all f (x # xs) = and_then (f x) (\<lambda>y. and_then (compile_all f xs) (\<lambda>ys. Inr (y # ys)))"

definition compile_graph_write_plan ::
  "(pyval \<Rightarrow> string) \<Rightarrow> (rat \<Rightarrow> string) \<Rightarrow> string \<Rightarrow> int \<Rightarrow> pyval \<Rightarrow> plan_context \<Rightarrow> pyval \<Rightarrow> string \<Rightarrow>
     py_exception + write_plan" where
  "compile_graph_write_plan digest fl uuid now change_plan context live_schema tool_name =
     (let plan_id = ''wp_'' @ uuid;
          raws = plan_operations change_plan;
          operation_ids = map (operation_id_at plan_id) [0..<length raws]
      in and_then (compile_all (compile_operation digest fl live_schema operation_ids) (List.enumerate 0 raws))
           (\<lambda>operations.
             case make_write_plan
               \<lparr>wp_plan_id = plan_id, wp_tool_name = tool_name,
                wp_graph_target = \<lparr>gt_graph_url = pc_graph_url context, gt_graph_name = pc_graph_name context,
                  gt_graphspace = Some (pc_graphspace context)\<rparr>,
                wp_principal = pc_principal context, wp_operations = operations,
                wp_payload_digest = digest (canonicalize change_plan),
                wp_schema_fingerprint =
                  Some (digest (canonicalize (opt_dict (normalized_schema_summary live_schema False)))),
                wp_status = ISSUED, wp_created_at = now,
                wp_expires_at = max (now + 1) (pc_expires_at context)\<rparr> of
               Inl (ValueError m) \<Rightarrow> Inl (RaisesValue m)
             | Inr p \<Rightarrow> Inr p))"

end
