(* ===== verification/Adapters.thy ===== *)
theory Adapters
  imports Effects Reconciler Plan_Hash Executor_Properties
begin

text \<open>
  What the adapters of \<open>tools/graph_write_adapter.py\<close> and \<open>tools/schema_write_adapter.py\<close> share: an
  effect of the server as an adapter or a reader of the executor, which sees of an exception its class
  only, and the check that a plan is still meant for the configured target. The locale states what the
  executor relies on: a receipt is for the plan, operation and attempt it was asked for, it settles the
  operation or asks for reconciliation, and only an applied operation has a commit time.
\<close>

definition exception_class :: "py_exception \<Rightarrow> string" where
  "exception_class e =
     (case e of RaisesType \<Rightarrow> ''TypeError'' | RaisesKey _ \<Rightarrow> ''KeyError'' | RaisesAttribute \<Rightarrow> ''AttributeError''
      | RaisesValue _ \<Rightarrow> ''ValueError'' | RaisesRuntime _ \<Rightarrow> ''RuntimeError'' | RaisesOverflow \<Rightarrow> ''OverflowError''
      | RaisesNamed c _ \<Rightarrow> c)"

definition adapter_of ::
  "(write_plan \<Rightarrow> operation_plan \<Rightarrow> int \<Rightarrow> ('w, apply_receipt) effect) \<Rightarrow> 'w adapter" where
  "adapter_of f = (\<lambda>w p o' attempt.
     case f p o' attempt w of (Inl e, w') \<Rightarrow> (Inl (exception_class e), w') | (Inr r, w') \<Rightarrow> (Inr r, w'))"

definition reader_of :: "(write_plan \<Rightarrow> operation_plan \<Rightarrow> ('w, pydict) effect) \<Rightarrow> 'w reader" where
  "reader_of f = (\<lambda>w p o'. map_sum exception_class id (fst (f p o' w)))"

text \<open>The plan must still be meant for the configured graph and user.\<close>

definition target_mismatch :: "mcp_config \<Rightarrow> write_plan \<Rightarrow> bool" where
  "target_mismatch cfg p \<longleftrightarrow>
     (cf_url cfg, cf_graph cfg, config_graphspace cfg, cf_user cfg) \<noteq>
     (gt_graph_url (wp_graph_target p), gt_graph_name (wp_graph_target p),
      (case gt_graphspace (wp_graph_target p) of None \<Rightarrow> ''DEFAULT'' | Some t \<Rightarrow> if t = [] then ''DEFAULT'' else t),
      wp_principal p)"

section \<open>The contract of an adapter\<close>

definition settles :: "write_plan \<Rightarrow> operation_plan \<Rightarrow> int \<Rightarrow> apply_receipt \<Rightarrow> bool" where
  "settles p o' attempt r \<longleftrightarrow>
     rc_plan_id r = Some (wp_plan_id p) \<and> rc_operation_id r = Some (op_operation_id o') \<and> rc_attempt r = attempt \<and>
     rc_status r \<notin> {apply_status.RETRYABLE_NOT_APPLIED, apply_status.LEGACY_UNKNOWN, apply_status.PARTIAL} \<and>
     (rc_reconciliation_required r \<longleftrightarrow> rc_status r = apply_status.UNKNOWN) \<and>
     (rc_committed_at r \<noteq> None \<longleftrightarrow> rc_status r = apply_status.APPLIED)"

locale write_adapter =
  fixes act :: "write_plan \<Rightarrow> operation_plan \<Rightarrow> int \<Rightarrow> ('w, apply_receipt) effect"
  assumes settling: "effect_ensures (settles p o' attempt) (act p o' attempt)"
begin

lemma receipt_settles: "act p o' attempt w = (Inr r, w') \<Longrightarrow> settles p o' attempt r"
  using effect_ensuresD [OF settling] by blast

lemma is_honest: "honest_adapter (adapter_of act)"
  unfolding honest_adapter_def adapter_of_def
  by (auto split: prod.splits sum.splits dest!: receipt_settles simp: settles_def)

end

end
