(* ===== verification/Graph_Adapter.thy ===== *)
theory Graph_Adapter
  imports Graph_Plan Adapters
begin

text \<open>
  \<open>hugegraph_mcp/tools/graph_write_adapter.py\<close>: how a planned graph operation is carried out and how
  its state is read back. An adapter observes the target, writes, observes again and turns what it saw
  into a receipt; \<open>now\<close> is the clock reading of the receipt and the stored record of the plan an
  argument. Frozen mappings nested in an operation are no \<open>dict\<close>, so rendering one as a literal raises
  \<open>TypeError\<close>. Only the adapter for deleting edges is registered.
\<close>

section \<open>Receipts\<close>

definition graph_receipt ::
  "int \<Rightarrow> write_plan \<Rightarrow> operation_plan \<Rightarrow> int \<Rightarrow> apply_status \<Rightarrow> pydict \<Rightarrow> string option \<Rightarrow> bool \<Rightarrow> bool \<Rightarrow>
     ('w, apply_receipt) effect" where
  "graph_receipt now p o' attempt st observed reason_code reconciliation_required committed =
     effect_of (case make_apply_receipt
       \<lparr>rc_status = st, rc_plan_id = Some (wp_plan_id p), rc_operation_id = Some (op_operation_id o'),
        rc_observed_state = Some observed,
        rc_reason_code = Some (case reason_code of Some r \<Rightarrow> r | None \<Rightarrow> plan_status_value (plan_status_of st)),
        rc_attempt = attempt, rc_attempt_token = None, rc_reconciliation_required = reconciliation_required,
        rc_committed_at = (if committed then Some now else None), rc_operation = None, rc_reason = None\<rparr> of
       Inl (ValueError m) \<Rightarrow> Inl (RaisesValue m) | Inr r \<Rightarrow> Inr r)"

section \<open>Reading elements\<close>

definition read_elements :: "'w backend \<Rightarrow> string \<Rightarrow> ('w, pyval list) effect" where
  "read_elements be query =
     effect_bind (read_gremlin be query) (\<lambda>result.
       case result of
         EnvelopeErr e \<Rightarrow> effect_of (Inl (RaisesRuntime (error_type_value (ei_type e))))
       | EnvelopeOk data \<Rightarrow>
           effect_return (case unwrap_data data of PyNone \<Rightarrow> [] | PyList vs \<Rightarrow> vs | v \<Rightarrow> [v]))"

definition normalized_key :: "string \<Rightarrow> string" where
  "normalized_key key =
     (let lowered = py_lower key
      in if lowered \<in> {''id'', ''t.id'', ''~id''} \<or> suffix '' id'' lowered then ''id''
         else if lowered \<in> {''label'', ''t.label'', ''~label''} \<or> suffix '' label'' lowered then ''label''
         else key)"

definition normalize_element :: "pyval \<Rightarrow> pydict" where
  "normalize_element element =
     (case element of
        PyDict d \<Rightarrow> foldl (\<lambda>acc (k, v). AList.update (normalized_key k) v acc) [] d
      | v \<Rightarrow> [(''value'', v)])"

definition create_observed_state :: "pyval list \<Rightarrow> operation_plan \<Rightarrow> py_exception + pydict" where
  "create_observed_state elements o' =
     (case elements of
        [] \<Rightarrow> Inr [(''exists'', PyBool False)]
      | [e] \<Rightarrow>
          (let element = normalize_element e; desired = op_desired_state o';
               copied = (\<lambda>k. and_then (item_of desired k) (\<lambda>v.
                 case v of PyDict d \<Rightarrow> Inr (k, PyDict d) | _ \<Rightarrow> Inl RaisesType))
           in and_then (item_of desired ''element_type'') (\<lambda>element_type.
              and_then (if map_of desired ''identity'' = None then Inr []
                        else map_sum id (\<lambda>kv. [kv]) (copied ''identity'')) (\<lambda>identity.
              and_then (if map_of desired ''source'' = None then Inr []
                        else compile_all copied [''source'', ''target'', ''identity_properties'']) (\<lambda>endpoints.
                Inr ([(''exists'', PyBool True), (''element_type'', element_type),
                      (''label'', dict_get element ''label''),
                      (''properties'', PyDict (filter (\<lambda>(k, v). k \<noteq> ''id'' \<and> k \<noteq> ''label'') element))] @
                     identity @ endpoints @
                     (case map_of element ''id'' of None \<Rightarrow> [] | Some v \<Rightarrow> [(''id'', v)]))))))
      | _ \<Rightarrow> Inr [(''exists'', PyBool True), (''ambiguous'', PyBool True),
                 (''matched_count'', PyInt (int (length elements)))])"

text \<open>A frozen mapping inside a value cannot be rendered.\<close>

fun no_mapping :: "pyval \<Rightarrow> bool" where
  "no_mapping (PyDict d) = False"
| "no_mapping (PyList vs) = (\<forall>v \<in> set vs. no_mapping v)"
| "no_mapping (PyTuple vs) = (\<forall>v \<in> set vs. no_mapping v)"
| "no_mapping v = True"

definition frozen_literal :: "(rat \<Rightarrow> string) \<Rightarrow> pyval \<Rightarrow> py_exception + string" where
  "frozen_literal fl v = (if no_mapping v then Inr (gremlin_literal fl v) else Inl RaisesType)"

definition frozen_has_steps :: "(rat \<Rightarrow> string) \<Rightarrow> pyval \<Rightarrow> py_exception + string" where
  "frozen_has_steps fl match =
     (case match of
        PyDict d \<Rightarrow> if list_all (\<lambda>(k, v). no_mapping v) d then Inr (has_steps fl d) else Inl RaisesType
      | _ \<Rightarrow> Inl RaisesType)"

definition vertex_read_query :: "(rat \<Rightarrow> string) \<Rightarrow> operation_plan \<Rightarrow> py_exception + string" where
  "vertex_read_query fl o' =
     and_then (item_of (op_target o') ''identity'') (\<lambda>identity.
     and_then (case identity of PyDict d \<Rightarrow> Inr d | _ \<Rightarrow> Inl RaisesType) (\<lambda>identity.
     and_then (item_of (op_desired_state o') ''label'') (\<lambda>label.
     and_then (frozen_literal fl label) (\<lambda>label.
     and_then (case map_of identity ''id'' of
         Some v \<Rightarrow> map_sum id (\<lambda>t. ''.hasId('' @ t @ '')'') (frozen_literal fl v)
       | None \<Rightarrow> and_then (item_of identity ''primary_keys'') (frozen_has_steps fl)) (\<lambda>steps.
       Inr (''g.V().hasLabel('' @ label @ '')'' @ steps @ ''.limit(2).elementMap()''))))))"

definition read_vertex :: "'w backend \<Rightarrow> operation_plan \<Rightarrow> ('w, pydict) effect" where
  "read_vertex be o' =
     effect_bind (effect_of (vertex_read_query (be_float_text be) o')) (\<lambda>query.
     effect_bind (read_elements be query) (\<lambda>elements. effect_of (create_observed_state elements o')))"

definition edge_read_query ::
  "(rat \<Rightarrow> string) \<Rightarrow> operation_plan \<Rightarrow> pyval \<Rightarrow> pyval \<Rightarrow> py_exception + string" where
  "edge_read_query fl o' source_id target_id =
     and_then (frozen_literal fl source_id) (\<lambda>source.
     and_then (item_of (op_desired_state o') ''label'') (\<lambda>label.
     and_then (frozen_literal fl label) (\<lambda>label.
     and_then (frozen_literal fl target_id) (\<lambda>target.
     and_then (item_of (op_target o') ''identity_properties'') (\<lambda>identity.
     and_then (frozen_has_steps fl identity) (\<lambda>steps.
       Inr (''g.V('' @ source @ '').outE('' @ label @ '').where(inV().hasId('' @ target @ ''))'' @ steps @
            ''.limit(2).elementMap()'')))))))"

definition read_edge :: "'w backend \<Rightarrow> operation_plan \<Rightarrow> pyval \<Rightarrow> pyval \<Rightarrow> ('w, pydict) effect" where
  "read_edge be o' source_id target_id =
     effect_bind (effect_of (edge_read_query (be_float_text be) o' source_id target_id)) (\<lambda>query.
     effect_bind (read_elements be query) (\<lambda>elements. effect_of (create_observed_state elements o')))"

definition delete_read_query :: "(rat \<Rightarrow> string) \<Rightarrow> pydict \<Rightarrow> py_exception + string" where
  "delete_read_query fl expected =
     and_then (item_of expected ''element_type'') (\<lambda>element_type.
     and_then (item_of expected ''id'') (\<lambda>target_id.
     and_then (frozen_literal fl target_id) (\<lambda>t.
       Inr ((if element_type = PyStr ''vertex'' then ''g.V'' else ''g.E'') @ ''('' @ t @ '').limit(2).elementMap()''))))"

definition read_delete_target :: "'w backend \<Rightarrow> operation_plan \<Rightarrow> ('w, pydict) effect" where
  "read_delete_target be o' =
     (let expected = op_expected_state o'
      in effect_bind (effect_of (delete_read_query (be_float_text be) expected)) (\<lambda>query.
         effect_bind (read_elements be query) (\<lambda>elements.
           case elements of
             [] \<Rightarrow> effect_of (and_then (item_of expected ''label'') (\<lambda>label.
               Inr [(''exists'', PyBool False), (''element_type'', dict_get expected ''element_type''),
                    (''id'', dict_get expected ''id''), (''label'', label)]))
           | [e] \<Rightarrow>
               (let element = normalize_element e
                in effect_return [(''exists'', PyBool True), (''element_type'', dict_get expected ''element_type''),
                  (''id'', case map_of element ''id'' of None \<Rightarrow> dict_get expected ''id'' | Some v \<Rightarrow> v),
                  (''label'', dict_get element ''label'')])
           | _ \<Rightarrow> effect_return [(''exists'', PyBool True), (''ambiguous'', PyBool True)])))"

section \<open>Classification\<close>

definition observed_absent :: "pydict \<Rightarrow> bool" where
  "observed_absent observed \<longleftrightarrow> map_of observed ''exists'' = Some (PyBool False)"

definition classify_create :: "pydict \<Rightarrow> operation_plan \<Rightarrow> apply_status" where
  "classify_create observed o' =
     (if observed_absent observed then apply_status.RETRYABLE_NOT_APPLIED
      else if py_truthy (dict_get observed ''ambiguous'') then apply_status.CONFLICT
      else if py_eq (PyDict (AList.delete ''id'' observed)) (PyDict (op_desired_state o'))
      then apply_status.APPLIED else apply_status.CONFLICT)"

definition reconcile_create_state :: "pydict \<Rightarrow> operation_plan \<Rightarrow> pydict" where
  "reconcile_create_state observed o' =
     (if classify_create observed o' = apply_status.APPLIED then op_desired_state o'
      else if classify_create observed o' = apply_status.RETRYABLE_NOT_APPLIED then op_expected_state o'
      else observed)"

definition ambiguous_write_result :: "reply \<Rightarrow> bool" where
  "ambiguous_write_result r \<longleftrightarrow>
     (case r of
        EnvelopeErr e \<Rightarrow> ei_type e \<in> {CONNECTION_FAILED, SERVER_ERROR, TIMEOUT, WRITE_OUTCOME_UNKNOWN}
      | EnvelopeOk _ \<Rightarrow> False)"

definition post_write_status :: "operation_plan \<Rightarrow> reply \<Rightarrow> apply_status \<Rightarrow> apply_status \<times> string" where
  "post_write_status o' write_result observed_status =
     (if observed_status = apply_status.CONFLICT \<and> op_kind o' \<in> {''CREATE_VERTEX'', ''CREATE_EDGE''} \<and>
         reply_is_ok write_result
      then (apply_status.UNKNOWN, ''POST_CREATE_IDENTITY_AMBIGUOUS'')
      else if observed_status = apply_status.CONFLICT then (apply_status.CONFLICT, ''POST_WRITE_STATE_CONFLICT'')
      else if ambiguous_write_result write_result then (apply_status.UNKNOWN, ''WRITE_RESULT_AMBIGUOUS'')
      else (apply_status.REJECTED, ''WRITE_REJECTED_WITHOUT_SIDE_EFFECT''))"

definition post_write_receipt ::
  "int \<Rightarrow> write_plan \<Rightarrow> operation_plan \<Rightarrow> int \<Rightarrow> reply \<Rightarrow> apply_status \<Rightarrow> pydict \<Rightarrow> ('w, apply_receipt) effect" where
  "post_write_receipt now p o' attempt write_result observed_status observed =
     (case post_write_status o' write_result observed_status of (st, why) \<Rightarrow>
        graph_receipt now p o' attempt st observed (Some why) (st = apply_status.UNKNOWN) False)"

section \<open>Writing\<close>

definition mutation_of :: "operation_plan \<Rightarrow> py_exception + pydict" where
  "mutation_of o' =
     and_then (item_of (op_target o') ''mutation'') (\<lambda>v. case v of PyDict d \<Rightarrow> Inr d | _ \<Rightarrow> Inl RaisesType)"

definition rendered_values :: "pydict \<Rightarrow> pyval list" where
  "rendered_values mutation =
     map (dict_get mutation) [''label'', ''id'', ''source_id'', ''target_id''] @
     (case dict_get mutation ''properties'' of PyDict d \<Rightarrow> map snd d | _ \<Rightarrow> [])"

definition write_mutation :: "'w backend \<Rightarrow> pydict \<Rightarrow> ('w, reply) effect" where
  "write_mutation be mutation =
     effect_bind (effect_of
       (if list_all no_mapping (rendered_values mutation)
        then rendered (be_float_text be) (write_query (be_float_text be) mutation) else Inl RaisesType))
       (write_gremlin be)"

section \<open>Adapters\<close>

text \<open>What every adapter does first.\<close>

definition unless_mismatch ::
  "'w backend \<Rightarrow> int \<Rightarrow> write_plan \<Rightarrow> operation_plan \<Rightarrow> int \<Rightarrow> ('w, apply_receipt) effect \<Rightarrow>
     ('w, apply_receipt) effect" where
  "unless_mismatch be now p o' attempt go =
     (if target_mismatch (from_env (be_env be)) p
      then graph_receipt now p o' attempt apply_status.REJECTED [(''target_matches'', PyBool False)]
        (Some ''TARGET_CHANGED'') False False
      else go)"

text \<open>The part of the two create adapters from the first observation on.\<close>

definition create_through ::
  "'w backend \<Rightarrow> int \<Rightarrow> write_plan \<Rightarrow> operation_plan \<Rightarrow> int \<Rightarrow> ('w, pydict) effect \<Rightarrow> pydict \<Rightarrow> pydict \<Rightarrow>
     ('w, apply_receipt) effect" where
  "create_through be now p o' attempt observe compiled_ids extra =
     effect_bind observe (\<lambda>before_write.
       (let classified = classify_create before_write o'
        in if classified \<noteq> apply_status.RETRYABLE_NOT_APPLIED then
             graph_receipt now p o' attempt
               (if classified = apply_status.APPLIED then apply_status.ALREADY_APPLIED else classified)
               before_write None False False
           else
             effect_bind (effect_of (mutation_of o')) (\<lambda>mutation.
             effect_bind (write_mutation be (foldl (\<lambda>d (k, v). AList.update k v d) mutation compiled_ids)) (\<lambda>write_result.
             effect_bind observe (\<lambda>observed.
               let after_status = classify_create observed o'
               in if after_status = apply_status.APPLIED then
                    graph_receipt now p o' attempt apply_status.APPLIED
                      (foldl (\<lambda>d (k, v). AList.update k v d) observed extra) None False True
                  else post_write_receipt now p o' attempt write_result after_status observed)))))"

definition create_vertex_adapter ::
  "'w backend \<Rightarrow> int \<Rightarrow> write_plan \<Rightarrow> operation_plan \<Rightarrow> int \<Rightarrow> ('w, apply_receipt) effect" where
  "create_vertex_adapter be now p o' attempt =
     unless_mismatch be now p o' attempt (create_through be now p o' attempt (read_vertex be o') [] [])"

text \<open>The backend id of an endpoint: its own, or the one the receipt of the dependency observed.\<close>

definition resolve_endpoint_id ::
  "plan_record option \<Rightarrow> operation_plan \<Rightarrow> string \<Rightarrow> py_exception + pyval" where
  "resolve_endpoint_id record_of_plan o' endpoint =
     and_then (item_of (op_target o') endpoint) (\<lambda>endpoint_target.
     and_then (case endpoint_target of PyDict d \<Rightarrow> Inr d | _ \<Rightarrow> Inl RaisesType) (\<lambda>endpoint_target.
       case map_of endpoint_target ''id'' of
         Some v \<Rightarrow> Inr v
       | None \<Rightarrow>
           and_then (item_of endpoint_target ''operation_id'') (\<lambda>dependency_id.
             case record_of_plan of
               None \<Rightarrow> Inl (RaisesRuntime ''dependency plan is unavailable'')
             | Some rec \<Rightarrow>
                 (let observed = (case find (\<lambda>r. PyStr (or_operation_id r) = dependency_id) (rec_operations rec) of
                        Some r \<Rightarrow> (case or_receipt_json r of
                            Some (PyDict receipt) \<Rightarrow> dict_get receipt ''observed_state'' | _ \<Rightarrow> PyNone)
                      | None \<Rightarrow> PyNone);
                      endpoint_id = (case observed of PyDict d \<Rightarrow> dict_get d ''id'' | _ \<Rightarrow> PyNone)
                  in if blank_id endpoint_id then Inl (RaisesRuntime ''dependency receipt has no stable vertex ID'')
                     else Inr endpoint_id))))"

fun validate_edge_endpoints ::
  "'w backend \<Rightarrow> (string \<times> pyval \<times> pyval) list \<Rightarrow> ('w, pydict option) effect" where
  "validate_edge_endpoints be [] = effect_return None"
| "validate_edge_endpoints be ((endpoint, endpoint_id, label) # checks) =
     effect_bind (effect_of (and_then (frozen_literal (be_float_text be) endpoint_id) (\<lambda>i.
         and_then (frozen_literal (be_float_text be) label) (\<lambda>l.
           Inr (''g.V('' @ i @ '').hasLabel('' @ l @ '').limit(2).elementMap()''))))) (\<lambda>query.
     effect_bind (read_elements be query) (\<lambda>elements.
       if length elements \<noteq> 1 then
         effect_return (Some [(''exists'', PyBool True), (''endpoint'', PyStr endpoint), (''id'', endpoint_id),
           (''label'', label), (''matched_count'', PyInt (int (length elements)))])
       else validate_edge_endpoints be checks))"

definition create_edge_adapter ::
  "'w backend \<Rightarrow> int \<Rightarrow> plan_record option \<Rightarrow> write_plan \<Rightarrow> operation_plan \<Rightarrow> int \<Rightarrow> ('w, apply_receipt) effect" where
  "create_edge_adapter be now record_of_plan p o' attempt =
     unless_mismatch be now p o' attempt (
       effect_bind (effect_of (resolve_endpoint_id record_of_plan o' ''source'')) (\<lambda>source_id.
       effect_bind (effect_of (resolve_endpoint_id record_of_plan o' ''target'')) (\<lambda>target_id.
       effect_bind (effect_of (mutation_of o')) (\<lambda>mutation.
       effect_bind (validate_edge_endpoints be
           [(''source'', source_id, source_label_of mutation), (''target'', target_id, target_label_of mutation)])
         (\<lambda>conflict. case conflict of
             Some observed \<Rightarrow> graph_receipt now p o' attempt apply_status.CONFLICT observed
               (Some ''ENDPOINT_STATE_CHANGED'') False False
           | None \<Rightarrow>
               (let ids = [(''source_id'', source_id), (''target_id'', target_id)]
                in create_through be now p o' attempt (read_edge be o' source_id target_id) ids ids))))))"

definition delete_vertex_adapter ::
  "'w backend \<Rightarrow> int \<Rightarrow> write_plan \<Rightarrow> operation_plan \<Rightarrow> int \<Rightarrow> ('w, apply_receipt) effect" where
  "delete_vertex_adapter be now p o' attempt =
     graph_receipt now p o' attempt apply_status.REJECTED
       [(''capability'', PyStr ''isolated_vertex_delete''), (''supported'', PyBool False)]
       (Some ''FEATURE_DISABLED'') False False"

definition delete_adapter ::
  "'w backend \<Rightarrow> int \<Rightarrow> write_plan \<Rightarrow> operation_plan \<Rightarrow> int \<Rightarrow> ('w, apply_receipt) effect" where
  "delete_adapter be now p o' attempt =
     unless_mismatch be now p o' attempt (
       effect_bind (read_delete_target be o') (\<lambda>before_write.
         if observed_absent before_write then
           graph_receipt now p o' attempt apply_status.ALREADY_APPLIED before_write None False False
         else if \<not> py_eq (PyDict before_write) (PyDict (op_expected_state o')) then
           graph_receipt now p o' attempt apply_status.CONFLICT before_write (Some ''DELETE_TARGET_CHANGED'') False False
         else
           effect_bind (effect_of (mutation_of o')) (\<lambda>mutation.
           effect_bind (write_mutation be mutation) (\<lambda>write_result.
           effect_bind (read_delete_target be o') (\<lambda>observed.
             if observed_absent observed then
               graph_receipt now p o' attempt apply_status.APPLIED observed None False True
             else post_write_receipt now p o' attempt write_result apply_status.CONFLICT observed)))))"

definition delete_edge_adapter ::
  "'w backend \<Rightarrow> int \<Rightarrow> write_plan \<Rightarrow> operation_plan \<Rightarrow> int \<Rightarrow> ('w, apply_receipt) effect" where
  "delete_edge_adapter be now p o' attempt = delete_adapter be now p o' attempt"

definition register_graph_write_adapters ::
  "'w backend \<Rightarrow> int \<Rightarrow> (string \<times> 'w adapter) list \<Rightarrow> value_error + (string \<times> 'w adapter) list" where
  "register_graph_write_adapters be now registry =
     register_adapter ''DELETE_EDGE'' (adapter_of (delete_edge_adapter be now)) registry"

section \<open>Readers\<close>

definition create_vertex_reader :: "'w backend \<Rightarrow> write_plan \<Rightarrow> operation_plan \<Rightarrow> ('w, pydict) effect" where
  "create_vertex_reader be p o' =
     effect_bind (read_vertex be o') (\<lambda>observed. effect_return (reconcile_create_state observed o'))"

definition create_edge_reader ::
  "'w backend \<Rightarrow> plan_record option \<Rightarrow> write_plan \<Rightarrow> operation_plan \<Rightarrow> ('w, pydict) effect" where
  "create_edge_reader be record_of_plan p o' =
     effect_bind (effect_of (resolve_endpoint_id record_of_plan o' ''source'')) (\<lambda>source_id.
     effect_bind (effect_of (resolve_endpoint_id record_of_plan o' ''target'')) (\<lambda>target_id.
     effect_bind (read_edge be o' source_id target_id) (\<lambda>observed.
       effect_return (reconcile_create_state observed o'))))"

definition delete_reader :: "'w backend \<Rightarrow> write_plan \<Rightarrow> operation_plan \<Rightarrow> ('w, pydict) effect" where
  "delete_reader be p o' = read_delete_target be o'"

definition register_graph_reconcile_readers ::
  "'w backend \<Rightarrow> plan_record option \<Rightarrow> (string \<times> 'w reader) list \<Rightarrow> value_error + (string \<times> 'w reader) list" where
  "register_graph_reconcile_readers be record_of_plan readers =
     and_then (register_reader ''CREATE_VERTEX'' (reader_of (create_vertex_reader be)) readers) (\<lambda>readers.
     and_then (register_reader ''CREATE_EDGE'' (reader_of (create_edge_reader be record_of_plan)) readers) (\<lambda>readers.
     and_then (register_reader ''DELETE_VERTEX'' (reader_of (delete_reader be)) readers)
       (register_reader ''DELETE_EDGE'' (reader_of (delete_reader be)))))"

end
