(* ===== verification/Graph_Execute.thy ===== *)
theory Graph_Execute
  imports Graph_Dry_Run Write_Plan
begin

text \<open>
  The executor of \<open>hugegraph_mcp/tools/graph_data_execute.py\<close>: it runs the compiled operations one by
  one and stops at the first failure. An error is the call of \<open>envelope_err\<close>, whose type is a text here
  because the code also passes names outside \<open>ErrorType\<close>; an envelope is represented without its
  \<open>meta\<close> block. The three shapes of a reply are the constructors of \<open>execution_outcome\<close>.
\<close>

record execution_error =
  xe_type :: string
  xe_message :: string
  xe_suggestion :: "string option"
  xe_retryable :: bool
  xe_details :: pyval

definition of_error_info :: "error_info \<Rightarrow> execution_error" where
  "of_error_info e = \<lparr>xe_type = error_type_value (ei_type e), xe_message = ei_message e,
     xe_suggestion = ei_suggestion e, xe_retryable = ei_retryable e, xe_details = ei_details e\<rparr>"

definition execution_err ::
  "string \<Rightarrow> string \<Rightarrow> string option \<Rightarrow> bool \<Rightarrow> pydict \<Rightarrow> execution_error" where
  "execution_err etype message suggestion retryable details =
     \<lparr>xe_type = etype, xe_message = message, xe_suggestion = suggestion, xe_retryable = retryable,
      xe_details = PyDict details\<rparr>"

definition error_value :: "execution_error \<Rightarrow> pyval" where
  "error_value e = PyDict [(''type'', PyStr (xe_type e)), (''message'', PyStr (xe_message e)),
     (''suggestion'', opt_str (xe_suggestion e)), (''retryable'', PyBool (xe_retryable e)),
     (''details'', xe_details e)]"

definition envelope_value :: "reply \<Rightarrow> pyval" where
  "envelope_value r =
     (case r of
        EnvelopeOk data \<Rightarrow> PyDict [(''ok'', PyBool True), (''data'', data), (''error'', PyNone)]
      | EnvelopeErr e \<Rightarrow> PyDict [(''ok'', PyBool False), (''data'', PyNone),
          (''error'', error_value (of_error_info e))])"

section \<open>Status of results and errors\<close>

definition apply_statuses :: "apply_status list" where
  "apply_statuses = [apply_status.APPLIED, apply_status.ALREADY_APPLIED, apply_status.REJECTED,
     apply_status.CONFLICT, apply_status.PARTIAL, apply_status.UNKNOWN,
     apply_status.LEGACY_UNKNOWN, apply_status.RETRYABLE_NOT_APPLIED]"

text \<open>\<open>ApplyStatus(value)\<close>; \<open>ValueError\<close> is caught.\<close>

definition result_apply_status :: "pydict \<Rightarrow> apply_status" where
  "result_apply_status result =
     (case map_of result ''status'' of
        None \<Rightarrow> apply_status.APPLIED
      | Some v \<Rightarrow>
          (case find (\<lambda>s. v = PyStr (plan_status_value (plan_status_of s))) apply_statuses of
             Some s \<Rightarrow> s | None \<Rightarrow> apply_status.UNKNOWN))"

definition error_apply_status :: "execution_error \<Rightarrow> apply_status" where
  "error_apply_status e =
     (if xe_type e = ''WRITE_OUTCOME_UNKNOWN'' then apply_status.UNKNOWN
      else if xe_type e \<in> {''WRITE_CONFLICT'', ''BLOCKED_BY_RELATIONSHIPS''} then apply_status.CONFLICT
      else apply_status.REJECTED)"

definition unknown_write_outcome :: "pydict \<Rightarrow> nat \<Rightarrow> pyval \<Rightarrow> execution_error" where
  "unknown_write_outcome operation operation_index cause =
     execution_err ''WRITE_OUTCOME_UNKNOWN''
       ''The write may have committed; reconcile the target state before retrying.''
       (Some ''Inspect the target by stable identity and do not replay this operation blindly.'') False
       [(''status'', PyStr (plan_status_value UNKNOWN)), (''reconciliation_required'', PyBool True),
        (''operation_index'', PyInt (int operation_index)), (''operation'', PyDict operation), (''cause'', cause)]"

text \<open>\<open>affected\<close>, else \<open>count\<close>, of the data of a successful write.\<close>

definition write_affected_count :: "pyval \<Rightarrow> py_exception + int option" where
  "write_affected_count data =
     (case data of
        PyDict d \<Rightarrow>
          (let key = (if map_of d ''affected'' \<noteq> None then Some ''affected''
                      else if map_of d ''count'' \<noteq> None then Some ''count'' else None)
           in case key of
                None \<Rightarrow> Inr None
              | Some k \<Rightarrow>
                  (case py_int (dict_get d k) of
                     Inr n \<Rightarrow> Inr (Some n)
                   | Inl IntOverflowError \<Rightarrow> Inl RaisesOverflow
                   | Inl _ \<Rightarrow> Inr None))
      | _ \<Rightarrow> Inr None)"

section \<open>Checks before a write\<close>

fun identity_conflict ::
  "'w backend \<Rightarrow> nat \<Rightarrow> (string \<times> string) list \<Rightarrow> ('w, execution_error option) effect" where
  "identity_conflict be idx [] = effect_return None"
| "identity_conflict be idx ((identity_type, query) # queries) =
     effect_bind (read_count be query) (\<lambda>r.
       case r of
         Inl e \<Rightarrow> effect_return (Some (of_error_info e))
       | Inr n \<Rightarrow>
           if n > 0 then effect_return (Some (execution_err ''INVALID_GRAPH_DATA''
             (''create_vertex '' @ identity_type @ '' identity already exists before execution.'') None False
             [(''operation_index'', PyInt (int idx)), (''identity_type'', PyStr identity_type),
              (''matched_count'', PyInt n)]))
           else identity_conflict be idx queries)"

definition create_vertex_identity_conflict ::
  "'w backend \<Rightarrow> pyval \<Rightarrow> nat \<Rightarrow> pydict \<Rightarrow> ('w, execution_error option) effect" where
  "create_vertex_identity_conflict be live_schema idx operation =
     effect_bind (effect_of (create_vertex_identity_queries (be_float_text be) operation live_schema))
       (identity_conflict be idx)"

definition missing_endpoint_ids :: "nat \<Rightarrow> pydict \<Rightarrow> execution_error option" where
  "missing_endpoint_ids idx operation =
     (let missing = filter (\<lambda>endpoint. blank_id (dict_get operation (endpoint @ ''_id''))) [''source'', ''target'']
      in if missing = [] then None
         else Some (execution_err ''INVALID_GRAPH_DATA'' ''create_edge requires dry-run compiled endpoint IDs.''
           (Some ''Run dry_run again and execute the server-issued compiled plan.'') False
           [(''operation_index'', PyInt (int idx)), (''missing_endpoint_ids'', PyList (map PyStr missing))]))"

definition execution_result :: "nat \<Rightarrow> string \<Rightarrow> pydict \<Rightarrow> pydict \<Rightarrow> apply_status \<Rightarrow> pyval \<Rightarrow> pydict" where
  "execution_result idx op operation extra st result =
     [(''operation_index'', PyInt (int idx)), (''op'', PyStr op), (''label'', dict_get operation ''label'')] @ extra @
     [(''status'', PyStr (plan_status_value (plan_status_of st))), (''result'', result)]"

text \<open>Before a deletion: the error, or the result when the target is already gone, or nothing.\<close>

definition check_delete_target ::
  "'w backend \<Rightarrow> nat \<Rightarrow> string \<Rightarrow> pydict \<Rightarrow> ('w, (execution_error + pydict) option) effect" where
  "check_delete_target be idx op operation =
     (let target_id = dict_get operation ''target_id'';
          fl = be_float_text be
      in if blank_id target_id then
           effect_return (Some (Inl (execution_err ''INVALID_GRAPH_DATA''
             (op @ '' requires a dry-run compiled target_id.'')
             (Some ''Run dry_run again and execute the server-issued compiled plan.'') False
             [(''operation_index'', PyInt (int idx))])))
         else effect_bind (effect_of (rendered fl (delete_target_query fl operation))) (\<lambda>target_query.
           effect_bind (read_count be target_query) (\<lambda>r. effect_return (case r of
             Inl e \<Rightarrow> Some (Inl (of_error_info e))
           | Inr existing \<Rightarrow>
               if existing = 0 then Some (Inr (execution_result idx op operation [(''target_id'', target_id)]
                 apply_status.ALREADY_APPLIED PyNone))
               else if existing \<noteq> 1 then Some (Inl (execution_err ''WRITE_CONFLICT''
                 (op @ '' compiled target_id resolved to an invalid count.'') None False
                 [(''operation_index'', PyInt (int idx)), (''target_id'', target_id), (''matched_count'', PyInt existing)]))
               else if op = ''delete_vertex'' \<and> map_of operation ''cascade'' = Some (PyBool True)
               then Some (Inl (execution_err ''CASCADE_NOT_ENABLED''
                 ''delete_vertex cascade=true is not enabled in this phase.''
                 (Some ''Delete associated edges explicitly, then delete the vertex with cascade=false.'') False
                 [(''operation_index'', PyInt (int idx))]))
               else None))))"

section \<open>After the write\<close>

definition ambiguous_write_errors :: "error_type list" where
  "ambiguous_write_errors = [CONNECTION_FAILED, SERVER_ERROR, TIMEOUT]"

definition check_affected ::
  "nat \<Rightarrow> string \<Rightarrow> pydict \<Rightarrow> pyval \<Rightarrow> py_exception + execution_error option" where
  "check_affected idx op operation data =
     and_then (write_affected_count data) (\<lambda>affected. Inr (case affected of
        None \<Rightarrow> Some (unknown_write_outcome operation idx
          (PyDict [(''reason'', PyStr ''unexpected affected count''), (''affected'', PyNone)]))
      | Some n \<Rightarrow>
          if n = 1 then None
          else Some (execution_err ''FLOW_EXECUTION_FAILED''
            (op @ '' execution affected '' @ show_int n @ '' element(s), expected 1.'') None False
            [(''status'', PyStr (plan_status_value REJECTED)), (''operation_index'', PyInt (int idx)),
             (''op'', PyStr op), (''affected'', PyInt n)])))"

text \<open>The target of a deletion must be gone afterwards.\<close>

definition verify_deleted ::
  "'w backend \<Rightarrow> nat \<Rightarrow> string \<Rightarrow> pydict \<Rightarrow> ('w, execution_error option) effect" where
  "verify_deleted be idx op operation =
     (let fl = be_float_text be;
          target = (''target_id'', dict_get operation ''target_id'');
          index = (''operation_index'', PyInt (int idx))
      in effect_bind (effect_of (rendered fl (delete_target_query fl operation))) (\<lambda>verify_query.
         effect_bind (read_count be verify_query) (\<lambda>r.
           case r of
             Inl e \<Rightarrow> effect_return (Some (unknown_write_outcome operation idx (envelope_value (EnvelopeErr e))))
           | Inr left \<Rightarrow>
               if left = 0 then effect_return None
               else if op = ''delete_vertex'' \<and> \<not> cascades operation then
                 effect_bind (read_count be (verify_query @ ''.bothE()'')) (\<lambda>r'. effect_return (Some (case r' of
                     Inl e \<Rightarrow> of_error_info e
                   | Inr edges \<Rightarrow>
                       if edges > 0 then execution_err ''BLOCKED_BY_RELATIONSHIPS''
                         ''delete_vertex cascade=false was blocked by associated edges.''
                         (Some ''Delete associated edges first, then retry the vertex delete.'') False
                         [index, target, (''associated_edge_count'', PyInt edges)]
                       else execution_err ''WRITE_CONFLICT''
                         ''delete_vertex conditional deletion did not remove the target.''
                         (Some ''Inspect the target state and create a new dry-run plan.'') False [index, target])))
               else effect_return (Some (execution_err ''DELETE_VERIFY_FAILED''
                 (op @ '' execution did not remove the matched element.'')
                 (Some ''Inspect the graph state and retry after confirming the match criteria.'') False
                 [index, (''op'', PyStr op), (''matched_count'', PyInt left)])))))"

section \<open>One operation\<close>

definition perform_write ::
  "'w backend \<Rightarrow> nat \<Rightarrow> string \<Rightarrow> pydict \<Rightarrow> ('w, execution_error + pydict) effect" where
  "perform_write be idx op operation =
     (let fl = be_float_text be;
          finish = (\<lambda>write_result err. effect_return (case err of
            Some e \<Rightarrow> Inl e
          | None \<Rightarrow> Inr (execution_result idx op operation [] apply_status.APPLIED (envelope_value write_result))))
      in effect_bind (effect_of (rendered fl (write_query fl operation))) (\<lambda>query.
         effect_bind (write_gremlin be query) (\<lambda>write_result.
           case write_result of
             EnvelopeErr e \<Rightarrow> effect_return (Inl
               (if ei_type e \<in> set ambiguous_write_errors
                then unknown_write_outcome operation idx (envelope_value write_result) else of_error_info e))
           | EnvelopeOk data \<Rightarrow>
               if op \<in> {''create_vertex'', ''create_edge''} then
                 effect_bind (effect_of (check_affected idx op operation data)) (finish write_result)
               else if op \<in> set WRITE_OPS then
                 effect_bind (verify_deleted be idx op operation) (finish write_result)
               else finish write_result None)))"

definition execute_operation ::
  "'w backend \<Rightarrow> pyval \<Rightarrow> nat \<Rightarrow> pydict \<Rightarrow> ('w, execution_error + pydict) effect" where
  "execute_operation be live_schema idx operation =
     (let op = op_name (be_float_text be) operation
      in if op = ''create_vertex'' then
           effect_bind (create_vertex_identity_conflict be live_schema idx operation) (\<lambda>conflict.
             case conflict of Some e \<Rightarrow> effect_return (Inl e) | None \<Rightarrow> perform_write be idx op operation)
         else if op = ''create_edge'' then
           (case missing_endpoint_ids idx operation of
              Some e \<Rightarrow> effect_return (Inl e) | None \<Rightarrow> perform_write be idx op operation)
         else if op \<in> set WRITE_OPS then
           effect_bind (check_delete_target be idx op operation) (\<lambda>verdict.
             case verdict of Some answer \<Rightarrow> effect_return answer | None \<Rightarrow> perform_write be idx op operation)
         else perform_write be idx op operation)"

section \<open>The whole plan\<close>

record failed_item =
  fi_operation_index :: nat
  fi_op :: pyval
  fi_label :: pyval
  fi_status :: apply_status
  fi_error :: execution_error

datatype execution_outcome =
    ExecutionDone plan_status "pydict list" pydict
  | ExecutionRefused execution_error
  | ExecutionStopped plan_status "pydict list" failed_item pydict

definition execution_failure ::
  "(rat \<Rightarrow> string) \<Rightarrow> execution_error \<Rightarrow> pydict \<Rightarrow> nat \<Rightarrow> pydict list \<Rightarrow> execution_outcome" where
  "execution_failure fl e operation idx results =
     (if results = [] then ExecutionRefused e
      else ExecutionStopped
        (aggregate_plan_status (map result_apply_status results @ [error_apply_status e])) results
        \<lparr>fi_operation_index = idx, fi_op = op_of operation, fi_label = dict_get operation ''label'',
         fi_status = error_apply_status e, fi_error = e\<rparr>
        (mutation_summary fl (map PyDict results)))"

fun execute_all ::
  "'w backend \<Rightarrow> pyval \<Rightarrow> pyval list \<Rightarrow> pydict list \<Rightarrow> pyval list \<Rightarrow> ('w, execution_outcome) effect" where
  "execute_all be live_schema operations results [] =
     effect_return (ExecutionDone (aggregate_plan_status (map result_apply_status results)) results
       (mutation_summary (be_float_text be) operations))"
| "execute_all be live_schema operations results (v # vs) =
     (case v of
        PyDict operation \<Rightarrow>
          effect_bind (execute_operation be live_schema (length results) operation) (\<lambda>r.
            case r of
              Inl e \<Rightarrow> effect_return (execution_failure (be_float_text be) e operation (length results) results)
            | Inr result \<Rightarrow> execute_all be live_schema operations (results @ [result]) vs)
      | _ \<Rightarrow> effect_of (Inl RaisesAttribute))"

definition execute_graph_change_plan ::
  "'w backend \<Rightarrow> pyval \<Rightarrow> pyval \<Rightarrow> ('w, execution_outcome) effect" where
  "execute_graph_change_plan be change_plan live_schema =
     (let operations = plan_operations change_plan in execute_all be live_schema operations [] operations)"

end
