(* ===== verification/Graph_Validity.thy ===== *)
theory Graph_Validity
  imports Graph_Validate
begin

text \<open>
  What validation accepts, stated without its bookkeeping: every operation conforms to the schema on
  its own, and no two vertices of the batch have an identity in common. The last theorem shows that
  the checks, which append errors one by one, report a plan as valid exactly then.
\<close>

section \<open>Conforming operations\<close>

definition keys_within :: "pydict \<Rightarrow> string \<Rightarrow> string set \<Rightarrow> bool" where
  "keys_within operation fld allowed \<longleftrightarrow>
     (case dict_get operation fld of
        PyNone \<Rightarrow> True
      | PyDict values \<Rightarrow> fst ` set values \<subseteq> allowed
      | _ \<Rightarrow> False)"

definition values_storable ::
  "text_formats \<Rightarrow> nat \<Rightarrow> pydict \<Rightarrow> string \<Rightarrow> (string \<times> property_spec) list \<Rightarrow> bool" where
  "values_storable tf idx operation item_kind specs \<longleftrightarrow>
     (case dict_get operation ''properties'' of
        PyDict values \<Rightarrow>
          (\<forall>(name, v) \<in> set values. property_value_error tf item_kind idx name v (map_of specs name) = None)
      | _ \<Rightarrow> True)"

definition identifies_vertex :: "pydict \<Rightarrow> string \<Rightarrow> pydict \<Rightarrow> bool" where
  "identifies_vertex operation fld vertex_label \<longleftrightarrow>
     (case dict_get operation fld of
        PyDict match \<Rightarrow> \<not> blank_id (dict_get match ''id'') \<or>
          (\<forall>pk \<in> set (primary_key_names vertex_label). \<not> blank_id (dict_get match pk))
      | _ \<Rightarrow> False)"

definition names_match_field :: "pydict \<Rightarrow> string \<Rightarrow> pydict \<Rightarrow> bool" where
  "names_match_field operation fld vertex_label \<longleftrightarrow>
     keys_within operation fld (label_properties vertex_label \<union> {''id''})"

definition direction_ok :: "pyval \<Rightarrow> pyval \<Rightarrow> bool" where
  "direction_ok expected v \<longleftrightarrow> \<not> py_truthy expected \<or> \<not> py_truthy v \<or> py_eq v expected"

definition conforming_vertex ::
  "text_formats \<Rightarrow> schema_index \<Rightarrow> nat \<Rightarrow> pydict \<Rightarrow> string \<Rightarrow> string \<Rightarrow> bool" where
  "conforming_vertex tf ix idx operation op label \<longleftrightarrow>
     (\<exists>vl. map_of (si_vertex_labels ix) label = Some vl \<and>
        keys_within operation ''properties'' (label_properties vl) \<and>
        names_match_field operation ''match'' vl \<and>
        (op = ''create_vertex'' \<longrightarrow> values_storable tf idx operation ''vertex'' (si_specs ix)) \<and>
        (op = ''delete_vertex'' \<longrightarrow> identifies_vertex operation ''match'' vl))"

definition conforming_edge ::
  "text_formats \<Rightarrow> schema_index \<Rightarrow> nat \<Rightarrow> pydict \<Rightarrow> string \<Rightarrow> string \<Rightarrow> bool" where
  "conforming_edge tf ix idx operation op label \<longleftrightarrow>
     (\<exists>el source target. map_of (si_edge_labels ix) label = Some el \<and>
        known_label ix (py_or (dict_get operation ''source_label'') (dict_get operation ''outVLabel'')) = Some source \<and>
        known_label ix (py_or (dict_get operation ''target_label'') (dict_get operation ''inVLabel'')) = Some target \<and>
        direction_ok (edge_schema_endpoint_label el ''source'')
          (py_or (dict_get operation ''source_label'') (dict_get operation ''outVLabel'')) \<and>
        direction_ok (edge_schema_endpoint_label el ''target'')
          (py_or (dict_get operation ''target_label'') (dict_get operation ''inVLabel'')) \<and>
        keys_within operation ''properties'' (label_properties el) \<and>
        (op = ''create_edge'' \<longrightarrow> values_storable tf idx operation ''edge'' (si_specs ix)) \<and>
        identifies_vertex operation ''source_match'' source \<and> names_match_field operation ''source_match'' source \<and>
        identifies_vertex operation ''target_match'' target \<and> names_match_field operation ''target_match'' target)"

definition conforming ::
  "(rat \<Rightarrow> string) \<Rightarrow> text_formats \<Rightarrow> schema_index \<Rightarrow> nat \<times> pyval \<Rightarrow> bool" where
  "conforming fl tf ix item \<longleftrightarrow>
     (\<exists>operation label. snd item = PyDict operation \<and> dict_get operation ''label'' = PyStr label \<and> label \<noteq> [] \<and>
        map_of operation ''set'' = None \<and>
        (if op_text fl operation \<in> set VERTEX_OPS
         then conforming_vertex tf ix (fst item) operation (op_text fl operation) label
         else op_text fl operation \<in> set ALLOWED_OPS \<and>
              conforming_edge tf ix (fst item) operation (op_text fl operation) label))"

text \<open>The identities one item adds to the batch.\<close>

definition item_identities :: "(rat \<Rightarrow> string) \<Rightarrow> schema_index \<Rightarrow> nat \<times> pyval \<Rightarrow> vertex_identity list" where
  "item_identities fl ix item =
     (case snd item of
        PyDict operation \<Rightarrow>
          (case dict_get operation ''label'' of
             PyStr label \<Rightarrow>
               if op_text fl operation = ''create_vertex''
               then (case map_of (si_vertex_labels ix) label of
                       Some vl \<Rightarrow> batch_identities label (primary_key_names vl) operation | None \<Rightarrow> [])
               else []
           | _ \<Rightarrow> [])
      | _ \<Rightarrow> [])"

section \<open>Each check against its meaning\<close>

lemma sort_key_eq_Nil: "sort_key f xs = [] \<longleftrightarrow> xs = []"
  by (metis length_0_conv length_sort)

lemma field_map_ok:
  "validate_field_map idx operation fld allowed allow_id = [] \<longleftrightarrow>
     keys_within operation fld (if allow_id then allowed \<union> {''id''} else allowed)"
  by (auto simp: validate_field_map_def keys_within_def Let_def filter_empty_conv sort_key_eq_Nil
      split: pyval.splits)

lemma map_filter_Nil: "List.map_filter f xs = [] \<longleftrightarrow> (\<forall>x \<in> set xs. f x = None)"
  by (induction xs) (auto simp: List.map_filter_simps split: option.splits)

lemma property_values_ok:
  "validate_property_values tf idx operation item_kind specs = [] \<longleftrightarrow>
     values_storable tf idx operation item_kind specs"
  by (auto simp: validate_property_values_def values_storable_def map_filter_Nil split: pyval.splits)

lemma primary_key_match_ok:
  "validate_primary_key_match idx operation fld (primary_key_names vl) = [] \<longleftrightarrow> identifies_vertex operation fld vl"
  by (auto simp: validate_primary_key_match_def identifies_vertex_def Let_def filter_empty_conv split: pyval.splits)

lemma direction_errors_ok:
  "endpoint_direction_errors fl idx operation label side expected v = [] \<longleftrightarrow> direction_ok expected v"
  by (auto simp: endpoint_direction_errors_def direction_ok_def)

lemma label_errors_ok:
  "endpoint_label_errors fl ix idx operation endpoint v = [] \<longleftrightarrow> (\<exists>vl. known_label ix v = Some vl)"
  by (auto simp: endpoint_label_errors_def)

lemma match_errors_ok:
  "known_label ix v = Some vl \<Longrightarrow> endpoint_match_errors ix idx operation fld v = [] \<longleftrightarrow>
     identifies_vertex operation fld vl \<and> names_match_field operation fld vl"
  by (simp add: endpoint_match_errors_def primary_key_match_ok field_map_ok names_match_field_def)

lemmas check_meanings = field_map_ok property_values_ok primary_key_match_ok direction_errors_ok
  label_errors_ok names_match_field_def

lemma add_errors_simps [simp]:
  "vs_errors (add_errors es st) = vs_errors st @ es"
  "vs_identities (add_errors es st) = vs_identities st"
  "vs_errors (add_warning w st) = vs_errors st"
  "vs_identities (add_warning w st) = vs_identities st"
  by (simp_all add: add_errors_def add_warning_def)

section \<open>Identities\<close>

definition seen :: "validation_state \<Rightarrow> vertex_identity set" where
  "seen st = fst ` set (vs_identities st)"

lemma seen_simps [simp]: "seen (add_errors es st) = seen st" "seen (add_warning w st) = seen st"
  by (simp_all add: seen_def)

lemma register_errors_mono: "vs_errors st \<noteq> [] \<Longrightarrow> vs_errors (foldl (register_identity idx operation) st is) \<noteq> []"
  by (induction "is" arbitrary: st) (auto simp: register_identity_def split: option.splits)

lemma register_identities:
  assumes "vs_errors st = []"
  shows "vs_errors (foldl (register_identity idx operation) st is) = [] \<longleftrightarrow> distinct is \<and> set is \<inter> seen st = {}"
    and "vs_errors (foldl (register_identity idx operation) st is) = [] \<Longrightarrow>
      seen (foldl (register_identity idx operation) st is) = seen st \<union> set is"
  using assms
proof (induction "is" arbitrary: st)
  case (Cons i "is")
  { case 1
    show ?case
    proof (cases "i \<in> seen st")
      case True
      then obtain j where "map_of (vs_identities st) i = Some j"
        by (auto simp: seen_def map_of_eq_None_iff) (metis map_of_eq_None_iff not_Some_eq image_eqI fst_conv)
      then have "vs_errors (register_identity idx operation st i) \<noteq> []"
        by (simp add: register_identity_def)
      then show ?thesis using True register_errors_mono by auto
    next
      case False
      then have "map_of (vs_identities st) i = None"
        by (simp add: seen_def map_of_eq_None_iff)
      then have "vs_errors (register_identity idx operation st i) = []"
        "seen (register_identity idx operation st i) = insert i (seen st)"
        using 1 by (auto simp: register_identity_def seen_def)
      then show ?thesis using False Cons(1) [of "register_identity idx operation st i"] by auto
    qed }
  { case 2
    show ?case
    proof (cases "map_of (vs_identities st) i")
      case None
      then have "vs_errors (register_identity idx operation st i) = []"
        "seen (register_identity idx operation st i) = insert i (seen st)"
        using 2 by (auto simp: register_identity_def seen_def)
      then show ?thesis using 2 Cons(2) [of "register_identity idx operation st i"] by auto
    next
      case (Some j)
      then have "vs_errors (register_identity idx operation st i) \<noteq> []"
        by (simp add: register_identity_def)
      then show ?thesis using 2 register_errors_mono by auto
    qed }
qed simp_all

section \<open>One operation, then all of them\<close>

text \<open>A step from a state without errors: no error means a conforming item with fresh identities.\<close>

definition accepted_step ::
  "(rat \<Rightarrow> string) \<Rightarrow> text_formats \<Rightarrow> schema_index \<Rightarrow> validation_state \<Rightarrow> nat \<times> pyval \<Rightarrow> bool" where
  "accepted_step fl tf ix st item \<longleftrightarrow>
     conforming fl tf ix item \<and> distinct (item_identities fl ix item) \<and>
     set (item_identities fl ix item) \<inter> seen st = {}"

lemma check_vertex_ok:
  assumes "vs_errors st = []" "op_text fl operation = op" "op \<in> set VERTEX_OPS"
    "dict_get operation ''label'' = PyStr label"
  shows "vs_errors (check_vertex tf ix idx operation op label st) = [] \<longleftrightarrow>
      conforming_vertex tf ix idx operation op label \<and> distinct (item_identities fl ix (idx, PyDict operation)) \<and>
      set (item_identities fl ix (idx, PyDict operation)) \<inter> seen st = {}"
    and "vs_errors (check_vertex tf ix idx operation op label st) = [] \<Longrightarrow>
      seen (check_vertex tf ix idx operation op label st) =
      seen st \<union> set (item_identities fl ix (idx, PyDict operation))"
proof -
  have "(vs_errors (check_vertex tf ix idx operation op label st) = [] \<longleftrightarrow>
      conforming_vertex tf ix idx operation op label \<and> distinct (item_identities fl ix (idx, PyDict operation)) \<and>
      set (item_identities fl ix (idx, PyDict operation)) \<inter> seen st = {}) \<and>
    (vs_errors (check_vertex tf ix idx operation op label st) = [] \<longrightarrow>
      seen (check_vertex tf ix idx operation op label st) =
      seen st \<union> set (item_identities fl ix (idx, PyDict operation)))"
  proof (cases "map_of (si_vertex_labels ix) label")
    case None
    then show ?thesis
      by (simp add: check_vertex_def conforming_vertex_def)
  next
    case (Some vl)
    define es where "es = vertex_field_errors tf ix idx operation op vl"
    define st1 where "st1 = (if primary_key_names vl = []
      then add_warning (''operation '' @ show_nat idx @ '' references vertex label '' @
        [CHR 0x27] @ label @ [CHR 0x27] @ '' with no primary_keys'') st else st)"
    have st1: "vs_errors st1 = []" "seen st1 = seen st"
      using assms(1) by (auto simp: st1_def)
    have es: "es = [] \<longleftrightarrow> keys_within operation ''properties'' (label_properties vl) \<and>
        names_match_field operation ''match'' vl \<and>
        (op = ''create_vertex'' \<longrightarrow> values_storable tf idx operation ''vertex'' (si_specs ix))"
      by (auto simp: es_def vertex_field_errors_def check_meanings)
    show ?thesis
    proof (cases "op = ''create_vertex''")
      case True
      let ?is = "batch_identities label (primary_key_names vl) operation"
      have ids: "item_identities fl ix (idx, PyDict operation) = ?is"
        using assms Some True by (simp add: item_identities_def)
      have "check_vertex tf ix idx operation op label st =
          (if es = [] then foldl (register_identity idx operation) (add_errors es st1) ?is else add_errors es st1)"
        using Some True by (simp add: check_vertex_def Let_def es_def st1_def)
      then show ?thesis
        using register_identities [of "add_errors es st1" idx operation ?is] st1 es Some True
        by (auto simp: ids conforming_vertex_def)
    next
      case False
      then have op: "op = ''delete_vertex''" using assms(3) by (simp add: VERTEX_OPS_def)
      have "check_vertex tf ix idx operation op label st =
          add_errors (validate_primary_key_match idx operation ''match'' (primary_key_names vl)) (add_errors es st1)"
        using Some op by (simp add: check_vertex_def Let_def es_def st1_def)
      then show ?thesis
        using st1 es Some op assms
        by (auto simp: conforming_vertex_def item_identities_def primary_key_match_ok)
    qed
  qed
  then show "vs_errors (check_vertex tf ix idx operation op label st) = [] \<longleftrightarrow>
      conforming_vertex tf ix idx operation op label \<and> distinct (item_identities fl ix (idx, PyDict operation)) \<and>
      set (item_identities fl ix (idx, PyDict operation)) \<inter> seen st = {}"
    "vs_errors (check_vertex tf ix idx operation op label st) = [] \<Longrightarrow>
      seen (check_vertex tf ix idx operation op label st) =
      seen st \<union> set (item_identities fl ix (idx, PyDict operation))"
    by blast+
qed

lemma check_edge_ok:
  assumes "vs_errors st = []"
  shows "vs_errors (check_edge fl tf ix idx operation op label st) = [] \<longleftrightarrow>
      conforming_edge tf ix idx operation op label"
    and "seen (check_edge fl tf ix idx operation op label st) = seen st"
  using assms
  by (auto simp: check_edge_def conforming_edge_def Let_def check_meanings match_errors_ok split: option.splits)

lemma checks_keep_errors:
  "vs_errors st \<noteq> [] \<Longrightarrow> vs_errors (check_vertex tf ix idx operation op label st) \<noteq> []"
  "vs_errors st \<noteq> [] \<Longrightarrow> vs_errors (check_edge fl tf ix idx operation op label st) \<noteq> []"
  by (simp_all add: check_vertex_def check_edge_def Let_def register_errors_mono split: option.split)

text \<open>The items whose checks get as far as the label.\<close>

definition labelled :: "(rat \<Rightarrow> string) \<Rightarrow> pyval \<Rightarrow> (pydict \<times> string) option" where
  "labelled fl v =
     (case v of
        PyDict operation \<Rightarrow>
          (case dict_get operation ''label'' of
             PyStr label \<Rightarrow>
               if op_text fl operation \<in> set ALLOWED_OPS \<and> label \<noteq> [] then Some (operation, label) else None
           | _ \<Rightarrow> None)
      | _ \<Rightarrow> None)"

lemma labelledD:
  "labelled fl v = Some (operation, label) \<Longrightarrow>
     v = PyDict operation \<and> dict_get operation ''label'' = PyStr label \<and> label \<noteq> [] \<and>
     op_text fl operation \<in> set ALLOWED_OPS"
  by (simp add: labelled_def split: pyval.splits if_splits)

lemma unlabelled_operation:
  assumes "labelled fl v = None"
  shows "vs_errors (validate_operation fl tf ix st (idx, v)) \<noteq> []"
proof (cases v)
  case (PyDict operation)
  show ?thesis
  proof (cases "op_text fl operation \<in> set ALLOWED_OPS")
    case True
    then show ?thesis
      using assms PyDict
      by (cases "dict_get operation ''label''") (simp_all add: validate_operation_def labelled_def split: if_splits)
  qed (simp add: PyDict validate_operation_def)
qed (simp_all add: validate_operation_def)

lemma labelled_operation:
  assumes "labelled fl v = Some (operation, label)"
  obtains st' where "vs_errors st' = [] \<longleftrightarrow> vs_errors st = [] \<and> map_of operation ''set'' = None"
    "map_of operation ''set'' = None \<Longrightarrow> st' = st"
    "validate_operation fl tf ix st (idx, v) =
       (if op_text fl operation \<in> set VERTEX_OPS
        then check_vertex tf ix idx operation (op_text fl operation) label st'
        else check_edge fl tf ix idx operation (op_text fl operation) label st')"
proof -
  define st' where "st' = (if map_of operation ''set'' \<noteq> None
    then add_errors [validation_error (int idx) v ''set is not supported by V1 graph data operations''
      ''Use properties for create operations, or submit update support in a later V2 change.'' None] st else st)"
  show thesis
    using labelledD [OF assms]
    by (intro that [of st']) (simp_all add: st'_def validate_operation_def Let_def)
qed

lemma errors_stay:
  assumes "vs_errors st \<noteq> []"
  shows "vs_errors (validate_operation fl tf ix st item) \<noteq> []"
proof (cases item)
  case (Pair idx v)
  show ?thesis
  proof (cases "labelled fl v")
    case (Some p)
    obtain operation label where p: "p = (operation, label)" by (cases p)
    obtain st' where "vs_errors st' \<noteq> []" "validate_operation fl tf ix st (idx, v) =
       (if op_text fl operation \<in> set VERTEX_OPS
        then check_vertex tf ix idx operation (op_text fl operation) label st'
        else check_edge fl tf ix idx operation (op_text fl operation) label st')"
      using labelled_operation [OF Some [unfolded p], of st tf ix idx] assms by metis
    then show ?thesis using Pair by (simp add: checks_keep_errors)
  qed (simp add: Pair unlabelled_operation)
qed

lemma validate_operation_ok:
  assumes "vs_errors st = []"
  shows "(vs_errors (validate_operation fl tf ix st item) = [] \<longleftrightarrow> accepted_step fl tf ix st item) \<and>
    (vs_errors (validate_operation fl tf ix st item) = [] \<longrightarrow>
       seen (validate_operation fl tf ix st item) = seen st \<union> set (item_identities fl ix item))"
proof (cases item)
  case item: (Pair idx v)
  show ?thesis
  proof (cases "labelled fl v")
    case None
    then have "\<not> conforming fl tf ix item"
      using item by (auto simp: conforming_def labelled_def VERTEX_OPS_def ALLOWED_OPS_def split: if_splits)
    then show ?thesis
      using unlabelled_operation [OF None] item by (simp add: accepted_step_def)
  next
    case (Some p)
    obtain operation label where p: "p = (operation, label)" by (cases p)
    note v = labelledD [OF Some [unfolded p]]
    obtain st' where st': "vs_errors st' = [] \<longleftrightarrow> vs_errors st = [] \<and> map_of operation ''set'' = None"
        "map_of operation ''set'' = None \<Longrightarrow> st' = st"
      and run: "validate_operation fl tf ix st (idx, v) =
       (if op_text fl operation \<in> set VERTEX_OPS
        then check_vertex tf ix idx operation (op_text fl operation) label st'
        else check_edge fl tf ix idx operation (op_text fl operation) label st')"
      using labelled_operation [OF Some [unfolded p], of st tf ix idx] by blast
    show ?thesis
    proof (cases "map_of operation ''set'' = None")
      case False
      then have "\<not> conforming fl tf ix item"
        using item v by (simp add: conforming_def)
      then show ?thesis
        using False st'(1) run item by (simp add: accepted_step_def checks_keep_errors)
    next
      case set: True
      show ?thesis
      proof (cases "op_text fl operation \<in> set VERTEX_OPS")
        case True
        then show ?thesis
          using item v set st' run check_vertex_ok [OF assms refl True, of label tf ix idx]
          by (simp add: accepted_step_def conforming_def)
      next
        case False
        then have "item_identities fl ix item = []"
          using item v by (auto simp: item_identities_def VERTEX_OPS_def)
        then show ?thesis
          using item v set st' run False check_edge_ok [OF assms, of fl tf ix idx operation "op_text fl operation" label]
          by (simp add: accepted_step_def conforming_def)
      qed
    qed
  qed
qed

lemma all_errors_stay:
  "vs_errors st \<noteq> [] \<Longrightarrow> vs_errors (foldl (validate_operation fl tf ix) st items) \<noteq> []"
  by (induction items arbitrary: st) (simp_all add: errors_stay)

lemma run_ok:
  assumes "vs_errors st = []"
  shows "vs_errors (foldl (validate_operation fl tf ix) st items) = [] \<longleftrightarrow>
    list_all (conforming fl tf ix) items \<and> distinct (concat (map (item_identities fl ix) items)) \<and>
    set (concat (map (item_identities fl ix) items)) \<inter> seen st = {}"
  using assms
proof (induction items arbitrary: st)
  case (Cons item items)
  let ?st = "validate_operation fl tf ix st item"
  note step = validate_operation_ok [OF Cons.prems, of fl tf ix item]
  show ?case
  proof (cases "vs_errors ?st = []")
    case True
    then show ?thesis
      using step Cons.IH [OF True] by (auto simp: accepted_step_def)
  next
    case False
    then show ?thesis
      using step all_errors_stay [OF False] by (auto simp: accepted_step_def)
  qed
qed simp


definition person_schema :: pyval where
  "person_schema = PyDict
     [(''propertykeys'', PyList [PyDict [(''name'', PyStr ''name''), (''data_type'', PyStr ''TEXT'')]]),
      (''vertexlabels'', PyList [PyDict [(''name'', PyStr ''person''), (''properties'', PyList [PyStr ''name'']),
         (''primary_keys'', PyList [PyStr ''name''])]])]"

definition create_person :: "string \<Rightarrow> pyval" where
  "create_person name = PyDict [(''op'', PyStr ''create_vertex''), (''label'', PyStr ''person''),
     (''properties'', PyDict [(''name'', PyStr name)])]"

definition sample_formats :: text_formats where
  "sample_formats = \<lparr>iso_date = (\<lambda>_. False), base64_text = (\<lambda>_. False)\<rparr>"

definition person_index :: schema_index where
  "person_index = (case schema_index_of (\<lambda>_. []) person_schema of Inr ix \<Rightarrow> ix
     | Inl _ \<Rightarrow> \<lparr>si_vertex_labels = [], si_edge_labels = [], si_specs = []\<rparr>)"


end
