(* ===== verification/Url_Text.thy ===== *)
theory Url_Text
  imports Json_Text Mcp_Config
begin

text \<open>
  How the Python client writes identifiers into URLs: \<open>utils/id_format.py\<close> and the parts of
  \<open>urllib.parse\<close> it uses. A quoted text is decoded by the function it comes from, so nothing of an
  identifier can act as a separator of the URL.
\<close>

section \<open>\<open>urllib.parse\<close>\<close>

text \<open>A Latin-1 character in UTF-8.\<close>

definition utf8_char :: "char \<Rightarrow> nat list" where
  "utf8_char c =
     (let n = code_point c in if n < 128 then [n] else [192 + n div 64, 128 + n mod 64])"

definition hex_char :: "nat \<Rightarrow> char" where
  "hex_char d = char_of (if d < 10 then 48 + d else 55 + d)"

text \<open>The characters that are never quoted: letters, digits and \<open>_.-~\<close>.\<close>

definition always_safe :: "nat \<Rightarrow> bool" where
  "always_safe n \<longleftrightarrow>
     (48 \<le> n \<and> n \<le> 57) \<or> (65 \<le> n \<and> n \<le> 90) \<or> (97 \<le> n \<and> n \<le> 122) \<or> n \<in> {95, 46, 45, 126}"

definition quote_byte :: "nat \<Rightarrow> string" where
  "quote_byte n = (if always_safe n then [char_of n] else [CHR ''%'', hex_char (n div 16), hex_char (n mod 16)])"

text \<open>\<open>quote(s, safe="")\<close>\<close>

definition url_quote :: "string \<Rightarrow> string" where
  "url_quote s = concat (map quote_byte (concat (map utf8_char s)))"

text \<open>\<open>quote_plus(s, safe="")\<close>\<close>

definition url_quote_plus :: "string \<Rightarrow> string" where
  "url_quote_plus s = concat (map (\<lambda>c. if c = CHR '' '' then ''+'' else url_quote [c]) s)"

text \<open>\<open>urlencode\<close> of a list of pairs.\<close>

definition urlencode :: "(rat \<Rightarrow> string) \<Rightarrow> (string \<times> pyval) list \<Rightarrow> string" where
  "urlencode fl params =
     join ''&'' (map (\<lambda>(k, v). url_quote_plus k @ ''='' @ url_quote_plus (py_str fl v)) params)"

section \<open>Identifiers\<close>

text \<open>\<open>json.dumps\<close> of a text with its default, ASCII only.\<close>

definition json_ascii_char :: "char \<Rightarrow> string" where
  "json_ascii_char c =
     (if code_point c < 127 then json_char c else [CHR 0x5C, CHR ''u''] @ hex4 (code_point c))"

definition json_ascii :: "string \<Rightarrow> string" where
  "json_ascii s = [CHR 0x22] @ concat (map json_ascii_char s) @ [CHR 0x22]"

datatype id_failure = IdTypeError string | IdValueError string

definition id_failure_text :: "id_failure \<Rightarrow> string" where
  "id_failure_text e = (case e of IdTypeError m \<Rightarrow> m | IdValueError m \<Rightarrow> m)"

definition id_exception :: "id_failure \<Rightarrow> py_exception" where
  "id_exception e = (case e of IdTypeError _ \<Rightarrow> RaisesType | IdValueError m \<Rightarrow> RaisesValue m)"

definition JAVA_LONG_MIN :: int where "JAVA_LONG_MIN = - (2 ^ 63)"

definition JAVA_LONG_MAX :: int where "JAVA_LONG_MAX = 2 ^ 63 - 1"

text \<open>The identifiers are JSON values, so there is no \<open>UUID\<close> object among them.\<close>

definition format_vertex_id :: "pyval \<Rightarrow> id_failure + string" where
  "format_vertex_id v =
     (case v of
        PyNone \<Rightarrow> Inl (IdValueError ''The vertex id can't be None'')
      | PyInt n \<Rightarrow>
          if n < JAVA_LONG_MIN \<or> n > JAVA_LONG_MAX
          then Inl (IdValueError ''The vertex id integer must fit in Java signed long range'')
          else Inr (show_int n)
      | PyStr s \<Rightarrow> Inr (json_ascii s)
      | _ \<Rightarrow> Inl (IdTypeError ''The vertex id must be either str or integer''))"

definition format_vertex_id_path :: "pyval \<Rightarrow> id_failure + string" where
  "format_vertex_id_path v = map_sum id url_quote (format_vertex_id v)"

definition format_edge_id_path :: "(rat \<Rightarrow> string) \<Rightarrow> pyval \<Rightarrow> id_failure + string" where
  "format_edge_id_path fl v =
     (if v = PyNone then Inl (IdValueError ''The edge id can't be None'') else Inr (url_quote (py_str fl v)))"

section \<open>Quoting loses nothing\<close>

definition hex_value :: "char \<Rightarrow> nat" where
  "hex_value c = (if code_point c < 65 then code_point c - 48 else code_point c - 55)"

lemma code_point_char_of: "n < 256 \<Longrightarrow> code_point (char_of n) = n"
  by (simp add: code_point_def)

lemma hex_value_char: "d < 16 \<Longrightarrow> hex_value (hex_char d) = d"
  by (auto simp: hex_value_def hex_char_def code_point_char_of)

fun url_bytes :: "string \<Rightarrow> nat list" where
  "url_bytes [] = []"
| "url_bytes (c # s) =
     (if c = CHR ''%'' then
        (case s of h # l # s' \<Rightarrow> (16 * hex_value h + hex_value l) # url_bytes s' | _ \<Rightarrow> [])
      else code_point c # url_bytes s)"

fun utf8_text :: "nat list \<Rightarrow> string" where
  "utf8_text [] = []"
| "utf8_text (n # ns) =
     (if n < 128 then char_of n # utf8_text ns
      else (case ns of m # ms \<Rightarrow> char_of (64 * (n - 192) + (m - 128)) # utf8_text ms | [] \<Rightarrow> []))"

text \<open>The decoder of a quoted text.\<close>

definition url_unquote :: "string \<Rightarrow> string" where
  "url_unquote s = utf8_text (url_bytes s)"

lemma char_of_code_point: "char_of (code_point c) = c"
  by (simp add: code_point_def)

lemma char_of_percent:
  assumes "n < (256 :: nat)"
  shows "char_of n = CHR ''%'' \<longleftrightarrow> n = 37"
proof -
  have percent: "code_point (CHR ''%'') = 37" by (simp add: code_point_def)
  show ?thesis
  proof
    assume "char_of n = CHR ''%''"
    then have "code_point (char_of n) = 37" using percent by simp
    then show "n = 37" using assms by (simp add: code_point_char_of)
  next
    assume "n = 37"
    then show "char_of n = CHR ''%''" using char_of_code_point [of "CHR ''%''"] unfolding percent by simp
  qed
qed

lemma url_bytes_quote:
  assumes "n < 256"
  shows "url_bytes (quote_byte n @ s) = n # url_bytes s"
proof (cases "always_safe n")
  case True
  then have "char_of n \<noteq> CHR ''%''" using assms by (auto simp: char_of_percent always_safe_def)
  then show ?thesis using True assms by (simp add: quote_byte_def code_point_char_of)
next
  case False
  then show ?thesis using assms by (simp add: quote_byte_def hex_value_char less_mult_imp_div_less)
qed

lemma url_bytes_quotes: "list_all (\<lambda>n. n < 256) ns \<Longrightarrow> url_bytes (concat (map quote_byte ns)) = ns"
  by (induction ns) (simp_all add: url_bytes_quote)

lemma code_point_less: "code_point c < 256"
  by (simp add: code_point_def)

lemma utf8_char_bytes: "list_all (\<lambda>n. n < 256) (utf8_char c)"
  using code_point_less [of c] by (auto simp: utf8_char_def Let_def)

lemma utf8_text_char: "utf8_text (utf8_char c @ ns) = c # utf8_text ns"
proof (cases "code_point c < 128")
  case False
  have "64 * (code_point c div 64) + code_point c mod 64 = code_point c" by simp
  then show ?thesis using False by (simp add: utf8_char_def Let_def char_of_code_point)
qed (simp add: utf8_char_def Let_def char_of_code_point)

lemma utf8_text_chars: "utf8_text (concat (map utf8_char s)) = s"
  by (induction s) (simp_all add: utf8_text_char)

lemma unquote_quote: "url_unquote (url_quote s) = s"
proof -
  have "list_all (\<lambda>n. n < 256) (concat (map utf8_char s))"
    using utf8_char_bytes by (auto simp: list_all_iff)
  then show ?thesis by (simp add: url_unquote_def url_quote_def url_bytes_quotes utf8_text_chars)
qed

lemma url_quote_inject: "url_quote s = url_quote t \<longleftrightarrow> s = t"
  by (metis unquote_quote)

text \<open>The characters a quoted text is made of.\<close>

definition segment_char :: "char \<Rightarrow> bool" where
  "segment_char c \<longleftrightarrow> always_safe (code_point c) \<or> c = CHR ''%''"

lemma segment_chars: "list_all segment_char (url_quote s)"
proof -
  have hex: "always_safe (code_point (hex_char d))" if "d < 16" for d
    using that by (auto simp: hex_char_def code_point_char_of always_safe_def)
  have "list_all segment_char (quote_byte n)" if "n < 256" for n
    using that by (auto simp: quote_byte_def segment_char_def code_point_char_of hex less_mult_imp_div_less)
  then show ?thesis
    using utf8_char_bytes by (fastforce simp: url_quote_def list_all_iff)
qed

lemma no_separator: "segment_char c \<Longrightarrow> c \<notin> set ''/?#&= +''"
  by (auto simp: segment_char_def always_safe_def code_point_def)

section \<open>Vertex identifiers are told apart\<close>

text \<open>The reading of a JSON text literal, one character at a time.\<close>

definition hex_small :: "char \<Rightarrow> nat" where
  "hex_small c = (if code_point c < 97 then code_point c - 48 else code_point c - 87)"

fun json_text :: "string \<Rightarrow> string" where
  "json_text [] = []"
| "json_text (c # s) =
     (if c \<noteq> CHR 0x5C then c # json_text s
      else case s of
          [] \<Rightarrow> []
        | e # s' \<Rightarrow>
            if e = CHR ''u'' then
              (case s' of _ # _ # h # l # s'' \<Rightarrow> char_of (16 * hex_small h + hex_small l) # json_text s'' | _ \<Rightarrow> [])
            else (if e = CHR ''n'' then CHR 0x0A else if e = CHR ''r'' then CHR 0x0D else if e = CHR ''t'' then CHR 0x09
                  else if e = CHR ''f'' then CHR 0x0C else if e = CHR ''b'' then CHR 0x08 else e) # json_text s')"

lemma hex_small_digit: "d < 16 \<Longrightarrow> hex_small (digit_char d) = d"
  by (auto simp: hex_small_def digit_char_def code_point_char_of)

lemma json_text_u: "json_text ([CHR 0x5C, CHR ''u''] @ hex4 (code_point c) @ s) = c # json_text s"
proof -
  have "code_point c div 16 mod 16 = code_point c div 16"
    using code_point_less [of c] by simp
  then show ?thesis by (simp add: hex4_def hex_small_digit char_of_code_point)
qed

lemma json_text_char: "json_text (json_ascii_char c @ s) = c # json_text s"
proof (cases "code_point c < 127 \<and> 32 \<le> code_point c")
  case False
  then show ?thesis
    using json_text_u [of c s] by (auto simp: json_ascii_char_def json_char_def)
qed (auto simp: json_ascii_char_def json_char_def)

lemma json_text_ascii: "json_text (concat (map json_ascii_char s)) = s"
  by (induction s) (simp_all add: json_text_char)

lemma json_ascii_inject: "json_ascii s = json_ascii t \<longleftrightarrow> s = t"
  by (metis json_ascii_def json_text_ascii append_same_eq same_append_eq)

section \<open>Numbers\<close>

lemma digit_value_digit_char: "d < 10 \<Longrightarrow> digit_value (digit_char d) = int d"
  by (simp add: digit_value_def digit_char_def code_point_def)

lemma digits_value_append: "digits_value (s @ [c]) = 10 * digits_value s + digit_value c"
  by (simp add: digits_value_def)

lemma digits_value_show_nat: "digits_value (show_nat n) = int n"
proof (induction n rule: show_nat.induct)
  case (1 n)
  show ?case
  proof (cases "n < 10")
    case True
    then show ?thesis by (subst show_nat.simps) (simp add: digits_value_def digit_value_digit_char)
  next
    case False
    then have "digits_value (show_nat n) = 10 * int (n div 10) + int (n mod 10)"
      using 1 by (subst show_nat.simps) (simp add: digits_value_append digit_value_digit_char)
    then show ?thesis by (simp flip: of_nat_mult of_nat_add add: zdiv_int zmod_int)
  qed
qed

lemma show_nat_digits: "\<forall>c \<in> set (show_nat n). 48 \<le> code_point c \<and> code_point c \<le> 57"
proof (induction n rule: show_nat.induct)
  case (1 n)
  then show ?case
    by (subst show_nat.simps) (auto simp: digit_char_def code_point_char_of)
qed

lemma no_digit: "code_point c < 48 \<Longrightarrow> c \<notin> set (show_nat n)"
  using show_nat_digits [of n] by fastforce

lemma minus_no_digit: "CHR ''-'' \<notin> set (show_nat n)"
  by (rule no_digit) (simp add: code_point_def)

lemma quote_no_digit: "CHR 0x22 \<notin> set (show_nat n)"
  by (rule no_digit) (simp add: code_point_def)

lemma show_nat_inject: "show_nat n = show_nat m \<longleftrightarrow> n = m"
  by (metis digits_value_show_nat of_nat_eq_iff)

lemma minus_show_nat: "CHR ''-'' # s \<noteq> show_nat n"
  using minus_no_digit [of n] by (metis list.set_intros(1))

lemma show_int_inject: "show_int n = show_int m \<longleftrightarrow> n = m"
proof (cases "n < 0"; cases "m < 0")
  assume "n < 0" "\<not> m < 0"
  then show ?thesis using minus_show_nat [of "show_nat (nat (- n))" "nat m"] by (auto simp: show_int_def)
next
  assume "\<not> n < 0" "m < 0"
  then show ?thesis using minus_show_nat [of "show_nat (nat (- m))" "nat n"] by (auto simp: show_int_def)
qed (simp_all add: show_int_def show_nat_inject eq_nat_nat_iff)

lemma json_ascii_no_int: "json_ascii t \<noteq> show_int n"
proof -
  have "CHR 0x22 \<in> set (json_ascii t)" by (simp add: json_ascii_def)
  moreover have "CHR 0x22 \<notin> set (show_int n)" by (simp add: show_int_def quote_no_digit)
  ultimately show ?thesis by metis
qed

lemma format_vertex_id_inject:
  assumes "format_vertex_id v = Inr s" "format_vertex_id w = Inr s"
  shows "v = w"
  using assms json_ascii_no_int [symmetric] json_ascii_no_int
  by (auto simp: format_vertex_id_def split: pyval.split_asm if_split_asm)
    (simp_all only: json_ascii_inject show_int_inject)

section \<open>Paths\<close>

lemma format_vertex_id_path_Inr:
  "format_vertex_id_path v = Inr p \<longleftrightarrow> (\<exists>s. format_vertex_id v = Inr s \<and> p = url_quote s)"
proof (cases "format_vertex_id v")
  case (Inr s)
  then show ?thesis unfolding format_vertex_id_path_def by (simp only: map_sum.simps sum.inject) blast
qed (simp add: format_vertex_id_path_def)

text \<open>
  An identifier stays in its path segment and is not mistaken for another one. The segment a
  vertex identifier is formatted to contains no character that separates or ends a path, unquoting it
  gives back the formatted identifier, and no other identifier, of whatever type, has the same
  segment: the number 123 and the text ''123'' are told apart. The segment of an edge identifier
  unquotes to the text of the identifier.
\<close>

theorem identifier_stays_in_its_segment:
  "(format_vertex_id_path v = Inr p \<longrightarrow>
      list_all segment_char p \<and> format_vertex_id v = Inr (url_unquote p) \<and>
      (\<forall>w. format_vertex_id_path w = Inr p \<longrightarrow> w = v)) \<and>
   (format_edge_id_path fl v = Inr q \<longrightarrow> list_all segment_char q \<and> url_unquote q = py_str fl v)"
proof (intro conjI impI allI)
  assume "format_vertex_id_path v = Inr p"
  then obtain s where s: "format_vertex_id v = Inr s" "p = url_quote s" by (auto simp only: format_vertex_id_path_Inr)
  show "list_all segment_char p" unfolding s(2) by (rule segment_chars)
  show "format_vertex_id v = Inr (url_unquote p)" unfolding s(2) unquote_quote by (rule s(1))
  fix w assume "format_vertex_id_path w = Inr p"
  then obtain t where t: "format_vertex_id w = Inr t" "p = url_quote t" by (auto simp only: format_vertex_id_path_Inr)
  have "t = s" using s(2) t(2) by (simp only: url_quote_inject)
  with t(1) show "w = v" using format_vertex_id_inject s(1) by blast
next
  assume q: "format_edge_id_path fl v = Inr q"
  then have "q = url_quote (py_str fl v)" by (simp add: format_edge_id_path_def split: if_split_asm)
  then show "list_all segment_char q" "url_unquote q = py_str fl v" by (simp_all only: segment_chars unquote_quote)
qed

theorem identifier_stays_in_its_segment_witness:
  "\<exists>p. format_vertex_id_path (PyStr ''a/b'') = Inr p \<and> list_all segment_char p \<and> url_unquote p = json_ascii ''a/b'' \<and>
     format_vertex_id_path (PyInt 7) \<noteq> Inr p"
proof (intro exI conjI)
  have fmt: "format_vertex_id (PyStr ''a/b'') = Inr (json_ascii ''a/b'')"
    by (simp only: format_vertex_id_def pyval.case)
  then show run: "format_vertex_id_path (PyStr ''a/b'') = Inr (url_quote (json_ascii ''a/b''))"
    by (simp only: format_vertex_id_path_def map_sum.simps)
  note facts = identifier_stays_in_its_segment [THEN conjunct1, rule_format, OF run]
  show "list_all segment_char (url_quote (json_ascii ''a/b''))" using facts by blast
  show "url_unquote (url_quote (json_ascii ''a/b'')) = json_ascii ''a/b''"
    using facts unfolding fmt by (simp only: sum.inject)
  show "format_vertex_id_path (PyInt 7) \<noteq> Inr (url_quote (json_ascii ''a/b''))" using facts by blast
qed

text \<open>
  How \<open>urllib.parse\<close> takes a URL apart and joins a reference to a base: \<open>urlsplit\<close>, \<open>urlparse\<close>,
  \<open>urlunparse\<close> and \<open>urljoin\<close>. A clean path, which has no separators but slashes and no dot segments, is
  appended to its base as it is.
\<close>

section \<open>Taking apart\<close>

text \<open>The scheme and the authority \<open>urlsplit\<close> finds; an authority it rejects is one it has found.\<close>

definition url_text :: "string \<Rightarrow> string" where
  "url_text p = filter (\<lambda>c. c \<notin> {CHR 0x09, CHR 0x0A, CHR 0x0D}) (dropWhile (\<lambda>c. code_point c \<le> 32) p)"

definition url_letter :: "char \<Rightarrow> bool" where
  "url_letter c \<longleftrightarrow> (CHR ''a'' \<le> c \<and> c \<le> CHR ''z'') \<or> (CHR ''A'' \<le> c \<and> c \<le> CHR ''Z'')"

definition scheme_char :: "char \<Rightarrow> bool" where
  "scheme_char c \<longleftrightarrow> url_letter c \<or> (CHR ''0'' \<le> c \<and> c \<le> CHR ''9'') \<or> c \<in> {CHR ''+'', CHR ''-'', CHR ''.''}"

definition url_scheme :: "string \<Rightarrow> string option" where
  "url_scheme url =
     (let scheme = takeWhile (\<lambda>c. c \<noteq> CHR '':'') url in
      if scheme \<noteq> [] \<and> CHR '':'' \<in> set url \<and> url_letter (hd url) \<and> list_all scheme_char scheme then Some scheme else None)"

definition has_authority :: "string \<Rightarrow> bool" where
  "has_authority rest \<longleftrightarrow>
     take 2 rest = ''//'' \<and> takeWhile (\<lambda>c. c \<notin> {CHR ''/'', CHR ''?'', CHR ''#''}) (drop 2 rest) \<noteq> []"


record url_parts =
  up_scheme :: string
  up_netloc :: string
  up_path :: string
  up_params :: string
  up_query :: string
  up_fragment :: string

definition uses_relative :: "string list" where
  "uses_relative =
     [[], ''ftp'', ''http'', ''gopher'', ''nntp'', ''imap'', ''wais'', ''file'', ''https'', ''shttp'', ''mms'', ''prospero'',
      ''rtsp'', ''rtsps'', ''rtspu'', ''sftp'', ''svn'', ''svn+ssh'', ''ws'', ''wss'']"

definition uses_params :: "string list" where
  "uses_params =
     [[], ''ftp'', ''hdl'', ''prospero'', ''http'', ''imap'', ''https'', ''shttp'', ''rtsp'', ''rtsps'', ''rtspu'', ''sip'',
      ''sips'', ''mms'', ''sftp'', ''tel'']"

definition split_at :: "char \<Rightarrow> string \<Rightarrow> string \<times> string" where
  "split_at c s = (takeWhile (\<lambda>x. x \<noteq> c) s, drop 1 (dropWhile (\<lambda>x. x \<noteq> c) s))"

definition last_segment :: "string \<Rightarrow> string" where
  "last_segment path = rev (takeWhile (\<lambda>x. x \<noteq> CHR ''/'') (rev path))"

definition split_params :: "string \<Rightarrow> string \<Rightarrow> string \<times> string" where
  "split_params scheme path =
     (let s = last_segment path in
      if scheme \<in> set uses_params \<and> CHR '';'' \<in> set s
      then (take (length path - length s) path @ fst (split_at (CHR '';'') s), snd (split_at (CHR '';'') s))
      else (path, []))"

definition url_parse :: "string \<Rightarrow> string \<Rightarrow> url_parts" where
  "url_parse scheme0 url0 =
     (let url = url_text url0;
          scheme = (case url_scheme url of Some s \<Rightarrow> py_lower s | None \<Rightarrow> scheme0);
          rest = (case url_scheme url of Some s \<Rightarrow> drop (Suc (length s)) url | None \<Rightarrow> url);
          netloc = (if take 2 rest = ''//'' then takeWhile (\<lambda>c. c \<notin> {CHR ''/'', CHR ''?'', CHR ''#''}) (drop 2 rest) else []);
          rest = (if take 2 rest = ''//'' then drop (2 + length netloc) rest else rest);
          (rest, fragment) = split_at (CHR ''#'') rest;
          (path, query) = split_at (CHR ''?'') rest;
          (path, params) = split_params scheme path
      in \<lparr>up_scheme = scheme, up_netloc = netloc, up_path = path, up_params = params, up_query = query, up_fragment = fragment\<rparr>)"

definition url_unparse :: "url_parts \<Rightarrow> string" where
  "url_unparse u =
     (let url = up_path u @ (if up_params u = [] then [] else '';'' @ up_params u);
          url = (if up_netloc u \<noteq> [] \<or> (up_scheme u \<noteq> [] \<and> take 2 url \<noteq> ''//'')
                 then ''//'' @ up_netloc u @ (if url \<noteq> [] \<and> take 1 url \<noteq> ''/'' then ''/'' else []) @ url else url)
      in (if up_scheme u = [] then [] else up_scheme u @ '':'') @ url @
         (if up_query u = [] then [] else ''?'' @ up_query u) @ (if up_fragment u = [] then [] else ''#'' @ up_fragment u))"

section \<open>Joining\<close>

fun split_on :: "char \<Rightarrow> string \<Rightarrow> string list" where
  "split_on c [] = [[]]"
| "split_on c (x # xs) =
     (if x = c then [] # split_on c xs else (case split_on c xs of y # ys \<Rightarrow> (x # y) # ys | [] \<Rightarrow> [[x]]))"

text \<open>\<open>segments[1:-1] = filter(None, segments[1:-1])\<close>\<close>

definition squeeze :: "string list \<Rightarrow> string list" where
  "squeeze segs =
     (if length segs < 2 then segs else hd segs # filter (\<lambda>s. s \<noteq> []) (butlast (tl segs)) @ [last segs])"

definition walk_segment :: "string list \<Rightarrow> string \<Rightarrow> string list" where
  "walk_segment walked s = (if s = ''..'' then butlast walked else if s = ''.'' then walked else walked @ [s])"

definition resolved_path :: "string \<Rightarrow> string \<Rightarrow> string" where
  "resolved_path base path =
     (let base_parts = split_on (CHR ''/'') base;
          base_parts = (if last base_parts = [] then base_parts else butlast base_parts);
          segs = (if take 1 path = ''/'' then split_on (CHR ''/'') path else squeeze (base_parts @ split_on (CHR ''/'') path));
          walked = foldl walk_segment [] segs @ (if last segs \<in> {''.'', ''..''} then [[]] else []);
          text_of = join ''/'' walked
      in if text_of = [] then ''/'' else text_of)"

definition urljoin :: "string \<Rightarrow> string \<Rightarrow> string" where
  "urljoin base url =
     (if base = [] then url else if url = [] then base
      else let b = url_parse [] base; u = url_parse (up_scheme b) url in
        if up_scheme u \<noteq> up_scheme b \<or> up_scheme u \<notin> set uses_relative then url
        else if up_netloc u \<noteq> [] then url_unparse u
        else let u = u\<lparr>up_netloc := up_netloc b\<rparr> in
          if up_path u = [] \<and> up_params u = []
          then url_unparse (u\<lparr>up_path := up_path b, up_params := up_params b,
            up_query := if up_query u = [] then up_query b else up_query u\<rparr>)
          else url_unparse (u\<lparr>up_path := resolved_path (up_path b) (up_path u)\<rparr>))"

end
