(* ===== verification/Graph_Compilation.thy ===== *)
theory Graph_Compilation
  imports Graph_Plan Graph_Validity Url_Text
begin

text \<open>
  The way of a change plan from the request to the durable write plan: the dry run sends only read
  queries, what it compiled is accepted as a write plan, and one way in which the plan can differ
  from what the dry run showed.
\<close>

section \<open>The dry run only reads\<close>

lemma count_endpoint_keeps [effect_rules]:
  "safe_queries_keep I be \<Longrightarrow> effect_keeps I (count_endpoint be idx operation op q st)"
  unfolding count_endpoint_def by (intro effect_rules)

lemma resolve_endpoint_keeps [effect_rules]:
  "safe_queries_keep I be \<Longrightarrow> effect_keeps I (resolve_endpoint be idx operation op planned q st)"
  unfolding resolve_endpoint_def Let_def by (intro effect_rules)

lemma append_endpoints_keeps [effect_rules]:
  "safe_queries_keep I be \<Longrightarrow> effect_keeps I (append_edge_endpoint_counts be idx operation op item planned)"
  unfolding append_edge_endpoint_counts_def Let_def
  by (cases planned) (auto intro!: effect_rules)

lemma identity_counts_keeps [effect_rules]:
  "safe_queries_keep I be \<Longrightarrow> effect_keeps I (identity_counts be idx operation queries st)"
  by (induction queries arbitrary: st) (auto intro!: effect_rules)

lemma check_incident_edges_keeps [effect_rules]:
  "safe_queries_keep I be \<Longrightarrow> effect_keeps I (check_incident_edges be idx operation matched v st)"
  unfolding check_incident_edges_def Let_def by (intro effect_rules)

lemma preview_target_keeps [effect_rules]:
  "safe_queries_keep I be \<Longrightarrow> effect_keeps I (preview_target be idx operation op item)"
  unfolding preview_target_def Let_def by (intro effect_rules)

lemma preview_operation_keeps [effect_rules]:
  "safe_queries_keep I be \<Longrightarrow> effect_keeps I (preview_operation be live_schema idx planned operation)"
  unfolding preview_operation_def preview_create_edge_def preview_create_vertex_def Let_def
  by (intro effect_rules)

lemma preview_all_keeps [effect_rules]:
  "safe_queries_keep I be \<Longrightarrow> effect_keeps I (preview_all be live_schema planned ops)"
  by (induction ops arbitrary: planned) (auto intro!: effect_rules split: pyval.split)

lemma dry_run_keeps [effect_rules]:
  "safe_queries_keep I be \<Longrightarrow> effect_keeps I (dry_run_graph_change_plan sha tf be change_plan live_schema extra)"
  unfolding dry_run_graph_change_plan_def Let_def by (intro effect_rules)

text \<open>
  A dry run never writes. Whatever the plan, the schema and the answers of the server, a dry
  run keeps every property of the world that the safe read queries keep: no other query is sent.
\<close>

theorem dry_run_only_reads:
  assumes "safe_queries_keep I be" "I w"
  shows "I (snd (dry_run_graph_change_plan sha tf be change_plan live_schema extra w))"
  by (rule keepsD [OF dry_run_keeps [OF assms(1)] assms(2)])

section \<open>Dependencies\<close>

text \<open>The operation index a compiled operation holds for an endpoint names an earlier operation.\<close>

definition earlier_index :: "nat \<Rightarrow> pyval \<Rightarrow> bool" where
  "earlier_index n v \<longleftrightarrow> v = PyNone \<or> (\<exists>i < n. v = PyInt (int i))"

definition earlier_endpoints :: "nat \<Rightarrow> pydict \<Rightarrow> bool" where
  "earlier_endpoints n d \<longleftrightarrow>
     earlier_index n (dict_get d ''source_operation_index'') \<and> earlier_index n (dict_get d ''target_operation_index'')"

lemma dict_get_update: "dict_get (AList.update k v d) k' = (if k' = k then v else dict_get d k')"
  by (simp add: dict_get_def update_conv')

lemma endpoint_state_simps [simp]:
  "es_compiled (endpoint_error idx operation why s st) = es_compiled st"
  "es_compiled (note_item key v st) = es_compiled st"
  "es_compiled (compile_item key v st) = AList.update key v (es_compiled st)"
  "es_errors (note_item key v st) = es_errors st"
  "es_errors (compile_item key v st) = es_errors st"
  by (simp_all add: endpoint_error_def note_item_def compile_item_def)

lemma planned_indexes_earlier: "i \<in> set (planned_endpoint_indexes fl operation endpoint planned) \<Longrightarrow> i < length planned"
  by (auto simp: planned_endpoint_indexes_def in_set_enumerate_eq)

lemma earlier_update:
  assumes "earlier_endpoints n d"
    and "key \<in> {''source_operation_index'', ''target_operation_index''} \<Longrightarrow> earlier_index n v"
  shows "earlier_endpoints n (AList.update key v d)"
  using assms by (auto simp: earlier_endpoints_def dict_get_update)

lemma resolve_endpoint_earlier:
  assumes "earlier_endpoints (length planned) (es_compiled st)" "endpoint \<in> {''source'', ''target''}"
  shows "effect_ensures (\<lambda>st'. earlier_endpoints (length planned) (es_compiled st'))
    (resolve_endpoint be idx operation op planned (endpoint, query) st)"
proof -
  have id: "earlier_endpoints (length planned) (AList.update (endpoint @ ''_id'') v d)"
    if "earlier_endpoints (length planned) d" for v d
    using that assms(2) by (intro earlier_update) auto
  have index: "earlier_endpoints (length planned)
      (AList.update (endpoint @ ''_operation_index'') (PyInt (int i)) (es_compiled st))"
    if "planned_endpoint_indexes (be_float_text be) operation endpoint planned = i # rest" for i rest
    using assms(1) that planned_indexes_earlier [of i "be_float_text be" operation endpoint planned]
    by (intro earlier_update) (auto simp: earlier_index_def)
  show ?thesis
    using assms(1) id index unfolding resolve_endpoint_def Let_def prod.case
    by (intro effect_ensures_bind [OF effect_ensures_any]) (auto split: sum.split list.split)
qed

lemma count_endpoint_compiled:
  "effect_ensures (\<lambda>st'. es_compiled st' = es_compiled st) (count_endpoint be idx operation op q st)"
  unfolding count_endpoint_def Let_def
  by (cases q) (auto intro!: effect_ensures_bind [OF effect_ensures_any] split: sum.split)

lemma append_endpoints_earlier:
  assumes "earlier_endpoints n operation" "\<And>earlier. planned = Some earlier \<Longrightarrow> n = length earlier"
  shows "effect_ensures (\<lambda>st. earlier_endpoints n (es_compiled st))
    (append_edge_endpoint_counts be idx operation op item planned)"
proof (cases planned)
  case None
  then show ?thesis
    using assms(1) unfolding append_edge_endpoint_counts_def Let_def
    by (auto intro!: effect_ensures_bind [OF effect_ensures_any] effect_ensures_bind [OF count_endpoint_compiled]
        intro: effect_ensures_mono [OF count_endpoint_compiled])
next
  case (Some earlier)
  then have "n = length earlier" using assms(2) by blast
  then have run: "effect_ensures (\<lambda>st. earlier_endpoints n (es_compiled st))
      (effect_bind (resolve_endpoint be idx operation op earlier (''source'', source)
          \<lparr>es_item = item, es_errors = [], es_compiled = operation, es_failed = False\<rparr>)
        (resolve_endpoint be idx operation op earlier (''target'', target)))" for source target
    using assms(1) by (auto intro!: effect_ensures_bind [OF resolve_endpoint_earlier] resolve_endpoint_earlier)
  show ?thesis
    unfolding append_edge_endpoint_counts_def Let_def Some option.case
    by (rule effect_ensures_bind [OF effect_ensures_any], rule effect_ensures_bind [OF effect_ensures_any], rule run)
qed

lemma identity_counts_compiled:
  "effect_ensures (\<lambda>st'. es_compiled st' = es_compiled st) (identity_counts be idx operation queries st)"
proof (induction queries arbitrary: st)
  case (Cons q queries)
  show ?case
    by (cases q) (auto intro!: effect_ensures_bind [OF effect_ensures_any] intro: effect_ensures_mono [OF Cons.IH]
        split: sum.split simp: Let_def)
qed simp

lemma check_incident_edges_compiled:
  "effect_ensures (\<lambda>st'. es_compiled st' = es_compiled st) (check_incident_edges be idx operation matched v st)"
  unfolding check_incident_edges_def Let_def
  by (auto intro!: effect_ensures_bind [OF effect_ensures_any] split: sum.split)

lemma preview_target_earlier:
  assumes "earlier_endpoints n operation"
  shows "effect_ensures (\<lambda>p. earlier_endpoints n (op_compiled p)) (preview_target be idx operation op item)"
proof -
  have target: "earlier_endpoints n (AList.update ''target_id'' v operation)" for v
    using assms by (intro earlier_update) auto
  show ?thesis
    using assms target unfolding preview_target_def Let_def
    by (intro effect_ensures_bind [OF effect_ensures_any])
      (auto simp: preview_of_def split: sum.split intro!: effect_ensures_bind [OF check_incident_edges_compiled])
qed

lemma preview_operation_earlier:
  assumes "earlier_endpoints (length planned) operation" "idx = length planned"
  shows "effect_ensures (\<lambda>p. earlier_endpoints (length planned) (op_compiled p))
    (preview_operation be live_schema idx planned operation)"
proof -
  let ?P = "\<lambda>p. earlier_endpoints (length planned) (op_compiled p)"
  have edge: "effect_ensures ?P (preview_create_edge be idx planned operation item)" for item
    unfolding preview_create_edge_def
    by (rule effect_ensures_bind [OF append_endpoints_earlier [OF assms(1)]]) (simp_all add: preview_of_def)
  have vertex: "effect_ensures ?P (preview_create_vertex be live_schema idx operation item)" for item
    unfolding preview_create_vertex_def
    by (rule effect_ensures_bind [OF effect_ensures_any], rule effect_ensures_bind [OF identity_counts_compiled])
      (simp add: preview_of_def assms)
  have delete: "effect_ensures ?P (effect_bind (append_edge_endpoint_counts be idx operation op item None)
      (\<lambda>st. if es_failed st then effect_return (preview_of (es_item st) st)
        else effect_bind (preview_target be idx operation op' (es_item st)) (\<lambda>p.
          effect_return (p\<lparr>op_errors := es_errors st @ op_errors p\<rparr>))))" for op op' item
    by (rule effect_ensures_bind [OF append_endpoints_earlier [OF assms(1)]])
      (auto simp: preview_of_def intro!: effect_ensures_bind [OF preview_target_earlier [OF assms(1)]])
  show ?thesis
    unfolding preview_operation_def Let_def
    using assms(1) by (auto intro: edge vertex delete preview_target_earlier)
qed

text \<open>No operation of the request names an endpoint by an index of its own.\<close>

definition no_endpoint_index :: "pyval \<Rightarrow> bool" where
  "no_endpoint_index v \<longleftrightarrow>
     (case v of
        PyDict d \<Rightarrow> dict_get d ''source_operation_index'' = PyNone \<and> dict_get d ''target_operation_index'' = PyNone
      | _ \<Rightarrow> True)"

lemma preview_all_earlier:
  assumes "list_all no_endpoint_index ops"
  shows "effect_ensures (\<lambda>ps. length ps = length ops \<and>
      (\<forall>k < length ps. earlier_endpoints (length planned + k) (op_compiled (ps ! k))))
    (preview_all be live_schema planned ops)"
  using assms
proof (induction ops arbitrary: planned)
  case (Cons v ops)
  show ?case
  proof (cases v)
    case (PyDict operation)
    have "earlier_endpoints (length planned) operation"
      using Cons.prems PyDict by (simp add: no_endpoint_index_def earlier_endpoints_def earlier_index_def)
    note first = preview_operation_earlier [OF this refl, of be live_schema]
    have rest: "effect_ensures (\<lambda>ps. length ps = length ops \<and>
        (\<forall>k < length ps. earlier_endpoints (length planned + Suc k) (op_compiled (ps ! k))))
      (preview_all be live_schema (planned @ [v]) ops)"
      using Cons.IH [of "planned @ [v]"] Cons.prems by simp
    show ?thesis
      using PyDict
      by (auto simp: less_Suc_eq_0_disj intro!: effect_ensures_bind [OF first]
          effect_ensures_bind [OF rest [unfolded PyDict]])
  qed (simp_all add: effect_ensures_def effect_of_def)
qed simp

section \<open>What was compiled is accepted\<close>

lemma compile_all_Inr:
  "compile_all f xs = Inr ys \<longleftrightarrow> length ys = length xs \<and> (\<forall>k < length xs. f (xs ! k) = Inr (ys ! k))"
proof (induction xs arbitrary: ys)
  case (Cons x xs)
  then show ?case
    by (cases ys) (auto simp: and_then_eq_Inr All_less_Suc2)
qed auto

lemma plan_operation_Inr:
  "plan_operation digest i kind target expected desired deps = Inr o' \<Longrightarrow>
     op_operation_id o' = i \<and> op_depends_on o' = deps"
  by (auto simp: plan_operation_def make_operation_plan_def split: if_splits)

lemma endpoint_target_earlier:
  assumes "endpoint_target raw endpoint ids = Inr (target, deps)"
    and "earlier_index n (dict_get raw (endpoint @ ''_operation_index''))" "n \<le> length ids"
  shows "set deps \<subseteq> (!) ids ` {..<n}"
  using assms by (auto simp: endpoint_target_def Let_def earlier_index_def py_index_def split: if_splits)

lemma compile_operation_earlier:
  assumes "compile_operation digest fl live_schema ids (k, PyDict raw) = Inr o'"
    and "earlier_endpoints n raw" "n \<le> length ids"
  shows "op_operation_id o' = ids ! k \<and> set (op_depends_on o') \<subseteq> (!) ids ` {..<n}"
proof -
  have edge: "op_operation_id o' = ids ! k \<and> set (op_depends_on o') \<subseteq> (!) ids ` {..<n}"
    if created: "compile_create_edge digest fl raw (ids ! k) ids live_schema = Inr o'"
  proof -
    obtain source sdeps target tdeps where
      e: "endpoint_target raw ''source'' ids = Inr (source, sdeps)"
        "endpoint_target raw ''target'' ids = Inr (target, tdeps)"
      and o': "op_operation_id o' = ids ! k" "op_depends_on o' = rev (remdups (rev (sdeps @ tdeps)))"
      using created by (auto simp: compile_create_edge_def and_then_eq_Inr split_paired_Ex dest!: plan_operation_Inr)
    have "set sdeps \<union> set tdeps \<subseteq> (!) ids ` {..<n}"
      using endpoint_target_earlier [OF e(1)] endpoint_target_earlier [OF e(2)] assms(2,3)
      by (auto simp: earlier_endpoints_def)
    then show ?thesis using o' by auto
  qed
  show ?thesis
    using assms(1) edge
    by (auto simp: compile_operation_def compile_create_vertex_def compile_delete_def and_then_eq_Inr Let_def
        split: if_splits dest!: plan_operation_Inr)
qed

text \<open>Operation ids are distinct: four digits, or more, of a number determine it.\<close>

lemma digits_value_zeros: "digits_value (replicate k CHR ''0'' @ s) = digits_value s"
  by (induction k) (simp_all add: digits_value_def digit_value_def code_point_def)

lemma operation_id_inject: "operation_id_at plan_id i = operation_id_at plan_id j \<longleftrightarrow> i = j"
proof
  assume "operation_id_at plan_id i = operation_id_at plan_id j"
  then have "digits_value (pad4 i) = digits_value (pad4 j)"
    by (simp add: operation_id_at_def)
  then show "i = j" by (simp add: pad4_def digits_value_zeros digits_value_show_nat)
qed simp


section \<open>Sample runs\<close>

definition social_schema :: pyval where
  "social_schema = PyDict
     [(''vertexlabels'', PyList [PyDict [(''name'', PyStr ''person''), (''properties'', PyList [PyStr ''name'']),
         (''primary_keys'', PyList [PyStr ''name''])]]),
      (''edgelabels'', PyList [PyDict [(''name'', PyStr ''knows''), (''source_label'', PyStr ''person''),
         (''target_label'', PyStr ''person'')]])]"

definition knows_edge :: "string \<Rightarrow> string \<Rightarrow> pydict" where
  "knows_edge source target =
     [(''op'', PyStr ''create_edge''), (''label'', PyStr ''knows''),
      (''source_label'', PyStr ''person''), (''target_label'', PyStr ''person''),
      (''source_match'', PyDict [(''name'', PyStr source)]), (''target_match'', PyDict [(''name'', PyStr target)])]"

text \<open>A server that holds the person \<open>a\<close> and nothing else; its world records whether an unsafe query came.\<close>

definition one_person_backend :: "bool backend" where
  "one_person_backend = \<lparr>be_env = (\<lambda>_. None),
     be_client = (\<lambda>w query. (Inr (if py_contains ''.count()'' query then PyList [PyInt 0]
        else if py_contains (quoted ''a'') query then PyList [PyStr ''1:a''] else PyList []),
        w \<or> classify_gremlin_read_safety query \<noteq> Safe)),
     be_duration = 0, be_float_text = (\<lambda>_. []), be_response_true = (\<lambda>_. True)\<rparr>"

theorem dry_run_only_reads_witness:
  "safe_queries_keep (\<lambda>w. \<not> w) one_person_backend \<and>
   \<not> snd (dry_run_graph_change_plan (\<lambda>_. []) sample_formats one_person_backend
      (PyList [create_person ''b'']) social_schema None False)"
proof -
  have safe: "safe_queries_keep (\<lambda>w. \<not> w) one_person_backend"
    by (simp add: safe_queries_keep_def one_person_backend_def)
  show ?thesis
    by (rule conjI [OF safe]) (rule dry_run_only_reads [OF safe], simp)
qed

definition new_person :: pyval where
  "new_person = PyDict [(''op'', PyStr ''create_vertex''), (''label'', PyStr ''person''), (''id'', PyStr ''2:b'')]"


text \<open>
  An index the caller put into an edge survives the dry run. The dry run resolves the source of
  this edge to the backend id of the person \<open>a\<close> and shows it; but the caller's own
  \<open>source_operation_index\<close> stays in the compiled operation, and compiling prefers it, so the write
  plan starts the edge at the vertex that operation 0 creates, the person \<open>b\<close>.
\<close>

theorem caller_index_overrides_the_preview:
  "case preview_all one_person_backend social_schema []
      [create_person ''b'', PyDict (knows_edge ''a'' ''b'' @ [(''source_operation_index'', PyInt 0)])] False of
     (Inr [_, p], _) \<Rightarrow>
       op_errors p = [] \<and> map_of (the (op_item p)) ''source_id'' = Some (PyStr ''1:a'') \<and>
       (case compile_operation (\<lambda>_. []) (\<lambda>_. []) social_schema [''op:0'', ''op:1''] (1, PyDict (op_compiled p)) of
          Inr o' \<Rightarrow> map_of (op_target o') ''source'' = Some (PyDict [(''operation_id'', PyStr ''op:0'')])
        | Inl _ \<Rightarrow> False)
   | _ \<Rightarrow> False"
  by code_simp

end
