(* ===== verification/Graph_Execution.thy ===== *)
theory Graph_Execution
  imports Graph_Execute Graph_Compilation
begin

text \<open>
  What an execution reply can be relied on for: its results are those of a prefix of the plan, all of
  them successes, it says PARTIAL when it stopped after some, and a deletion it reports was observed.
\<close>

section \<open>Results\<close>

lemma result_status [simp]:
  "result_apply_status (execution_result idx op operation [] st v) = st"
  "result_apply_status (execution_result idx op operation [(''target_id'', t)] st v) = st"
  by (cases st; simp add: result_apply_status_def execution_result_def apply_statuses_def)+

text \<open>A result of an operation: its index, its label and a success.\<close>

definition reports :: "nat \<Rightarrow> pydict \<Rightarrow> pydict \<Rightarrow> bool" where
  "reports idx operation result \<longleftrightarrow>
     dict_get result ''operation_index'' = PyInt (int idx) \<and> dict_get result ''label'' = dict_get operation ''label'' \<and>
     success (result_apply_status result)"

definition ok_results :: "('e + pydict) \<Rightarrow> nat \<Rightarrow> pydict \<Rightarrow> bool" where
  "ok_results r idx operation \<longleftrightarrow> (case r of Inl _ \<Rightarrow> True | Inr result \<Rightarrow> reports idx operation result)"

lemma reports_result:
  "success st \<Longrightarrow> reports idx operation (execution_result idx op operation [] st v)"
  "success st \<Longrightarrow> reports idx operation (execution_result idx op operation [(''target_id'', t)] st v)"
  by (simp_all add: reports_def) (simp_all add: execution_result_def)

lemma perform_write_reports:
  "effect_ensures (\<lambda>r. ok_results r idx operation) (perform_write be idx op operation)"
  unfolding perform_write_def Let_def
  by (intro effect_ensures_bind [OF effect_ensures_any])
    (auto simp: ok_results_def reports_result success_def split: reply.split option.split
      intro!: effect_ensures_bind [OF effect_ensures_any])

lemma check_delete_target_reports:
  "effect_ensures (\<lambda>r. case r of None \<Rightarrow> True | Some answer \<Rightarrow> ok_results answer idx operation)
     (check_delete_target be idx op operation)"
  unfolding check_delete_target_def Let_def
  by (auto simp: ok_results_def reports_result success_def split: sum.split
      intro!: effect_ensures_bind [OF effect_ensures_any])

lemma execute_operation_reports:
  "effect_ensures (\<lambda>r. ok_results r idx operation) (execute_operation be live_schema idx operation)"
proof -
  note written = perform_write_reports [of idx operation be]
  have delete: "effect_ensures (\<lambda>r. ok_results r idx operation)
      (effect_bind (check_delete_target be idx op operation) (\<lambda>verdict.
        case verdict of Some answer \<Rightarrow> effect_return answer | None \<Rightarrow> perform_write be idx op operation))" for op
    by (rule effect_ensures_bind [OF check_delete_target_reports]) (simp add: written split: option.splits)
  show ?thesis
    unfolding execute_operation_def Let_def
    by (auto simp: ok_results_def written [unfolded ok_results_def] delete [unfolded ok_results_def]
        split: option.split intro!: effect_ensures_bind [OF effect_ensures_any])
qed

section \<open>Runs\<close>

definition reports_prefix :: "pyval list \<Rightarrow> pydict list \<Rightarrow> bool" where
  "reports_prefix operations results \<longleftrightarrow>
     length results \<le> length operations \<and>
     (\<forall>k < length results. \<exists>operation. operations ! k = PyDict operation \<and> reports k operation (results ! k))"

definition faithful_outcome :: "pyval list \<Rightarrow> execution_outcome \<Rightarrow> bool" where
  "faithful_outcome operations outcome \<longleftrightarrow>
     (case outcome of
        ExecutionDone st results summary \<Rightarrow>
          reports_prefix operations results \<and> length results = length operations \<and>
          (operations = [] \<or> st = APPLIED \<or> st = ALREADY_APPLIED)
      | ExecutionRefused e \<Rightarrow> operations \<noteq> []
      | ExecutionStopped st results failed summary \<Rightarrow>
          reports_prefix operations results \<and> 0 < length results \<and> length results < length operations \<and>
          st = PARTIAL \<and> fi_operation_index failed = length results)"

lemma error_is_no_success: "\<not> success (error_apply_status e)"
  by (simp add: error_apply_status_def success_def)

lemma reports_prefix_success:
  "reports_prefix operations results \<Longrightarrow> list_all success (map result_apply_status results)"
  by (auto simp: reports_prefix_def reports_def list_all_length)

lemma reports_prefix_snoc:
  assumes "reports_prefix operations results" "length results < length operations"
    and "operations ! length results = PyDict operation" "reports (length results) operation result"
  shows "reports_prefix operations (results @ [result])"
  using assms by (auto simp: reports_prefix_def nth_append less_Suc_eq)

lemma stopped_is_partial:
  assumes "reports_prefix operations results" "results \<noteq> []"
  shows "aggregate_plan_status (map result_apply_status results @ [error_apply_status e]) = PARTIAL"
proof -
  have "success (result_apply_status (hd results))"
    using reports_prefix_success [OF assms(1)] assms(2) by (cases results) auto
  then have "list_ex success (map result_apply_status results)"
    using assms(2) by (cases results) auto
  then show ?thesis
    by (simp add: aggregate_plan_status_def error_is_no_success)
qed

lemma execute_all_faithful:
  assumes "reports_prefix operations results" "operations = take (length results) operations @ rest"
  shows "effect_ensures (faithful_outcome operations) (execute_all be live_schema operations results rest)"
  using assms
proof (induction rest arbitrary: results)
  case Nil
  have len: "length results = length operations"
    using arg_cong [OF Nil.prems(2), of length] Nil.prems(1) by (simp add: reports_prefix_def min_def split: if_splits)
  show ?case
    using Nil.prems(1) len reports_prefix_success [OF Nil.prems(1)]
    by (auto simp: faithful_outcome_def aggregate_plan_status_def)
next
  case (Cons v rest)
  let ?n = "length results"
  have n: "?n < length operations"
    using arg_cong [OF Cons.prems(2), of length] by (simp add: min_def split: if_splits)
  have tail: "drop ?n operations = v # rest"
    using arg_cong [OF Cons.prems(2), of "drop ?n"] n by simp
  have v: "operations ! ?n = v"
    using tail n by (metis hd_drop_conv_nth list.sel(1))
  have "drop (Suc ?n) operations = rest"
    using tail by (metis drop_Suc list.sel(3) tl_drop)
  then have rest: "operations = take (Suc ?n) operations @ rest"
    by (metis append_take_drop_id)
  show ?case
  proof (cases v)
    case (PyDict operation)
    have failed: "faithful_outcome operations (execution_failure fl e operation ?n results)" for fl e
      using Cons.prems(1) n stopped_is_partial [OF Cons.prems(1)]
      by (auto simp: faithful_outcome_def execution_failure_def)
    have further: "effect_ensures (faithful_outcome operations)
        (execute_all be live_schema operations (results @ [result]) rest)"
      if "reports ?n operation result" for result
    proof (rule Cons.IH)
      show "reports_prefix operations (results @ [result])"
        using reports_prefix_snoc [OF Cons.prems(1) n] v PyDict that by simp
      show "operations = take (length (results @ [result])) operations @ rest"
        using rest by simp
    qed
    show ?thesis
      unfolding PyDict execute_all.simps pyval.case
      by (rule effect_ensures_bind [OF execute_operation_reports])
        (auto simp: failed ok_results_def further split: sum.splits)
  qed (simp_all add: effect_ensures_def effect_of_def)
qed

text \<open>
  C20: an execution reply reports a prefix of the plan. When all operations ran, every one has a result,
  in order, with its index and its label, and each is a success; when the run stopped after some
  operations, the results are those of the operations before the failed one, all successes, the
  failed item names the next index and the status is PARTIAL, whatever the failure.
\<close>

theorem execution_reports_a_prefix:
  assumes "execute_graph_change_plan be change_plan live_schema w = (Inr outcome, w')"
  shows "faithful_outcome (plan_operations change_plan) outcome"
  using assms
  unfolding execute_graph_change_plan_def Let_def
  by (intro effect_ensuresD [OF execute_all_faithful]) (auto simp: reports_prefix_def)

section \<open>Deletions\<close>

lemma rendered_Inr: "rendered fl r = Inr q \<longleftrightarrow> r = Inr q"
  by (auto simp: rendered_def split: sum.splits render_error.splits)

lemma effect_of_Inr: "effect_of r w = (Inr x, w') \<longleftrightarrow> r = Inr x \<and> w' = w"
  by (auto simp: effect_of_def)

lemma effect_return_Inr: "effect_return y w = (Inr x, w') \<longleftrightarrow> x = y \<and> w' = w"
  by (auto simp: effect_return_def)

lemmas effect_results = effect_bind_Inr effect_of_Inr effect_return_Inr rendered_Inr

lemma verified_deletion:
  assumes "verify_deleted be idx op operation w = (Inr None, w')"
  shows "\<exists>query w1. delete_target_query (be_float_text be) operation = Inr query \<and>
    read_count be query w1 = (Inr (Inr 0), w')"
  using assms unfolding verify_deleted_def Let_def
  by (auto simp: effect_results split: if_split_asm)
    (rename_tac q r w1, case_tac r; auto simp: effect_results split: if_split_asm)+

lemma target_already_gone:
  assumes "check_delete_target be idx op operation w = (Inr (Some (Inr result)), w')"
  shows "\<exists>query w1. delete_target_query (be_float_text be) operation = Inr query \<and>
    read_count be query w1 = (Inr (Inr 0), w')"
  using assms unfolding check_delete_target_def Let_def
  by (auto simp: effect_results split: if_split_asm) (rename_tac q r, case_tac r; auto split: if_split_asm)+

lemma performed_deletion:
  assumes "perform_write be idx op operation w = (Inr (Inr result), w')" "op \<in> set WRITE_OPS"
  shows "\<exists>w1. verify_deleted be idx op operation w1 = (Inr None, w')"
proof -
  have "op \<notin> {''create_vertex'', ''create_edge''}"
    using assms(2) by (auto simp: WRITE_OPS_def)
  then show ?thesis
    using assms unfolding perform_write_def Let_def
    by (auto simp: effect_results split: reply.split_asm option.split_asm)
      (metis reply.exhaust)
qed

text \<open>
  C21: a deletion that is reported was observed. When the executor reports a deletion as applied or as
  already applied, the last thing it did was to count the compiled target, and the server answered
  zero; it never relies on the answer to the write alone.
\<close>

theorem reported_deletion_was_observed:
  assumes "execute_operation be live_schema idx operation w = (Inr (Inr result), w')"
    and "op_name (be_float_text be) operation \<in> set WRITE_OPS"
  shows "\<exists>query w1. delete_target_query (be_float_text be) operation = Inr query \<and>
    read_count be query w1 = (Inr (Inr 0), w')"
proof -
  let ?op = "op_name (be_float_text be) operation"
  have "?op \<noteq> ''create_vertex''" "?op \<noteq> ''create_edge''"
    using assms(2) by (auto simp: WRITE_OPS_def)
  then obtain verdict w1 where "check_delete_target be idx ?op operation w = (Inr verdict, w1)"
    "(case verdict of Some answer \<Rightarrow> effect_return answer | None \<Rightarrow> perform_write be idx ?op operation) w1 =
       (Inr (Inr result), w')"
    using assms by (auto simp: execute_operation_def Let_def effect_bind_Inr)
  note run = this
  show ?thesis
  proof (cases verdict)
    case None
    then obtain w2 where "verify_deleted be idx ?op operation w2 = (Inr None, w')"
      using run(2) by (auto dest!: performed_deletion [OF _ assms(2)])
    then show ?thesis by (rule verified_deletion)
  next
    case (Some answer)
    then have "check_delete_target be idx ?op operation w = (Inr (Some (Inr result)), w')"
      using run by (simp add: effect_return_Inr)
    then show ?thesis by (rule target_already_gone)
  qed
qed

section \<open>Sample runs\<close>

definition gone_edge :: pydict where
  "gone_edge = [(''op'', PyStr ''delete_edge''), (''label'', PyStr ''knows''), (''target_id'', PyInt 7)]"

lemma gone_edge_runs:
  "execute_operation one_person_backend social_schema 0 gone_edge False =
     (Inr (Inr (execution_result 0 ''delete_edge'' gone_edge [(''target_id'', PyInt 7)]
        apply_status.ALREADY_APPLIED PyNone)), False)"
  by code_simp

theorem reported_deletion_was_observed_witness:
  "\<exists>query w1. delete_target_query (be_float_text one_person_backend) gone_edge = Inr query \<and>
     read_count one_person_backend query w1 = (Inr (Inr 0), False)"
  by (rule reported_deletion_was_observed [OF gone_edge_runs])
    (simp add: gone_edge_def op_name_def op_of_def py_or_def WRITE_OPS_def)

theorem execution_reports_a_prefix_witness:
  "\<exists>outcome. execute_graph_change_plan one_person_backend (PyList [PyDict gone_edge]) social_schema False =
     (Inr outcome, False) \<and> faithful_outcome [PyDict gone_edge] outcome"
proof -
  have run: "\<exists>outcome. execute_graph_change_plan one_person_backend (PyList [PyDict gone_edge]) social_schema False =
      (Inr outcome, False)"
    using gone_edge_runs
    by (simp add: execute_graph_change_plan_def plan_operations_def effect_bind_def effect_return_def Let_def)
  then show ?thesis
    using execution_reports_a_prefix [of one_person_backend "PyList [PyDict gone_edge]" social_schema False]
    by (auto simp: plan_operations_def)
qed

end
