(* ===== verification/Graph_Adapter_Properties.thy ===== *)
theory Graph_Adapter_Properties
  imports Graph_Adapter Graph_Execution
begin

text \<open>
  The graph adapters fulfil the contract of an adapter, by interpretations of its locale. Then what a
  receipt of a deletion says about the graph.
\<close>

section \<open>The graph adapters fulfil it\<close>

lemma graph_receipt_settles:
  assumes "st \<notin> {apply_status.RETRYABLE_NOT_APPLIED, apply_status.LEGACY_UNKNOWN, apply_status.PARTIAL}"
    and "reconciliation_required \<longleftrightarrow> st = apply_status.UNKNOWN" "committed \<longleftrightarrow> st = apply_status.APPLIED"
  shows "effect_ensures (settles p o' attempt)
    (graph_receipt now p o' attempt st observed why reconciliation_required committed)"
  using assms unfolding graph_receipt_def
  by (intro effect_ensures_of)
    (auto simp: make_apply_receipt_def settles_def split: sum.splits value_error.splits if_splits)

lemma post_write_settles:
  assumes "observed_status \<noteq> apply_status.APPLIED"
  shows "effect_ensures (settles p o' attempt)
    (post_write_receipt now p o' attempt write_result observed_status observed)"
  using assms unfolding post_write_receipt_def
  by (auto simp: post_write_status_def intro!: graph_receipt_settles split: prod.split)

lemma unless_mismatch_settles:
  "effect_ensures (settles p o' attempt) go \<Longrightarrow>
     effect_ensures (settles p o' attempt) (unless_mismatch be now p o' attempt go)"
  by (simp add: unless_mismatch_def graph_receipt_settles)

lemma classify_create_cases:
  "classify_create observed o' \<in> {apply_status.RETRYABLE_NOT_APPLIED, apply_status.CONFLICT, apply_status.APPLIED}"
  by (simp add: classify_create_def)

lemma create_through_settles:
  "effect_ensures (settles p o' attempt) (create_through be now p o' attempt observe ids extra)"
  unfolding create_through_def Let_def
proof (intro effect_ensures_bind [OF effect_ensures_any], goal_cases)
  case (1 before_write)
  show ?case
  proof (cases "classify_create before_write o' = apply_status.RETRYABLE_NOT_APPLIED")
    case True
    then show ?thesis
      by (auto intro!: effect_ensures_bind [OF effect_ensures_any] graph_receipt_settles post_write_settles)
  next
    case False
    then show ?thesis
      using classify_create_cases [of before_write o'] by (auto intro!: graph_receipt_settles)
  qed
qed

interpretation delete_edges: write_adapter "delete_edge_adapter be now"
proof
  show "effect_ensures (settles p o' attempt) (delete_edge_adapter be now p o' attempt)" for p o' attempt
    unfolding delete_edge_adapter_def delete_adapter_def
    by (auto intro!: unless_mismatch_settles effect_ensures_bind [OF effect_ensures_any] graph_receipt_settles
        post_write_settles)
qed

interpretation delete_vertices: write_adapter "delete_vertex_adapter be now"
  by unfold_locales (simp add: delete_vertex_adapter_def graph_receipt_settles)

interpretation create_vertices: write_adapter "create_vertex_adapter be now"
  by unfold_locales (simp add: create_vertex_adapter_def unless_mismatch_settles create_through_settles)

interpretation create_edges: write_adapter "create_edge_adapter be now record_of_plan"
proof
  show "effect_ensures (settles p o' attempt) (create_edge_adapter be now record_of_plan p o' attempt)" for p o' attempt
    unfolding create_edge_adapter_def Let_def
    by (auto intro!: unless_mismatch_settles effect_ensures_bind [OF effect_ensures_any] graph_receipt_settles
        create_through_settles split: option.split)
qed

text \<open>
  C23: the executor can rely on the graph adapters. Every adapter answers for the plan, operation and
  attempt it was given, never reports a state the store cannot settle, asks for reconciliation exactly
  when the outcome is unknown and names a commit time exactly when it applied the operation; so each
  of them fulfils what the executor's protocol assumes of an adapter.
\<close>

theorem graph_adapters_settle:
  assumes "act \<in> {delete_edge_adapter be now, delete_vertex_adapter be now, create_vertex_adapter be now,
    create_edge_adapter be now record_of_plan}"
  shows "honest_adapter (adapter_of act) \<and>
    (\<forall>p o' attempt w r w'. act p o' attempt w = (Inr r, w') \<longrightarrow> settles p o' attempt r)"
  using assms
  by (auto intro: delete_edges.is_honest delete_vertices.is_honest create_vertices.is_honest create_edges.is_honest
      delete_edges.receipt_settles delete_vertices.receipt_settles create_vertices.receipt_settles
      create_edges.receipt_settles)

section \<open>What a receipt of a deletion says\<close>

lemma graph_receipt_Inr:
  "graph_receipt now p o' attempt st observed why reconciliation_required committed w = (Inr r, w') \<Longrightarrow>
     w' = w \<and> rc_status r = st \<and> rc_observed_state r = Some (freeze_mapping observed)"
  by (auto simp: graph_receipt_def effect_of_def make_apply_receipt_def split: sum.splits value_error.splits if_splits)

lemma post_write_Inr:
  "post_write_receipt now p o' attempt write_result apply_status.CONFLICT observed w = (Inr r, w') \<Longrightarrow>
     w' = w \<and> rc_status r \<in> {apply_status.UNKNOWN, apply_status.CONFLICT}"
  by (auto simp: post_write_receipt_def post_write_status_def dest!: graph_receipt_Inr split: if_splits)


section \<open>Sample runs\<close>

definition here_plan :: write_plan where
  "here_plan = (let cfg = from_env (\<lambda>_. None) in sample_plan
     \<lparr>wp_graph_target := \<lparr>gt_graph_url = cf_url cfg, gt_graph_name = cf_graph cfg,
        gt_graphspace = Some (config_graphspace cfg)\<rparr>, wp_principal := cf_user cfg\<rparr>)"

definition drop_edge :: operation_plan where
  "drop_edge = (sample_op ''a'' [])\<lparr>op_expected_state := [(''exists'', PyBool True),
     (''element_type'', PyStr ''edge''), (''id'', PyInt 7), (''label'', PyStr ''knows'')]\<rparr>"

definition edge_gone :: pydict where
  "edge_gone = [(''exists'', PyBool False), (''element_type'', PyStr ''edge''), (''id'', PyInt 7),
     (''label'', PyStr ''knows'')]"

lemma drop_edge_read: "read_delete_target one_person_backend drop_edge False = (Inr edge_gone, False)"
  by code_simp

lemma here_plan_matches: "\<not> target_mismatch (from_env (\<lambda>_. None)) here_plan"
  by (auto simp: target_mismatch_def here_plan_def config_graphspace_def Let_def split: option.splits)


theorem graph_adapters_settle_witness:
  "honest_adapter (adapter_of (delete_edge_adapter one_person_backend 5))"
  using graph_adapters_settle [of "delete_edge_adapter one_person_backend 5" one_person_backend 5] by simp

end
