(* ===== verification/Schema_Validate.thy ===== *)
theory Schema_Validate
  imports Property_Validation
begin

text \<open>
  \<open>hugegraph_mcp/tools/manage_schema.py\<close>, the validation of a batch of schema operations against a
  live schema: \<open>validate_schema_operations\<close> and its helpers. The live schema is the value the caller
  read; an operation may refer to what is live and to what earlier operations of the batch create.
  A check returns the errors it appends to the list the code threads through.
\<close>

section \<open>Tables\<close>

definition ALLOWED_OPERATION_TYPES :: "string list" where
  "ALLOWED_OPERATION_TYPES =
     [''create_property_key'', ''create_vertex_label'', ''create_edge_label'', ''create_index_label'']"

definition P0A_APPLY_OPERATION_TYPES :: "string list" where
  "P0A_APPLY_OPERATION_TYPES = [''create_property_key'', ''create_vertex_label'', ''create_edge_label'']"

definition REQUIRED_FIELDS :: "string \<Rightarrow> string list" where
  "REQUIRED_FIELDS t =
     (if t = ''create_property_key'' then [''name'', ''data_type'']
      else if t = ''create_vertex_label'' then [''name'']
      else if t = ''create_edge_label'' then [''name'', ''source_label'', ''target_label'']
      else [''name'', ''base_type'', ''base_label''])"

definition IDENTIFIER_FIELDS :: "string \<Rightarrow> string list" where
  "IDENTIFIER_FIELDS t =
     (if t = ''create_property_key'' then [''name'']
      else if t = ''create_vertex_label'' then [''name'']
      else if t = ''create_edge_label'' then [''name'', ''source_label'', ''target_label'']
      else if t = ''create_index_label'' then [''name'', ''base_label''] else [])"

definition UNSUPPORTED_EDGE_LABEL_FIELDS :: "string list" where
  "UNSUPPORTED_EDGE_LABEL_FIELDS = [''parent_label'', ''parentLabel'', ''edgelabel_type'', ''edgeLabelType'']"

definition PROPERTY_KEY_DATA_TYPES :: "string list" where
  "PROPERTY_KEY_DATA_TYPES =
     [''TEXT'', ''INT'', ''INTEGER'', ''LONG'', ''DOUBLE'', ''FLOAT'', ''BOOLEAN'', ''BOOL'', ''DATE'', ''BYTE'',
      ''BLOB'', ''OBJECT'']"

definition PROPERTY_KEY_CARDINALITIES :: "string list" where
  "PROPERTY_KEY_CARDINALITIES = [''SINGLE'', ''SET'', ''LIST'']"

definition PROPERTY_KEY_AGGREGATE_TYPES :: "string list" where
  "PROPERTY_KEY_AGGREGATE_TYPES = [''NONE'', ''OLD'', ''SUM'', ''MIN'', ''MAX'', ''SET'', ''LIST'']"

definition VERTEX_LABEL_ID_STRATEGIES :: "string list" where
  "VERTEX_LABEL_ID_STRATEGIES = [''PRIMARY_KEY'', ''CUSTOMIZE_STRING'', ''CUSTOMIZE_NUMBER'', ''AUTOMATIC'']"

definition EDGE_LABEL_FREQUENCIES :: "string list" where
  "EDGE_LABEL_FREQUENCIES = [''SINGLE'', ''MULTIPLE'']"

definition PROPERTY_KEY_AGGREGATE_CARDINALITIES :: "(string \<times> string list) list" where
  "PROPERTY_KEY_AGGREGATE_CARDINALITIES =
     [(''NONE'', [''SINGLE'', ''SET'', ''LIST'']), (''OLD'', [''SINGLE'']), (''SUM'', [''SINGLE'']),
      (''MIN'', [''SINGLE'']), (''MAX'', [''SINGLE'']), (''SET'', [''SET'']), (''LIST'', [''LIST''])]"

definition PROPERTY_KEY_DATA_TYPE_CANONICAL :: "(string \<times> string) list" where
  "PROPERTY_KEY_DATA_TYPE_CANONICAL = [(''INTEGER'', ''INT''), (''BOOL'', ''BOOLEAN'')]"

section \<open>Names\<close>

definition operation_type :: "(rat \<Rightarrow> string) \<Rightarrow> pydict \<Rightarrow> string" where
  "operation_type fl operation = (case map_of operation ''type'' of None \<Rightarrow> [] | Some v \<Rightarrow> py_str fl v)"

definition is_delete_operation :: "string \<Rightarrow> bool" where
  "is_delete_operation t \<longleftrightarrow> py_contains ''delete'' (py_lower t) \<or> py_contains ''drop'' (py_lower t)"

definition schema_error :: "int \<Rightarrow> pyval \<Rightarrow> string \<Rightarrow> string \<Rightarrow> pyval" where
  "schema_error idx operation why suggestion =
     PyDict [(''operation_index'', PyInt idx), (''operation'', operation), (''reason'', PyStr why),
       (''suggestion'', PyStr suggestion)]"

definition op_error :: "nat \<Rightarrow> pydict \<Rightarrow> string \<Rightarrow> string \<Rightarrow> pyval" where
  "op_error idx operation why suggestion = schema_error (int idx) (PyDict operation) why suggestion"

definition canonical_enum_value :: "string \<Rightarrow> string \<Rightarrow> string" where
  "canonical_enum_value f v =
     (if f = ''data_type'' then (case map_of PROPERTY_KEY_DATA_TYPE_CANONICAL v of Some c \<Rightarrow> c | None \<Rightarrow> v) else v)"

definition invalid_schema_names :: "pyval list \<Rightarrow> pyval list" where
  "invalid_schema_names = filter (\<lambda>v. case v of PyStr s \<Rightarrow> s = [] | _ \<Rightarrow> True)"

text \<open>The strings of a list that passed \<open>_invalid_schema_names\<close>.\<close>

definition string_names :: "pyval list \<Rightarrow> string list" where
  "string_names = List.map_filter (\<lambda>v. case v of PyStr s \<Rightarrow> Some s | _ \<Rightarrow> None)"

fun duplicates_after :: "string list \<Rightarrow> string list \<Rightarrow> string list \<Rightarrow> string list" where
  "duplicates_after seen duplicates [] = duplicates"
| "duplicates_after seen duplicates (v # vs) =
     duplicates_after (v # seen)
       (if v \<in> set seen \<and> v \<notin> set duplicates then duplicates @ [v] else duplicates) vs"

definition duplicate_names :: "string list \<Rightarrow> string list" where
  "duplicate_names = duplicates_after [] []"

text \<open>The names of a collection of the live schema.\<close>

definition item_name :: "pyval \<Rightarrow> string option" where
  "item_name item =
     (case item of
        PyDict d \<Rightarrow>
          (case field_value d [''name'', ''property_name'', ''propertyName''] of
             PyStr s \<Rightarrow> if s = [] then None else Some s
           | _ \<Rightarrow> None)
      | _ \<Rightarrow> None)"

definition schema_items :: "pyval \<Rightarrow> string \<Rightarrow> string set" where
  "schema_items live_schema kind =
     (case schema_payload live_schema of
        None \<Rightarrow> {}
      | Some raw \<Rightarrow>
          (case schema_collection_items raw kind of PyList vs \<Rightarrow> set (List.map_filter item_name vs) | _ \<Rightarrow> {}))"

section \<open>Creations within a batch\<close>

definition CREATE_TYPE_TO_KEY :: "(string \<times> string) list" where
  "CREATE_TYPE_TO_KEY =
     [(''create_property_key'', ''property_keys''), (''create_vertex_label'', ''vertex_labels''),
      (''create_edge_label'', ''edge_labels''), (''create_index_label'', ''index_labels'')]"

definition create_type_to_label :: "string \<Rightarrow> string" where
  "create_type_to_label t =
     (if t = ''create_property_key'' then ''property_key'' else if t = ''create_vertex_label'' then ''vertex_label''
      else if t = ''create_edge_label'' then ''edge_label'' else ''index_label'')"

type_synonym planned_creates = "(string \<times> pyval list) list"

definition planned_names :: "planned_creates \<Rightarrow> string \<Rightarrow> pyval list" where
  "planned_names planned key = (case map_of planned key of Some vs \<Rightarrow> vs | None \<Rightarrow> [])"

text \<open>One operation of \<open>_collect_planned_creates\<close>; an unhashable name raises \<open>TypeError\<close>.\<close>

definition collect_planned_create ::
  "(rat \<Rightarrow> string) \<Rightarrow> planned_creates \<times> pyval list \<Rightarrow> nat \<times> pyval \<Rightarrow> py_exception + planned_creates \<times> pyval list" where
  "collect_planned_create fl st item =
     (case (st, item) of ((planned, errors), (idx, v)) \<Rightarrow>
        (case v of
           PyDict operation \<Rightarrow>
             let t = operation_type fl operation; name = dict_get operation ''name'' in
             (case map_of CREATE_TYPE_TO_KEY t of
                None \<Rightarrow> Inr st
              | Some key \<Rightarrow>
                  if \<not> py_truthy name then Inr st
                  else if \<not> hashable name then Inl RaisesType
                  else if list_ex (py_eq name) (planned_names planned key)
                  then Inr (planned, errors @ [op_error idx operation
                    (''duplicate '' @ t @ '' name '' @ py_str fl name @ '' within the same batch'')
                    (''Define each '' @ create_type_to_label t @ '' only once per schema operation batch.'')])
                  else Inr (AList.update key (planned_names planned key @ [name]) planned, errors))
         | _ \<Rightarrow> Inr st))"

fun collect_from ::
  "(rat \<Rightarrow> string) \<Rightarrow> planned_creates \<times> pyval list \<Rightarrow> (nat \<times> pyval) list \<Rightarrow> py_exception + planned_creates \<times> pyval list" where
  "collect_from fl st [] = Inr st"
| "collect_from fl st (item # items) = and_then (collect_planned_create fl st item) (\<lambda>st'. collect_from fl st' items)"

definition collect_planned_creates ::
  "(rat \<Rightarrow> string) \<Rightarrow> pyval list \<Rightarrow> py_exception + planned_creates \<times> pyval list" where
  "collect_planned_creates fl operations =
     collect_from fl
       ([(''property_keys'', []), (''vertex_labels'', []), (''edge_labels'', []), (''index_labels'', [])], [])
       (List.enumerate 0 operations)"

section \<open>Checks of one field\<close>

definition validate_supported_fields :: "nat \<Rightarrow> pydict \<Rightarrow> string \<Rightarrow> pyval list" where
  "validate_supported_fields idx operation t =
     (case map_of SUPPORTED_FIELDS t of
        None \<Rightarrow> []
      | Some supported \<Rightarrow>
          let unknown = sort (filter (\<lambda>f. f \<notin> supported \<and>
                \<not> (t = ''create_edge_label'' \<and> f \<in> set UNSUPPORTED_EDGE_LABEL_FIELDS)) (map fst operation))
          in if unknown = [] then []
             else [op_error idx operation
               (''unsupported field(s) for '' @ t @ '': '' @ join '', '' unknown)
               ''Remove unsupported fields; this operation only accepts the documented schema fields.''])"

definition validate_bool_field :: "nat \<Rightarrow> pydict \<Rightarrow> string \<Rightarrow> pyval list" where
  "validate_bool_field idx operation f =
     (case map_of operation f of
        None \<Rightarrow> []
      | Some (PyBool _) \<Rightarrow> []
      | Some v \<Rightarrow> [op_error idx operation (f @ '' must be a boolean, got '' @ py_type_name v)
          (''Use true or false for '' @ f @ ''.'')])"

definition validate_user_data_field :: "nat \<Rightarrow> pydict \<Rightarrow> string \<Rightarrow> pyval list" where
  "validate_user_data_field idx operation f =
     (case map_of operation f of
        None \<Rightarrow> []
      | Some (PyDict _) \<Rightarrow> []
      | Some v \<Rightarrow> [op_error idx operation (f @ '' must be an object'') (''Use a JSON object for '' @ f @ ''.'')])"

definition validate_index_labels_field :: "nat \<Rightarrow> pydict \<Rightarrow> pyval list" where
  "validate_index_labels_field idx operation =
     (case map_of operation ''index_labels'' of
        None \<Rightarrow> []
      | Some v \<Rightarrow>
          let malformed = [op_error idx operation ''index_labels must be a list of non-empty strings''
                ''Use an array of index label names for index_labels.'']
          in (case v of
                PyList vs \<Rightarrow>
                  if invalid_schema_names vs \<noteq> [] then malformed
                  else let dups = duplicate_names (string_names vs)
                    in if dups = [] then []
                       else [op_error idx operation (''index_labels contains duplicate name(s): '' @ join '', '' dups)
                         ''Remove duplicate index label names from index_labels.'']
              | _ \<Rightarrow> malformed))"

text \<open>The checks shared by the list-valued references: shape, names, duplicates; \<open>Inr\<close> the names.\<close>

definition check_name_list :: "nat \<Rightarrow> pydict \<Rightarrow> string \<Rightarrow> pyval list \<Rightarrow> pyval list + string list" where
  "check_name_list idx operation f vs =
     (if invalid_schema_names vs \<noteq> []
      then Inl [op_error idx operation (f @ '' must contain non-empty string names'')
        (''Use only non-empty schema property key names for '' @ f @ ''.'')]
      else let dups = duplicate_names (string_names vs)
        in if dups \<noteq> []
           then Inl [op_error idx operation (f @ '' contains duplicate name(s): '' @ join '', '' dups)
             (''Remove duplicate property key names from '' @ f @ ''.'')]
           else Inr (string_names vs))"

definition undefined_keys_error :: "nat \<Rightarrow> pydict \<Rightarrow> string \<Rightarrow> string set \<Rightarrow> string list \<Rightarrow> pyval list" where
  "undefined_keys_error idx operation f property_keys names =
     (let missing = filter (\<lambda>n. n \<notin> property_keys) names
      in if missing = [] then []
         else [op_error idx operation (f @ '' references undefined property key(s): '' @ join '', '' missing)
           ''Create these property keys first and rerun validation after they exist in the live schema.''])"

definition not_a_list_error :: "nat \<Rightarrow> pydict \<Rightarrow> string \<Rightarrow> pyval" where
  "not_a_list_error idx operation f =
     op_error idx operation (f @ '' must be a list'')
       (''Use an array of existing property key names for '' @ f @ ''.'')"

definition validate_property_references :: "nat \<Rightarrow> pydict \<Rightarrow> string \<Rightarrow> string set \<Rightarrow> pyval list" where
  "validate_property_references idx operation f property_keys =
     (case map_of operation f of
        None \<Rightarrow> []
      | Some v \<Rightarrow>
          if blank_id v then []
          else (case v of
            PyList vs \<Rightarrow>
              (case check_name_list idx operation f vs of
                 Inl errors \<Rightarrow> errors
               | Inr names \<Rightarrow> undefined_keys_error idx operation f property_keys names)
          | _ \<Rightarrow> [not_a_list_error idx operation f]))"

text \<open>\<open>operation.get("properties") or []\<close>, when it is a list.\<close>

definition listed_properties :: "pydict \<Rightarrow> pyval list option" where
  "listed_properties operation =
     (case py_or (dict_get operation ''properties'') (PyList []) of PyList vs \<Rightarrow> Some vs | _ \<Rightarrow> None)"

definition validate_property_subset_references :: "nat \<Rightarrow> pydict \<Rightarrow> string \<Rightarrow> string set \<Rightarrow> pyval list" where
  "validate_property_subset_references idx operation f property_keys =
     (case dict_get operation f of
        PyNone \<Rightarrow> []
      | PyList [] \<Rightarrow> [op_error idx operation (f @ '' must be a non-empty list'')
          (''Use one or more existing property key names for '' @ f @ ''.'')]
      | PyList vs \<Rightarrow>
          (case check_name_list idx operation f vs of
             Inl errors \<Rightarrow> errors
           | Inr names \<Rightarrow>
               undefined_keys_error idx operation f property_keys names @
               (case listed_properties operation of
                  None \<Rightarrow> []
                | Some properties \<Rightarrow>
                    let missing = filter (\<lambda>n. PyStr n \<notin> set properties) names
                    in if missing = [] then []
                       else [op_error idx operation (f @ '' must be included in properties: '' @ join '', '' missing)
                         (''Add each '' @ f @ '' entry to properties before using it in '' @ f @ ''.'')]))
      | _ \<Rightarrow> [not_a_list_error idx operation f])"

text \<open>The errors and the normalised value.\<close>

definition validate_enum_field ::
  "nat \<Rightarrow> pydict \<Rightarrow> string \<Rightarrow> string list \<Rightarrow> bool \<Rightarrow> string option \<Rightarrow> pyval list \<times> string option" where
  "validate_enum_field idx operation f allowed_values required dflt =
     (let raw_value = dict_get operation f;
          suggestion = ''Use one of: '' @ join '', '' (sort allowed_values) @ '' for '' @ f @ ''.''
      in if blank_id raw_value \<and> dflt \<noteq> None then ([], dflt)
         else if blank_id raw_value \<and> \<not> required then ([], None)
         else (case raw_value of
           PyStr s \<Rightarrow>
             if py_upper s \<notin> set allowed_values
             then ([op_error idx operation (''unsupported '' @ f @ '': '' @ repr_string s) suggestion], None)
             else ([], Some (canonical_enum_value f (py_upper s)))
         | v \<Rightarrow> ([op_error idx operation (f @ '' must be a string, got '' @ py_type_name v) suggestion], None)))"

definition validate_aggregate_cardinality ::
  "(rat \<Rightarrow> string) \<Rightarrow> nat \<Rightarrow> pydict \<Rightarrow> string option \<Rightarrow> string option \<Rightarrow> pyval list" where
  "validate_aggregate_cardinality fl idx operation cardinality aggregate_type =
     (case aggregate_type of
        None \<Rightarrow> []
      | Some a \<Rightarrow>
          (case map_of PROPERTY_KEY_AGGREGATE_CARDINALITIES a of
             None \<Rightarrow> []
           | Some allowed \<Rightarrow>
               if cardinality \<in> Some ` set allowed then []
               else [op_error idx operation
                 (''aggregate_type '' @ repr_string a @ '' is not allowed with cardinality '' @
                  py_repr fl (opt_str cardinality))
                 (''Use cardinality in '' @ py_repr fl (PyList (map PyStr (sort allowed))) @
                  '' for aggregate_type '' @ repr_string a @ ''.'')]))"

definition identifier_ok :: "pydict \<Rightarrow> string \<Rightarrow> bool" where
  "identifier_ok operation f = (case dict_get operation f of PyStr s \<Rightarrow> py_strip s \<noteq> [] | _ \<Rightarrow> False)"

text \<open>The error of the first identifier that fails: \<open>all\<close> stops there.\<close>

fun validate_identifiers :: "(rat \<Rightarrow> string) \<Rightarrow> nat \<Rightarrow> pydict \<Rightarrow> string list \<Rightarrow> pyval list" where
  "validate_identifiers fl idx operation [] = []"
| "validate_identifiers fl idx operation (f # fs) =
     (if identifier_ok operation f then validate_identifiers fl idx operation fs
      else [op_error idx operation
        (f @ '' must be a non-empty string, got '' @ py_repr fl (dict_get operation f))
        (''Provide '' @ f @ '' as a non-empty string identifier.'')])"

definition validate_vertex_primary_keys :: "nat \<Rightarrow> pydict \<Rightarrow> string option \<Rightarrow> string set \<Rightarrow> pyval list" where
  "validate_vertex_primary_keys idx operation id_strategy property_keys =
     (if id_strategy \<noteq> Some ''PRIMARY_KEY'' then []
      else let primary_keys = dict_get operation ''primary_keys'' in
        if \<not> py_truthy primary_keys
        then [op_error idx operation ''primary_keys is required when id_strategy is PRIMARY_KEY''
          ''Add non-empty primary_keys or set id_strategy to AUTOMATIC/CUSTOMIZE_STRING/CUSTOMIZE_NUMBER.'']
        else (case primary_keys of
          PyList vs \<Rightarrow>
            if invalid_schema_names vs \<noteq> []
            then [op_error idx operation ''primary_keys must contain non-empty string names''
              ''Use only non-empty property key names for primary_keys.'']
            else let names = string_names vs; dups = duplicate_names names in
              if dups \<noteq> []
              then [op_error idx operation (''primary_keys contains duplicate name(s): '' @ join '', '' dups)
                ''Remove duplicate names from primary_keys.'']
              else (case listed_properties operation of
                None \<Rightarrow> []
              | Some properties \<Rightarrow>
                  (let missing = filter (\<lambda>n. PyStr n \<notin> set properties) names
                   in if missing = [] then []
                      else [op_error idx operation
                        (''primary_keys must be included in properties: '' @ join '', '' missing)
                        ''Add each primary key to properties before using it as a primary key.'']) @
                  undefined_keys_error idx operation ''primary_keys'' property_keys names)
        | _ \<Rightarrow> [op_error idx operation ''primary_keys must be a list''
            ''Use an array of property key names for primary_keys.'']))"

section \<open>Checks of one operation\<close>

record schema_names =
  sn_property_keys :: "string set"
  sn_vertex_labels :: "string set"
  sn_edge_labels :: "string set"
  sn_index_labels :: "string set"

definition live_names :: "pyval \<Rightarrow> schema_names" where
  "live_names live_schema =
     \<lparr>sn_property_keys = schema_items live_schema ''property_key'',
      sn_vertex_labels = schema_items live_schema ''vertex_label'',
      sn_edge_labels = schema_items live_schema ''edge_label'',
      sn_index_labels = schema_items live_schema ''index_label''\<rparr>"

text \<open>The name of an operation whose identifiers were checked.\<close>

definition op_ident :: "pydict \<Rightarrow> string \<Rightarrow> string" where
  "op_ident operation f = (case dict_get operation f of PyStr s \<Rightarrow> s | _ \<Rightarrow> [])"

definition exists_error :: "nat \<Rightarrow> pydict \<Rightarrow> string \<Rightarrow> string set \<Rightarrow> pyval list" where
  "exists_error idx operation kind live =
     (if op_ident operation ''name'' \<in> live
      then [op_error idx operation (kind @ '' already exists: '' @ op_ident operation ''name'')
        (''Use a new '' @ kind @ '' name or remove this '' @ op_ident operation ''type'' @ '' operation.'')]
      else [])"

definition undefined_label_error :: "nat \<Rightarrow> pydict \<Rightarrow> string \<Rightarrow> string \<Rightarrow> string set \<Rightarrow> pyval list" where
  "undefined_label_error idx operation f kind labels =
     (if op_ident operation f \<in> labels then []
      else [op_error idx operation (f @ '' references undefined '' @ kind @ '' label: '' @ op_ident operation f)
        (''Create the referenced '' @ kind @ '' label first and rerun validation '' @
         ''after it exists in the live schema.'')])"

definition property_key_errors :: "(rat \<Rightarrow> string) \<Rightarrow> nat \<Rightarrow> pydict \<Rightarrow> schema_names \<Rightarrow> pyval list" where
  "property_key_errors fl idx operation live =
     (let (data_type_errors, _) =
            validate_enum_field idx operation ''data_type'' PROPERTY_KEY_DATA_TYPES True (Some ''TEXT'');
          (cardinality_errors, cardinality) =
            validate_enum_field idx operation ''cardinality'' PROPERTY_KEY_CARDINALITIES False (Some ''SINGLE'');
          (aggregate_errors, aggregate_type) =
            (if blank_id (dict_get operation ''aggregate_type'') then ([], None)
             else validate_enum_field idx operation ''aggregate_type'' PROPERTY_KEY_AGGREGATE_TYPES False None)
      in exists_error idx operation ''property key'' (sn_property_keys live) @ data_type_errors @
         cardinality_errors @ aggregate_errors @
         validate_aggregate_cardinality fl idx operation cardinality aggregate_type)"

definition vertex_label_errors ::
  "(rat \<Rightarrow> string) \<Rightarrow> nat \<Rightarrow> pydict \<Rightarrow> schema_names \<Rightarrow> schema_names \<Rightarrow> pyval list" where
  "vertex_label_errors fl idx operation live available =
     (let (strategy_errors, id_strategy) =
            validate_enum_field idx operation ''id_strategy'' VERTEX_LABEL_ID_STRATEGIES False (Some ''PRIMARY_KEY'');
          keys = sn_property_keys available
      in exists_error idx operation ''vertex label'' (sn_vertex_labels live) @ strategy_errors @
         validate_property_references idx operation ''properties'' keys @
         validate_vertex_primary_keys idx operation id_strategy keys @
         validate_property_subset_references idx operation ''nullable_keys'' keys)"

definition unsupported_edge_fields_error :: "nat \<Rightarrow> pydict \<Rightarrow> pyval list" where
  "unsupported_edge_fields_error idx operation =
     (let unsupported = sort (filter (\<lambda>f. f \<in> set (map fst operation)) UNSUPPORTED_EDGE_LABEL_FIELDS)
      in if unsupported = [] then []
         else [op_error idx operation
           (''unsupported parent/sub edge label field(s): '' @ join '', '' unsupported)
           ''Parent/sub edge labels are not supported by manage_schema; remove these fields.''])"

definition edge_label_errors ::
  "(rat \<Rightarrow> string) \<Rightarrow> nat \<Rightarrow> pydict \<Rightarrow> schema_names \<Rightarrow> schema_names \<Rightarrow> pyval list" where
  "edge_label_errors fl idx operation live available =
     (let keys = sn_property_keys available
      in exists_error idx operation ''edge label'' (sn_edge_labels live) @
         unsupported_edge_fields_error idx operation @
         undefined_label_error idx operation ''source_label'' ''vertex'' (sn_vertex_labels available) @
         undefined_label_error idx operation ''target_label'' ''vertex'' (sn_vertex_labels available) @
         (if blank_id (dict_get operation ''frequency'') then []
          else fst (validate_enum_field idx operation ''frequency'' EDGE_LABEL_FREQUENCIES False None)) @
         validate_property_references idx operation ''properties'' keys @
         validate_property_subset_references idx operation ''nullable_keys'' keys @
         validate_property_subset_references idx operation ''sort_keys'' keys)"

definition index_label_errors ::
  "(rat \<Rightarrow> string) \<Rightarrow> nat \<Rightarrow> pydict \<Rightarrow> schema_names \<Rightarrow> schema_names \<Rightarrow> pyval list" where
  "index_label_errors fl idx operation live available =
     (let base_type = py_upper (py_str fl (dict_get operation ''base_type''))
      in exists_error idx operation ''index label'' (sn_index_labels live) @
         (if base_type = ''VERTEX''
          then undefined_label_error idx operation ''base_label'' ''vertex'' (sn_vertex_labels available)
          else if base_type = ''EDGE''
          then undefined_label_error idx operation ''base_label'' ''edge'' (sn_edge_labels available)
          else [op_error idx operation (''unsupported base_type for index label: '' @ base_type)
            (''Use base_type='' @ repr_string ''VERTEX'' @ '' or base_type='' @ repr_string ''EDGE'' @ ''.'')]) @
         validate_property_references idx operation ''fields'' (sn_property_keys available))"

text \<open>The checks that derive from the field contract.\<close>

definition field_contract_errors :: "nat \<Rightarrow> pydict \<Rightarrow> string \<Rightarrow> pyval list" where
  "field_contract_errors idx operation t =
     validate_supported_fields idx operation t @
     concat (map (\<lambda>(f, spec).
       if sf_kind spec = KBoolean then validate_bool_field idx operation f
       else if sf_kind spec = KMapping then validate_user_data_field idx operation f else [])
       (field_specs_for_operation t)) @
     (if t = ''create_vertex_label'' then validate_index_labels_field idx operation else [])"

definition missing_required :: "pydict \<Rightarrow> string \<Rightarrow> string list" where
  "missing_required operation t = filter (\<lambda>f. blank_id (dict_get operation f)) (REQUIRED_FIELDS t)"

definition required_errors :: "nat \<Rightarrow> pydict \<Rightarrow> string \<Rightarrow> pyval list" where
  "required_errors idx operation t =
     map (\<lambda>f. op_error idx operation (''missing required field: '' @ f)
       (''Add '' @ f @ '' to the '' @ t @ '' operation.'')) (missing_required operation t)"

definition typed_errors ::
  "(rat \<Rightarrow> string) \<Rightarrow> nat \<Rightarrow> pydict \<Rightarrow> string \<Rightarrow> schema_names \<Rightarrow> schema_names \<Rightarrow> pyval list" where
  "typed_errors fl idx operation t live available =
     (if t = ''create_property_key'' then property_key_errors fl idx operation live
      else if t = ''create_vertex_label'' then vertex_label_errors fl idx operation live available
      else if t = ''create_edge_label'' then edge_label_errors fl idx operation live available
      else if t = ''create_index_label'' then index_label_errors fl idx operation live available else [])"

text \<open>What the operation adds to the names later operations may use.\<close>

definition announce_create ::
  "planned_creates \<Rightarrow> pydict \<Rightarrow> string \<Rightarrow> schema_names \<Rightarrow> schema_names" where
  "announce_create planned operation t available =
     (let name = op_ident operation ''name'';
          is_planned = (\<lambda>key. list_ex (py_eq (PyStr name)) (planned_names planned key))
      in if t = ''create_property_key'' \<and> is_planned ''property_keys''
         then available\<lparr>sn_property_keys := insert name (sn_property_keys available)\<rparr>
         else if t = ''create_vertex_label'' \<and> is_planned ''vertex_labels''
         then available\<lparr>sn_vertex_labels := insert name (sn_vertex_labels available)\<rparr>
         else if t = ''create_edge_label'' \<and> is_planned ''edge_labels''
         then available\<lparr>sn_edge_labels := insert name (sn_edge_labels available)\<rparr>
         else available)"

definition check_schema_operation ::
  "(rat \<Rightarrow> string) \<Rightarrow> schema_names \<Rightarrow> planned_creates \<Rightarrow> pyval list \<times> schema_names \<Rightarrow> nat \<times> pyval
     \<Rightarrow> pyval list \<times> schema_names" where
  "check_schema_operation fl live planned st item =
     (case (st, item) of ((errors, available), (idx, v)) \<Rightarrow>
        (case v of
           PyDict operation \<Rightarrow>
             let t = operation_type fl operation in
             if is_delete_operation t
             then (errors @ [op_error idx operation (''unsupported delete/drop type: '' @ t)
               ''Use create-only schema operations; destructive schema changes are not supported.''], available)
             else if t \<notin> set ALLOWED_OPERATION_TYPES
             then (errors @ [op_error idx operation (''unsupported type: '' @ t)
               ''Use one of: create_property_key, create_vertex_label, create_edge_label, create_index_label.''],
               available)
             else let errors' = errors @ field_contract_errors idx operation t @ required_errors idx operation t;
                      identifier_errors = validate_identifiers fl idx operation (IDENTIFIER_FIELDS t) in
               if missing_required operation t \<noteq> [] then (errors', available)
               else if identifier_errors \<noteq> [] then (errors' @ identifier_errors, available)
               else (errors' @ typed_errors fl idx operation t live available,
                     announce_create planned operation t available)
         | _ \<Rightarrow> (errors @ [schema_error (int idx) v ''operation must be an object''
             ''Replace this item with a schema operation object.''], available)))"

definition validation_warning :: "(rat \<Rightarrow> string) \<Rightarrow> nat \<times> pyval \<Rightarrow> string list" where
  "validation_warning fl item =
     (case snd item of
        PyDict operation \<Rightarrow>
          let id_strategy = py_upper (case map_of operation ''id_strategy'' of
                None \<Rightarrow> ''PRIMARY_KEY'' | Some v \<Rightarrow> py_str fl v)
          in if dict_get operation ''type'' = PyStr ''create_vertex_label'' \<and> id_strategy \<noteq> ''PRIMARY_KEY'' \<and>
                \<not> py_truthy (dict_get operation ''primary_keys'')
             then [''operation '' @ show_nat (fst item) @ '' (create_vertex_label) has no primary_keys definition'']
             else []
      | _ \<Rightarrow> [])"

definition schema_report :: "pyval list \<Rightarrow> string list \<Rightarrow> pydict" where
  "schema_report errors warnings =
     [(''valid'', PyBool (errors = [])), (''errors'', PyList errors), (''warnings'', PyList (map PyStr warnings))]"

definition validate_schema_operations ::
  "(rat \<Rightarrow> string) \<Rightarrow> pyval \<Rightarrow> pyval \<Rightarrow> py_exception + pydict" where
  "validate_schema_operations fl operations live_schema =
     (case operations of
        PyList ops \<Rightarrow>
          and_then (collect_planned_creates fl ops) (\<lambda>(planned, duplicate_errors).
            let live = live_names live_schema;
                errors = fst (foldl (check_schema_operation fl live planned) (duplicate_errors, live)
                  (List.enumerate 0 ops))
            in Inr (schema_report errors (concat (map (validation_warning fl) (List.enumerate 0 ops)))))
      | _ \<Rightarrow> Inr (schema_report [schema_error (-1) operations ''operations must be a list''
          ''Pass schema operations as a JSON array.''] []))"

end
