(* ===== verification/Schema_Validity.thy ===== *)
theory Schema_Validity
  imports Schema_Validate
begin

text \<open>
  What an accepted batch of schema operations guarantees: every operation creates a new object, once,
  and refers only to objects that are live or that an earlier operation of the batch creates, so the
  operations can be applied in their order.
\<close>

section \<open>The promise\<close>

text \<open>The names the operations \<open>ops\<close> of type \<open>t\<close> create.\<close>

definition created_by :: "(rat \<Rightarrow> string) \<Rightarrow> string \<Rightarrow> pyval list \<Rightarrow> string set" where
  "created_by fl t ops = {n. \<exists>d. PyDict d \<in> set ops \<and> operation_type fl d = t \<and> dict_get d ''name'' = PyStr n}"

definition names_after :: "(rat \<Rightarrow> string) \<Rightarrow> schema_names \<Rightarrow> pyval list \<Rightarrow> schema_names" where
  "names_after fl live ops =
     live\<lparr>sn_property_keys := sn_property_keys live \<union> created_by fl ''create_property_key'' ops,
          sn_vertex_labels := sn_vertex_labels live \<union> created_by fl ''create_vertex_label'' ops,
          sn_edge_labels := sn_edge_labels live \<union> created_by fl ''create_edge_label'' ops\<rparr>"

definition names_of :: "pyval \<Rightarrow> string set" where
  "names_of v = (case v of PyList vs \<Rightarrow> {s. PyStr s \<in> set vs} | _ \<Rightarrow> {})"

definition refers_to :: "pydict \<Rightarrow> string \<Rightarrow> string set" where
  "refers_to d f = names_of (dict_get d f)"

definition references_resolve :: "(rat \<Rightarrow> string) \<Rightarrow> schema_names \<Rightarrow> pydict \<Rightarrow> bool" where
  "references_resolve fl known d =
     (let t = operation_type fl d; keys = sn_property_keys known
      in (t = ''create_vertex_label'' \<longrightarrow>
            refers_to d ''properties'' \<subseteq> keys \<and> refers_to d ''nullable_keys'' \<subseteq> keys \<inter> refers_to d ''properties'') \<and>
         (t = ''create_edge_label'' \<longrightarrow>
            op_ident d ''source_label'' \<in> sn_vertex_labels known \<and>
            op_ident d ''target_label'' \<in> sn_vertex_labels known \<and>
            refers_to d ''properties'' \<subseteq> keys \<and> refers_to d ''nullable_keys'' \<subseteq> keys \<inter> refers_to d ''properties'' \<and>
            refers_to d ''sort_keys'' \<subseteq> keys \<inter> refers_to d ''properties'') \<and>
         (t = ''create_index_label'' \<longrightarrow>
            op_ident d ''base_label'' \<in> sn_vertex_labels known \<union> sn_edge_labels known \<and>
            refers_to d ''fields'' \<subseteq> keys))"

definition live_kind :: "schema_names \<Rightarrow> string \<Rightarrow> string set" where
  "live_kind names t =
     (if t = ''create_property_key'' then sn_property_keys names
      else if t = ''create_vertex_label'' then sn_vertex_labels names
      else if t = ''create_edge_label'' then sn_edge_labels names else sn_index_labels names)"

section \<open>The checks of one operation\<close>

lemma invalid_names_empty:
  "invalid_schema_names vs = [] \<Longrightarrow> v \<in> set vs \<Longrightarrow> \<exists>s. v = PyStr s \<and> s \<noteq> []"
  by (cases v) (auto simp: invalid_schema_names_def filter_empty_conv)

lemma set_string_names: "set (string_names vs) = {s. PyStr s \<in> set vs}"
  by (induction vs) (auto simp: string_names_def List.map_filter_simps split: pyval.splits option.splits)

lemma undefined_keys_none:
  "undefined_keys_error idx d f keys names = [] \<longleftrightarrow> set names \<subseteq> keys"
  by (auto simp: undefined_keys_error_def Let_def filter_empty_conv)

lemma check_name_list_Inr: "check_name_list idx d f vs = Inr names \<Longrightarrow> names = string_names vs"
  by (auto simp: check_name_list_def Let_def split: if_splits)

lemma check_name_list_Inl: "check_name_list idx d f vs = Inl errors \<Longrightarrow> errors \<noteq> []"
  by (auto simp: check_name_list_def Let_def split: if_splits)

lemma property_references_none:
  "validate_property_references idx d f keys = [] \<Longrightarrow> refers_to d f \<subseteq> keys"
  by (auto simp: validate_property_references_def refers_to_def names_of_def dict_get_def undefined_keys_none blank_id_def
      set_string_names dest!: check_name_list_Inr check_name_list_Inl
      split: option.splits pyval.splits sum.splits if_splits)

lemma listed_properties_names: "listed_properties d = Some ps \<Longrightarrow> refers_to d ''properties'' = {s. PyStr s \<in> set ps}"
  by (auto simp: listed_properties_def refers_to_def names_of_def py_or_def split: pyval.splits if_splits)

lemma unlisted_properties:
  "listed_properties d = None \<Longrightarrow> validate_property_references idx d ''properties'' keys \<noteq> []"
  by (cases "dict_get d ''properties''")
    (auto simp: listed_properties_def py_or_def validate_property_references_def dict_get_def blank_id_def
      split: option.splits if_splits pyval.splits)

lemma subset_references_none:
  assumes "validate_property_subset_references idx d f keys = []"
    "validate_property_references idx d ''properties'' keys = []"
  shows "refers_to d f \<subseteq> keys \<inter> refers_to d ''properties''"
proof (cases "dict_get d f")
  case (PyList vs)
  have listed: "listed_properties d \<noteq> None" using assms(2) unlisted_properties by blast
  then obtain ps where ps: "listed_properties d = Some ps" by blast
  obtain names where names: "check_name_list idx d f vs = Inr names"
    using assms(1) PyList check_name_list_Inl
    by (cases "check_name_list idx d f vs") (auto simp: validate_property_subset_references_def split: list.splits)
  have "set names \<subseteq> keys" "\<forall>n \<in> set names. PyStr n \<in> set ps"
    using assms(1) PyList names ps
    by (auto simp: validate_property_subset_references_def undefined_keys_none Let_def filter_empty_conv
        split: list.splits if_splits)
  then show ?thesis
    using PyList check_name_list_Inr [OF names] listed_properties_names [OF ps]
    by (auto simp: refers_to_def names_of_def set_string_names)
qed (auto simp: refers_to_def names_of_def)

lemma undefined_label_none: "undefined_label_error idx d f kind labels = [] \<longleftrightarrow> op_ident d f \<in> labels"
  by (simp add: undefined_label_error_def)

lemma exists_none: "exists_error idx d kind live = [] \<longleftrightarrow> op_ident d ''name'' \<notin> live"
  by (simp add: exists_error_def)

lemmas reference_rules = property_references_none subset_references_none undefined_label_none exists_none

lemma typed_errors_none:
  assumes "typed_errors fl idx d (operation_type fl d) live known = []"
    "operation_type fl d \<in> set ALLOWED_OPERATION_TYPES"
  shows "references_resolve fl known d" "op_ident d ''name'' \<notin> live_kind live (operation_type fl d)"
proof -
  consider "operation_type fl d = ''create_property_key''" | "operation_type fl d = ''create_vertex_label''"
    | "operation_type fl d = ''create_edge_label''" | "operation_type fl d = ''create_index_label''"
    using assms(2) by (auto simp: ALLOWED_OPERATION_TYPES_def)
  then show "references_resolve fl known d" "op_ident d ''name'' \<notin> live_kind live (operation_type fl d)"
  proof (atomize (full), cases)
    case 1
    then show "references_resolve fl known d \<and> op_ident d ''name'' \<notin> live_kind live (operation_type fl d)"
      using assms(1)
      by (simp add: typed_errors_def property_key_errors_def references_resolve_def live_kind_def exists_none
          split: prod.splits)
  next
    case 2
    then have errors: "vertex_label_errors fl idx d live known = []" using assms(1) by (simp add: typed_errors_def)
    then have "validate_property_references idx d ''properties'' (sn_property_keys known) = []"
        "validate_property_subset_references idx d ''nullable_keys'' (sn_property_keys known) = []"
        "exists_error idx d ''vertex label'' (sn_vertex_labels live) = []"
      by (auto simp: vertex_label_errors_def Let_def split: prod.splits)
    then show "references_resolve fl known d \<and> op_ident d ''name'' \<notin> live_kind live (operation_type fl d)"
      using 2 subset_references_none property_references_none
      by (simp add: references_resolve_def live_kind_def exists_none)
  next
    case 3
    then have errors: "edge_label_errors fl idx d live known = []" using assms(1) by (simp add: typed_errors_def)
    then have refs: "validate_property_references idx d ''properties'' (sn_property_keys known) = []"
        "validate_property_subset_references idx d ''nullable_keys'' (sn_property_keys known) = []"
        "validate_property_subset_references idx d ''sort_keys'' (sn_property_keys known) = []"
        "exists_error idx d ''edge label'' (sn_edge_labels live) = []"
        "undefined_label_error idx d ''source_label'' ''vertex'' (sn_vertex_labels known) = []"
        "undefined_label_error idx d ''target_label'' ''vertex'' (sn_vertex_labels known) = []"
      by (auto simp: edge_label_errors_def Let_def)
    then show "references_resolve fl known d \<and> op_ident d ''name'' \<notin> live_kind live (operation_type fl d)"
      using 3 subset_references_none [OF refs(2,1)] subset_references_none [OF refs(3,1)]
        property_references_none [OF refs(1)]
      by (simp add: references_resolve_def live_kind_def exists_none undefined_label_none)
  next
    case 4
    then have errors: "index_label_errors fl idx d live known = []" using assms(1) by (simp add: typed_errors_def)
    then have refs: "validate_property_references idx d ''fields'' (sn_property_keys known) = []"
        "exists_error idx d ''index label'' (sn_index_labels live) = []"
        "op_ident d ''base_label'' \<in> sn_vertex_labels known \<union> sn_edge_labels known"
      by (auto simp: index_label_errors_def Let_def undefined_label_none split: if_splits)
    then show "references_resolve fl known d \<and> op_ident d ''name'' \<notin> live_kind live (operation_type fl d)"
      using 4 property_references_none [OF refs(1)]
      by (simp add: references_resolve_def live_kind_def exists_none)
  qed
qed

section \<open>The whole batch\<close>

lemma errors_grow: "\<exists>more'. fst (check_schema_operation fl live planned (errors, known) item) = errors @ more'"
  by (auto simp: check_schema_operation_def Let_def split: prod.splits pyval.splits)

lemma errors_grow_foldl:
  "\<exists>more'. fst (foldl (check_schema_operation fl live planned) st items) = fst st @ more'"
proof (induction items arbitrary: st)
  case (Cons item items)
  obtain e k where st: "st = (e, k)" by fastforce
  obtain x where x: "fst (check_schema_operation fl live planned (e, k) item) = e @ x" using errors_grow by metis
  obtain y where "fst (foldl (check_schema_operation fl live planned) (check_schema_operation fl live planned (e, k) item) items)
      = fst (check_schema_operation fl live planned (e, k) item) @ y" using Cons.IH by metis
  then show ?case using x st by auto
qed simp

lemma identifiers_checked:
  "validate_identifiers fl idx d fs = [] \<Longrightarrow> f \<in> set fs \<Longrightarrow> \<exists>s. dict_get d f = PyStr s \<and> s \<noteq> []"
  by (induction fs) (auto simp: identifier_ok_def py_strip_def split: if_splits pyval.splits)

lemma accepted_operation:
  assumes "check_schema_operation fl live planned ([], known) (idx, v) = ([], known')"
  shows "\<exists>d. v = PyDict d \<and> operation_type fl d \<in> set ALLOWED_OPERATION_TYPES \<and>
    known' = announce_create planned d (operation_type fl d) known \<and>
    typed_errors fl idx d (operation_type fl d) live known = [] \<and>
    (\<exists>n. dict_get d ''name'' = PyStr n \<and> n \<noteq> [])"
proof (cases v)
  case (PyDict d)
  let ?t = "operation_type fl d"
  have ok: "?t \<in> set ALLOWED_OPERATION_TYPES" "validate_identifiers fl idx d (IDENTIFIER_FIELDS ?t) = []"
      "missing_required d ?t = []" "typed_errors fl idx d ?t live known = []"
      "known' = announce_create planned d ?t known"
    using assms PyDict by (auto simp: check_schema_operation_def Let_def required_errors_def split: if_splits)
  have "''name'' \<in> set (IDENTIFIER_FIELDS ?t)"
    using ok(1) by (auto simp: IDENTIFIER_FIELDS_def ALLOWED_OPERATION_TYPES_def)
  then show ?thesis using ok PyDict identifiers_checked [OF ok(2)] by auto
qed (use assms in \<open>auto simp: check_schema_operation_def\<close>)

definition known_within :: "(rat \<Rightarrow> string) \<Rightarrow> schema_names \<Rightarrow> pyval list \<Rightarrow> schema_names \<Rightarrow> bool" where
  "known_within fl live ops known \<longleftrightarrow>
     sn_property_keys known \<subseteq> sn_property_keys (names_after fl live ops) \<and>
     sn_vertex_labels known \<subseteq> sn_vertex_labels (names_after fl live ops) \<and>
     sn_edge_labels known \<subseteq> sn_edge_labels (names_after fl live ops)"

lemma created_by_snoc:
  "created_by fl t (ops @ [PyDict d]) =
     created_by fl t ops \<union> (if operation_type fl d = t then {n. dict_get d ''name'' = PyStr n} else {})"
  by (auto simp: created_by_def)

lemma announce_within:
  "known_within fl live ops known \<Longrightarrow> dict_get d ''name'' = PyStr n \<Longrightarrow>
     known_within fl live (ops @ [PyDict d]) (announce_create planned d (operation_type fl d) known)"
  by (auto simp: known_within_def announce_create_def names_after_def created_by_snoc op_ident_def Let_def)

lemma references_mono:
  "known_within fl live ops known \<Longrightarrow> references_resolve fl known d \<Longrightarrow>
     references_resolve fl (names_after fl live ops) d"
  unfolding known_within_def references_resolve_def Let_def by blast

definition operation_accepted :: "(rat \<Rightarrow> string) \<Rightarrow> schema_names \<Rightarrow> pyval list \<Rightarrow> pyval \<Rightarrow> bool" where
  "operation_accepted fl live earlier v \<longleftrightarrow>
     (\<exists>d. v = PyDict d \<and> operation_type fl d \<in> set ALLOWED_OPERATION_TYPES \<and>
        op_ident d ''name'' \<notin> live_kind live (operation_type fl d) \<and>
        references_resolve fl (names_after fl live earlier) d)"

lemma foldl_accepts:
  "foldl (check_schema_operation fl live planned) ([], known) (List.enumerate k ops) = ([], known') \<Longrightarrow>
     known_within fl live earlier known \<Longrightarrow> i < length ops \<Longrightarrow>
     operation_accepted fl live (earlier @ take i ops) (ops ! i)"
proof (induction ops arbitrary: known k earlier i)
  case (Cons v vs)
  obtain e known1 where step: "check_schema_operation fl live planned ([], known) (k, v) = (e, known1)" by fastforce
  have "e = []"
    using Cons.prems(1) errors_grow_foldl [of fl live planned "(e, known1)" "List.enumerate (Suc k) vs"]
    by (auto simp: step enumerate_simps(2))
  then have ok: "check_schema_operation fl live planned ([], known) (k, v) = ([], known1)" using step by simp
  obtain d where d: "v = PyDict d" "operation_type fl d \<in> set ALLOWED_OPERATION_TYPES"
      "known1 = announce_create planned d (operation_type fl d) known"
      "typed_errors fl k d (operation_type fl d) live known = []" "\<exists>n. dict_get d ''name'' = PyStr n \<and> n \<noteq> []"
    using accepted_operation [OF ok] by blast
  show ?case
  proof (cases i)
    case 0
    have "references_resolve fl (names_after fl live earlier) d"
      using references_mono [OF Cons.prems(2)] typed_errors_none(1) [OF d(4,2)] .
    then show ?thesis
      using 0 d typed_errors_none(2) [OF d(4,2)] by (simp add: operation_accepted_def)
  next
    case (Suc j)
    have "known_within fl live (earlier @ [v]) known1"
      using announce_within [OF Cons.prems(2)] d by blast
    then have "operation_accepted fl live ((earlier @ [v]) @ take j vs) (vs ! j)"
      using Cons.IH [of known1 "Suc k" "earlier @ [v]" j] Cons.prems(1,3) Suc ok by (simp add: enumerate_simps(2))
    then show ?thesis using Suc by simp
  qed
qed simp

lemma valid_report:
  assumes "validate_schema_operations fl (PyList ops) live_schema = Inr r" "dict_get r ''valid'' = PyBool True"
  shows "\<exists>planned known. collect_planned_creates fl ops = Inr (planned, []) \<and>
    foldl (check_schema_operation fl (live_names live_schema) planned) ([], live_names live_schema)
      (List.enumerate 0 ops) = ([], known)"
proof -
  obtain planned dups where c: "collect_planned_creates fl ops = Inr (planned, dups)"
    using assms(1) by (auto simp: validate_schema_operations_def and_then_eq_Inr)
  let ?run = "foldl (check_schema_operation fl (live_names live_schema) planned)"
  have "fst (?run (dups, live_names live_schema) (List.enumerate 0 ops)) = []"
    using assms c by (auto simp: validate_schema_operations_def schema_report_def Let_def)
  moreover obtain x where "fst (?run (dups, live_names live_schema) (List.enumerate 0 ops)) = dups @ x"
    using errors_grow_foldl by (metis fst_conv)
  ultimately have "dups = []" "fst (?run ([], live_names live_schema) (List.enumerate 0 ops)) = []" by auto
  then show ?thesis using c by (metis prod.collapse)
qed

section \<open>No object is created twice\<close>

definition already_planned :: "(rat \<Rightarrow> string) \<Rightarrow> planned_creates \<Rightarrow> pydict \<Rightarrow> bool" where
  "already_planned fl planned d =
     (\<exists>key. map_of CREATE_TYPE_TO_KEY (operation_type fl d) = Some key \<and>
        dict_get d ''name'' \<in> set (planned_names planned key))"

lemma planned_names_update:
  "planned_names (AList.update key vs planned) key' = (if key' = key then vs else planned_names planned key')"
  by (simp add: planned_names_def update_conv')

lemma collect_grows:
  assumes "collect_planned_create fl (planned, errors) item = Inr (planned', errors')"
  shows "\<exists>x. errors' = errors @ x" "already_planned fl planned d \<Longrightarrow> already_planned fl planned' d"
  using assms
  by (auto simp: collect_planned_create_def already_planned_def planned_names_update Let_def
      split: prod.splits pyval.splits option.splits if_splits)

lemma collect_from_grows:
  "collect_from fl (planned, errors) items = Inr (planned', errors') \<Longrightarrow> \<exists>x. errors' = errors @ x"
proof (induction items arbitrary: planned errors)
  case (Cons item items)
  then obtain p e where "collect_planned_create fl (planned, errors) item = Inr (p, e)"
      "collect_from fl (p, e) items = Inr (planned', errors')"
    by (auto simp: and_then_eq_Inr)
  then show ?case using Cons.IH collect_grows(1) by fastforce
qed simp

definition names_object :: "(rat \<Rightarrow> string) \<Rightarrow> pydict \<Rightarrow> bool" where
  "names_object fl d \<longleftrightarrow> operation_type fl d \<in> set ALLOWED_OPERATION_TYPES \<and> (\<exists>n. dict_get d ''name'' = PyStr n \<and> n \<noteq> [])"

lemma names_object_key: "names_object fl d \<Longrightarrow> \<exists>key. map_of CREATE_TYPE_TO_KEY (operation_type fl d) = Some key"
  by (auto simp: names_object_def ALLOWED_OPERATION_TYPES_def CREATE_TYPE_TO_KEY_def)

lemma collect_plans:
  assumes "collect_planned_create fl (planned, errors) (k, PyDict d) = Inr (planned', errors)" "names_object fl d"
  shows "\<not> already_planned fl planned d" "already_planned fl planned' d"
proof -
  obtain key where key: "map_of CREATE_TYPE_TO_KEY (operation_type fl d) = Some key"
    using names_object_key [OF assms(2)] by blast
  obtain n where n: "dict_get d ''name'' = PyStr n" "n \<noteq> []" using assms(2) by (auto simp: names_object_def)
  show "\<not> already_planned fl planned d" "already_planned fl planned' d"
    using assms(1) key n
    by (auto simp: collect_planned_create_def already_planned_def planned_names_update Let_def list_ex_iff split: if_splits)
qed

lemma collect_from_fresh:
  "collect_from fl (planned, errors) (List.enumerate k ops) = Inr (planned', errors) \<Longrightarrow>
     j < length ops \<Longrightarrow> ops ! j = PyDict e \<Longrightarrow> names_object fl e \<Longrightarrow> \<not> already_planned fl planned e"
proof (induction ops arbitrary: planned k j)
  case (Cons v vs)
  obtain p er where step: "collect_planned_create fl (planned, errors) (k, v) = Inr (p, er)"
      "collect_from fl (p, er) (List.enumerate (Suc k) vs) = Inr (planned', errors)"
    using Cons.prems(1) by (auto simp: enumerate_simps(2) and_then_eq_Inr)
  then have er: "er = errors"
    using collect_grows(1) [OF step(1)] collect_from_grows [OF step(2)] by auto
  show ?case
  proof (cases j)
    case 0
    then show ?thesis using collect_plans(1) step(1) er Cons.prems by auto
  next
    case (Suc j')
    then have "\<not> already_planned fl p e" using Cons.IH [of p "Suc k" j'] step(2) er Cons.prems by simp
    then show ?thesis using collect_grows(2) [OF step(1)] by blast
  qed
qed simp

lemma collect_from_distinct:
  "collect_from fl (planned, errors) (List.enumerate k ops) = Inr (planned', errors) \<Longrightarrow>
     i < j \<Longrightarrow> j < length ops \<Longrightarrow> ops ! i = PyDict d \<Longrightarrow> ops ! j = PyDict e \<Longrightarrow>
     names_object fl d \<Longrightarrow> names_object fl e \<Longrightarrow> operation_type fl d = operation_type fl e \<Longrightarrow>
     dict_get d ''name'' \<noteq> dict_get e ''name''"
proof (induction ops arbitrary: planned k i j)
  case (Cons v vs)
  obtain p er where step: "collect_planned_create fl (planned, errors) (k, v) = Inr (p, er)"
      "collect_from fl (p, er) (List.enumerate (Suc k) vs) = Inr (planned', errors)"
    using Cons.prems(1) by (auto simp: enumerate_simps(2) and_then_eq_Inr)
  then have er: "er = errors"
    using collect_grows(1) [OF step(1)] collect_from_grows [OF step(2)] by auto
  obtain j' where j: "j = Suc j'" using Cons.prems(2) by (cases j) auto
  show ?case
  proof (cases i)
    case 0
    then have "already_planned fl p d" using collect_plans(2) step(1) er Cons.prems by auto
    moreover have "\<not> already_planned fl p e"
      using collect_from_fresh [of fl p errors "Suc k" vs planned' j' e] step(2) er Cons.prems j by simp
    ultimately show ?thesis using Cons.prems(8) by (auto simp: already_planned_def)
  next
    case (Suc i')
    then show ?thesis
      using Cons.IH [of p "Suc k" i' j'] step(2) er Cons.prems j by simp
  qed
qed simp

lemma accepted_names_object:
  assumes "foldl (check_schema_operation fl live planned) ([], known) (List.enumerate k ops) = ([], known')"
    "i < length ops" "ops ! i = PyDict d"
  shows "names_object fl d"
  using assms
proof (induction ops arbitrary: known k i)
  case (Cons v vs)
  obtain e known1 where step: "check_schema_operation fl live planned ([], known) (k, v) = (e, known1)" by fastforce
  have "e = []"
    using Cons.prems(1) errors_grow_foldl [of fl live planned "(e, known1)" "List.enumerate (Suc k) vs"]
    by (auto simp: step enumerate_simps(2))
  then have ok: "check_schema_operation fl live planned ([], known) (k, v) = ([], known1)" using step by simp
  show ?case
  proof (cases i)
    case 0
    then show ?thesis using accepted_operation [OF ok] Cons.prems by (auto simp: names_object_def)
  next
    case (Suc j)
    then show ?thesis using Cons.IH [of known1 "Suc k" j] Cons.prems ok by (simp add: enumerate_simps(2))
  qed
qed simp


definition sample_batch :: "pyval list" where
  "sample_batch =
     [PyDict [(''type'', PyStr ''create_property_key''), (''name'', PyStr ''age''), (''data_type'', PyStr ''int'')],
      PyDict [(''type'', PyStr ''create_vertex_label''), (''name'', PyStr ''person''),
        (''properties'', PyList [PyStr ''age'']), (''primary_keys'', PyList [PyStr ''age''])],
      PyDict [(''type'', PyStr ''create_edge_label''), (''name'', PyStr ''knows''),
        (''source_label'', PyStr ''person''), (''target_label'', PyStr ''person'')]]"


end
