(* ===== verification/Schema_Match.thy ===== *)
theory Schema_Match
  imports Schema_Validate
begin

text \<open>
  \<open>tools/manage_schema.py\<close>, the comparison of a schema operation with the live schema:
  \<open>_schema_object_state\<close> finds the object by its kind and name and decides, field by field along the
  contract table, whether it is the one the operation describes.
\<close>

section \<open>One field\<close>

definition normalize_name_list :: "pyval \<Rightarrow> string list option" where
  "normalize_name_list v =
     (case v of
        PyList vs \<Rightarrow>
          if list_all (\<lambda>item. case item of
               PyStr _ \<Rightarrow> True
             | PyDict d \<Rightarrow> (case dict_get d ''name'' of PyStr _ \<Rightarrow> True | _ \<Rightarrow> False)
             | _ \<Rightarrow> False) vs
          then Some (List.map_filter schema_name vs) else None
      | _ \<Rightarrow> None)"

definition list_field_matches :: "pydict \<Rightarrow> pydict \<Rightarrow> string \<Rightarrow> string list \<Rightarrow> bool" where
  "list_field_matches observed operation f aliases =
     (case map_of operation f of
        None \<Rightarrow> True
      | Some expected \<Rightarrow>
          (case normalize_name_list (field_value observed aliases) of
             None \<Rightarrow> False
           | Some names \<Rightarrow> py_eq (PyList (map PyStr names)) expected))"

definition enum_field_matches ::
  "(rat \<Rightarrow> string) \<Rightarrow> pydict \<Rightarrow> pydict \<Rightarrow> string \<Rightarrow> string option \<Rightarrow> string list \<Rightarrow> bool" where
  "enum_field_matches fl observed operation f dflt aliases =
     (let expected = (case map_of operation f of Some v \<Rightarrow> v | None \<Rightarrow> opt_str dflt)
      in if expected = PyNone then True
         else case field_value observed aliases of
           PyStr s \<Rightarrow> canonical_enum_value f (py_upper s) = canonical_enum_value f (py_upper (py_str fl expected))
         | _ \<Rightarrow> False)"

definition mapping_field_matches :: "pydict \<Rightarrow> pydict \<Rightarrow> string \<Rightarrow> string list \<Rightarrow> bool" where
  "mapping_field_matches observed operation f aliases =
     (case map_of operation f of
        None \<Rightarrow> True
      | Some expected \<Rightarrow>
          let actual = field_value observed aliases
          in if actual = PyNone \<and> expected = PyDict [] then True
             else (case (actual, expected) of
               (PyDict _, PyDict _) \<Rightarrow> py_eq (user_data_without_server_metadata actual) expected
             | _ \<Rightarrow> False))"

text \<open>\<open>_scalar_field_matches\<close> and \<open>_string_field_matches\<close>, which are the same function.\<close>

definition scalar_field_matches :: "pydict \<Rightarrow> pydict \<Rightarrow> string \<Rightarrow> string list \<Rightarrow> bool" where
  "scalar_field_matches observed operation f aliases =
     (case map_of operation f of None \<Rightarrow> True | Some expected \<Rightarrow> py_eq (field_value observed aliases) expected)"

definition supported_field_matches ::
  "(rat \<Rightarrow> string) \<Rightarrow> string \<Rightarrow> string \<Rightarrow> pydict \<Rightarrow> pydict \<Rightarrow> bool" where
  "supported_field_matches fl t f operation observed =
     (case map_of (field_specs_for_operation t) f of
        None \<Rightarrow> False
      | Some spec \<Rightarrow>
          (case sf_kind spec of
             KEnum \<Rightarrow> enum_field_matches fl observed operation f (sf_default spec) (sf_aliases spec)
           | KList \<Rightarrow> list_field_matches observed operation f (sf_aliases spec)
           | KMapping \<Rightarrow> mapping_field_matches observed operation f (sf_aliases spec)
           | KBoolean \<Rightarrow> scalar_field_matches observed operation f (sf_aliases spec)
           | KScalar \<Rightarrow> scalar_field_matches observed operation f (sf_aliases spec)
           | KIdentity \<Rightarrow> f \<in> {''type'', ''name''}))"

section \<open>The object\<close>

text \<open>The fields to compare: those of the operation, and those with a default the server applies.\<close>

definition compared_fields :: "string \<Rightarrow> pydict \<Rightarrow> string list" where
  "compared_fields t operation =
     map fst (filter (\<lambda>(f, spec). f \<notin> {''type'', ''name''} \<and> (f \<in> set (map fst operation) \<or> sf_default spec \<noteq> None))
       (field_specs_for_operation t))"

definition operation_fields_match :: "(rat \<Rightarrow> string) \<Rightarrow> pydict \<Rightarrow> pydict \<Rightarrow> bool" where
  "operation_fields_match fl operation observed =
     (let t = operation_type fl operation
      in case map_of SUPPORTED_FIELDS t of
           None \<Rightarrow> False
         | Some supported \<Rightarrow>
             list_all (\<lambda>f. f \<in> supported) (map fst operation) \<and>
             list_all (\<lambda>f. supported_field_matches fl t f operation observed) (compared_fields t operation))"

definition collection_aliases :: "string \<Rightarrow> string list" where
  "collection_aliases collection =
     (if collection = ''propertykeys'' then [''propertykeys'', ''property_keys'', ''propertyKeys'']
      else if collection = ''vertexlabels'' then [''vertexlabels'', ''vertex_labels'', ''vertexLabels'']
      else if collection = ''edgelabels'' then [''edgelabels'', ''edge_labels'', ''edgeLabels'']
      else if collection = ''indexlabels'' then [''indexlabels'', ''index_labels'', ''indexLabels'']
      else [collection])"

fun first_named :: "pyval \<Rightarrow> string list \<Rightarrow> pyval list \<Rightarrow> pydict option" where
  "first_named name name_aliases [] = None"
| "first_named name name_aliases (v # vs) =
     (case v of
        PyDict d \<Rightarrow> if field_value d name_aliases = name then Some d else first_named name name_aliases vs
      | _ \<Rightarrow> first_named name name_aliases vs)"

definition find_schema_item :: "pydict \<Rightarrow> string \<Rightarrow> pyval \<Rightarrow> string list \<Rightarrow> pydict option" where
  "find_schema_item schema collection name name_aliases =
     (case name of
        PyStr _ \<Rightarrow>
          (case field_value schema (collection_aliases collection) of
             PyList vs \<Rightarrow> first_named name name_aliases vs
           | _ \<Rightarrow> None)
      | _ \<Rightarrow> None)"

datatype object_state = ObjectMissing | ObjectIdentical pydict | ObjectConflict pydict

definition inner_schema :: "pyval \<Rightarrow> pydict" where
  "inner_schema live_schema =
     (case live_schema of
        PyDict d \<Rightarrow> (case dict_get d ''schema'' of PyDict e \<Rightarrow> e | _ \<Rightarrow> d)
      | _ \<Rightarrow> [])"

definition schema_object_state :: "(rat \<Rightarrow> string) \<Rightarrow> pydict \<Rightarrow> pyval \<Rightarrow> object_state" where
  "schema_object_state fl operation live_schema =
     (let t = operation_type fl operation
      in case schema_collection_for_operation t of
           None \<Rightarrow> ObjectMissing
         | Some collection \<Rightarrow>
             let name_aliases = (case map_of (field_specs_for_operation t) ''name'' of
                   Some spec \<Rightarrow> sf_aliases spec | None \<Rightarrow> [''name''])
             in (case find_schema_item (inner_schema live_schema) collection (dict_get operation ''name'') name_aliases of
                   None \<Rightarrow> ObjectMissing
                 | Some observed \<Rightarrow>
                     if operation_fields_match fl operation observed then ObjectIdentical observed
                     else ObjectConflict observed))"

text \<open>\<open>_operation_observed\<close>\<close>

definition operation_observed :: "(rat \<Rightarrow> string) \<Rightarrow> pydict \<Rightarrow> pyval \<Rightarrow> bool" where
  "operation_observed fl operation live_schema =
     (case schema_object_state fl operation live_schema of ObjectIdentical _ \<Rightarrow> True | _ \<Rightarrow> False)"

section \<open>What \<open>identical\<close> means\<close>

lemma first_named_Some:
  "first_named name aliases vs = Some d \<Longrightarrow> PyDict d \<in> set vs \<and> field_value d aliases = name"
  by (induction vs) (auto split: pyval.split_asm if_splits)

lemma first_named_None:
  "first_named name aliases vs = None \<Longrightarrow> PyDict d \<in> set vs \<Longrightarrow> field_value d aliases \<noteq> name"
  by (induction vs) (auto split: pyval.split_asm if_splits)

lemma identical_matches:
  "schema_object_state fl operation live_schema = ObjectIdentical observed \<Longrightarrow>
     operation_fields_match fl operation observed"
  by (auto simp: schema_object_state_def Let_def split: option.splits if_splits)

end
