(* ===== verification/Schema_Client.thy ===== *)
theory Schema_Client
  imports Effects Json_Text
begin

text \<open>
  The schema part of \<open>hugegraph-python-client\<close>: response validation (\<open>utils/util.py\<close>), the parameter
  holder (\<open>api/common.py\<close>, \<open>utils/huge_decorator.py\<close>), the builders of \<open>api/schema_manage\<close> and
  \<open>SchemaManager\<close> (\<open>api/schema.py\<close>). The HTTP library is a parameter, the \<open>transport\<close>, which takes
  method, path and body to an answer or an exception; URL resolution belongs to it. A body, sent as
  \<open>json.dumps(data)\<close>, is represented by its value.
\<close>

section \<open>Responses\<close>

record http_answer =
  ha_status :: nat
  ha_json :: "pyval option"
  ha_text :: string
  ha_content :: string

type_synonym 'w transport = "string \<Rightarrow> string \<Rightarrow> pyval option \<Rightarrow> ('w, http_answer) effect"

text \<open>What \<open>ServerError\<close> reports of an error response.\<close>

definition error_details :: "(rat \<Rightarrow> string) \<Rightarrow> http_answer \<Rightarrow> string" where
  "error_details fl answer =
     (let fallback = (if ha_text answer = [] then ''unknown error'' else ha_text answer)
      in case ha_json answer of
           Some (PyDict body) \<Rightarrow>
             let status_message = (case dict_get body ''status'' of PyDict st \<Rightarrow> dict_get st ''message'' | _ \<Rightarrow> PyNone)
             in py_str fl (py_or (dict_get body ''message'') (py_or (dict_get body ''exception'')
                  (py_or status_message (PyStr fallback))))
         | _ \<Rightarrow> fallback)"

text \<open>\<open>ResponseValidation.__call__\<close> for JSON content; \<open>raise_for_status\<close> raises from 400 to 599.\<close>

definition validate_response ::
  "(rat \<Rightarrow> string) \<Rightarrow> bool \<Rightarrow> string \<Rightarrow> string \<Rightarrow> http_answer \<Rightarrow> py_exception + pyval" where
  "validate_response fl strict method path answer =
     (let status = ha_status answer
      in if 400 \<le> status \<and> status < 600 then
           if \<not> strict \<and> status = 404 then Inr (PyDict [])
           else if status = 401
           then Inl (RaisesNamed ''NotAuthorizedError''
             (''Please check your username and password. '' @ ha_content answer))
           else if status = 404 then Inl (RaisesNamed ''NotFoundError'' (ha_content answer))
           else Inl (RaisesNamed ''ServerError'' (''Server Exception: '' @ error_details fl answer))
         else if status = 204 then Inr (PyDict [])
         else case ha_json answer of
           Some v \<Rightarrow> Inr v
         | None \<Rightarrow> Inl (RaisesNamed ''ResponseParseError''
             (''Failed to parse json response for '' @ method @ '' '' @ path)))"

definition session_request ::
  "(rat \<Rightarrow> string) \<Rightarrow> 'w transport \<Rightarrow> bool \<Rightarrow> string \<Rightarrow> string \<Rightarrow> pyval option \<Rightarrow> ('w, pyval) effect" where
  "session_request fl transport strict method path body =
     effect_bind (transport method path body) (\<lambda>answer. effect_of (validate_response fl strict method path answer))"

section \<open>The parameter holder\<close>

text \<open>The class of a builder and its holder, which \<open>clean_parameter_holder\<close> sets to \<open>None\<close>.\<close>

datatype builder_class = PropertyKeyBuilder | VertexLabelBuilder | EdgeLabelBuilder | IndexLabelBuilder

record schema_builder =
  sb_class :: builder_class
  sb_parameters :: "pydict option"

definition add_parameter :: "string \<Rightarrow> pyval \<Rightarrow> schema_builder \<Rightarrow> py_exception + schema_builder" where
  "add_parameter key v b =
     (case sb_parameters b of
        None \<Rightarrow> Inl RaisesAttribute
      | Some d \<Rightarrow> Inr (b\<lparr>sb_parameters := Some (AList.update key v d)\<rparr>))"

text \<open>\<open>decorator_params\<close>\<close>

definition require_parameters :: "schema_builder \<Rightarrow> py_exception + pydict" where
  "require_parameters b =
     (case sb_parameters b of
        Some d \<Rightarrow>
          if ''name'' \<in> set (map fst d) then Inr d
          else Inl (RaisesNamed ''Exception'' ''Parameters required, please set necessary parameters.'')
      | None \<Rightarrow> Inl (RaisesNamed ''Exception'' ''Parameters required, please set necessary parameters.''))"

text \<open>A decorated method that sets one parameter.\<close>

definition set_option :: "string \<Rightarrow> pyval \<Rightarrow> schema_builder \<Rightarrow> py_exception + schema_builder" where
  "set_option key v b = and_then (require_parameters b) (\<lambda>_. add_parameter key v b)"

section \<open>The builders\<close>

text \<open>The methods without arguments: what they set.\<close>

definition property_key_methods :: "(string \<times> string \<times> string) list" where
  "property_key_methods =
     [(''asObject'', ''data_type'', ''OBJECT''), (''asBool'', ''data_type'', ''BOOLEAN''),
      (''asByte'', ''data_type'', ''BYTE''), (''asInt'', ''data_type'', ''INT''),
      (''asLong'', ''data_type'', ''LONG''), (''asFloat'', ''data_type'', ''FLOAT''),
      (''asDouble'', ''data_type'', ''DOUBLE''), (''asText'', ''data_type'', ''TEXT''),
      (''asBlob'', ''data_type'', ''BLOB''), (''asDate'', ''data_type'', ''DATE''),
      (''valueSingle'', ''cardinality'', ''SINGLE''), (''valueList'', ''cardinality'', ''LIST''),
      (''valueSet'', ''cardinality'', ''SET''), (''calcMax'', ''aggregate_type'', ''MAX''),
      (''calcMin'', ''aggregate_type'', ''MIN''), (''calcSum'', ''aggregate_type'', ''SUM''),
      (''calcOld'', ''aggregate_type'', ''OLD'')]"

definition vertex_label_methods :: "(string \<times> string \<times> string) list" where
  "vertex_label_methods =
     [(''useAutomaticId'', ''id_strategy'', ''AUTOMATIC''),
      (''useCustomizeStringId'', ''id_strategy'', ''CUSTOMIZE_STRING''),
      (''useCustomizeNumberId'', ''id_strategy'', ''CUSTOMIZE_NUMBER''),
      (''usePrimaryKeyId'', ''id_strategy'', ''PRIMARY_KEY'')]"

definition edge_label_methods :: "(string \<times> string \<times> string) list" where
  "edge_label_methods = [(''singleTime'', ''frequency'', ''SINGLE''), (''multiTimes'', ''frequency'', ''MULTIPLE'')]"

definition index_label_methods :: "(string \<times> string \<times> string) list" where
  "index_label_methods =
     [(''secondary'', ''index_type'', ''SECONDARY''), (''range'', ''index_type'', ''RANGE''),
      (''search'', ''index_type'', ''SEARCH''), (''shard'', ''index_type'', ''SHARD''),
      (''unique'', ''index_type'', ''UNIQUE'')]"

definition methods_of :: "builder_class \<Rightarrow> (string \<times> string \<times> string) list" where
  "methods_of c =
     (case c of PropertyKeyBuilder \<Rightarrow> property_key_methods | VertexLabelBuilder \<Rightarrow> vertex_label_methods
      | EdgeLabelBuilder \<Rightarrow> edge_label_methods | IndexLabelBuilder \<Rightarrow> index_label_methods)"

text \<open>\<open>getattr(builder, method)()\<close>\<close>

definition call_method :: "string \<Rightarrow> schema_builder \<Rightarrow> py_exception + schema_builder" where
  "call_method method b =
     (case map_of (methods_of (sb_class b)) method of
        None \<Rightarrow> Inl RaisesAttribute
      | Some (key, v) \<Rightarrow> set_option key (PyStr v) b)"

text \<open>\<open>list(set(args))\<close>: the distinct values in the order the interpreter's hashing gives, \<open>order\<close>.\<close>

fun distinct_values :: "pyval list \<Rightarrow> pyval list" where
  "distinct_values [] = []"
| "distinct_values (v # vs) = v # filter (\<lambda>w. \<not> py_eq v w) (distinct_values vs)"

text \<open>The methods that take names: \<open>properties\<close>, \<open>primaryKeys\<close>, \<open>nullableKeys\<close>, \<open>sortKeys\<close>.\<close>

definition set_names ::
  "(pyval list \<Rightarrow> pyval list) \<Rightarrow> string \<Rightarrow> pyval list \<Rightarrow> schema_builder \<Rightarrow> py_exception + schema_builder" where
  "set_names order key args b =
     (if sb_class b = EdgeLabelBuilder \<and> key = ''nullable_keys'' then
        and_then (require_parameters b) (\<lambda>_.
          if list_all hashable args then add_parameter key (PyList (order (distinct_values args))) b
          else Inl RaisesType)
      else set_option key (PyList args) b)"

definition link_labels :: "pyval \<Rightarrow> pyval \<Rightarrow> schema_builder \<Rightarrow> py_exception + schema_builder" where
  "link_labels source_label target_label b =
     and_then (set_option ''source_label'' source_label b) (set_option ''target_label'' target_label)"

definition parent_label :: "pyval \<Rightarrow> schema_builder \<Rightarrow> py_exception + schema_builder" where
  "parent_label parent b =
     and_then (set_option ''parent_label'' parent b) (set_option ''edgelabel_type'' (PyStr ''SUB''))"

definition index_on :: "string \<Rightarrow> pyval \<Rightarrow> schema_builder \<Rightarrow> py_exception + schema_builder" where
  "index_on base_type label b =
     and_then (set_option ''base_value'' label b) (set_option ''base_type'' (PyStr base_type))"

fun add_index_fields :: "pyval list \<Rightarrow> pyval list \<Rightarrow> pyval list" where
  "add_index_fields present [] = present"
| "add_index_fields present (v # vs) =
     add_index_fields (if list_ex (py_eq v) present then present else present @ [v]) vs"

definition index_by :: "pyval list \<Rightarrow> schema_builder \<Rightarrow> py_exception + schema_builder" where
  "index_by args b =
     and_then (require_parameters b) (\<lambda>d.
       add_parameter ''fields''
         (PyList (add_index_fields (case dict_get d ''fields'' of PyList vs \<Rightarrow> vs | _ \<Rightarrow> []) args)) b)"

section \<open>Requests\<close>

definition collection_path :: "builder_class \<Rightarrow> string" where
  "collection_path c =
     (case c of PropertyKeyBuilder \<Rightarrow> ''schema/propertykeys'' | VertexLabelBuilder \<Rightarrow> ''schema/vertexlabels''
      | EdgeLabelBuilder \<Rightarrow> ''schema/edgelabels'' | IndexLabelBuilder \<Rightarrow> ''schema/indexlabels'')"

definition class_name :: "builder_class \<Rightarrow> string" where
  "class_name c =
     (case c of PropertyKeyBuilder \<Rightarrow> ''PropertyKey'' | VertexLabelBuilder \<Rightarrow> ''VertexLabel''
      | EdgeLabelBuilder \<Rightarrow> ''EdgeLabel'' | IndexLabelBuilder \<Rightarrow> ''IndexLabel'')"

text \<open>The parameters of a list of keys that are set, in the order of the list.\<close>

definition pick_keys :: "string list \<Rightarrow> pydict \<Rightarrow> pydict" where
  "pick_keys keys d = List.map_filter (\<lambda>k. map_option (Pair k) (map_of d k)) keys"

definition property_key_body :: "pydict \<Rightarrow> py_exception + pydict" where
  "property_key_body d =
     and_then (item_of d ''name'') (\<lambda>name.
       Inr ((''name'', name) # pick_keys [''data_type'', ''cardinality'', ''aggregate_type''] d @
         (if py_truthy (dict_get d ''user_data'') then [(''user_data'', dict_get d ''user_data'')] else [])))"

definition vertex_label_body :: "pydict \<Rightarrow> pydict" where
  "vertex_label_body d =
     pick_keys [''name'', ''id_strategy'', ''primary_keys'', ''nullable_keys'', ''index_labels'', ''properties'',
       ''enable_label_index'', ''user_data''] d"

definition edge_label_body :: "pydict \<Rightarrow> pydict" where
  "edge_label_body d =
     pick_keys [''name'', ''source_label'', ''target_label'', ''nullable_keys'', ''properties'',
       ''enable_label_index'', ''sort_keys'', ''user_data'', ''frequency'', ''parent_label'', ''edgelabel_type''] d"

fun index_label_body :: "string list \<Rightarrow> pydict \<Rightarrow> py_exception + pydict" where
  "index_label_body [] d = Inr []"
| "index_label_body (k # ks) d =
     and_then (item_of d k) (\<lambda>v. and_then (index_label_body ks d) (\<lambda>body. Inr ((k, v) # body)))"

definition create_body :: "builder_class \<Rightarrow> pydict \<Rightarrow> py_exception + pydict" where
  "create_body c d =
     (case c of
        PropertyKeyBuilder \<Rightarrow> property_key_body d
      | VertexLabelBuilder \<Rightarrow> Inr (vertex_label_body d)
      | EdgeLabelBuilder \<Rightarrow> Inr (edge_label_body d)
      | IndexLabelBuilder \<Rightarrow> index_label_body [''name'', ''base_type'', ''base_value'', ''index_type'', ''fields''] d)"

definition quoted :: "builder_class \<Rightarrow> string \<Rightarrow> string" where
  "quoted c s = (if c = PropertyKeyBuilder then s else [CHR 0x22] @ s @ [CHR 0x22])"

text \<open>The value a request method returns: a text, or the class's failure value on an empty response.\<close>

definition request_result :: "(rat \<Rightarrow> string) \<Rightarrow> string \<Rightarrow> builder_class \<Rightarrow> pyval \<Rightarrow> pyval" where
  "request_result fl verb c response =
     (if py_truthy response
      then PyStr (verb @ '' '' @ class_name c @ '' success, Detail: '' @ quoted c (py_str fl response))
      else if c \<in> {EdgeLabelBuilder, IndexLabelBuilder} then PyNone else PyStr [])"

text \<open>\<open>create\<close>: nothing is sent when \<open>ifNotExist\<close> has found the object. The holder is cleaned.\<close>

definition create_object ::
  "(rat \<Rightarrow> string) \<Rightarrow> 'w transport \<Rightarrow> schema_builder \<Rightarrow> ('w, pyval \<times> schema_builder) effect" where
  "create_object fl transport b =
     (case sb_parameters b of
        None \<Rightarrow> effect_of (Inl RaisesAttribute)
      | Some d \<Rightarrow>
          if map_of d ''not_exist'' = Some (PyBool False)
          then effect_return (PyStr (''Create failed, '' @ [CHR 0x22] @ py_str fl (dict_get d ''name'') @ [CHR 0x22] @
            '' already exists.''), b)
          else effect_bind (effect_of (create_body (sb_class b) d)) (\<lambda>body.
            effect_bind (session_request fl transport True ''POST'' (collection_path (sb_class b)) (Some (PyDict body)))
              (\<lambda>response. effect_return (request_result fl ''create'' (sb_class b) response, b\<lparr>sb_parameters := None\<rparr>))))"

definition if_not_exist ::
  "(rat \<Rightarrow> string) \<Rightarrow> 'w transport \<Rightarrow> schema_builder \<Rightarrow> ('w, schema_builder) effect" where
  "if_not_exist fl transport b =
     (case sb_parameters b of
        None \<Rightarrow> effect_of (Inl (if sb_class b \<in> {EdgeLabelBuilder, IndexLabelBuilder}
          then RaisesNamed ''Exception'' ''Parameters required, please set necessary parameters.''
          else RaisesAttribute))
      | Some d \<Rightarrow>
          if sb_class b \<in> {EdgeLabelBuilder, IndexLabelBuilder} \<and> ''name'' \<notin> set (map fst d)
          then effect_of (Inl (RaisesNamed ''Exception'' ''Parameters required, please set necessary parameters.''))
          else effect_bind (session_request fl transport False ''GET''
                 (collection_path (sb_class b) @ ''/'' @ py_str fl (dict_get d ''name'')) None) (\<lambda>response.
               effect_of (if py_truthy response then add_parameter ''not_exist'' (PyBool False) b else Inr b)))"

definition remove_object ::
  "(rat \<Rightarrow> string) \<Rightarrow> 'w transport \<Rightarrow> schema_builder \<Rightarrow> ('w, pyval \<times> schema_builder) effect" where
  "remove_object fl transport b =
     effect_bind (effect_of (require_parameters b)) (\<lambda>d.
     effect_bind (session_request fl transport True ''DELETE''
       (collection_path (sb_class b) @ ''/'' @ py_str fl (dict_get d ''name'')) None) (\<lambda>response.
       effect_return (request_result fl (if sb_class b = PropertyKeyBuilder then ''delete'' else ''remove'')
         (sb_class b) response, b\<lparr>sb_parameters := None\<rparr>)))"

section \<open>The schema manager\<close>

definition new_builder :: "builder_class \<Rightarrow> pyval \<Rightarrow> schema_builder" where
  "new_builder c name =
     \<lparr>sb_class = c, sb_parameters = Some ((''name'', name) #
        (if c = IndexLabelBuilder then [] else [(''not_exist'', PyBool True)]))\<rparr>"

definition get_schema :: "(rat \<Rightarrow> string) \<Rightarrow> 'w transport \<Rightarrow> ('w, pyval) effect" where
  "get_schema fl transport = session_request fl transport True ''GET'' ''schema?format=json'' None"

end
