(* ===== verification/Schema_Apply.thy ===== *)
theory Schema_Apply
  imports Schema_Match Schema_Client Plan_Hash Write_Plan
begin

text \<open>
  Reading the live schema (\<open>schema_tools.py\<close>, \<open>tools/live_schema.py\<close>) and carrying out one schema
  operation (\<open>tools/manage_schema.py\<close>): \<open>apply_schema_operations\<close> looks at the live schema, drives
  the client's builders and reads the schema again. The surroundings are bundled in a
  \<open>schema_backend\<close>: the environment, the construction of a client (which may ask the server for its
  version), the float texts, the text of an exception and the order in which a Python set is listed.
\<close>

record 'w schema_backend =
  sk_env :: environment
  sk_connect :: "mcp_config \<Rightarrow> ('w, 'w transport) effect"
  sk_float_text :: "rat \<Rightarrow> string"
  sk_exception_text :: "py_exception \<Rightarrow> string"
  sk_set_order :: "pyval list \<Rightarrow> pyval list"

section \<open>The live schema\<close>

text \<open>\<open>{key: item[key] for key in keys if key in item}\<close>; indexing a text or a list by a key raises.\<close>

definition restrict_item :: "string list \<Rightarrow> pyval \<Rightarrow> py_exception + pyval" where
  "restrict_item keys item =
     (case item of
        PyDict d \<Rightarrow> Inr (PyDict (pick_keys keys d))
      | PyList vs \<Rightarrow> if list_ex (\<lambda>k. PyStr k \<in> set vs) keys then Inl RaisesType else Inr (PyDict [])
      | PyTuple vs \<Rightarrow> if list_ex (\<lambda>k. PyStr k \<in> set vs) keys then Inl RaisesType else Inr (PyDict [])
      | PyStr s \<Rightarrow> if list_ex (\<lambda>k. py_contains k s) keys then Inl RaisesType else Inr (PyDict [])
      | _ \<Rightarrow> Inl RaisesType)"

fun restrict_all :: "string list \<Rightarrow> pyval list \<Rightarrow> py_exception + pyval list" where
  "restrict_all keys [] = Inr []"
| "restrict_all keys (v # vs) =
     and_then (restrict_item keys v) (\<lambda>item. and_then (restrict_all keys vs) (\<lambda>items. Inr (item # items)))"

definition simple_collection :: "pydict \<Rightarrow> string \<Rightarrow> string list \<Rightarrow> py_exception + pydict" where
  "simple_collection schema collection keys =
     (if py_truthy (dict_get schema collection)
      then and_then (loop_over (dict_get schema collection)) (\<lambda>vs.
             and_then (restrict_all keys vs) (\<lambda>items. Inr [(collection, PyList items)]))
      else Inr [])"

definition simple_schema :: "pyval \<Rightarrow> py_exception + pyval" where
  "simple_schema schema =
     (case schema of
        PyDict d \<Rightarrow>
          and_then (simple_collection d ''vertexlabels'' [''id'', ''name'', ''properties'']) (\<lambda>vertices.
          and_then (simple_collection d ''edgelabels'' [''name'', ''source_label'', ''target_label'', ''properties''])
            (\<lambda>edges. Inr (PyDict (vertices @ edges))))
      | _ \<Rightarrow> Inl RaisesAttribute)"

definition get_live_schema :: "'w schema_backend \<Rightarrow> ('w, pyval) effect" where
  "get_live_schema be =
     (let cfg = from_env (sk_env be) in
      effect_bind (sk_connect be cfg) (\<lambda>transport.
      effect_bind (get_schema (sk_float_text be) transport) (\<lambda>raw.
        if raw = PyNone
        then effect_of (Inl (RaisesValue ''Failed to retrieve schema from HugeGraph server''))
        else effect_bind (effect_of (simple_schema raw)) (\<lambda>simple.
          effect_return (PyDict ([(''schema'', raw), (''simple_schema'', simple)] @
            (case cf_graphspace cfg of
               None \<Rightarrow> [] | Some s \<Rightarrow> if s = [] then [] else [(''graphspace'', PyStr s)]) @
            [(''readonly'', PyBool (cf_readonly cfg))]))))))"

text \<open>\<open>current_live_schema\<close>: the schema the caller has, or a fresh one.\<close>

definition current_live_schema :: "'w schema_backend \<Rightarrow> pyval \<Rightarrow> ('w, pyval) effect" where
  "current_live_schema be live_schema =
     (if live_schema \<noteq> PyNone then effect_return live_schema else get_live_schema be)"

section \<open>Driving the builders\<close>

definition PROPERTY_KEY_DATA_TYPE_METHODS :: "(string \<times> string) list" where
  "PROPERTY_KEY_DATA_TYPE_METHODS =
     [(''TEXT'', ''asText''), (''INT'', ''asInt''), (''INTEGER'', ''asInt''), (''LONG'', ''asLong''),
      (''DOUBLE'', ''asDouble''), (''FLOAT'', ''asFloat''), (''BOOLEAN'', ''asBool''), (''BOOL'', ''asBool''),
      (''DATE'', ''asDate''), (''BYTE'', ''asByte''), (''BLOB'', ''asBlob''), (''OBJECT'', ''asObject'')]"

definition PROPERTY_KEY_CARDINALITY_METHODS :: "(string \<times> string) list" where
  "PROPERTY_KEY_CARDINALITY_METHODS = [(''SINGLE'', ''valueSingle''), (''SET'', ''valueSet''), (''LIST'', ''valueList'')]"

definition PROPERTY_KEY_AGGREGATE_METHODS :: "(string \<times> string) list" where
  "PROPERTY_KEY_AGGREGATE_METHODS =
     [(''OLD'', ''calcOld''), (''SUM'', ''calcSum''), (''MIN'', ''calcMin''), (''MAX'', ''calcMax'')]"

definition PROPERTY_KEY_DIRECT_AGGREGATE_TYPES :: "string list" where
  "PROPERTY_KEY_DIRECT_AGGREGATE_TYPES = [''NONE'', ''SET'', ''LIST'']"

definition VERTEX_LABEL_ID_STRATEGY_METHODS :: "(string \<times> string) list" where
  "VERTEX_LABEL_ID_STRATEGY_METHODS =
     [(''PRIMARY_KEY'', ''usePrimaryKeyId''), (''CUSTOMIZE_STRING'', ''useCustomizeStringId''),
      (''CUSTOMIZE_NUMBER'', ''useCustomizeNumberId''), (''AUTOMATIC'', ''useAutomaticId'')]"

definition EDGE_LABEL_FREQUENCY_METHODS :: "(string \<times> string) list" where
  "EDGE_LABEL_FREQUENCY_METHODS = [(''SINGLE'', ''singleTime''), (''MULTIPLE'', ''multiTimes'')]"

text \<open>The method of a table for a value, called on the builder; \<open>complaint\<close> starts the error.\<close>

definition call_by_table ::
  "(string \<times> string) list \<Rightarrow> string \<Rightarrow> string \<Rightarrow> string \<Rightarrow> schema_builder \<Rightarrow> py_exception + schema_builder" where
  "call_by_table table v complaint shown b =
     (case map_of table v of
        None \<Rightarrow> Inl (RaisesValue (complaint @ shown))
      | Some method \<Rightarrow> call_method method b)"

text \<open>\<open>str(operation.get(field) or dflt).upper()\<close>\<close>

definition enum_text :: "(rat \<Rightarrow> string) \<Rightarrow> pydict \<Rightarrow> string \<Rightarrow> string \<Rightarrow> string" where
  "enum_text fl operation f dflt = py_upper (py_str fl (py_or (dict_get operation f) (PyStr dflt)))"

definition set_builder_parameter ::
  "string \<Rightarrow> string \<Rightarrow> pyval \<Rightarrow> schema_builder \<Rightarrow> py_exception + schema_builder" where
  "set_builder_parameter t f v b =
     (if f \<notin> set (map fst (field_specs_for_operation t))
      then Inl (RaisesValue (''Unsupported '' @ t @ '' field: '' @ f))
      else add_parameter f v b)"

fun forward_fields ::
  "string \<Rightarrow> pydict \<Rightarrow> string list \<Rightarrow> field_specs \<Rightarrow> schema_builder \<Rightarrow> py_exception + schema_builder" where
  "forward_fields t operation exclude [] b = Inr b"
| "forward_fields t operation exclude ((f, spec) # specs) b =
     (case map_of operation f of
        Some v \<Rightarrow>
          if f \<notin> set exclude \<and> sf_apply_mode spec = ApplyParameter
          then and_then (set_builder_parameter t f v b) (forward_fields t operation exclude specs)
          else forward_fields t operation exclude specs b
      | None \<Rightarrow> forward_fields t operation exclude specs b)"

definition forward_parameter_fields ::
  "string \<Rightarrow> pydict \<Rightarrow> string list \<Rightarrow> schema_builder \<Rightarrow> py_exception + schema_builder" where
  "forward_parameter_fields t operation exclude =
     forward_fields t operation exclude (field_specs_for_operation t)"

definition apply_aggregate_type ::
  "(rat \<Rightarrow> string) \<Rightarrow> pydict \<Rightarrow> schema_builder \<Rightarrow> py_exception + schema_builder" where
  "apply_aggregate_type fl operation b =
     (let aggregate_type = dict_get operation ''aggregate_type'';
          normalized = py_upper (py_str fl aggregate_type)
      in if \<not> py_truthy aggregate_type then Inr b
         else if normalized \<in> set PROPERTY_KEY_DIRECT_AGGREGATE_TYPES
         then set_builder_parameter ''create_property_key'' ''aggregate_type'' (PyStr normalized) b
         else call_by_table PROPERTY_KEY_AGGREGATE_METHODS normalized
           ''Unsupported property key aggregate_type: '' (py_str fl aggregate_type) b)"

definition apply_property_key_options ::
  "(rat \<Rightarrow> string) \<Rightarrow> pydict \<Rightarrow> schema_builder \<Rightarrow> py_exception + schema_builder" where
  "apply_property_key_options fl operation b =
     (let data_type = enum_text fl operation ''data_type'' ''TEXT'';
          cardinality = enum_text fl operation ''cardinality'' ''SINGLE''
      in and_then (call_by_table PROPERTY_KEY_DATA_TYPE_METHODS data_type
           ''Unsupported property key data_type: '' data_type b) (\<lambda>b.
         and_then (call_by_table PROPERTY_KEY_CARDINALITY_METHODS cardinality
           ''Unsupported property key cardinality: '' cardinality b) (\<lambda>b.
         and_then (apply_aggregate_type fl operation b)
           (forward_parameter_fields ''create_property_key'' operation [''aggregate_type'']))))"

text \<open>\<open>if operation.get(field) is not None: builder.method(*operation[field])\<close>\<close>

definition apply_names ::
  "(pyval list \<Rightarrow> pyval list) \<Rightarrow> pydict \<Rightarrow> string \<Rightarrow> schema_builder \<Rightarrow> py_exception + schema_builder" where
  "apply_names order operation f b =
     (if dict_get operation f = PyNone then Inr b
      else and_then (loop_over (dict_get operation f)) (\<lambda>vs. set_names order f vs b))"

definition apply_label_index :: "pydict \<Rightarrow> schema_builder \<Rightarrow> py_exception + schema_builder" where
  "apply_label_index operation b =
     (case map_of operation ''enable_label_index'' of
        None \<Rightarrow> Inr b | Some v \<Rightarrow> set_option ''enable_label_index'' v b)"

definition apply_vertex_label_options ::
  "(rat \<Rightarrow> string) \<Rightarrow> (pyval list \<Rightarrow> pyval list) \<Rightarrow> pydict \<Rightarrow> schema_builder \<Rightarrow> py_exception + schema_builder" where
  "apply_vertex_label_options fl order operation b =
     (let id_strategy = enum_text fl operation ''id_strategy'' ''PRIMARY_KEY''
      in and_then (call_by_table VERTEX_LABEL_ID_STRATEGY_METHODS id_strategy
           ''Unsupported vertex label id_strategy: '' id_strategy b) (\<lambda>b.
         and_then (apply_names order operation ''properties'' b) (\<lambda>b.
         and_then (apply_names order operation ''primary_keys'' b) (\<lambda>b.
         and_then (apply_names order operation ''nullable_keys'' b) (\<lambda>b.
         and_then (apply_label_index operation b)
           (forward_parameter_fields ''create_vertex_label'' operation []))))))"

definition apply_frequency ::
  "(rat \<Rightarrow> string) \<Rightarrow> pydict \<Rightarrow> schema_builder \<Rightarrow> py_exception + schema_builder" where
  "apply_frequency fl operation b =
     (let frequency = dict_get operation ''frequency''
      in if \<not> py_truthy frequency then Inr b
         else call_by_table EDGE_LABEL_FREQUENCY_METHODS (py_upper (py_str fl frequency))
           ''Unsupported edge label frequency: '' (py_str fl frequency) b)"

definition apply_edge_label_options ::
  "(rat \<Rightarrow> string) \<Rightarrow> (pyval list \<Rightarrow> pyval list) \<Rightarrow> pydict \<Rightarrow> schema_builder \<Rightarrow> py_exception + schema_builder" where
  "apply_edge_label_options fl order operation b =
     and_then (item_of operation ''source_label'') (\<lambda>source_label.
     and_then (item_of operation ''target_label'') (\<lambda>target_label.
     and_then (link_labels source_label target_label b) (\<lambda>b.
     and_then (apply_names order operation ''properties'' b) (\<lambda>b.
     and_then (apply_names order operation ''nullable_keys'' b) (\<lambda>b.
     and_then (apply_names order operation ''sort_keys'' b) (\<lambda>b.
     and_then (apply_frequency fl operation b) (\<lambda>b.
     and_then (apply_label_index operation b)
       (forward_parameter_fields ''create_edge_label'' operation []))))))))"

text \<open>The builder of an operation, with all its options, or the exception raised before anything is sent.\<close>

definition configured_builder ::
  "(rat \<Rightarrow> string) \<Rightarrow> (pyval list \<Rightarrow> pyval list) \<Rightarrow> pydict \<Rightarrow> py_exception + schema_builder" where
  "configured_builder fl order operation =
     (let t = operation_type fl operation in
      if field_specs_for_operation t = [] \<or>
         \<not> list_all (\<lambda>f. f \<in> apply_fields_for_operation t) (map fst operation)
      then Inl (RaisesValue (''Unsupported or non-forwardable schema field(s) for '' @ t))
      else if t = ''create_property_key'' then
        and_then (item_of operation ''name'') (\<lambda>name.
          apply_property_key_options fl operation (new_builder PropertyKeyBuilder name))
      else if t = ''create_vertex_label'' then
        and_then (item_of operation ''name'') (\<lambda>name.
          apply_vertex_label_options fl order operation (new_builder VertexLabelBuilder name))
      else if t = ''create_edge_label'' then
        and_then (item_of operation ''name'') (\<lambda>name.
          apply_edge_label_options fl order operation (new_builder EdgeLabelBuilder name))
      else Inl (RaisesValue (''Unsupported P0a schema apply operation: '' @ t)))"

definition apply_one_operation :: "'w schema_backend \<Rightarrow> 'w transport \<Rightarrow> pydict \<Rightarrow> ('w, unit) effect" where
  "apply_one_operation be transport operation =
     effect_bind (effect_of (configured_builder (sk_float_text be) (sk_set_order be) operation)) (\<lambda>b.
     effect_bind (create_object (sk_float_text be) transport b) (\<lambda>_. effect_return ()))"

section \<open>Reads keep the world\<close>

text \<open>Building a client and GET requests keep \<open>I\<close>: the hypothesis on the server under which writes show.\<close>

definition schema_reads_keep :: "('w \<Rightarrow> bool) \<Rightarrow> 'w schema_backend \<Rightarrow> bool" where
  "schema_reads_keep I be \<longleftrightarrow>
     (\<forall>cfg. effect_keeps I (sk_connect be cfg)) \<and>
     (\<forall>cfg w transport w'. sk_connect be cfg w = (Inr transport, w') \<longrightarrow>
        (\<forall>path body. effect_keeps I (transport ''GET'' path body)))"

lemma session_request_keeps:
  "effect_keeps I (transport method path body) \<Longrightarrow>
     effect_keeps I (session_request fl transport strict method path body)"
  unfolding session_request_def by (intro effect_rules)

lemma get_live_schema_keeps [effect_rules]:
  assumes "schema_reads_keep I be"
  shows "effect_keeps I (get_live_schema be)"
  unfolding get_live_schema_def Let_def
proof (rule effect_keeps_ensured)
  show "effect_keeps I (sk_connect be (from_env (sk_env be)))"
    using assms by (simp add: schema_reads_keep_def)
  show "effect_ensures (\<lambda>transport. \<forall>path body. effect_keeps I (transport ''GET'' path body))
      (sk_connect be (from_env (sk_env be)))"
    using assms by (auto simp: schema_reads_keep_def effect_ensures_def)
qed (auto simp: get_schema_def intro!: effect_rules session_request_keeps)

text \<open>
  \<open>tools/manage_schema.py\<close>: \<open>apply_schema_operations\<close>, which creates one schema object when its name
  is free and reports what a second read of the schema confirms.
\<close>

section \<open>Summary of a batch\<close>

definition count_type :: "(pyval \<times> nat) list \<Rightarrow> pyval \<Rightarrow> (pyval \<times> nat) list" where
  "count_type counts t =
     (if list_ex (\<lambda>(k, n). py_eq k t) counts
      then map (\<lambda>(k, n). (k, if py_eq k t then n + 1 else n)) counts else counts @ [(t, 1)])"

fun operation_types :: "pyval list \<Rightarrow> py_exception + pyval list" where
  "operation_types [] = Inr []"
| "operation_types (v # vs) =
     (case v of
        PyDict d \<Rightarrow>
          let t = (case map_of d ''type'' of None \<Rightarrow> PyStr ''unknown'' | Some x \<Rightarrow> x) in
          if hashable t then and_then (operation_types vs) (\<lambda>ts. Inr (t # ts)) else Inl RaisesType
      | _ \<Rightarrow> Inl RaisesAttribute)"

text \<open>
  \<open>_mutation_summary\<close>. Sorting the counts compares the types; types that are not texts are sorted only
  when there is one of them, which covers what a validated batch contains.
\<close>

definition schema_mutation_summary :: "(rat \<Rightarrow> string) \<Rightarrow> pyval list \<Rightarrow> py_exception + string" where
  "schema_mutation_summary fl operations =
     and_then (operation_types operations) (\<lambda>ts.
       let counts = foldl count_type [] ts;
           part = (\<lambda>(t, n). py_str fl t @ ''='' @ show_nat n)
       in if counts = [] then Inr ''No schema operations planned.''
          else if length counts > 1 \<and> \<not> list_all (\<lambda>(t, n). case t of PyStr _ \<Rightarrow> True | _ \<Rightarrow> False) counts
          then Inl RaisesType
          else Inr (''Schema operations planned: '' @
            join '', '' (map part (sort_key (\<lambda>(t, n). py_str fl t) counts))))"

section \<open>Applying one operation\<close>

definition schema_receipt ::
  "apply_status \<Rightarrow> pydict \<Rightarrow> pydict option \<Rightarrow> string option \<Rightarrow> bool \<Rightarrow> py_exception + pydict" where
  "schema_receipt st operation observed why reconciliation_required =
     (case make_apply_receipt
       \<lparr>rc_status = st, rc_plan_id = None, rc_operation_id = None, rc_observed_state = observed,
        rc_reason_code = None, rc_attempt = 0, rc_attempt_token = None,
        rc_reconciliation_required = reconciliation_required, rc_committed_at = None,
        rc_operation = Some operation, rc_reason = why\<rparr> of
        Inl (ValueError m) \<Rightarrow> Inl (RaisesValue m)
      | Inr r \<Rightarrow> Inr (receipt_to_dict r))"

text \<open>Client, create and second read: the schema, or the stage that failed and its exception.\<close>

definition create_and_read ::
  "'w schema_backend \<Rightarrow> pydict \<Rightarrow> ('w, string \<times> py_exception + pyval) effect" where
  "create_and_read be operation w =
     (case effect_bind (sk_connect be (from_env (sk_env be)))
             (\<lambda>transport. apply_one_operation be transport operation) w of
        (Inl e, w') \<Rightarrow> (Inr (Inl (''schema create'', e)), w')
      | (Inr _, w') \<Rightarrow>
          (case get_live_schema be w' of
             (Inl e, w'') \<Rightarrow> (Inr (Inl (''post-read schema'', e)), w'')
           | (Inr schema, w'') \<Rightarrow> (Inr (Inr schema), w'')))"

text \<open>The public fields added to the receipt of a success.\<close>

definition success_fields :: "(rat \<Rightarrow> string) \<Rightarrow> pydict \<Rightarrow> pyval \<Rightarrow> pydict \<Rightarrow> py_exception + pydict" where
  "success_fields fl operation observed_schema receipt =
     and_then (schema_mutation_summary fl [PyDict operation]) (\<lambda>summary.
       Inr (receipt @
         [(''valid'', PyBool True), (''applied_operations'', PyList [PyDict operation]),
          (''operation_results'', PyList [PyDict [(''operation_index'', PyInt 0), (''operation'', PyDict operation),
             (''status'', dict_get receipt ''status'')]]),
          (''mutation_summary'', PyStr summary),
          (''schema_summary'', opt_dict (normalized_schema_summary observed_schema True))]))"

definition judge_created ::
  "(rat \<Rightarrow> string) \<Rightarrow> pydict \<Rightarrow> pyval \<Rightarrow> py_exception + pydict" where
  "judge_created fl operation observed_schema =
     (case schema_object_state fl operation observed_schema of
        ObjectConflict observed \<Rightarrow> schema_receipt apply_status.CONFLICT operation (Some observed)
          (Some ''post-read found a different schema object with the confirmed name'') False
      | ObjectMissing \<Rightarrow> schema_receipt apply_status.UNKNOWN operation
          (normalized_schema_summary observed_schema True)
          (Some ''post-read schema did not match the confirmed object'') True
      | ObjectIdentical observed \<Rightarrow>
          and_then (schema_receipt apply_status.APPLIED operation (Some observed) None False)
            (success_fields fl operation observed_schema))"

definition apply_schema_operations ::
  "'w schema_backend \<Rightarrow> pyval list \<Rightarrow> pyval \<Rightarrow> ('w, pydict) effect" where
  "apply_schema_operations be operations live_schema =
     (case operations of
        [PyDict operation] \<Rightarrow>
          (case schema_object_state (sk_float_text be) operation live_schema of
             ObjectIdentical observed \<Rightarrow>
               effect_of (schema_receipt apply_status.ALREADY_APPLIED operation (Some observed) None False)
           | ObjectConflict observed \<Rightarrow>
               effect_of (schema_receipt apply_status.CONFLICT operation (Some observed)
                 (Some ''a different schema object already exists with the confirmed name'') False)
           | ObjectMissing \<Rightarrow>
               effect_bind (create_and_read be operation) (\<lambda>outcome.
                 effect_of (case outcome of
                   Inl (stage, e) \<Rightarrow> schema_receipt apply_status.UNKNOWN operation None
                     (Some (stage @ '' failed: '' @ sk_exception_text be e)) True
                 | Inr observed_schema \<Rightarrow> judge_created (sk_float_text be) operation observed_schema)))
      | [_] \<Rightarrow> effect_of (Inl RaisesAttribute)
      | _ \<Rightarrow> effect_of (Inl (RaisesValue ''A schema apply plan must contain exactly one operation'')))"

end
