(* ===== verification/Schema_Plan.thy ===== *)
theory Schema_Plan
  imports Schema_Apply Adapters
begin

text \<open>
  \<open>tools/schema_write_adapter.py\<close>: compiling a validated schema operation into a plan of one operation,
  the adapter that carries it out behind the write guard, and the reader that reconciles it. The
  digest, a fresh identifier and the clock are arguments.
\<close>

section \<open>The plan\<close>

text \<open>\<open>str(operation[key])\<close>\<close>

definition text_of_item :: "(rat \<Rightarrow> string) \<Rightarrow> pydict \<Rightarrow> string \<Rightarrow> py_exception + string" where
  "text_of_item fl d key = and_then (item_of d key) (\<lambda>v. Inr (py_str fl v))"

definition schema_target :: "string \<Rightarrow> string \<Rightarrow> pydict \<Rightarrow> pydict" where
  "schema_target kind name operation =
     [(''schema_kind'', PyStr kind), (''name'', PyStr name), (''operation'', PyDict operation)]"

definition compile_schema_write_plan ::
  "(pyval \<Rightarrow> string) \<Rightarrow> (rat \<Rightarrow> string) \<Rightarrow> string \<Rightarrow> int \<Rightarrow> pydict \<Rightarrow> plan_context \<Rightarrow> pyval \<Rightarrow>
     py_exception + write_plan" where
  "compile_schema_write_plan digest fl uuid now operation context live_schema =
     (let plan_id = ''wp_'' @ uuid in
      and_then (text_of_item fl operation ''type'') (\<lambda>kind.
      and_then (text_of_item fl operation ''name'') (\<lambda>name.
        let target = schema_target kind name operation in
        case make_operation_plan (plan_id @ '':op:0000'') ''CREATE_SCHEMA'' target
               [(''exists'', PyBool False)] ((''exists'', PyBool True) # target) []
               (Some (digest (canonicalize (PyDict target)))) of
          Inl (ValueError m) \<Rightarrow> Inl (RaisesValue m)
        | Inr o' \<Rightarrow>
            (case make_write_plan
               \<lparr>wp_plan_id = plan_id, wp_tool_name = ''apply_schema_tool'',
                wp_graph_target = \<lparr>gt_graph_url = pc_graph_url context, gt_graph_name = pc_graph_name context,
                  gt_graphspace = Some (pc_graphspace context)\<rparr>,
                wp_principal = pc_principal context, wp_operations = [o'],
                wp_payload_digest = digest (canonicalize (PyDict [(''operations'', PyList [PyDict operation])])),
                wp_schema_fingerprint =
                  Some (digest (canonicalize (opt_dict (normalized_schema_summary live_schema False)))),
                wp_status = ISSUED, wp_created_at = now,
                wp_expires_at = max (now + 1) (pc_expires_at context)\<rparr> of
               Inl (ValueError m) \<Rightarrow> Inl (RaisesValue m)
             | Inr p \<Rightarrow> Inr p))))"

section \<open>The adapter\<close>

definition schema_reason_code :: "apply_status \<Rightarrow> string" where
  "schema_reason_code st =
     (case st of
        apply_status.APPLIED \<Rightarrow> ''SCHEMA_CREATED''
      | apply_status.ALREADY_APPLIED \<Rightarrow> ''SCHEMA_ALREADY_APPLIED''
      | apply_status.CONFLICT \<Rightarrow> ''SCHEMA_OBJECT_CONFLICT''
      | apply_status.UNKNOWN \<Rightarrow> ''SCHEMA_CREATE_OUTCOME_UNKNOWN''
      | _ \<Rightarrow> plan_status_value (plan_status_of st))"

definition schema_adapter_receipt ::
  "int \<Rightarrow> write_plan \<Rightarrow> operation_plan \<Rightarrow> int \<Rightarrow> apply_status \<Rightarrow> pydict option \<Rightarrow> string \<Rightarrow> bool \<Rightarrow> bool \<Rightarrow>
     py_exception + apply_receipt" where
  "schema_adapter_receipt now p o' attempt st observed reason_code reconciliation_required committed =
     (case make_apply_receipt
       \<lparr>rc_status = st, rc_plan_id = Some (wp_plan_id p), rc_operation_id = Some (op_operation_id o'),
        rc_observed_state = observed, rc_reason_code = Some reason_code, rc_attempt = attempt,
        rc_attempt_token = None, rc_reconciliation_required = reconciliation_required,
        rc_committed_at = (if committed then Some now else None), rc_operation = None, rc_reason = None\<rparr> of
        Inl (ValueError m) \<Rightarrow> Inl (RaisesValue m)
      | Inr r \<Rightarrow> Inr r)"

text \<open>\<open>operation.to_dict()["target"]["operation"]\<close>\<close>

definition raw_schema_operation :: "operation_plan \<Rightarrow> py_exception + pyval" where
  "raw_schema_operation o' = item_of (thaw_mapping (op_target o')) ''operation''"

text \<open>\<open>ApplyStatus(result["status"])\<close>\<close>

definition apply_status_of_value :: "string \<Rightarrow> apply_status option" where
  "apply_status_of_value s =
     List.find (\<lambda>st. plan_status_value (plan_status_of st) = s)
       [apply_status.APPLIED, apply_status.ALREADY_APPLIED, apply_status.REJECTED, apply_status.CONFLICT,
        apply_status.PARTIAL, apply_status.UNKNOWN, apply_status.LEGACY_UNKNOWN,
        apply_status.RETRYABLE_NOT_APPLIED]"

definition result_status :: "pydict \<Rightarrow> py_exception + apply_status" where
  "result_status result =
     and_then (item_of result ''status'') (\<lambda>v.
       case v of
         PyStr s \<Rightarrow> (case apply_status_of_value s of Some st \<Rightarrow> Inr st | None \<Rightarrow> Inl (RaisesValue s))
       | _ \<Rightarrow> Inl (RaisesValue []))"

definition observed_of :: "pydict \<Rightarrow> pydict option" where
  "observed_of result = (case dict_get result ''observed_state'' of PyDict d \<Rightarrow> Some d | _ \<Rightarrow> None)"

definition schema_create_adapter ::
  "'w schema_backend \<Rightarrow> int \<Rightarrow> write_plan \<Rightarrow> operation_plan \<Rightarrow> int \<Rightarrow> ('w, apply_receipt) effect" where
  "schema_create_adapter be now p o' attempt =
     (let cfg = from_env (sk_env be) in
      if target_mismatch cfg p
      then effect_of (schema_adapter_receipt now p o' attempt apply_status.REJECTED
        (Some [(''target_matches'', PyBool False)]) ''TARGET_CHANGED'' False False)
      else if guard SCHEMA_WRITE cfg \<noteq> None
      then effect_of (schema_adapter_receipt now p o' attempt apply_status.REJECTED
        (Some [(''write_allowed'', PyBool False)]) ''READONLY_VIOLATION'' False False)
      else effect_bind (effect_of (raw_schema_operation o')) (\<lambda>raw.
        effect_bind (get_live_schema be) (\<lambda>live_schema.
        effect_bind (apply_schema_operations be [raw] live_schema) (\<lambda>result.
          effect_of (and_then (result_status result) (\<lambda>st.
            schema_adapter_receipt now p o' attempt st (observed_of result) (schema_reason_code st)
              (st = apply_status.UNKNOWN) (st = apply_status.APPLIED)))))))"

section \<open>The reader\<close>

definition schema_reconcile_reader ::
  "'w schema_backend \<Rightarrow> write_plan \<Rightarrow> operation_plan \<Rightarrow> ('w, pydict) effect" where
  "schema_reconcile_reader be p o' =
     effect_bind (effect_of (raw_schema_operation o')) (\<lambda>raw.
       case raw of
         PyDict operation \<Rightarrow>
           effect_bind (get_live_schema be) (\<lambda>live_schema.
             effect_of (case schema_object_state (sk_float_text be) operation live_schema of
               ObjectIdentical _ \<Rightarrow> Inr (op_desired_state o')
             | ObjectMissing \<Rightarrow> Inr (op_expected_state o')
             | ObjectConflict observed \<Rightarrow>
                 and_then (item_of (op_target o') ''schema_kind'') (\<lambda>kind.
                 and_then (item_of (op_target o') ''name'') (\<lambda>name.
                   Inr [(''exists'', PyBool True), (''schema_kind'', kind), (''name'', name),
                        (''conflicting_object'', PyDict observed)]))))
       | _ \<Rightarrow> effect_of (Inl RaisesAttribute))"

definition register_schema_write_adapters ::
  "'w schema_backend \<Rightarrow> int \<Rightarrow> (string \<times> 'w adapter) list \<Rightarrow> value_error + (string \<times> 'w adapter) list" where
  "register_schema_write_adapters be now adapters =
     register_adapter ''CREATE_SCHEMA'' (adapter_of (schema_create_adapter be now)) adapters"

definition register_schema_reconcile_readers ::
  "'w schema_backend \<Rightarrow> (string \<times> 'w reader) list \<Rightarrow> value_error + (string \<times> 'w reader) list" where
  "register_schema_reconcile_readers be readers =
     register_reader ''CREATE_SCHEMA'' (reader_of (schema_reconcile_reader be)) readers"

end
