(* ===== verification/Tool_Session.thy ===== *)
theory Tool_Session
  imports Confirmable_Workflow Plan_Transitions Effects
begin

text \<open>
  What a write tool works on: the server (the world of its effects), the confirmation ledger and the
  plan store, and the values it draws from outside in one call: the digests, a fresh nonce and
  identifier, the readings of the clock and the fate of each access to the ledger, in their order, and
  the exception of a plan store that cannot be used.
\<close>

record 'w tool_state =
  ts_world :: 'w
  ts_ledger :: confirmation_db
  ts_plans :: plan_store

record tool_inputs =
  ti_sha :: "pyval \<Rightarrow> string"
  ti_digest :: "string \<Rightarrow> string"
  ti_nonce :: string
  ti_uuid :: string
  ti_now :: "nat \<Rightarrow> int"
  ti_disk :: "nat \<Rightarrow> bool"
  ti_store_failure :: "py_exception option"

definition on_world :: "('w, 'a) effect \<Rightarrow> ('w tool_state, 'a) effect" where
  "on_world m s = (case m (ts_world s) of (r, w') \<Rightarrow> (r, s\<lparr>ts_world := w'\<rparr>))"

definition on_ledger :: "(confirmation_db \<Rightarrow> 'a \<times> confirmation_db) \<Rightarrow> ('w tool_state, 'a) effect" where
  "on_ledger f s = (case f (ts_ledger s) of (r, db) \<Rightarrow> (Inr r, s\<lparr>ts_ledger := db\<rparr>))"

definition ask_ledger :: "(confirmation_db \<Rightarrow> 'a) \<Rightarrow> ('w tool_state, 'a) effect" where
  "ask_ledger f s = (Inr (f (ts_ledger s)), s)"

definition store_exception :: "store_error \<Rightarrow> py_exception" where
  "store_exception e =
     (case e of
        PlanTransitionError m \<Rightarrow> RaisesNamed ''PlanTransitionError'' m
      | PlanStoreUnavailableError m \<Rightarrow> RaisesNamed ''PlanStoreUnavailableError'' m
      | StoreValueError m \<Rightarrow> RaisesValue m
      | IntegrityError \<Rightarrow> RaisesNamed ''IntegrityError'' []
      | MalformedRow \<Rightarrow> RaisesType)"

text \<open>\<open>plan_store_from_config().save_plan(plan)\<close>: the exception it raises, or nothing.\<close>

definition persist_plan ::
  "tool_inputs \<Rightarrow> mcp_config \<Rightarrow> write_plan \<Rightarrow> ('w tool_state, py_exception option) effect" where
  "persist_plan ti cfg p s =
     (if \<not> has_safe_write_store cfg
      then (Inr (Some (RaisesNamed ''PlanStoreUnavailableError''
        ''The configured plan store is not safe for this write topology'')), s)
      else case ti_store_failure ti of
        Some e \<Rightarrow> (Inr (Some e), s)
      | None \<Rightarrow>
          (case save_plan (ts_plans s) p of
             (Inl e, plans) \<Rightarrow> (Inr (Some (store_exception e)), s\<lparr>ts_plans := plans\<rparr>)
           | (Inr _, plans) \<Rightarrow> (Inr None, s\<lparr>ts_plans := plans\<rparr>)))"

text \<open>\<open>_plan_context_payload\<close>, the same in the schema and the graph data tool.\<close>

definition plan_context_payload :: "plan_context \<Rightarrow> pydict" where
  "plan_context_payload c =
     [(''nonce'', PyStr (pc_nonce c)), (''expires_at'', PyInt (pc_expires_at c)),
      (''graph_url'', PyStr (pc_graph_url c)), (''graph_name'', PyStr (pc_graph_name c)),
      (''graphspace'', PyStr (pc_graphspace c)), (''principal'', PyStr (pc_principal c)),
      (''readonly'', PyBool (pc_readonly c))]"

text \<open>The exceptions \<open>int\<close> raises in the confirmation.\<close>

definition int_exception :: "int_failure \<Rightarrow> py_exception" where
  "int_exception e =
     (case e of IntTypeError \<Rightarrow> RaisesType | IntValueError \<Rightarrow> RaisesValue [] | IntOverflowError \<Rightarrow> RaisesOverflow)"

text \<open>\<open>record_write_outcome\<close> with a status of the enumeration: whether the outcome is durable.\<close>

definition record_outcome_durably ::
  "tool_inputs \<Rightarrow> nat \<Rightarrow> string \<Rightarrow> plan_status \<Rightarrow> pydict \<Rightarrow> ('w tool_state, bool) effect" where
  "record_outcome_durably ti i plan_hash st receipt =
     on_ledger (\<lambda>db. case record_write_outcome db plan_hash (plan_status_value st) (PyDict receipt) (ti_now ti i) (ti_disk ti i) of
       (Inr durable, db') \<Rightarrow> (durable, db') | (Inl _, db') \<Rightarrow> (False, db'))"

text \<open>A property of the world inside the state.\<close>

lemma keeps_on_world [effect_rules]:
  "effect_keeps I m \<Longrightarrow> effect_keeps (\<lambda>s. I (ts_world s)) (on_world m)"
  by (auto simp: effect_keeps_def on_world_def split: prod.split)

lemma keeps_on_ledger [effect_rules]: "effect_keeps (\<lambda>s. I (ts_world s)) (on_ledger f)"
  by (auto simp: effect_keeps_def on_ledger_def split: prod.split)

lemma keeps_ask_ledger [effect_rules]: "effect_keeps P (ask_ledger f)"
  by (simp add: effect_keeps_def ask_ledger_def)

lemma keeps_persist_plan [effect_rules]: "effect_keeps (\<lambda>s. I (ts_world s)) (persist_plan ti cfg p)"
  by (auto simp: effect_keeps_def persist_plan_def split: option.split prod.split sum.split)

lemma keeps_record_outcome [effect_rules]:
  "effect_keeps (\<lambda>s. I (ts_world s)) (record_outcome_durably ti i h st r)"
  unfolding record_outcome_durably_def by (rule keeps_on_ledger)

end
