(* ===== verification/Manage_Schema.thy ===== *)
theory Manage_Schema
  imports Schema_Plan Tool_Session Write_Boundary
begin

text \<open>
  \<open>tools/manage_schema.py\<close>, the tool itself: \<open>dry_run_schema_operations\<close>, the warnings, and the modes
  of \<open>manage_schema\<close>. The legacy confirmation goes through the ledger, the plan of a dry run is
  also stored for the executor. A submitted plan hash is a text; warnings and next actions beside the
  data of an envelope are not modelled.
\<close>

section \<open>Digests and contexts\<close>

definition schema_payload_digest :: "(pyval \<Rightarrow> string) \<Rightarrow> pyval \<Rightarrow> string" where
  "schema_payload_digest sha operations = compute_payload_digest sha (PyDict [(''operations'', operations)])"

definition schema_hash_of :: "(pyval \<Rightarrow> string) \<Rightarrow> pyval \<Rightarrow> string option" where
  "schema_hash_of sha live_schema =
     map_option (\<lambda>summary. compute_payload_digest sha (PyDict summary)) (normalized_schema_summary live_schema True)"

definition build_schema_plan_context ::
  "tool_inputs \<Rightarrow> mcp_config \<Rightarrow> int \<Rightarrow> pyval \<Rightarrow> pyval \<Rightarrow> string option \<Rightarrow> plan_context" where
  "build_schema_plan_context ti cfg now operations live_schema nonce =
     fst (build_plan_context (ti_sha ti) cfg now (ti_nonce ti) ''apply_schema_tool'' ''apply''
       (schema_payload_digest (ti_sha ti) operations) (schema_hash_of (ti_sha ti) live_schema) nonce DEFAULT_PLAN_TTL_SECONDS None)"

definition calculate_plan_hash :: "tool_inputs \<Rightarrow> mcp_config \<Rightarrow> int \<Rightarrow> pyval \<Rightarrow> pyval \<Rightarrow> string" where
  "calculate_plan_hash ti cfg now operations live_schema =
     compute_plan_hash (ti_sha ti) (build_schema_plan_context ti cfg now operations live_schema (Some ''compat''))"

section \<open>Warnings and scope\<close>

text \<open>\<open>v in names\<close> for a set of names\<close>

definition name_in :: "pyval \<Rightarrow> string set \<Rightarrow> py_exception + bool" where
  "name_in v names =
     (if \<not> hashable v then Inl RaisesType else Inr (case v of PyStr s \<Rightarrow> s \<in> names | _ \<Rightarrow> False))"

definition exists_warning ::
  "(rat \<Rightarrow> string) \<Rightarrow> schema_names \<Rightarrow> pydict \<Rightarrow> py_exception + string list" where
  "exists_warning fl live operation =
     (let t = dict_get operation ''type''; name = dict_get operation ''name'';
          warn = (\<lambda>kind names. and_then (name_in name names) (\<lambda>b.
            Inr (if b then [kind @ '' already exists: '' @ py_str fl name] else [])))
      in if t = PyStr ''create_property_key'' then warn ''property key'' (sn_property_keys live)
         else if t = PyStr ''create_vertex_label'' then warn ''vertex label'' (sn_vertex_labels live)
         else if t = PyStr ''create_edge_label'' then warn ''edge label'' (sn_edge_labels live)
         else if t = PyStr ''create_index_label'' then warn ''index label'' (sn_index_labels live)
         else Inr [])"

fun exists_warnings ::
  "(rat \<Rightarrow> string) \<Rightarrow> schema_names \<Rightarrow> pyval list \<Rightarrow> py_exception + string list" where
  "exists_warnings fl live [] = Inr []"
| "exists_warnings fl live (v # vs) =
     (case v of
        PyDict d \<Rightarrow> and_then (exists_warning fl live d) (\<lambda>ws.
          and_then (exists_warnings fl live vs) (\<lambda>ws'. Inr (ws @ ws')))
      | _ \<Rightarrow> Inl RaisesAttribute)"

fun indexed_labels :: "pyval list \<Rightarrow> py_exception + pyval list" where
  "indexed_labels [] = Inr []"
| "indexed_labels (v # vs) =
     (case v of
        PyDict d \<Rightarrow>
          (let label = dict_get d ''base_label'' in
           if dict_get d ''type'' = PyStr ''create_index_label'' \<and> py_truthy label
           then if hashable label then and_then (indexed_labels vs) (\<lambda>labels. Inr (label # labels))
                else Inl RaisesType
           else indexed_labels vs)
      | _ \<Rightarrow> Inl RaisesAttribute)"

text \<open>\<open>_risk_warnings\<close>; the union of the two sets of labels is listed in the order of a set.\<close>

definition risk_warnings ::
  "(rat \<Rightarrow> string) \<Rightarrow> (pyval list \<Rightarrow> pyval list) \<Rightarrow> pyval list \<Rightarrow> pyval \<Rightarrow> py_exception + string list" where
  "risk_warnings fl order operations live_schema =
     and_then (collect_planned_creates fl operations) (\<lambda>(planned, _).
     and_then (indexed_labels operations) (\<lambda>indexed.
     and_then (exists_warnings fl (live_names live_schema) operations) (\<lambda>warnings.
       let created = order (distinct_values
             (planned_names planned ''vertex_labels'' @ planned_names planned ''edge_labels''))
       in Inr (warnings @ map (\<lambda>label. ''no index operation included for label: '' @ py_str fl label)
            (filter (\<lambda>label. \<not> list_ex (py_eq label) indexed) created)))))"

definition validate_apply_scope :: "(rat \<Rightarrow> string) \<Rightarrow> pyval list \<Rightarrow> pyval list" where
  "validate_apply_scope fl operations =
     concat (map (\<lambda>(idx, v). case v of
       PyDict d \<Rightarrow>
         if operation_type fl d \<in> set P0A_APPLY_OPERATION_TYPES then []
         else [op_error idx d (''schema apply operation is outside P0a scope: '' @ operation_type fl d)
           (''P0a apply supports only create_property_key, create_vertex_label, and create_edge_label. '' @
            ''Index/rebuild and destructive schema changes are out of scope.'')]
     | _ \<Rightarrow> []) (List.enumerate 0 operations))"

section \<open>Dry run\<close>

definition operation_list :: "pyval \<Rightarrow> pyval list" where
  "operation_list operations = (case operations of PyList vs \<Rightarrow> vs | _ \<Rightarrow> [])"

definition invalid_result :: "pyval list \<Rightarrow> pyval \<Rightarrow> pydict" where
  "invalid_result errors warnings =
     [(''valid'', PyBool False), (''errors'', PyList errors), (''warnings'', warnings)]"

definition listed_warnings :: "pyval \<Rightarrow> pyval list" where
  "listed_warnings v = (case v of PyList ws \<Rightarrow> ws | _ \<Rightarrow> [])"

definition dry_run_schema_operations ::
  "tool_inputs \<Rightarrow> 'w schema_backend \<Rightarrow> int \<Rightarrow> pyval \<Rightarrow> pyval \<Rightarrow> string option \<Rightarrow> py_exception + pydict" where
  "dry_run_schema_operations ti be now operations live_schema nonce =
     (let fl = sk_float_text be;
          limit_errors = collect_write_limit_errors fl (operation_count_from_list operations) operations
      in if limit_errors \<noteq> [] then Inr (invalid_result limit_errors (PyList []))
         else and_then (validate_schema_operations fl operations live_schema) (\<lambda>validation.
           if dict_get validation ''valid'' \<noteq> PyBool True then Inr validation
           else if length (operation_list operations) \<noteq> 1
           then Inr (invalid_result [schema_error (-1) operations
               ''a confirmable schema plan must contain exactly one create operation''
               ''Create and confirm one schema object per plan.''] (dict_get validation ''warnings''))
           else let scope_errors = validate_apply_scope fl (operation_list operations) in
             if scope_errors \<noteq> [] then Inr (invalid_result scope_errors (dict_get validation ''warnings''))
             else let context = build_schema_plan_context ti (from_env (sk_env be)) now operations live_schema nonce in
               and_then (schema_mutation_summary fl (operation_list operations)) (\<lambda>summary.
               and_then (risk_warnings fl (sk_set_order be) (operation_list operations) live_schema) (\<lambda>risks.
                 Inr [(''valid'', PyBool True),
                      (''plan_hash'', PyStr (compute_plan_hash (ti_sha ti) context)),
                      (''plan_context'', PyDict (plan_context_payload context)),
                      (''confirmable'', PyBool True),
                      (''mutation_summary'', PyStr summary),
                      (''warnings'', PyList (listed_warnings (dict_get validation ''warnings'') @ map PyStr risks))]))))"

section \<open>Design guidance\<close>

definition design_schema :: "pyval \<Rightarrow> pyval \<Rightarrow> pyval \<Rightarrow> pyval \<Rightarrow> pyval \<Rightarrow> pyval \<Rightarrow> pydict" where
  "design_schema thought thought_number total_thoughts next_thought_needed is_revision revision_of =
     [(''thought'', thought), (''thought_number'', thought_number), (''total_thoughts'', total_thoughts),
      (''next_thought_needed'', next_thought_needed), (''is_revision'', is_revision), (''revision_of'', revision_of),
      (''guidance'', PyList (map PyStr
        [''Define property keys first, choosing data types and SINGLE, SET, or LIST cardinality.'',
         ''Define vertex labels with their properties, ID strategy, primary keys, and nullable keys.'',
         ''Define edge labels with source/target labels; choose SINGLE or MULTIPLE frequency and sort keys.'',
         ''Choose secondary, range, or search indexes from query needs, then validate the schema operations.'']))]"

text \<open>\<open>operations[0] if operations else {}\<close>\<close>

definition first_operation :: "pyval \<Rightarrow> py_exception + pydict" where
  "first_operation operations =
     (if \<not> py_truthy operations then Inr []
      else case operations of
        PyList (PyDict d # _) \<Rightarrow> Inr d
      | PyTuple (PyDict d # _) \<Rightarrow> Inr d
      | PyList _ \<Rightarrow> Inl RaisesAttribute
      | PyTuple _ \<Rightarrow> Inl RaisesAttribute
      | PyStr _ \<Rightarrow> Inl RaisesAttribute
      | PyDict _ \<Rightarrow> Inl (RaisesKey ''0'')
      | _ \<Rightarrow> Inl RaisesType)"

definition design_from_operations :: "pyval \<Rightarrow> py_exception + pydict" where
  "design_from_operations operations =
     and_then (first_operation operations) (\<lambda>params.
       Inr (design_schema (get_default params ''thought'' (PyStr []))
         (get_default params ''thought_number'' (PyInt 1)) (get_default params ''total_thoughts'' (PyInt 4))
         (get_default params ''next_thought_needed'' (PyBool True))
         (get_default params ''is_revision'' (PyBool False)) (dict_get params ''revision_of'')))"

section \<open>The modes\<close>

text \<open>\<open>_safe_fetch_live_schema\<close>: the schema, or the error reply.\<close>

definition safe_fetch_live_schema :: "'w schema_backend \<Rightarrow> ('w, reply + pyval) effect" where
  "safe_fetch_live_schema be w =
     (case get_live_schema be w of
        (Inr schema, w') \<Rightarrow> (Inr (Inr schema), w')
      | (Inl e, w') \<Rightarrow> (Inr (Inl (envelope_err CONNECTION_FAILED
          ''Cannot read live schema from HugeGraph Server for schema validation.''
          (Some ''Ensure HugeGraph Server is running and credentials/graphspace are correct, then retry.'') True
          (Some (PyDict [(''stage'', PyStr ''schema_fetch''), (''error'', PyStr (sk_exception_text be e))])))), w'))"

definition with_live_schema ::
  "'w schema_backend \<Rightarrow> (pyval \<Rightarrow> ('w tool_state, reply) effect) \<Rightarrow> ('w tool_state, reply) effect" where
  "with_live_schema be k =
     effect_bind (on_world (safe_fetch_live_schema be)) (\<lambda>fetched.
       case fetched of Inl r \<Rightarrow> effect_return r | Inr live_schema \<Rightarrow> k live_schema)"

definition unpersisted_reply :: "string \<Rightarrow> reply" where
  "unpersisted_reply exception =
     envelope_err SERVER_ERROR ''The schema create plan could not be persisted safely.'' None False
       (Some (PyDict [(''reason'', PyStr exception)]))"

text \<open>The plan of a valid dry run is issued to the ledger and stored; \<open>Inr\<close> the result with its plan.\<close>

definition issue_schema_plan ::
  "tool_inputs \<Rightarrow> 'w schema_backend \<Rightarrow> pyval \<Rightarrow> pyval \<Rightarrow> pydict \<Rightarrow> plan_context \<Rightarrow> ('w tool_state, reply + pydict) effect" where
  "issue_schema_plan ti be operations live_schema result issued_context =
     (let cfg = from_env (sk_env be);
          context = (build_schema_plan_context ti cfg (ti_now ti 1) operations live_schema
            (Some (pc_nonce issued_context)))\<lparr>pc_expires_at := pc_expires_at issued_context\<rparr>;
          plan_hash = compute_plan_hash (ti_sha ti) issued_context
      in effect_bind (on_ledger (\<lambda>db. issue_plan (ti_digest ti) db context plan_hash None (ti_now ti 2) (ti_disk ti 0)))
           (\<lambda>issue_error. case issue_error of
              Some r \<Rightarrow> effect_return (Inl r)
            | None \<Rightarrow>
                (case and_then (first_operation operations) (\<lambda>operation.
                        compile_schema_write_plan (ti_sha ti) (sk_float_text be) (ti_uuid ti) (ti_now ti 3) operation
                          context live_schema) of
                   Inl e \<Rightarrow> effect_return (Inl (unpersisted_reply (exception_class e)))
                 | Inr p \<Rightarrow>
                     effect_bind (persist_plan ti cfg p) (\<lambda>failure. case failure of
                       Some e \<Rightarrow> effect_return (Inl (unpersisted_reply (exception_class e)))
                     | None \<Rightarrow> effect_return (Inr (result @
                         [(''plan_id'', PyStr (wp_plan_id p)),
                          (''status'', PyStr (plan_status_value (wp_status p))),
                          (''expires_at'', PyInt (wp_expires_at p))]))))))"

definition run_dry_mode ::
  "tool_inputs \<Rightarrow> 'w schema_backend \<Rightarrow> pyval \<Rightarrow> string option \<Rightarrow> ('w tool_state, reply) effect" where
  "run_dry_mode ti be operations nonce =
     with_live_schema be (\<lambda>live_schema.
       effect_bind (effect_of (dry_run_schema_operations ti be (ti_now ti 0) operations live_schema nonce)) (\<lambda>result.
         let cfg = from_env (sk_env be);
             context = build_schema_plan_context ti cfg (ti_now ti 0) operations live_schema nonce
         in if dict_get result ''valid'' \<noteq> PyBool True then effect_return (envelope_ok (PyDict result))
            else if cf_readonly cfg
            then effect_return (envelope_ok (PyDict (AList.update ''readonly_preview_only'' (PyBool True)
              (AList.update ''confirmable'' (PyBool False) result))))
            else effect_bind (issue_schema_plan ti be operations live_schema result context) (\<lambda>issued.
              effect_return (case issued of Inl r \<Rightarrow> r | Inr result' \<Rightarrow> envelope_ok (PyDict result')))))"

text \<open>The reply to a finished apply, after its outcome has been recorded.\<close>

definition not_durable_reply :: "string \<Rightarrow> reply" where
  "not_durable_reply message =
     envelope_err WRITE_OUTCOME_UNKNOWN message None False
       (Some (PyDict [(''status'', PyStr (plan_status_value UNKNOWN)), (''reconciliation_required'', PyBool True)]))"

definition report_outcome ::
  "tool_inputs \<Rightarrow> string \<Rightarrow> apply_status \<Rightarrow> pydict \<Rightarrow> ('w tool_state, reply) effect" where
  "report_outcome ti plan_hash st result =
     (if st = apply_status.UNKNOWN then
        effect_bind (record_outcome_durably ti 4 plan_hash UNKNOWN result) (\<lambda>_.
          effect_return (envelope_err WRITE_OUTCOME_UNKNOWN
            ''The schema create may have committed; reconcile before retrying.''
            (Some ''Inspect the schema and compare it with the confirmed operation before issuing another write.'')
            False (Some (PyDict result))))
      else if st = apply_status.CONFLICT then
        effect_bind (record_outcome_durably ti 4 plan_hash CONFLICT result) (\<lambda>durable.
          effect_return (if durable
            then envelope_err WRITE_CONFLICT ''A different schema object exists with the confirmed name.'' None False
              (Some (PyDict result))
            else not_durable_reply
              ''The schema conflict was observed, but its durable receipt could not be recorded.''))
      else
        effect_bind (record_outcome_durably ti 4 plan_hash
          (if st = apply_status.ALREADY_APPLIED then ALREADY_APPLIED else APPLIED) result) (\<lambda>durable.
          effect_return (if durable then envelope_ok (PyDict result)
            else not_durable_reply
              ''The schema create completed, but its durable receipt could not be recorded.'')))"

text \<open>A result whose status is no \<open>ApplyStatus\<close> is replaced by an unknown outcome.\<close>

definition apply_confirmed ::
  "tool_inputs \<Rightarrow> 'w schema_backend \<Rightarrow> pyval \<Rightarrow> pyval \<Rightarrow> string \<Rightarrow> ('w tool_state, reply) effect" where
  "apply_confirmed ti be operations live_schema plan_hash =
     effect_bind (on_world (apply_schema_operations be (operation_list operations) live_schema)) (\<lambda>result.
       case result_status result of
         Inr st \<Rightarrow> report_outcome ti plan_hash st result
       | Inl e \<Rightarrow>
           effect_bind (effect_of (and_then (first_operation operations) (\<lambda>operation.
             schema_receipt apply_status.UNKNOWN operation None
               (Some (''schema executor returned a non-canonical receipt: '' @ sk_exception_text be e)) True)))
             (\<lambda>receipt. report_outcome ti plan_hash apply_status.UNKNOWN receipt))"

definition invalid_apply_reply :: "pydict \<Rightarrow> reply" where
  "invalid_apply_reply result =
     envelope_err SCHEMA_MISMATCH ''Schema operations are not valid for P0a apply.'' None False
       (Some (PyDict [(''errors'', get_default result ''errors'' (PyList []))]))"

text \<open>The confirmation is verified and consumed, then the operation is applied.\<close>

definition confirm_and_apply ::
  "tool_inputs \<Rightarrow> 'w schema_backend \<Rightarrow> pyval \<Rightarrow> pyval \<Rightarrow> string \<Rightarrow> string option \<Rightarrow> pyval \<Rightarrow>
     ('w tool_state, reply) effect" where
  "confirm_and_apply ti be operations live_schema plan_hash nonce expires_at =
     (let cfg = from_env (sk_env be) in
      effect_bind (on_ledger (\<lambda>db. verify_and_consume_plan (ti_sha ti) (ti_digest ti) cfg cfg db plan_hash
          ''apply_schema_tool'' ''apply'' (schema_payload_digest (ti_sha ti) operations)
          (schema_hash_of (ti_sha ti) live_schema) nonce expires_at None (ti_now ti 2) (ti_now ti 3)
          (ti_disk ti 3))) (\<lambda>verdict.
        case verdict of
          Inl e \<Rightarrow> effect_of (Inl (int_exception e))
        | Inr (Some (error_type, details)) \<Rightarrow>
            effect_return (plan_hash_error (Some error_type) details
              ''Provided plan_hash does not match the current schema apply plan.'' None
              (''Run mode='' @ repr_string ''dry_run'' @ '' again and use the returned plan_hash.''))
        | Inr None \<Rightarrow> apply_confirmed ti be operations live_schema plan_hash))"

definition apply_with_schema ::
  "tool_inputs \<Rightarrow> 'w schema_backend \<Rightarrow> pyval \<Rightarrow> bool \<Rightarrow> string \<Rightarrow> string option \<Rightarrow> pyval \<Rightarrow> pyval \<Rightarrow>
     ('w tool_state, reply) effect" where
  "apply_with_schema ti be operations confirmed plan_hash nonce expires_at live_schema =
     effect_bind (effect_of (dry_run_schema_operations ti be (ti_now ti 0) operations live_schema nonce)) (\<lambda>result.
       if dict_get result ''valid'' \<noteq> PyBool True then effect_return (invalid_apply_reply result)
       else case guard SCHEMA_WRITE (from_env (sk_env be)) of
         Some r \<Rightarrow> effect_return r
       | None \<Rightarrow>
           if \<not> confirmed
           then effect_return (confirm_required_error ''Schema apply requires confirm=True after dry_run.''
             (''Run mode='' @ repr_string ''dry_run'' @
              '', review the plan, then pass confirm=True with plan_hash, nonce, and expires_at.''))
           else confirm_and_apply ti be operations live_schema plan_hash nonce expires_at)"

definition run_apply_mode ::
  "tool_inputs \<Rightarrow> 'w schema_backend \<Rightarrow> pyval \<Rightarrow> bool \<Rightarrow> string \<Rightarrow> string option \<Rightarrow> pyval \<Rightarrow> ('w tool_state, reply) effect" where
  "run_apply_mode ti be operations confirmed plan_hash nonce expires_at =
     effect_bind (ask_ledger (\<lambda>db. if confirmed
       then replayed_plan_error (ti_digest ti) db nonce (ti_disk ti 0) (ti_disk ti 1) else None)) (\<lambda>replayed.
       case replayed of
         Some r \<Rightarrow> effect_return r
       | None \<Rightarrow> with_live_schema be (apply_with_schema ti be operations confirmed plan_hash nonce expires_at))"

definition manage_schema ::
  "tool_inputs \<Rightarrow> 'w schema_backend \<Rightarrow> string \<Rightarrow> pyval \<Rightarrow> bool \<Rightarrow> string \<Rightarrow> string option \<Rightarrow> pyval \<Rightarrow>
     ('w tool_state, reply) effect" where
  "manage_schema ti be mode operations0 confirmed plan_hash nonce expires_at =
     (let operations = py_or operations0 (PyList []);
          limited = (if mode \<in> {''dry_run'', ''apply''}
            then write_limit_envelope (sk_float_text be) (operation_count_from_list operations) operations else None)
      in case limited of
           Some r \<Rightarrow> effect_return r
         | None \<Rightarrow>
             if mode = ''design'' then
               effect_bind (effect_of (design_from_operations operations)) (\<lambda>d. effect_return (envelope_ok (PyDict d)))
             else if mode = ''validate'' then
               with_live_schema be (\<lambda>live_schema.
                 effect_bind (effect_of (validate_schema_operations (sk_float_text be) operations live_schema)) (\<lambda>d.
                   effect_return (envelope_ok (PyDict d))))
             else if mode = ''dry_run'' then run_dry_mode ti be operations nonce
             else if mode = ''apply'' then run_apply_mode ti be operations confirmed plan_hash nonce expires_at
             else effect_return (envelope_err VALIDATION_ERROR (''Unsupported manage_schema mode: '' @ mode)
               (Some ''Use one of: design, validate, dry_run, apply.'') False None))"

end
