(* ===== verification/Schema_Apply_Properties.thy ===== *)
theory Schema_Apply_Properties
  imports Manage_Schema
begin

text \<open>
  What applying a schema operation guarantees: a status is backed by what was read, an existing object
  is never written, the adapter fulfils the contract of the executor, and the tool reaches the write
  only through a confirmation it has just consumed.
\<close>

section \<open>A status is an observation\<close>

definition reports :: "pydict \<Rightarrow> apply_status \<Rightarrow> bool" where
  "reports result st \<longleftrightarrow> dict_get result ''status'' = PyStr (plan_status_value (plan_status_of st))"

lemma reports_unique: "reports r st \<Longrightarrow> reports r st' \<Longrightarrow> st = st'"
  by (auto simp: reports_def plan_status_value_inject plan_status_of_inject)

lemma schema_receipt_reports: "schema_receipt st operation observed why rec = Inr r \<Longrightarrow> reports r st"
  by (auto simp: schema_receipt_def make_apply_receipt_def receipt_to_dict_def reports_def Let_def
      split: sum.splits value_error.splits if_splits)

lemma dict_get_append: "map_of d k \<noteq> None \<Longrightarrow> dict_get (d @ e) k = dict_get d k"
  by (auto simp: dict_get_def map_add_def split: option.split)

lemma reports_status: "reports r st \<Longrightarrow> map_of r ''status'' \<noteq> None"
  by (auto simp: reports_def dict_get_def split: option.splits)

lemma success_fields_reports: "success_fields fl op schema r = Inr r' \<Longrightarrow> reports r st \<Longrightarrow> reports r' st"
  using dict_get_append [OF reports_status]
  by (auto simp: success_fields_def and_then_eq_Inr reports_def)

lemma judge_created_reports:
  assumes "judge_created fl op schema = Inr r"
  shows "reports r (case schema_object_state fl op schema of
    ObjectIdentical _ \<Rightarrow> apply_status.APPLIED | ObjectConflict _ \<Rightarrow> apply_status.CONFLICT
  | ObjectMissing \<Rightarrow> apply_status.UNKNOWN)"
  using assms
  by (auto simp: judge_created_def and_then_eq_Inr dest: schema_receipt_reports intro: success_fields_reports
      split: object_state.splits)

lemma create_and_read_Inr:
  "create_and_read be op w = (Inr (Inr schema), w') \<Longrightarrow>
     \<exists>w1. get_live_schema be w1 = (Inr schema, w')"
  by (auto simp: create_and_read_def split: prod.splits sum.splits)

definition judged :: "object_state \<Rightarrow> apply_status" where
  "judged found =
     (case found of
        ObjectIdentical _ \<Rightarrow> apply_status.APPLIED
      | ObjectConflict _ \<Rightarrow> apply_status.CONFLICT
      | ObjectMissing \<Rightarrow> apply_status.UNKNOWN)"

lemma apply_schema_cases:
  assumes "apply_schema_operations be [PyDict op] live_schema w = (Inr r, w')"
  shows "case schema_object_state (sk_float_text be) op live_schema of
      ObjectIdentical _ \<Rightarrow> w' = w \<and> reports r apply_status.ALREADY_APPLIED
    | ObjectConflict _ \<Rightarrow> w' = w \<and> reports r apply_status.CONFLICT
    | ObjectMissing \<Rightarrow> reports r apply_status.UNKNOWN \<or>
        (\<exists>w1 schema. get_live_schema be w1 = (Inr schema, w') \<and>
           reports r (judged (schema_object_state (sk_float_text be) op schema)))"
proof (cases "schema_object_state (sk_float_text be) op live_schema")
  case ObjectMissing
  then obtain outcome where outcome: "create_and_read be op w = (Inr outcome, w')"
    and r: "(case outcome of
        Inl (stage, e) \<Rightarrow> schema_receipt apply_status.UNKNOWN op None
          (Some (stage @ '' failed: '' @ sk_exception_text be e)) True
      | Inr schema \<Rightarrow> judge_created (sk_float_text be) op schema) = Inr r"
    using assms by (auto simp: apply_schema_operations_def effect_bind_Inr effect_of_def)
  show ?thesis
  proof (cases outcome)
    case (Inl failure)
    then show ?thesis
      using r ObjectMissing by (cases failure) (auto dest: schema_receipt_reports)
  next
    case (Inr schema)
    obtain w1 where w1: "get_live_schema be w1 = (Inr schema, w')"
      using create_and_read_Inr [of be op w schema w'] outcome Inr by auto
    have "reports r (judged (schema_object_state (sk_float_text be) op schema))"
      using judge_created_reports [of "sk_float_text be" op schema r] r Inr by (simp add: judged_def)
    then show ?thesis using ObjectMissing w1 by auto
  qed
qed (use assms in \<open>auto simp: apply_schema_operations_def effect_of_def dest: schema_receipt_reports\<close>)

text \<open>
  C37: what the reply to a schema create was based on. Only an operation whose name was free in the
  schema it was given is sent at all: when the object exists, identical or different, the server is
  not contacted. ALREADY_APPLIED is reported exactly for an identical object found beforehand; APPLIED
  only when the name was free and the schema read after the write holds an object that matches the
  operation in every field of the contract; CONFLICT only when one of the two reads shows a different
  object of that name. Whatever else happens is reported as UNKNOWN.
\<close>

theorem schema_status_is_observed:
  assumes "apply_schema_operations be [PyDict op] live_schema w = (Inr r, w')"
    and "schema_object_state (sk_float_text be) op live_schema = found"
  shows "(found \<noteq> ObjectMissing \<longrightarrow> w' = w) \<and>
    (reports r apply_status.ALREADY_APPLIED \<longleftrightarrow> (\<exists>observed. found = ObjectIdentical observed)) \<and>
    (reports r apply_status.APPLIED \<longrightarrow> found = ObjectMissing \<and>
       (\<exists>w1 schema observed. get_live_schema be w1 = (Inr schema, w') \<and>
          schema_object_state (sk_float_text be) op schema = ObjectIdentical observed)) \<and>
    (reports r apply_status.CONFLICT \<longrightarrow> (\<exists>observed. found = ObjectConflict observed) \<or>
       (\<exists>w1 schema observed. get_live_schema be w1 = (Inr schema, w') \<and>
          schema_object_state (sk_float_text be) op schema = ObjectConflict observed)) \<and>
    (\<exists>st \<in> {apply_status.APPLIED, apply_status.ALREADY_APPLIED, apply_status.CONFLICT, apply_status.UNKNOWN}.
       reports r st)"
proof (cases found)
  case ObjectMissing
  from apply_schema_cases [OF assms(1)] assms(2) ObjectMissing
  consider "reports r apply_status.UNKNOWN"
    | w1 schema where "get_live_schema be w1 = (Inr schema, w')"
        "reports r (judged (schema_object_state (sk_float_text be) op schema))"
    by auto
  then show ?thesis
  proof cases
    case 1
    then show ?thesis using ObjectMissing reports_unique by fastforce
  next
    case 2
    then show ?thesis
      using ObjectMissing reports_unique
      by (cases "schema_object_state (sk_float_text be) op schema") (fastforce simp: judged_def)+
  qed
qed (use apply_schema_cases [OF assms(1)] assms(2) reports_unique in fastforce)+

section \<open>The schema adapter fulfils the contract\<close>

lemma schema_adapter_receipt_settles:
  "schema_adapter_receipt now p o' attempt st observed why (st = apply_status.UNKNOWN) (st = apply_status.APPLIED) = Inr r \<Longrightarrow>
     st \<notin> {apply_status.RETRYABLE_NOT_APPLIED, apply_status.LEGACY_UNKNOWN, apply_status.PARTIAL} \<Longrightarrow>
     settles p o' attempt r"
  by (auto simp: schema_adapter_receipt_def make_apply_receipt_def settles_def
      split: sum.splits value_error.splits if_splits)

lemma result_status_reports: "result_status r = Inr st \<Longrightarrow> reports r st"
  by (auto simp: result_status_def item_of_def reports_def dict_get_def apply_status_of_value_def and_then_eq_Inr
      split: option.splits pyval.splits if_splits)

definition settled_statuses :: "apply_status set" where
  "settled_statuses =
     {apply_status.APPLIED, apply_status.ALREADY_APPLIED, apply_status.CONFLICT, apply_status.UNKNOWN}"

lemma settled_members [simp]:
  "apply_status.APPLIED \<in> settled_statuses" "apply_status.ALREADY_APPLIED \<in> settled_statuses"
  "apply_status.CONFLICT \<in> settled_statuses" "apply_status.UNKNOWN \<in> settled_statuses"
  by (simp_all add: settled_statuses_def)

lemma judged_settled: "judged found \<in> settled_statuses"
  by (cases found) (simp_all add: judged_def)

lemma apply_schema_statuses:
  assumes "apply_schema_operations be operations live_schema w = (Inr r, w')"
  shows "\<exists>st \<in> settled_statuses. reports r st"
proof -
  obtain op where op: "operations = [PyDict op]"
    using assms by (auto simp: apply_schema_operations_def effect_of_def split: list.splits pyval.splits)
  show ?thesis
    using apply_schema_cases [OF assms [unfolded op]] judged_settled
    by (cases "schema_object_state (sk_float_text be) op live_schema") (fastforce intro: settled_members)+
qed

interpretation schema_creates: write_adapter "schema_create_adapter be now"
proof
  fix p o' attempt
  have "settles p o' attempt r"
    if "schema_create_adapter be now p o' attempt w = (Inr r, w')" for w r w'
  proof -
    let ?cfg = "from_env (sk_env be)"
    consider "target_mismatch ?cfg p" | "\<not> target_mismatch ?cfg p" "guard SCHEMA_WRITE ?cfg \<noteq> None"
      | "\<not> target_mismatch ?cfg p" "guard SCHEMA_WRITE ?cfg = None" by blast
    then show ?thesis
    proof cases
      case 3
      with that obtain raw schema w1 w2 result st where
        result: "apply_schema_operations be [raw] schema w1 = (Inr result, w2)" "result_status result = Inr st"
        and r: "schema_adapter_receipt now p o' attempt st (observed_of result) (schema_reason_code st)
          (st = apply_status.UNKNOWN) (st = apply_status.APPLIED) = Inr r"
        by (auto simp: schema_create_adapter_def Let_def effect_bind_Inr effect_of_def and_then_eq_Inr)
      obtain st' where "st' \<in> settled_statuses" "reports result st'"
        using apply_schema_statuses [OF result(1)] by blast
      then have "st \<in> settled_statuses"
        using result_status_reports [OF result(2)] reports_unique by blast
      then show ?thesis
        using schema_adapter_receipt_settles [OF r] by (auto simp: settled_statuses_def)
    qed (use that in \<open>auto simp: schema_create_adapter_def effect_of_def schema_adapter_receipt_def
        make_apply_receipt_def settles_def split: sum.splits value_error.splits if_splits\<close>)
  qed
  then show "effect_ensures (settles p o' attempt) (schema_create_adapter be now p o' attempt)"
    by (auto simp: effect_ensures_def)
qed

section \<open>Reads keep the world\<close>

lemma safe_fetch_keeps [effect_rules]:
  assumes "schema_reads_keep I be"
  shows "effect_keeps I (safe_fetch_live_schema be)"
  using get_live_schema_keeps [OF assms]
  by (fastforce simp: effect_keeps_def safe_fetch_live_schema_def split: prod.splits sum.splits)

lemma with_live_schema_keeps [effect_rules]:
  assumes "schema_reads_keep I be" "\<And>live_schema. effect_keeps (\<lambda>s. I (ts_world s)) (k live_schema)"
  shows "effect_keeps (\<lambda>s. I (ts_world s)) (with_live_schema be k)"
  unfolding with_live_schema_def by (intro effect_rules assms)

lemma issue_schema_plan_keeps [effect_rules]:
  "effect_keeps (\<lambda>s. I (ts_world s)) (issue_schema_plan ti be operations live_schema result context)"
  unfolding issue_schema_plan_def Let_def by (intro effect_rules)

lemma run_dry_mode_keeps [effect_rules]:
  assumes "schema_reads_keep I be"
  shows "effect_keeps (\<lambda>s. I (ts_world s)) (run_dry_mode ti be operations nonce)"
  unfolding run_dry_mode_def Let_def by (intro effect_rules assms)

section \<open>No write without a confirmation\<close>

text \<open>The confirmation this call consumed, for the operations as they are and the schema just read.\<close>

definition confirmation_consumed ::
  "tool_inputs \<Rightarrow> 'w schema_backend \<Rightarrow> confirmation_db \<Rightarrow> pyval \<Rightarrow> pyval \<Rightarrow> string \<Rightarrow> string option \<Rightarrow> pyval \<Rightarrow>
     confirmation_db \<Rightarrow> bool" where
  "confirmation_consumed ti be db operations live_schema plan_hash nonce expires_at db' \<longleftrightarrow>
     verify_and_consume_plan (ti_sha ti) (ti_digest ti) (from_env (sk_env be)) (from_env (sk_env be)) db plan_hash
       ''apply_schema_tool'' ''apply'' (schema_payload_digest (ti_sha ti) operations)
       (schema_hash_of (ti_sha ti) live_schema) nonce expires_at None (ti_now ti 2) (ti_now ti 3) (ti_disk ti 3) =
     (Inr None, db')"

lemma with_live_schema_breaks:
  assumes "\<not> I (ts_world (snd (with_live_schema be k s)))" "schema_reads_keep I be" "I (ts_world s)"
  shows "\<exists>live_schema s'. I (ts_world s') \<and> ts_ledger s' = ts_ledger s \<and> \<not> I (ts_world (snd (k live_schema s')))"
proof -
  have "effect_keeps (\<lambda>s. I (ts_world s)) (on_world (safe_fetch_live_schema be))"
    using assms(2) by (intro effect_rules)
  from breaks_bind [OF assms(1) [unfolded with_live_schema_def] this assms(3)]
  obtain fetched s' where f: "on_world (safe_fetch_live_schema be) s = (Inr fetched, s')" "I (ts_world s')"
    "\<not> I (ts_world (snd ((case fetched of Inl r \<Rightarrow> effect_return r | Inr live_schema \<Rightarrow> k live_schema) s')))"
    by auto
  have "ts_ledger s' = ts_ledger s" using f(1) by (auto simp: on_world_def split: prod.splits)
  then show ?thesis
    using f(2,3) by (cases fetched) (auto simp: effect_return_def)
qed

lemma confirm_and_apply_breaks:
  assumes "\<not> I (ts_world (snd (confirm_and_apply ti be operations live_schema plan_hash nonce expires_at s)))"
    "I (ts_world s)"
  shows "\<exists>db'. confirmation_consumed ti be (ts_ledger s) operations live_schema plan_hash nonce expires_at db'"
  using assms
  by (auto simp: confirm_and_apply_def Let_def effect_bind_def effect_of_def effect_return_def on_ledger_def
      confirmation_consumed_def split: option.split_asm prod.split_asm sum.split_asm)

lemma apply_with_schema_breaks:
  assumes "\<not> I (ts_world (snd (apply_with_schema ti be operations confirmed plan_hash nonce expires_at live_schema s)))"
    "I (ts_world s)"
  shows "confirmed \<and> guard SCHEMA_WRITE (from_env (sk_env be)) = None \<and>
    (\<exists>result. dry_run_schema_operations ti be (ti_now ti 0) operations live_schema nonce = Inr result \<and>
       dict_get result ''valid'' = PyBool True) \<and>
    (\<exists>db'. confirmation_consumed ti be (ts_ledger s) operations live_schema plan_hash nonce expires_at db')"
  using assms confirm_and_apply_breaks [of I ti be operations live_schema plan_hash nonce expires_at s]
  by (cases "dry_run_schema_operations ti be (ti_now ti 0) operations live_schema nonce";
      cases "guard SCHEMA_WRITE (from_env (sk_env be))")
    (auto simp: apply_with_schema_def effect_bind_def effect_of_def effect_return_def split: if_splits)

lemma run_apply_breaks:
  assumes "\<not> I (ts_world (snd (run_apply_mode ti be operations confirmed plan_hash nonce expires_at s)))"
    "schema_reads_keep I be" "I (ts_world s)"
  shows "\<exists>live_schema s'. I (ts_world s') \<and> ts_ledger s' = ts_ledger s \<and>
    \<not> I (ts_world (snd (apply_with_schema ti be operations confirmed plan_hash nonce expires_at live_schema s')))"
  using assms(1,3)
    with_live_schema_breaks [OF _ assms(2), of "apply_with_schema ti be operations confirmed plan_hash nonce expires_at" s]
  by (auto simp: run_apply_mode_def effect_bind_def ask_ledger_def effect_return_def split: option.split_asm if_splits)

text \<open>
  C38: the schema of the server changes only through a confirmation. If a call of the tool has an
  effect that its reads of the server cannot have, then it was an apply with \<open>confirm\<close>, the write
  guard of the configuration was open, the operations passed the dry run against the schema just read,
  and in this very call the confirmation bound to these operations, that schema and this
  configuration was verified against the ledger and consumed.
\<close>

theorem schema_write_needs_consumed_confirmation:
  assumes "schema_reads_keep I be" "I (ts_world s)"
    and "\<not> I (ts_world (snd (manage_schema ti be mode operations0 confirmed plan_hash nonce expires_at s)))"
  shows "mode = ''apply'' \<and> confirmed \<and> guard SCHEMA_WRITE (from_env (sk_env be)) = None \<and>
    (\<exists>live_schema result db'.
       dry_run_schema_operations ti be (ti_now ti 0) (py_or operations0 (PyList [])) live_schema nonce = Inr result \<and>
       dict_get result ''valid'' = PyBool True \<and>
       confirmation_consumed ti be (ts_ledger s) (py_or operations0 (PyList [])) live_schema plan_hash nonce
         expires_at db')"
proof -
  let ?ops = "py_or operations0 (PyList [])"
  have dry: "I (ts_world (snd (run_dry_mode ti be ?ops nonce s)))"
    using keepsD [OF run_dry_mode_keeps [OF assms(1)] assms(2)] .
  have "effect_keeps (\<lambda>s. I (ts_world s)) (with_live_schema be (\<lambda>live_schema.
      effect_bind (effect_of (validate_schema_operations (sk_float_text be) ?ops live_schema)) (\<lambda>d.
        effect_return (envelope_ok (PyDict d)))))"
    by (intro effect_rules assms(1))
  note validate = keepsD [OF this assms(2)]
  have run: "mode = ''apply'' \<and> \<not> I (ts_world (snd (run_apply_mode ti be ?ops confirmed plan_hash nonce expires_at s)))"
    using assms(2,3) dry validate
    by (auto simp: manage_schema_def Let_def effect_bind_def effect_of_def effect_return_def
        split: option.split_asm if_splits sum.split_asm)
  then obtain live_schema s' where "I (ts_world s')" and ledger: "ts_ledger s' = ts_ledger s"
    and "\<not> I (ts_world (snd (apply_with_schema ti be ?ops confirmed plan_hash nonce expires_at live_schema s')))"
    using run_apply_breaks [OF _ assms(1,2)] by blast
  then show ?thesis
    using apply_with_schema_breaks [of I ti be ?ops confirmed plan_hash nonce expires_at live_schema s'] run by auto
qed

end
