(* ===== verification/Schema_Requests.thy ===== *)
theory Schema_Requests
  imports Manage_Schema
begin

text \<open>
  What a call of the schema tool costs the server. A cost is a number read off the world (requests
  sent, objects posted, seconds spent); \<open>effect_costs\<close> bounds what an effect adds to it, and the bound
  of a sequence of effects is the sum of their bounds.
\<close>

section \<open>Costs of effects\<close>

definition effect_costs :: "('w \<Rightarrow> nat) \<Rightarrow> nat \<Rightarrow> ('w, 'a) effect \<Rightarrow> bool" where
  "effect_costs cost n m \<longleftrightarrow> (\<forall>w. cost (snd (m w)) \<le> cost w + n)"

named_theorems cost_rules \<open>bounds of the combinators\<close>

lemma costs_mono: "effect_costs cost n m \<Longrightarrow> n \<le> n' \<Longrightarrow> effect_costs cost n' m"
  unfolding effect_costs_def by (meson add_left_mono order_trans)

lemma costs_return [cost_rules]: "effect_costs cost 0 (effect_return x)"
  by (simp add: effect_costs_def effect_return_def)

lemma costs_of [cost_rules]: "effect_costs cost 0 (effect_of r)"
  by (simp add: effect_costs_def effect_of_def)

lemma costs_free: "effect_costs cost 0 m \<Longrightarrow> effect_costs cost n m"
  by (erule costs_mono) simp

lemma costs_bind_ensured:
  assumes "effect_costs cost n m" "effect_ensures P m" "\<And>x. P x \<Longrightarrow> effect_costs cost n' (k x)"
  shows "effect_costs cost (n + n') (effect_bind m k)"
  unfolding effect_costs_def
proof
  fix w
  obtain r w1 where m: "m w = (r, w1)" by fastforce
  have "cost w1 \<le> cost w + n" using assms(1) m by (metis effect_costs_def snd_conv)
  then show "cost (snd (effect_bind m k w)) \<le> cost w + (n + n')"
  proof (cases r)
    case (Inr x)
    then have "P x" using assms(2) m by (auto simp: effect_ensures_def)
    then have "cost (snd (k x w1)) \<le> cost w1 + n'" using assms(3) by (simp add: effect_costs_def)
    then show ?thesis using \<open>cost w1 \<le> cost w + n\<close> m Inr by (simp add: effect_bind_def)
  qed (use m in \<open>simp add: effect_bind_def\<close>)
qed

lemma costs_bind:
  "effect_costs cost n m \<Longrightarrow> (\<And>x. effect_costs cost n' (k x)) \<Longrightarrow> effect_costs cost (n + n') (effect_bind m k)"
  by (rule costs_bind_ensured [OF _ effect_ensures_any])

text \<open>Effects around one that costs something are free.\<close>

lemma costs_before [cost_rules]:
  "effect_costs cost 0 m \<Longrightarrow> (\<And>x. effect_costs cost n (k x)) \<Longrightarrow> effect_costs cost n (effect_bind m k)"
  using costs_bind [of cost 0 m n k] by simp

lemma costs_after:
  "effect_costs cost n m \<Longrightarrow> (\<And>x. effect_costs cost 0 (k x)) \<Longrightarrow> effect_costs cost n (effect_bind m k)"
  using costs_bind [of cost n m 0 k] by simp

lemma costs_if [cost_rules]:
  "(c \<Longrightarrow> effect_costs cost n m) \<Longrightarrow> (\<not> c \<Longrightarrow> effect_costs cost n m') \<Longrightarrow> effect_costs cost n (if c then m else m')"
  by simp

lemma costs_option [cost_rules]:
  "effect_costs cost n m \<Longrightarrow> (\<And>x. effect_costs cost n (k x)) \<Longrightarrow>
     effect_costs cost n (case r of None \<Rightarrow> m | Some x \<Rightarrow> k x)"
  by (simp split: option.split)

lemma costs_sum [cost_rules]:
  "(\<And>e. effect_costs cost n (h e)) \<Longrightarrow> (\<And>x. effect_costs cost n (k x)) \<Longrightarrow>
     effect_costs cost n (case r of Inl e \<Rightarrow> h e | Inr x \<Rightarrow> k x)"
  by (simp split: sum.split)

lemma costs_prod [cost_rules]:
  "(\<And>a b. effect_costs cost n (k a b)) \<Longrightarrow> effect_costs cost n (case r of (a, b) \<Rightarrow> k a b)"
  by (simp split: prod.split)

section \<open>Costs of the steps of the tool\<close>

lemma costs_on_world: "effect_costs cost n m \<Longrightarrow> effect_costs (\<lambda>s. cost (ts_world s)) n (on_world m)"
  by (auto simp: effect_costs_def on_world_def split: prod.split) (metis snd_conv)

lemma costs_on_ledger [cost_rules]: "effect_costs (\<lambda>s. cost (ts_world s)) 0 (on_ledger f)"
  by (auto simp: effect_costs_def on_ledger_def split: prod.split)

lemma costs_ask_ledger [cost_rules]: "effect_costs cost 0 (ask_ledger f)"
  by (simp add: effect_costs_def ask_ledger_def)

lemma costs_persist_plan [cost_rules]: "effect_costs (\<lambda>s. cost (ts_world s)) 0 (persist_plan ti cfg p)"
  by (auto simp: effect_costs_def persist_plan_def split: option.split prod.split sum.split)

lemma costs_record_outcome [cost_rules]:
  "effect_costs (\<lambda>s. cost (ts_world s)) 0 (record_outcome_durably ti i h st r)"
  unfolding record_outcome_durably_def by (rule costs_on_ledger)

text \<open>
  The prices of a server: building a client costs at most \<open>c\<close>, a GET request \<open>g\<close>, a POST request \<open>p\<close>.
\<close>

definition server_prices :: "('w \<Rightarrow> nat) \<Rightarrow> nat \<Rightarrow> nat \<Rightarrow> nat \<Rightarrow> 'w schema_backend \<Rightarrow> bool" where
  "server_prices cost c g p be \<longleftrightarrow>
     (\<forall>cfg. effect_costs cost c (sk_connect be cfg)) \<and>
     (\<forall>cfg w transport w'. sk_connect be cfg w = (Inr transport, w') \<longrightarrow>
        (\<forall>path body. effect_costs cost g (transport ''GET'' path body) \<and>
           effect_costs cost p (transport ''POST'' path body)))"

lemma prices_connect: "server_prices cost c g p be \<Longrightarrow> effect_costs cost c (sk_connect be cfg)"
  by (simp add: server_prices_def)

lemma prices_transport:
  "server_prices cost c g p be \<Longrightarrow>
     effect_ensures (\<lambda>transport. \<forall>path body. effect_costs cost g (transport ''GET'' path body) \<and>
       effect_costs cost p (transport ''POST'' path body)) (sk_connect be cfg)"
  by (auto simp: server_prices_def effect_ensures_def)

lemma session_request_costs:
  "effect_costs cost n (transport method path body) \<Longrightarrow>
     effect_costs cost n (session_request fl transport strict method path body)"
  unfolding session_request_def by (intro costs_after cost_rules)

lemma get_live_schema_costs:
  assumes "server_prices cost c g p be"
  shows "effect_costs cost (c + g) (get_live_schema be)"
  unfolding get_live_schema_def Let_def get_schema_def
  by (rule costs_bind_ensured [OF prices_connect [OF assms] prices_transport [OF assms]])
    (intro costs_after session_request_costs cost_rules, simp)

lemma create_object_costs:
  assumes "\<And>path body. effect_costs cost p (transport ''POST'' path body)"
  shows "effect_costs cost p (create_object fl transport b)"
  unfolding create_object_def
  by (intro costs_option costs_if costs_free [OF costs_return] costs_free [OF costs_of] costs_before [OF costs_of]
      costs_after session_request_costs assms costs_return)

lemma create_and_read_costs:
  assumes "server_prices cost c g p be"
  shows "effect_costs cost (c + p + (c + g)) (create_and_read be op)"
proof -
  let ?m = "effect_bind (sk_connect be (from_env (sk_env be))) (\<lambda>transport. apply_one_operation be transport op)"
  have m: "effect_costs cost (c + p) ?m"
    unfolding apply_one_operation_def
    by (rule costs_bind_ensured [OF prices_connect [OF assms] prices_transport [OF assms]])
      (intro costs_before costs_after cost_rules create_object_costs, simp)
  have r: "effect_costs cost (c + g) (get_live_schema be)" by (rule get_live_schema_costs [OF assms])
  show ?thesis
    unfolding effect_costs_def
  proof
    fix w
    obtain r1 w1 where 1: "?m w = (r1, w1)" by fastforce
    obtain r2 w2 where 2: "get_live_schema be w1 = (r2, w2)" by fastforce
    have "cost w1 \<le> cost w + (c + p)" using m 1 by (metis effect_costs_def snd_conv)
    moreover have "cost w2 \<le> cost w1 + (c + g)" using r 2 by (metis effect_costs_def snd_conv)
    ultimately show "cost (snd (create_and_read be op w)) \<le> cost w + (c + p + (c + g))"
      using 1 2 by (cases r1; cases r2) (auto simp: create_and_read_def)
  qed
qed

lemma apply_schema_operations_costs:
  assumes "server_prices cost c g p be"
  shows "effect_costs cost (c + p + (c + g)) (apply_schema_operations be operations live_schema)"
proof -
  have create: "effect_costs cost (c + p + (c + g)) (effect_bind (create_and_read be op) (\<lambda>x. effect_of (k x)))" for op k
    by (rule costs_after [OF create_and_read_costs [OF assms] costs_of])
  show ?thesis
    unfolding apply_schema_operations_def
    by (auto intro: create costs_free [OF costs_of] split: list.split pyval.split object_state.split)
qed

lemma safe_fetch_costs:
  assumes "server_prices cost c g p be"
  shows "effect_costs cost (c + g) (safe_fetch_live_schema be)"
  unfolding effect_costs_def
proof
  fix w
  have "cost (snd (get_live_schema be w)) \<le> cost w + (c + g)"
    using get_live_schema_costs [OF assms] by (simp add: effect_costs_def)
  then show "cost (snd (safe_fetch_live_schema be w)) \<le> cost w + (c + g)"
    by (auto simp: safe_fetch_live_schema_def split: prod.split sum.split)
qed

lemma with_live_schema_costs:
  assumes "server_prices cost c g p be" "\<And>live_schema. effect_costs (\<lambda>s. cost (ts_world s)) n (k live_schema)"
  shows "effect_costs (\<lambda>s. cost (ts_world s)) (c + g + n) (with_live_schema be k)"
  unfolding with_live_schema_def
  by (intro costs_bind costs_on_world [where cost = cost] safe_fetch_costs [OF assms(1)] costs_sum assms(2)
      costs_free [OF costs_return])

lemma report_outcome_costs: "effect_costs (\<lambda>s. cost (ts_world s)) 0 (report_outcome ti h st r)"
  unfolding report_outcome_def by (intro cost_rules)

lemma confirm_and_apply_costs:
  assumes "server_prices cost c g p be"
  shows "effect_costs (\<lambda>s. cost (ts_world s)) (c + p + (c + g))
    (confirm_and_apply ti be operations live_schema plan_hash nonce expires_at)"
proof -
  note free = cost_rules report_outcome_costs
  have "effect_costs (\<lambda>s. cost (ts_world s)) (c + p + (c + g)) (apply_confirmed ti be operations live_schema plan_hash)"
    unfolding apply_confirmed_def
    by (rule costs_after [OF costs_on_world [where cost = cost, OF apply_schema_operations_costs [OF assms]]])
      (intro free)
  then show ?thesis
    unfolding confirm_and_apply_def Let_def
    by (intro costs_before costs_on_ledger costs_sum costs_option costs_prod) (auto intro: costs_free [OF cost_rules(1)] costs_free [OF costs_of])
qed

lemma apply_with_schema_costs:
  assumes "server_prices cost c g p be"
  shows "effect_costs (\<lambda>s. cost (ts_world s)) (c + p + (c + g))
    (apply_with_schema ti be operations confirmed plan_hash nonce expires_at live_schema)"
  unfolding apply_with_schema_def
  by (intro costs_before [OF costs_of] costs_if costs_option costs_free [OF costs_return] confirm_and_apply_costs assms)

lemma issue_schema_plan_costs:
  "effect_costs (\<lambda>s. cost (ts_world s)) 0 (issue_schema_plan ti be operations live_schema result context)"
  unfolding issue_schema_plan_def Let_def by (intro cost_rules)

lemma run_dry_mode_costs:
  assumes "server_prices cost c g p be"
  shows "effect_costs (\<lambda>s. cost (ts_world s)) (c + g) (run_dry_mode ti be operations nonce)"
proof -
  have "effect_costs (\<lambda>s. cost (ts_world s)) (c + g + 0) (run_dry_mode ti be operations nonce)"
    unfolding run_dry_mode_def Let_def
    by (intro with_live_schema_costs [OF assms] cost_rules issue_schema_plan_costs)
  then show ?thesis by simp
qed

lemma run_apply_mode_costs:
  assumes "server_prices cost c g p be"
  shows "effect_costs (\<lambda>s. cost (ts_world s)) (c + g + (c + p + (c + g)))
    (run_apply_mode ti be operations confirmed plan_hash nonce expires_at)"
  unfolding run_apply_mode_def
  by (intro costs_before [OF costs_ask_ledger] costs_option costs_free [OF costs_return]
      with_live_schema_costs [OF assms] apply_with_schema_costs [OF assms])

section \<open>The bound\<close>

text \<open>
  C40: a call of the schema tool returns after a bounded number of requests, whatever the server
  answers: it builds at most three clients, reads the schema at most twice and posts at most one
  object; a mode other than apply builds one client, reads once and posts nothing. The prices of the
  three kinds of request are free, so with the price of a POST alone the bound says that no call
  creates two objects.
\<close>

theorem schema_call_is_bounded:
  assumes "server_prices cost c g p be"
  shows "cost (ts_world (snd (manage_schema ti be mode operations0 confirmed plan_hash nonce expires_at s))) \<le>
    cost (ts_world s) + (if mode = ''apply'' then 3 * c + 2 * g + p else c + g)"
proof -
  let ?cost = "\<lambda>s. cost (ts_world s)"
  have free: "effect_costs ?cost n (effect_return x)" "effect_costs ?cost n (effect_of y)" for n x y
    by (rule costs_free, rule cost_rules)+
  have validate: "effect_costs ?cost (c + g + 0) (with_live_schema be (\<lambda>live_schema.
      effect_bind (effect_of (validate_schema_operations fl ops live_schema)) (\<lambda>d. effect_return (envelope_ok (PyDict d)))))" for fl ops
    by (intro with_live_schema_costs [OF assms] cost_rules)
  have "effect_costs ?cost (if mode = ''apply'' then c + g + (c + p + (c + g)) else c + g)
      (manage_schema ti be mode operations0 confirmed plan_hash nonce expires_at)"
    unfolding manage_schema_def Let_def
    using validate run_dry_mode_costs [OF assms] run_apply_mode_costs [OF assms]
    by (auto intro!: free costs_before [OF costs_of] split: option.split)
  then show ?thesis
    by (auto simp: effect_costs_def algebra_simps split: if_splits dest: spec [of _ s])
qed

end
