(* ===== verification/Schema_Samples.thy ===== *)
theory Schema_Samples
  imports Schema_Apply_Properties Schema_Requests
begin

text \<open>
  A schema server in memory and runs of the schema tool against it: the witnesses of the properties of
  applying, and the cases in which an accepted operation does not end as it should.
\<close>

section \<open>A server\<close>

text \<open>The world is the schema. A created label is stored with an empty list of properties by default.\<close>

definition empty_schema :: pydict where
  "empty_schema =
     [(''propertykeys'', PyList []), (''vertexlabels'', PyList []), (''edgelabels'', PyList []),
      (''indexlabels'', PyList [])]"

definition stored_object :: "pydict \<Rightarrow> pydict" where
  "stored_object body = (if map_of body ''properties'' = None then body @ [(''properties'', PyList [])] else body)"

definition ok_answer :: "nat \<Rightarrow> pyval \<Rightarrow> http_answer" where
  "ok_answer n body = \<lparr>ha_status = n, ha_json = Some body, ha_text = [], ha_content = []\<rparr>"

definition memory_transport :: "pydict transport" where
  "memory_transport method path body schema =
     (if method = ''POST'' then
        (case body of
           Some (PyDict d) \<Rightarrow>
             (let collection = drop 7 path;
                  present = (case dict_get schema collection of PyList vs \<Rightarrow> vs | _ \<Rightarrow> [])
              in (Inr (ok_answer 201 (PyDict d)),
                  AList.update collection (PyList (present @ [PyDict (stored_object d)])) schema))
         | _ \<Rightarrow> (Inr (ok_answer 400 PyNone), schema))
      else (Inr (ok_answer 200 (PyDict schema)), schema))"

definition memory_server :: "pydict schema_backend" where
  "memory_server =
     \<lparr>sk_env = writable_env, sk_connect = (\<lambda>_. effect_return memory_transport), sk_float_text = (\<lambda>_. []),
      sk_exception_text = (\<lambda>_. []), sk_set_order = (\<lambda>vs. vs)\<rparr>"

definition sample_inputs :: tool_inputs where
  "sample_inputs =
     \<lparr>ti_sha = (\<lambda>_. ''h''), ti_digest = (\<lambda>s. s), ti_nonce = ''n'', ti_uuid = ''u'', ti_now = (\<lambda>_. 0),
      ti_disk = (\<lambda>_. True), ti_store_failure = None\<rparr>"

definition age_key :: pydict where
  "age_key = [(''type'', PyStr ''create_property_key''), (''name'', PyStr ''age''), (''data_type'', PyStr ''int'')]"

text \<open>The ledger after the dry run that issued the nonce, and the session that confirms it.\<close>

definition issued_session :: "pydict tool_state" where
  "issued_session =
     \<lparr>ts_world = empty_schema,
      ts_ledger = snd (issue_plan (\<lambda>s. s) empty_confirmation_db
        (build_schema_plan_context sample_inputs (from_env writable_env) 0 (PyList [PyDict age_key])
          (PyDict empty_schema) None) ''h'' None 0 True),
      ts_plans = empty_plan_store\<rparr>"

lemma memory_server_reads: "schema_reads_keep (\<lambda>w. w = w0) memory_server"
  by (auto simp: schema_reads_keep_def memory_server_def effect_keeps_def effect_return_def memory_transport_def)

definition sample_live :: pyval where
  "sample_live = (case fst (get_live_schema memory_server empty_schema) of Inr schema \<Rightarrow> schema | Inl _ \<Rightarrow> PyNone)"

lemma sample_fetch: "get_live_schema memory_server empty_schema = (Inr sample_live, empty_schema)"
  by code_simp

lemma within_limits: "payload_byte_size (\<lambda>_. []) (PyList [PyDict age_key]) \<le> 100"
  by code_simp

lemma sample_limit: "write_limit_envelope (\<lambda>_. []) (Suc 0) (PyList [PyDict age_key]) = None"
  using within_limits by (simp add: write_limit_envelope_None MAX_OPERATIONS_def MAX_PAYLOAD_BYTES_def)

lemma sample_valid:
  "case validate_schema_operations (\<lambda>_. []) (PyList [PyDict age_key]) sample_live of
     Inr report \<Rightarrow> dict_get report ''valid'' = PyBool True | Inl _ \<Rightarrow> False"
  "case risk_warnings (\<lambda>_. []) (\<lambda>vs. vs) [PyDict age_key] sample_live of Inr _ \<Rightarrow> True | Inl _ \<Rightarrow> False"
  "case schema_mutation_summary (\<lambda>_. []) [PyDict age_key] of Inr _ \<Rightarrow> True | Inl _ \<Rightarrow> False"
  "validate_apply_scope (\<lambda>_. []) [PyDict age_key] = []"
  by code_simp+

lemma sample_dry_run:
  "\<exists>result. dry_run_schema_operations sample_inputs memory_server 0 (PyList [PyDict age_key]) sample_live (Some ''n'') =
     Inr result \<and> dict_get result ''valid'' = PyBool True"
  using sample_valid within_limits
  by (auto simp: dry_run_schema_operations_def memory_server_def collect_write_limit_errors_def MAX_OPERATIONS_def
      MAX_PAYLOAD_BYTES_def operation_count_from_list_def operation_list_def Let_def split: sum.split_asm)

lemma sample_verdict:
  "fst (verify_and_consume_plan (ti_sha sample_inputs) (ti_digest sample_inputs) (from_env writable_env)
     (from_env writable_env) (ts_ledger issued_session) ''h'' ''apply_schema_tool'' ''apply''
     (schema_payload_digest (ti_sha sample_inputs) (PyList [PyDict age_key]))
     (schema_hash_of (ti_sha sample_inputs) sample_live) (Some ''n'') (PyInt 600) None 0 0 True) = Inr None"
  by code_simp

lemma sample_replay: "replayed_plan_error (\<lambda>s. s) (ts_ledger issued_session) (Some ''n'') True True = None"
  by code_simp

lemma sample_guard: "guard SCHEMA_WRITE (from_env writable_env) = None"
  by code_simp

lemma sample_apply:
  "case apply_schema_operations memory_server [PyDict age_key] sample_live empty_schema of
     (Inr r, w') \<Rightarrow> reports r apply_status.APPLIED \<and> w' \<noteq> empty_schema | _ \<Rightarrow> False"
  by code_simp

lemma sample_write:
  "ts_world (snd (manage_schema sample_inputs memory_server ''apply'' (PyList [PyDict age_key]) True ''h'' (Some ''n'')
     (PyInt 600) issued_session)) \<noteq> empty_schema"
proof -
  obtain result where dry: "dry_run_schema_operations sample_inputs memory_server 0 (PyList [PyDict age_key]) sample_live
      (Some ''n'') = Inr result" "dict_get result ''valid'' = PyBool True"
    using sample_dry_run by blast
  obtain db where verdict: "verify_and_consume_plan (ti_sha sample_inputs) (ti_digest sample_inputs) (from_env writable_env)
     (from_env writable_env) (ts_ledger issued_session) ''h'' ''apply_schema_tool'' ''apply''
     (schema_payload_digest (ti_sha sample_inputs) (PyList [PyDict age_key]))
     (schema_hash_of (ti_sha sample_inputs) sample_live) (Some ''n'') (PyInt 600) None 0 0 True = (Inr None, db)"
    using sample_verdict by (metis prod.collapse)
  obtain r w' where applied: "apply_schema_operations memory_server [PyDict age_key] sample_live empty_schema = (Inr r, w')"
      "w' \<noteq> empty_schema"
    using sample_apply by (auto split: prod.split_asm sum.split_asm)
  let ?s = "issued_session\<lparr>ts_ledger := db\<rparr>"
  have "effect_keeps (\<lambda>s. ts_world s = w') (report_outcome sample_inputs ''h'' st x)" for st x
    unfolding report_outcome_def by (intro effect_rules)
  note keeps = keepsD [OF this]
  have "ts_world (snd (apply_confirmed sample_inputs memory_server (PyList [PyDict age_key]) sample_live ''h'' ?s)) = w'"
    using keeps applied(1)
    by (auto simp: apply_confirmed_def effect_bind_def on_world_def operation_list_def issued_session_def effect_of_def
        split: sum.split prod.split)
  moreover have "safe_fetch_live_schema memory_server empty_schema = (Inr (Inr sample_live), empty_schema)"
    using sample_fetch by (simp add: safe_fetch_live_schema_def)
  ultimately show ?thesis
    using dry verdict sample_guard sample_replay applied(2) sample_limit
    by (simp add: manage_schema_def run_apply_mode_def with_live_schema_def apply_with_schema_def confirm_and_apply_def
        effect_bind_def ask_ledger_def on_world_def on_ledger_def effect_of_def operation_count_from_list_def py_or_def Let_def
        sample_inputs_def memory_server_def issued_session_def)
qed

theorem schema_write_needs_consumed_confirmation_witness:
  "\<exists>live_schema db'. confirmation_consumed sample_inputs memory_server (ts_ledger issued_session)
     (PyList [PyDict age_key]) live_schema ''h'' (Some ''n'') (PyInt 600) db'"
proof -
  have "ts_world issued_session = empty_schema" by (simp add: issued_session_def)
  from schema_write_needs_consumed_confirmation [OF memory_server_reads this sample_write]
  show ?thesis by (auto simp: py_or_def)
qed

theorem schema_status_is_observed_witness:
  "\<exists>r w'. apply_schema_operations memory_server [PyDict age_key] (PyDict empty_schema) empty_schema = (Inr r, w') \<and>
     reports r apply_status.APPLIED \<and>
     (\<exists>w1 schema observed. get_live_schema memory_server w1 = (Inr schema, w') \<and>
        schema_object_state (sk_float_text memory_server) age_key schema = ObjectIdentical observed)"
proof -
  have "case apply_schema_operations memory_server [PyDict age_key] (PyDict empty_schema) empty_schema of
      (Inr r, _) \<Rightarrow> reports r apply_status.APPLIED | _ \<Rightarrow> False"
    by code_simp
  then obtain r w' where r: "apply_schema_operations memory_server [PyDict age_key] (PyDict empty_schema) empty_schema = (Inr r, w')"
      "reports r apply_status.APPLIED"
    by (auto split: prod.split_asm sum.split_asm)
  from schema_status_is_observed [OF r(1) refl] r show ?thesis by blast
qed

section \<open>Counting what is posted\<close>

definition counting_transport :: "(nat \<times> pydict) transport" where
  "counting_transport method path body w =
     (case memory_transport method path body (snd w) of
        (r, schema) \<Rightarrow> (r, (if method = ''POST'' then Suc (fst w) else fst w, schema)))"

definition counting_server :: "(nat \<times> pydict) schema_backend" where
  "counting_server =
     \<lparr>sk_env = writable_env, sk_connect = (\<lambda>_. effect_return counting_transport), sk_float_text = (\<lambda>_. []),
      sk_exception_text = (\<lambda>_. []), sk_set_order = (\<lambda>vs. vs)\<rparr>"

lemma counting_prices: "server_prices fst 0 0 1 counting_server"
  by (auto simp: server_prices_def effect_costs_def counting_server_def effect_return_def counting_transport_def
      split: prod.split)

theorem schema_call_is_bounded_witness:
  "fst (ts_world (snd (manage_schema sample_inputs counting_server ''apply'' (PyList [PyDict age_key]) True ''h'' (Some ''n'')
     (PyInt 600) \<lparr>ts_world = (0, empty_schema), ts_ledger = ts_ledger issued_session, ts_plans = empty_plan_store\<rparr>))) \<le> 1"
  using schema_call_is_bounded [OF counting_prices, of sample_inputs "''apply''" "PyList [PyDict age_key]" True "''h''" "Some ''n''"
      "PyInt 600" "\<lparr>ts_world = (0, empty_schema), ts_ledger = ts_ledger issued_session, ts_plans = empty_plan_store\<rparr>"]
  by simp

section \<open>Accepted, created and reported as a conflict\<close>

definition null_properties :: pydict where
  "null_properties =
     [(''type'', PyStr ''create_vertex_label''), (''name'', PyStr ''tag''), (''id_strategy'', PyStr ''AUTOMATIC''),
      (''properties'', PyNone)]"

text \<open>
  A label with \<open>properties: null\<close> passes validation and is created, but the reply is CONFLICT.
  Validation treats null as no properties and the builder skips it, but the comparison after the
  write wants the created label's list of properties to equal null, so the object the call has just
  created is taken for a different one of the same name.
\<close>

theorem null_properties_reported_as_conflict:
  "(case validate_schema_operations (\<lambda>_. []) (PyList [PyDict null_properties]) (PyDict empty_schema) of
      Inl _ \<Rightarrow> False | Inr report \<Rightarrow> dict_get report ''valid'' = PyBool True) \<and>
   (case apply_schema_operations memory_server [PyDict null_properties] (PyDict empty_schema) empty_schema of
      (Inr r, w') \<Rightarrow> reports r apply_status.CONFLICT \<and>
        dict_get w' ''vertexlabels'' =
          PyList [PyDict [(''name'', PyStr ''tag''), (''id_strategy'', PyStr ''AUTOMATIC''), (''properties'', PyList [])]]
    | _ \<Rightarrow> False)"
  by (intro conjI; code_simp)

text \<open>
  A label without a primary key strategy may carry any value as \<open>primary_keys\<close>; validation accepts
  it, and the apply ends with an unknown outcome although nothing was ever sent.
\<close>

definition stray_primary_keys :: pydict where
  "stray_primary_keys =
     [(''type'', PyStr ''create_vertex_label''), (''name'', PyStr ''tag''), (''id_strategy'', PyStr ''AUTOMATIC''),
      (''primary_keys'', PyInt 5)]"

theorem stray_primary_keys_end_unknown:
  "(case validate_schema_operations (\<lambda>_. []) (PyList [PyDict stray_primary_keys]) (PyDict empty_schema) of
      Inl _ \<Rightarrow> False | Inr report \<Rightarrow> dict_get report ''valid'' = PyBool True) \<and>
   (case apply_schema_operations memory_server [PyDict stray_primary_keys] (PyDict empty_schema) empty_schema of
      (Inr r, w') \<Rightarrow> reports r apply_status.UNKNOWN \<and> w' = empty_schema | _ \<Rightarrow> False)"
  by (intro conjI; code_simp)

text \<open>
  An unhashable name escapes validation as an exception: a list as the name of a create raises
  \<open>TypeError\<close> while the duplicates are collected, before any check reports it.
\<close>

theorem list_name_raises:
  "validate_schema_operations fl (PyList [PyDict [(''type'', PyStr ''create_property_key''),
     (''name'', PyList [PyStr ''age'']), (''data_type'', PyStr ''TEXT'')]]) live_schema = Inl RaisesType"
  by (simp add: validate_schema_operations_def collect_planned_creates_def collect_planned_create_def
      operation_type_def CREATE_TYPE_TO_KEY_def)

end
