(* ===== verification/Schema_Sending.thy ===== *)
theory Schema_Sending
  imports Schema_Apply
begin

text \<open>
  What is sent. Applying an operation drives a builder through a dozen calls and posts the body the
  builder assembles; \<open>requested_body\<close> says declaratively which object an operation asks for, and the
  two agree: no field of an operation is dropped, renamed or invented on its way to the server.
\<close>

section \<open>The object an operation asks for\<close>

text \<open>A list-valued field that is not null, as a list.\<close>

definition listed_field :: "pydict \<Rightarrow> string \<Rightarrow> pyval list option" where
  "listed_field operation f = (if dict_get operation f = PyNone then None else iterate (dict_get operation f))"

definition upper_if_given :: "(rat \<Rightarrow> string) \<Rightarrow> pydict \<Rightarrow> string \<Rightarrow> pyval option" where
  "upper_if_given fl operation f =
     (if py_truthy (dict_get operation f) then Some (PyStr (py_upper (py_str fl (dict_get operation f)))) else None)"

definition requested_property_key :: "(rat \<Rightarrow> string) \<Rightarrow> pydict \<Rightarrow> (string \<times> pyval option) list" where
  "requested_property_key fl operation =
     [(''name'', map_of operation ''name''),
      (''data_type'', Some (PyStr (canonical_enum_value ''data_type'' (enum_text fl operation ''data_type'' ''TEXT'')))),
      (''cardinality'', Some (PyStr (enum_text fl operation ''cardinality'' ''SINGLE''))),
      (''aggregate_type'', upper_if_given fl operation ''aggregate_type''),
      (''user_data'', if py_truthy (dict_get operation ''user_data'') then map_of operation ''user_data'' else None)]"

definition requested_vertex_label :: "(rat \<Rightarrow> string) \<Rightarrow> pydict \<Rightarrow> (string \<times> pyval option) list" where
  "requested_vertex_label fl operation =
     [(''name'', map_of operation ''name''),
      (''id_strategy'', Some (PyStr (enum_text fl operation ''id_strategy'' ''PRIMARY_KEY''))),
      (''properties'', map_option PyList (listed_field operation ''properties'')),
      (''primary_keys'', map_option PyList (listed_field operation ''primary_keys'')),
      (''nullable_keys'', map_option PyList (listed_field operation ''nullable_keys'')),
      (''index_labels'', map_of operation ''index_labels''),
      (''enable_label_index'', map_of operation ''enable_label_index''),
      (''user_data'', map_of operation ''user_data'')]"

definition requested_edge_label ::
  "(rat \<Rightarrow> string) \<Rightarrow> (pyval list \<Rightarrow> pyval list) \<Rightarrow> pydict \<Rightarrow> (string \<times> pyval option) list" where
  "requested_edge_label fl order operation =
     [(''name'', map_of operation ''name''),
      (''source_label'', map_of operation ''source_label''),
      (''target_label'', map_of operation ''target_label''),
      (''properties'', map_option PyList (listed_field operation ''properties'')),
      (''nullable_keys'',
        map_option (\<lambda>vs. PyList (order (distinct_values vs))) (listed_field operation ''nullable_keys'')),
      (''sort_keys'', map_option PyList (listed_field operation ''sort_keys'')),
      (''frequency'', upper_if_given fl operation ''frequency''),
      (''enable_label_index'', map_of operation ''enable_label_index''),
      (''user_data'', map_of operation ''user_data'')]"

definition requested_body ::
  "(rat \<Rightarrow> string) \<Rightarrow> (pyval list \<Rightarrow> pyval list) \<Rightarrow> pydict \<Rightarrow> string \<Rightarrow> pyval option" where
  "requested_body fl order operation f =
     (let t = operation_type fl operation;
          fields = (if t = ''create_property_key'' then requested_property_key fl operation
            else if t = ''create_vertex_label'' then requested_vertex_label fl operation
            else requested_edge_label fl order operation)
      in (case map_of fields f of Some v \<Rightarrow> v | None \<Rightarrow> None))"

section \<open>What the calls leave in the holder\<close>

definition params :: "schema_builder \<Rightarrow> string \<Rightarrow> pyval option" where
  "params b = (case sb_parameters b of Some d \<Rightarrow> map_of d | None \<Rightarrow> (\<lambda>_. None))"

text \<open>The builder is of the same class and its holder is there; \<open>upd\<close> is what happened to it.\<close>

definition goes_to :: "schema_builder \<Rightarrow> schema_builder \<Rightarrow> (string \<Rightarrow> pyval option) \<Rightarrow> bool" where
  "goes_to b b' upd \<longleftrightarrow> sb_class b' = sb_class b \<and> params b' = upd"

lemma add_parameter_goes: "add_parameter k v b = Inr b' \<Longrightarrow> goes_to b b' ((params b)(k \<mapsto> v))"
  by (auto simp: add_parameter_def goes_to_def params_def update_conv' split: option.splits)

lemma set_option_goes: "set_option k v b = Inr b' \<Longrightarrow> goes_to b b' ((params b)(k \<mapsto> v))"
  by (auto simp: set_option_def and_then_eq_Inr dest: add_parameter_goes)

lemma call_method_goes:
  "call_method m b = Inr b' \<Longrightarrow>
     \<exists>k v. map_of (methods_of (sb_class b)) m = Some (k, v) \<and> goes_to b b' ((params b)(k \<mapsto> PyStr v))"
  by (auto simp: call_method_def dest: set_option_goes split: option.splits prod.splits)

lemma call_by_table_goes:
  assumes "call_by_table table s complaint shown b = Inr b'"
  shows "\<exists>m k v. map_of table s = Some m \<and> map_of (methods_of (sb_class b)) m = Some (k, v) \<and>
    goes_to b b' ((params b)(k \<mapsto> PyStr v))"
  using assms by (auto simp: call_by_table_def dest: call_method_goes split: option.splits)

text \<open>A table in front of the methods of a class: one key, and for every entry the value set.\<close>

definition table_sets :: "builder_class \<Rightarrow> (string \<times> string) list \<Rightarrow> string \<Rightarrow> (string \<Rightarrow> string) \<Rightarrow> bool" where
  "table_sets c table key val \<longleftrightarrow>
     list_all (\<lambda>(s, m). map_of (methods_of c) m = Some (key, val s)) table"

lemma table_sets_goes:
  assumes "call_by_table table s complaint shown b = Inr b'" "table_sets (sb_class b) table key val"
  shows "goes_to b b' ((params b)(key \<mapsto> PyStr (val s)))"
proof -
  obtain m k v where m: "map_of table s = Some m" "map_of (methods_of (sb_class b)) m = Some (k, v)"
      "goes_to b b' ((params b)(k \<mapsto> PyStr v))"
    using call_by_table_goes [OF assms(1)] by blast
  with assms(2) show ?thesis
    using map_of_SomeD [OF m(1)] by (auto simp: table_sets_def list_all_iff)
qed

lemma data_type_table:
  "table_sets PropertyKeyBuilder PROPERTY_KEY_DATA_TYPE_METHODS ''data_type'' (canonical_enum_value ''data_type'')"
  by code_simp

lemma plain_tables:
  "table_sets PropertyKeyBuilder PROPERTY_KEY_CARDINALITY_METHODS ''cardinality'' id"
  "table_sets PropertyKeyBuilder PROPERTY_KEY_AGGREGATE_METHODS ''aggregate_type'' id"
  "table_sets VertexLabelBuilder VERTEX_LABEL_ID_STRATEGY_METHODS ''id_strategy'' id"
  "table_sets EdgeLabelBuilder EDGE_LABEL_FREQUENCY_METHODS ''frequency'' id"
  by code_simp+

text \<open>An update that happens only when there is a value.\<close>

definition upd_if :: "string \<Rightarrow> pyval option \<Rightarrow> (string \<Rightarrow> pyval option) \<Rightarrow> string \<Rightarrow> pyval option" where
  "upd_if k v m = (case v of None \<Rightarrow> m | Some x \<Rightarrow> m(k \<mapsto> x))"

lemma upd_if_other [simp]: "j \<noteq> k \<Longrightarrow> upd_if k v m j = m j"
  by (cases v) (simp_all add: upd_if_def)

lemma upd_if_new [simp]: "m k = None \<Longrightarrow> upd_if k v m k = v"
  by (cases v) (simp_all add: upd_if_def)

lemma apply_names_goes:
  assumes "apply_names order operation f b = Inr b'"
  shows "goes_to b b' (upd_if f (map_option
    (\<lambda>vs. PyList (if sb_class b = EdgeLabelBuilder \<and> f = ''nullable_keys'' then order (distinct_values vs) else vs))
    (listed_field operation f)) (params b))"
  using assms
  by (auto simp: apply_names_def listed_field_def loop_over_def set_names_def upd_if_def and_then_eq_Inr goes_to_def
      dest: set_option_goes add_parameter_goes split: option.splits if_splits)

lemma apply_label_index_goes:
  "apply_label_index operation b = Inr b' \<Longrightarrow>
     goes_to b b' (upd_if ''enable_label_index'' (map_of operation ''enable_label_index'') (params b))"
  by (auto simp: apply_label_index_def upd_if_def goes_to_def dest: set_option_goes split: option.splits)

lemma set_builder_parameter_goes: "set_builder_parameter t k v b = Inr b' \<Longrightarrow> goes_to b b' ((params b)(k \<mapsto> v))"
  by (auto simp: set_builder_parameter_def dest: add_parameter_goes split: if_splits)

text \<open>The parameter fields forwarded from a table.\<close>

fun forwarded :: "pydict \<Rightarrow> string list \<Rightarrow> field_specs \<Rightarrow> (string \<Rightarrow> pyval option) \<Rightarrow> string \<Rightarrow> pyval option" where
  "forwarded operation exclude [] m = m"
| "forwarded operation exclude ((f, spec) # specs) m =
     forwarded operation exclude specs
       (if f \<notin> set exclude \<and> sf_apply_mode spec = ApplyParameter then upd_if f (map_of operation f) m else m)"

lemma forward_fields_goes:
  "forward_fields t operation exclude specs b = Inr b' \<Longrightarrow> goes_to b b' (forwarded operation exclude specs (params b))"
proof (induction specs arbitrary: b)
  case (Cons spec specs)
  then show ?case
    by (cases spec)
      (auto simp: upd_if_def and_then_eq_Inr goes_to_def dest!: set_builder_parameter_goes Cons.IH split: option.splits if_splits)
qed (simp add: goes_to_def)

lemma forwarded_tables:
  "forwarded operation [''aggregate_type''] (field_specs_for_operation ''create_property_key'') m =
     upd_if ''user_data'' (map_of operation ''user_data'') m"
  "forwarded operation [] (field_specs_for_operation ''create_vertex_label'') m =
     upd_if ''user_data'' (map_of operation ''user_data'') (upd_if ''index_labels'' (map_of operation ''index_labels'') m)"
  "forwarded operation [] (field_specs_for_operation ''create_edge_label'') m =
     upd_if ''user_data'' (map_of operation ''user_data'') m"
  by (simp_all add: field_specs_for_operation_def SUPPORTED_FIELD_SPECS_def field_def)

lemma apply_aggregate_goes:
  assumes "apply_aggregate_type fl operation b = Inr b'" "sb_class b = PropertyKeyBuilder"
  shows "goes_to b b' (upd_if ''aggregate_type'' (upper_if_given fl operation ''aggregate_type'') (params b))"
  using assms table_sets_goes [OF _ plain_tables(2) [folded assms(2)]]
  by (auto simp: apply_aggregate_type_def upper_if_given_def upd_if_def Let_def goes_to_def
      dest: set_builder_parameter_goes split: if_splits)

lemma apply_frequency_goes:
  assumes "apply_frequency fl operation b = Inr b'" "sb_class b = EdgeLabelBuilder"
  shows "goes_to b b' (upd_if ''frequency'' (upper_if_given fl operation ''frequency'') (params b))"
  using assms table_sets_goes [OF _ plain_tables(4) [folded assms(2)]]
  by (auto simp: apply_frequency_def upper_if_given_def upd_if_def Let_def goes_to_def split: if_splits)

section \<open>The builders of the three operations\<close>

lemma property_key_params:
  assumes "apply_property_key_options fl operation b = Inr b'" "sb_class b = PropertyKeyBuilder"
  shows "goes_to b b' (upd_if ''user_data'' (map_of operation ''user_data'')
    (upd_if ''aggregate_type'' (upper_if_given fl operation ''aggregate_type'')
      ((params b)(''data_type'' \<mapsto> PyStr (canonical_enum_value ''data_type'' (enum_text fl operation ''data_type'' ''TEXT'')),
        ''cardinality'' \<mapsto> PyStr (enum_text fl operation ''cardinality'' ''SINGLE'')))))"
proof -
  obtain b1 b2 b3 where
    1: "call_by_table PROPERTY_KEY_DATA_TYPE_METHODS (enum_text fl operation ''data_type'' ''TEXT'')
         ''Unsupported property key data_type: '' (enum_text fl operation ''data_type'' ''TEXT'') b = Inr b1"
    and 2: "call_by_table PROPERTY_KEY_CARDINALITY_METHODS (enum_text fl operation ''cardinality'' ''SINGLE'')
         ''Unsupported property key cardinality: '' (enum_text fl operation ''cardinality'' ''SINGLE'') b1 = Inr b2"
    and 3: "apply_aggregate_type fl operation b2 = Inr b3"
    and 4: "forward_fields ''create_property_key'' operation [''aggregate_type'']
         (field_specs_for_operation ''create_property_key'') b3 = Inr b'"
    using assms(1) by (auto simp: apply_property_key_options_def Let_def and_then_eq_Inr forward_parameter_fields_def)
  have c1: "sb_class b1 = PropertyKeyBuilder" and p1: "params b1 = (params b)(''data_type'' \<mapsto>
      PyStr (canonical_enum_value ''data_type'' (enum_text fl operation ''data_type'' ''TEXT'')))"
    using table_sets_goes [OF 1 data_type_table [folded assms(2)]] assms(2) by (simp_all add: goes_to_def)
  have c2: "sb_class b2 = PropertyKeyBuilder" and p2: "params b2 = (params b1)(''cardinality'' \<mapsto>
      PyStr (enum_text fl operation ''cardinality'' ''SINGLE''))"
    using table_sets_goes [OF 2 plain_tables(1) [folded c1]] c1 by (simp_all add: goes_to_def)
  show ?thesis
    using apply_aggregate_goes [OF 3 c2] forward_fields_goes [OF 4] p1 p2 c2 assms(2)
    by (simp add: goes_to_def forwarded_tables)
qed

lemma vertex_label_params:
  assumes "apply_vertex_label_options fl order operation b = Inr b'" "sb_class b = VertexLabelBuilder"
  shows "goes_to b b' (upd_if ''user_data'' (map_of operation ''user_data'')
    (upd_if ''index_labels'' (map_of operation ''index_labels'')
    (upd_if ''enable_label_index'' (map_of operation ''enable_label_index'')
    (upd_if ''nullable_keys'' (map_option PyList (listed_field operation ''nullable_keys''))
    (upd_if ''primary_keys'' (map_option PyList (listed_field operation ''primary_keys''))
    (upd_if ''properties'' (map_option PyList (listed_field operation ''properties''))
      ((params b)(''id_strategy'' \<mapsto> PyStr (enum_text fl operation ''id_strategy'' ''PRIMARY_KEY'')))))))))"
proof -
  obtain b1 b2 b3 b4 b5 where
    1: "call_by_table VERTEX_LABEL_ID_STRATEGY_METHODS (enum_text fl operation ''id_strategy'' ''PRIMARY_KEY'')
         ''Unsupported vertex label id_strategy: '' (enum_text fl operation ''id_strategy'' ''PRIMARY_KEY'') b = Inr b1"
    and 2: "apply_names order operation ''properties'' b1 = Inr b2"
    and 3: "apply_names order operation ''primary_keys'' b2 = Inr b3"
    and 4: "apply_names order operation ''nullable_keys'' b3 = Inr b4"
    and 5: "apply_label_index operation b4 = Inr b5"
    and 6: "forward_fields ''create_vertex_label'' operation [] (field_specs_for_operation ''create_vertex_label'') b5 = Inr b'"
    using assms(1) by (auto simp: apply_vertex_label_options_def Let_def and_then_eq_Inr forward_parameter_fields_def)
  show ?thesis
    using table_sets_goes [OF 1 plain_tables(3) [folded assms(2)]] apply_names_goes [OF 2] apply_names_goes [OF 3]
      apply_names_goes [OF 4] apply_label_index_goes [OF 5] forward_fields_goes [OF 6] assms(2)
    by (simp add: goes_to_def forwarded_tables)
qed

lemma link_labels_goes:
  assumes "link_labels source target b = Inr b'"
  shows "goes_to b b' ((params b)(''source_label'' \<mapsto> source, ''target_label'' \<mapsto> target))"
  using assms by (auto simp: link_labels_def and_then_eq_Inr goes_to_def dest!: set_option_goes)

lemma edge_label_params:
  assumes "apply_edge_label_options fl order operation b = Inr b'" "sb_class b = EdgeLabelBuilder"
  shows "goes_to b b' (upd_if ''user_data'' (map_of operation ''user_data'')
    (upd_if ''enable_label_index'' (map_of operation ''enable_label_index'')
    (upd_if ''frequency'' (upper_if_given fl operation ''frequency'')
    (upd_if ''sort_keys'' (map_option PyList (listed_field operation ''sort_keys''))
    (upd_if ''nullable_keys''
      (map_option (\<lambda>vs. PyList (order (distinct_values vs))) (listed_field operation ''nullable_keys''))
    (upd_if ''properties'' (map_option PyList (listed_field operation ''properties''))
    (upd_if ''target_label'' (map_of operation ''target_label'')
    (upd_if ''source_label'' (map_of operation ''source_label'') (params b)))))))))"
proof -
  obtain source target b1 b2 b3 b4 b5 b6 where
    0: "map_of operation ''source_label'' = Some source" "map_of operation ''target_label'' = Some target"
    and 1: "link_labels source target b = Inr b1"
    and 2: "apply_names order operation ''properties'' b1 = Inr b2"
    and 3: "apply_names order operation ''nullable_keys'' b2 = Inr b3"
    and 4: "apply_names order operation ''sort_keys'' b3 = Inr b4"
    and 5: "apply_frequency fl operation b4 = Inr b5"
    and 6: "apply_label_index operation b5 = Inr b6"
    and 7: "forward_fields ''create_edge_label'' operation [] (field_specs_for_operation ''create_edge_label'') b6 = Inr b'"
    using assms(1)
    by (auto simp: apply_edge_label_options_def Let_def and_then_eq_Inr forward_parameter_fields_def item_of_def
        split: option.splits)
  have c4: "sb_class b4 = EdgeLabelBuilder"
    using link_labels_goes [OF 1] apply_names_goes [OF 2] apply_names_goes [OF 3] apply_names_goes [OF 4] assms(2)
    by (simp add: goes_to_def)
  show ?thesis
    using link_labels_goes [OF 1] apply_names_goes [OF 2] apply_names_goes [OF 3] apply_names_goes [OF 4]
      apply_frequency_goes [OF 5 c4] apply_label_index_goes [OF 6] forward_fields_goes [OF 7] assms(2) 0
    by (simp add: goes_to_def forwarded_tables upd_if_def)
qed

section \<open>The body\<close>

lemma map_of_pick_keys: "map_of (pick_keys keys d) k = (if k \<in> set keys then map_of d k else None)"
  by (induction keys) (auto simp: pick_keys_def List.map_filter_simps split: option.split)

definition vertex_label_keys :: "string list" where
  "vertex_label_keys =
     [''name'', ''id_strategy'', ''primary_keys'', ''nullable_keys'', ''index_labels'', ''properties'',
       ''enable_label_index'', ''user_data'']"

definition edge_label_keys :: "string list" where
  "edge_label_keys =
     [''name'', ''source_label'', ''target_label'', ''nullable_keys'', ''properties'', ''enable_label_index'',
       ''sort_keys'', ''user_data'', ''frequency'', ''parent_label'', ''edgelabel_type'']"

lemma vertex_label_body_keys: "vertex_label_body = pick_keys vertex_label_keys"
  by (simp add: fun_eq_iff vertex_label_body_def vertex_label_keys_def)

lemma edge_label_body_keys: "edge_label_body = pick_keys edge_label_keys"
  by (simp add: fun_eq_iff edge_label_body_def edge_label_keys_def)

lemma property_key_body_map:
  assumes "property_key_body d = Inr body"
  shows "map_of body k = (if k \<in> {''name'', ''data_type'', ''cardinality'', ''aggregate_type''} then map_of d k
    else if k = ''user_data'' \<and> py_truthy (dict_get d ''user_data'') then map_of d k else None)"
  using assms
  by (auto simp: property_key_body_def and_then_eq_Inr item_of_def map_of_pick_keys map_add_def dict_get_def
      split: option.splits)

text \<open>The holder a configured builder ends with; the first two keys are there from the start.\<close>

definition fresh_params :: "pyval \<Rightarrow> string \<Rightarrow> pyval option" where
  "fresh_params name = [''name'' \<mapsto> name, ''not_exist'' \<mapsto> PyBool True]"

lemma params_new_builder:
  "params (new_builder PropertyKeyBuilder name) = fresh_params name"
  "params (new_builder VertexLabelBuilder name) = fresh_params name"
  "params (new_builder EdgeLabelBuilder name) = fresh_params name"
  by (auto simp: params_def new_builder_def fresh_params_def)

lemma fresh_params_name: "fresh_params name ''name'' = Some name"
  by (simp add: fresh_params_def)

lemma class_new_builder:
  "sb_class (new_builder PropertyKeyBuilder name) = PropertyKeyBuilder"
  "sb_class (new_builder VertexLabelBuilder name) = VertexLabelBuilder"
  "sb_class (new_builder EdgeLabelBuilder name) = EdgeLabelBuilder"
  by (simp_all add: new_builder_def)

lemma goes_to_params: "goes_to b b' upd \<Longrightarrow> params b' = upd"
  by (simp add: goes_to_def)

lemma goes_to_holder:
  assumes "goes_to b b' upd" "upd ''name'' \<noteq> None"
  shows "\<exists>d. sb_parameters b' = Some d \<and> map_of d = upd \<and> sb_class b' = sb_class b"
  using assms by (auto simp: goes_to_def params_def split: option.splits)

definition create_class :: "string \<Rightarrow> builder_class" where
  "create_class t =
     (if t = ''create_property_key'' then PropertyKeyBuilder
      else if t = ''create_vertex_label'' then VertexLabelBuilder else EdgeLabelBuilder)"

lemma configured_body:
  assumes "configured_builder fl order operation = Inr b"
  shows "\<exists>d body. sb_parameters b = Some d \<and> map_of d ''not_exist'' = Some (PyBool True) \<and>
    sb_class b = create_class (operation_type fl operation) \<and>
    create_body (sb_class b) d = Inr body \<and> map_of body = requested_body fl order operation"
proof -
  let ?t = "operation_type fl operation"
  note unfolds = configured_builder_def Let_def and_then_eq_Inr item_of_def
  consider (pk) name where "?t = ''create_property_key''" "map_of operation ''name'' = Some name"
      "apply_property_key_options fl operation (new_builder PropertyKeyBuilder name) = Inr b"
    | (vl) name where "?t = ''create_vertex_label''" "map_of operation ''name'' = Some name"
      "apply_vertex_label_options fl order operation (new_builder VertexLabelBuilder name) = Inr b"
    | (el) name where "?t = ''create_edge_label''" "map_of operation ''name'' = Some name"
      "apply_edge_label_options fl order operation (new_builder EdgeLabelBuilder name) = Inr b"
    using assms by (auto simp: unfolds split: if_splits option.splits)
  then show ?thesis
  proof cases
    case pk
    obtain d where d: "sb_parameters b = Some d" and c: "sb_class b = PropertyKeyBuilder" and m: "map_of d =
      upd_if ''user_data'' (map_of operation ''user_data'')
      (upd_if ''aggregate_type'' (upper_if_given fl operation ''aggregate_type'')
        ((fresh_params name)(''data_type'' \<mapsto> PyStr (canonical_enum_value ''data_type'' (enum_text fl operation ''data_type'' ''TEXT'')),
          ''cardinality'' \<mapsto> PyStr (enum_text fl operation ''cardinality'' ''SINGLE''))))"
      using goes_to_holder [OF property_key_params [OF pk(3)]]
      by (auto simp: fresh_params_name params_new_builder class_new_builder)
    obtain body where body: "property_key_body d = Inr body"
      using m by (auto simp: property_key_body_def item_of_def fresh_params_name)
    have "dict_get d ''user_data'' = dict_get operation ''user_data''"
      by (simp add: dict_get_def m fresh_params_def)
    then have "map_of body k = requested_body fl order operation k" for k
      using pk m by (auto simp: property_key_body_map [OF body] requested_body_def requested_property_key_def fresh_params_def)
    then show ?thesis using d c m body pk(1) by (auto simp: create_body_def create_class_def fresh_params_def)
  next
    case vl
    note goes = vertex_label_params [OF vl(3)]
    obtain d where d: "sb_parameters b = Some d" and c: "sb_class b = VertexLabelBuilder" and m: "map_of d = params b"
      using goes goes_to_holder [OF goes]
      by (auto simp: fresh_params_name params_new_builder class_new_builder goes_to_def)
    note m' = m [unfolded goes_to_params [OF goes [OF class_new_builder(2)]] params_new_builder]
    have "list_all (\<lambda>k. map_of d k = requested_body fl order operation k) vertex_label_keys"
      by (simp add: vertex_label_keys_def m' requested_body_def requested_vertex_label_def vl(1,2) fresh_params_def)
    moreover have "requested_body fl order operation k = None" if "k \<notin> set vertex_label_keys" for k
      using that by (simp add: requested_body_def requested_vertex_label_def vertex_label_keys_def vl(1))
    ultimately have "map_of (vertex_label_body d) k = requested_body fl order operation k" for k
      by (simp add: vertex_label_body_keys map_of_pick_keys list_all_iff)
    then show ?thesis using d c vl(1) by (auto simp: create_body_def create_class_def m' fresh_params_def)
  next
    case el
    note goes = edge_label_params [OF el(3)]
    obtain d where d: "sb_parameters b = Some d" and c: "sb_class b = EdgeLabelBuilder" and m: "map_of d = params b"
      using goes goes_to_holder [OF goes]
      by (auto simp: fresh_params_name params_new_builder class_new_builder goes_to_def)
    note m' = m [unfolded goes_to_params [OF goes [OF class_new_builder(3)]] params_new_builder]
    have "list_all (\<lambda>k. map_of d k = requested_body fl order operation k) edge_label_keys"
      by (simp add: edge_label_keys_def m' requested_body_def requested_edge_label_def el(1,2) fresh_params_def)
    moreover have "requested_body fl order operation k = None" if "k \<notin> set edge_label_keys" for k
      using that by (simp add: requested_body_def requested_edge_label_def edge_label_keys_def el(1))
    ultimately have "map_of (edge_label_body d) k = requested_body fl order operation k" for k
      by (simp add: edge_label_body_keys map_of_pick_keys list_all_iff)
    then show ?thesis using d c el(1) by (auto simp: create_body_def create_class_def m' fresh_params_def)
  qed
qed

section \<open>What reaches the server\<close>

text \<open>
  C39: what is sent is what was asked for. Applying an operation either raises before anything is sent, or posts
  exactly one body to the collection of its kind, and that body, field by field, is the object the
  operation describes: each given field under its own name, enumerations in upper case and with the
  client's spelling of a data type, defaults filled in, empty user data of a property key left out,
  nullable keys of an edge label without duplicates, and nothing else.
\<close>

theorem posted_body_is_requested:
  "case configured_builder (sk_float_text be) (sk_set_order be) operation of
     Inl e \<Rightarrow> apply_one_operation be transport operation = effect_of (Inl e)
   | Inr b \<Rightarrow>
       \<exists>body. map_of body = requested_body (sk_float_text be) (sk_set_order be) operation \<and>
         apply_one_operation be transport operation =
           effect_bind (session_request (sk_float_text be) transport True ''POST''
               (collection_path (create_class (operation_type (sk_float_text be) operation))) (Some (PyDict body)))
             (\<lambda>_. effect_return ())"
proof (cases "configured_builder (sk_float_text be) (sk_set_order be) operation")
  case (Inl e)
  then show ?thesis by (auto simp: apply_one_operation_def effect_bind_def effect_of_def)
next
  case (Inr b)
  from configured_body [OF this] obtain d body where
    "sb_parameters b = Some d" "map_of d ''not_exist'' = Some (PyBool True)"
    "sb_class b = create_class (operation_type (sk_float_text be) operation)"
    "create_body (sb_class b) d = Inr body"
    "map_of body = requested_body (sk_float_text be) (sk_set_order be) operation"
    by blast
  then have "apply_one_operation be transport operation w =
      effect_bind (session_request (sk_float_text be) transport True ''POST''
         (collection_path (create_class (operation_type (sk_float_text be) operation))) (Some (PyDict body)))
       (\<lambda>_. effect_return ()) w" for w
    using Inr
    by (auto simp: apply_one_operation_def create_object_def effect_bind_def effect_of_def effect_return_def
        split: prod.split sum.split)
  with \<open>map_of body = _\<close> Inr show ?thesis by (auto simp: fun_eq_iff)
qed

end
