(* ===== verification/Graph_Payload.thy ===== *)
theory Graph_Payload
  imports Property_Validation
begin

text \<open>
  \<open>hugegraph_mcp/tools/ingest_graph_data.py\<close>: \<open>validate_graph_payload\<close>, the check of an import
  payload (vertices and edges) against the live schema. Dictionaries and sets whose keys come from the
  payload are association lists and lists of values compared with \<open>==\<close>; a key that cannot be hashed
  raises \<open>TypeError\<close> where the code looks it up. A message is a text, as in the code.
\<close>

section \<open>Tables keyed by values\<close>

definition table_get :: "(pyval \<times> 'a) list \<Rightarrow> pyval \<Rightarrow> 'a option" where
  "table_get t k = map_option snd (List.find (\<lambda>(j, _). py_eq j k) t)"

definition table_set :: "pyval \<Rightarrow> 'a \<Rightarrow> (pyval \<times> 'a) list \<Rightarrow> (pyval \<times> 'a) list" where
  "table_set k v t =
     (if list_ex (\<lambda>(j, _). py_eq j k) t then map (\<lambda>(j, x). (j, if py_eq j k then v else x)) t else t @ [(k, v)])"

definition set_add :: "pyval \<Rightarrow> pyval list \<Rightarrow> pyval list" where
  "set_add v vs = (if list_ex (py_eq v) vs then vs else vs @ [v])"

definition need_hash :: "pyval \<Rightarrow> py_exception + unit" where
  "need_hash v = (if hashable v then Inr () else Inl RaisesType)"

text \<open>A loop whose body may raise.\<close>

fun fold_raising :: "('s \<Rightarrow> 'a \<Rightarrow> py_exception + 's) \<Rightarrow> 's \<Rightarrow> 'a list \<Rightarrow> py_exception + 's" where
  "fold_raising f s [] = Inr s"
| "fold_raising f s (x # xs) = and_then (f s x) (\<lambda>s'. fold_raising f s' xs)"

section \<open>The schema as the check sees it\<close>

record vertex_schema =
  vs_properties :: "string set"
  vs_primary_keys :: "string list"
  vs_id_strategy :: string

record schema_view =
  sv_available :: bool
  sv_specs :: "(string \<times> property_spec) list"
  sv_vertices :: "(pyval \<times> vertex_schema) list"
  sv_edges :: "(string \<times> pydict) list"
  sv_indexed_vertices :: "string list"
  sv_indexed_edges :: "string list"

definition add_vertex_schema ::
  "(rat \<Rightarrow> string) \<Rightarrow> (pyval \<times> vertex_schema) list \<Rightarrow> pyval \<Rightarrow> py_exception + (pyval \<times> vertex_schema) list" where
  "add_vertex_schema fl t v =
     (case v of
        PyDict d \<Rightarrow>
          let name = dict_get d ''name'' in
          if \<not> py_truthy name then Inr t
          else and_then (need_hash name) (\<lambda>_.
            Inr (table_set name
              \<lparr>vs_properties = property_names (get_default d ''properties'' (PyList [])),
               vs_primary_keys = primary_key_names d,
               vs_id_strategy = py_upper (py_str fl (py_or (dict_get d ''id_strategy'')
                 (py_or (dict_get d ''idStrategy'') (PyStr ''PRIMARY_KEY''))))\<rparr> t))
      | _ \<Rightarrow> Inr t)"

definition add_edge_schema :: "(string \<times> pydict) list \<Rightarrow> pyval \<Rightarrow> (string \<times> pydict) list" where
  "add_edge_schema t v =
     (case v of
        PyDict d \<Rightarrow> (case dict_get d ''name'' of PyStr name \<Rightarrow> AList.update name d t | _ \<Rightarrow> t)
      | _ \<Rightarrow> t)"

text \<open>\<open>_indexed_labels\<close>: the labels of vertices and of edges that have an index.\<close>

definition add_indexed :: "(rat \<Rightarrow> string) \<Rightarrow> string list \<times> string list \<Rightarrow> pyval \<Rightarrow> string list \<times> string list" where
  "add_indexed fl acc v =
     (case v of
        PyDict d \<Rightarrow>
          (case py_or (dict_get d ''base_label'') (dict_get d ''baseLabel'') of
             PyStr label \<Rightarrow>
               let base_type = py_upper (py_str fl (py_or (dict_get d ''base_type'')
                     (py_or (dict_get d ''baseType'') (PyStr []))))
               in if base_type \<in> {''VERTEX'', ''VERTEX_LABEL''} then (label # fst acc, snd acc)
                  else if base_type \<in> {''EDGE'', ''EDGE_LABEL''} then (fst acc, label # snd acc)
                  else acc
           | _ \<Rightarrow> acc)
      | _ \<Rightarrow> acc)"

definition no_schema :: schema_view where
  "no_schema =
     \<lparr>sv_available = False, sv_specs = [], sv_vertices = [], sv_edges = [], sv_indexed_vertices = [],
      sv_indexed_edges = []\<rparr>"

definition view_schema :: "(rat \<Rightarrow> string) \<Rightarrow> pyval \<Rightarrow> py_exception + schema_view" where
  "view_schema fl live_schema =
     (case schema_payload live_schema of
        None \<Rightarrow> Inr no_schema
      | Some raw \<Rightarrow>
          and_then (loop_over (get_default raw ''vertexlabels'' (PyList []))) (\<lambda>vls.
          and_then (fold_raising (add_vertex_schema fl) [] vls) (\<lambda>vertices.
          and_then (loop_over (get_default raw ''edgelabels'' (PyList []))) (\<lambda>els.
          and_then (loop_over (get_default raw ''indexlabels'' (PyList []))) (\<lambda>ixs.
            let indexed = foldl (add_indexed fl) ([], []) ixs in
            Inr \<lparr>sv_available = True, sv_specs = property_specs fl (PyDict raw), sv_vertices = vertices,
                 sv_edges = foldl add_edge_schema [] els, sv_indexed_vertices = fst indexed,
                 sv_indexed_edges = snd indexed\<rparr>)))))"

section \<open>Identities\<close>

text \<open>\<open>_identity_value_present\<close> is the negation of \<open>blank_id\<close>. An identity is a tuple.\<close>

definition identity :: "pyval \<Rightarrow> string \<Rightarrow> pyval \<Rightarrow> pyval" where
  "identity label kind v = PyTuple [label, PyStr kind, v]"

definition key_values :: "pydict \<Rightarrow> string list \<Rightarrow> pyval" where
  "key_values d keys = PyTuple (map (dict_get d) keys)"

definition keys_present :: "pydict \<Rightarrow> string list \<Rightarrow> bool" where
  "keys_present d keys \<longleftrightarrow> list_all (\<lambda>k. \<not> blank_id (dict_get d k)) keys"

text \<open>\<open>value.split(":", 1)[1]\<close> for a text with a colon.\<close>

definition after_colon :: "string \<Rightarrow> string" where
  "after_colon s = tl (dropWhile (\<lambda>c. c \<noteq> CHR '':'') s)"

text \<open>\<open>_endpoint_identities\<close>: the identities an endpoint may name, and the primary key it lacks.\<close>

definition endpoint_identities :: "string \<Rightarrow> pyval \<Rightarrow> string list \<Rightarrow> pyval list \<times> string option" where
  "endpoint_identities label v primary_keys =
     (let l = PyStr label in
      case v of
        PyDict d \<Rightarrow>
          (let by_id = (if blank_id (dict_get d ''id'') then [] else [identity l ''id'' (dict_get d ''id'')]);
               missing = filter (\<lambda>k. blank_id (dict_get d k)) primary_keys
           in if primary_keys = [] then (by_id, None)
              else if missing \<noteq> [] then (by_id, if by_id \<noteq> [] then None else Some (hd missing))
              else (by_id @ [identity l ''pk'' (key_values d primary_keys)], None))
      | _ \<Rightarrow>
          (if blank_id v then ([], None)
           else (identity l ''id'' v #
             (if length primary_keys = 1
              then [identity l ''pk'' (PyTuple [case v of
                      PyStr s \<Rightarrow> PyStr (if CHR '':'' \<in> set s then after_colon s else s) | _ \<Rightarrow> v])]
              else []), None)))"

definition edge_endpoint :: "pydict \<Rightarrow> bool \<Rightarrow> pyval \<times> pyval" where
  "edge_endpoint edge is_source =
     (if is_source
      then (py_or (dict_get edge ''source_label'') (dict_get edge ''outVLabel''),
            (case map_of edge ''source'' of Some v \<Rightarrow> v | None \<Rightarrow> dict_get edge ''outV''))
      else (py_or (dict_get edge ''target_label'') (dict_get edge ''inVLabel''),
            (case map_of edge ''target'' of Some v \<Rightarrow> v | None \<Rightarrow> dict_get edge ''inV'')))"

definition has_mixed_endpoint_forms :: "pydict \<Rightarrow> bool \<Rightarrow> bool" where
  "has_mixed_endpoint_forms edge is_source \<longleftrightarrow>
     (if is_source then map_of edge ''source'' \<noteq> None \<and> map_of edge ''outV'' \<noteq> None
      else map_of edge ''target'' \<noteq> None \<and> map_of edge ''inV'' \<noteq> None)"

section \<open>Vertices\<close>

record payload_check =
  pc_errors :: "string list"
  pc_warnings :: "string list"
  pc_labels :: "pyval list"
  pc_index :: "(pyval \<times> nat) list"

definition report :: "string list \<Rightarrow> payload_check \<Rightarrow> payload_check" where
  "report es st = st\<lparr>pc_errors := pc_errors st @ es\<rparr>"

definition in_quotes :: "string \<Rightarrow> string" where
  "in_quotes s = [CHR 0x27] @ s @ [CHR 0x27]"

text \<open>\<open>vertex 3\<close>\<close>

definition item_text :: "string \<Rightarrow> nat \<Rightarrow> string" where
  "item_text kind idx = kind @ '' '' @ show_nat idx"

text \<open>The messages about the properties of an item; \<open>known\<close> are the names its label has, if it is known.\<close>

definition property_errors ::
  "(rat \<Rightarrow> string) \<Rightarrow> text_formats \<Rightarrow> schema_view \<Rightarrow> string \<Rightarrow> nat \<Rightarrow> pyval \<Rightarrow> string set option \<Rightarrow> pydict \<Rightarrow> string list" where
  "property_errors fl tf view kind idx label known props =
     concat (map (\<lambda>(name, v).
       (case known of
          Some names \<Rightarrow>
            if name \<in> names then []
            else [item_text kind idx @ '' property '' @ in_quotes name @ '' does not exist on label '' @
              in_quotes (py_str fl label)]
        | None \<Rightarrow> []) @
       (case property_value_error tf kind idx name v (map_of (sv_specs view) name) of
          None \<Rightarrow> [] | Some e \<Rightarrow> [e])) props)"

definition empty_value_warnings :: "string \<Rightarrow> nat \<Rightarrow> pydict \<Rightarrow> string list" where
  "empty_value_warnings kind idx props =
     map (\<lambda>(name, v). item_text kind idx @ '' property '' @ in_quotes name @ '' has empty value'')
       (filter (\<lambda>(name, v). blank_id v) props)"

definition id_strategy_errors ::
  "(rat \<Rightarrow> string) \<Rightarrow> nat \<Rightarrow> pyval \<Rightarrow> string \<Rightarrow> pyval \<Rightarrow> string list" where
  "id_strategy_errors fl idx label strategy explicit_id =
     (let missing = [item_text ''vertex'' idx @ '' missing required id for '' @ strategy @ '' label '' @
            in_quotes (py_str fl label)];
          wrong = (\<lambda>expected. [item_text ''vertex'' idx @ '' id for '' @ strategy @ '' label '' @
            in_quotes (py_str fl label) @ '' must be '' @ expected @ '', got '' @ py_type_name explicit_id])
      in if strategy = ''CUSTOMIZE_STRING'' then
           (if blank_id explicit_id then missing
            else case explicit_id of PyStr _ \<Rightarrow> [] | _ \<Rightarrow> wrong ''a string'')
         else if strategy = ''CUSTOMIZE_NUMBER'' then
           (if blank_id explicit_id then missing
            else case explicit_id of PyInt _ \<Rightarrow> [] | _ \<Rightarrow> wrong ''an integer'')
         else [])"

text \<open>Entering an identity; \<open>complaint\<close> is the message about an earlier vertex with the same one.\<close>

definition claim_identity ::
  "pyval \<Rightarrow> nat \<Rightarrow> (nat \<Rightarrow> string) \<Rightarrow> payload_check \<Rightarrow> py_exception + payload_check" where
  "claim_identity key idx complaint st =
     and_then (need_hash key) (\<lambda>_.
       Inr (case table_get (pc_index st) key of
         Some other \<Rightarrow> report [complaint other] st
       | None \<Rightarrow> st\<lparr>pc_index := pc_index st @ [(key, idx)]\<rparr>))"

definition claim_primary_key ::
  "(rat \<Rightarrow> string) \<Rightarrow> nat \<Rightarrow> pyval \<Rightarrow> pydict \<Rightarrow> string list \<Rightarrow> payload_check \<Rightarrow> py_exception + payload_check" where
  "claim_primary_key fl idx label props primary_keys st =
     (let missing = filter (\<lambda>k. blank_id (dict_get props k)) primary_keys;
          st' = report (map (\<lambda>k. item_text ''vertex'' idx @ '' missing primary key value for label '' @
            in_quotes (py_str fl label) @ '': '' @ k) missing) st
      in if primary_keys = [] \<or> missing \<noteq> [] then Inr st'
         else claim_identity (identity label ''pk'' (key_values props primary_keys)) idx
           (\<lambda>other. item_text ''vertex'' idx @ '' duplicate primary key identity for label '' @
             in_quotes (py_str fl label) @ '': values='' @ py_str fl (key_values props primary_keys) @
             '' already used by vertex '' @ show_nat other) st')"

definition claim_id ::
  "(rat \<Rightarrow> string) \<Rightarrow> nat \<Rightarrow> pyval \<Rightarrow> pyval \<Rightarrow> payload_check \<Rightarrow> py_exception + payload_check" where
  "claim_id fl idx label explicit_id st =
     (if blank_id explicit_id then Inr st
      else claim_identity (identity label ''id'' explicit_id) idx
        (\<lambda>other. item_text ''vertex'' idx @ '' duplicate id '' @ in_quotes (py_str fl explicit_id) @ '' for label '' @
          in_quotes (py_str fl label) @ '' already used by vertex '' @ show_nat other) st)"

text \<open>A value that is no dictionary has no properties.\<close>

definition as_dict :: "pyval \<Rightarrow> pydict" where
  "as_dict v = (case v of PyDict d \<Rightarrow> d | _ \<Rightarrow> [])"

text \<open>The messages about a vertex that do not depend on the other vertices, and not on its primary key.\<close>

definition vertex_shape_errors ::
  "(rat \<Rightarrow> string) \<Rightarrow> text_formats \<Rightarrow> schema_view \<Rightarrow> nat \<Rightarrow> pydict \<Rightarrow> string list" where
  "vertex_shape_errors fl tf view idx vertex =
     (let label = dict_get vertex ''label''; known = table_get (sv_vertices view) label
      in (if sv_available view \<and> known = None
          then [item_text ''vertex'' idx @ '' label '' @ in_quotes (py_str fl label) @ '' does not exist in schema'']
          else []) @
         property_errors fl tf view ''vertex'' idx label (map_option vs_properties known)
           (as_dict (dict_get vertex ''properties'')) @
         (case known of
            Some vs \<Rightarrow> id_strategy_errors fl idx label (vs_id_strategy vs) (dict_get vertex ''id'') | None \<Rightarrow> []))"

definition primary_keys_of :: "schema_view \<Rightarrow> pyval \<Rightarrow> string list" where
  "primary_keys_of view label = (case table_get (sv_vertices view) label of Some vs \<Rightarrow> vs_primary_keys vs | None \<Rightarrow> [])"

definition check_payload_vertex ::
  "(rat \<Rightarrow> string) \<Rightarrow> text_formats \<Rightarrow> schema_view \<Rightarrow> payload_check \<Rightarrow> nat \<times> pyval \<Rightarrow> py_exception + payload_check" where
  "check_payload_vertex fl tf view st item =
     (case item of (idx, v) \<Rightarrow>
       case v of
         PyDict vertex \<Rightarrow>
           let label = dict_get vertex ''label''; props = as_dict (dict_get vertex ''properties'') in
           if blank_id label then Inr (report [item_text ''vertex'' idx @ '' missing required field: label''] st)
           else and_then (need_hash label) (\<lambda>_.
             and_then (claim_primary_key fl idx label props (primary_keys_of view label)
                 (report (vertex_shape_errors fl tf view idx vertex)
                   (st\<lparr>pc_labels := set_add label (pc_labels st),
                      pc_warnings := pc_warnings st @ empty_value_warnings ''vertex'' idx props\<rparr>)))
               (claim_id fl idx label (dict_get vertex ''id'')))
       | _ \<Rightarrow> Inr (report [item_text ''vertex'' idx @ '' must be an object''] st))"

section \<open>Edges\<close>

definition endpoint_text :: "bool \<Rightarrow> string" where
  "endpoint_text is_source = (if is_source then ''source'' else ''target'')"

definition mixed_forms_error :: "nat \<Rightarrow> pydict \<Rightarrow> bool \<Rightarrow> string list" where
  "mixed_forms_error idx edge is_source =
     (if \<not> has_mixed_endpoint_forms edge is_source then []
      else if is_source then [item_text ''edge'' idx @ '' mixes source and outV endpoint forms; use either '' @
        ''source/source_label or outV/outVLabel, not both'']
      else [item_text ''edge'' idx @ '' mixes target and inV endpoint forms; use either '' @
        ''target/target_label or inV/inVLabel, not both''])"

definition missing_fields_errors :: "nat \<Rightarrow> (string \<times> pyval) list \<Rightarrow> string list" where
  "missing_fields_errors idx given =
     map (\<lambda>(f, v). item_text ''edge'' idx @ '' missing required field: '' @ f) (filter (\<lambda>(f, v). blank_id v) given)"

definition unknown_label_error ::
  "(rat \<Rightarrow> string) \<Rightarrow> nat \<Rightarrow> string \<Rightarrow> pyval \<Rightarrow> bool \<Rightarrow> string list" where
  "unknown_label_error fl idx what label known =
     (if py_truthy label \<and> \<not> known
      then [item_text ''edge'' idx @ '' '' @ what @ '' '' @ in_quotes (py_str fl label) @ '' does not exist in schema'']
      else [])"

definition endpoint_label_mismatch ::
  "(rat \<Rightarrow> string) \<Rightarrow> nat \<Rightarrow> pydict \<Rightarrow> pyval \<Rightarrow> bool \<Rightarrow> pyval \<Rightarrow> string list" where
  "endpoint_label_mismatch fl idx schema_edge label is_source given =
     (let expected = edge_schema_endpoint_label schema_edge (endpoint_text is_source)
      in if py_truthy given \<and> py_truthy expected \<and> \<not> py_eq given expected
         then [item_text ''edge'' idx @ '' '' @ endpoint_text is_source @ ''_label '' @ in_quotes (py_str fl given) @
           '' does not match edge label '' @ in_quotes (py_str fl label) @ '' '' @ endpoint_text is_source @ ''_label '' @
           in_quotes (py_str fl expected)]
         else [])"

definition absent_endpoint_errors :: "nat \<Rightarrow> pyval \<Rightarrow> pyval \<Rightarrow> string list" where
  "absent_endpoint_errors idx source target =
     (if source = PyNone \<and> target = PyNone
      then [item_text ''edge'' idx @ '' missing source endpoint'', item_text ''edge'' idx @ '' missing target endpoint'']
      else if source = PyNone then [item_text ''edge'' idx @ '' has target but missing source'']
      else if target = PyNone then [item_text ''edge'' idx @ '' has source but missing target'']
      else [])"

definition endpoint_errors ::
  "(rat \<Rightarrow> string) \<Rightarrow> schema_view \<Rightarrow> (pyval \<times> nat) list \<Rightarrow> nat \<Rightarrow> bool \<Rightarrow> pyval \<Rightarrow> pyval \<Rightarrow> py_exception + string list" where
  "endpoint_errors fl view index idx is_source label v =
     (case label of
        PyStr l \<Rightarrow>
          if v = PyNone then Inr []
          else let keys = primary_keys_of view label;
                   place = item_text ''edge'' idx @ '' '' @ endpoint_text is_source;
                   (identities, missing) = endpoint_identities l v keys
               in case missing of
                 Some (c # cs) \<Rightarrow> Inr [place @ '' endpoint missing primary key for label '' @ in_quotes l @ '': '' @ c # cs]
               | _ \<Rightarrow>
                   if identities = []
                   then Inr [place @ '' endpoint has no resolvable identity for label '' @ in_quotes l @ '': '' @ py_repr fl v]
                   else if \<not> list_all hashable identities then Inl RaisesType
                   else if length (remdups (List.map_filter (table_get index) identities)) > 1
                   then Inr [place @ '' scalar endpoint is ambiguous for label '' @ in_quotes l @ '': '' @ py_repr fl v @
                     '' matches different vertices by id and primary key'']
                   else Inr []
      | _ \<Rightarrow> Inr [])"

definition edge_property_names :: "schema_view \<Rightarrow> pyval \<Rightarrow> string set option" where
  "edge_property_names view label =
     (case label of
        PyStr l \<Rightarrow> map_option (\<lambda>d. property_names (get_default d ''properties'' (PyList []))) (map_of (sv_edges view) l)
      | _ \<Rightarrow> None)"

definition edge_schema_of :: "schema_view \<Rightarrow> pyval \<Rightarrow> pydict option" where
  "edge_schema_of view label =
     (case label of PyStr l \<Rightarrow> if l = [] then None else map_of (sv_edges view) l | _ \<Rightarrow> None)"

text \<open>The messages about an edge that do not depend on the vertices of the payload.\<close>

definition edge_shape_errors ::
  "(rat \<Rightarrow> string) \<Rightarrow> text_formats \<Rightarrow> schema_view \<Rightarrow> nat \<Rightarrow> pydict \<Rightarrow> string list" where
  "edge_shape_errors fl tf view idx edge =
     (let label = dict_get edge ''label'';
          (source_label, source) = edge_endpoint edge True;
          (target_label, target) = edge_endpoint edge False;
          is_vertex = (\<lambda>l. table_get (sv_vertices view) l \<noteq> None)
      in mixed_forms_error idx edge True @ mixed_forms_error idx edge False @
         missing_fields_errors idx
           [(''label'', label), (''source_label'', source_label), (''target_label'', target_label)] @
         (if sv_available view
          then unknown_label_error fl idx ''label'' label
                 (case label of PyStr l \<Rightarrow> l \<in> set (map fst (sv_edges view)) | _ \<Rightarrow> False) @
               unknown_label_error fl idx ''source_label'' source_label (is_vertex source_label) @
               unknown_label_error fl idx ''target_label'' target_label (is_vertex target_label)
          else []) @
         (case edge_schema_of view label of
            None \<Rightarrow> []
          | Some schema_edge \<Rightarrow>
              endpoint_label_mismatch fl idx schema_edge label True source_label @
              endpoint_label_mismatch fl idx schema_edge label False target_label) @
         property_errors fl tf view ''edge'' idx label (edge_property_names view label)
           (as_dict (dict_get edge ''properties'')) @
         absent_endpoint_errors idx source target)"

text \<open>The labels an edge makes the code hash.\<close>

definition hashed_labels :: "schema_view \<Rightarrow> pydict \<Rightarrow> pyval list" where
  "hashed_labels view edge =
     (let label = dict_get edge ''label'';
          has_props = (case dict_get edge ''properties'' of PyDict _ \<Rightarrow> True | _ \<Rightarrow> False)
      in (if py_truthy label \<or> has_props then [label] else []) @
         (if sv_available view
          then filter py_truthy [fst (edge_endpoint edge True), fst (edge_endpoint edge False)] else []))"

definition check_payload_edge ::
  "(rat \<Rightarrow> string) \<Rightarrow> text_formats \<Rightarrow> schema_view \<Rightarrow> (pyval \<times> nat) list \<Rightarrow> payload_check \<Rightarrow> nat \<times> pyval
     \<Rightarrow> py_exception + payload_check" where
  "check_payload_edge fl tf view index st item =
     (case item of (idx, v) \<Rightarrow>
       case v of
         PyDict edge \<Rightarrow>
           let label = dict_get edge ''label'';
               (source_label, source) = edge_endpoint edge True;
               (target_label, target) = edge_endpoint edge False in
           if \<not> list_all hashable (hashed_labels view edge) then Inl RaisesType
           else and_then (endpoint_errors fl view index idx True source_label source) (\<lambda>source_errors.
             and_then (endpoint_errors fl view index idx False target_label target) (\<lambda>target_errors.
               Inr (report (edge_shape_errors fl tf view idx edge @ source_errors @ target_errors)
                 (st\<lparr>pc_labels := (if py_truthy label then set_add label (pc_labels st) else pc_labels st),
                    pc_warnings := pc_warnings st @
                      empty_value_warnings ''edge'' idx (as_dict (dict_get edge ''properties''))\<rparr>))))
       | _ \<Rightarrow> Inr (report [item_text ''edge'' idx @ '' must be an object''] st))"

section \<open>Warnings\<close>

text \<open>\<open>sorted\<close>: texts, or numbers by value; other mixtures of two or more values raise \<open>TypeError\<close>.\<close>

definition number_side :: "pyval \<Rightarrow> int" where
  "number_side v = (case py_number v of Some (Infinite True) \<Rightarrow> 1 | Some (Infinite False) \<Rightarrow> -1 | _ \<Rightarrow> 0)"

definition number_value :: "pyval \<Rightarrow> rat" where
  "number_value v = (case py_number v of Some (Finite x) \<Rightarrow> x | _ \<Rightarrow> 0)"

definition sort_values :: "pyval list \<Rightarrow> py_exception + pyval list" where
  "sort_values vs =
     (if length vs \<le> 1 then Inr vs
      else if list_all (\<lambda>v. case v of PyStr _ \<Rightarrow> True | _ \<Rightarrow> False) vs
      then Inr (sort_key (\<lambda>v. case v of PyStr s \<Rightarrow> s | _ \<Rightarrow> []) vs)
      else if list_all (\<lambda>v. py_number v \<noteq> None) vs then Inr (sort_key number_side (sort_key number_value vs))
      else Inl RaisesType)"

definition unindexed :: "pyval list \<Rightarrow> string list \<Rightarrow> pyval list" where
  "unindexed labels indexed = filter (\<lambda>v. v \<notin> PyStr ` set indexed) labels"

text \<open>The text of \<open>json.dumps\<close> with sorted keys, represented by the canonical value.\<close>

definition edge_pair :: "pydict \<Rightarrow> pyval" where
  "edge_pair e = canonicalize (PyTuple (map (dict_get e) [''label'', ''source_label'', ''target_label'', ''source'', ''target'']))"

definition duplicate_edge_warning :: "pyval list \<Rightarrow> string list" where
  "duplicate_edge_warning edges =
     (let pairs = List.map_filter (\<lambda>e. case e of PyDict d \<Rightarrow> Some (edge_pair d) | _ \<Rightarrow> None) edges
      in if distinct pairs then [] else [''potential duplicate edges detected''])"

definition index_warnings ::
  "(rat \<Rightarrow> string) \<Rightarrow> schema_view \<Rightarrow> pyval list \<Rightarrow> pyval list \<Rightarrow> py_exception + string list" where
  "index_warnings fl view vertex_labels edge_labels =
     (if sv_indexed_vertices view \<noteq> [] \<or> sv_indexed_edges view \<noteq> []
      then and_then (sort_values (unindexed vertex_labels (sv_indexed_vertices view))) (\<lambda>vs.
           and_then (sort_values (unindexed edge_labels (sv_indexed_edges view))) (\<lambda>es.
             Inr (map (\<lambda>l. ''no vertex index found in schema for label: '' @ py_str fl l) vs @
                  map (\<lambda>l. ''no edge index found in schema for label: '' @ py_str fl l) es)))
      else if vertex_labels \<noteq> [] \<or> edge_labels \<noteq> []
      then Inr [''verify that appropriate indexes exist for queried properties'']
      else Inr [])"

section \<open>The payload\<close>

definition listed_items :: "pyval \<Rightarrow> pyval list" where
  "listed_items v = (case v of PyList vs \<Rightarrow> vs | _ \<Rightarrow> [])"

definition not_a_list :: "string \<Rightarrow> pyval \<Rightarrow> string list" where
  "not_a_list f v = (case v of PyList _ \<Rightarrow> [] | _ \<Rightarrow> [f @ '' must be a list''])"

definition payload_report :: "string list \<Rightarrow> string list \<Rightarrow> pydict" where
  "payload_report errors warnings =
     [(''valid'', PyBool (errors = [])), (''errors'', PyList (map PyStr errors)),
      (''warnings'', PyList (map PyStr warnings))]"

definition check_payload_vertices ::
  "(rat \<Rightarrow> string) \<Rightarrow> text_formats \<Rightarrow> schema_view \<Rightarrow> pyval list \<Rightarrow> payload_check \<Rightarrow> py_exception + payload_check" where
  "check_payload_vertices fl tf view vertices st =
     fold_raising (check_payload_vertex fl tf view) st (List.enumerate 0 vertices)"

definition check_payload_edges ::
  "(rat \<Rightarrow> string) \<Rightarrow> text_formats \<Rightarrow> schema_view \<Rightarrow> pyval list \<Rightarrow> payload_check \<Rightarrow> py_exception + payload_check" where
  "check_payload_edges fl tf view edges st =
     fold_raising (check_payload_edge fl tf view (pc_index st)) (st\<lparr>pc_labels := []\<rparr>) (List.enumerate 0 edges)"

definition validate_graph_payload ::
  "(rat \<Rightarrow> string) \<Rightarrow> text_formats \<Rightarrow> pyval \<Rightarrow> pyval \<Rightarrow> py_exception + pydict" where
  "validate_graph_payload fl tf graph_data live_schema =
     (case graph_data of
        PyDict d \<Rightarrow>
          let vertices = dict_get d ''vertices''; edges = dict_get d ''edges'' in
          and_then (view_schema fl live_schema) (\<lambda>view.
          and_then (check_payload_vertices fl tf view (listed_items vertices)
            \<lparr>pc_errors = not_a_list ''vertices'' vertices @ not_a_list ''edges'' edges, pc_warnings = [],
             pc_labels = [], pc_index = []\<rparr>) (\<lambda>after_vertices.
          and_then (check_payload_edges fl tf view (listed_items edges) after_vertices) (\<lambda>after_edges.
          and_then (index_warnings fl view (pc_labels after_vertices) (pc_labels after_edges)) (\<lambda>indexes.
            Inr (payload_report (pc_errors after_edges)
              (pc_warnings after_edges @ duplicate_edge_warning (listed_items edges) @ indexes))))))
      | _ \<Rightarrow> Inr (payload_report [''graph_data must be an object''] []))"

end
