(* ===== verification/Graph_Payload_Properties.thy ===== *)
theory Graph_Payload_Properties
  imports Graph_Payload
begin

text \<open>
  What an import payload is accepted for: a declarative account of a payload that conforms to the
  schema, and the proof that the check accepts exactly those.
\<close>

section \<open>Conforming payloads\<close>

definition fits_spec :: "text_formats \<Rightarrow> property_spec option \<Rightarrow> pyval \<Rightarrow> bool" where
  "fits_spec tf spec v \<longleftrightarrow>
     (case spec of
        None \<Rightarrow> True
      | Some (data_type, cardinality) \<Rightarrow>
          data_type \<in> set SUPPORTED_DATA_TYPES \<and> cardinality \<in> set SUPPORTED_CARDINALITIES \<and>
          (cardinality \<in> {''LIST'', ''SET''} \<longrightarrow> v = PyNone \<or> (\<exists>es. v = PyList es)) \<and>
          (\<forall>e \<in> set (stored_values cardinality v). e \<noteq> PyNone \<and> value_matches_type tf e data_type))"

lemma value_matches_None: "value_matches_type tf PyNone data_type"
  by (simp add: value_matches_type_def)

lemma property_value_error_None: "property_value_error tf kind idx name v spec = None \<longleftrightarrow> fits_spec tf spec v"
  by (auto simp: property_value_error_def fits_spec_def stored_values_def Let_def element_error_None value_matches_None
      split: option.split prod.split pyval.split)

definition conforming_properties ::
  "text_formats \<Rightarrow> schema_view \<Rightarrow> string set option \<Rightarrow> pydict \<Rightarrow> bool" where
  "conforming_properties tf view known props \<longleftrightarrow>
     (\<forall>(name, v) \<in> set props. (\<forall>names. known = Some names \<longrightarrow> name \<in> names) \<and> fits_spec tf (map_of (sv_specs view) name) v)"

lemma option_list_Nil: "(case x of None \<Rightarrow> [] | Some e \<Rightarrow> [e]) = [] \<longleftrightarrow> x = None"
  by (cases x) simp_all

lemma property_errors_Nil:
  "property_errors fl tf view kind idx label known props = [] \<longleftrightarrow> conforming_properties tf view known props"
  unfolding property_errors_def conforming_properties_def concat_eq_Nil_conv set_map ball_simps
  by (rule ball_cong [OF refl])
    (auto simp: option_list_Nil property_value_error_None split: option.splits if_splits)

definition conforming_id :: "string \<Rightarrow> pyval \<Rightarrow> bool" where
  "conforming_id strategy v \<longleftrightarrow>
     (strategy = ''CUSTOMIZE_STRING'' \<longrightarrow> (\<exists>s. v = PyStr s \<and> s \<noteq> [])) \<and>
     (strategy = ''CUSTOMIZE_NUMBER'' \<longrightarrow> (\<exists>n. v = PyInt n))"

lemma id_strategy_errors_Nil: "id_strategy_errors fl idx label strategy v = [] \<longleftrightarrow> conforming_id strategy v"
  by (auto simp: id_strategy_errors_def conforming_id_def blank_id_def Let_def split: pyval.split)

definition conforming_vertex :: "text_formats \<Rightarrow> schema_view \<Rightarrow> pyval \<Rightarrow> bool" where
  "conforming_vertex tf view v \<longleftrightarrow>
     (\<exists>vertex. v = PyDict vertex \<and>
        (let label = dict_get vertex ''label''; known = table_get (sv_vertices view) label;
             props = as_dict (dict_get vertex ''properties'')
         in \<not> blank_id label \<and> (sv_available view \<longrightarrow> known \<noteq> None) \<and>
            conforming_properties tf view (map_option vs_properties known) props \<and>
            (\<forall>vs. known = Some vs \<longrightarrow> conforming_id (vs_id_strategy vs) (dict_get vertex ''id'')) \<and>
            keys_present props (primary_keys_of view label)))"

text \<open>The identities a vertex takes: by its primary key values and by its id.\<close>

definition claims :: "schema_view \<Rightarrow> pyval \<Rightarrow> pyval list" where
  "claims view v =
     (let vertex = as_dict v; label = dict_get vertex ''label''; keys = primary_keys_of view label
      in (if keys = [] then []
          else [identity label ''pk'' (key_values (as_dict (dict_get vertex ''properties'')) keys)]) @
         (if blank_id (dict_get vertex ''id'') then [] else [identity label ''id'' (dict_get vertex ''id'')]))"

text \<open>Every identity of the payload with the vertex that took it.\<close>

definition claimed :: "schema_view \<Rightarrow> pyval list \<Rightarrow> (pyval \<times> nat) list" where
  "claimed view vertices = concat (map (\<lambda>(idx, v). map (\<lambda>c. (c, idx)) (claims view v)) (List.enumerate 0 vertices))"

definition all_different :: "pyval list \<Rightarrow> bool" where
  "all_different vs \<longleftrightarrow> sorted_wrt (\<lambda>v w. \<not> py_eq v w) vs"

text \<open>The endpoint of an edge: it has an identity, and the identities it may name are not those of two vertices.\<close>

definition resolvable_endpoint :: "schema_view \<Rightarrow> (pyval \<times> nat) list \<Rightarrow> pyval \<Rightarrow> pyval \<Rightarrow> bool" where
  "resolvable_endpoint view index label v \<longleftrightarrow>
     (\<forall>l. label = PyStr l \<longrightarrow>
        (case endpoint_identities l v (primary_keys_of view label) of (identities, missing) \<Rightarrow>
           (missing = None \<or> missing = Some []) \<and> identities \<noteq> [] \<and>
           (\<forall>a \<in> set identities. \<forall>b \<in> set identities. \<forall>i j.
              table_get index a = Some i \<and> table_get index b = Some j \<longrightarrow> i = j)))"

definition conforming_edge :: "text_formats \<Rightarrow> schema_view \<Rightarrow> (pyval \<times> nat) list \<Rightarrow> pyval \<Rightarrow> bool" where
  "conforming_edge tf view index v \<longleftrightarrow>
     (\<exists>edge. v = PyDict edge \<and>
        (let label = dict_get edge ''label''; known = edge_schema_of view label
         in \<not> blank_id label \<and> (sv_available view \<and> py_truthy label \<longrightarrow> (\<exists>l. label = PyStr l \<and> l \<in> set (map fst (sv_edges view)))) \<and>
            conforming_properties tf view (edge_property_names view label) (as_dict (dict_get edge ''properties'')) \<and>
            (\<forall>is_source. case edge_endpoint edge is_source of (end_label, endpoint) \<Rightarrow>
               \<not> has_mixed_endpoint_forms edge is_source \<and> \<not> blank_id end_label \<and> endpoint \<noteq> PyNone \<and>
               (sv_available view \<and> py_truthy end_label \<longrightarrow> table_get (sv_vertices view) end_label \<noteq> None) \<and>
               (\<forall>schema_edge. known = Some schema_edge \<longrightarrow>
                  (let expected = edge_schema_endpoint_label schema_edge (endpoint_text is_source)
                   in py_truthy end_label \<and> py_truthy expected \<longrightarrow> py_eq end_label expected)) \<and>
               resolvable_endpoint view index end_label endpoint)))"

definition conforming_payload :: "text_formats \<Rightarrow> schema_view \<Rightarrow> pyval \<Rightarrow> bool" where
  "conforming_payload tf view graph_data \<longleftrightarrow>
     (\<exists>d vertices edges. graph_data = PyDict d \<and>
        dict_get d ''vertices'' = PyList vertices \<and> dict_get d ''edges'' = PyList edges \<and>
        list_all (conforming_vertex tf view) vertices \<and>
        all_different (concat (map (claims view) vertices)) \<and>
        list_all (conforming_edge tf view (claimed view vertices)) edges)"

section \<open>Vertices\<close>

lemma table_get_None: "table_get t k = None \<longleftrightarrow> (\<forall>(j, _) \<in> set t. \<not> py_eq j k)"
  by (auto simp: table_get_def find_None_iff)

lemma claim_identity_Inr:
  assumes "claim_identity key idx complaint st = Inr st'"
  shows "(pc_errors st' = [] \<longleftrightarrow> pc_errors st = [] \<and> table_get (pc_index st) key = None) \<and>
    (pc_errors st' = [] \<longrightarrow> pc_index st' = pc_index st @ [(key, idx)])"
  using assms by (auto simp: claim_identity_def and_then_eq_Inr report_def split: option.splits)

lemma identity_kinds_differ: "\<not> py_eq (identity l ''pk'' a) (identity l ''id'' b)"
  by (simp add: identity_def)

lemma table_get_append_None: "table_get (t @ [(j, i)]) k = None \<longleftrightarrow> table_get t k = None \<and> \<not> py_eq j k"
  by (auto simp: table_get_None)

lemma check_payload_vertex_Inr:
  assumes "check_payload_vertex fl tf view st (idx, v) = Inr st'"
  shows "(pc_errors st' = [] \<longleftrightarrow> pc_errors st = [] \<and> conforming_vertex tf view v \<and>
      (\<forall>c \<in> set (claims view v). table_get (pc_index st) c = None)) \<and>
    (pc_errors st' = [] \<longrightarrow> pc_index st' = pc_index st @ map (\<lambda>c. (c, idx)) (claims view v))"
proof (cases v)
  case (PyDict vertex)
  define label where "label = dict_get vertex ''label''"
  define known where "known = table_get (sv_vertices view) label"
  define props where "props = as_dict (dict_get vertex ''properties'')"
  define keys where "keys = primary_keys_of view label"
  define explicit where "explicit = dict_get vertex ''id''"
  note names = label_def known_def props_def keys_def explicit_def
  have conforming: "conforming_vertex tf view v \<longleftrightarrow> \<not> blank_id label \<and> (sv_available view \<longrightarrow> known \<noteq> None) \<and>
      conforming_properties tf view (map_option vs_properties known) props \<and>
      (\<forall>vs. known = Some vs \<longrightarrow> conforming_id (vs_id_strategy vs) explicit) \<and> keys_present props keys"
    by (simp add: conforming_vertex_def PyDict Let_def names)
  have claims: "claims view v = (if keys = [] then [] else [identity label ''pk'' (key_values props keys)]) @
      (if blank_id explicit then [] else [identity label ''id'' explicit])"
    by (simp add: claims_def PyDict as_dict_def Let_def names)
  show ?thesis
  proof (cases "blank_id label")
    case True
    then show ?thesis using assms conforming by (auto simp: check_payload_vertex_def PyDict names report_def)
  next
    case False
    define st3 where "st3 = report (vertex_shape_errors fl tf view idx vertex)
      (st\<lparr>pc_labels := set_add label (pc_labels st), pc_warnings := pc_warnings st @ empty_value_warnings ''vertex'' idx props\<rparr>)"
    have st3: "pc_errors st3 = [] \<longleftrightarrow> pc_errors st = [] \<and> (sv_available view \<longrightarrow> known \<noteq> None) \<and>
        conforming_properties tf view (map_option vs_properties known) props \<and>
        (\<forall>vs. known = Some vs \<longrightarrow> conforming_id (vs_id_strategy vs) explicit)"
        "pc_index st3 = pc_index st"
      by (auto simp: st3_def vertex_shape_errors_def report_def property_errors_Nil id_strategy_errors_Nil names Let_def
          split: option.split)
    obtain st4 where st4: "claim_primary_key fl idx label props keys st3 = Inr st4" "claim_id fl idx label explicit st4 = Inr st'"
      using assms False by (auto simp: check_payload_vertex_def PyDict and_then_eq_Inr Let_def st3_def names)
    have pk: "(pc_errors st4 = [] \<longleftrightarrow> pc_errors st3 = [] \<and> keys_present props keys \<and>
        (keys \<noteq> [] \<longrightarrow> table_get (pc_index st3) (identity label ''pk'' (key_values props keys)) = None)) \<and>
      (pc_errors st4 = [] \<longrightarrow> pc_index st4 =
        pc_index st3 @ (if keys = [] then [] else [(identity label ''pk'' (key_values props keys), idx)]))"
      using st4(1) claim_identity_Inr [of "identity label ''pk'' (key_values props keys)"]
      by (auto simp: claim_primary_key_def keys_present_def list_all_iff report_def Let_def filter_empty_conv split: if_split_asm)
    have id: "(pc_errors st' = [] \<longleftrightarrow> pc_errors st4 = [] \<and>
        (\<not> blank_id explicit \<longrightarrow> table_get (pc_index st4) (identity label ''id'' explicit) = None)) \<and>
      (pc_errors st' = [] \<longrightarrow> pc_index st' =
        pc_index st4 @ (if blank_id explicit then [] else [(identity label ''id'' explicit, idx)]))"
      using st4(2) claim_identity_Inr unfolding claim_id_def by (auto split: if_split_asm)
    have fresh: "table_get (pc_index st4) (identity label ''id'' explicit) = table_get (pc_index st) (identity label ''id'' explicit)"
      if "pc_errors st4 = []" "table_get (pc_index st) (identity label ''id'' explicit) = None \<or>
        table_get (pc_index st4) (identity label ''id'' explicit) = None"
      using pk st3(2) that by (simp add: table_get_append_None identity_kinds_differ split: if_split_asm)
    show ?thesis
    proof
      show "pc_errors st' = [] \<longleftrightarrow> pc_errors st = [] \<and> conforming_vertex tf view v \<and>
          (\<forall>c \<in> set (claims view v). table_get (pc_index st) c = None)"
        using id pk st3 False fresh unfolding conforming claims by (simp split: if_split) metis
      show "pc_errors st' = [] \<longrightarrow> pc_index st' = pc_index st @ map (\<lambda>c. (c, idx)) (claims view v)"
      proof
        assume "pc_errors st' = []"
        then have "pc_index st4 = pc_index st @ (if keys = [] then [] else [(identity label ''pk'' (key_values props keys), idx)])"
            "pc_index st' = pc_index st4 @ (if blank_id explicit then [] else [(identity label ''id'' explicit, idx)])"
          using id pk st3(2) by auto
        then show "pc_index st' = pc_index st @ map (\<lambda>c. (c, idx)) (claims view v)" by (simp add: claims)
      qed
    qed
  qed
next
qed (use assms in \<open>auto simp: check_payload_vertex_def conforming_vertex_def report_def\<close>)

lemma all_different_append:
  "all_different (vs @ ws) \<longleftrightarrow> all_different vs \<and> all_different ws \<and> (\<forall>v \<in> set vs. \<forall>w \<in> set ws. \<not> py_eq v w)"
  by (simp add: all_different_def sorted_wrt_append)

lemma claims_different: "all_different (claims view v)"
  by (simp add: claims_def all_different_def identity_kinds_differ Let_def)

lemma table_get_keys_None: "table_get t k = None \<longleftrightarrow> (\<forall>j \<in> set (map fst t). \<not> py_eq j k)"
  by (auto simp: table_get_None)

definition claimed_from :: "schema_view \<Rightarrow> nat \<Rightarrow> pyval list \<Rightarrow> (pyval \<times> nat) list" where
  "claimed_from view n vertices = concat (map (\<lambda>(idx, v). map (\<lambda>c. (c, idx)) (claims view v)) (List.enumerate n vertices))"

lemma fold_raising_stays:
  assumes "fold_raising f s xs = Inr s'" "P s" "\<And>s x s'. f s x = Inr s' \<Longrightarrow> P s \<Longrightarrow> P s'"
  shows "P s'"
  using assms(1,2) by (induction xs arbitrary: s) (auto simp: and_then_eq_Inr intro: assms(3))

lemma vertex_errors_stay:
  "fold_raising (check_payload_vertex fl tf view) st items = Inr st' \<Longrightarrow> pc_errors st \<noteq> [] \<Longrightarrow> pc_errors st' \<noteq> []"
  by (erule fold_raising_stays [where P = "\<lambda>st. pc_errors st \<noteq> []"]) (auto dest: check_payload_vertex_Inr)

lemma check_payload_vertices_errors:
  assumes "fold_raising (check_payload_vertex fl tf view) st (List.enumerate n vs) = Inr st'"
    and "all_different (map fst (pc_index st))"
  shows "(pc_errors st' = [] \<longleftrightarrow> pc_errors st = [] \<and> list_all (conforming_vertex tf view) vs \<and>
      all_different (map fst (pc_index st) @ concat (map (claims view) vs))) \<and>
    (pc_errors st' = [] \<longrightarrow> pc_index st' = pc_index st @ claimed_from view n vs)"
  using assms
proof (induction vs arbitrary: n st)
  case (Cons v vs)
  then obtain st1 where st1: "check_payload_vertex fl tf view st (n, v) = Inr st1"
      "fold_raising (check_payload_vertex fl tf view) st1 (List.enumerate (Suc n) vs) = Inr st'"
    by (auto simp: and_then_eq_Inr)
  note step = check_payload_vertex_Inr [OF st1(1)]
  show ?case
  proof (cases "pc_errors st1 = []")
    case True
    then have st: "pc_errors st = []" "conforming_vertex tf view v" "\<forall>c \<in> set (claims view v). table_get (pc_index st) c = None"
        "pc_index st1 = pc_index st @ map (\<lambda>c. (c, n)) (claims view v)"
      using step by auto
    have keys: "map fst (pc_index st1) = map fst (pc_index st) @ claims view v"
      by (simp add: st(4) comp_def)
    have "all_different (map fst (pc_index st1))"
      using Cons.prems(2) st(3) by (auto simp: keys all_different_append claims_different table_get_keys_None)
    from Cons.IH [OF st1(2) this] show ?thesis
      using True st by (simp add: comp_def claimed_from_def)
  next
    case False
    have "pc_errors st' \<noteq> []"
      using vertex_errors_stay [OF st1(2) False] .
    moreover have "\<not> (pc_errors st = [] \<and> conforming_vertex tf view v \<and> (\<forall>c \<in> set (claims view v). table_get (pc_index st) c = None))"
      using False step by simp
    ultimately show ?thesis
      using Cons.prems(2) by (auto simp: all_different_append table_get_keys_None)
  qed
qed (simp add: claimed_from_def)

section \<open>Edges\<close>

lemma missing_fields_Nil: "missing_fields_errors idx given = [] \<longleftrightarrow> (\<forall>(f, v) \<in> set given. \<not> blank_id v)"
  by (auto simp: missing_fields_errors_def filter_empty_conv)

lemma distinct_remdups_length: "length (remdups xs) \<le> 1 \<longleftrightarrow> (\<forall>a \<in> set xs. \<forall>b \<in> set xs. a = b)"
  by (simp add: length_remdups_card_conv card_le_Suc0_iff_eq)

lemma endpoint_errors_Nil:
  assumes "endpoint_errors fl view index idx is_source label v = Inr errors" "v \<noteq> PyNone"
  shows "errors = [] \<longleftrightarrow> resolvable_endpoint view index label v"
proof (cases label)
  case (PyStr l)
  obtain identities missing where e: "endpoint_identities l v (primary_keys_of view label) = (identities, missing)"
    by fastforce
  have one: "\<not> Suc 0 < length (remdups (List.map_filter (table_get index) identities)) \<longleftrightarrow>
      (\<forall>a \<in> set identities. \<forall>b \<in> set identities. \<forall>i j. table_get index a = Some i \<and> table_get index b = Some j \<longrightarrow> i = j)"
    unfolding not_less One_nat_def [symmetric] distinct_remdups_length List.map_filter_def by fastforce
  show ?thesis
    using assms PyStr e one
    by (auto simp: endpoint_errors_def resolvable_endpoint_def Let_def split: option.split_asm list.split_asm if_split_asm)
qed (use assms in \<open>auto simp: endpoint_errors_def resolvable_endpoint_def\<close>)

lemma edge_schema_of_str: "edge_schema_of view label = Some schema_edge \<Longrightarrow> py_truthy label"
  by (auto simp: edge_schema_of_def py_truthy.simps split: pyval.split_asm if_split_asm)

lemma endpoint_label_mismatch_Nil:
  "endpoint_label_mismatch fl idx schema_edge label is_source given = [] \<longleftrightarrow>
     (let expected = edge_schema_endpoint_label schema_edge (endpoint_text is_source)
      in py_truthy given \<and> py_truthy expected \<longrightarrow> py_eq given expected)"
  by (simp add: endpoint_label_mismatch_def Let_def)

lemma unknown_label_Nil: "unknown_label_error fl idx what label known = [] \<longleftrightarrow> (py_truthy label \<longrightarrow> known)"
  by (simp add: unknown_label_error_def)

lemma mixed_forms_Nil: "mixed_forms_error idx edge is_source = [] \<longleftrightarrow> \<not> has_mixed_endpoint_forms edge is_source"
  by (simp add: mixed_forms_error_def)

lemma absent_endpoint_Nil: "absent_endpoint_errors idx source target = [] \<longleftrightarrow> source \<noteq> PyNone \<and> target \<noteq> PyNone"
  by (simp add: absent_endpoint_errors_def)

lemmas edge_parts_Nil = missing_fields_Nil endpoint_label_mismatch_Nil unknown_label_Nil mixed_forms_Nil absent_endpoint_Nil
  property_errors_Nil

lemma known_edge_label:
  "(case label of PyStr l \<Rightarrow> l \<in> set (map fst (sv_edges view)) | _ \<Rightarrow> False) \<longleftrightarrow>
     (\<exists>l. label = PyStr l \<and> l \<in> set (map fst (sv_edges view)))"
  by (cases label) auto

lemma check_payload_edge_Inr:
  assumes "check_payload_edge fl tf view index st (idx, v) = Inr st'"
  shows "pc_errors st' = [] \<longleftrightarrow> pc_errors st = [] \<and> conforming_edge tf view index v"
proof (cases v)
  case (PyDict edge)
  obtain source_label source target_label target where
      ends: "edge_endpoint edge True = (source_label, source)" "edge_endpoint edge False = (target_label, target)"
    by fastforce
  obtain source_errors target_errors where
      e: "endpoint_errors fl view index idx True source_label source = Inr source_errors"
        "endpoint_errors fl view index idx False target_label target = Inr target_errors"
      and st': "pc_errors st' = pc_errors st @ edge_shape_errors fl tf view idx edge @ source_errors @ target_errors"
    using assms by (auto simp: check_payload_edge_def PyDict ends and_then_eq_Inr report_def Let_def split: if_split_asm)
  have shape: "edge_shape_errors fl tf view idx edge = [] \<Longrightarrow> source \<noteq> PyNone \<and> target \<noteq> PyNone"
    by (simp add: edge_shape_errors_def ends edge_parts_Nil Let_def)
  have conforms: "conforming_edge tf view index v \<longleftrightarrow> edge_shape_errors fl tf view idx edge = [] \<and>
      resolvable_endpoint view index source_label source \<and> resolvable_endpoint view index target_label target"
    by (cases "edge_schema_of view (dict_get edge ''label'')")
      (auto simp: conforming_edge_def PyDict edge_shape_errors_def ends all_bool_eq edge_parts_Nil known_edge_label Let_def)
  show ?thesis
    using st' shape endpoint_errors_Nil [OF e(1)] endpoint_errors_Nil [OF e(2)] unfolding conforms by auto
qed (use assms in \<open>auto simp: check_payload_edge_def conforming_edge_def report_def\<close>)

lemma check_payload_edges_errors:
  assumes "fold_raising (check_payload_edge fl tf view index) st (List.enumerate n es) = Inr st'"
  shows "pc_errors st' = [] \<longleftrightarrow> pc_errors st = [] \<and> list_all (conforming_edge tf view index) es"
  using assms
proof (induction es arbitrary: n st)
  case (Cons e es)
  then obtain st1 where "check_payload_edge fl tf view index st (n, e) = Inr st1"
      "fold_raising (check_payload_edge fl tf view index) st1 (List.enumerate (Suc n) es) = Inr st'"
    by (auto simp: and_then_eq_Inr)
  then show ?case using check_payload_edge_Inr Cons.IH by simp
qed simp

section \<open>The payload\<close>

text \<open>
  C26: an import payload is accepted exactly when it conforms to the schema. Accepted vertices have a
  known label, properties of that label with values of the declared types, an id of the kind the
  label's strategy wants and all of its primary keys, and no two of them share an id or the values of
  a primary key; accepted edges have known labels, endpoints of the labels the schema wants, and
  endpoints that name at most one vertex of the payload. Nothing that conforms is rejected.
\<close>

theorem payload_is_accepted_iff_conforming:
  assumes "validate_graph_payload fl tf graph_data live_schema = Inr r" "view_schema fl live_schema = Inr view"
  shows "dict_get r ''valid'' = PyBool (conforming_payload tf view graph_data)"
proof (cases graph_data)
  case (PyDict d)
  let ?vertices = "dict_get d ''vertices''" and ?edges = "dict_get d ''edges''"
  let ?start = "\<lparr>pc_errors = not_a_list ''vertices'' ?vertices @ not_a_list ''edges'' ?edges, pc_warnings = [],
    pc_labels = [], pc_index = []\<rparr>"
  obtain st1 st2 where st1: "check_payload_vertices fl tf view (listed_items ?vertices) ?start = Inr st1"
      and st2: "check_payload_edges fl tf view (listed_items ?edges) st1 = Inr st2"
      and valid: "dict_get r ''valid'' = PyBool (pc_errors st2 = [])"
    using assms by (auto simp: validate_graph_payload_def PyDict and_then_eq_Inr payload_report_def dict_get_def Let_def)
  have vertices: "pc_errors st1 = [] \<longleftrightarrow> pc_errors ?start = [] \<and> list_all (conforming_vertex tf view) (listed_items ?vertices) \<and>
      all_different (concat (map (claims view) (listed_items ?vertices)))"
    "pc_errors st1 = [] \<longrightarrow> pc_index st1 = claimed view (listed_items ?vertices)"
    using check_payload_vertices_errors [OF st1 [unfolded check_payload_vertices_def]]
    by (simp_all add: all_different_def claimed_from_def claimed_def)
  have edges: "pc_errors st2 = [] \<longleftrightarrow> pc_errors st1 = [] \<and> list_all (conforming_edge tf view (pc_index st1)) (listed_items ?edges)"
    using check_payload_edges_errors [OF st2 [unfolded check_payload_edges_def]] by simp
  have lists: "pc_errors ?start = [] \<longleftrightarrow> (\<exists>vs es. ?vertices = PyList vs \<and> ?edges = PyList es)"
    by (simp add: not_a_list_def split: pyval.split)
  have "pc_errors st2 = [] \<longleftrightarrow> conforming_payload tf view graph_data"
  proof (cases "pc_errors ?start = []")
    case True
    then obtain vs es where "?vertices = PyList vs" "?edges = PyList es" using lists by blast
    then show ?thesis using vertices edges True by (auto simp: conforming_payload_def PyDict listed_items_def)
  next
    case False
    then have "\<not> conforming_payload tf view graph_data"
      unfolding conforming_payload_def PyDict pyval.inject using lists by blast
    then show ?thesis using vertices(1) edges False by blast
  qed
  then show ?thesis using valid by simp
qed (use assms in \<open>auto simp: validate_graph_payload_def conforming_payload_def payload_report_def dict_get_def\<close>)

section \<open>A sample payload\<close>

definition people_schema :: pyval where
  "people_schema = PyDict
     [(''propertykeys'', PyList [PyDict [(''name'', PyStr ''name''), (''data_type'', PyStr ''TEXT''), (''cardinality'', PyStr ''SINGLE'')]]),
      (''vertexlabels'', PyList [PyDict [(''name'', PyStr ''person''), (''properties'', PyList [PyStr ''name'']),
         (''primary_keys'', PyList [PyStr ''name''])]]),
      (''edgelabels'', PyList [PyDict [(''name'', PyStr ''knows''), (''source_label'', PyStr ''person''),
         (''target_label'', PyStr ''person'')]])]"

definition person_named :: "string \<Rightarrow> pyval" where
  "person_named name = PyDict [(''label'', PyStr ''person''), (''properties'', PyDict [(''name'', PyStr name)])]"

definition people_payload :: "string list \<Rightarrow> pyval" where
  "people_payload names = PyDict [(''vertices'', PyList (map person_named names)),
     (''edges'', PyList [PyDict [(''label'', PyStr ''knows''), (''source_label'', PyStr ''person''),
        (''target_label'', PyStr ''person''), (''source'', PyDict [(''name'', PyStr ''a'')]), (''target'', PyStr ''b'')]])]"

definition plain_formats :: text_formats where
  "plain_formats = \<lparr>iso_date = (\<lambda>_. False), base64_text = (\<lambda>_. False)\<rparr>"

definition people_view :: schema_view where
  "people_view = (case view_schema (\<lambda>_. []) people_schema of Inr view \<Rightarrow> view | Inl _ \<Rightarrow> no_schema)"

lemma people_runs:
  "case validate_graph_payload (\<lambda>_. []) plain_formats (people_payload [''a'', ''b'']) people_schema of
     Inr r \<Rightarrow> dict_get r ''valid'' = PyBool True | Inl _ \<Rightarrow> False"
  "case validate_graph_payload (\<lambda>_. []) plain_formats (people_payload [''a'', ''a'']) people_schema of
     Inr r \<Rightarrow> dict_get r ''valid'' = PyBool False | Inl _ \<Rightarrow> False"
  by code_simp+

theorem payload_is_accepted_iff_conforming_witness:
  "conforming_payload plain_formats people_view (people_payload [''a'', ''b'']) \<and>
   \<not> conforming_payload plain_formats people_view (people_payload [''a'', ''a''])"
proof -
  have view: "view_schema (\<lambda>_. []) people_schema = Inr people_view"
  proof -
    have "case view_schema (\<lambda>_. []) people_schema of Inr _ \<Rightarrow> True | Inl _ \<Rightarrow> False" by code_simp
    then show ?thesis by (auto simp: people_view_def split: sum.split_asm)
  qed
  show ?thesis
    using people_runs payload_is_accepted_iff_conforming [OF _ view] by (auto split: sum.split_asm)
qed

end
