(* ===== verification/Graph_Client.thy ===== *)
theory Graph_Client
  imports Schema_Apply Url_Text Error_Mapping
begin

text \<open>
  \<open>GraphManager\<close> (\<open>api/graph.py\<close>) and the data it returns (\<open>structure/vertex_data.py\<close>,
  \<open>structure/edge_data.py\<close>): one request per method over the \<open>transport\<close>. A vertex or an edge is the
  dictionary of its attributes, an absent one \<open>None\<close>, as the callers read it.
\<close>

section \<open>Vertices and edges\<close>

definition pick_attributes :: "string list \<Rightarrow> pyval \<Rightarrow> py_exception + pydict" where
  "pick_attributes names v =
     (case v of
        PyDict d \<Rightarrow> and_then (item_of d ''id'') (\<lambda>i. Inr ((''id'', i) # map (\<lambda>n. (n, dict_get d n)) names))
      | _ \<Rightarrow> Inl RaisesType)"

definition vertex_data :: "pyval \<Rightarrow> py_exception + pydict" where
  "vertex_data = pick_attributes [''label'', ''type'', ''properties'']"

definition edge_data :: "pyval \<Rightarrow> py_exception + pydict" where
  "edge_data = pick_attributes [''label'', ''type'', ''properties'', ''outV'', ''outVLabel'', ''inV'', ''inVLabel'']"

text \<open>\<open>Data(response) if response else None\<close>\<close>

definition one_item :: "(pyval \<Rightarrow> py_exception + pydict) \<Rightarrow> pyval \<Rightarrow> py_exception + pydict option" where
  "one_item data response = (if py_truthy response then map_sum id Some (data response) else Inr None)"

fun all_items :: "(pyval \<Rightarrow> py_exception + pydict) \<Rightarrow> pyval list \<Rightarrow> py_exception + pydict list" where
  "all_items data [] = Inr []"
| "all_items data (v # vs) = and_then (data v) (\<lambda>x. and_then (all_items data vs) (\<lambda>xs. Inr (x # xs)))"

text \<open>\<open>[Data(item) for item in response[key]]\<close>\<close>

definition items_at :: "(pyval \<Rightarrow> py_exception + pydict) \<Rightarrow> string \<Rightarrow> pyval \<Rightarrow> py_exception + pydict list" where
  "items_at data key response =
     (case response of
        PyDict d \<Rightarrow> and_then (item_of d key) (\<lambda>v. and_then (loop_over v) (all_items data))
      | _ \<Rightarrow> Inl RaisesType)"

definition items_or_none ::
  "(pyval \<Rightarrow> py_exception + pydict) \<Rightarrow> string \<Rightarrow> pyval \<Rightarrow> py_exception + pydict list option" where
  "items_or_none data key response =
     (if py_truthy response then map_sum id Some (items_at data key response) else Inr None)"

text \<open>A page of items with the mark of the next page; \<open>strict\<close> when the mark must be there.\<close>

definition page_of ::
  "(pyval \<Rightarrow> py_exception + pydict) \<Rightarrow> string \<Rightarrow> bool \<Rightarrow> pyval \<Rightarrow> py_exception + pydict list option \<times> pyval" where
  "page_of data key strict response =
     (if \<not> py_truthy response then Inr (None, PyNone)
      else and_then (items_at data key response) (\<lambda>items.
        case py_get response ''page'' of
          Some mark \<Rightarrow> Inr (Some items, mark)
        | None \<Rightarrow> if strict then Inl (RaisesKey ''page'') else Inr (Some items, PyNone)))"

text \<open>The created items of a batch, which is answered by their identifiers.\<close>

definition created_items ::
  "(pyval \<Rightarrow> py_exception + pydict) \<Rightarrow> pyval \<Rightarrow> py_exception + pydict list option" where
  "created_items data response =
     (if py_truthy response
      then map_sum id Some (and_then (loop_over response) (\<lambda>vs. all_items data (map (\<lambda>v. PyDict [(''id'', v)]) vs)))
      else Inr None)"

section \<open>Queries\<close>

text \<open>\<open>json.dumps\<close> with its default, ASCII only: the other characters occur inside texts.\<close>

definition ascii_escape :: "string \<Rightarrow> string" where
  "ascii_escape s =
     concat (map (\<lambda>c. if code_point c < 127 then [c] else [CHR 0x5C, CHR ''u''] @ hex4 (code_point c)) s)"

definition json_dumps_ascii :: "(rat \<Rightarrow> string) \<Rightarrow> pyval \<Rightarrow> string" where
  "json_dumps_ascii fl v = ascii_escape (json_dumps fl v)"

definition urlencode_query :: "(rat \<Rightarrow> string) \<Rightarrow> (string \<times> pyval) list \<Rightarrow> string" where
  "urlencode_query fl params =
     join ''&'' (map (\<lambda>(key, v). if v = PyNone then url_quote_plus key else urlencode fl [(key, v)]) params)"

definition properties_param :: "(rat \<Rightarrow> string) \<Rightarrow> pyval \<Rightarrow> (string \<times> pyval) list" where
  "properties_param fl properties =
     (if py_truthy properties then [(''properties'', PyStr (json_dumps_ascii fl properties))] else [])"

definition page_param :: "pyval \<Rightarrow> string \<times> pyval" where
  "page_param page = (''page'', if py_truthy page then page else PyNone)"

definition limit_param :: "int \<Rightarrow> (string \<times> pyval) list" where
  "limit_param limit = (if limit > 0 then [(''limit'', PyStr (show_int limit))] else [])"

section \<open>Requests\<close>

definition graph_get :: "(rat \<Rightarrow> string) \<Rightarrow> 'w transport \<Rightarrow> string \<Rightarrow> ('w, pyval) effect" where
  "graph_get fl transport path = session_request fl transport True ''GET'' path None"

definition id_path :: "id_failure + string \<Rightarrow> py_exception + string" where
  "id_path r = map_sum id_exception id r"

definition vertex_path :: "pyval \<Rightarrow> py_exception + string" where
  "vertex_path v = id_path (map_sum id (\<lambda>p. ''graph/vertices/'' @ p) (format_vertex_id_path v))"

definition edge_path :: "(rat \<Rightarrow> string) \<Rightarrow> pyval \<Rightarrow> py_exception + string" where
  "edge_path fl v = id_path (map_sum id (\<lambda>p. ''graph/edges/'' @ p) (format_edge_id_path fl v))"

text \<open>A method that formats its path, sends one request and reads the answer.\<close>

definition send ::
  "(rat \<Rightarrow> string) \<Rightarrow> 'w transport \<Rightarrow> string \<Rightarrow> py_exception + string \<Rightarrow> pyval option \<Rightarrow> (pyval \<Rightarrow> py_exception + 'a) \<Rightarrow>
     ('w, 'a) effect" where
  "send fl transport method path body answer =
     effect_bind (effect_of path) (\<lambda>p.
     effect_bind (session_request fl transport True method p body) (\<lambda>response. effect_of (answer response)))"

definition addVertex ::
  "(rat \<Rightarrow> string) \<Rightarrow> 'w transport \<Rightarrow> pyval \<Rightarrow> pyval \<Rightarrow> pyval \<Rightarrow> ('w, pydict option) effect" where
  "addVertex fl transport label properties i =
     send fl transport ''POST'' (Inr ''graph/vertices'')
       (Some (PyDict ((if i = PyNone then [] else [(''id'', i)]) @ [(''label'', label), (''properties'', properties)])))
       (one_item vertex_data)"

definition addVertices ::
  "(rat \<Rightarrow> string) \<Rightarrow> 'w transport \<Rightarrow> (pyval \<times> pyval) list \<Rightarrow> ('w, pydict list option) effect" where
  "addVertices fl transport input_data =
     send fl transport ''POST'' (Inr ''graph/vertices/batch'')
       (Some (PyList (map (\<lambda>(label, properties). PyDict [(''label'', label), (''properties'', properties)]) input_data)))
       (created_items vertex_data)"

definition changed_path :: "string \<Rightarrow> py_exception + string \<Rightarrow> py_exception + string" where
  "changed_path action path = map_sum id (\<lambda>p. p @ ''?action='' @ action) path"

definition appendVertex ::
  "(rat \<Rightarrow> string) \<Rightarrow> 'w transport \<Rightarrow> pyval \<Rightarrow> pyval \<Rightarrow> ('w, pydict option) effect" where
  "appendVertex fl transport vertex_id properties =
     send fl transport ''PUT'' (changed_path ''append'' (vertex_path vertex_id))
       (Some (PyDict [(''properties'', properties)])) (one_item vertex_data)"

definition eliminateVertex ::
  "(rat \<Rightarrow> string) \<Rightarrow> 'w transport \<Rightarrow> pyval \<Rightarrow> pyval \<Rightarrow> ('w, pydict option) effect" where
  "eliminateVertex fl transport vertex_id properties =
     send fl transport ''PUT'' (changed_path ''eliminate'' (vertex_path vertex_id))
       (Some (PyDict [(''properties'', properties)])) (one_item vertex_data)"

definition getVertexById :: "(rat \<Rightarrow> string) \<Rightarrow> 'w transport \<Rightarrow> pyval \<Rightarrow> ('w, pydict option) effect" where
  "getVertexById fl transport vertex_id = send fl transport ''GET'' (vertex_path vertex_id) None (one_item vertex_data)"

definition getVertexByPage ::
  "(rat \<Rightarrow> string) \<Rightarrow> 'w transport \<Rightarrow> pyval \<Rightarrow> int \<Rightarrow> pyval \<Rightarrow> pyval \<Rightarrow> ('w, pydict list option \<times> pyval) effect" where
  "getVertexByPage fl transport label limit page properties =
     send fl transport ''GET'' (Inr (''graph/vertices?'' @ urlencode_query fl
         ([(''label'', label)] @ properties_param fl properties @ [page_param page, (''limit'', PyStr (show_int limit))])))
       None (page_of vertex_data ''vertices'' True)"

definition getVertexByConditionWithPage ::
  "(rat \<Rightarrow> string) \<Rightarrow> 'w transport \<Rightarrow> pyval \<Rightarrow> int \<Rightarrow> pyval \<Rightarrow> pyval \<Rightarrow> ('w, pydict list option \<times> pyval) effect" where
  "getVertexByConditionWithPage fl transport label limit page properties =
     send fl transport ''GET'' (Inr (''graph/vertices?'' @ urlencode_query fl
         ((if py_truthy label then [(''label'', label)] else []) @ properties_param fl properties @ limit_param limit @
          [page_param page])))
       None (page_of vertex_data ''vertices'' False)"

definition getVertexByCondition ::
  "(rat \<Rightarrow> string) \<Rightarrow> 'w transport \<Rightarrow> pyval \<Rightarrow> int \<Rightarrow> pyval \<Rightarrow> pyval \<Rightarrow> ('w, pydict list option) effect" where
  "getVertexByCondition fl transport label limit page properties =
     effect_bind (getVertexByConditionWithPage fl transport label limit page properties) (\<lambda>r. effect_return (fst r))"

definition removeVertexById :: "(rat \<Rightarrow> string) \<Rightarrow> 'w transport \<Rightarrow> pyval \<Rightarrow> ('w, pyval) effect" where
  "removeVertexById fl transport vertex_id = send fl transport ''DELETE'' (vertex_path vertex_id) None Inr"

definition addEdge ::
  "(rat \<Rightarrow> string) \<Rightarrow> 'w transport \<Rightarrow> pyval \<Rightarrow> pyval \<Rightarrow> pyval \<Rightarrow> pyval \<Rightarrow> ('w, pydict option) effect" where
  "addEdge fl transport label out_id in_id properties =
     send fl transport ''POST'' (Inr ''graph/edges'')
       (Some (PyDict [(''label'', label), (''outV'', out_id), (''inV'', in_id), (''properties'', properties)]))
       (one_item edge_data)"

text \<open>The six parts of an edge of a batch, under the names the server wants.\<close>

definition batch_edge :: "pyval list \<Rightarrow> pyval" where
  "batch_edge parts = PyDict (zip [''label'', ''outV'', ''inV'', ''outVLabel'', ''inVLabel'', ''properties''] parts)"

definition addEdges :: "(rat \<Rightarrow> string) \<Rightarrow> 'w transport \<Rightarrow> pyval list list \<Rightarrow> ('w, pydict list option) effect" where
  "addEdges fl transport input_data =
     (if \<not> list_all (\<lambda>parts. length parts \<ge> 6) input_data then effect_of (Inl (RaisesNamed ''IndexError'' []))
      else send fl transport ''POST'' (Inr ''graph/edges/batch'') (Some (PyList (map batch_edge input_data)))
        (created_items edge_data))"

definition appendEdge ::
  "(rat \<Rightarrow> string) \<Rightarrow> 'w transport \<Rightarrow> pyval \<Rightarrow> pyval \<Rightarrow> ('w, pydict option) effect" where
  "appendEdge fl transport edge_id properties =
     send fl transport ''PUT'' (changed_path ''append'' (edge_path fl edge_id))
       (Some (PyDict [(''properties'', properties)])) (one_item edge_data)"

definition eliminateEdge ::
  "(rat \<Rightarrow> string) \<Rightarrow> 'w transport \<Rightarrow> pyval \<Rightarrow> pyval \<Rightarrow> ('w, pydict option) effect" where
  "eliminateEdge fl transport edge_id properties =
     send fl transport ''PUT'' (changed_path ''eliminate'' (edge_path fl edge_id))
       (Some (PyDict [(''properties'', properties)])) (one_item edge_data)"

definition getEdgeById :: "(rat \<Rightarrow> string) \<Rightarrow> 'w transport \<Rightarrow> pyval \<Rightarrow> ('w, pydict option) effect" where
  "getEdgeById fl transport edge_id = send fl transport ''GET'' (edge_path fl edge_id) None (one_item edge_data)"

definition vertex_param :: "pyval \<Rightarrow> pyval \<Rightarrow> py_exception + (string \<times> pyval) list" where
  "vertex_param vertex_id direction =
     (if vertex_id = PyNone then Inr []
      else if \<not> py_truthy direction then Inl (RaisesNamed ''NotFoundError'' ''Direction can not be empty.'')
      else map_sum id_exception (\<lambda>s. [(''vertex_id'', PyStr s), (''direction'', direction)]) (format_vertex_id vertex_id))"

definition getEdgeByPage ::
  "(rat \<Rightarrow> string) \<Rightarrow> 'w transport \<Rightarrow> pyval \<Rightarrow> pyval \<Rightarrow> pyval \<Rightarrow> int \<Rightarrow> pyval \<Rightarrow> pyval \<Rightarrow>
     ('w, pydict list option \<times> pyval) effect" where
  "getEdgeByPage fl transport label vertex_id direction limit page properties =
     send fl transport ''GET'' (map_sum id (\<lambda>vertex. ''graph/edges?'' @ urlencode_query fl
         (vertex @ (if py_truthy label then [(''label'', label)] else []) @ properties_param fl properties @
          [page_param page] @ limit_param limit)) (vertex_param vertex_id direction))
       None (page_of edge_data ''edges'' True)"

definition removeEdgeById :: "(rat \<Rightarrow> string) \<Rightarrow> 'w transport \<Rightarrow> pyval \<Rightarrow> ('w, pyval) effect" where
  "removeEdgeById fl transport edge_id = send fl transport ''DELETE'' (edge_path fl edge_id) None Inr"

fun format_all :: "pyval list \<Rightarrow> py_exception + string list" where
  "format_all [] = Inr []"
| "format_all (v # vs) =
     and_then (id_path (format_vertex_id v)) (\<lambda>s. and_then (format_all vs) (\<lambda>ss. Inr (s # ss)))"

definition getVerticesById ::
  "(rat \<Rightarrow> string) \<Rightarrow> 'w transport \<Rightarrow> pyval list \<Rightarrow> ('w, pydict list option) effect" where
  "getVerticesById fl transport vertex_ids =
     (if vertex_ids = [] then effect_return (Some [])
      else send fl transport ''GET''
        (map_sum id (\<lambda>ids. ''traversers/vertices?'' @ urlencode fl (map (\<lambda>s. (''ids'', PyStr s)) ids)) (format_all vertex_ids))
        None (items_or_none vertex_data ''vertices''))"

definition getEdgesById ::
  "(rat \<Rightarrow> string) \<Rightarrow> 'w transport \<Rightarrow> pyval list \<Rightarrow> ('w, pydict list option) effect" where
  "getEdgesById fl transport edge_ids =
     (if edge_ids = [] then effect_return (Some [])
      else send fl transport ''GET''
        (Inr (''traversers/edges?'' @ urlencode fl (map (\<lambda>v. (''ids'', PyStr (py_str fl v))) edge_ids)))
        None (items_or_none edge_data ''edges''))"

section \<open>Failures\<close>

text \<open>\<open>try\<close>: the exception of an effect as a result.\<close>

definition effect_try :: "('w, 'a) effect \<Rightarrow> ('w, py_exception + 'a) effect" where
  "effect_try m w = (case m w of (r, w') \<Rightarrow> (Inr r, w'))"

lemma effect_keeps_try [effect_rules]: "effect_keeps I m \<Longrightarrow> effect_keeps I (effect_try m)"
  by (auto simp: effect_keeps_def effect_try_def split: prod.split)

text \<open>The classes of \<open>pyhugegraph.utils.exceptions\<close> that are classified by their class.\<close>

definition client_error :: "(py_exception \<Rightarrow> string) \<Rightarrow> py_exception \<Rightarrow> client_exception" where
  "client_error et e =
     (case e of
        RaisesNamed c m \<Rightarrow>
          if c = ''NotAuthorizedError'' then NotAuthorizedError m
          else if c = ''NotFoundError'' then NotFoundError m
          else if c = ''InvalidParameterError'' then InvalidParameterError m
          else if c = ''DataFormatError'' then DataFormatError m
          else if c = ''ServiceUnavailableError'' then ServiceUnavailableError m
          else if c = ''ResponseParseError'' then ResponseParseError m
          else if c = ''ServerError'' then ServerError m
          else OtherException m
      | _ \<Rightarrow> OtherException (et e))"

section \<open>Reads\<close>

lemma send_keeps:
  "(\<And>p. effect_keeps I (transport method p body)) \<Longrightarrow> effect_keeps I (send fl transport method path body answer)"
  unfolding send_def session_request_def by (intro effect_rules)

lemma graph_reads_keep [effect_rules]:
  assumes "\<And>path. effect_keeps I (transport ''GET'' path None)"
  shows "effect_keeps I (getVertexById fl transport v)" "effect_keeps I (getEdgeById fl transport v)"
    "effect_keeps I (getVerticesById fl transport vs)" "effect_keeps I (getEdgesById fl transport vs)"
    "effect_keeps I (getVertexByPage fl transport label limit page properties)"
    "effect_keeps I (getVertexByConditionWithPage fl transport label limit page properties)"
    "effect_keeps I (getEdgeByPage fl transport label v direction limit page properties)"
  unfolding getVertexById_def getEdgeById_def getVerticesById_def getEdgesById_def getVertexByPage_def
    getVertexByConditionWithPage_def getEdgeByPage_def
  by (intro effect_rules send_keeps assms)+

lemma connected_reads_keep:
  assumes "schema_reads_keep I be"
    and "\<And>transport. (\<And>path body. effect_keeps I (transport ''GET'' path body)) \<Longrightarrow> effect_keeps I (k transport)"
  shows "effect_keeps I (effect_bind (sk_connect be cfg) k)"
proof (rule effect_keeps_ensured)
  show "effect_keeps I (sk_connect be cfg)" using assms(1) by (simp add: schema_reads_keep_def)
  show "effect_ensures (\<lambda>transport. \<forall>path body. effect_keeps I (transport ''GET'' path body)) (sk_connect be cfg)"
    using assms(1) by (auto simp: schema_reads_keep_def effect_ensures_def)
qed (use assms(2) in blast)

text \<open>
  The reading methods of \<open>SchemaManager\<close> (\<open>api/schema.py\<close>) and the objects they return
  (\<open>structure/property_key_data.py\<close>, \<open>vertex_label_data.py\<close>, \<open>edge_label_data.py\<close>, \<open>index_label_data.py\<close>), each
  the dictionary of its attributes. A name is put into the path as it is.
\<close>

section \<open>Schema objects\<close>

fun attributes_of :: "string list \<Rightarrow> pydict \<Rightarrow> py_exception + pydict" where
  "attributes_of [] d = Inr []"
| "attributes_of (n # ns) d = and_then (item_of d n) (\<lambda>v. and_then (attributes_of ns d) (\<lambda>rest. Inr ((n, v) # rest)))"

text \<open>Indexing anything but a dictionary by a text raises \<open>TypeError\<close>.\<close>

definition required_attributes :: "string list \<Rightarrow> pyval \<Rightarrow> py_exception + pydict" where
  "required_attributes names v = (case v of PyDict d \<Rightarrow> attributes_of names d | _ \<Rightarrow> Inl RaisesType)"

definition property_key_data :: "pyval \<Rightarrow> py_exception + pydict" where
  "property_key_data = required_attributes [''id'', ''name'', ''cardinality'', ''data_type'', ''user_data'']"

definition vertex_label_data :: "pyval \<Rightarrow> py_exception + pydict" where
  "vertex_label_data = required_attributes
     [''id'', ''name'', ''id_strategy'', ''primary_keys'', ''nullable_keys'', ''index_labels'', ''properties'',
      ''enable_label_index'', ''user_data'']"

definition edge_label_data :: "pyval \<Rightarrow> py_exception + pydict" where
  "edge_label_data = required_attributes
     [''id'', ''name'', ''source_label'', ''target_label'', ''frequency'', ''sort_keys'', ''nullable_keys'', ''index_labels'',
      ''properties'', ''enable_label_index'', ''user_data'']"

definition index_label_data :: "pyval \<Rightarrow> py_exception + pydict" where
  "index_label_data v =
     (case v of
        PyDict d \<Rightarrow> Inr (map (\<lambda>n. (n, dict_get d n)) [''id'', ''base_type'', ''base_value'', ''name'', ''fields'', ''index_type''])
      | _ \<Rightarrow> Inl RaisesAttribute)"

text \<open>\<open>EdgeLabelData.relations\<close>\<close>

definition edge_relation :: "(rat \<Rightarrow> string) \<Rightarrow> pydict \<Rightarrow> string" where
  "edge_relation fl d =
     py_str fl (dict_get d ''source_label'') @ ''--'' @ py_str fl (dict_get d ''name'') @ ''-->'' @
     py_str fl (dict_get d ''target_label'')"

section \<open>Methods\<close>

definition schema_get ::
  "(rat \<Rightarrow> string) \<Rightarrow> 'w transport \<Rightarrow> string \<Rightarrow> (pyval \<Rightarrow> py_exception + 'a) \<Rightarrow> ('w, 'a) effect" where
  "schema_get fl transport path answer = send fl transport ''GET'' (Inr path) None answer"

definition getPropertyKey :: "(rat \<Rightarrow> string) \<Rightarrow> 'w transport \<Rightarrow> pyval \<Rightarrow> ('w, pydict option) effect" where
  "getPropertyKey fl transport name = schema_get fl transport (''schema/propertykeys/'' @ py_str fl name) (one_item property_key_data)"

definition getPropertyKeys :: "(rat \<Rightarrow> string) \<Rightarrow> 'w transport \<Rightarrow> ('w, pydict list option) effect" where
  "getPropertyKeys fl transport = schema_get fl transport ''schema/propertykeys'' (items_or_none property_key_data ''propertykeys'')"

definition getVertexLabel :: "(rat \<Rightarrow> string) \<Rightarrow> 'w transport \<Rightarrow> pyval \<Rightarrow> ('w, pydict option) effect" where
  "getVertexLabel fl transport name = schema_get fl transport (''schema/vertexlabels/'' @ py_str fl name) (one_item vertex_label_data)"

definition getVertexLabels :: "(rat \<Rightarrow> string) \<Rightarrow> 'w transport \<Rightarrow> ('w, pydict list option) effect" where
  "getVertexLabels fl transport = schema_get fl transport ''schema/vertexlabels'' (items_or_none vertex_label_data ''vertexlabels'')"

definition getEdgeLabel :: "(rat \<Rightarrow> string) \<Rightarrow> 'w transport \<Rightarrow> pyval \<Rightarrow> ('w, pydict option) effect" where
  "getEdgeLabel fl transport name = schema_get fl transport (''schema/edgelabels/'' @ py_str fl name) (one_item edge_label_data)"

definition getEdgeLabels :: "(rat \<Rightarrow> string) \<Rightarrow> 'w transport \<Rightarrow> ('w, pydict list option) effect" where
  "getEdgeLabels fl transport = schema_get fl transport ''schema/edgelabels'' (items_or_none edge_label_data ''edgelabels'')"

definition getRelations :: "(rat \<Rightarrow> string) \<Rightarrow> 'w transport \<Rightarrow> ('w, string list option) effect" where
  "getRelations fl transport =
     schema_get fl transport ''schema/edgelabels'' (\<lambda>response.
       map_sum id (map_option (map (edge_relation fl))) (items_or_none edge_label_data ''edgelabels'' response))"

definition getIndexLabel :: "(rat \<Rightarrow> string) \<Rightarrow> 'w transport \<Rightarrow> pyval \<Rightarrow> ('w, pydict option) effect" where
  "getIndexLabel fl transport name = schema_get fl transport (''schema/indexlabels/'' @ py_str fl name) (one_item index_label_data)"

definition getIndexLabels :: "(rat \<Rightarrow> string) \<Rightarrow> 'w transport \<Rightarrow> ('w, pydict list option) effect" where
  "getIndexLabels fl transport = schema_get fl transport ''schema/indexlabels'' (items_or_none index_label_data ''indexlabels'')"

lemma schema_get_keeps [effect_rules]:
  "(\<And>path. effect_keeps I (transport ''GET'' path None)) \<Longrightarrow> effect_keeps I (schema_get fl transport path answer)"
  unfolding schema_get_def by (rule send_keeps)

lemma get_schema_keeps: "effect_keeps I (transport ''GET'' ''schema?format=json'' None) \<Longrightarrow> effect_keeps I (get_schema fl transport)"
  unfolding get_schema_def by (rule session_request_keeps)

end
