(* ===== verification/Mutate_Properties.thy ===== *)
theory Mutate_Properties
  imports Graph_Client Schema_Apply Tool_Session Property_Validation Backend_Capabilities
begin

text \<open>
  \<open>tools/mutate_graph_properties.py\<close>: the preview of appending and eliminating properties of one vertex
  or edge. The confirmed write is disabled, so the tool reads the schema and the target, shows what
  would change and binds a digest of the target to the plan. Sources, warnings and next actions of an
  envelope are left out.
\<close>

definition mutation_validation_error :: "string \<Rightarrow> string \<Rightarrow> pydict \<Rightarrow> reply" where
  "mutation_validation_error message suggestion details =
     envelope_err VALIDATION_ERROR message (Some suggestion) False (Some (PyDict details))"

definition blank_identifier :: "pyval \<Rightarrow> bool" where
  "blank_identifier v \<longleftrightarrow> v = PyNone \<or> (case v of PyStr s \<Rightarrow> py_strip s = [] | _ \<Rightarrow> False)"

definition mutation_input_error :: "string \<Rightarrow> string \<Rightarrow> pyval \<Rightarrow> pyval \<Rightarrow> reply option" where
  "mutation_input_error target operation i properties =
     (if target \<notin> {''vertex'', ''edge''} then
        Some (mutation_validation_error (''Unsupported target: '' @ repr_string target @ ''.'')
          (''Use target='' @ repr_string ''vertex'' @ '' or target='' @ repr_string ''edge'' @ ''.'') [(''target'', PyStr target)])
      else if operation \<notin> {''append'', ''eliminate''} then
        Some (mutation_validation_error (''Unsupported operation: '' @ repr_string operation @ ''.'')
          (''Use operation='' @ repr_string ''append'' @ '' or operation='' @ repr_string ''eliminate'' @ ''.'')
          [(''operation'', PyStr operation)])
      else if blank_identifier i then
        Some (mutation_validation_error ''id is required for property mutation.''
          ''Pass the exact vertex or edge id from query_graph_data_tool.'' [(''id'', i)])
      else case properties of
        PyDict d \<Rightarrow>
          if d = [] then Some (mutation_validation_error ''properties must be a non-empty object.''
            ''Pass the property keys and values to append or eliminate.'' [(''properties_type'', PyStr (py_type_name properties))])
          else let blank_keys = filter (\<lambda>k. k = []) (map fst d)
            in if blank_keys = [] then None
               else Some (mutation_validation_error ''properties contains blank or non-string keys.''
                 ''Use only named schema property keys.'' [(''invalid_keys'', PyList (map PyStr blank_keys))])
      | _ \<Rightarrow> Some (mutation_validation_error ''properties must be a non-empty object.''
          ''Pass the property keys and values to append or eliminate.'' [(''properties_type'', PyStr (py_type_name properties))]))"

section \<open>The target\<close>

text \<open>\<open>_graph_manager()\<close> followed by the read of the target.\<close>

definition read_target :: "'w schema_backend \<Rightarrow> string \<Rightarrow> pyval \<Rightarrow> ('w, pydict option) effect" where
  "read_target be target i =
     effect_bind (sk_connect be (from_env (sk_env be))) (\<lambda>transport.
       if target = ''vertex'' then getVertexById (sk_float_text be) transport i
       else getEdgeById (sk_float_text be) transport i)"

definition schema_fetch_error :: "'w schema_backend \<Rightarrow> py_exception \<Rightarrow> reply" where
  "schema_fetch_error be e =
     envelope_err CONNECTION_FAILED ''Cannot read live schema before property mutation.''
       (Some ''Ensure HugeGraph Server is running and retry.'') True
       (Some (PyDict [(''stage'', PyStr ''schema_fetch''), (''error'', PyStr (sk_exception_text be e))]))"

definition target_fetch_error :: "'w schema_backend \<Rightarrow> string \<Rightarrow> pyval \<Rightarrow> py_exception \<Rightarrow> reply" where
  "target_fetch_error be target i e =
     (let exc = client_error (sk_exception_text be) e; c = classify_hugegraph_exception exc
      in envelope_err (ec_error_type c) (''Cannot read target '' @ target @ '': '' @ exception_text exc)
           (Some (ec_suggestion c)) (ec_retryable c)
           (Some (PyDict [(''stage'', PyStr ''target_fetch''), (''target'', PyStr target), (''id'', i),
             (''error'', PyStr (exception_text exc)), (''reason'', PyStr (ec_reason c))])))"

definition read_schema_and_target ::
  "'w schema_backend \<Rightarrow> string \<Rightarrow> pyval \<Rightarrow> ('w, reply + pyval \<times> pydict) effect" where
  "read_schema_and_target be target i =
     effect_bind (effect_try (get_live_schema be)) (\<lambda>schema.
       case schema of
         Inl e \<Rightarrow> effect_return (Inl (schema_fetch_error be e))
       | Inr live_schema \<Rightarrow>
           effect_bind (effect_try (read_target be target i)) (\<lambda>item. effect_return (case item of
               Inl e \<Rightarrow> Inl (target_fetch_error be target i e)
             | Inr None \<Rightarrow> Inl (envelope_err NOT_FOUND
                 (''Target '' @ target @ '' not found: '' @ py_str (sk_float_text be) i)
                 (Some ''Call query_graph_data_tool to verify the target id.'') False
                 (Some (PyDict [(''target'', PyStr target), (''id'', i)])))
             | Inr (Some d) \<Rightarrow> Inr (live_schema, d))))"

section \<open>Validation against the schema\<close>

definition find_label_schema :: "pyval \<Rightarrow> pyval \<Rightarrow> pydict option" where
  "find_label_schema labels label =
     (case labels of
        PyList vs \<Rightarrow>
          List.find (\<lambda>d. py_eq (dict_get d ''name'') label)
            (List.map_filter (\<lambda>v. case v of PyDict d \<Rightarrow> Some d | _ \<Rightarrow> None) vs)
      | _ \<Rightarrow> None)"

definition value_suggestion :: "string \<Rightarrow> property_spec \<Rightarrow> string" where
  "value_suggestion name spec =
     (case spec of (data_type, cardinality) \<Rightarrow>
        if cardinality \<in> {''LIST'', ''SET''}
        then ''Pass a JSON array whose elements match '' @ data_type @ '' for '' @ cardinality @ '' property '' @
          repr_string name @ ''.''
        else ''Pass a value matching HugeGraph data type '' @ data_type @ ''.'')"

text \<open>The first property whose value does not fit its type.\<close>

fun appended_value_error ::
  "text_formats \<Rightarrow> string \<Rightarrow> (string \<times> property_spec) list \<Rightarrow> pydict \<Rightarrow> reply option" where
  "appended_value_error tf target specs [] = None"
| "appended_value_error tf target specs ((name, v) # props) =
     (case property_value_error tf target 0 name v (map_of specs name) of
        None \<Rightarrow> appended_value_error tf target specs props
      | Some message \<Rightarrow>
          Some (let spec = the (map_of specs name) in mutation_validation_error message (value_suggestion name spec)
            [(''property'', PyStr name), (''data_type'', PyStr (fst spec)), (''cardinality'', PyStr (snd spec)),
             (''value_type'', PyStr (py_type_name v))]))"

definition mutation_schema_error ::
  "(rat \<Rightarrow> string) \<Rightarrow> text_formats \<Rightarrow> string \<Rightarrow> pydict \<Rightarrow> string \<Rightarrow> pydict \<Rightarrow> pyval \<Rightarrow> reply option" where
  "mutation_schema_error fl tf target item operation props live_schema =
     (case schema_payload live_schema of
        None \<Rightarrow> Some (envelope_err SCHEMA_MISMATCH ''Live schema response is not a schema object.'' None False None)
      | Some raw \<Rightarrow>
          let label = dict_get item ''label'' in
          if \<not> py_truthy label
          then Some (envelope_err SCHEMA_MISMATCH ''Target item has no label; cannot validate property keys.'' None False
            (Some (PyDict [(''target_item'', PyDict item)])))
          else case find_label_schema (dict_get raw (if target = ''vertex'' then ''vertexlabels'' else ''edgelabels'')) label of
            None \<Rightarrow> Some (envelope_err SCHEMA_MISMATCH (''Target label is not present in live schema: '' @ py_str fl label) None
              False (Some (PyDict [(''label'', label), (''target'', PyStr target)])))
          | Some label_schema \<Rightarrow>
              let unknown = sort (filter (\<lambda>k. k \<notin> property_names (dict_get label_schema ''properties'')) (map fst props))
              in if unknown \<noteq> []
                 then Some (envelope_err SCHEMA_MISMATCH
                   ''Property mutation references keys not defined on the target label.''
                   (Some ''Use only properties defined on the target vertex or edge label.'') False
                   (Some (PyDict [(''label'', label), (''unknown_properties'', PyList (map PyStr unknown))])))
                 else if operation = ''append'' then appended_value_error tf target (property_specs fl live_schema) props
                 else None)"

section \<open>The preview\<close>

definition existing_collection :: "pyval \<Rightarrow> pyval list" where
  "existing_collection v = (case v of PyNone \<Rightarrow> [] | PyList vs \<Rightarrow> vs | _ \<Rightarrow> [v])"

definition stable_unique :: "pyval list \<Rightarrow> pyval list" where
  "stable_unique vs = foldl (\<lambda>result v. if list_ex (\<lambda>existing. py_eq existing v) result then result else result @ [v]) [] vs"

text \<open>\<open>[*a, *value]\<close> unpacks any iterable and raises \<open>TypeError\<close> otherwise.\<close>

definition append_property ::
  "(string \<times> string) list \<Rightarrow> pydict \<Rightarrow> string \<times> pyval \<Rightarrow> py_exception + pydict" where
  "append_property cardinalities props item =
     (case item of (name, v) \<Rightarrow>
        let cardinality = (case map_of cardinalities name of Some c \<Rightarrow> c | None \<Rightarrow> ''SINGLE'');
            existing = existing_collection (dict_get props name)
        in if cardinality = ''LIST''
           then and_then (loop_over v) (\<lambda>vs. Inr (AList.update name (PyList (existing @ vs)) props))
           else if cardinality = ''SET''
           then and_then (loop_over v) (\<lambda>vs. Inr (AList.update name (PyList (stable_unique (existing @ vs))) props))
           else Inr (AList.update name v props))"

fun append_properties ::
  "(string \<times> string) list \<Rightarrow> pydict \<Rightarrow> pydict \<Rightarrow> py_exception + pydict" where
  "append_properties cardinalities props [] = Inr props"
| "append_properties cardinalities props (item # items) =
     and_then (append_property cardinalities props item) (\<lambda>props'. append_properties cardinalities props' items)"

definition property_preview ::
  "(string \<times> string) list \<Rightarrow> string \<Rightarrow> pydict \<Rightarrow> pydict \<Rightarrow> py_exception + pydict" where
  "property_preview cardinalities operation before_properties props =
     (if operation = ''append'' then append_properties cardinalities before_properties props
      else Inr (filter (\<lambda>(k, _). k \<notin> set (map fst props)) before_properties))"

text \<open>
  \<open>dict(before.get("properties") or {})\<close>. The server answers with an object; that \<open>dict\<close> also accepts a
  list of pairs is not modelled.
\<close>

definition properties_before :: "pydict \<Rightarrow> py_exception + pydict" where
  "properties_before item =
     (let v = dict_get item ''properties'' in
      if \<not> py_truthy v then Inr []
      else case v of PyDict d \<Rightarrow> Inr d | PyStr _ \<Rightarrow> Inl (RaisesValue []) | PyList _ \<Rightarrow> Inl (RaisesValue []) | _ \<Rightarrow> Inl RaisesType)"

definition mutation_summary_of :: "string \<Rightarrow> string \<Rightarrow> pyval \<Rightarrow> pydict \<Rightarrow> pydict" where
  "mutation_summary_of target operation i props =
     [(''target'', PyStr target), (''operation'', PyStr operation), (''id'', i),
      (''property_keys'', PyList (map PyStr (sort (map fst props))))]"

section \<open>The plan\<close>

definition nonce_with_snapshot :: "string \<Rightarrow> string option \<Rightarrow> string \<Rightarrow> string" where
  "nonce_with_snapshot fresh nonce snapshot_digest =
     (let base = (case nonce of Some n \<Rightarrow> if n = [] then fresh else py_strip n | None \<Rightarrow> fresh)
      in if py_contains ''|ts:'' base then base else base @ ''|ts:'' @ take 16 snapshot_digest)"

definition mutation_payload_digest :: "(pyval \<Rightarrow> string) \<Rightarrow> string \<Rightarrow> string \<Rightarrow> pyval \<Rightarrow> pydict \<Rightarrow> string" where
  "mutation_payload_digest sha target operation i props =
     compute_payload_digest sha (PyDict [(''target'', PyStr target), (''operation'', PyStr operation), (''id'', i),
       (''properties'', PyDict props)])"

definition mutation_schema_hash :: "(pyval \<Rightarrow> string) \<Rightarrow> pyval \<Rightarrow> string option" where
  "mutation_schema_hash sha live_schema =
     map_option (\<lambda>summary. compute_payload_digest sha (PyDict summary)) (normalized_schema_summary live_schema False)"

definition mutation_plan_context ::
  "tool_inputs \<Rightarrow> mcp_config \<Rightarrow> string \<Rightarrow> string \<Rightarrow> pyval \<Rightarrow> pydict \<Rightarrow> pyval \<Rightarrow> string \<Rightarrow> string \<Rightarrow> plan_context" where
  "mutation_plan_context ti cfg target operation i props live_schema snapshot_digest nonce =
     fst (build_plan_context (ti_sha ti) cfg (ti_now ti 0) (ti_nonce ti) ''mutate_graph_properties_tool'' ''mutate''
       (mutation_payload_digest (ti_sha ti) target operation i props) (mutation_schema_hash (ti_sha ti) live_schema)
       (Some nonce) DEFAULT_PLAN_TTL_SECONDS
       (Some [(''target'', PyStr target), (''operation'', PyStr operation), (''target_snapshot_digest'', PyStr snapshot_digest)]))"

definition mutation_payload ::
  "tool_inputs \<Rightarrow> mcp_config \<Rightarrow> string \<Rightarrow> string \<Rightarrow> pyval \<Rightarrow> pydict \<Rightarrow> pyval \<Rightarrow> string option \<Rightarrow> pydict \<Rightarrow> pydict \<Rightarrow> pydict" where
  "mutation_payload ti cfg target operation i props live_schema nonce item after_properties =
     (let snapshot = compute_payload_digest (ti_sha ti) (PyDict item);
          after_item = AList.update ''properties'' (PyDict after_properties) item;
          context = mutation_plan_context ti cfg target operation i props live_schema snapshot
            (nonce_with_snapshot (ti_nonce ti) nonce snapshot);
          h = compute_plan_hash (ti_sha ti) context
      in [(''target'', PyStr target), (''operation'', PyStr operation), (''id'', i), (''properties'', PyDict props),
          (''mutation_summary'', PyDict (mutation_summary_of target operation i props)),
          (''risk_level'', PyStr (if operation = ''eliminate'' then ''high'' else ''medium'')),
          (''before'', PyDict item), (''after'', PyDict after_item), (''plan_hash'', PyStr h),
          (''plan_context'', PyDict (plan_context_payload context)), (''status'', PyStr (plan_status_value ISSUED)),
          (''confirmable'', PyBool False),
          (''cas_request'', PyDict [(''target_type'', PyStr target), (''target_id'', i),
            (''expected_properties'', get_default item ''properties'' (PyDict [])),
            (''desired_properties'', PyDict after_properties),
            (''operation_id'', PyStr (''property-cas:'' @ take 24 h))])])"

section \<open>The tool\<close>

definition property_cas_evidence :: capability_evidence where
  "property_cas_evidence =
     (case profile_for ''1.7.0'' ''rocksdb'' of
        Inr profile \<Rightarrow> evidence_for profile PROPERTY_COMPARE_AND_SET
      | Inl _ \<Rightarrow> unknown_evidence ''Feature is absent from the profile'' [])"

definition support_status_value :: "support_status \<Rightarrow> string" where
  "support_status_value st =
     (case st of VERIFIED_SUPPORTED \<Rightarrow> ''verified_supported'' | VERIFIED_UNSUPPORTED \<Rightarrow> ''verified_unsupported''
      | UNKNOWN_SUPPORT \<Rightarrow> ''unknown'')"

definition mutation_disabled :: "string \<Rightarrow> pyval \<Rightarrow> reply" where
  "mutation_disabled target i =
     envelope_err FEATURE_DISABLED
       (''Confirmed property mutation is disabled because HugeGraph does not expose atomic compare-and-set updates.'')
       (Some (''Add a backend-enforced conditional property replacement API that compares '' @
         ''the expected state and writes the desired state in one atomic operation.'')) False
       (Some (PyDict [(''target'', PyStr target), (''id'', i),
         (''status'', PyStr (plan_status_value (aggregate_plan_status [apply_status.REJECTED]))),
         (''required_capability'', PyStr ''conditional_property_compare_and_set''),
         (''backend_capability'', PyStr ''property_compare_and_set''),
         (''capability_status'', PyStr (support_status_value (ce_status property_cas_evidence))),
         (''capability_evidence'', PyStr (ce_reason property_cas_evidence)), (''write_attempted'', PyBool False)]))"

text \<open>What is answered once the target is read: everything but the preview itself is decided here.\<close>

definition answer_mutation ::
  "tool_inputs \<Rightarrow> 'w schema_backend \<Rightarrow> text_formats \<Rightarrow> string \<Rightarrow> string \<Rightarrow> pyval \<Rightarrow> pydict \<Rightarrow> bool \<Rightarrow> bool \<Rightarrow> string option \<Rightarrow>
     pyval \<Rightarrow> pydict \<Rightarrow> py_exception + reply" where
  "answer_mutation ti be tf target operation i props dry confirmed nonce live_schema item =
     (let fl = sk_float_text be; cfg = from_env (sk_env be) in
      case mutation_schema_error fl tf target item operation props live_schema of
        Some r \<Rightarrow> Inr r
      | None \<Rightarrow>
          and_then (properties_before item) (\<lambda>before_properties.
          and_then (property_preview (property_cardinalities fl live_schema) operation before_properties props) (\<lambda>after_properties.
            let payload = mutation_payload ti cfg target operation i props live_schema nonce item after_properties in
            Inr (if dry then envelope_ok (PyDict (if cf_readonly cfg then fst (mark_readonly_preview payload [] []) else payload))
              else case guard DATA_WRITE cfg of
                Some r \<Rightarrow> r
              | None \<Rightarrow>
                  if \<not> confirmed
                  then confirm_required_error ''Property mutations require confirm=True after dry_run.''
                    (''Run dry_run=True, review the preview, then pass confirm=True with plan_hash, nonce, and expires_at.'')
                  else mutation_disabled target i))))"

text \<open>The plan hash and the expiry of a confirmation are accepted and ignored.\<close>

definition mutate_graph_properties ::
  "tool_inputs \<Rightarrow> 'w schema_backend \<Rightarrow> text_formats \<Rightarrow> string \<Rightarrow> string \<Rightarrow> pyval \<Rightarrow> pyval \<Rightarrow> bool \<Rightarrow> bool \<Rightarrow> string option \<Rightarrow>
     ('w, reply) effect" where
  "mutate_graph_properties ti be tf target operation i properties dry confirmed nonce =
     (case mutation_input_error target operation i properties of
        Some r \<Rightarrow> effect_return r
      | None \<Rightarrow>
          effect_bind (read_schema_and_target be target i) (\<lambda>fetched.
            case fetched of
              Inl r \<Rightarrow> effect_return r
            | Inr (live_schema, item) \<Rightarrow>
                effect_of (answer_mutation ti be tf target operation i
                  (case properties of PyDict d \<Rightarrow> d | _ \<Rightarrow> []) dry confirmed nonce live_schema item)))"

end
