(* ===== verification/Mutation_Properties.thy ===== *)
theory Mutation_Properties
  imports Mutate_Properties Graph_Compilation
begin

text \<open>
  What the property tool promises: it never writes, its preview is the requested change and nothing else,
  and one request for which it raises.
\<close>

section \<open>It never writes\<close>

lemma read_target_keeps [effect_rules]: "schema_reads_keep I be \<Longrightarrow> effect_keeps I (read_target be target i)"
  unfolding read_target_def by (rule connected_reads_keep) (auto intro!: effect_rules)

lemma mutate_keeps:
  assumes "schema_reads_keep I be"
  shows "effect_keeps I (mutate_graph_properties ti be tf target operation i properties dry confirmed nonce)"
  unfolding mutate_graph_properties_def read_schema_and_target_def using assms by (intro effect_rules)

lemma appended_value_not_ok: "appended_value_error tf target specs props = Some e \<Longrightarrow> \<not> reply_is_ok e"
  by (induction props) (auto simp: mutation_validation_error_def Let_def split: option.split_asm)

lemma answer_mutation_not_ok:
  assumes "answer_mutation ti be tf target operation i props False confirmed nonce live_schema item = Inr r"
  shows "\<not> reply_is_ok r"
proof -
  have schema: "\<not> reply_is_ok e" if "mutation_schema_error fl tf target item operation props live = Some e" for fl live e
    using that appended_value_not_ok
    by (auto simp: mutation_schema_error_def Let_def split: option.split_asm if_split_asm)
  have "\<not> reply_is_ok e" if "guard DATA_WRITE cfg = Some e" for cfg e
    using that by (auto simp: guard_not_ok)
  then show ?thesis
    using assms schema
    by (auto simp: answer_mutation_def and_then_eq_Inr confirm_required_error_def mutation_disabled_def Let_def
        split: option.split_asm if_split_asm)
qed

lemma mutation_input_not_ok: "mutation_input_error target operation i properties = Some r \<Longrightarrow> \<not> reply_is_ok r"
  by (auto simp: mutation_input_error_def mutation_validation_error_def Let_def split: if_split_asm pyval.split_asm)

lemma fetch_not_ok:
  "effect_ensures (\<lambda>x. \<forall>e. x = Inl e \<longrightarrow> \<not> reply_is_ok e) (read_schema_and_target be target i)"
  unfolding read_schema_and_target_def
  by (auto intro!: effect_ensures_bind [where Q = "\<lambda>_. True", OF effect_ensures_any]
      simp: schema_fetch_error_def target_fetch_error_def Let_def split: sum.split option.split)

text \<open>
  C27: the property tool never writes. Whatever property of the world is kept by connecting and by GET
  requests is kept by every call, also by one that confirms, and only a dry run is ever answered with
  success.
\<close>

theorem property_mutation_never_writes:
  assumes "schema_reads_keep I be" "I w"
    and "mutate_graph_properties ti be tf target operation i properties dry confirmed nonce w = (r, w')"
  shows "I w' \<and> (\<forall>reply. r = Inr reply \<and> reply_is_ok reply \<longrightarrow> dry)"
proof -
  have "I w'"
    using keepsD [OF mutate_keeps [OF assms(1), of ti tf target operation i properties dry confirmed nonce] assms(2)]
      assms(3) by simp
  moreover have "dry" if "r = Inr reply" "reply_is_ok reply" for reply
  proof (rule ccontr)
    assume "\<not> dry"
    with assms(3) that mutation_input_not_ok [of target operation i properties reply]
    obtain fetched w1 where f: "read_schema_and_target be target i w = (Inr fetched, w1)"
        "(case fetched of Inl r \<Rightarrow> effect_return r | Inr (live_schema, item) \<Rightarrow>
            effect_of (answer_mutation ti be tf target operation i
              (case properties of PyDict d \<Rightarrow> d | _ \<Rightarrow> []) False confirmed nonce live_schema item)) w1 = (Inr reply, w')"
      by (auto simp: mutate_graph_properties_def effect_bind_Inr effect_return_def split: option.split_asm)
    then show False
    proof (cases fetched)
      case (Inl e)
      then show ?thesis using f that(2) fetch_not_ok [of be target i] by (auto simp: effect_ensures_def effect_return_def)
    next
      case (Inr p)
      obtain live_schema item where "p = (live_schema, item)" by fastforce
      with Inr f(2) that(2) show ?thesis by (auto simp: effect_of_def dest: answer_mutation_not_ok)
    qed
  qed
  ultimately show ?thesis by blast
qed

text \<open>A server with one person, whose world is whether it has seen nothing but GET requests.\<close>

definition person_vertex :: pyval where
  "person_vertex = PyDict [(''id'', PyInt 7), (''label'', PyStr ''person''), (''type'', PyStr ''vertex''),
     (''properties'', PyDict [(''name'', PyStr ''a'')])]"

definition one_person_server :: "bool schema_backend" where
  "one_person_server =
     \<lparr>sk_env = (\<lambda>_. None),
      sk_connect = (\<lambda>_. effect_return (\<lambda>method path body w.
        (Inr \<lparr>ha_status = 200, ha_json = Some (if take 14 path = ''graph/vertices'' then person_vertex else social_schema),
           ha_text = [], ha_content = []\<rparr>, w \<and> method = ''GET''))),
      sk_float_text = (\<lambda>_. []), sk_exception_text = (\<lambda>_. []), sk_set_order = (\<lambda>vs. vs)\<rparr>"

definition preview_inputs :: tool_inputs where
  "preview_inputs =
     \<lparr>ti_sha = (\<lambda>_. ''h''), ti_digest = (\<lambda>s. s), ti_nonce = ''n'', ti_uuid = ''u'', ti_now = (\<lambda>_. 0),
      ti_disk = (\<lambda>_. True), ti_store_failure = None\<rparr>"

theorem property_mutation_never_writes_witness:
  "snd (mutate_graph_properties preview_inputs one_person_server sample_formats ''vertex'' ''eliminate'' (PyInt 7)
     (PyDict [(''name'', PyStr ''a'')]) False True None True)"
proof -
  have "schema_reads_keep (\<lambda>w. w) one_person_server"
    by (auto simp: schema_reads_keep_def one_person_server_def effect_keeps_def effect_return_def)
  from property_mutation_never_writes [OF this TrueI prod.collapse [symmetric]] show ?thesis by blast
qed

section \<open>The preview is the requested change\<close>

definition cardinality_of :: "(string \<times> string) list \<Rightarrow> string \<Rightarrow> string" where
  "cardinality_of cardinalities name = (case map_of cardinalities name of Some c \<Rightarrow> c | None \<Rightarrow> ''SINGLE'')"

text \<open>The value a property has after \<open>v\<close> is appended to \<open>old\<close>.\<close>

definition appended :: "string \<Rightarrow> pyval \<Rightarrow> pyval \<Rightarrow> pyval \<Rightarrow> bool" where
  "appended cardinality old v x \<longleftrightarrow>
     (if cardinality = ''LIST'' then \<exists>items. iterate v = Some items \<and> x = PyList (existing_collection old @ items)
      else if cardinality = ''SET'' then
        \<exists>items xs. iterate v = Some items \<and> x = PyList xs \<and> sorted_wrt (\<lambda>a b. \<not> py_eq a b) xs \<and>
          set xs \<subseteq> set (existing_collection old @ items) \<and>
          (\<forall>y \<in> set (existing_collection old @ items). y \<in> set xs \<or> (\<exists>z \<in> set xs. py_eq z y))
      else x = v)"

lemma stable_unique_append:
  "foldl (\<lambda>result v. if list_ex (\<lambda>e. py_eq e v) result then result else result @ [v]) xs vs = ys \<Longrightarrow>
     sorted_wrt (\<lambda>a b. \<not> py_eq a b) xs \<Longrightarrow>
     sorted_wrt (\<lambda>a b. \<not> py_eq a b) ys \<and> set xs \<subseteq> set ys \<and> set ys \<subseteq> set xs \<union> set vs \<and>
       (\<forall>y \<in> set vs. y \<in> set ys \<or> (\<exists>z \<in> set ys. py_eq z y))"
proof (induction vs arbitrary: xs)
  case (Cons v vs)
  show ?case
  proof (cases "list_ex (\<lambda>e. py_eq e v) xs")
    case True
    then show ?thesis using Cons.IH [of xs] Cons.prems by (auto simp: list_ex_iff)
  next
    case False
    then have "sorted_wrt (\<lambda>a b. \<not> py_eq a b) (xs @ [v])"
      using Cons.prems(2) by (auto simp: sorted_wrt_append list_ex_iff)
    then show ?thesis using Cons.IH [of "xs @ [v]"] Cons.prems(1) False by auto
  qed
qed simp

lemma stable_unique_values:
  "sorted_wrt (\<lambda>a b. \<not> py_eq a b) (stable_unique vs) \<and> set (stable_unique vs) \<subseteq> set vs \<and>
     (\<forall>y \<in> set vs. y \<in> set (stable_unique vs) \<or> (\<exists>z \<in> set (stable_unique vs). py_eq z y))"
  using stable_unique_append [of "[]" vs, OF refl] by (simp add: stable_unique_def)

lemma append_property_Inr:
  assumes "append_property cardinalities props (name, v) = Inr props'"
  shows "\<exists>x. props' = AList.update name x props \<and> appended (cardinality_of cardinalities name) (dict_get props name) v x"
  using assms stable_unique_values [of "existing_collection (dict_get props name) @ the (iterate v)"]
  unfolding append_property_def appended_def cardinality_of_def [symmetric] Let_def prod.case
  by (fastforce simp: loop_over_def and_then_eq_Inr split: if_split_asm option.split_asm)

lemma append_properties_Inr:
  assumes "append_properties cardinalities props items = Inr props'" "distinct (map fst items)"
  shows "case map_of items k of
      None \<Rightarrow> map_of props' k = map_of props k
    | Some v \<Rightarrow> \<exists>x. map_of props' k = Some x \<and> appended (cardinality_of cardinalities k) (dict_get props k) v x"
  using assms
proof (induction items arbitrary: props)
  case (Cons item items)
  obtain name v where item: "item = (name, v)" by fastforce
  with Cons.prems obtain props1 where p: "append_property cardinalities props (name, v) = Inr props1"
      "append_properties cardinalities props1 items = Inr props'"
    by (auto simp: and_then_eq_Inr)
  obtain x where x: "props1 = AList.update name x props" "appended (cardinality_of cardinalities name) (dict_get props name) v x"
    using append_property_Inr [OF p(1)] by blast
  have "name \<notin> set (map fst items)" using Cons.prems(2) item by simp
  then have "map_of items name = None" by (simp add: map_of_eq_None_iff)
  then show ?case
    using Cons.IH [OF p(2)] Cons.prems(2) x item
    by (auto simp: update_conv' dict_get_def split: option.split_asm option.split)
qed simp

lemma map_of_filter_keys: "map_of (filter (\<lambda>(k, _). k \<notin> S) d) k = (if k \<in> S then None else map_of d k)"
  by (induction d) auto

text \<open>
  C28: the preview is the requested change. After an elimination the named properties are gone, after
  an append a property of cardinality LIST holds its old values and the new ones, one of cardinality SET
  holds every old and new value once, any other the new value; every property that is not named is as
  before.
\<close>

theorem preview_is_the_requested_change:
  assumes "property_preview cardinalities operation before_properties props = Inr after_properties" "distinct (map fst props)"
  shows "case map_of props k of
      None \<Rightarrow> map_of after_properties k = map_of before_properties k
    | Some v \<Rightarrow>
        if operation = ''append''
        then \<exists>x. map_of after_properties k = Some x \<and>
          appended (cardinality_of cardinalities k) (dict_get before_properties k) v x
        else map_of after_properties k = None"
proof (cases "operation = ''append''")
  case True
  then show ?thesis
    using append_properties_Inr [OF _ assms(2), of cardinalities before_properties after_properties k] assms(1)
    by (auto simp: property_preview_def split: option.splits)
next
  case False
  then have "after_properties = filter (\<lambda>(k, _). k \<notin> set (map fst props)) before_properties"
    using assms(1) by (simp add: property_preview_def)
  then have "map_of after_properties k = (if k \<in> set (map fst props) then None else map_of before_properties k)"
    by (simp only: map_of_filter_keys)
  then show ?thesis using False map_of_SomeD [of props k] by (force simp: map_of_eq_None_iff split: option.split)
qed

theorem preview_is_the_requested_change_witness:
  "map_of (case property_preview [(''tags'', ''LIST'')] ''append'' [(''tags'', PyList [PyInt 1]), (''name'', PyStr ''a'')]
      [(''tags'', PyList [PyInt 1, PyInt 2])] of Inr d \<Rightarrow> d | Inl _ \<Rightarrow> []) ''tags'' = Some (PyList [PyInt 1, PyInt 1, PyInt 2])"
proof -
  have run: "property_preview [(''tags'', ''LIST'')] ''append'' [(''tags'', PyList [PyInt 1]), (''name'', PyStr ''a'')]
      [(''tags'', PyList [PyInt 1, PyInt 2])] = Inr [(''tags'', PyList [PyInt 1, PyInt 1, PyInt 2]), (''name'', PyStr ''a'')]"
    by code_simp
  then show ?thesis using preview_is_the_requested_change [OF run, of "''tags''"]
    by (auto simp: appended_def cardinality_of_def existing_collection_def dict_get_def)
qed

section \<open>A request that raises\<close>

text \<open>
  No value is a value of every type: a property that is appended may be \<open>null\<close>. The preview of a
  property with several values unpacks it, so the tool raises instead of answering.
\<close>

theorem appended_null_raises:
  assumes "mutation_schema_error (sk_float_text be) tf target item ''append'' [(name, PyNone)] live_schema = None"
    and "map_of (property_cardinalities (sk_float_text be) live_schema) name = Some cardinality" "cardinality \<in> {''LIST'', ''SET''}"
    and "properties_before item = Inr d"
  shows "answer_mutation ti be tf target ''append'' i [(name, PyNone)] dry confirmed nonce live_schema item = Inl RaisesType"
  using assms by (auto simp: answer_mutation_def property_preview_def append_property_def loop_over_def Let_def)

end
