(* ===== verification/Query_Graph_Data.thy ===== *)
theory Query_Graph_Data
  imports Graph_Client Schema_Apply Gremlin_Tools
begin

text \<open>
  \<open>tools/query_graph_data.py\<close>: the typed query of vertices and edges over \<open>GraphManager\<close>. The label,
  the page, the direction are texts or absent, as their annotations say; the other arguments are JSON
  values. Warnings and next actions of an envelope are left out.
\<close>

section \<open>The request\<close>

definition QUERY_DEFAULT_LIMIT :: int where "QUERY_DEFAULT_LIMIT = 100"

definition QUERY_MAX_LIMIT :: int where "QUERY_MAX_LIMIT = 500"

definition VALID_DIRECTIONS :: "string list" where "VALID_DIRECTIONS = [''OUT'', ''IN'', ''BOTH'']"

record graph_query =
  gq_target :: string
  gq_operation :: string
  gq_id :: pyval
  gq_ids :: pyval
  gq_label :: "string option"
  gq_properties :: pyval
  gq_limit :: pyval
  gq_page :: "string option"
  gq_vertex_id :: pyval
  gq_direction :: "string option"

definition query_validation_error :: "string \<Rightarrow> string \<Rightarrow> pydict \<Rightarrow> reply" where
  "query_validation_error message suggestion details =
     envelope_err VALIDATION_ERROR message (Some suggestion) False (Some (PyDict details))"

definition is_blank :: "pyval \<Rightarrow> bool" where
  "is_blank v \<longleftrightarrow> v = PyNone \<or> (case v of PyStr s \<Rightarrow> py_strip s = [] | _ \<Rightarrow> False)"

definition normalize_direction :: "string option \<Rightarrow> string option" where
  "normalize_direction direction =
     (case direction of
        None \<Rightarrow> None
      | Some d \<Rightarrow> let upper = py_upper (py_strip d) in if upper \<in> set VALID_DIRECTIONS then Some upper else None)"

text \<open>\<open>int(inf)\<close> raises an \<open>OverflowError\<close> that is not caught.\<close>

definition validate_limit :: "pyval \<Rightarrow> py_exception + reply option" where
  "validate_limit limit =
     (if limit = PyNone then Inr None
      else case py_int limit of
        Inl IntOverflowError \<Rightarrow> Inl RaisesOverflow
      | Inl _ \<Rightarrow> Inr (Some (query_validation_error ''limit must be an integer.''
          (''Pass an integer from 1 to '' @ show_int QUERY_MAX_LIMIT @ ''.'') [(''limit'', limit)]))
      | Inr parsed \<Rightarrow>
          if parsed < 1
          then Inr (Some (query_validation_error ''limit must be at least 1.''
            (''Pass an integer from 1 to '' @ show_int QUERY_MAX_LIMIT @ ''.'') [(''limit'', limit)]))
          else if parsed > QUERY_MAX_LIMIT
          then Inr (Some (query_validation_error (''limit exceeds maximum '' @ show_int QUERY_MAX_LIMIT @ ''.'')
            ''Reduce limit or use page to continue reading.'' [(''limit'', limit), (''max'', PyInt QUERY_MAX_LIMIT)]))
          else Inr None)"

definition query_vertex_id_error :: "pyval \<Rightarrow> string \<Rightarrow> reply option" where
  "query_vertex_id_error v place =
     (case format_vertex_id v of
        Inl e \<Rightarrow> Some (query_validation_error (''Invalid vertex id in '' @ place @ '': '' @ id_failure_text e)
          ''Pass a HugeGraph vertex id as a string, UUID, or Java signed 64-bit integer.''
          [(''field'', PyStr place), (''id_type'', PyStr (py_type_name v)), (''reason'', PyStr (id_failure_text e))])
      | Inr _ \<Rightarrow> None)"

fun query_vertex_ids_error :: "nat \<Rightarrow> pyval list \<Rightarrow> reply option" where
  "query_vertex_ids_error n [] = None"
| "query_vertex_ids_error n (v # vs) =
     (case query_vertex_id_error v (''ids['' @ show_nat n @ '']'') of
        Some e \<Rightarrow> Some e
      | None \<Rightarrow> query_vertex_ids_error (Suc n) vs)"

definition query_id_error :: "graph_query \<Rightarrow> reply option" where
  "query_id_error q =
     (if gq_operation q \<noteq> ''get_by_id'' then None
      else if is_blank (gq_id q) then Some (query_validation_error ''id is required for operation='get_by_id'.''
        ''Pass the exact vertex or edge id.'' [(''operation'', PyStr (gq_operation q))])
      else if gq_target q = ''vertex'' then query_vertex_id_error (gq_id q) ''id''
      else None)"

definition query_ids_error :: "graph_query \<Rightarrow> reply option" where
  "query_ids_error q =
     (let no_ids = query_validation_error ''ids must be a non-empty list for operation='get_by_ids'.''
            ''Pass one or more exact vertex or edge ids.'' [(''operation'', PyStr (gq_operation q))]
      in if gq_operation q \<noteq> ''get_by_ids'' then None
      else case gq_ids q of
        PyList ids \<Rightarrow>
          if ids = [] then Some no_ids
          else if list_ex is_blank ids
          then Some (query_validation_error ''ids cannot contain empty values.'' ''Remove null or empty ids before querying.''
            [(''ids'', gq_ids q)])
          else if int (length ids) > QUERY_MAX_LIMIT
          then Some (query_validation_error (''ids length exceeds maximum '' @ show_int QUERY_MAX_LIMIT @ ''.'')
            ''Split the request into smaller batches.''
            [(''ids_length'', PyInt (int (length ids))), (''max'', PyInt QUERY_MAX_LIMIT)])
          else if gq_target q = ''vertex'' then query_vertex_ids_error 0 ids
          else None
      | _ \<Rightarrow> Some no_ids)"

definition query_label_error :: "graph_query \<Rightarrow> reply option" where
  "query_label_error q =
     (if gq_operation q = ''page'' \<and> gq_target q = ''vertex'' \<and> is_blank (opt_str (gq_label q))
      then Some (query_validation_error ''label is required for vertex page queries.''
        ''Pass a vertex label or use operation='condition'.''
        [(''target'', PyStr (gq_target q)), (''operation'', PyStr (gq_operation q))])
      else None)"

definition query_properties_error :: "graph_query \<Rightarrow> reply option" where
  "query_properties_error q =
     (if gq_properties q \<noteq> PyNone \<and> (case gq_properties q of PyDict _ \<Rightarrow> False | _ \<Rightarrow> True)
      then Some (query_validation_error ''properties must be an object when provided.''
        ''Pass exact-match property filters as a JSON object.'' [(''properties_type'', PyStr (py_type_name (gq_properties q)))])
      else if gq_operation q = ''condition'' \<and> \<not> py_truthy (gq_properties q)
      then Some (query_validation_error ''properties is required for operation='condition'.''
        ''Pass exact-match property filters, or use operation='page' for bounded scans.''
        [(''operation'', PyStr (gq_operation q)), (''properties'', gq_properties q)])
      else None)"

definition query_direction_error :: "graph_query \<Rightarrow> reply option" where
  "query_direction_error q =
     (let vertex = (''vertex_id'', gq_vertex_id q); dir = (''direction'', opt_str (gq_direction q));
          usage = ''Pass direction='OUT', 'IN', or 'BOTH'.''
      in if gq_target q \<noteq> ''edge'' \<or> gq_operation q \<notin> {''page'', ''condition''} then None
      else if gq_operation q = ''page'' \<and> gq_vertex_id q \<noteq> PyNone \<and> \<not> is_blank (opt_str (gq_page q))
      then Some (query_validation_error ''vertex_id and page cannot be combined for edge page queries.''
        (''For a vertex-scoped query, pass vertex_id and direction without '' @
         ''page. For ordinary pagination, pass page without vertex_id.'') [vertex, (''page'', opt_str (gq_page q))])
      else if gq_vertex_id q \<noteq> PyNone \<and> gq_direction q = None
      then Some (query_validation_error ''direction is required when querying edges by vertex_id.'' usage [vertex, dir])
      else if gq_vertex_id q \<noteq> PyNone \<and> normalize_direction (gq_direction q) = None
      then Some (query_validation_error (''Unsupported direction: '' @ repr_string (the (gq_direction q)) @ ''.'') usage [vertex, dir])
      else if gq_vertex_id q = PyNone \<and> gq_direction q \<noteq> None
      then Some (query_validation_error ''direction requires vertex_id for edge queries.''
        ''Pass vertex_id together with direction, or omit direction.'' [dir])
      else None)"

definition first_error :: "reply option list \<Rightarrow> reply option" where
  "first_error rs = (case List.map_filter id rs of [] \<Rightarrow> None | r # _ \<Rightarrow> Some r)"

definition validate_query :: "graph_query \<Rightarrow> py_exception + reply option" where
  "validate_query q =
     (if gq_target q \<notin> {''vertex'', ''edge''}
      then Inr (Some (query_validation_error (''Unsupported target: '' @ repr_string (gq_target q) @ ''.'')
        ''Use target='vertex' or target='edge'.'' [(''target'', PyStr (gq_target q))]))
      else if gq_operation q \<notin> {''get_by_id'', ''get_by_ids'', ''page'', ''condition''}
      then Inr (Some (query_validation_error (''Unsupported operation: '' @ repr_string (gq_operation q) @ ''.'')
        ''Use one of: get_by_id, get_by_ids, page, condition.'' [(''operation'', PyStr (gq_operation q))]))
      else and_then (validate_limit (gq_limit q)) (\<lambda>limit_error. Inr (first_error
        [limit_error, query_id_error q, query_ids_error q,
         query_label_error q,
         query_properties_error q, query_direction_error q])))"

section \<open>Identifiers of a batch\<close>

text \<open>The type and the JSON text of an identifier, which its canonical form stands for.\<close>

definition id_dedupe_key :: "pyval \<Rightarrow> string \<times> pyval" where
  "id_dedupe_key v = (py_type_name v, canonicalize v)"

fun normalize_ids :: "(string \<times> pyval) set \<Rightarrow> pyval list \<Rightarrow> pyval list" where
  "normalize_ids seen [] = []"
| "normalize_ids seen (v # vs) =
     (if id_dedupe_key v \<in> seen then normalize_ids seen vs
      else v # normalize_ids (insert (id_dedupe_key v) seen) vs)"

section \<open>The query\<close>

text \<open>What the manager answered: nothing, one item or a list of items.\<close>

definition one_result :: "pydict option \<Rightarrow> pydict list \<times> pyval" where
  "one_result item = (case item of None \<Rightarrow> [] | Some d \<Rightarrow> [d], PyNone)"

definition list_result :: "pydict list option \<Rightarrow> pydict list \<times> pyval" where
  "list_result items = (case items of None \<Rightarrow> [] | Some ds \<Rightarrow> ds, PyNone)"

definition page_result :: "pydict list option \<times> pyval \<Rightarrow> pydict list \<times> pyval" where
  "page_result r = (case fst r of None \<Rightarrow> [] | Some ds \<Rightarrow> ds, snd r)"

definition execute_vertex_query ::
  "(rat \<Rightarrow> string) \<Rightarrow> 'w transport \<Rightarrow> graph_query \<Rightarrow> pyval list \<Rightarrow> int \<Rightarrow> ('w, pydict list \<times> pyval) effect" where
  "execute_vertex_query fl transport q ids limit =
     (if gq_operation q = ''get_by_id'' then effect_bind (getVertexById fl transport (gq_id q)) (\<lambda>r. effect_return (one_result r))
      else if gq_operation q = ''get_by_ids''
      then effect_bind (getVerticesById fl transport ids) (\<lambda>r. effect_return (list_result r))
      else if gq_operation q = ''page''
      then effect_bind (getVertexByPage fl transport (opt_str (gq_label q)) limit (opt_str (gq_page q)) (gq_properties q))
        (\<lambda>r. effect_return (page_result r))
      else effect_bind (getVertexByConditionWithPage fl transport (PyStr (case gq_label q of None \<Rightarrow> [] | Some l \<Rightarrow> l)) limit
          (opt_str (gq_page q)) (gq_properties q)) (\<lambda>r. effect_return (page_result r)))"

definition execute_edge_query ::
  "(rat \<Rightarrow> string) \<Rightarrow> 'w transport \<Rightarrow> graph_query \<Rightarrow> pyval list \<Rightarrow> int \<Rightarrow> ('w, pydict list \<times> pyval) effect" where
  "execute_edge_query fl transport q ids limit =
     (if gq_operation q = ''get_by_id'' then effect_bind (getEdgeById fl transport (gq_id q)) (\<lambda>r. effect_return (one_result r))
      else if gq_operation q = ''get_by_ids''
      then effect_bind (getEdgesById fl transport ids) (\<lambda>r. effect_return (list_result r))
      else effect_bind (getEdgeByPage fl transport (opt_str (gq_label q)) (gq_vertex_id q)
          (opt_str (normalize_direction (gq_direction q))) limit (opt_str (gq_page q)) (gq_properties q))
        (\<lambda>r. effect_return (page_result r)))"

definition execute_query ::
  "(rat \<Rightarrow> string) \<Rightarrow> 'w transport \<Rightarrow> graph_query \<Rightarrow> pyval list \<Rightarrow> int \<Rightarrow> ('w, pydict list \<times> pyval) effect" where
  "execute_query fl transport q ids limit =
     (if gq_target q = ''vertex'' then execute_vertex_query fl transport q ids limit
      else execute_edge_query fl transport q ids limit)"

text \<open>A client and the query it runs.\<close>

definition query_manager :: "'w schema_backend \<Rightarrow> graph_query \<Rightarrow> pyval list \<Rightarrow> int \<Rightarrow> ('w, pydict list \<times> pyval) effect" where
  "query_manager be q ids limit =
     effect_bind (sk_connect be (from_env (sk_env be))) (\<lambda>transport. execute_query (sk_float_text be) transport q ids limit)"

definition query_error :: "(py_exception \<Rightarrow> string) \<Rightarrow> py_exception \<Rightarrow> reply" where
  "query_error et e =
     (let exc = client_error et e; c = classify_hugegraph_exception exc
      in envelope_err (ec_error_type c) (''HugeGraph graph data query failed: '' @ exception_text exc)
           (Some (ec_suggestion c)) (ec_retryable c)
           (Some (PyDict [(''error'', PyStr (exception_text exc)), (''reason'', PyStr (ec_reason c))])))"

definition query_answer :: "(rat \<Rightarrow> string) \<Rightarrow> mcp_config \<Rightarrow> graph_query \<Rightarrow> int \<Rightarrow> pydict list \<times> pyval \<Rightarrow> reply" where
  "query_answer fl cfg q limit result =
     (let items = fst result;
          data = PyDict [(''target'', PyStr (gq_target q)), (''operation'', PyStr (gq_operation q)),
            (''items'', PyList (map PyDict items)), (''count'', PyInt (int (length items))),
            (''page'', opt_str (gq_page q)), (''next_page'', snd result), (''limit'', PyInt limit)]
      in case gremlin_output_guard_error fl cfg data (length items) (Some limit) ''Structured query'' of
           Some e \<Rightarrow> e
         | None \<Rightarrow> envelope_ok data)"

definition bounded_limit :: "mcp_config \<Rightarrow> graph_query \<Rightarrow> int" where
  "bounded_limit cfg q =
     min (min (if gq_limit q = PyNone then QUERY_DEFAULT_LIMIT else case py_int (gq_limit q) of Inr n \<Rightarrow> n | Inl _ \<Rightarrow> 0)
       QUERY_MAX_LIMIT) (cf_max_result_items cfg)"

definition batch_ids :: "graph_query \<Rightarrow> pyval list" where
  "batch_ids q =
     (if gq_operation q = ''get_by_ids'' then normalize_ids {} (case gq_ids q of PyList ids \<Rightarrow> ids | _ \<Rightarrow> []) else [])"

definition query_graph_data :: "'w schema_backend \<Rightarrow> graph_query \<Rightarrow> ('w, reply) effect" where
  "query_graph_data be q =
     effect_bind (effect_of (validate_query q)) (\<lambda>invalid.
       case invalid of
         Some r \<Rightarrow> effect_return r
       | None \<Rightarrow>
           let fl = sk_float_text be; cfg = from_env (sk_env be); limit = bounded_limit cfg q; ids = batch_ids q in
           if gq_operation q = ''get_by_ids'' \<and> int (length ids) > limit
           then effect_return (query_validation_error ''The number of distinct IDs exceeds the effective limit.''
             ''Split the IDs into smaller batches or increase limit within configured bounds.''
             [(''ids_length'', PyInt (int (length ids))), (''limit'', PyInt limit)])
           else effect_bind (effect_try (query_manager be q ids limit)) (\<lambda>result.
             effect_return (case result of
                 Inl e \<Rightarrow> query_error (sk_exception_text be) e
               | Inr r \<Rightarrow> query_answer fl cfg q limit r)))"

end
