(* ===== verification/Query_Properties.thy ===== *)
theory Query_Properties
  imports Query_Graph_Data Schema_Requests
begin

text \<open>
  What a query of graph data promises: it only reads, with one client and one request, its answer holds
  no more items than the limit, a batch of identifiers is asked for once each, and the one request for
  which it raises.
\<close>

section \<open>Only GET requests\<close>

lemma send_costs:
  "(\<And>path. effect_costs cost n (transport method path body)) \<Longrightarrow>
     effect_costs cost n (send fl transport method path body answer)"
  unfolding send_def by (intro costs_after costs_before session_request_costs cost_rules)

lemma query_manager_keeps [effect_rules]:
  assumes "schema_reads_keep I be"
  shows "effect_keeps I (query_manager be q ids limit)"
  unfolding query_manager_def execute_query_def execute_vertex_query_def execute_edge_query_def
  by (rule connected_reads_keep [OF assms]) (intro effect_rules)

lemma query_manager_costs:
  assumes "server_prices cost c g p be"
  shows "effect_costs cost (c + g) (query_manager be q ids limit)"
  unfolding query_manager_def
proof (rule costs_bind_ensured [OF prices_connect [OF assms] prices_transport [OF assms]])
  fix transport :: "'a transport"
  assume "\<forall>path body. effect_costs cost g (transport ''GET'' path body) \<and> effect_costs cost p (transport ''POST'' path body)"
  then have sent: "effect_costs cost g (send fl transport ''GET'' path None answer)" for fl path and answer :: "pyval \<Rightarrow> py_exception + 'b"
    by (intro send_costs) blast
  show "effect_costs cost g (execute_query (sk_float_text be) transport q ids limit)"
    unfolding execute_query_def execute_vertex_query_def execute_edge_query_def getVertexById_def getVerticesById_def
      getVertexByPage_def getVertexByConditionWithPage_def getEdgeById_def getEdgesById_def getEdgeByPage_def
    by (intro costs_if costs_after sent costs_free [OF costs_return] cost_rules)
qed

lemma effect_try_costs: "effect_costs cost n m \<Longrightarrow> effect_costs cost n (effect_try m)"
  by (auto simp: effect_costs_def effect_try_def split: prod.split) (metis snd_conv)

section \<open>What is answered\<close>

definition answered :: "graph_query \<Rightarrow> mcp_config \<Rightarrow> reply \<Rightarrow> bool" where
  "answered q cfg r \<longleftrightarrow>
     (\<forall>data. r = EnvelopeOk data \<longrightarrow>
        (\<exists>d items. data = PyDict d \<and> dict_get d ''items'' = PyList items \<and> dict_get d ''count'' = PyInt (int (length items)) \<and>
           int (length items) \<le> bounded_limit cfg q))"

lemma first_error_in: "first_error rs = Some r \<Longrightarrow> Some r \<in> set rs"
  by (induction rs) (auto simp: first_error_def List.map_filter_def split: list.split_asm if_split_asm)

lemma not_ok_answered: "\<not> reply_is_ok r \<Longrightarrow> answered q cfg r"
  by (auto simp: answered_def)

lemma query_vertex_id_not_ok: "query_vertex_id_error v place = Some r \<Longrightarrow> \<not> reply_is_ok r"
  by (auto simp: query_vertex_id_error_def query_validation_error_def split: sum.split_asm)

lemma query_vertex_ids_not_ok: "query_vertex_ids_error n vs = Some r \<Longrightarrow> \<not> reply_is_ok r"
  by (induction n vs rule: query_vertex_ids_error.induct) (auto dest: query_vertex_id_not_ok split: option.split_asm)

lemma query_validation_not_ok [simp]: "\<not> reply_is_ok (query_validation_error message suggestion details)"
  by (simp add: query_validation_error_def)

lemma query_part_not_ok:
  "query_id_error q = Some r \<Longrightarrow> \<not> reply_is_ok r"
  "query_ids_error q = Some r \<Longrightarrow> \<not> reply_is_ok r"
  "query_label_error q = Some r \<Longrightarrow> \<not> reply_is_ok r"
  "query_properties_error q = Some r \<Longrightarrow> \<not> reply_is_ok r"
  "query_direction_error q = Some r \<Longrightarrow> \<not> reply_is_ok r"
  "validate_limit limit = Inr (Some r) \<Longrightarrow> \<not> reply_is_ok r"
  subgoal by (auto simp: query_id_error_def dest: query_vertex_id_not_ok split: if_split_asm)
  subgoal by (auto simp: query_ids_error_def Let_def dest: query_vertex_ids_not_ok split: if_split_asm pyval.split_asm)
  subgoal by (auto simp: query_label_error_def split: if_split_asm)
  subgoal by (auto simp: query_properties_error_def split: if_split_asm)
  subgoal by (auto simp: query_direction_error_def Let_def split: if_split_asm)
  subgoal by (auto simp: validate_limit_def split: if_split_asm sum.split_asm int_failure.split_asm)
  done

lemma validate_query_not_ok: "validate_query q = Inr (Some r) \<Longrightarrow> \<not> reply_is_ok r"
  by (auto simp: validate_query_def and_then_eq_Inr dest!: first_error_in
      dest: query_part_not_ok query_part_not_ok [OF sym] split: if_split_asm)

lemma query_answer_answered: "answered q cfg (query_answer fl cfg q (bounded_limit cfg q) result)"
  by (auto simp: answered_def query_answer_def gremlin_output_guard_error_def envelope_ok_def envelope_err_def Let_def dict_get_def
      split: if_split_asm)

lemma query_error_not_ok: "\<not> reply_is_ok (query_error et e)"
  by (simp add: query_error_def Let_def)

lemma py_int_overflow: "py_int v = Inl IntOverflowError \<Longrightarrow> \<exists>b. v = PyFloat (Infinite b)"
  by (cases v rule: py_int.cases) (auto split: option.split_asm)

lemma validate_query_raises:
  "validate_query q = Inl e \<Longrightarrow> e = RaisesOverflow \<and> (\<exists>b. gq_limit q = PyFloat (Infinite b))"
  by (auto simp: validate_query_def validate_limit_def and_then_def
      split: if_split_asm sum.split_asm int_failure.split_asm dest: py_int_overflow)

text \<open>
  C29: a query only reads and its answer is bounded. Whatever connecting and GET requests keep is kept; it
  costs at most one client and one GET request; a successful answer holds as many items as it counts, at
  most the limit of the request, the configured one and 500; and no exception leaves the tool, except
  the one of an infinite limit.
\<close>

theorem query_is_a_bounded_read:
  assumes "schema_reads_keep I be" "I w" "server_prices cost c g p be"
    and "query_graph_data be q w = (r, w')"
  shows "I w' \<and> cost w' \<le> cost w + c + g \<and>
    (case r of
       Inl e \<Rightarrow> e = RaisesOverflow \<and> (\<exists>b. gq_limit q = PyFloat (Infinite b))
     | Inr reply \<Rightarrow> answered q (from_env (sk_env be)) reply) \<and>
    bounded_limit (from_env (sk_env be)) q \<le> 500 \<and>
    bounded_limit (from_env (sk_env be)) q \<le> cf_max_result_items (from_env (sk_env be))"
proof -
  have "effect_keeps I (query_graph_data be q)"
    unfolding query_graph_data_def Let_def using assms(1) by (intro effect_rules)
  moreover have "effect_costs cost (c + g) (query_graph_data be q)"
    unfolding query_graph_data_def Let_def
    by (intro costs_before costs_after cost_rules costs_if effect_try_costs query_manager_costs [OF assms(3)] costs_free [OF costs_return])
  moreover have "case r of
       Inl e \<Rightarrow> e = RaisesOverflow \<and> (\<exists>b. gq_limit q = PyFloat (Infinite b))
     | Inr reply \<Rightarrow> answered q (from_env (sk_env be)) reply"
    using assms(4) validate_query_raises [of q] validate_query_not_ok [of q] query_error_not_ok
    by (auto simp: query_graph_data_def effect_bind_def effect_of_def effect_return_def effect_try_def Let_def
        query_validation_error_def not_ok_answered intro: query_answer_answered
        split: sum.split_asm option.split_asm prod.split_asm if_split_asm sum.split)
  ultimately show ?thesis
    using assms(2,4) keepsD [of I "query_graph_data be q" w]
    by (auto simp: effect_costs_def bounded_limit_def QUERY_MAX_LIMIT_def dest!: spec [of _ w])
qed

text \<open>A server with one person, whose world is whether only GET requests came, and how many requests came.\<close>

definition person_page :: pyval where
  "person_page = PyDict [(''vertices'', PyList [PyDict [(''id'', PyInt 7), (''label'', PyStr ''person'')]]), (''page'', PyNone)]"

definition page_server :: "(bool \<times> nat) schema_backend" where
  "page_server =
     \<lparr>sk_env = (\<lambda>_. None),
      sk_connect = (\<lambda>_. effect_return (\<lambda>method path body w.
        (Inr \<lparr>ha_status = 200, ha_json = Some person_page, ha_text = [], ha_content = []\<rparr>, (fst w \<and> method = ''GET'', Suc (snd w))))),
      sk_float_text = (\<lambda>_. []), sk_exception_text = (\<lambda>_. []), sk_set_order = (\<lambda>vs. vs)\<rparr>"

definition people_query :: graph_query where
  "people_query =
     \<lparr>gq_target = ''vertex'', gq_operation = ''page'', gq_id = PyNone, gq_ids = PyNone, gq_label = Some ''person'',
      gq_properties = PyNone, gq_limit = PyInt 2, gq_page = None, gq_vertex_id = PyNone, gq_direction = None\<rparr>"

theorem query_is_a_bounded_read_witness:
  "fst (snd (query_graph_data page_server people_query (True, 0))) \<and>
   snd (snd (query_graph_data page_server people_query (True, 0))) \<le> 1"
proof -
  have "schema_reads_keep fst page_server"
    by (auto simp: schema_reads_keep_def page_server_def effect_keeps_def effect_return_def)
  moreover have "server_prices snd 0 1 1 page_server"
    by (auto simp: server_prices_def page_server_def effect_costs_def effect_return_def)
  ultimately show ?thesis
    using query_is_a_bounded_read [OF _ _ _ prod.collapse [symmetric], of fst page_server "(True, 0)" snd 0 1 1 people_query]
    by simp
qed

section \<open>A batch of identifiers\<close>

text \<open>
  What is asked for is a subsequence of the given identifiers in which no two are the same value of the
  same type, and every given one is the same value of the same type as one of them.
\<close>

lemma normalize_ids_keys:
  "subseq (normalize_ids seen vs) vs \<and> distinct (map id_dedupe_key (normalize_ids seen vs)) \<and>
   id_dedupe_key ` set (normalize_ids seen vs) = id_dedupe_key ` set vs - seen"
  by (induction seen vs rule: normalize_ids.induct) (auto simp: insert_absorb)

section \<open>A request that raises\<close>

theorem infinite_limit_raises:
  "fst (query_graph_data be
     \<lparr>gq_target = ''vertex'', gq_operation = ''page'', gq_id = PyNone, gq_ids = PyNone, gq_label = Some ''person'',
      gq_properties = PyNone, gq_limit = PyFloat (Infinite False), gq_page = None, gq_vertex_id = PyNone, gq_direction = None\<rparr> w) =
   Inl RaisesOverflow"
  by (simp add: query_graph_data_def validate_query_def validate_limit_def effect_bind_def effect_of_def)

text \<open>A page that the server has is answered.\<close>

lemma people_are_answered:
  "case fst (query_graph_data page_server people_query (True, 0)) of Inr r \<Rightarrow> reply_is_ok r | Inl _ \<Rightarrow> False"
  by code_simp

end
