(* ===== verification/Manage_Graph_Data.thy ===== *)
theory Manage_Graph_Data
  imports Graph_Payload Graph_Mapping Graph_Plan Graph_Execute Schema_Apply Tool_Session Write_Boundary
begin

text \<open>
  \<open>tools/manage_graph_data.py\<close>: import and deletion of graph data behind the safety chain of dry run,
  confirmation and execution. A reply carries its error type as a text, because the tool passes on the
  types of the executor; warnings and next actions beside the data of an envelope are not modelled.
  A confirmed call executes the plan the server issued, not the one the caller sends.
\<close>

record 'w data_backend = "'w schema_backend" +
  da_client :: "'w gremlin_client"
  da_duration :: rat
  da_response_true :: "http_response \<Rightarrow> bool"
  da_formats :: text_formats

text \<open>The Gremlin and the schema side of the surroundings.\<close>

definition gremlin_side :: "'w data_backend \<Rightarrow> 'w backend" where
  "gremlin_side be =
     \<lparr>be_env = sk_env be, be_client = da_client be, be_duration = da_duration be,
      be_float_text = sk_float_text be, be_response_true = da_response_true be\<rparr>"

definition schema_side :: "'w data_backend \<Rightarrow> 'w schema_backend" where
  "schema_side be = schema_backend.truncate be"

datatype tool_reply = ToolOk pydict | ToolErr execution_error

definition of_reply :: "reply \<Rightarrow> tool_reply" where
  "of_reply r =
     (case r of EnvelopeOk (PyDict d) \<Rightarrow> ToolOk d | EnvelopeOk _ \<Rightarrow> ToolOk [] | EnvelopeErr e \<Rightarrow> ToolErr (of_error_info e))"

definition tool_err :: "error_type \<Rightarrow> string \<Rightarrow> string option \<Rightarrow> bool \<Rightarrow> pydict \<Rightarrow> tool_reply" where
  "tool_err etype message suggestion retryable details =
     ToolErr (execution_err (error_type_value etype) message suggestion retryable details)"

section \<open>Plan contexts\<close>

definition graph_payload_digest :: "(pyval \<Rightarrow> string) \<Rightarrow> pyval \<Rightarrow> pydict option \<Rightarrow> string" where
  "graph_payload_digest sha plan extra =
     compute_payload_digest sha (PyDict ([(''change_plan'', plan)] @
       (case extra of None \<Rightarrow> [] | Some d \<Rightarrow> [(''extra_hash_context'', PyDict d)])))"

definition data_schema_hash :: "(pyval \<Rightarrow> string) \<Rightarrow> pyval \<Rightarrow> string option" where
  "data_schema_hash sha live_schema =
     map_option (\<lambda>summary. compute_payload_digest sha (PyDict summary)) (normalized_schema_summary live_schema False)"

definition extra_context_of :: "pydict option \<Rightarrow> pydict" where
  "extra_context_of extra = [(''extra_hash_context'', PyDict (case extra of None \<Rightarrow> [] | Some d \<Rightarrow> d))]"

definition graph_plan_context ::
  "tool_inputs \<Rightarrow> mcp_config \<Rightarrow> int \<Rightarrow> string \<Rightarrow> string \<Rightarrow> pyval \<Rightarrow> pyval \<Rightarrow> string option \<Rightarrow> pydict option \<Rightarrow> plan_context" where
  "graph_plan_context ti cfg now tool_name mode plan live_schema nonce extra =
     fst (build_plan_context (ti_sha ti) cfg now (ti_nonce ti) tool_name mode
       (graph_payload_digest (ti_sha ti) plan extra) (data_schema_hash (ti_sha ti) live_schema) nonce
       DEFAULT_PLAN_TTL_SECONDS (Some (extra_context_of extra)))"

section \<open>What execution returned\<close>

definition failed_item_value :: "failed_item \<Rightarrow> pyval" where
  "failed_item_value fi =
     PyDict [(''operation_index'', PyInt (int (fi_operation_index fi))), (''op'', fi_op fi), (''label'', fi_label fi),
       (''status'', PyStr (plan_status_value (plan_status_of (fi_status fi)))), (''error'', error_value (fi_error fi))]"

definition compensation :: "plan_status \<Rightarrow> pyval" where
  "compensation st =
     PyList (if st \<in> {PARTIAL, UNKNOWN} then [PyStr ''Inspect graph state before retrying remaining operations.''] else [])"

definition normalized_result ::
  "(rat \<Rightarrow> string) \<Rightarrow> pyval list \<Rightarrow> plan_status \<Rightarrow> pydict list \<Rightarrow> pyval list \<Rightarrow> string list \<Rightarrow> pydict \<Rightarrow> pydict" where
  "normalized_result fl operations st results failed_items warnings summary =
     (let written = mutation_summary fl (map fst (filter (\<lambda>(operation, result). result_apply_status result = apply_status.APPLIED)
            (zip operations results)))
      in [(''status'', PyStr (plan_status_value st)), (''success'', PyBool (st \<in> {APPLIED, ALREADY_APPLIED})),
          (''planned'', PyDict (mutation_summary fl operations)), (''written'', PyDict written),
          (''failed_items'', PyList failed_items), (''warnings'', PyList (map PyStr warnings)),
          (''retryable'', PyBool False), (''compensation_suggestions'', compensation st),
          (''results'', PyList (map PyDict results)), (''mutation_summary'', PyDict summary)])"

text \<open>The status of the normalised result.\<close>

definition settled_status :: "pyval list \<Rightarrow> execution_outcome \<Rightarrow> plan_status" where
  "settled_status operations outcome =
     (case outcome of
        ExecutionRefused e \<Rightarrow> aggregate_plan_status [error_apply_status e]
      | ExecutionDone st results summary \<Rightarrow>
          if results \<noteq> [] then aggregate_plan_status (map result_apply_status results)
          else if operations = [] then APPLIED else UNKNOWN
      | ExecutionStopped st results fi summary \<Rightarrow>
          aggregate_plan_status (map result_apply_status results @ [fi_status fi]))"

definition normalize_execute_result ::
  "(rat \<Rightarrow> string) \<Rightarrow> pyval \<Rightarrow> execution_outcome \<Rightarrow> pydict" where
  "normalize_execute_result fl plan outcome =
     (let operations = plan_operations plan; planned = PyDict (mutation_summary fl operations);
          st = settled_status operations outcome
      in case outcome of
           ExecutionRefused e \<Rightarrow>
             [(''status'', PyStr (plan_status_value st)), (''success'', PyBool False), (''planned'', planned),
              (''written'', PyDict []), (''failed_items'', PyList [error_value e]), (''warnings'', PyList []),
              (''retryable'', PyBool False), (''compensation_suggestions'', PyList []), (''results'', PyList []),
              (''mutation_summary'', planned)]
         | ExecutionDone _ results summary \<Rightarrow> normalized_result fl operations st results [] [] summary
         | ExecutionStopped _ results fi summary \<Rightarrow>
             normalized_result fl operations st results [failed_item_value fi]
               [''Graph change execution stopped after a partial write.''] summary)"

section \<open>The request\<close>

text \<open>The plan of a delete request and whether it deletes a vertex without its edges.\<close>

definition delete_plan :: "pyval \<Rightarrow> pyval" where
  "delete_plan change_plan =
     (case change_plan of PyDict d \<Rightarrow> PyDict d | v \<Rightarrow> PyDict [(''operations'', v)])"

fun deletes_isolated_vertex :: "(rat \<Rightarrow> string) \<Rightarrow> pyval list \<Rightarrow> py_exception + bool" where
  "deletes_isolated_vertex fl [] = Inr False"
| "deletes_isolated_vertex fl (v # vs) =
     (case v of
        PyDict operation \<Rightarrow>
          if op_name fl operation = ''delete_vertex'' \<and> get_default operation ''cascade'' (PyBool False) = PyBool False
          then Inr True else deletes_isolated_vertex fl vs
      | _ \<Rightarrow> Inl RaisesAttribute)"

text \<open>The plan of the request, missing for an import, or the error reply; the last part is the hazard.\<close>

definition read_request ::
  "(rat \<Rightarrow> string) \<Rightarrow> string \<Rightarrow> pyval \<Rightarrow> pyval \<Rightarrow> py_exception + tool_reply + pyval option \<times> bool" where
  "read_request fl mode graph_data change_plan =
     (let limited = (\<lambda>r. case r of Some e \<Rightarrow> Some (of_reply e) | None \<Rightarrow> None) in
      if mode = ''import'' then
        (case graph_data of
           PyNone \<Rightarrow> Inr (Inl (tool_err VALIDATION_ERROR (''graph_data is required for mode='' @ repr_string ''import'') None False []))
         | PyDict d \<Rightarrow>
             (case limited (write_limit_envelope fl (graph_data_operation_count graph_data) graph_data) of
                Some r \<Rightarrow> Inr (Inl r) | None \<Rightarrow> Inr (Inr (None, False)))
         | v \<Rightarrow> Inr (Inl (tool_err VALIDATION_ERROR (''graph_data must be an object for mode='' @ repr_string ''import'' @ ''.'')
             None False [(''received_type'', PyStr (py_type_name v))])))
      else if mode = ''delete'' then
        (if change_plan = PyNone
         then Inr (Inl (tool_err VALIDATION_ERROR (''change_plan is required for mode='' @ repr_string ''delete'') None False []))
         else let plan = delete_plan change_plan in
           case limited (write_limit_envelope fl (length (plan_operations plan)) plan) of
             Some r \<Rightarrow> Inr (Inl r)
           | None \<Rightarrow> and_then (deletes_isolated_vertex fl (plan_operations plan)) (\<lambda>hazard. Inr (Inr (Some plan, hazard))))
      else Inr (Inl (tool_err VALIDATION_ERROR (''Unknown mode: '' @ repr_string mode @ ''. Use '' @ repr_string ''import'' @
        '' or '' @ repr_string ''delete'' @ ''.'') None False [(''mode'', PyStr mode)])))"

section \<open>Dry run\<close>

text \<open>The error reply of an invalid dry run: its type is the first one an error carries.\<close>

definition dry_run_error_type :: "pyval list \<Rightarrow> string" where
  "dry_run_error_type errors =
     (case List.map_filter (\<lambda>e. case e of
              PyDict d \<Rightarrow> (case dict_get d ''error_type'' of PyStr s \<Rightarrow> if s = [] then None else Some s | _ \<Rightarrow> None)
            | _ \<Rightarrow> None) errors of
        t # _ \<Rightarrow> t | [] \<Rightarrow> error_type_value INVALID_GRAPH_DATA)"

definition invalid_plan_reply :: "pydict \<Rightarrow> tool_reply" where
  "invalid_plan_reply result =
     (let errors = dict_get result ''errors'' in
      ToolErr (execution_err (dry_run_error_type (listed_items errors)) ''Graph change plan is invalid.'' None False
        [(''errors'', errors)]))"

text \<open>The import preview, or the error reply of a plan without stable identities.\<close>

definition preview_import ::
  "tool_inputs \<Rightarrow> (rat \<Rightarrow> string) \<Rightarrow> (py_exception \<Rightarrow> string) \<Rightarrow> pyval \<Rightarrow> plan_context \<Rightarrow> pyval \<Rightarrow> string \<Rightarrow> pydict \<Rightarrow>
     py_exception + tool_reply" where
  "preview_import ti fl et compiled_plan context live_schema tool_name result =
     (case compile_graph_write_plan (ti_sha ti) fl (ti_uuid ti) (ti_now ti 4) compiled_plan context live_schema tool_name of
        Inr p \<Rightarrow> Inr (ToolOk (AList.update ''workflow_preview''
          (PyDict [(''operations'', PyList (map (\<lambda>o'. PyDict (operation_to_dict o')) (wp_operations p)))]) result))
      | Inl (RaisesValue m) \<Rightarrow> Inr (tool_err FEATURE_DISABLED ''The import cannot be compiled to stable operation identities.''
          None False [(''reason'', PyStr (et (RaisesValue m)))])
      | Inl e \<Rightarrow> Inl e)"

definition unpersistable_reply :: "string \<Rightarrow> tool_reply" where
  "unpersistable_reply why =
     tool_err FEATURE_DISABLED ''The graph change cannot be persisted as an executable atomic plan.'' None False
       [(''reason'', PyStr why)]"

text \<open>The plan is issued to the ledger with its payload and stored for the executor.\<close>

definition issue_graph_plan ::
  "tool_inputs \<Rightarrow> 'w data_backend \<Rightarrow> pyval \<Rightarrow> plan_context \<Rightarrow> string \<Rightarrow> pyval \<Rightarrow> string \<Rightarrow> pydict \<Rightarrow>
     ('w tool_state, tool_reply) effect" where
  "issue_graph_plan ti be compiled_plan context plan_hash live_schema tool_name result =
     effect_bind (on_ledger (\<lambda>db. issue_plan (ti_digest ti) db context plan_hash (Some compiled_plan) (ti_now ti 3) (ti_disk ti 0)))
       (\<lambda>issue_error. case issue_error of
          Some r \<Rightarrow> effect_return (of_reply r)
        | None \<Rightarrow>
            (case compile_graph_write_plan (ti_sha ti) (sk_float_text be) (ti_uuid ti) (ti_now ti 4) compiled_plan context
                    live_schema tool_name of
               Inl e \<Rightarrow> effect_return (unpersistable_reply (sk_exception_text be e))
             | Inr p \<Rightarrow>
                 effect_bind (persist_plan ti (from_env (sk_env be)) p) (\<lambda>failure. effect_return (case failure of
                   Some e \<Rightarrow> unpersistable_reply (sk_exception_text be e)
                 | None \<Rightarrow> ToolOk (AList.update ''expires_at'' (PyInt (wp_expires_at p))
                     (AList.update ''status'' (PyStr (plan_status_value (wp_status p)))
                     (AList.update ''plan_id'' (PyStr (wp_plan_id p)) result)))))))"

definition finish_dry_run ::
  "tool_inputs \<Rightarrow> 'w data_backend \<Rightarrow> string \<Rightarrow> bool \<Rightarrow> pyval \<Rightarrow> plan_context \<Rightarrow> string \<Rightarrow> pyval \<Rightarrow> string \<Rightarrow> pydict \<Rightarrow>
     ('w tool_state, tool_reply) effect" where
  "finish_dry_run ti be mode hazard compiled_plan context plan_hash live_schema tool_name result0 =
     (let cfg = from_env (sk_env be);
          result1 = (if cf_readonly cfg then fst (mark_readonly_preview result0 [] []) else result0);
          result2 = AList.update ''preview_only'' (PyBool True) (AList.update ''confirmable'' (PyBool False) result1)
      in if hazard then effect_return (ToolOk result2)
         else if mode = ''import'' then
           effect_of (preview_import ti (sk_float_text be) (sk_exception_text be) compiled_plan context live_schema tool_name result2)
         else if cf_readonly cfg then effect_return (ToolOk result1)
         else issue_graph_plan ti be compiled_plan context plan_hash live_schema tool_name result1)"

section \<open>Execution\<close>

text \<open>What the ledger records of a refused execution.\<close>

definition refused_outcome :: "execution_error \<Rightarrow> plan_status" where
  "refused_outcome e =
     (if xe_type e = ''WRITE_OUTCOME_UNKNOWN'' then UNKNOWN
      else if xe_type e \<in> {''WRITE_CONFLICT'', ''BLOCKED_BY_RELATIONSHIPS''} then CONFLICT else REJECTED)"

definition refused_envelope :: "execution_error \<Rightarrow> pydict" where
  "refused_envelope e = [(''ok'', PyBool False), (''data'', PyNone), (''error'', error_value e)]"

definition report_execution ::
  "tool_inputs \<Rightarrow> (rat \<Rightarrow> string) \<Rightarrow> string \<Rightarrow> pyval \<Rightarrow> execution_outcome \<Rightarrow> ('w tool_state, tool_reply) effect" where
  "report_execution ti fl plan_hash plan outcome =
     (let normalized = normalize_execute_result fl plan outcome; st = settled_status (plan_operations plan) outcome
      in case outcome of
           ExecutionRefused e \<Rightarrow>
             effect_bind (record_outcome_durably ti 6 plan_hash (refused_outcome e) (refused_envelope e)) (\<lambda>_.
               effect_return (ToolErr (e\<lparr>xe_retryable := False, xe_details := PyDict normalized\<rparr>)))
         | _ \<Rightarrow>
             effect_bind (record_outcome_durably ti 6 plan_hash st normalized) (\<lambda>durable. effect_return (
               if st \<notin> {APPLIED, ALREADY_APPLIED}
               then tool_err (if st = PARTIAL then PARTIAL_APPLY else FLOW_EXECUTION_FAILED)
                 ''Graph change execution did not complete successfully.'' None False normalized
               else if \<not> durable
               then tool_err WRITE_OUTCOME_UNKNOWN ''The write completed, but its durable receipt could not be recorded.''
                 None False [(''status'', PyStr (plan_status_value UNKNOWN)), (''reconciliation_required'', PyBool True)]
               else ToolOk normalized)))"

text \<open>The confirmation is verified and consumed; what it hands back is executed.\<close>

definition consume_and_execute ::
  "tool_inputs \<Rightarrow> 'w data_backend \<Rightarrow> string \<Rightarrow> pyval \<Rightarrow> pyval \<Rightarrow> string \<Rightarrow> string \<Rightarrow> string option \<Rightarrow> pyval \<Rightarrow>
     pydict option \<Rightarrow> ('w tool_state, tool_reply) effect" where
  "consume_and_execute ti be mode plan live_schema tool_name plan_hash nonce expires_at extra =
     (let cfg = from_env (sk_env be) in
      effect_bind (on_ledger (\<lambda>db. verify_and_consume_issued_plan (ti_sha ti) (ti_digest ti) cfg cfg db plan_hash tool_name
          mode (graph_payload_digest (ti_sha ti) plan extra) (data_schema_hash (ti_sha ti) live_schema) nonce expires_at
          (Some (extra_context_of extra)) (ti_now ti 4) (ti_now ti 5) (ti_disk ti 3))) (\<lambda>verdict.
        case verdict of
          Inl e \<Rightarrow> effect_of (Inl (int_exception e))
        | Inr (Inl (error_type, details)) \<Rightarrow>
            effect_return (of_reply (plan_hash_error (Some error_type) details
              ''Provided plan_hash does not match the current graph data change plan.''
              (Some ''Graph data change plan has expired.'') ''Run dry_run=True again and use the returned plan_hash.''))
        | Inr (Inr PyNone) \<Rightarrow>
            effect_return (tool_err SERVER_ERROR ''The consumed confirmation did not contain its server-side plan.'' None False [])
        | Inr (Inr consumed) \<Rightarrow>
            effect_bind (on_world (execute_graph_change_plan (gremlin_side be) consumed live_schema))
              (report_execution ti (sk_float_text be) plan_hash consumed)))"

section \<open>The safety chain\<close>

text \<open>\<open>fetch_live_schema_or_none\<close>\<close>

definition fetch_live_schema_or_none :: "'w schema_backend \<Rightarrow> ('w, pyval option) effect" where
  "fetch_live_schema_or_none be w =
     (case get_live_schema be w of (Inr schema, w') \<Rightarrow> (Inr (Some schema), w') | (Inl _, w') \<Rightarrow> (Inr None, w'))"

text \<open>What a confirming call must pass before the schema is read: the plan issued for it, or the error reply.\<close>

definition confirmed_plan ::
  "tool_inputs \<Rightarrow> 'w data_backend \<Rightarrow> bool \<Rightarrow> bool \<Rightarrow> string option \<Rightarrow> string option \<Rightarrow> pyval \<Rightarrow>
     ('w tool_state, tool_reply + pyval) effect" where
  "confirmed_plan ti be hazard is_import plan_hash nonce expires_at =
     (case guard DATA_WRITE (from_env (sk_env be)) of
        Some r \<Rightarrow> effect_return (Inl (of_reply r))
      | None \<Rightarrow>
          if hazard then effect_return (Inl (tool_err FEATURE_DISABLED
            ''Confirmed isolated vertex deletion is disabled for this backend.''
            (Some (''Delete incident edges explicitly and wait for a backend-proven '' @
              ''atomic isolated-delete capability before confirming the vertex delete.'')) False []))
          else if is_import then effect_return (Inl (tool_err FEATURE_DISABLED
            ''Confirmed graph import is disabled for this backend.''
            (Some (''Use the preview for validation only. Enable import only after '' @
              ''atomic vertex and edge create-if-absent capabilities are verified.'')) False []))
          else effect_bind (ask_ledger (\<lambda>db. replayed_plan_error (ti_digest ti) db nonce (ti_disk ti 0) (ti_disk ti 1))) (\<lambda>replayed.
            case replayed of
              Some r \<Rightarrow> effect_return (Inl (of_reply r))
            | None \<Rightarrow>
                effect_bind (ask_ledger (\<lambda>db. load_issued_plan (ti_digest ti) db nonce plan_hash expires_at (ti_now ti 0)
                    (ti_now ti 1) (ti_disk ti 2))) (\<lambda>issued. effect_return (case issued of
                  Inl r \<Rightarrow> Inl (of_reply r)
                | Inr PyNone \<Rightarrow> Inl (of_reply (plan_hash_error (Some PLAN_HASH_MISMATCH)
                    (reason ''The issued plan has no server-side payload.'')
                    ''The confirmation predates server-side plan storage.'' None
                    ''Run dry_run=True again and use the new confirmation plan.''))
                | Inr plan \<Rightarrow> Inr plan))))"

text \<open>The plan of an import, from the payload checked against the schema.\<close>

definition import_plan ::
  "(rat \<Rightarrow> string) \<Rightarrow> text_formats \<Rightarrow> pyval \<Rightarrow> pyval \<Rightarrow> py_exception + tool_reply + pyval" where
  "import_plan fl tf graph_data live_schema =
     and_then (validate_graph_payload fl tf graph_data live_schema) (\<lambda>validation.
       if dict_get validation ''valid'' \<noteq> PyBool True
       then Inr (Inl (tool_err SCHEMA_MISMATCH ''Graph data does not match live schema.'' None False
         [(''errors'', dict_get validation ''errors'')]))
       else and_then (graph_data_to_change_plan fl (as_dict graph_data) live_schema) (\<lambda>plan. Inr (Inr plan)))"

text \<open>The compiled plan and the fields of the reply so far; an issued plan is taken as it is.\<close>

definition compiled_or_error ::
  "tool_inputs \<Rightarrow> 'w data_backend \<Rightarrow> bool \<Rightarrow> pyval \<Rightarrow> pyval \<Rightarrow> pydict option \<Rightarrow> ('w, tool_reply + pyval \<times> pydict) effect" where
  "compiled_or_error ti be issued plan live_schema extra =
     (if issued then effect_return (Inr (plan, [(''valid'', PyBool True), (''warnings'', PyList [])]))
      else effect_bind (dry_run_graph_change_plan (ti_sha ti) (da_formats be) (gremlin_side be) plan live_schema extra) (\<lambda>result.
        effect_return (if \<not> py_truthy (dict_get result ''valid'') then Inl (invalid_plan_reply result)
          else Inr (get_default result ''compiled_plan'' plan, AList.delete ''compiled_plan'' result))))"

definition mode_reply :: "pydict \<Rightarrow> tool_reply" where
  "mode_reply validation =
     tool_err INVALID_GRAPH_DATA ''Graph change plan contains operations outside the selected mode.'' None False
       [(''errors'', dict_get validation ''errors'')]"

text \<open>From the compiled plan to the preview or the execution.\<close>

definition preview_or_execute ::
  "tool_inputs \<Rightarrow> 'w data_backend \<Rightarrow> string \<Rightarrow> bool \<Rightarrow> bool \<Rightarrow> bool \<Rightarrow> string \<Rightarrow> string option \<Rightarrow> string option \<Rightarrow> pyval \<Rightarrow>
     pydict option \<Rightarrow> pyval \<Rightarrow> pyval \<times> pydict \<Rightarrow> ('w tool_state, tool_reply) effect" where
  "preview_or_execute ti be mode hazard dry confirmed tool_name plan_hash nonce expires_at extra live_schema compiled =
     (case compiled of (plan, result) \<Rightarrow>
        let cfg = from_env (sk_env be);
            context = graph_plan_context ti cfg (ti_now ti 2) tool_name mode plan live_schema nonce extra;
            h = compute_plan_hash (ti_sha ti) context;
            result' = AList.update ''confirmable'' (PyBool True) (AList.update ''plan_context'' (PyDict (plan_context_payload context))
              (AList.update ''plan_hash'' (PyStr h) result))
        in if dry then finish_dry_run ti be mode hazard plan context h live_schema tool_name result'
           else case guard DATA_WRITE cfg of
             Some r \<Rightarrow> effect_return (of_reply r)
           | None \<Rightarrow>
               if \<not> confirmed
               then effect_return (of_reply (confirm_required_error ''Graph data changes require confirm=True after a dry_run.''
                 ''Run dry_run=True, review preview and warnings, then pass confirm=True with the returned plan_hash.''))
               else consume_and_execute ti be mode plan live_schema tool_name (case plan_hash of Some s \<Rightarrow> s | None \<Rightarrow> [])
                 nonce expires_at extra)"

definition no_schema_reply :: tool_reply where
  "no_schema_reply =
     tool_err CONNECTION_FAILED
       (''Cannot read live schema from HugeGraph Server. Schema validation is required before graph data changes.'')
       (Some ''Ensure HugeGraph Server is running and accessible, then retry.'') True []"

text \<open>From the plan of the request to its preview or its execution.\<close>

definition with_plan ::
  "tool_inputs \<Rightarrow> 'w data_backend \<Rightarrow> string \<Rightarrow> bool \<Rightarrow> bool \<Rightarrow> bool \<Rightarrow> string \<Rightarrow> string option \<Rightarrow> string option \<Rightarrow>
     pyval \<Rightarrow> pydict option \<Rightarrow> bool \<Rightarrow> pyval \<Rightarrow> pyval \<Rightarrow> ('w tool_state, tool_reply) effect" where
  "with_plan ti be mode hazard dry confirmed tool_name plan_hash nonce expires_at extra issued live_schema p =
     (let validation = validate_mode_operations (sk_float_text be) mode p in
      if \<not> py_truthy (dict_get validation ''valid'') then effect_return (mode_reply validation)
      else effect_bind (on_world (compiled_or_error ti be issued p live_schema extra)) (\<lambda>compiled.
        case compiled of
          Inl r \<Rightarrow> effect_return r
        | Inr c \<Rightarrow> preview_or_execute ti be mode hazard dry confirmed tool_name plan_hash nonce expires_at extra live_schema c))"

text \<open>The part behind the schema read; \<open>plan\<close> is missing for an import that is not confirmed.\<close>

definition with_schema ::
  "tool_inputs \<Rightarrow> 'w data_backend \<Rightarrow> string \<Rightarrow> pyval \<Rightarrow> bool \<Rightarrow> bool \<Rightarrow> bool \<Rightarrow> string \<Rightarrow> string option \<Rightarrow> string option \<Rightarrow>
     pyval \<Rightarrow> pydict option \<Rightarrow> bool \<Rightarrow> pyval option \<Rightarrow> pyval \<Rightarrow> ('w tool_state, tool_reply) effect" where
  "with_schema ti be mode graph_data hazard dry confirmed tool_name plan_hash nonce expires_at extra issued plan live_schema =
     effect_bind (effect_of (case plan of
         Some p \<Rightarrow> Inr (Inr p)
       | None \<Rightarrow> import_plan (sk_float_text be) (da_formats be) graph_data live_schema)) (\<lambda>planned.
       case planned of
         Inl r \<Rightarrow> effect_return r
       | Inr p \<Rightarrow> with_plan ti be mode hazard dry confirmed tool_name plan_hash nonce expires_at extra issued live_schema p)"

definition manage_graph_data ::
  "tool_inputs \<Rightarrow> 'w data_backend \<Rightarrow> string \<Rightarrow> pyval \<Rightarrow> pyval \<Rightarrow> bool \<Rightarrow> bool \<Rightarrow> string option \<Rightarrow> string option \<Rightarrow> pyval \<Rightarrow>
     pydict option \<Rightarrow> string \<Rightarrow> ('w tool_state, tool_reply) effect" where
  "manage_graph_data ti be mode graph_data change_plan dry confirmed plan_hash nonce expires_at extra tool_name =
     effect_bind (effect_of (read_request (sk_float_text be) mode graph_data change_plan)) (\<lambda>request.
       case request of
         Inl r \<Rightarrow> effect_return r
       | Inr (plan, hazard) \<Rightarrow>
           let confirming = (\<not> dry \<and> confirmed) in
           effect_bind (if confirming
               then effect_bind (confirmed_plan ti be hazard (mode = ''import'') plan_hash nonce expires_at) (\<lambda>issued.
                 effect_return (map_sum id Some issued))
               else effect_return (Inr plan)) (\<lambda>issued.
             case issued of
               Inl r \<Rightarrow> effect_return r
             | Inr plan' \<Rightarrow>
                 effect_bind (on_world (fetch_live_schema_or_none (schema_side be))) (\<lambda>fetched.
                   case fetched of
                     None \<Rightarrow> effect_return no_schema_reply
                   | Some live_schema \<Rightarrow>
                       with_schema ti be mode graph_data hazard dry confirmed tool_name plan_hash nonce expires_at extra
                         confirming plan' live_schema)))"

end
