(* ===== verification/Graph_Data_Properties.thy ===== *)
theory Graph_Data_Properties
  imports Manage_Graph_Data Graph_Compilation
begin

text \<open>
  The graph data tool writes only through a confirmation, and what it then executes is the plan the
  server issued: the dry run, the previews and the reads cannot change the graph, and the confirmed
  call executes neither an import nor a plan of the caller.
\<close>

section \<open>What keeps the world\<close>

lemma execution_reported_keeps: "effect_keeps (\<lambda>s. I (ts_world s)) (report_execution ti fl h plan outcome)"
  unfolding report_execution_def Let_def by (cases outcome) (auto intro!: effect_rules)

lemma finish_dry_run_keeps:
  "effect_keeps (\<lambda>s. I (ts_world s)) (finish_dry_run ti be mode hazard plan context h live_schema tool result)"
  unfolding finish_dry_run_def issue_graph_plan_def Let_def by (intro effect_rules)

lemma compiled_or_error_keeps:
  "safe_queries_keep I (gremlin_side be) \<Longrightarrow> effect_keeps I (compiled_or_error ti be issued plan live_schema extra)"
  unfolding compiled_or_error_def by (intro effect_rules)

lemma fetch_or_none_keeps:
  assumes "schema_reads_keep I be"
  shows "effect_keeps I (fetch_live_schema_or_none be)"
  unfolding effect_keeps_def
proof (intro allI impI)
  fix w assume "I w"
  then have "I (snd (get_live_schema be w))" by (rule keepsD [OF get_live_schema_keeps [OF assms]])
  then show "I (snd (fetch_live_schema_or_none be w))"
    by (auto simp: fetch_live_schema_or_none_def split: prod.split sum.split)
qed

text \<open>The world is as before and the ledger untouched.\<close>

definition untouched :: "('w \<Rightarrow> bool) \<Rightarrow> confirmation_db \<Rightarrow> 'w tool_state \<Rightarrow> bool" where
  "untouched I db s \<longleftrightarrow> I (ts_world s) \<and> ts_ledger s = db"

lemma untouched_on_world: "effect_keeps I m \<Longrightarrow> effect_keeps (untouched I db) (on_world m)"
  by (auto simp: effect_keeps_def untouched_def on_world_def split: prod.split)

lemma confirmed_plan_untouched:
  "effect_keeps (untouched I db) (confirmed_plan ti be hazard is_import plan_hash nonce expires_at)"
  unfolding confirmed_plan_def by (intro effect_rules)

section \<open>The confirmation hands back the issued plan\<close>

lemma load_issued_Inr:
  assumes "load_issued_plan digest db nonce plan_hash expires_at now now' disk = Inr plan"
  shows "\<exists>n h e. nonce = Some n \<and> plan_hash = Some h \<and> issued_payload digest db n h e now' disk = Inr plan"
  using assms
  by (auto simp: load_issued_plan_def nonempty_def Let_def split: option.splits if_splits sum.splits
      bool.splits confirmation_error.splits)

lemma consume_issued_payload:
  assumes "confirmation_inv db" "issued_payload digest db n h e now disk = Inr plan"
    and "consume digest db n h e' now' disk' = (Inr consumed, db')"
  shows "consumed = plan"
proof -
  obtain r where r: "issued_for db (digest n) = Some r" "loads_column (ir_payload_json r) = Inr plan"
    using assms(2) by (auto simp: issued_payload_def split: if_splits option.splits)
  obtain r' where r': "issued_for (cleanup_expired now' (prepare_confirmation_storage db)) (digest n) = Some r'"
      "loads_column (ir_payload_json r') = Inr consumed"
    using assms(3) by (auto simp: consume_def Let_def split: if_splits option.splits)
  have "r \<in> set (cd_issued db)" "ir_nonce_digest r = digest n"
    using r(1) by (auto simp: issued_for_def dest!: sql_fetchone_Some)
  moreover have "r' \<in> set (cd_issued db)" "ir_nonce_digest r' = digest n"
    using r'(1)
    by (auto simp: issued_for_def cleanup_expired_def prepare_confirmation_storage_def sql_delete_def dest!: sql_fetchone_Some)
  moreover have "distinct (map ir_nonce_digest (cd_issued db))"
    using assms(1) by (simp add: confirmation_inv_def)
  ultimately have "r = r'" by (metis distinct_map inj_onD)
  then show ?thesis using r(2) r'(2) by simp
qed

lemma verify_consumes:
  assumes "verify_and_consume_issued_plan sha digest cfg cfg' db h tool mode dig sh nonce e extra now now' disk = (Inr (Inr consumed), db')"
  shows "\<exists>expiry. consume digest db (case nonce of None \<Rightarrow> [] | Some n \<Rightarrow> n) h expiry now' disk = (Inr consumed, db')"
  using assms
  by (auto simp: verify_and_consume_issued_plan_def Let_def split: sum.splits option.splits if_splits prod.splits)

section \<open>Following a write back to its confirmation\<close>

lemma bind_after: "m s = (Inr a, s') \<Longrightarrow> effect_bind m f s = f a s'"
  by (simp add: effect_bind_def)

lemma reported_world:
  "ts_world (snd (effect_bind (on_world m) (report_execution ti fl h p) s)) = snd (m (ts_world s))"
proof -
  have reported: "ts_world (snd (report_execution ti fl h p outcome s')) = ts_world s'" for outcome and s' :: "'a tool_state"
    using keepsD [OF execution_reported_keeps [where I = "\<lambda>w. w = ts_world s'"]] by blast
  show ?thesis
    by (cases "m (ts_world s)") (auto simp: effect_bind_def on_world_def reported split: sum.split)
qed

lemma consume_and_execute_breaks:
  assumes "\<not> I (ts_world (snd (consume_and_execute ti be mode plan live_schema tool h nonce expires_at extra s)))"
    and "I (ts_world s)"
  shows "\<exists>consumed db'. verify_and_consume_issued_plan (ti_sha ti) (ti_digest ti) (from_env (sk_env be)) (from_env (sk_env be))
      (ts_ledger s) h tool mode (graph_payload_digest (ti_sha ti) plan extra) (data_schema_hash (ti_sha ti) live_schema) nonce
      expires_at (Some (extra_context_of extra)) (ti_now ti 4) (ti_now ti 5) (ti_disk ti 3) = (Inr (Inr consumed), db') \<and>
    ts_world (snd (consume_and_execute ti be mode plan live_schema tool h nonce expires_at extra s)) =
      snd (execute_graph_change_plan (gremlin_side be) consumed live_schema (ts_world s))"
proof -
  let ?m = "on_ledger (\<lambda>db. verify_and_consume_issued_plan (ti_sha ti) (ti_digest ti) (from_env (sk_env be)) (from_env (sk_env be))
      db h tool mode (graph_payload_digest (ti_sha ti) plan extra) (data_schema_hash (ti_sha ti) live_schema) nonce
      expires_at (Some (extra_context_of extra)) (ti_now ti 4) (ti_now ti 5) (ti_disk ti 3))"
  let ?final = "\<lambda>m. ts_world (snd (m s))"
  obtain verdict db' where v: "verify_and_consume_issued_plan (ti_sha ti) (ti_digest ti) (from_env (sk_env be)) (from_env (sk_env be))
      (ts_ledger s) h tool mode (graph_payload_digest (ti_sha ti) plan extra) (data_schema_hash (ti_sha ti) live_schema) nonce
      expires_at (Some (extra_context_of extra)) (ti_now ti 4) (ti_now ti 5) (ti_disk ti 3) = (verdict, db')"
    by fastforce
  then have m: "?m s = (Inr verdict, s\<lparr>ts_ledger := db'\<rparr>)" by (simp add: on_ledger_def)
  show ?thesis
  proof (cases "\<exists>consumed. verdict = Inr (Inr consumed) \<and> consumed \<noteq> PyNone")
    case True
    then obtain consumed where c: "verdict = Inr (Inr consumed)" "consumed \<noteq> PyNone" by blast
    have "?final (consume_and_execute ti be mode plan live_schema tool h nonce expires_at extra) =
      ts_world (snd (effect_bind (on_world (execute_graph_change_plan (gremlin_side be) consumed live_schema))
        (report_execution ti (sk_float_text be) h consumed) (s\<lparr>ts_ledger := db'\<rparr>)))"
      unfolding consume_and_execute_def Let_def by (subst bind_after [where m = ?m and s = s, OF m], insert c, cases consumed) simp_all
    then show ?thesis using v c by (simp add: reported_world)
  next
    case False
    then have "?final (consume_and_execute ti be mode plan live_schema tool h nonce expires_at extra) = ts_world s"
      unfolding consume_and_execute_def Let_def
      by (subst bind_after [where m = ?m and s = s, OF m]) (auto simp: effect_of_def effect_return_def split: sum.split prod.split pyval.split)
    then show ?thesis using assms by simp
  qed
qed

lemma preview_or_execute_breaks:
  assumes "\<not> I (ts_world (snd (preview_or_execute ti be mode hazard dry confirmed tool h nonce expires_at extra live_schema
      (plan, result) s)))" "I (ts_world s)"
  shows "\<not> dry \<and> confirmed \<and> guard DATA_WRITE (from_env (sk_env be)) = None \<and>
    preview_or_execute ti be mode hazard dry confirmed tool h nonce expires_at extra live_schema (plan, result) s =
      consume_and_execute ti be mode plan live_schema tool (case h of Some t \<Rightarrow> t | None \<Rightarrow> []) nonce expires_at extra s"
proof -
  have "\<not> dry"
    using assms keepsD [OF finish_dry_run_keeps [where I = I], OF assms(2)] by (auto simp: preview_or_execute_def Let_def)
  then show ?thesis
    using assms by (auto simp: preview_or_execute_def Let_def effect_return_def split: option.split_asm if_split_asm)
qed

lemma with_plan_breaks:
  assumes "safe_queries_keep I (gremlin_side be)"
    and "\<not> I (ts_world (snd (with_plan ti be mode hazard dry confirmed tool h nonce expires_at extra issued live_schema p s)))"
    and "untouched I db s"
  shows "\<exists>c result s'. py_truthy (dict_get (validate_mode_operations (sk_float_text be) mode p) ''valid'') \<and>
    untouched I db s' \<and> (issued \<longrightarrow> c = p) \<and>
    with_plan ti be mode hazard dry confirmed tool h nonce expires_at extra issued live_schema p s =
      preview_or_execute ti be mode hazard dry confirmed tool h nonce expires_at extra live_schema (c, result) s'"
proof -
  let ?k = "\<lambda>compiled. case compiled of Inl r \<Rightarrow> effect_return r
    | Inr c \<Rightarrow> preview_or_execute ti be mode hazard dry confirmed tool h nonce expires_at extra live_schema c"
  have valid: "py_truthy (dict_get (validate_mode_operations (sk_float_text be) mode p) ''valid'')"
    using assms(2,3) by (auto simp: with_plan_def effect_return_def untouched_def Let_def split: if_split_asm)
  then have unfolds: "with_plan ti be mode hazard dry confirmed tool h nonce expires_at extra issued live_schema p s =
      effect_bind (on_world (compiled_or_error ti be issued p live_schema extra)) ?k s"
    by (simp add: with_plan_def)
  obtain r s' where r: "on_world (compiled_or_error ti be issued p live_schema extra) s = (Inr r, s')" "untouched I db s'"
      "\<not> I (ts_world (snd (?k r s')))"
    using breaks_bind_under [where I = "\<lambda>s. I (ts_world s)" and J = "untouched I db", OF assms(2) [unfolded unfolds]
        untouched_on_world [OF compiled_or_error_keeps [OF assms(1)]] assms(3)]
    by (auto simp: untouched_def)
  then obtain c result where c: "r = Inr (c, result)"
    by (cases r) (auto simp: effect_return_def untouched_def)
  have "issued \<longrightarrow> c = p"
    using r(1) c by (auto simp: on_world_def compiled_or_error_def effect_return_def)
  moreover have "effect_bind (on_world (compiled_or_error ti be issued p live_schema extra)) ?k s =
      preview_or_execute ti be mode hazard dry confirmed tool h nonce expires_at extra live_schema (c, result) s'"
    by (subst bind_after [where m = "on_world (compiled_or_error ti be issued p live_schema extra)" and s = s, OF r(1)])
      (simp add: c)
  ultimately show ?thesis using valid unfolds r(2) by auto
qed

lemma with_schema_breaks:
  assumes "\<not> I (ts_world (snd (with_schema ti be mode graph_data hazard dry confirmed tool h nonce expires_at extra issued plan
      live_schema s)))" "I (ts_world s)"
  shows "\<exists>p. plan \<in> {None, Some p} \<and>
    with_schema ti be mode graph_data hazard dry confirmed tool h nonce expires_at extra issued plan live_schema s =
      with_plan ti be mode hazard dry confirmed tool h nonce expires_at extra issued live_schema p s"
  using assms
  by (auto simp: with_schema_def effect_bind_def effect_of_def effect_return_def split: option.split_asm sum.split_asm)

text \<open>What a write of the tool comes from.\<close>

lemma map_sum_elim: "map_sum f g x = Inr y \<Longrightarrow> (\<And>z. x = Inr z \<Longrightarrow> y = g z \<Longrightarrow> P) \<Longrightarrow> P"
  by (cases x) auto

lemma confirmed_plan_Inr:
  assumes "confirmed_plan ti be hazard is_import plan_hash nonce expires_at s = (Inr (Inr plan), s')"
  shows "\<not> hazard \<and> \<not> is_import \<and> load_issued_plan (ti_digest ti) (ts_ledger s) nonce plan_hash expires_at (ti_now ti 0)
    (ti_now ti 1) (ti_disk ti 2) = Inr plan"
  using assms
  by (auto simp: confirmed_plan_def effect_bind_def effect_return_def ask_ledger_def
      split: option.split_asm sum.split_asm if_split_asm pyval.split_asm)

lemma read_request_mode:
  "read_request fl mode graph_data change_plan = Inr (Inr (plan, hazard)) \<Longrightarrow> mode = ''import'' \<or> mode = ''delete''"
  by (auto simp: read_request_def Let_def split: if_split_asm)

lemma manage_graph_data_breaks:
  assumes "schema_reads_keep I (schema_side be)" "safe_queries_keep I (gremlin_side be)" "I (ts_world s)"
    and "\<not> I (ts_world (snd (manage_graph_data ti be mode graph_data change_plan dry confirmed plan_hash nonce expires_at extra
      tool s)))"
  shows "\<exists>plan hazard issued live_schema s'. read_request (sk_float_text be) mode graph_data change_plan = Inr (Inr (plan, hazard)) \<and>
    (\<not> dry \<and> confirmed \<longrightarrow> (\<exists>p. issued = Some p \<and> \<not> hazard \<and> mode \<noteq> ''import'' \<and>
      load_issued_plan (ti_digest ti) (ts_ledger s) nonce plan_hash expires_at (ti_now ti 0) (ti_now ti 1) (ti_disk ti 2) = Inr p)) \<and>
    untouched I (ts_ledger s) s' \<and>
    manage_graph_data ti be mode graph_data change_plan dry confirmed plan_hash nonce expires_at extra tool s =
      with_schema ti be mode graph_data hazard dry confirmed tool plan_hash nonce expires_at extra (\<not> dry \<and> confirmed) issued
        live_schema s'"
proof -
  let ?P = "\<lambda>s. I (ts_world s)" and ?J = "untouched I (ts_ledger s)" and ?confirming = "\<not> dry \<and> confirmed"
  have J: "?J s" "\<And>s'. ?J s' \<Longrightarrow> ?P s'" using assms(3) by (auto simp: untouched_def)
  obtain plan hazard where req: "read_request (sk_float_text be) mode graph_data change_plan = Inr (Inr (plan, hazard))"
    using assms(3,4)
    by (auto simp: manage_graph_data_def effect_bind_def effect_of_def effect_return_def split: sum.split_asm prod.split_asm)
  let ?issue = "if ?confirming
      then effect_bind (confirmed_plan ti be hazard (mode = ''import'') plan_hash nonce expires_at) (\<lambda>issued.
        effect_return (map_sum id Some issued))
      else effect_return (Inr plan)"
  let ?fetch = "on_world (fetch_live_schema_or_none (schema_side be)) :: ('a tool_state, pyval option) effect"
  let ?rest = "\<lambda>plan' fetched. case fetched of None \<Rightarrow> effect_return no_schema_reply
    | Some live_schema \<Rightarrow> with_schema ti be mode graph_data hazard dry confirmed tool plan_hash nonce expires_at extra
        ?confirming plan' live_schema"
  let ?k = "\<lambda>issued. case issued of Inl r \<Rightarrow> effect_return r | Inr plan' \<Rightarrow> effect_bind ?fetch (?rest plan')"
  have unfolds: "manage_graph_data ti be mode graph_data change_plan dry confirmed plan_hash nonce expires_at extra tool s =
      effect_bind ?issue ?k s"
    unfolding manage_graph_data_def
    by (subst bind_after [where a = "Inr (plan, hazard)" and s' = s]) (simp_all add: effect_of_def req)
  have "effect_keeps ?J ?issue" by (intro effect_rules confirmed_plan_untouched)
  from breaks_bind_under [where I = ?P and J = ?J, OF assms(4) [unfolded unfolds] this J]
  obtain r s1 where r: "?issue s = (Inr r, s1)" "?J s1" "\<not> ?P (snd (?k r s1))" by blast
  then obtain issued where issued: "r = Inr issued" using J by (cases r) (auto simp: effect_return_def)
  have "effect_keeps ?J ?fetch" by (intro untouched_on_world fetch_or_none_keeps assms(1))
  from breaks_bind_under [where I = ?P and J = ?J, OF r(3) [unfolded issued sum.case] this r(2) J(2)]
  obtain f s2 where f: "?fetch s1 = (Inr f, s2)" "?J s2" "\<not> ?P (snd (?rest issued f s2))" by blast
  then obtain live_schema where f': "f = Some live_schema" using J by (cases f) (auto simp: effect_return_def)
  have "manage_graph_data ti be mode graph_data change_plan dry confirmed plan_hash nonce expires_at extra tool s =
      with_schema ti be mode graph_data hazard dry confirmed tool plan_hash nonce expires_at extra ?confirming issued live_schema s2"
    unfolding unfolds bind_after [where m = ?issue and s = s, OF r(1)] issued sum.case
      bind_after [where m = ?fetch and s = s1, OF f(1)] f' option.case ..
  moreover have "\<exists>p. issued = Some p \<and> \<not> hazard \<and> mode \<noteq> ''import'' \<and>
      load_issued_plan (ti_digest ti) (ts_ledger s) nonce plan_hash expires_at (ti_now ti 0) (ti_now ti 1) (ti_disk ti 2) = Inr p"
    if ?confirming
  proof -
    have "effect_bind (confirmed_plan ti be hazard (mode = ''import'') plan_hash nonce expires_at)
        (\<lambda>issued. effect_return (map_sum id Some issued)) s = (Inr (Inr issued), s1)"
      using r(1) issued that by (simp only: if_True simp_thms)
    then obtain p where "confirmed_plan ti be hazard (mode = ''import'') plan_hash nonce expires_at s = (Inr (Inr p), s1)" "issued = Some p"
      unfolding effect_bind_Inr by (auto simp: effect_return_def dest!: sym [of "Inr issued"] elim!: map_sum_elim)
    then show ?thesis using confirmed_plan_Inr by blast
  qed
  ultimately show ?thesis using req f(2) by blast
qed

text \<open>
  C25: the graph data tool writes only what was confirmed. Whatever property of the world its reads and
  its safe queries keep, a call after which it no longer holds is a confirmed delete that is no dry run
  and that the guard lets pass; it consumed the confirmation of its nonce and hash in this call, and
  all it did was to execute, on a world that still had the property, the plan that the server had
  issued under them, whatever plan the caller sent along. An import never writes.
\<close>

theorem graph_write_executes_issued_plan:
  assumes "schema_reads_keep I (schema_side be)" "safe_queries_keep I (gremlin_side be)"
    and "confirmation_inv (ts_ledger s)" "I (ts_world s)"
    and "\<not> I (ts_world (snd (manage_graph_data ti be mode graph_data change_plan dry confirmed plan_hash nonce expires_at extra
      tool s)))"
  shows "mode = ''delete'' \<and> \<not> dry \<and> confirmed \<and> guard DATA_WRITE (from_env (sk_env be)) = None \<and>
    (\<exists>h plan live_schema db' w. plan_hash = Some h \<and>
      load_issued_plan (ti_digest ti) (ts_ledger s) nonce plan_hash expires_at (ti_now ti 0) (ti_now ti 1) (ti_disk ti 2) = Inr plan \<and>
      py_truthy (dict_get (validate_mode_operations (sk_float_text be) ''delete'' plan) ''valid'') \<and>
      verify_and_consume_issued_plan (ti_sha ti) (ti_digest ti) (from_env (sk_env be)) (from_env (sk_env be)) (ts_ledger s) h tool
        ''delete'' (graph_payload_digest (ti_sha ti) plan extra) (data_schema_hash (ti_sha ti) live_schema) nonce expires_at
        (Some (extra_context_of extra)) (ti_now ti 4) (ti_now ti 5) (ti_disk ti 3) = (Inr (Inr plan), db') \<and>
      I w \<and>
      ts_world (snd (manage_graph_data ti be mode graph_data change_plan dry confirmed plan_hash nonce expires_at extra tool s)) =
        snd (execute_graph_change_plan (gremlin_side be) plan live_schema w))"
proof -
  obtain p0 hazard issued live_schema s1 where m:
      "read_request (sk_float_text be) mode graph_data change_plan = Inr (Inr (p0, hazard))"
      "\<not> dry \<and> confirmed \<longrightarrow> (\<exists>p. issued = Some p \<and> \<not> hazard \<and> mode \<noteq> ''import'' \<and>
        load_issued_plan (ti_digest ti) (ts_ledger s) nonce plan_hash expires_at (ti_now ti 0) (ti_now ti 1) (ti_disk ti 2) = Inr p)"
      "untouched I (ts_ledger s) s1"
      "manage_graph_data ti be mode graph_data change_plan dry confirmed plan_hash nonce expires_at extra tool s =
        with_schema ti be mode graph_data hazard dry confirmed tool plan_hash nonce expires_at extra (\<not> dry \<and> confirmed) issued
          live_schema s1"
    using manage_graph_data_breaks [OF assms(1,2,4,5)] by blast
  note broken = assms(5) [unfolded m(4)]
  have "I (ts_world s1)" using m(3) by (simp add: untouched_def)
  from with_schema_breaks [where I = I, OF broken this] obtain p where p: "issued \<in> {None, Some p}" 
      "with_schema ti be mode graph_data hazard dry confirmed tool plan_hash nonce expires_at extra (\<not> dry \<and> confirmed) issued
          live_schema s1 =
        with_plan ti be mode hazard dry confirmed tool plan_hash nonce expires_at extra (\<not> dry \<and> confirmed) live_schema p s1"
    by blast
  from with_plan_breaks [OF assms(2) broken [unfolded p(2)] m(3)] obtain c result s2 where c:
      "py_truthy (dict_get (validate_mode_operations (sk_float_text be) mode p) ''valid'')" "untouched I (ts_ledger s) s2"
      "\<not> dry \<and> confirmed \<longrightarrow> c = p"
      "with_plan ti be mode hazard dry confirmed tool plan_hash nonce expires_at extra (\<not> dry \<and> confirmed) live_schema p s1 =
        preview_or_execute ti be mode hazard dry confirmed tool plan_hash nonce expires_at extra live_schema (c, result) s2"
    by blast
  note broken' = broken [unfolded p(2) c(4)]
  have w2: "I (ts_world s2)" "ts_ledger s2 = ts_ledger s" using c(2) by (auto simp: untouched_def)
  from preview_or_execute_breaks [where I = I, OF broken' w2(1)] have e: "\<not> dry" "confirmed"
      "guard DATA_WRITE (from_env (sk_env be)) = None"
      "preview_or_execute ti be mode hazard dry confirmed tool plan_hash nonce expires_at extra live_schema (c, result) s2 =
        consume_and_execute ti be mode c live_schema tool (case plan_hash of Some t \<Rightarrow> t | None \<Rightarrow> []) nonce expires_at extra s2"
    by blast+
  have issued: "c = p" "mode \<noteq> ''import''" "load_issued_plan (ti_digest ti) (ts_ledger s) nonce plan_hash expires_at (ti_now ti 0)
      (ti_now ti 1) (ti_disk ti 2) = Inr p"
    using m(2) c(3) e p(1) by auto
  have mode: "mode = ''delete''" using read_request_mode [OF m(1)] issued(2) by simp
  obtain n h e' where h: "nonce = Some n" "plan_hash = Some h"
      "issued_payload (ti_digest ti) (ts_ledger s) n h e' (ti_now ti 1) (ti_disk ti 2) = Inr p"
    using load_issued_Inr [OF issued(3)] by blast
  have executed: "manage_graph_data ti be mode graph_data change_plan dry confirmed plan_hash nonce expires_at extra tool s =
      consume_and_execute ti be mode p live_schema tool h nonce expires_at extra s2"
    using m(4) p(2) c(4) e(4) issued(1) h(2) by simp
  from consume_and_execute_breaks [where I = I, OF assms(5) [unfolded executed] w2(1)] obtain consumed db' where v:
      "verify_and_consume_issued_plan (ti_sha ti) (ti_digest ti) (from_env (sk_env be)) (from_env (sk_env be)) (ts_ledger s) h tool mode
        (graph_payload_digest (ti_sha ti) p extra) (data_schema_hash (ti_sha ti) live_schema) nonce expires_at
        (Some (extra_context_of extra)) (ti_now ti 4) (ti_now ti 5) (ti_disk ti 3) = (Inr (Inr consumed), db')"
      "ts_world (snd (manage_graph_data ti be mode graph_data change_plan dry confirmed plan_hash nonce expires_at extra tool s)) =
        snd (execute_graph_change_plan (gremlin_side be) consumed live_schema (ts_world s2))"
    unfolding w2(2) executed by blast
  from verify_consumes [OF v(1)] have "consumed = p"
    unfolding h(1) option.case using consume_issued_payload [OF assms(3) h(3)] by blast
  with v mode have "verify_and_consume_issued_plan (ti_sha ti) (ti_digest ti) (from_env (sk_env be)) (from_env (sk_env be))
        (ts_ledger s) h tool ''delete'' (graph_payload_digest (ti_sha ti) p extra) (data_schema_hash (ti_sha ti) live_schema) nonce
        expires_at (Some (extra_context_of extra)) (ti_now ti 4) (ti_now ti 5) (ti_disk ti 3) = (Inr (Inr p), db')"
      "ts_world (snd (manage_graph_data ti be mode graph_data change_plan dry confirmed plan_hash nonce expires_at extra tool s)) =
        snd (execute_graph_change_plan (gremlin_side be) p live_schema (ts_world s2))"
    by simp_all
  with mode e(1-3) c(1) h(2) issued(3) w2(1) show ?thesis by blast
qed

text \<open>
  Runs of the graph data tool against a server whose world is whether an edge is there: it counts the
  edge and removes it on a query that is not a read.
\<close>

definition linked_people :: "bool data_backend" where
  "linked_people =
     \<lparr>sk_env = writable_env,
      sk_connect = (\<lambda>_. effect_return (\<lambda>method path body. effect_return
        \<lparr>ha_status = 200, ha_json = Some social_schema, ha_text = [], ha_content = []\<rparr>)),
      sk_float_text = (\<lambda>_. []), sk_exception_text = (\<lambda>_. []), sk_set_order = (\<lambda>vs. vs),
      da_client = (\<lambda>w query. (Inr (PyList [PyInt (if w then 1 else 0)]), w \<and> classify_gremlin_read_safety query = Safe)),
      da_duration = 0, da_response_true = (\<lambda>_. True), da_formats = sample_formats\<rparr>"

definition delete_inputs :: tool_inputs where
  "delete_inputs =
     \<lparr>ti_sha = (\<lambda>_. ''h''), ti_digest = (\<lambda>s. s), ti_nonce = ''n'', ti_uuid = ''u'', ti_now = (\<lambda>_. 0),
      ti_disk = (\<lambda>_. True), ti_store_failure = None\<rparr>"

definition deletion_plan :: pyval where
  "deletion_plan = PyDict [(''operations'', PyList [PyDict [(''label'', PyStr ''knows''), (''op'', PyStr ''delete_edge''), (''target_id'', PyInt 7)]])]"

text \<open>The ledger after the dry run that issued the nonce.\<close>

definition deletion_session :: "bool tool_state" where
  "deletion_session =
     \<lparr>ts_world = True,
      ts_ledger = snd (issue_plan (\<lambda>s. s) empty_confirmation_db
        (graph_plan_context delete_inputs (from_env writable_env) 0 ''manage_graph_data_tool'' ''delete'' deletion_plan social_schema None None)
        ''h'' (Some deletion_plan) 0 True),
      ts_plans = empty_plan_store\<rparr>"

definition fetched_schema :: pyval where
  "fetched_schema =
     (case fetch_live_schema_or_none (schema_side linked_people) True of (Inr (Some live), _) \<Rightarrow> live | _ \<Rightarrow> PyNone)"

lemma deletion_fetched: "fetch_live_schema_or_none (schema_side linked_people) True = (Inr (Some fetched_schema), True)"
  by code_simp

lemma deletion_confirmed:
  "confirmed_plan delete_inputs linked_people False False (Some ''h'') (Some ''n'') (PyInt 600) deletion_session =
     (Inr (Inr deletion_plan), deletion_session)"
proof -
  have "case confirmed_plan delete_inputs linked_people False False (Some ''h'') (Some ''n'') (PyInt 600) deletion_session of
     (Inr (Inr plan), s) \<Rightarrow> plan = deletion_plan | _ \<Rightarrow> False"
    by code_simp
  moreover have "snd (confirmed_plan delete_inputs linked_people False False (Some ''h'') (Some ''n'') (PyInt 600) deletion_session) =
      deletion_session"
    by (simp add: confirmed_plan_def effect_bind_def effect_return_def ask_ledger_def split: option.split if_split)
  ultimately show ?thesis
    by (cases "confirmed_plan delete_inputs linked_people False False (Some ''h'') (Some ''n'') (PyInt 600) deletion_session")
      (auto split: sum.split_asm)
qed

lemma deletion_valid: "py_truthy (dict_get (validate_mode_operations (\<lambda>_. []) ''delete'' deletion_plan) ''valid'')"
  by code_simp

lemma deletion_consumed:
  "\<not> ts_world (snd (consume_and_execute delete_inputs linked_people ''delete'' deletion_plan fetched_schema ''manage_graph_data_tool'' ''h''
     (Some ''n'') (PyInt 600) None deletion_session))"
  by code_simp

lemma deletion_size: "payload_byte_size (\<lambda>_. []) deletion_plan \<le> 200"
  by code_simp

lemma deletion_limit: "write_limit_envelope (\<lambda>_. []) (Suc 0) deletion_plan = None"
  using deletion_size by (simp add: write_limit_envelope_None MAX_OPERATIONS_def MAX_PAYLOAD_BYTES_def)

lemma deletion_shape:
  "delete_plan deletion_plan = deletion_plan" "deletion_plan \<noteq> PyNone" "length (plan_operations deletion_plan) = Suc 0"
  "deletes_isolated_vertex (\<lambda>_. []) (plan_operations deletion_plan) = Inr False"
  by code_simp+

lemma deletion_request:
  "read_request (\<lambda>_. []) ''delete'' PyNone deletion_plan = Inr (Inr (Some deletion_plan, False))"
  by (simp add: read_request_def deletion_limit deletion_shape Let_def)

lemma deletion_run:
  "\<not> ts_world (snd (manage_graph_data delete_inputs linked_people ''delete'' PyNone deletion_plan False True (Some ''h'') (Some ''n'')
     (PyInt 600) None ''manage_graph_data_tool'' deletion_session))"
proof -
  have guard: "guard DATA_WRITE (from_env (sk_env linked_people)) = None" by code_simp
  have sample: "sk_float_text linked_people = (\<lambda>_. [])" "ts_world deletion_session"
      "deletion_session\<lparr>ts_world := True\<rparr> = deletion_session"
    by (simp_all add: linked_people_def deletion_session_def)
  then show ?thesis
    using deletion_consumed
    by (simp add: manage_graph_data_def effect_bind_def effect_of_def effect_return_def on_world_def with_schema_def with_plan_def
      compiled_or_error_def preview_or_execute_def deletion_fetched deletion_confirmed deletion_valid deletion_request sample guard Let_def)
qed

theorem graph_write_executes_issued_plan_witness:
  "confirmation_inv (ts_ledger deletion_session) \<and>
   (\<exists>plan. load_issued_plan (\<lambda>s. s) (ts_ledger deletion_session) (Some ''n'') (Some ''h'') (PyInt 600) 0 0 True = Inr plan \<and>
     ts_world (snd (manage_graph_data delete_inputs linked_people ''delete'' PyNone deletion_plan False True (Some ''h'') (Some ''n'')
       (PyInt 600) None ''manage_graph_data_tool'' deletion_session)) = False)"
proof -
  have "schema_reads_keep (\<lambda>w. w) (schema_side linked_people)"
    by (auto simp: schema_reads_keep_def schema_side_def schema_backend.truncate_def linked_people_def effect_keeps_def effect_return_def)
  moreover have "safe_queries_keep (\<lambda>w. w) (gremlin_side linked_people)"
    by (auto simp: safe_queries_keep_def gremlin_side_def linked_people_def)
  moreover have inv: "confirmation_inv (ts_ledger deletion_session)"
    by (simp add: deletion_session_def issue_plan_def split_beta issue_inv [OF prod.collapse [symmetric]] confirmations.inv_init [OF refl])
  moreover have "ts_world deletion_session"
    by (simp add: deletion_session_def)
  ultimately show ?thesis
    using deletion_run graph_write_executes_issued_plan [where I = "\<lambda>w. w" and ti = delete_inputs and be = linked_people
      and s = deletion_session, OF _ _ _ _ deletion_run]
    by (auto simp: delete_inputs_def)
qed

section \<open>A request that raises\<close>

text \<open>
  The tool promises a structured error for every failure. A delete plan with an operation that is not
  an object raises instead, because the plan is searched for vertex deletions before it is validated.
\<close>

theorem scalar_operation_raises:
  "fst (manage_graph_data delete_inputs linked_people ''delete'' PyNone (PyList [PyInt 1]) True False None None PyNone None tool s) =
     Inl RaisesAttribute"
proof -
  have "payload_byte_size (\<lambda>_. []) (delete_plan (PyList [PyInt 1])) \<le> 100" by code_simp
  then have "write_limit_envelope (\<lambda>_. []) (Suc 0) (delete_plan (PyList [PyInt 1])) = None"
    by (simp add: write_limit_envelope_None MAX_OPERATIONS_def MAX_PAYLOAD_BYTES_def)
  moreover have "length (plan_operations (delete_plan (PyList [PyInt 1]))) = Suc 0"
      "deletes_isolated_vertex (\<lambda>_. []) (plan_operations (delete_plan (PyList [PyInt 1]))) = Inl RaisesAttribute"
    by (simp_all add: plan_operations_def delete_plan_def)
  ultimately have "read_request (\<lambda>_. []) ''delete'' PyNone (PyList [PyInt 1]) = Inl RaisesAttribute"
    by (simp add: read_request_def Let_def)
  then show ?thesis by (simp add: manage_graph_data_def effect_bind_def effect_of_def linked_people_def)
qed

end
