(* ===== verification/Graph_Import.thy ===== *)
theory Graph_Import
  imports Graph_Client Manage_Graph_Data
begin

text \<open>
  The rest of \<open>tools/ingest_graph_data.py\<close> that the program uses: the normal form of a payload that its
  plan hash is computed from, and the legacy import over HugeGraph-AI, of which only the dry run is left.
  The preparation of a payload for the service and the reading of its results have no caller.
\<close>

section \<open>The normal form of a payload\<close>

text \<open>\<open>json.dumps(v, sort_keys=True, separators=(",", ":"))\<close>: this text is what items are sorted by.\<close>

fun json_compact :: "(rat \<Rightarrow> string) \<Rightarrow> pyval \<Rightarrow> string" where
  "json_compact fl (PyList vs) = ''['' @ join '','' (map (json_compact fl) vs) @ '']''"
| "json_compact fl (PyTuple vs) = ''['' @ join '','' (map (json_compact fl) vs) @ '']''"
| "json_compact fl (PyDict d) = ''{'' @ join '','' (map (\<lambda>(k, v). json_string k @ '':'' @ json_compact fl v) d) @ ''}''"
| "json_compact fl v = json_dumps fl v"

definition canonical_json_key :: "(rat \<Rightarrow> string) \<Rightarrow> pyval \<Rightarrow> string" where
  "canonical_json_key fl v = ascii_escape (json_compact fl (canonicalize v))"

fun normalize_value :: "pyval \<Rightarrow> pyval" where
  "normalize_value (PyDict d) = PyDict (sort_key fst (map (\<lambda>(k, v). (k, normalize_value v)) d))"
| "normalize_value (PyList vs) = PyList (map normalize_value vs)"
| "normalize_value v = v"

text \<open>The first key of a dictionary in the order of texts.\<close>

definition least_key :: "pydict \<Rightarrow> string" where
  "least_key d = hd (sort (map fst d))"

definition vertex_identity_value :: "(string \<times> string list) list \<Rightarrow> string \<Rightarrow> pydict \<Rightarrow> pyval" where
  "vertex_identity_value primary_keys label vertex =
     (if \<not> blank_id (dict_get vertex ''id'') then dict_get vertex ''id''
      else case dict_get vertex ''properties'' of
        PyDict props \<Rightarrow>
          (case map_of primary_keys label of
             Some (k # ks) \<Rightarrow> PyTuple (map (dict_get props) (k # ks))
           | _ \<Rightarrow> if props = [] then PyNone else dict_get props (least_key props))
      | _ \<Rightarrow> PyNone)"

definition text_or_empty :: "(rat \<Rightarrow> string) \<Rightarrow> pyval \<Rightarrow> string" where
  "text_or_empty fl v = py_str fl (py_or v (PyStr []))"

text \<open>A tuple of texts is the list of its parts.\<close>

definition vertex_sort_key :: "(rat \<Rightarrow> string) \<Rightarrow> (string \<times> string list) list \<Rightarrow> pyval \<Rightarrow> string list" where
  "vertex_sort_key fl primary_keys vertex =
     (case vertex of
        PyDict d \<Rightarrow>
          let label = text_or_empty fl (dict_get d ''label'')
          in [label, canonical_json_key fl (vertex_identity_value primary_keys label d)]
      | _ \<Rightarrow> [[], canonical_json_key fl vertex])"

definition edge_sort_key :: "(rat \<Rightarrow> string) \<Rightarrow> pyval \<Rightarrow> string list" where
  "edge_sort_key fl edge =
     (case edge of
        PyDict d \<Rightarrow>
          let source = edge_endpoint d True; target = edge_endpoint d False
          in [text_or_empty fl (dict_get d ''label''), text_or_empty fl (fst source), text_or_empty fl (fst target),
              canonical_json_key fl (PyDict [(''source'', snd source), (''target'', snd target),
                (''properties'', get_default d ''properties'' (PyDict []))])]
      | _ \<Rightarrow> [[], [], [], canonical_json_key fl edge])"

text \<open>The primary keys of the vertex labels of a normalised summary, whose names are texts.\<close>

definition text_items :: "pyval list \<Rightarrow> string list" where
  "text_items vs = List.map_filter (\<lambda>v. case v of PyStr s \<Rightarrow> Some s | _ \<Rightarrow> None) vs"

definition add_primary_keys :: "(string \<times> string list) list \<Rightarrow> pyval \<Rightarrow> (string \<times> string list) list" where
  "add_primary_keys t vertex_label =
     (case vertex_label of
        PyDict d \<Rightarrow>
          (case (dict_get d ''name'', dict_get d ''primary_keys'') of
             (PyStr name, PyList keys) \<Rightarrow> AList.update name (text_items keys) t
           | _ \<Rightarrow> t)
      | _ \<Rightarrow> t)"

definition summary_primary_keys :: "pydict option \<Rightarrow> (string \<times> string list) list" where
  "summary_primary_keys summary =
     (case summary of
        None \<Rightarrow> []
      | Some d \<Rightarrow> (case dict_get d ''vertexlabels'' of PyList vs \<Rightarrow> foldl add_primary_keys [] vs | _ \<Rightarrow> []))"

definition sort_items :: "string \<Rightarrow> (pyval \<Rightarrow> string list) \<Rightarrow> pydict \<Rightarrow> pydict" where
  "sort_items k key d =
     (case dict_get d k of PyList vs \<Rightarrow> AList.update k (PyList (sort_key key vs)) d | _ \<Rightarrow> d)"

definition normalize_graph_data :: "(rat \<Rightarrow> string) \<Rightarrow> pyval \<Rightarrow> pydict option \<Rightarrow> pyval" where
  "normalize_graph_data fl graph_data summary =
     (case normalize_value graph_data of
        PyDict d \<Rightarrow> PyDict (sort_items ''edges'' (edge_sort_key fl)
          (sort_items ''vertices'' (vertex_sort_key fl (summary_primary_keys summary)) d))
      | v \<Rightarrow> v)"

section \<open>The hash of an import\<close>

definition import_digest_payload :: "(rat \<Rightarrow> string) \<Rightarrow> mcp_config \<Rightarrow> pyval \<Rightarrow> pydict option \<Rightarrow> pyval" where
  "import_digest_payload fl cfg graph_data summary =
     PyDict ([(''graph_data'', normalize_graph_data fl graph_data summary), (''graph'', PyStr (cf_graph cfg)),
        (''graphspace'', opt_str (cf_graphspace cfg))] @
       (case summary of None \<Rightarrow> [] | Some d \<Rightarrow> [(''schema_summary'', PyDict d)]))"

definition calculate_import_plan_hash ::
  "(pyval \<Rightarrow> string) \<Rightarrow> (rat \<Rightarrow> string) \<Rightarrow> mcp_config \<Rightarrow> pyval \<Rightarrow> pyval \<Rightarrow> string" where
  "calculate_import_plan_hash sha fl cfg graph_data live_schema =
     compute_payload_digest sha (import_digest_payload fl cfg graph_data (normalized_schema_summary live_schema False))"

definition import_plan_context ::
  "tool_inputs \<Rightarrow> (rat \<Rightarrow> string) \<Rightarrow> mcp_config \<Rightarrow> pyval \<Rightarrow> pyval \<Rightarrow> string option \<Rightarrow> plan_context" where
  "import_plan_context ti fl cfg graph_data live_schema nonce =
     (let summary = normalized_schema_summary live_schema False
      in fst (build_plan_context (ti_sha ti) cfg (ti_now ti 0) (ti_nonce ti) ''ingest_graph_data'' ''import''
           (calculate_import_plan_hash (ti_sha ti) fl cfg graph_data live_schema)
           (map_option (\<lambda>d. compute_payload_digest (ti_sha ti) (PyDict d)) summary) nonce DEFAULT_PLAN_TTL_SECONDS None))"

section \<open>The import over HugeGraph-AI\<close>

text \<open>\<open>len(graph_data.get(key) or [])\<close> of a payload that passed its check.\<close>

definition item_count :: "pyval \<Rightarrow> string \<Rightarrow> int" where
  "item_count graph_data k =
     (case graph_data of
        PyDict d \<Rightarrow> (case py_or (dict_get d k) (PyList []) of PyList vs \<Rightarrow> int (length vs) | _ \<Rightarrow> 0)
      | _ \<Rightarrow> 0)"

definition import_mutation_summary :: "pyval \<Rightarrow> pydict" where
  "import_mutation_summary graph_data =
     [(''vertices'', PyInt (item_count graph_data ''vertices'')), (''edges'', PyInt (item_count graph_data ''edges''))]"

definition import_preview ::
  "tool_inputs \<Rightarrow> (rat \<Rightarrow> string) \<Rightarrow> mcp_config \<Rightarrow> pyval \<Rightarrow> pyval \<Rightarrow> pyval \<Rightarrow> string option \<Rightarrow> pydict" where
  "import_preview ti fl cfg graph_data live_schema warnings nonce =
     (let context = import_plan_context ti fl cfg graph_data live_schema nonce;
          payload =
            [(''plan_hash'', PyStr (compute_plan_hash (ti_sha ti) context)),
             (''plan_context'', PyDict (plan_context_payload context)),
             (''mutation_summary'', PyDict (import_mutation_summary graph_data)), (''warnings'', warnings),
             (''confirmable'', PyBool False), (''preview_only'', PyBool True)]
      in if cf_readonly cfg then fst (mark_readonly_preview payload [] []) else payload)"

definition answer_import ::
  "tool_inputs \<Rightarrow> 'w schema_backend \<Rightarrow> pyval \<Rightarrow> bool \<Rightarrow> bool \<Rightarrow> string option \<Rightarrow> pyval \<Rightarrow> pydict \<Rightarrow> reply" where
  "answer_import ti be graph_data dry confirmed nonce live_schema validation =
     (let cfg = from_env (sk_env be) in
      if \<not> py_truthy (dict_get validation ''valid'')
      then envelope_err SCHEMA_MISMATCH ''Graph data does not match live schema.'' None False
        (Some (PyDict [(''errors'', dict_get validation ''errors'')]))
      else if dry
      then envelope_ok (PyDict (import_preview ti (sk_float_text be) cfg graph_data live_schema (dict_get validation ''warnings'') nonce))
      else case guard DATA_WRITE cfg of
        Some r \<Rightarrow> r
      | None \<Rightarrow>
          if \<not> confirmed
          then envelope_err CONFIRM_REQUIRED ''Graph data import requires confirm=True after a dry_run.''
            (Some (''Run dry_run=True, review mutation_summary and warnings, then pass '' @
              ''confirm=True with the returned plan_hash.'')) False None
          else envelope_err FEATURE_DISABLED ''Legacy HugeGraph-AI graph import execution is disabled.''
            (Some (''Use dry_run for validation only. Enable graph import only after the '' @
              ''canonical workflow has verified atomic create adapters.'')) False None)"

definition ingest_graph_data_via_ai ::
  "tool_inputs \<Rightarrow> 'w schema_backend \<Rightarrow> text_formats \<Rightarrow> pyval \<Rightarrow> bool \<Rightarrow> bool \<Rightarrow> string option \<Rightarrow> ('w, reply) effect" where
  "ingest_graph_data_via_ai ti be tf graph_data dry confirmed nonce =
     (case write_limit_envelope (sk_float_text be) (graph_data_operation_count graph_data) graph_data of
        Some r \<Rightarrow> effect_return r
      | None \<Rightarrow>
          effect_bind (fetch_live_schema_or_none be) (\<lambda>fetched.
            case fetched of
              None \<Rightarrow> effect_return (envelope_err CONNECTION_FAILED
                ''Cannot read live schema from HugeGraph Server. Schema validation is required before import.''
                (Some ''Ensure HugeGraph Server is running and accessible, then retry.'') True None)
            | Some live_schema \<Rightarrow>
                effect_bind (effect_of (validate_graph_payload (sk_float_text be) tf graph_data live_schema)) (\<lambda>validation.
                  effect_return (answer_import ti be graph_data dry confirmed nonce live_schema validation))))"

definition ingest_graph_data ::
  "tool_inputs \<Rightarrow> 'w schema_backend \<Rightarrow> text_formats \<Rightarrow> pyval \<Rightarrow> bool \<Rightarrow> bool \<Rightarrow> string option \<Rightarrow> ('w, reply) effect" where
  "ingest_graph_data ti be tf graph_data dry confirmed nonce = ingest_graph_data_via_ai ti be tf graph_data dry confirmed nonce"

text \<open>
  The hash of an import does not depend on the order of its items as long as no two items have the same
  sort key, and depends on it otherwise; the legacy import never writes.
\<close>

section \<open>The order of the items\<close>

lemma filter_same: "filter ((=) k) zs = replicate (count (mset zs) k) k"
  by (induction zs) auto

lemma sort_key_mset:
  assumes "mset xs = mset ys" "inj_on f (set xs)"
  shows "sort_key f xs = sort_key f ys"
proof (rule properties_for_sort_key)
  show "mset (sort_key f ys) = mset xs" using assms(1) by simp
  show "sorted (map f (sort_key f ys))" by simp
next
  fix k assume "k \<in> set (sort_key f ys)"
  have same: "set xs = set ys" using assms(1) by (rule mset_eq_setD)
  have only: "filter (\<lambda>x. f k = f x) zs = replicate (count (mset zs) k) k" if "set zs = set xs" for zs
  proof -
    have "filter (\<lambda>x. f k = f x) zs = filter ((=) k) zs"
      by (rule filter_cong) (use that same assms(2) \<open>k \<in> set (sort_key f ys)\<close> in \<open>auto dest: inj_onD\<close>)
    then show ?thesis by (simp only: filter_same)
  qed
  show "filter (\<lambda>x. f k = f x) (sort_key f ys) = filter (\<lambda>x. f k = f x) xs"
    using only [of xs] only [of "sort_key f ys"] same assms(1) by simp
qed

definition import_payload :: "pyval list \<Rightarrow> pyval list \<Rightarrow> pyval" where
  "import_payload vertices edges = PyDict [(''vertices'', PyList vertices), (''edges'', PyList edges)]"

lemma normalize_import_payload:
  "normalize_graph_data fl (import_payload vs es) summary =
     PyDict [(''edges'', PyList (sort_key (edge_sort_key fl) (map normalize_value es))),
       (''vertices'', PyList (sort_key (vertex_sort_key fl (summary_primary_keys summary)) (map normalize_value vs)))]"
  by (simp add: import_payload_def normalize_graph_data_def sort_items_def dict_get_def)

text \<open>
  C33: the hash of an import does not depend on the order of its vertices and edges, when no two of its
  vertices and no two of its edges have the same sort key.
\<close>

theorem import_hash_ignores_order:
  assumes "mset vs = mset vs'" "mset es = mset es'"
    and "inj_on (vertex_sort_key fl (summary_primary_keys (normalized_schema_summary live_schema False))) (normalize_value ` set vs)"
    and "inj_on (edge_sort_key fl) (normalize_value ` set es)"
  shows "calculate_import_plan_hash sha fl cfg (import_payload vs es) live_schema =
    calculate_import_plan_hash sha fl cfg (import_payload vs' es') live_schema"
proof -
  have m: "mset (map normalize_value vs) = mset (map normalize_value vs')"
      "mset (map normalize_value es) = mset (map normalize_value es')"
    using assms(1,2) by simp_all
  show ?thesis
    unfolding calculate_import_plan_hash_def import_digest_payload_def normalize_import_payload
    using sort_key_mset [OF m(1), of "vertex_sort_key fl (summary_primary_keys (normalized_schema_summary live_schema False))"]
      sort_key_mset [OF m(2), of "edge_sort_key fl"] assms(3,4)
    by simp
qed

definition sample_vertex :: "int \<Rightarrow> pyval" where
  "sample_vertex n = PyDict [(''id'', PyInt n), (''label'', PyStr ''person''), (''properties'', PyDict [])]"

theorem import_hash_ignores_order_witness:
  "calculate_import_plan_hash (json_dumps (\<lambda>_. [])) (\<lambda>_. []) (from_env (\<lambda>_. None)) (import_payload [sample_vertex 1, sample_vertex 2] []) PyNone =
   calculate_import_plan_hash (json_dumps (\<lambda>_. [])) (\<lambda>_. []) (from_env (\<lambda>_. None)) (import_payload [sample_vertex 2, sample_vertex 1] []) PyNone"
proof -
  have "vertex_sort_key (\<lambda>_. []) (summary_primary_keys (normalized_schema_summary PyNone False)) (normalize_value (sample_vertex 1)) \<noteq>
      vertex_sort_key (\<lambda>_. []) (summary_primary_keys (normalized_schema_summary PyNone False)) (normalize_value (sample_vertex 2))"
    by code_simp
  then show ?thesis
    by (intro import_hash_ignores_order) auto
qed

text \<open>
  The code promises independence of the order for all payloads. Two vertices without identifier, of a
  label without primary keys, have the same sort key when their least property is the same, and then
  they are hashed in the order they are given.
\<close>

definition unnamed_vertex :: "int \<Rightarrow> pyval" where
  "unnamed_vertex n =
     PyDict [(''label'', PyStr ''visit''), (''properties'', PyDict [(''at'', PyInt 1), (''by'', PyInt n)])]"

theorem import_hash_depends_on_order:
  "normalize_graph_data (\<lambda>_. []) (import_payload [unnamed_vertex 1, unnamed_vertex 2] []) None \<noteq>
   normalize_graph_data (\<lambda>_. []) (import_payload [unnamed_vertex 2, unnamed_vertex 1] []) None"
  by code_simp

section \<open>The legacy import never writes\<close>

lemma answer_import_ok [simp]:
  "\<not> reply_is_ok (answer_import ti be graph_data False confirmed nonce live_schema validation)"
  by (auto simp: answer_import_def Let_def guard_not_ok split: option.split)

theorem legacy_import_never_writes:
  assumes "schema_reads_keep I be" "I w"
    and "ingest_graph_data ti be tf graph_data dry confirmed nonce w = (r, w')"
  shows "I w' \<and> (\<forall>reply. r = Inr reply \<and> reply_is_ok reply \<longrightarrow> dry)"
proof -
  have "effect_keeps I (fetch_live_schema_or_none be)"
    using get_live_schema_keeps [OF assms(1)]
    by (auto simp: effect_keeps_def fetch_live_schema_or_none_def split: prod.split sum.split)
  then have "effect_keeps I (ingest_graph_data ti be tf graph_data dry confirmed nonce)"
    unfolding ingest_graph_data_def ingest_graph_data_via_ai_def by (intro effect_rules)
  moreover have "effect_ensures (\<lambda>reply. reply_is_ok reply \<longrightarrow> dry) (ingest_graph_data ti be tf graph_data dry confirmed nonce)"
    unfolding ingest_graph_data_def ingest_graph_data_via_ai_def
    by (cases dry) (auto intro!: effect_ensures_bind [where Q = "\<lambda>_. True", OF effect_ensures_any]
        simp: write_limit_envelope_def Let_def split: option.split if_split_asm)
  ultimately show ?thesis
    using assms(2,3) keepsD [of I "ingest_graph_data ti be tf graph_data dry confirmed nonce" w]
    by (auto simp: effect_ensures_def)
qed

end
