(* ===== verification/Ai_Client.thy ===== *)
theory Ai_Client
  imports Gremlin_Tools Graph_Client Url_Text
begin

text \<open>
  \<open>hugegraph_ai_client.py\<close>: calls of the HugeGraph-AI service. The HTTP library is the parameter
  \<open>transport\<close>: it raises or answers. A reply is the envelope without its \<open>meta\<close> block, of which only the
  request id is kept; the redaction of secrets is not modelled.
\<close>

record ai_reply =
  ar_ok :: bool
  ar_data :: pyval
  ar_error :: pydict
  ar_warnings :: "pyval list"
  ar_next_actions :: "pyval list"
  ar_request_id :: pyval

definition ai_ok :: "pyval \<Rightarrow> ai_reply" where
  "ai_ok data =
     \<lparr>ar_ok = True, ar_data = data, ar_error = [], ar_warnings = [], ar_next_actions = [], ar_request_id = PyNone\<rparr>"

definition ai_err :: "string \<Rightarrow> pyval \<Rightarrow> pyval \<Rightarrow> bool \<Rightarrow> pyval \<Rightarrow> ai_reply" where
  "ai_err etype message suggestion retryable details =
     \<lparr>ar_ok = False, ar_data = PyNone,
      ar_error = [(''type'', PyStr etype), (''message'', message), (''suggestion'', suggestion),
        (''retryable'', PyBool retryable), (''details'', if details = PyNone then PyDict [] else details)],
      ar_warnings = [], ar_next_actions = [], ar_request_id = PyNone\<rparr>"

text \<open>The reply of another tool.\<close>

definition ai_of_reply :: "reply \<Rightarrow> ai_reply" where
  "ai_of_reply r =
     (case r of
        EnvelopeOk d \<Rightarrow> ai_ok d
      | EnvelopeErr e \<Rightarrow> ai_err (error_type_value (ei_type e)) (PyStr (ei_message e)) (opt_str (ei_suggestion e))
          (ei_retryable e) (ei_details e))"

section \<open>Paths\<close>

definition is_relative_path :: "string \<Rightarrow> bool" where
  "is_relative_path path \<longleftrightarrow> url_scheme (url_text path) = None \<and> \<not> has_authority (url_text path)"

definition build_url :: "string \<Rightarrow> string \<Rightarrow> string" where
  "build_url base path =
     rev (dropWhile (\<lambda>c. c = CHR ''/'') (rev base)) @ ''/'' @ dropWhile (\<lambda>c. c = CHR ''/'') path"

section \<open>The envelope of the service\<close>

definition THIN_ENVELOPE_KEYS :: "string list" where
  "THIN_ENVELOPE_KEYS = [''ok'', ''data'', ''error'', ''warnings'', ''next_actions'', ''meta'']"

definition has_key :: "string \<Rightarrow> pydict \<Rightarrow> bool" where
  "has_key k d \<longleftrightarrow> map_of d k \<noteq> None"

definition is_bool :: "pyval \<Rightarrow> bool" where
  "is_bool v \<longleftrightarrow> (case v of PyBool _ \<Rightarrow> True | _ \<Rightarrow> False)"

definition is_list :: "pyval \<Rightarrow> bool" where
  "is_list v \<longleftrightarrow> (case v of PyList _ \<Rightarrow> True | _ \<Rightarrow> False)"

definition is_dict :: "pyval \<Rightarrow> bool" where
  "is_dict v \<longleftrightarrow> (case v of PyDict _ \<Rightarrow> True | _ \<Rightarrow> False)"

definition is_number :: "pyval \<Rightarrow> bool" where
  "is_number v \<longleftrightarrow> (case v of PyInt _ \<Rightarrow> True | PyBool _ \<Rightarrow> True | PyFloat _ \<Rightarrow> True | _ \<Rightarrow> False)"

definition is_thin_api_envelope :: "pyval \<Rightarrow> bool" where
  "is_thin_api_envelope data \<longleftrightarrow>
     (case data of
        PyDict d \<Rightarrow>
          is_bool (dict_get d ''ok'') \<and> has_key ''data'' d \<and> (dict_get d ''error'' = PyNone \<or> is_dict (dict_get d ''error'')) \<and>
          is_list (dict_get d ''warnings'') \<and> is_list (dict_get d ''next_actions'') \<and>
          (case dict_get d ''meta'' of
             PyDict meta \<Rightarrow>
               (case dict_get meta ''request_id'' of PyStr _ \<Rightarrow> True | _ \<Rightarrow> False) \<and> is_number (dict_get meta ''duration_ms'')
           | _ \<Rightarrow> False)
      | _ \<Rightarrow> False)"

definition looks_like_thin_api_envelope :: "pyval \<Rightarrow> bool" where
  "looks_like_thin_api_envelope data \<longleftrightarrow>
     (case data of
        PyDict d \<Rightarrow>
          list_all (\<lambda>k. has_key k d) THIN_ENVELOPE_KEYS \<or>
          (is_bool (dict_get d ''ok'') \<and> (has_key ''error'' d \<or> has_key ''data'' d) \<and>
           (dict_get d ''ok'' = PyBool False \<or> has_key ''warnings'' d \<or> has_key ''next_actions'' d))
      | _ \<Rightarrow> False)"

definition invalid_upstream_response :: "string \<Rightarrow> pyval \<Rightarrow> pydict \<Rightarrow> ai_reply" where
  "invalid_upstream_response problem request_id details =
     (ai_err ''HUGEGRAPH_AI_UNAVAILABLE'' (PyStr ''HugeGraph-AI returned an invalid response envelope'') PyNone False
        (PyDict ([(''reason'', PyStr ''invalid_upstream_response''), (''issue'', PyStr problem)] @ details)))
      \<lparr>ar_request_id := request_id\<rparr>"

definition listed :: "pyval \<Rightarrow> pyval list" where
  "listed v = (case v of PyList vs \<Rightarrow> vs | _ \<Rightarrow> [])"

definition remote_request_id :: "pydict \<Rightarrow> pyval" where
  "remote_request_id d = (case dict_get d ''meta'' of PyDict meta \<Rightarrow> dict_get meta ''request_id'' | _ \<Rightarrow> PyNone)"

text \<open>The failure a thin envelope reports.\<close>

definition remote_failure :: "(rat \<Rightarrow> string) \<Rightarrow> pydict \<Rightarrow> ai_reply" where
  "remote_failure fl d =
     (let error = (case dict_get d ''error'' of PyDict e \<Rightarrow> e | _ \<Rightarrow> []);
          retryable = dict_get error ''retryable''
      in (ai_err (py_str fl (get_default error ''type'' (PyStr ''HUGEGRAPH_AI_UNAVAILABLE'')))
            (get_default error ''message'' (PyStr ''HugeGraph-AI request failed'')) (dict_get error ''suggestion'')
            (retryable = PyBool True) (dict_get error ''details''))
          \<lparr>ar_warnings := listed (dict_get d ''warnings''), ar_next_actions := listed (dict_get d ''next_actions''),
           ar_request_id := remote_request_id d\<rparr>)"

text \<open>
  The loop over nested envelopes; \<open>opened\<close> counts the envelopes that were opened. A value parsed from JSON is
  a finite tree, so the test for a cycle is never true.
\<close>

definition MAX_NESTED_THIN_ENVELOPES :: nat where "MAX_NESTED_THIN_ENVELOPES = 1"

function unwrap_envelope :: "(rat \<Rightarrow> string) \<Rightarrow> nat \<Rightarrow> pydict \<Rightarrow> ai_reply" where
  "unwrap_envelope fl opened d =
     (if dict_get d ''ok'' \<noteq> PyBool True then remote_failure fl d
      else let inner = dict_get d ''data'' in
        if is_thin_api_envelope inner then
          (if opened \<ge> MAX_NESTED_THIN_ENVELOPES
           then invalid_upstream_response ''nested_envelope_depth_exceeded'' (remote_request_id d)
             [(''max_nested_envelopes'', PyInt (int MAX_NESTED_THIN_ENVELOPES))]
           else unwrap_envelope fl (Suc opened) (case inner of PyDict e \<Rightarrow> e | _ \<Rightarrow> []))
        else if looks_like_thin_api_envelope inner
        then invalid_upstream_response ''malformed_nested_envelope'' (remote_request_id d) []
        else (ai_ok inner)\<lparr>ar_warnings := listed (dict_get d ''warnings''),
          ar_next_actions := listed (dict_get d ''next_actions''), ar_request_id := remote_request_id d\<rparr>)"
  by pat_completeness auto
termination by (relation "measure (\<lambda>(fl, opened, d). Suc MAX_NESTED_THIN_ENVELOPES - opened)") auto

declare unwrap_envelope.simps [simp del]

definition normalize_response :: "(rat \<Rightarrow> string) \<Rightarrow> pyval \<Rightarrow> ai_reply" where
  "normalize_response fl data =
     (if is_thin_api_envelope data then unwrap_envelope fl 0 (case data of PyDict d \<Rightarrow> d | _ \<Rightarrow> [])
      else if looks_like_thin_api_envelope data then invalid_upstream_response ''malformed_envelope'' PyNone []
      else ai_ok data)"

section \<open>Requests\<close>

text \<open>
  What \<open>requests.request\<close> raises: a connection error or a timeout; an error of a class that is also a
  \<open>ValueError\<close> (a URL without scheme, an invalid URL or header); another one of its errors.
\<close>

datatype ai_failure = AiUnreachable string | AiInvalidRequest string | AiOtherError string

record ai_answer =
  an_status :: nat
  an_json :: "pyval option"
  an_http_error :: string
  an_json_error :: string

type_synonym 'w ai_transport =
  "string \<Rightarrow> string \<Rightarrow> pyval option \<Rightarrow> (string \<times> string) list \<Rightarrow> 'w \<Rightarrow> (ai_failure + ai_answer) \<times> 'w"

definition exception_message :: "string \<Rightarrow> string \<Rightarrow> string" where
  "exception_message p text = (if py_strip text = [] then p else p @ '': '' @ py_strip text)"

definition ai_error :: "string \<Rightarrow> bool \<Rightarrow> pydict \<Rightarrow> ai_reply" where
  "ai_error message retryable details =
     ai_err ''HUGEGRAPH_AI_UNAVAILABLE'' (PyStr message) PyNone retryable (PyDict details)"

definition is_http_error :: "nat \<Rightarrow> bool" where
  "is_http_error st \<longleftrightarrow> 400 \<le> st \<and> st < 600"

definition http_error_reply :: "pydict \<Rightarrow> ai_answer \<Rightarrow> ai_reply" where
  "http_error_reply details a =
     (let st = an_status a; details' = details @ [(''status_code'', PyInt (int st))] in
      if st \<in> {401, 403}
      then ai_err ''AUTHORIZATION_FAILED'' (PyStr (exception_message ''HugeGraph-AI authorization failed'' (an_http_error a))) PyNone
        False (PyDict details')
      else if 400 \<le> st \<and> st < 500
      then ai_error (exception_message ''HugeGraph-AI request failed'' (an_http_error a)) (st = 429) details'
      else ai_error (exception_message ''HugeGraph-AI is unavailable'' (an_http_error a)) True details')"

definition ai_answer_reply :: "(rat \<Rightarrow> string) \<Rightarrow> pydict \<Rightarrow> ai_failure + ai_answer \<Rightarrow> ai_reply" where
  "ai_answer_reply fl details r =
     (case r of
        Inl (AiUnreachable m) \<Rightarrow> ai_error (exception_message ''HugeGraph-AI is unavailable'' m) True details
      | Inl (AiInvalidRequest m) \<Rightarrow> ai_error (exception_message ''HugeGraph-AI returned invalid JSON'' m) False details
      | Inl (AiOtherError m) \<Rightarrow> ai_error (exception_message ''HugeGraph-AI request failed'' m) True details
      | Inr a \<Rightarrow>
          (case an_json a of
             None \<Rightarrow>
               if is_http_error (an_status a) then http_error_reply details a
               else ai_error (exception_message ''HugeGraph-AI returned invalid JSON'' (an_json_error a)) False details
           | Some data \<Rightarrow>
               if is_thin_api_envelope data \<and> (case data of PyDict d \<Rightarrow> dict_get d ''ok'' \<noteq> PyBool True | _ \<Rightarrow> False)
               then normalize_response fl data
               else if is_http_error (an_status a) then http_error_reply details a
               else normalize_response fl data))"

definition with_token :: "mcp_config \<Rightarrow> (string \<times> string) list \<Rightarrow> (string \<times> string) list" where
  "with_token cfg headers =
     (case cf_ai_token cfg of
        Some token \<Rightarrow>
          if token \<noteq> [] \<and> \<not> list_ex (\<lambda>(name, _). py_lower name = ''authorization'') headers
          then AList.update ''Authorization'' (''Bearer '' @ token) headers else headers
      | None \<Rightarrow> headers)"

definition ai_request ::
  "(rat \<Rightarrow> string) \<Rightarrow> 'w ai_transport \<Rightarrow> mcp_config \<Rightarrow> string \<Rightarrow> string \<Rightarrow> pyval option \<Rightarrow> (string \<times> string) list \<Rightarrow>
     'w \<Rightarrow> ai_reply \<times> 'w" where
  "ai_request fl transport cfg method0 path body headers w =
     (let method = py_upper method0; url = build_url (cf_ai_url cfg) path;
          details = [(''method'', PyStr method), (''url'', PyStr url)]
      in if \<not> is_relative_path path
         then (ai_err ''VALIDATION_ERROR'' (PyStr ''Absolute URLs are not allowed; use a relative HugeGraph-AI path'') PyNone False
           (PyDict [(''method'', PyStr method), (''reason'', PyStr ''absolute_url_not_allowed'')]), w)
         else if \<not> cf_allow_ai cfg
         then (ai_err ''FEATURE_DISABLED'' (PyStr ''AI calls are disabled by configuration'')
           (PyStr (''Set HUGEGRAPH_MCP_ALLOW_AI=true and restart the MCP server, '' @
             ''or use tools that do not require HugeGraph-AI.'')) False
           (PyDict (details @ [(''reason'', PyStr ''allow_ai_false'')])), w)
         else case transport method url body (with_token cfg headers) w of
           (r, w') \<Rightarrow> (ai_answer_reply fl details r, w'))"

definition ai_get :: "(rat \<Rightarrow> string) \<Rightarrow> 'w ai_transport \<Rightarrow> mcp_config \<Rightarrow> string \<Rightarrow> 'w \<Rightarrow> ai_reply \<times> 'w" where
  "ai_get fl transport cfg path = ai_request fl transport cfg ''GET'' path None []"

definition ai_post :: "(rat \<Rightarrow> string) \<Rightarrow> 'w ai_transport \<Rightarrow> mcp_config \<Rightarrow> string \<Rightarrow> pyval \<Rightarrow> 'w \<Rightarrow> ai_reply \<times> 'w" where
  "ai_post fl transport cfg path body = ai_request fl transport cfg ''POST'' path (Some body) []"

section \<open>The health check\<close>

text \<open>\<open>{"status": "available", "health_endpoint": path, **data}\<close>\<close>

definition health_data :: "string \<Rightarrow> pyval \<Rightarrow> pyval" where
  "health_data path data =
     (let head = [(''status'', PyStr ''available''), (''health_endpoint'', PyStr path)] in
      PyDict (case data of
        PyDict d \<Rightarrow> foldl (\<lambda>acc (k, v). AList.update k v acc) head d
      | _ \<Rightarrow> head @ [(''response'', data)]))"

text \<open>The status in the details of an error; details of another type have no \<open>get\<close>.\<close>

definition error_status :: "ai_reply \<Rightarrow> py_exception + pyval" where
  "error_status r =
     (let details = dict_get (ar_error r) ''details'' in
      if \<not> py_truthy details then Inr PyNone
      else case details of PyDict d \<Rightarrow> Inr (dict_get d ''status_code'') | _ \<Rightarrow> Inl RaisesAttribute)"

text \<open>\<open>status_code in {401, 403}\<close>: a value that has no hash raises.\<close>

definition status_in :: "int set \<Rightarrow> pyval \<Rightarrow> py_exception + bool" where
  "status_in codes st =
     (if hashable st then Inr (case st of PyInt n \<Rightarrow> n \<in> codes | PyFloat (Finite x) \<Rightarrow> x \<in> of_int ` codes | _ \<Rightarrow> False)
      else Inl RaisesType)"

definition with_warnings :: "string list \<Rightarrow> ai_reply \<Rightarrow> ai_reply" where
  "with_warnings attempts r = (if attempts = [] then r else r\<lparr>ar_warnings := ar_warnings r @ map PyStr attempts\<rparr>)"

fun health_check_from ::
  "(rat \<Rightarrow> string) \<Rightarrow> 'w ai_transport \<Rightarrow> mcp_config \<Rightarrow> string list \<Rightarrow> ai_reply option \<Rightarrow> string list \<Rightarrow> ('w, ai_reply) effect" where
  "health_check_from fl transport cfg attempts last_result [] w =
     (case last_result of
        Some r \<Rightarrow> (Inr (with_warnings attempts r), w)
      | None \<Rightarrow> (case ai_get fl transport cfg ''/openapi.json'' w of (r, w') \<Rightarrow> (Inr r, w')))"
| "health_check_from fl transport cfg attempts last_result (path # paths) w =
     (case ai_get fl transport cfg path w of
        (r, w') \<Rightarrow>
          if ar_ok r then (Inr (with_warnings attempts (r\<lparr>ar_data := health_data path (ar_data r)\<rparr>)), w')
          else (case and_then (error_status r) (status_in {401, 403}) of
              Inl e \<Rightarrow> (Inl e, w')
            | Inr refused \<Rightarrow>
                if refused then (Inr r, w')
                else health_check_from fl transport cfg
                  (attempts @ [path @ '': '' @ py_str fl (get_default (ar_error r) ''message'' (PyStr ''unavailable''))])
                  (Some r) paths w'))"

definition health_check :: "(rat \<Rightarrow> string) \<Rightarrow> 'w ai_transport \<Rightarrow> mcp_config \<Rightarrow> ('w, ai_reply) effect" where
  "health_check fl transport cfg = health_check_from fl transport cfg [] None [''/graph-index-info'', ''/openapi.json'']"

section \<open>What an answer is\<close>

text \<open>Whatever is answered with success is the innermost data: no envelope and nothing that looks like one.\<close>

lemma unwrapped_data:
  "ar_ok (unwrap_envelope fl opened d) \<Longrightarrow> \<not> is_thin_api_envelope (ar_data (unwrap_envelope fl opened d)) \<and>
     \<not> looks_like_thin_api_envelope (ar_data (unwrap_envelope fl opened d))"
proof (induction fl opened d rule: unwrap_envelope.induct)
  case (1 fl opened d)
  have not_ok: "\<not> ar_ok (remote_failure fl d)" "\<not> ar_ok (invalid_upstream_response i r ds)" for i r ds
    by (simp_all add: remote_failure_def invalid_upstream_response_def ai_err_def Let_def)
  show ?case
  proof (cases "dict_get d ''ok'' = PyBool True \<and> is_thin_api_envelope (dict_get d ''data'') \<and> opened < MAX_NESTED_THIN_ENVELOPES")
    case True
    then show ?thesis using 1 by (simp add: unwrap_envelope.simps [of fl opened d] Let_def)
  next
    case False
    then show ?thesis using 1 not_ok by (auto simp: unwrap_envelope.simps [of fl opened d] Let_def ai_ok_def split: if_split_asm)
  qed
qed

end
