(* ===== verification/Ai_Tools.thy ===== *)
theory Ai_Tools
  imports Ai_Client Graph_Import
begin

text \<open>
  The tools over HugeGraph-AI: \<open>tools/extract_graph_data.py\<close>, \<open>tools/generate_gremlin.py\<close> and
  \<open>tools/refresh_vid_embeddings.py\<close>. Parsing JSON, SHA-256 and the default prompt, which is a Chinese text,
  are parameters; the \<open>meta\<close> block of an execution is left out.
\<close>

record 'w ai_backend = "'w schema_backend" +
  ab_transport :: "'w ai_transport"
  ab_json_loads :: "string \<Rightarrow> pyval option"
  ab_digest :: "string \<Rightarrow> string"
  ab_default_prompt :: string
  ab_client :: "'w gremlin_client"
  ab_duration :: rat
  ab_response_true :: "http_response \<Rightarrow> bool"

definition ab_schema :: "'w ai_backend \<Rightarrow> 'w schema_backend" where
  "ab_schema be = schema_backend.truncate be"

definition ab_config :: "'w ai_backend \<Rightarrow> mcp_config" where
  "ab_config be = from_env (sk_env be)"

definition posted :: "'w ai_backend \<Rightarrow> string \<Rightarrow> pyval \<Rightarrow> ('w, ai_reply) effect" where
  "posted be path body w = (case ai_post (sk_float_text be) (ab_transport be) (ab_config be) path body w of (r, w') \<Rightarrow> (Inr r, w'))"

definition fetched :: "'w ai_backend \<Rightarrow> string \<Rightarrow> ('w, ai_reply) effect" where
  "fetched be path w = (case ai_get (sk_float_text be) (ab_transport be) (ab_config be) path w of (r, w') \<Rightarrow> (Inr r, w'))"

definition unwrap_ai_payload :: "pyval \<Rightarrow> pyval" where
  "unwrap_ai_payload data =
     (case data of
        PyDict d \<Rightarrow>
          if has_key ''ok'' d \<and> has_key ''data'' d
          then if dict_get d ''ok'' = PyBool False then data else dict_get d ''data''
          else data
      | _ \<Rightarrow> data)"

section \<open>Extraction of graph data\<close>

definition schema_ref :: "mcp_config \<Rightarrow> string \<Rightarrow> string option \<Rightarrow> pydict" where
  "schema_ref cfg schema_source fingerprint =
     [(''schema_source'', PyStr schema_source), (''graph'', PyStr (cf_graph cfg)), (''graphspace'', opt_str (cf_graphspace cfg)),
      (''version'', PyNone), (''fingerprint'', opt_str fingerprint)]"

definition schema_fingerprint :: "'w ai_backend \<Rightarrow> pydict \<Rightarrow> string" where
  "schema_fingerprint be schema = ab_digest be (canonical_json_key (sk_float_text be) (PyDict schema))"

text \<open>The text that is sent for a schema, and where it comes from.\<close>

definition schema_message :: "'w ai_backend \<Rightarrow> string \<Rightarrow> pyval \<Rightarrow> string option \<times> pydict" where
  "schema_message be source raw =
     (let cfg = ab_config be in
      case raw of
        PyDict d \<Rightarrow> (Some (json_dumps_ascii (sk_float_text be) (canonicalize raw)), schema_ref cfg source (Some (schema_fingerprint be d)))
      | PyStr s \<Rightarrow>
          if py_strip s = [] then (None, schema_ref cfg source None)
          else (Some s, schema_ref cfg source
            (case ab_json_loads be s of Some (PyDict d) \<Rightarrow> Some (schema_fingerprint be d) | _ \<Rightarrow> None))
      | _ \<Rightarrow> (None, schema_ref cfg source None))"

definition schema_context :: "'w ai_backend \<Rightarrow> pyval \<Rightarrow> ('w, string option \<times> pydict) effect" where
  "schema_context be schema =
     (if schema \<noteq> PyNone then effect_return (schema_message be ''provided'' schema)
      else effect_bind (fetch_live_schema_or_none (ab_schema be)) (\<lambda>live_schema. effect_return
        (case schema_payload (case live_schema of None \<Rightarrow> PyNone | Some v \<Rightarrow> v) of
           None \<Rightarrow> (None, schema_ref (ab_config be) ''live'' None)
         | Some raw \<Rightarrow> schema_message be ''live'' (PyDict raw))))"

definition parse_json_if_needed :: "'w ai_backend \<Rightarrow> pyval \<Rightarrow> pyval" where
  "parse_json_if_needed be data =
     (case data of PyStr s \<Rightarrow> (case ab_json_loads be s of Some v \<Rightarrow> v | None \<Rightarrow> data) | _ \<Rightarrow> data)"

definition extracted_graph_data :: "'w ai_backend \<Rightarrow> pyval \<Rightarrow> pydict option" where
  "extracted_graph_data be data =
     (let outer = parse_json_if_needed be data;
          (parsed, outer_metadata) =
            (case outer of
               PyDict d \<Rightarrow> if has_key ''graph_data'' d then (parse_json_if_needed be (dict_get d ''graph_data''), d) else (outer, [])
             | _ \<Rightarrow> (outer, []))
      in case parsed of
           PyDict d \<Rightarrow>
             if is_list (dict_get d ''vertices'') \<and> is_list (dict_get d ''edges'')
             then Some [(''vertices'', dict_get d ''vertices''), (''edges'', dict_get d ''edges''),
               (''warnings'', get_default d ''warnings'' (get_default outer_metadata ''warnings'' (PyList []))),
               (''raw'', dict_get d ''raw''),
               (''raw_summary'', get_default d ''raw_summary'' (dict_get outer_metadata ''raw_summary'')),
               (''schema_warnings'', get_default d ''schema_warnings'' (get_default outer_metadata ''schema_warnings'' (PyList [])))]
             else None
         | _ \<Rightarrow> None)"

definition extraction_reply :: "'w ai_backend \<Rightarrow> pydict \<Rightarrow> ai_reply \<Rightarrow> ai_reply" where
  "extraction_reply be ref ai_result =
     (if \<not> ar_ok ai_result then ai_result
      else let payload = unwrap_ai_payload (ar_data ai_result) in
        case extracted_graph_data be payload of
          None \<Rightarrow> ai_err ''INVALID_GRAPH_DATA'' (PyStr ''HugeGraph-AI did not return graph_data with vertices and edges.'') PyNone False
            (PyDict [(''data'', payload)])
        | Some d \<Rightarrow> ai_ok (PyDict
            [(''graph_data'', PyDict [(''schema_ref'', PyDict ref), (''vertices'', dict_get d ''vertices''), (''edges'', dict_get d ''edges''),
               (''warnings'', dict_get d ''warnings''), (''raw'', dict_get d ''raw'')]),
             (''raw_summary'', dict_get d ''raw_summary''), (''schema_warnings'', dict_get d ''schema_warnings'')]))"

definition extract_graph_data ::
  "'w ai_backend \<Rightarrow> string \<Rightarrow> pyval \<Rightarrow> string option \<Rightarrow> ('w, ai_reply) effect" where
  "extract_graph_data be text_in schema example_prompt =
     (let cfg = ab_config be in
      effect_bind
        (if schema = PyNone \<and> \<not> cf_allow_ai cfg then effect_return (Some (cf_graph cfg), schema_ref cfg ''graph'' None)
         else schema_context be schema) (\<lambda>(message, ref).
        case message of
          None \<Rightarrow> effect_return (ai_err ''CONNECTION_FAILED'' (PyStr ''Cannot read the live HugeGraph schema for graph extraction.'')
            (PyStr ''Check HugeGraph connectivity and retry the extraction.'') False
            (PyDict [(''graph'', PyStr (cf_graph cfg)), (''graphspace'', opt_str (cf_graphspace cfg))]))
        | Some m \<Rightarrow>
            effect_bind (posted be ''/graph-extract'' (PyDict [(''text'', PyStr text_in), (''schema'', PyStr m),
                (''example_prompt'', PyStr (case example_prompt of None \<Rightarrow> ab_default_prompt be | Some p \<Rightarrow> p)), (''language'', PyStr ''zh'')]))
              (\<lambda>ai_result. effect_return (extraction_reply be ref ai_result))))"

section \<open>Generation of Gremlin\<close>

definition GENERATION_OUTPUT_TYPES :: "string list" where
  "GENERATION_OUTPUT_TYPES = [''match_result'', ''template_gremlin'', ''raw_gremlin'']"

definition invalid_output_types :: "(rat \<Rightarrow> string) \<Rightarrow> pyval list \<Rightarrow> string list" where
  "invalid_output_types fl output_types =
     sort (remdups (List.map_filter (\<lambda>v.
       case v of PyStr s \<Rightarrow> if s \<in> set GENERATION_OUTPUT_TYPES then None else Some s | _ \<Rightarrow> Some (py_repr fl v)) output_types))"

definition risk_level_of :: "gremlin_classification \<Rightarrow> string" where
  "risk_level_of safety = (case safety of Safe \<Rightarrow> ''low'' | Unsafe \<Rightarrow> ''high'' | Uncertain \<Rightarrow> ''medium'')"

definition classification_text :: "gremlin_classification \<Rightarrow> string" where
  "classification_text c = (case c of Safe \<Rightarrow> ''safe'' | Unsafe \<Rightarrow> ''unsafe'' | Uncertain \<Rightarrow> ''uncertain'')"

text \<open>The first candidate that is a text with something in it.\<close>

definition chosen_gremlin :: "pydict \<Rightarrow> pyval list \<Rightarrow> string option" where
  "chosen_gremlin ai_data requested =
     (let wanted = (\<lambda>k. requested = [] \<or> PyStr k \<in> set requested);
          candidates =
            (if wanted ''template_gremlin'' then [dict_get ai_data ''template_gremlin''] else []) @
            (if wanted ''raw_gremlin'' then [dict_get ai_data ''raw_gremlin''] else []) @
            (if requested = [] then [dict_get ai_data ''gremlin''] else [])
      in case List.map_filter (\<lambda>v. case v of PyStr s \<Rightarrow> if py_strip s = [] then None else Some s | _ \<Rightarrow> None) candidates of
           [] \<Rightarrow> None | s # _ \<Rightarrow> Some s)"

definition generated_data :: "pydict \<Rightarrow> string option \<Rightarrow> bool \<Rightarrow> pyval \<Rightarrow> pydict" where
  "generated_data ai_data gremlin executed result =
     (let safety = (case gremlin of None \<Rightarrow> Uncertain | Some q \<Rightarrow> gd_classification (check_read q));
          allowed = (case gremlin of None \<Rightarrow> False | Some q \<Rightarrow> gd_allowed (check_read q))
      in [(''gremlin'', opt_str gremlin), (''template_gremlin'', dict_get ai_data ''template_gremlin''),
          (''raw_gremlin'', dict_get ai_data ''raw_gremlin''), (''match_result'', dict_get ai_data ''match_result''),
          (''is_readonly'', PyBool allowed), (''risk_level'', PyStr (risk_level_of safety)),
          (''requires_index'', get_default ai_data ''requires_index'' (PyBool False)),
          (''assumptions'', dict_get ai_data ''assumptions''), (''executed'', PyBool executed), (''execution_result'', result)])"

text \<open>What is answered after the generated query ran.\<close>

definition executed_reply :: "pydict \<Rightarrow> string \<Rightarrow> reply \<Rightarrow> ai_reply" where
  "executed_reply ai_data gremlin result =
     (case result of
        EnvelopeOk d \<Rightarrow> ai_ok (PyDict (generated_data ai_data (Some gremlin) True d))
      | EnvelopeErr e \<Rightarrow>
          let error = ar_error (ai_of_reply result) in
          ai_err (error_type_value (ei_type e)) (PyStr (ei_message e)) (opt_str (ei_suggestion e)) (ei_retryable e)
            (PyDict [(''gremlin'', PyStr gremlin),
              (''generation'', PyDict (generated_data ai_data (Some gremlin) True
                (PyDict [(''ok'', PyBool False), (''data'', PyNone), (''error'', PyDict error)]))),
              (''execution_error'', PyDict error)]))"

definition run_generated :: "'w ai_backend \<Rightarrow> pydict \<Rightarrow> string \<Rightarrow> string \<Rightarrow> ('w, ai_reply) effect" where
  "run_generated be ai_data gremlin limit_policy w =
     (case execute_gremlin_read (sk_float_text be) (ab_response_true be) (sk_env be) (ab_client be) (ab_duration be) gremlin
        limit_policy w of
        (Inl DepthValueError, w') \<Rightarrow> (Inl (RaisesValue []), w')
      | (Inr result, w') \<Rightarrow> (Inr (executed_reply ai_data gremlin result), w'))"

definition answer_generation ::
  "'w ai_backend \<Rightarrow> bool \<Rightarrow> pyval list \<Rightarrow> string \<Rightarrow> ai_reply \<Rightarrow> ('w, ai_reply) effect" where
  "answer_generation be run requested limit_policy ai_result =
     (if \<not> ar_ok ai_result then effect_return ai_result
      else let response = (if py_truthy (ar_data ai_result) then ar_data ai_result else PyDict []) in
      case response of
        PyDict ai_data \<Rightarrow>
          let gremlin = chosen_gremlin ai_data requested;
              needed = (requested = [] \<or> PyStr ''template_gremlin'' \<in> set requested \<or> PyStr ''raw_gremlin'' \<in> set requested)
          in if needed \<and> gremlin = None
             then effect_return (ai_err ''FLOW_EXECUTION_FAILED'' (PyStr ''HugeGraph-AI did not return Gremlin.'') PyNone False
               (PyDict [(''response'', response)]))
             else if \<not> run then effect_return (ai_ok (PyDict (generated_data ai_data gremlin False PyNone)))
             else (case gremlin of
                 Some q \<Rightarrow>
                   if gd_allowed (check_read q) then run_generated be ai_data q limit_policy
                   else effect_return (ai_err ''UNSAFE_GREMLIN'' (PyStr ''Generated Gremlin is not safe to execute automatically'')
                     PyNone False (PyDict [(''classification'', PyStr (classification_text (gd_classification (check_read q)))),
                       (''gremlin'', PyStr q), (''risk_level'', PyStr (risk_level_of (gd_classification (check_read q))))]))
               | None \<Rightarrow> effect_return (ai_err ''UNSAFE_GREMLIN'' (PyStr ''Generated Gremlin is not safe to execute automatically'')
                   PyNone False (PyDict [(''classification'', PyStr ''uncertain''), (''gremlin'', PyNone), (''risk_level'', PyStr ''medium'')])))
      | _ \<Rightarrow> effect_return (ai_err ''FLOW_EXECUTION_FAILED'' (PyStr ''HugeGraph-AI returned an invalid text2gremlin response.'')
          PyNone False (PyDict [(''response'', response)])))"

definition generation_request :: "mcp_config \<Rightarrow> string \<Rightarrow> pyval list option \<Rightarrow> pyval" where
  "generation_request cfg query output_types =
     PyDict ([(''query'', PyStr query),
        (''client_config'', PyDict ((''graph'', PyStr (cf_graph cfg)) #
          (case cf_graphspace cfg of Some s \<Rightarrow> if s = [] then [] else [(''gs'', PyStr s)] | None \<Rightarrow> [])))] @
       (case output_types of None \<Rightarrow> [] | Some ts \<Rightarrow> [(''output_types'', PyList ts)]))"

definition generate_gremlin ::
  "'w ai_backend \<Rightarrow> string \<Rightarrow> bool \<Rightarrow> pyval list option \<Rightarrow> string \<Rightarrow> ('w, ai_reply) effect" where
  "generate_gremlin be query run output_types limit_policy =
     (let requested = (case output_types of None \<Rightarrow> [] | Some ts \<Rightarrow> ts);
          invalid = invalid_output_types (sk_float_text be) requested
      in if invalid \<noteq> []
         then effect_return (ai_err ''VALIDATION_ERROR'' (PyStr ''generate_gremlin only accepts generation output types.'')
           (PyStr (''Use match_result, template_gremlin, or raw_gremlin. '' @
             ''Execute generated Gremlin through the MCP read execution path.'')) False
           (PyDict [(''invalid_output_types'', PyList (map PyStr invalid)),
             (''allowed_output_types'', PyList (map PyStr (sort GENERATION_OUTPUT_TYPES)))]))
         else effect_bind (posted be ''/text2gremlin'' (generation_request (ab_config be) query output_types))
           (answer_generation be run requested limit_policy))"

section \<open>Refresh of vertex embeddings\<close>

text \<open>The number behind the first occurrence of one of the words, in any case; the words are tried in order.\<close>

definition number_after :: "string \<Rightarrow> string \<Rightarrow> string option" where
  "number_after word s =
     (let rest = drop (length word) s; digits = takeWhile ascii_digit (dropWhile py_isspace rest)
      in if prefix word (py_lower s) \<and> takeWhile py_isspace rest \<noteq> [] \<and> digits \<noteq> [] then Some digits else None)"

fun search_number :: "string \<Rightarrow> string \<Rightarrow> string \<Rightarrow> string option" where
  "search_number long short [] = None"
| "search_number long short (c # s) =
     (case number_after long (c # s) of
        Some digits \<Rightarrow> Some digits
      | None \<Rightarrow> (case number_after short (c # s) of
          Some digits \<Rightarrow> Some digits
        | None \<Rightarrow> search_number long short s))"

definition parsed_number :: "string \<Rightarrow> string \<Rightarrow> string \<Rightarrow> py_exception + pyval" where
  "parsed_number long short s =
     (case search_number long short s of
        None \<Rightarrow> Inr (PyInt 0)
      | Some digits \<Rightarrow> (case parse_int digits of Some n \<Rightarrow> Inr (PyInt n) | None \<Rightarrow> Inl (RaisesValue [])))"

definition parse_refresh_result :: "(rat \<Rightarrow> string) \<Rightarrow> pyval \<Rightarrow> py_exception + pyval \<times> pyval \<times> pyval" where
  "parse_refresh_result fl data =
     (case data of
        PyDict d \<Rightarrow> Inr (get_default d ''added'' (PyInt 0), get_default d ''removed'' (PyInt 0), dict_get d ''summary'')
      | PyStr s \<Rightarrow>
          and_then (parsed_number ''added'' ''add'' s) (\<lambda>added.
          and_then (parsed_number ''removed'' ''remove'' s) (\<lambda>removed. Inr (added, removed, data)))
      | PyNone \<Rightarrow> Inr (PyInt 0, PyInt 0, PyNone)
      | _ \<Rightarrow> Inr (PyInt 0, PyInt 0, PyStr (py_str fl data)))"

definition KEPT_ERROR_TYPES :: "string list" where
  "KEPT_ERROR_TYPES = [''AUTHENTICATION_FAILED'', ''AUTHORIZATION_FAILED'', ''FEATURE_DISABLED'']"

definition keeps_type :: "ai_reply \<Rightarrow> bool" where
  "keeps_type r \<longleftrightarrow> dict_get (ar_error r) ''type'' \<in> PyStr ` set KEPT_ERROR_TYPES"

definition supports_refresh :: "pyval \<Rightarrow> bool" where
  "supports_refresh support \<longleftrightarrow> (case support of PyDict d \<Rightarrow> dict_get d ''protocol_version'' = PyInt 1 | _ \<Rightarrow> False)"

definition absent_endpoint :: "string \<Rightarrow> string \<Rightarrow> pyval \<Rightarrow> ai_reply" where
  "absent_endpoint message suggestion st =
     ai_err ''FEATURE_DISABLED'' (PyStr message) (PyStr suggestion) False (PyDict [(''status_code'', st)])"

definition no_capability :: "ai_reply \<Rightarrow> py_exception + ai_reply" where
  "no_capability capability =
     and_then (error_status capability) (\<lambda>st.
       if keeps_type capability then Inr capability
       else and_then (status_in {404, 405} st) (\<lambda>absent. Inr (if \<not> absent then capability
         else absent_endpoint ''AI refresh target-validation endpoint is unavailable; refresh was not sent.''
           ''Check the AI service URL and routing, or upgrade HugeGraph-AI to support target validation.'' st)))"

definition refresh_reply :: "(rat \<Rightarrow> string) \<Rightarrow> ai_reply \<Rightarrow> py_exception + (ai_reply + pyval)" where
  "refresh_reply fl ai_result =
     (if \<not> ar_ok ai_result
      then and_then (error_status ai_result) (\<lambda>st.
        and_then (status_in {404, 405} st) (\<lambda>absent. Inr (Inl (if absent \<and> \<not> keeps_type ai_result
          then absent_endpoint ''AI validated-refresh endpoint is unavailable; legacy refresh was not sent.''
            ''Check AI routing and upgrade all replicas to support /v1/vid-embeddings/refresh.'' st
          else ai_result))))
      else let data = unwrap_ai_payload (ar_data ai_result) in
        if (case data of PyDict d \<Rightarrow> dict_get d ''ok'' = PyBool False | _ \<Rightarrow> False) then Inr (Inr data)
        else and_then (parse_refresh_result fl data) (\<lambda>(added, removed, summary).
          Inr (Inl (ai_ok (PyDict [(''added'', added), (''removed'', removed), (''summary'', summary)])))))"

definition refresh_request :: "mcp_config \<Rightarrow> pyval" where
  "refresh_request cfg =
     PyDict [(''expected_graph'', PyStr (cf_graph cfg)), (''expected_graphspace'', opt_str (cf_graphspace cfg))]"

text \<open>The answer is a reply, or the object the service sent when it says that it failed.\<close>

definition refresh_vid_embeddings :: "'w ai_backend \<Rightarrow> bool \<Rightarrow> ('w, ai_reply + pyval) effect" where
  "refresh_vid_embeddings be confirmed =
     (case guard INDEX_WRITE (ab_config be) of
        Some violation \<Rightarrow> effect_return (Inl (ai_of_reply violation))
      | None \<Rightarrow>
          if \<not> confirmed
          then effect_return (Inl (ai_err ''CONFIRM_REQUIRED'' (PyStr ''VID embedding refresh requires confirm=True.'')
            (PyStr ''Pass confirm=True to refresh VID embeddings.'') False PyNone))
          else effect_bind (fetched be ''/vid-embeddings/refresh-capabilities'') (\<lambda>capability.
            if \<not> ar_ok capability then effect_bind (effect_of (no_capability capability)) (\<lambda>r. effect_return (Inl r))
            else if \<not> supports_refresh (ar_data capability)
            then effect_return (Inl (ai_err ''FEATURE_DISABLED''
              (PyStr ''AI refresh target-validation protocol is unsupported; refresh was not sent.'')
              (PyStr ''Upgrade HugeGraph-AI to a compatible target-validation version.'') False PyNone))
            else effect_bind (posted be ''/v1/vid-embeddings/refresh'' (refresh_request (ab_config be))) (\<lambda>ai_result.
              effect_of (refresh_reply (sk_float_text be) ai_result))))"

end
