(* ===== verification/Ai_Properties.thy ===== *)
theory Ai_Properties
  imports Ai_Tools
begin

text \<open>
  What the tools over HugeGraph-AI promise: a success is what the service sent, generated Gremlin runs
  only when it is a known read, an index is refreshed only for a validated target, and an answer of the
  service for which the health check raises.
\<close>

section \<open>A success of the client\<close>

text \<open>\<open>x\<close> is the data of \<open>data\<close>, behind at most \<open>n\<close> successful envelopes, and no envelope itself.\<close>

fun carries :: "nat \<Rightarrow> pyval \<Rightarrow> pyval \<Rightarrow> bool" where
  "carries n data x \<longleftrightarrow>
     (data = x \<and> \<not> is_thin_api_envelope x \<and> \<not> looks_like_thin_api_envelope x) \<or>
     (case n of
        0 \<Rightarrow> False
      | Suc m \<Rightarrow> (\<exists>d. data = PyDict d \<and> is_thin_api_envelope data \<and> dict_get d ''ok'' = PyBool True \<and> carries m (dict_get d ''data'') x))"

declare carries.simps [simp del]

lemma carries_plain: "\<not> is_thin_api_envelope x \<Longrightarrow> \<not> looks_like_thin_api_envelope x \<Longrightarrow> carries n x x"
  by (subst carries.simps) simp

lemma failures_not_ok [simp]:
  "\<not> ar_ok (ai_err etype message suggestion retryable details)" "\<not> ar_ok (remote_failure fl d)"
  "\<not> ar_ok (invalid_upstream_response problem r ds)" "\<not> ar_ok (ai_error m retryable ds)"
  "\<not> ar_ok (http_error_reply ds a)"
  by (simp_all add: ai_err_def remote_failure_def invalid_upstream_response_def ai_error_def http_error_reply_def Let_def)

lemma thin_is_dict: "is_thin_api_envelope v \<Longrightarrow> \<exists>d. v = PyDict d"
  by (simp add: is_thin_api_envelope_def split: pyval.split_asm)

lemma opened_envelope:
  assumes "ar_ok (unwrap_envelope fl opened d)" "is_thin_api_envelope (PyDict d)" "opened \<le> 1"
  shows "carries (2 - opened) (PyDict d) (ar_data (unwrap_envelope fl opened d))"
  using assms
proof (induction fl opened d rule: unwrap_envelope.induct)
  case (1 fl opened d)
  have simps: "unwrap_envelope fl opened d = (if dict_get d ''ok'' \<noteq> PyBool True then remote_failure fl d
      else let inner = dict_get d ''data'' in
        if is_thin_api_envelope inner then
          (if opened \<ge> MAX_NESTED_THIN_ENVELOPES
           then invalid_upstream_response ''nested_envelope_depth_exceeded'' (remote_request_id d)
             [(''max_nested_envelopes'', PyInt (int MAX_NESTED_THIN_ENVELOPES))]
           else unwrap_envelope fl (Suc opened) (case inner of PyDict e \<Rightarrow> e | _ \<Rightarrow> []))
        else if looks_like_thin_api_envelope inner
        then invalid_upstream_response ''malformed_nested_envelope'' (remote_request_id d) []
        else (ai_ok inner)\<lparr>ar_warnings := listed (dict_get d ''warnings''),
          ar_next_actions := listed (dict_get d ''next_actions''), ar_request_id := remote_request_id d\<rparr>)"
    by (rule unwrap_envelope.simps)
  have ok: "dict_get d ''ok'' = PyBool True" using 1(2) simps by (auto split: if_split_asm)
  show ?case
  proof (cases "is_thin_api_envelope (dict_get d ''data'')")
    case True
    then obtain e where e: "dict_get d ''data'' = PyDict e" using thin_is_dict by blast
    have "opened = 0" using 1(2) simps ok True by (auto simp: MAX_NESTED_THIN_ENVELOPES_def split: if_split_asm)
    then show ?thesis
      using 1 ok True e simps carries.simps [of 2 "PyDict d"]
      by (simp add: MAX_NESTED_THIN_ENVELOPES_def numeral_2_eq_2)
  next
    case False
    then have "ar_data (unwrap_envelope fl opened d) = dict_get d ''data''" "\<not> looks_like_thin_api_envelope (dict_get d ''data'')"
      using 1(2) simps ok by (auto simp: ai_ok_def Let_def split: if_split_asm)
    moreover obtain m where "2 - opened = Suc m" using 1(4) by (cases opened) auto
    ultimately show ?thesis
      using 1(3) ok False carries.simps [of "Suc m" "PyDict d"] carries.simps [of m "dict_get d ''data''"] by auto
  qed
qed

lemma normalized_success:
  "ar_ok (normalize_response fl data) \<Longrightarrow> carries 2 data (ar_data (normalize_response fl data))"
  using opened_envelope [of fl 0] thin_is_dict [of data]
  by (auto simp: normalize_response_def ai_ok_def intro: carries_plain split: if_split_asm)

text \<open>
  C30: a success of the AI client is what the service sent. Nothing is requested when AI calls are disabled
  or the path is absolute; a reply with success means that the one request was answered without HTTP
  error by the data of the reply, plain or inside at most two envelopes that report success.
\<close>

theorem ai_success_is_genuine:
  assumes "ai_request fl transport cfg verb path body headers w = (r, w')"
  shows "(\<not> cf_allow_ai cfg \<or> \<not> is_relative_path path \<longrightarrow> w' = w) \<and>
    (ar_ok r \<longrightarrow> (\<exists>a data.
      transport (py_upper verb) (build_url (cf_ai_url cfg) path) body (with_token cfg headers) w = (Inr a, w') \<and>
      an_json a = Some data \<and> \<not> is_http_error (an_status a) \<and> carries 2 data (ar_data r)))"
proof -
  have failed: "\<not> ar_ok (normalize_response fl data)"
    if "is_thin_api_envelope data" "case data of PyDict d \<Rightarrow> dict_get d ''ok'' \<noteq> PyBool True | _ \<Rightarrow> False" for data
    using that unwrap_envelope.simps [of fl 0] by (auto simp: normalize_response_def split: pyval.split_asm)
  show ?thesis
    using assms normalized_success [of fl] failed
    by (fastforce simp: ai_request_def ai_answer_reply_def Let_def
        split: if_split_asm prod.split_asm sum.split_asm ai_failure.split_asm option.split_asm)
qed

section \<open>Generated Gremlin\<close>

text \<open>Calls of the service keep \<open>I\<close>, and so does running a query that is classified safe.\<close>

definition ai_calls_keep :: "('w \<Rightarrow> bool) \<Rightarrow> 'w ai_backend \<Rightarrow> bool" where
  "ai_calls_keep I be \<longleftrightarrow>
     (\<forall>method url body headers w. I w \<longrightarrow> I (snd (ab_transport be method url body headers w))) \<and>
     (\<forall>w query. I w \<longrightarrow> classify_gremlin_read_safety query = Safe \<longrightarrow> I (snd (ab_client be w query)))"

lemma posted_keeps [effect_rules]: "ai_calls_keep I be \<Longrightarrow> effect_keeps I (posted be path body)"
  by (auto simp: ai_calls_keep_def effect_keeps_def posted_def ai_post_def ai_request_def Let_def split: prod.split)
    (metis snd_conv)

lemma run_generated_keeps [effect_rules]:
  assumes "ai_calls_keep I be"
  shows "effect_keeps I (run_generated be ai_data gremlin limit_policy)"
  unfolding effect_keeps_def
proof (intro allI impI)
  fix w assume "I w"
  let ?run = "execute_gremlin_read (sk_float_text be) (ab_response_true be) (sk_env be) (ab_client be) (ab_duration be) gremlin
    limit_policy w"
  have "I (snd ?run)"
    using execute_read_world [of "sk_float_text be" "ab_response_true be" "sk_env be" "ab_client be" "ab_duration be" gremlin
        limit_policy w] read_decision_safe assms \<open>I w\<close>
    unfolding ai_calls_keep_def by metis
  then show "I (snd (run_generated be ai_data gremlin limit_policy w))"
    by (auto simp: run_generated_def split: prod.split sum.split cost_failure.split)
qed

definition ran_safely :: "bool \<Rightarrow> ai_reply \<Rightarrow> bool" where
  "ran_safely run r \<longleftrightarrow>
     (\<forall>d. ar_data r = PyDict d \<longrightarrow> dict_get d ''executed'' = PyBool True \<longrightarrow>
        run \<and> (\<exists>q. dict_get d ''gremlin'' = PyStr q \<and> classify_gremlin_read_safety q = Safe))"

lemma ran_safely_err [simp]: "ran_safely run (ai_err etype message suggestion retryable details)"
  by (simp add: ran_safely_def ai_err_def)

lemma check_read_allowed: "gd_allowed (check_read q) \<longleftrightarrow> classify_gremlin_read_safety q = Safe"
  by (simp add: check_read_def split: gremlin_classification.split)

lemma executed_reply_safe:
  "classify_gremlin_read_safety q = Safe \<Longrightarrow> ran_safely True (executed_reply ai_data q result)"
  by (auto simp: executed_reply_def generated_data_def ran_safely_def ai_ok_def ai_err_def dict_get_def Let_def opt_str_def
      split: reply.split)

lemma run_generated_safe:
  "gd_allowed (check_read q) \<Longrightarrow> effect_ensures (ran_safely True) (run_generated be ai_data q limit_policy)"
  by (auto simp: effect_ensures_def run_generated_def check_read_allowed executed_reply_safe
      split: prod.split_asm sum.split_asm cost_failure.split_asm)

lemma not_run_safely [simp]: "ran_safely run (ai_ok (PyDict (generated_data ai_data gremlin False v)))"
  by (simp add: ran_safely_def ai_ok_def generated_data_def dict_get_def Let_def)


section \<open>Refresh of the index\<close>

text \<open>
  An index is refreshed only for a validated target. When a call changes what GET requests keep, the guard
  allows index writes, the caller confirmed, the service answered that it supports the protocol that
  validates the target, and the change is that of exactly one POST, to the validated route, which names
  the configured graph.
\<close>

theorem refresh_needs_validated_target:
  assumes "\<And>url headers w. I w \<Longrightarrow> I (snd (ab_transport be ''GET'' url None headers w))" "I w"
    and "\<not> I (snd (refresh_vid_embeddings be confirmed w))"
  shows "confirmed \<and> guard INDEX_WRITE (ab_config be) = None \<and> cf_allow_ai (ab_config be) \<and>
    (\<exists>capability w1. fetched be ''/vid-embeddings/refresh-capabilities'' w = (Inr capability, w1) \<and> I w1 \<and>
       ar_ok capability \<and> supports_refresh (ar_data capability) \<and>
       snd (refresh_vid_embeddings be confirmed w) =
         snd (ab_transport be ''POST'' (build_url (cf_ai_url (ab_config be)) ''/v1/vid-embeddings/refresh'')
           (Some (refresh_request (ab_config be))) (with_token (ab_config be) []) w1))"
proof -
  have upper: "py_upper ''GET'' = ''GET''" "py_upper ''POST'' = ''POST''" by code_simp+
  have relative: "is_relative_path ''/v1/vid-embeddings/refresh''" by code_simp
  have guard: "guard INDEX_WRITE (ab_config be) = None" and confirmed: confirmed
    using assms(2,3) by (auto simp: refresh_vid_embeddings_def effect_return_def split: option.split_asm if_split_asm)
  obtain capability w1 where f: "fetched be ''/vid-embeddings/refresh-capabilities'' w = (Inr capability, w1)"
    by (fastforce simp: fetched_def split: prod.split)
  have I1: "I w1"
    using f assms(1) [OF assms(2)] upper assms(2)
    by (auto simp: fetched_def ai_get_def ai_request_def Let_def split: prod.split_asm if_split_asm) (metis snd_conv)
  have supported: "ar_ok capability" "supports_refresh (ar_data capability)"
    using assms(3) f guard confirmed I1
    by (auto simp: refresh_vid_embeddings_def effect_bind_def effect_return_def effect_of_def split: sum.split_asm if_split_asm)
  let ?post = "posted be ''/v1/vid-embeddings/refresh'' (refresh_request (ab_config be)) w1"
  have run: "snd (refresh_vid_embeddings be confirmed w) = snd ?post"
    using f guard confirmed supported
    by (auto simp: refresh_vid_embeddings_def effect_bind_def effect_of_def split: prod.split sum.split)
  then have allowed: "cf_allow_ai (ab_config be)"
    using assms(3) I1 by (auto simp: posted_def ai_post_def ai_request_def Let_def split: if_split_asm)
  then have "snd ?post = snd (ab_transport be ''POST'' (build_url (cf_ai_url (ab_config be)) ''/v1/vid-embeddings/refresh'')
           (Some (refresh_request (ab_config be))) (with_token (ab_config be) []) w1)"
    using relative upper by (simp add: posted_def ai_post_def ai_request_def Let_def split: prod.split)
  then show ?thesis using confirmed guard allowed f I1 supported run by auto
qed

section \<open>An answer for which the health check raises\<close>

text \<open>
  The client never raises. Its health check does, for a well formed failure of the service whose
  details are not an object: it looks for a status in them.
\<close>

definition refusal :: ai_answer where
  "refusal =
     \<lparr>an_status = 200, an_json = Some (PyDict [(''ok'', PyBool False), (''data'', PyNone),
        (''error'', PyDict [(''type'', PyStr ''LLM_FAILED''), (''message'', PyStr ''no model''), (''details'', PyStr ''quota'')]),
        (''warnings'', PyList []), (''next_actions'', PyList []),
        (''meta'', PyDict [(''request_id'', PyStr ''r''), (''duration_ms'', PyInt 1)])]),
      an_http_error = [], an_json_error = []\<rparr>"

definition refusing_service :: "'w ai_transport" where
  "refusing_service method url body headers w = (Inr refusal, w)"

lemma refusal_reply:
  "\<not> ar_ok (ai_answer_reply fl details (Inr refusal))"
  "error_status (ai_answer_reply fl details (Inr refusal)) = Inl RaisesAttribute"
  by (simp_all add: refusal_def ai_answer_reply_def is_thin_api_envelope_def is_bool_def is_list_def is_dict_def
      is_number_def has_key_def normalize_response_def unwrap_envelope.simps dict_get_def remote_failure_def ai_err_def
      error_status_def get_default_def Let_def)

theorem health_check_raises:
  assumes "cf_allow_ai cfg"
  shows "health_check fl refusing_service cfg w = (Inl RaisesAttribute, w)"
proof -
  have "is_relative_path ''/graph-index-info''" by code_simp
  then show ?thesis
    using assms by (simp add: health_check_def ai_get_def ai_request_def refusing_service_def refusal_reply Let_def)
qed

section \<open>Witnesses\<close>

text \<open>A service that supports the validated refresh, whose world is the number of POST requests.\<close>

definition refreshing_service :: "nat ai_transport" where
  "refreshing_service method url body headers w =
     (Inr \<lparr>an_status = 200, an_json = Some (PyDict [(''protocol_version'', PyInt 1)]), an_http_error = [], an_json_error = []\<rparr>,
      if method = ''POST'' then Suc w else w)"

definition ai_env :: environment where
  "ai_env name =
     (if name = ''HUGEGRAPH_MCP_READONLY'' then Some ''false''
      else if name = ''HUGEGRAPH_MCP_ALLOW_AI'' then Some ''true'' else None)"

definition refreshing_backend :: "nat ai_backend" where
  "refreshing_backend =
     \<lparr>sk_env = ai_env, sk_connect = (\<lambda>_. effect_of (Inl RaisesType)), sk_float_text = (\<lambda>_. []), sk_exception_text = (\<lambda>_. []),
      sk_set_order = (\<lambda>vs. vs), ab_transport = refreshing_service, ab_json_loads = (\<lambda>_. None), ab_digest = (\<lambda>s. s),
      ab_default_prompt = [], ab_client = (\<lambda>w query. (Inr (PyList []), w)), ab_duration = 0, ab_response_true = (\<lambda>_. True)\<rparr>"

lemma ai_env_allows: "guard INDEX_WRITE (from_env ai_env) = None" "cf_allow_ai (from_env ai_env)"
  by code_simp+

lemma refresh_paths:
  "is_relative_path ''/vid-embeddings/refresh-capabilities''" "is_relative_path ''/v1/vid-embeddings/refresh''"
  "py_upper ''GET'' = ''GET''" "py_upper ''POST'' = ''POST''"
  by code_simp+

lemma refreshing_answer:
  "ai_answer_reply fl details (Inr \<lparr>an_status = 200, an_json = Some (PyDict [(''protocol_version'', PyInt 1)]),
     an_http_error = [], an_json_error = []\<rparr>) = ai_ok (PyDict [(''protocol_version'', PyInt 1)])"
  by (simp add: ai_answer_reply_def is_http_error_def is_thin_api_envelope_def looks_like_thin_api_envelope_def THIN_ENVELOPE_KEYS_def
      has_key_def is_bool_def dict_get_def normalize_response_def)

lemma refreshing_fields:
  "ab_config refreshing_backend = from_env ai_env" "ab_transport refreshing_backend = refreshing_service"
  "sk_float_text refreshing_backend = (\<lambda>_. [])"
  by (simp_all add: refreshing_backend_def ab_config_def)

lemma refreshing_calls:
  "is_relative_path path \<Longrightarrow> fetched refreshing_backend path w = (Inr (ai_ok (PyDict [(''protocol_version'', PyInt 1)])), w)"
  "is_relative_path path \<Longrightarrow> posted refreshing_backend path body w = (Inr (ai_ok (PyDict [(''protocol_version'', PyInt 1)])), Suc w)"
  subgoal
    unfolding fetched_def ai_get_def ai_request_def Let_def refreshing_fields refresh_paths refreshing_service_def
    by (simp add: refreshing_answer ai_env_allows)
  subgoal
    unfolding posted_def ai_post_def ai_request_def Let_def refreshing_fields refresh_paths refreshing_service_def
    by (simp add: refreshing_answer ai_env_allows)
  done

lemma refreshing_run: "snd (refresh_vid_embeddings refreshing_backend True 0) = Suc 0"
  by (simp add: refresh_vid_embeddings_def refreshing_fields refreshing_calls ai_env_allows effect_bind_def effect_of_def refresh_paths
      supports_refresh_def ai_ok_def dict_get_def)

theorem refresh_needs_validated_target_witness:
  "snd (refresh_vid_embeddings refreshing_backend True 0) = Suc 0 \<and>
   (\<exists>capability. fetched refreshing_backend ''/vid-embeddings/refresh-capabilities'' 0 = (Inr capability, 0) \<and>
      supports_refresh (ar_data capability))"
  using refresh_needs_validated_target [of "\<lambda>n. n = 0" refreshing_backend 0 True] refreshing_run
  by (auto simp: refreshing_backend_def refreshing_service_def)

text \<open>A service that generates a deletion; the world counts the queries that are not safe.\<close>

definition generating_service :: "nat ai_transport" where
  "generating_service method url body headers w =
     (Inr \<lparr>an_status = 200, an_json = Some (PyDict [(''raw_gremlin'', PyStr ''g.V().drop()'')]), an_http_error = [], an_json_error = []\<rparr>, w)"

definition generating_backend :: "nat ai_backend" where
  "generating_backend = refreshing_backend
     \<lparr>ab_transport := generating_service,
      ab_client := (\<lambda>w query. (Inr (PyList []), if classify_gremlin_read_safety query = Safe then w else Suc w))\<rparr>"


theorem ai_success_is_genuine_witness:
  "snd (ai_request (\<lambda>_. []) refreshing_service (from_env ai_env) ''GET'' ''http://other/x'' None [] 7) = 7 \<and>
   fst (ai_request (\<lambda>_. []) refreshing_service (from_env ai_env) ''GET'' ''/openapi.json'' None [] 7) =
     ai_ok (PyDict [(''protocol_version'', PyInt 1)]) \<and>
   (\<exists>(a :: ai_answer) data. an_json a = Some data \<and> \<not> is_http_error (an_status a) \<and> carries 2 data (PyDict [(''protocol_version'', PyInt 1)]))"
proof -
  have "\<not> is_relative_path ''http://other/x''" by code_simp
  then have refused: "snd (ai_request (\<lambda>_. []) refreshing_service (from_env ai_env) ''GET'' ''http://other/x'' None [] 7) = 7"
    using ai_success_is_genuine [where fl = "\<lambda>_. []" and transport = refreshing_service and cfg = "from_env ai_env" and verb = "''GET''"
        and path = "''http://other/x''" and body = None and headers = "[]" and w = 7, OF surjective_pairing]
    by simp
  have "is_relative_path ''/openapi.json''" by code_simp
  then have answered: "ai_request (\<lambda>_. []) refreshing_service (from_env ai_env) ''GET'' ''/openapi.json'' None [] 7 =
      (ai_ok (PyDict [(''protocol_version'', PyInt 1)]), 7)"
    unfolding ai_request_def Let_def refresh_paths refreshing_service_def by (simp add: refreshing_answer ai_env_allows)
  show ?thesis
    using refused answered ai_success_is_genuine [OF answered] by (fastforce simp: ai_ok_def)
qed

end
