(* ===== verification/Inspect_Tools.thy ===== *)
theory Inspect_Tools
  imports Ai_Tools Graph_Client
begin

text \<open>
  The tools that describe the server: \<open>tools/inspect_graph.py\<close> and \<open>tools/inspect_schema.py\<close>. Next actions of
  an envelope are left out; the warnings of \<open>inspect_graph\<close> are part of its reply.
\<close>

section \<open>The state of the graph\<close>

text \<open>A boolean is an integer, too.\<close>

fun counted_value :: "pyval \<Rightarrow> pyval" where
  "counted_value (PyDict d) = (case map_of d ''data'' of Some v \<Rightarrow> counted_value v | None \<Rightarrow> PyNone)"
| "counted_value (PyList []) = PyInt 0"
| "counted_value (PyList (v # vs)) = (case v of PyInt n \<Rightarrow> v | PyBool b \<Rightarrow> v | _ \<Rightarrow> PyNone)"
| "counted_value (PyInt n) = PyInt n"
| "counted_value (PyBool b) = PyBool b"
| "counted_value _ = PyNone"

definition count_of_reply :: "reply \<Rightarrow> pyval" where
  "count_of_reply r = (case r of EnvelopeErr e \<Rightarrow> PyNone | EnvelopeOk data \<Rightarrow> counted_value data)"

definition count_indexes :: "pyval \<Rightarrow> py_exception + pyval" where
  "count_indexes raw_schema =
     (case raw_schema of
        PyNone \<Rightarrow> Inr PyNone
      | PyDict d \<Rightarrow> Inr (PyInt (case dict_get d ''indexlabels'' of PyList vs \<Rightarrow> int (length vs) | _ \<Rightarrow> 0))
      | _ \<Rightarrow> Inl RaisesAttribute)"

fun is_ready_index_value :: "pyval \<Rightarrow> bool" where
  "is_ready_index_value (PyBool b) = b"
| "is_ready_index_value (PyStr s) \<longleftrightarrow> py_lower (py_strip s) \<in> {''available'', ''ready'', ''loaded'', ''enabled''}"
| "is_ready_index_value (PyDict d) \<longleftrightarrow>
     map_of d ''available'' = Some (PyBool True) \<or> map_of d ''ready'' = Some (PyBool True) \<or>
     (case map_of d ''status'' of
        Some st \<Rightarrow>
          if py_truthy st then is_ready_index_value st
          else (case map_of d ''state'' of Some st' \<Rightarrow> is_ready_index_value st' | None \<Rightarrow> False)
      | None \<Rightarrow> (case map_of d ''state'' of Some st' \<Rightarrow> is_ready_index_value st' | None \<Rightarrow> False))"
| "is_ready_index_value _ = False"

definition INDEX_INFO_KEYS :: "string list" where
  "INDEX_INFO_KEYS =
     [''vid_embedding'', ''vid_embedding_status'', ''vid_index'', ''vid_index_status'', ''embedding_index'',
      ''embedding_index_status'', ''index_status'']"

definition has_graph_index_info :: "pyval \<Rightarrow> bool" where
  "has_graph_index_info info \<longleftrightarrow>
     (case info of
        PyDict d \<Rightarrow>
          dict_get d ''health_endpoint'' \<noteq> PyStr ''/openapi.json'' \<and>
          list_ex (\<lambda>k. is_ready_index_value (dict_get d k)) INDEX_INFO_KEYS
      | _ \<Rightarrow> False)"

definition warning_from_exception :: "string \<Rightarrow> string \<Rightarrow> string" where
  "warning_from_exception p message = (if py_strip message = [] then p else p @ '': '' @ py_strip message)"

definition check_ai_status :: "'w ai_backend \<Rightarrow> ('w, string \<times> pyval \<times> pyval list) effect" where
  "check_ai_status be =
     (if \<not> cf_allow_ai (ab_config be) then effect_return (''disabled'', PyNone, [])
      else effect_bind (health_check (sk_float_text be) (ab_transport be) (ab_config be)) (\<lambda>result. effect_return
        (if ar_ok result then (''available'', ar_data result, ar_warnings result)
         else (''unavailable'', PyNone,
           get_default (ar_error result) ''message'' (PyStr ''HugeGraph-AI is unavailable'') # ar_warnings result))))"

text \<open>One count: its value and the warnings about it. Whatever fails is a warning.\<close>

definition run_count_query :: "'w ai_backend \<Rightarrow> string \<Rightarrow> string \<Rightarrow> ('w, pyval \<times> pyval list) effect" where
  "run_count_query be query label w =
     (case execute_gremlin_read (sk_float_text be) (ab_response_true be) (sk_env be) (ab_client be) (ab_duration be) query ''warn'' w of
        (Inl DepthValueError, w') \<Rightarrow>
          (Inr (PyNone, [PyStr (warning_from_exception (''Failed to fetch '' @ label @ '' count'')
             (sk_exception_text be (RaisesValue [])))]), w')
      | (Inr r, w') \<Rightarrow>
          (Inr (let n = count_of_reply r in (n, if n = PyNone then [PyStr (''Failed to fetch '' @ label @ '' count'')] else [])), w'))"

definition inspected_counts :: "'w ai_backend \<Rightarrow> bool \<Rightarrow> ('w, pyval \<times> pyval \<times> pyval list) effect" where
  "inspected_counts be wanted =
     (if \<not> wanted then effect_return (PyNone, PyNone, [])
      else effect_bind (run_count_query be ''g.V().count()'' ''vertex'') (\<lambda>(vertices, warnings).
        effect_bind (run_count_query be ''g.E().count()'' ''edge'') (\<lambda>(edges, warnings').
          effect_return (vertices, edges, warnings @ warnings'))))"

definition inspection_data ::
  "mcp_config \<Rightarrow> bool \<Rightarrow> py_exception + pydict \<Rightarrow> pyval \<times> pyval \<Rightarrow> string \<times> pyval \<Rightarrow> pyval \<Rightarrow> pydict" where
  "inspection_data cfg include_raw schema counts ai indexes =
     (let part = (\<lambda>k. case schema of Inr d \<Rightarrow> dict_get d k | Inl _ \<Rightarrow> PyNone);
          readonly = part ''readonly''
      in [(''graph'', PyStr (cf_graph cfg)), (''graphspace'', opt_str (cf_graphspace cfg)),
          (''hugegraph_server_status'', PyStr (case schema of Inr _ \<Rightarrow> ''available'' | Inl _ \<Rightarrow> ''unavailable'')),
          (''hugegraph_ai_status'', PyStr (fst ai)),
          (''vid_embedding_status'', PyStr (if has_graph_index_info (snd ai) then ''available'' else ''unknown'')),
          (''schema_summary'', part ''simple_schema''), (''vertex_count'', fst counts), (''edge_count'', snd counts),
          (''index_status'', PyDict [(''total'', indexes)]),
          (''readonly'', if readonly = PyNone then PyBool (cf_readonly cfg) else readonly)] @
         (if include_raw then [(''raw_schema'', part ''schema''), (''simple_schema'', part ''simple_schema'')] else []))"

definition inspect_graph :: "'w ai_backend \<Rightarrow> bool \<Rightarrow> bool \<Rightarrow> ('w, ai_reply) effect" where
  "inspect_graph be include_raw include_counts =
     effect_bind (effect_try (get_live_schema (ab_schema be))) (\<lambda>fetched_schema.
       let schema = map_sum id (\<lambda>v. case v of PyDict d \<Rightarrow> d | _ \<Rightarrow> []) fetched_schema;
           server_warnings = (case schema of
             Inl e \<Rightarrow> [PyStr (warning_from_exception ''HugeGraph Server is unavailable'' (sk_exception_text be e))] | Inr _ \<Rightarrow> [])
       in effect_bind (inspected_counts be (include_counts \<and> server_warnings = [])) (\<lambda>(vertices, edges, count_warnings).
         effect_bind (check_ai_status be) (\<lambda>(ai_status, info, ai_warnings).
         effect_bind (effect_of (count_indexes (case schema of Inr d \<Rightarrow> dict_get d ''schema'' | Inl _ \<Rightarrow> PyNone))) (\<lambda>indexes.
           effect_return ((ai_ok (PyDict (inspection_data (ab_config be) include_raw schema (vertices, edges) (ai_status, info) indexes)))
             \<lparr>ar_warnings := server_warnings @ count_warnings @ ai_warnings\<rparr>)))))"

section \<open>The schema\<close>

definition FILTER_KINDS :: "(string \<times> string) list" where
  "FILTER_KINDS =
     [(''property_key'', ''propertykeys''), (''vertex_label'', ''vertexlabels''), (''edge_label'', ''edgelabels''),
      (''index_label'', ''indexlabels'')]"

definition normalize_optional_str :: "string option \<Rightarrow> string option" where
  "normalize_optional_str v = (case v of None \<Rightarrow> None | Some s \<Rightarrow> if py_strip s = [] then None else Some (py_strip s))"

definition validate_filter :: "string option \<Rightarrow> string option \<Rightarrow> reply option" where
  "validate_filter kind name =
     (case (kind, name) of
        (None, Some n) \<Rightarrow> Some (envelope_err VALIDATION_ERROR ''filter_name requires filter_kind.''
          (Some ''Pass filter_kind together with filter_name.'') False (Some (PyDict [(''filter_name'', PyStr n)])))
      | (Some k, _) \<Rightarrow>
          if k \<in> set (map fst FILTER_KINDS) then None
          else Some (envelope_err VALIDATION_ERROR (''Unsupported filter_kind: '' @ repr_string k @ ''.'')
            (Some ''Use one of: property_key, vertex_label, edge_label, index_label.'') False (Some (PyDict [(''filter_kind'', PyStr k)])))
      | _ \<Rightarrow> None)"

definition collection_items :: "pydict \<Rightarrow> string \<Rightarrow> pyval list" where
  "collection_items raw k = (case dict_get raw k of PyList vs \<Rightarrow> vs | _ \<Rightarrow> [])"

text \<open>An item of a schema that came as JSON is a dictionary or has none of the attributes asked for.\<close>

definition inspected_item :: "(rat \<Rightarrow> string) \<Rightarrow> pyval \<Rightarrow> pydict" where
  "inspected_item fl item = (case item of PyDict d \<Rightarrow> d | _ \<Rightarrow> [(''value'', PyStr (py_str fl item))])"

definition sorted_names :: "pyval \<Rightarrow> pyval" where
  "sorted_names v = (case v of PyList vs \<Rightarrow> PyList (map PyStr (sort (names_in vs))) | _ \<Rightarrow> PyList [])"

definition sorted_property_names :: "pyval \<Rightarrow> pyval" where
  "sorted_property_names v = PyList (map PyStr (sort (remdups (case v of PyList vs \<Rightarrow> names_in vs | _ \<Rightarrow> []))))"

definition with_fields :: "(string \<times> pyval) list \<Rightarrow> pydict \<Rightarrow> pydict" where
  "with_fields fs d = foldl (\<lambda>acc (k, v). AList.update k v acc) d fs"

definition inspected_vertex_label :: "(rat \<Rightarrow> string) \<Rightarrow> pyval \<Rightarrow> pydict" where
  "inspected_vertex_label fl item =
     (case item of
        PyDict d \<Rightarrow> with_fields [(''properties'', sorted_property_names (dict_get d ''properties'')),
          (''primary_keys'', PyList (map PyStr (primary_key_names d))),
          (''nullable_keys'', sorted_names (py_or (dict_get d ''nullable_keys'') (dict_get d ''nullableKeys'')))] d
      | _ \<Rightarrow> inspected_item fl item)"

definition inspected_edge_label :: "(rat \<Rightarrow> string) \<Rightarrow> pyval \<Rightarrow> pydict" where
  "inspected_edge_label fl item =
     (case item of
        PyDict d \<Rightarrow> with_fields [(''source_label'', edge_schema_endpoint_label d ''source''),
          (''target_label'', edge_schema_endpoint_label d ''target''),
          (''properties'', sorted_property_names (dict_get d ''properties'')),
          (''nullable_keys'', sorted_names (py_or (dict_get d ''nullable_keys'') (dict_get d ''nullableKeys'')))] d
      | _ \<Rightarrow> inspected_item fl item)"

definition inspected_kind_item :: "(rat \<Rightarrow> string) \<Rightarrow> string \<Rightarrow> pyval \<Rightarrow> pydict" where
  "inspected_kind_item fl kind item =
     (if kind = ''vertex_label'' then inspected_vertex_label fl item
      else if kind = ''edge_label'' then inspected_edge_label fl item
      else inspected_item fl item)"

definition inspected_collection :: "(rat \<Rightarrow> string) \<Rightarrow> pydict \<Rightarrow> string \<Rightarrow> pydict list" where
  "inspected_collection fl raw kind = map (inspected_kind_item fl kind) (collection_items raw (the (map_of FILTER_KINDS kind)))"

definition schema_summary_of :: "(rat \<Rightarrow> string) \<Rightarrow> pydict \<Rightarrow> bool \<Rightarrow> pydict" where
  "schema_summary_of fl raw include_index_labels =
     (let list_of = (\<lambda>kind. PyList (map PyDict (inspected_collection fl raw kind)));
          count_of = (\<lambda>k. PyInt (int (length (collection_items raw k))))
      in [(''property_key_count'', count_of ''propertykeys''), (''vertex_label_count'', count_of ''vertexlabels''),
          (''edge_label_count'', count_of ''edgelabels''), (''index_label_count'', count_of ''indexlabels''),
          (''property_keys'', list_of ''property_key''), (''vertex_labels'', list_of ''vertex_label''),
          (''edge_labels'', list_of ''edge_label''),
          (''index_labels'', if include_index_labels then list_of ''index_label'' else PyList [])])"

text \<open>What was asked for; \<open>None\<close> when no object has the name.\<close>

definition filtered_schema :: "(rat \<Rightarrow> string) \<Rightarrow> pydict \<Rightarrow> string option \<Rightarrow> string option \<Rightarrow> pydict \<Rightarrow> pyval option" where
  "filtered_schema fl raw kind name summary =
     (case kind of
        None \<Rightarrow> Some (PyDict (map (\<lambda>k. (k, dict_get summary k)) [''property_keys'', ''vertex_labels'', ''edge_labels'', ''index_labels'']))
      | Some k \<Rightarrow>
          (case name of
             None \<Rightarrow> Some (PyList (map PyDict (inspected_collection fl raw k)))
           | Some n \<Rightarrow> map_option PyDict (List.find (\<lambda>d. dict_get d ''name'' = PyStr n) (inspected_collection fl raw k))))"

text \<open>\<open>_safe_get_relations\<close>: any failure is the empty list.\<close>

definition safe_relations :: "(rat \<Rightarrow> string) \<Rightarrow> 'w transport \<Rightarrow> ('w, pyval list) effect" where
  "safe_relations fl transport =
     effect_bind (effect_try (getRelations fl transport)) (\<lambda>r. effect_return
       (case r of Inr (Some names) \<Rightarrow> map PyStr names | _ \<Rightarrow> []))"

definition read_schema_and_relations :: "'w schema_backend \<Rightarrow> bool \<Rightarrow> ('w, pyval \<times> pyval list) effect" where
  "read_schema_and_relations be include_relations =
     (let fl = sk_float_text be in
      effect_bind (sk_connect be (from_env (sk_env be))) (\<lambda>transport.
      effect_bind (get_schema fl transport) (\<lambda>raw.
        if raw = PyNone then effect_return (PyNone, [])
        else effect_bind (if include_relations then safe_relations fl transport else effect_return []) (\<lambda>relations.
          effect_return (raw, relations)))))"

definition schema_inspection ::
  "(rat \<Rightarrow> string) \<Rightarrow> bool \<Rightarrow> bool \<Rightarrow> string option \<Rightarrow> string option \<Rightarrow> pydict \<Rightarrow> pyval list \<Rightarrow> reply" where
  "schema_inspection fl include_raw include_index_labels kind name raw relations =
     (let summary = schema_summary_of fl raw include_index_labels in
      case filtered_schema fl raw kind name summary of
        None \<Rightarrow> envelope_err NOT_FOUND (the kind @ '' not found: '' @ the name) None False
          (Some (PyDict [(''filter_kind'', opt_str kind), (''filter_name'', opt_str name)]))
      | Some filtered \<Rightarrow> envelope_ok (PyDict
          ([(''summary'', PyDict summary), (''relations'', PyList relations),
            (''index_labels'', if include_index_labels then dict_get summary ''index_labels'' else PyList []),
            (''filtered'', filtered)] @ (if include_raw then [(''raw_schema'', PyDict raw)] else []))))"

definition inspect_schema ::
  "'w schema_backend \<Rightarrow> bool \<Rightarrow> bool \<Rightarrow> bool \<Rightarrow> string option \<Rightarrow> string option \<Rightarrow> ('w, reply) effect" where
  "inspect_schema be include_raw include_relations include_index_labels kind0 name0 =
     (let kind = normalize_optional_str kind0; name = normalize_optional_str name0 in
      case validate_filter kind name of
        Some r \<Rightarrow> effect_return r
      | None \<Rightarrow>
          effect_bind (effect_try (read_schema_and_relations be include_relations)) (\<lambda>result.
            case result of
              Inl e \<Rightarrow> effect_return (envelope_err CONNECTION_FAILED (''Cannot inspect HugeGraph schema: '' @ sk_exception_text be e)
                (Some ''Verify HugeGraph Server URL, graph, graphspace, and credentials.'') True
                (Some (PyDict [(''error'', PyStr (sk_exception_text be e))])))
            | Inr (raw_schema, relations) \<Rightarrow>
                if raw_schema = PyNone
                then effect_return (envelope_err CONNECTION_FAILED ''HugeGraph Server returned an empty schema response.'' None True None)
                else (case raw_schema of
                    PyDict d \<Rightarrow> effect_return (schema_inspection (sk_float_text be) include_raw include_index_labels kind name
                      (case schema_payload raw_schema of Some (x # xs) \<Rightarrow> x # xs | _ \<Rightarrow> d) relations)
                  | _ \<Rightarrow> effect_of (Inl RaisesAttribute))))"

end
