(* ===== verification/Inspect_Properties.thy ===== *)
theory Inspect_Properties
  imports Ai_Properties Inspect_Tools
begin

text \<open>
  The tools that describe the server only read. The description of the graph is a success whenever it
  returns; it is meant to return always, and one answer of the AI service makes it raise.
\<close>

section \<open>Inspection only reads\<close>

lemma execute_read_keeps:
  assumes "ai_calls_keep I be" "I w"
  shows "I (snd (execute_gremlin_read fl rt env (ab_client be) ms query policy w))"
  using execute_read_world [of fl rt env "ab_client be" ms query policy w] read_decision_safe assms
  unfolding ai_calls_keep_def by metis

lemma run_count_query_keeps [effect_rules]: "ai_calls_keep I be \<Longrightarrow> effect_keeps I (run_count_query be query label)"
  using execute_read_keeps [of I be]
  by (auto simp: effect_keeps_def run_count_query_def split: prod.split sum.split cost_failure.split) (metis snd_conv)+

lemma ai_get_keeps: "ai_calls_keep I be \<Longrightarrow> I w \<Longrightarrow> I (snd (ai_get fl (ab_transport be) cfg path w))"
  by (auto simp: ai_calls_keep_def ai_get_def ai_request_def Let_def split: prod.split) (metis snd_conv)

lemma health_check_from_keeps:
  "ai_calls_keep I be \<Longrightarrow> I w \<Longrightarrow> I (snd (health_check_from fl (ab_transport be) cfg attempts last_result paths w))"
proof (induction paths arbitrary: attempts last_result w)
  case Nil
  then show ?case using ai_get_keeps [of I be w] by (auto split: option.split prod.split) (metis snd_conv)
next
  case (Cons path paths)
  obtain r w1 where r: "ai_get fl (ab_transport be) cfg path w = (r, w1)" by fastforce
  then have "I w1" using ai_get_keeps [OF Cons.prems] by (metis snd_conv)
  then show ?case using Cons.IH [OF Cons.prems(1)] r by (auto split: sum.split)
qed

lemma health_check_keeps:
  assumes "ai_calls_keep I be"
  shows "effect_keeps I (health_check fl (ab_transport be) cfg)"
proof -
  have "I (snd (health_check_from fl (ab_transport be) cfg [] None [''/graph-index-info'', ''/openapi.json''] w))" if "I w" for w
    by (rule health_check_from_keeps [where I = I and be = be, OF assms that])
  then show ?thesis by (simp add: effect_keeps_def health_check_def)
qed

lemma check_ai_status_keeps [effect_rules]: "ai_calls_keep I be \<Longrightarrow> effect_keeps I (check_ai_status be)"
  unfolding check_ai_status_def by (intro effect_rules health_check_keeps)

lemma inspect_graph_keeps:
  assumes "schema_reads_keep I (ab_schema be)" "ai_calls_keep I be"
  shows "effect_keeps I (inspect_graph be include_raw include_counts)"
  unfolding inspect_graph_def inspected_counts_def Let_def using assms by (intro effect_rules)

lemma inspect_schema_keeps:
  assumes "schema_reads_keep I be"
  shows "effect_keeps I (inspect_schema be include_raw include_relations include_index_labels kind name)"
proof -
  have "effect_keeps I (read_schema_and_relations be include_relations)"
    unfolding read_schema_and_relations_def Let_def safe_relations_def getRelations_def
    by (rule connected_reads_keep [OF assms]) (intro effect_rules get_schema_keeps, simp_all)
  then show ?thesis
    unfolding inspect_schema_def Let_def by (auto intro!: effect_rules split: option.split sum.split pyval.split)
qed



section \<open>A description that raises\<close>

text \<open>
  No failure is meant to leave \<open>inspect_graph\<close>. The failure of the AI service for which the health check
  raises does, whatever else the server answers.
\<close>

theorem inspect_graph_raises:
  assumes "cf_allow_ai (ab_config be)" "ab_transport be = refusing_service"
  shows "\<exists>e. fst (inspect_graph be include_raw False w) = Inl e"
  using assms
  by (auto simp: health_check_raises inspect_graph_def inspected_counts_def check_ai_status_def effect_bind_def effect_try_def effect_return_def Let_def
      split: prod.split sum.split)

end
