(* ===== verification/Client_Session.thy ===== *)
theory Client_Session
  imports Graph_Client Url_Text
begin

text \<open>
  Sessions of the Python client: the configuration with its probe of the server version
  (\<open>utils/huge_config.py\<close>), the resolution of paths (\<open>utils/huge_requests.py\<close>) and the router that fills
  the template of a path (\<open>utils/huge_router.py\<close>). The HTTP library is the parameter \<open>http\<close>; it takes
  method, URL, query parameters and body to an answer or an exception.
\<close>

section \<open>Configuration\<close>

record client_config =
  cc_url :: string
  cc_username :: string
  cc_password :: string
  cc_graph_name :: string
  cc_graphspace :: "string option"
  cc_timeout :: "rat \<times> rat"
  cc_gs_supported :: bool
  cc_version :: "int list"

text \<open>The JSON value \<open>GET url\<close> is answered by.\<close>

type_synonym 'w version_probe = "string \<Rightarrow> ('w, pyval) effect"

definition server_url :: "string \<Rightarrow> string" where
  "server_url url = (if url \<noteq> [] \<and> take 4 url \<noteq> ''http'' then ''http://'' @ url else url)"

text \<open>A number behind a dot at the beginning of a text, and what follows.\<close>

definition dot_number :: "string \<Rightarrow> (string \<times> string) option" where
  "dot_number s =
     (case s of
        c # r \<Rightarrow> if c = CHR ''.'' \<and> takeWhile ascii_digit r \<noteq> [] then Some (takeWhile ascii_digit r, dropWhile ascii_digit r) else None
      | [] \<Rightarrow> None)"

text \<open>The digits of major, minor and patch number of the first version in a text.\<close>

definition version_at :: "string \<Rightarrow> (string \<times> string \<times> string option) option" where
  "version_at s =
     (if takeWhile ascii_digit s = [] then None
      else case dot_number (dropWhile ascii_digit s) of
        None \<Rightarrow> None
      | Some (minor, rest) \<Rightarrow> Some (takeWhile ascii_digit s, minor, map_option fst (dot_number rest)))"

fun search_version :: "string \<Rightarrow> (string \<times> string \<times> string option) option" where
  "search_version [] = None"
| "search_version (c # s) = (case version_at (c # s) of Some v \<Rightarrow> Some v | None \<Rightarrow> search_version s)"

definition int_of_text :: "string \<Rightarrow> py_exception + int" where
  "int_of_text s = (case parse_int s of Some n \<Rightarrow> Inr n | None \<Rightarrow> Inl (RaisesValue []))"

definition item_at :: "string \<Rightarrow> pyval \<Rightarrow> py_exception + pyval" where
  "item_at k v = (case v of PyDict d \<Rightarrow> item_of d k | _ \<Rightarrow> Inl RaisesType)"

definition version_of_response :: "pyval \<Rightarrow> py_exception + int \<times> int \<times> int" where
  "version_of_response response =
     and_then (and_then (item_at ''versions'' response) (item_at ''core'')) (\<lambda>core.
       case core of
         PyStr s \<Rightarrow>
           (case search_version s of
              None \<Rightarrow> Inl (RaisesRuntime (''Unable to parse HugeGraph server version from response: '' @ repr_string s @ ''. '' @
                ''Please verify the server is compatible with this client.''))
            | Some (major, minor, patch) \<Rightarrow>
                and_then (int_of_text major) (\<lambda>a. and_then (int_of_text minor) (\<lambda>b.
                and_then (case patch of None \<Rightarrow> Inr 0 | Some t \<Rightarrow> int_of_text t) (\<lambda>c. Inr (a, b, c)))))
       | _ \<Rightarrow> Inl RaisesType)"

text \<open>Comparison of version numbers as tuples.\<close>

definition version_less :: "int \<times> int \<times> int \<Rightarrow> int \<times> int \<times> int \<Rightarrow> bool" where
  "version_less v w \<longleftrightarrow>
     (case (v, w) of ((a, b, c), (a', b', c')) \<Rightarrow> a < a' \<or> (a = a' \<and> (b < b' \<or> (b = b' \<and> c < c'))))"

definition unsupported_version :: "int \<times> int \<times> int \<Rightarrow> py_exception" where
  "unsupported_version v =
     (case v of (a, b, c) \<Rightarrow> RaisesRuntime (''HugeGraph server version '' @ show_int a @ ''.'' @ show_int b @ ''.'' @ show_int c @
        '' is not supported. '' @ ''Please upgrade to HugeGraph >= 1.5.0 or use an older version of this client (v1.3.x).''))"

text \<open>What the answer of the probe makes of a configuration.\<close>

definition with_version :: "client_config \<Rightarrow> int \<times> int \<times> int \<Rightarrow> client_config" where
  "with_version cfg v =
     (case v of (a, b, c) \<Rightarrow>
        let cfg = cfg\<lparr>cc_version := [a, b, c]\<rparr>
        in if version_less v (1, 7, 0) then cfg else cfg\<lparr>cc_graphspace := Some ''DEFAULT'', cc_gs_supported := True\<rparr>)"

text \<open>Whatever fails is printed; a version that is refused or cannot be read is a \<open>RuntimeError\<close>, which is raised.\<close>

definition probed_config :: "client_config \<Rightarrow> py_exception + pyval \<Rightarrow> py_exception + client_config" where
  "probed_config cfg answer =
     (case and_then answer version_of_response of
        Inl (RaisesRuntime m) \<Rightarrow> Inl (RaisesRuntime m)
      | Inl _ \<Rightarrow> Inr cfg
      | Inr v \<Rightarrow> if version_less v (1, 5, 0) then Inl (unsupported_version v) else Inr (with_version cfg v))"

definition client_config_of ::
  "'w version_probe \<Rightarrow> string \<Rightarrow> string \<Rightarrow> string \<Rightarrow> string \<Rightarrow> string option \<Rightarrow> rat \<times> rat \<Rightarrow> ('w, client_config) effect" where
  "client_config_of probe url user pwd graph graphspace timeout w =
     (let cfg = \<lparr>cc_url = server_url url, cc_username = user, cc_password = pwd, cc_graph_name = graph, cc_graphspace = graphspace,
            cc_timeout = timeout, cc_gs_supported = False, cc_version = []\<rparr>;
          given = (case graphspace of Some s \<Rightarrow> py_strip s \<noteq> [] | None \<Rightarrow> False)
      in if given then (Inr (cfg\<lparr>cc_gs_supported := True\<rparr>), w)
         else case probe (cc_url cfg @ ''/versions'') w of (r, w') \<Rightarrow> (probed_config cfg r, w'))"

section \<open>Resolution of paths\<close>

definition strip_slashes :: "string \<Rightarrow> string" where
  "strip_slashes s = rev (dropWhile (\<lambda>c. c = CHR ''/'') (rev (dropWhile (\<lambda>c. c = CHR ''/'') s)))"

definition optional_text :: "string option \<Rightarrow> string" where
  "optional_text s = (case s of None \<Rightarrow> ''None'' | Some t \<Rightarrow> t)"

definition graph_base :: "client_config \<Rightarrow> string" where
  "graph_base cfg =
     urljoin (cc_url cfg @ ''/'')
       (if cc_gs_supported cfg then ''graphspaces/'' @ optional_text (cc_graphspace cfg) @ ''/graphs/'' @ cc_graph_name cfg @ ''/''
        else ''graphs/'' @ cc_graph_name cfg @ ''/'')"

definition resolve :: "client_config \<Rightarrow> string \<Rightarrow> string" where
  "resolve cfg path = strip_slashes (urljoin (graph_base cfg) path)"

section \<open>Requests\<close>

type_synonym 'w http_call = "string \<Rightarrow> string \<Rightarrow> pydict \<Rightarrow> pyval option \<Rightarrow> ('w, http_answer) effect"

record 'w client_session =
  cs_config :: client_config
  cs_http :: "'w http_call"

text \<open>The transport the managers of graphs and schemas use.\<close>

definition session_transport :: "'w client_session \<Rightarrow> 'w transport" where
  "session_transport s method path body = cs_http s method (resolve (cs_config s) path) [] body"

text \<open>\<open>ResponseValidation("text")\<close> takes the text of an answer that is no error.\<close>

datatype content_type = JsonContent | TextContent

definition validate_content ::
  "(rat \<Rightarrow> string) \<Rightarrow> content_type \<Rightarrow> string \<Rightarrow> string \<Rightarrow> http_answer \<Rightarrow> py_exception + pyval" where
  "validate_content fl content method path answer =
     (if content = TextContent \<and> \<not> (400 \<le> ha_status answer \<and> ha_status answer < 600) \<and> ha_status answer \<noteq> 204
      then Inr (PyStr (ha_text answer)) else validate_response fl True method path answer)"

definition client_request ::
  "(rat \<Rightarrow> string) \<Rightarrow> 'w client_session \<Rightarrow> content_type \<Rightarrow> string \<Rightarrow> string \<Rightarrow> pydict \<Rightarrow> pyval option \<Rightarrow> ('w, pyval) effect" where
  "client_request fl s content method path params body =
     effect_bind (cs_http s method (resolve (cs_config s) path) params body) (\<lambda>answer.
       effect_of (validate_content fl content method path answer))"

section \<open>The router\<close>

definition word_char :: "char \<Rightarrow> bool" where
  "word_char c \<longleftrightarrow> ascii_alpha c \<or> ascii_digit c \<or> c = CHR ''_''"

text \<open>The search for \<open>{\w+}\<close> in a template.\<close>

fun has_placeholder :: "string \<Rightarrow> bool" where
  "has_placeholder [] = False"
| "has_placeholder (c # s) \<longleftrightarrow>
     (c = CHR ''{'' \<and> takeWhile word_char s \<noteq> [] \<and> take 1 (dropWhile word_char s) = ''}'') \<or> has_placeholder s"

text \<open>\<open>path.format(**args)\<close>: the templates of the managers have only plain fields.\<close>

function format_path :: "(rat \<Rightarrow> string) \<Rightarrow> pydict \<Rightarrow> string \<Rightarrow> py_exception + string" where
  "format_path fl args [] = Inr []"
| "format_path fl args (c # s) =
     (if c = CHR ''{''
      then and_then (item_of args (takeWhile (\<lambda>x. x \<noteq> CHR ''}'') s)) (\<lambda>v.
        map_sum id (\<lambda>rest. py_str fl v @ rest) (format_path fl args (drop 1 (dropWhile (\<lambda>x. x \<noteq> CHR ''}'') s))))
      else map_sum id (\<lambda>rest. c # rest) (format_path fl args s))"
  by pat_completeness auto
termination
  by (relation "measure (\<lambda>(fl, args, s). length s)")
    (auto simp: le_imp_less_Suc intro!: le_imp_less_Suc le_trans [OF diff_le_self length_dropWhile_le])

declare format_path.simps [simp del]

definition graphspace_prefix :: string where
  "graphspace_prefix = ''/graphspaces/{graphspace}''"

definition route_path :: "(rat \<Rightarrow> string) \<Rightarrow> client_config \<Rightarrow> string \<Rightarrow> pydict \<Rightarrow> py_exception + string" where
  "route_path fl cfg path args =
     (if \<not> has_placeholder path then Inr path
      else if \<not> py_contains ''{graphspace}'' path then format_path fl args path
      else if take (length graphspace_prefix + 1) path \<noteq> graphspace_prefix @ ''/''
      then Inl (RaisesValue (''Expected graphspace-prefixed path, got: '' @ path))
      else if \<not> cc_gs_supported cfg \<and> take (length graphspace_prefix + 6) path = graphspace_prefix @ ''/auth/''
      then format_path fl args (drop (length graphspace_prefix) path)
      else if py_truthy (dict_get args ''graphspace'') then format_path fl args path
      else if cc_graphspace cfg \<notin> {None, Some []} \<and> cc_gs_supported cfg
      then format_path fl (AList.update ''graphspace'' (opt_str (cc_graphspace cfg)) args) path
      else Inl (RaisesValue (''graphspace is required for this endpoint. '' @
        ''Pass graphspace explicitly or configure a supported graphspace session.'')))"

text \<open>A method decorated with \<open>http(method, path)\<close> that answers what the server answers.\<close>

definition routed ::
  "(rat \<Rightarrow> string) \<Rightarrow> 'w client_session \<Rightarrow> content_type \<Rightarrow> string \<Rightarrow> string \<Rightarrow> pydict \<Rightarrow> pydict \<Rightarrow> pyval option \<Rightarrow> ('w, pyval) effect" where
  "routed fl s content method path args params body =
     effect_bind (effect_of (route_path fl (cs_config s) path args)) (\<lambda>p. client_request fl s content method p params body)"

text \<open>
  The decorator stores path and method on the manager under the name of the decorated method, which reads
  them back; \<open>routed\<close> is a call during which no other call of the method runs.
\<close>

type_synonym stored_requests = "string \<Rightarrow> (string \<times> string) option"

definition store_request :: "string \<Rightarrow> string \<Rightarrow> string \<Rightarrow> stored_requests \<Rightarrow> stored_requests" where
  "store_request name path method slots = slots(name \<mapsto> (path, method))"

definition invoke_stored ::
  "(rat \<Rightarrow> string) \<Rightarrow> 'w client_session \<Rightarrow> content_type \<Rightarrow> string \<Rightarrow> pydict \<Rightarrow> pyval option \<Rightarrow> stored_requests \<Rightarrow> ('w, pyval) effect" where
  "invoke_stored fl s content name params body slots =
     (case slots name of
        None \<Rightarrow> effect_of (Inl RaisesAttribute)
      | Some (path, method) \<Rightarrow> client_request fl s content method path params body)"

lemma undisturbed_call:
  "route_path fl (cs_config s) template args = Inr path \<Longrightarrow>
     invoke_stored fl s content name params body (store_request name path method slots) =
     routed fl s content method template args params body"
  by (rule ext) (simp add: invoke_stored_def store_request_def routed_def effect_bind_def effect_of_def)

text \<open>
  The managers of the Python client that administrate and analyse: \<open>api/auth.py\<close>, \<open>api/graphs.py\<close>,
  \<open>api/gremlin.py\<close>, \<open>api/metric.py\<close>, \<open>api/rank.py\<close>, \<open>api/rebuild.py\<close>, \<open>api/services.py\<close>, \<open>api/task.py\<close>,
  \<open>api/traverser.py\<close>, \<open>api/variable.py\<close> and \<open>api/version.py\<close>. A method is one request; a body that is sent as
  \<open>json.dumps(data)\<close> is represented by its value.
\<close>

text \<open>A JSON request without query parameters.\<close>

abbreviation call_json ::
  "(rat \<Rightarrow> string) \<Rightarrow> 'w client_session \<Rightarrow> string \<Rightarrow> string \<Rightarrow> pydict \<Rightarrow> pyval option \<Rightarrow> ('w, pyval) effect" where
  "call_json fl s method path args body \<equiv> routed fl s JsonContent method path args [] body"

text \<open>The parameters that were given.\<close>

definition given :: "pydict \<Rightarrow> pydict" where
  "given params = filter (\<lambda>(k, v). v \<noteq> PyNone) params"

section \<open>Authorisation\<close>

definition list_users ::
  "(rat \<Rightarrow> string) \<Rightarrow> 'w client_session \<Rightarrow> pyval \<Rightarrow> ('w, pyval) effect" where
  "list_users fl s limit =
     routed fl s JsonContent ''GET'' ''/graphspaces/{graphspace}/auth/users'' [] (given [(''limit'', limit)]) None"

definition create_user ::
  "(rat \<Rightarrow> string) \<Rightarrow> 'w client_session \<Rightarrow> pyval \<Rightarrow> pyval \<Rightarrow> pyval \<Rightarrow> pyval \<Rightarrow> ('w, pyval) effect" where
  "create_user fl s user_name user_password user_phone user_email =
     call_json fl s ''POST'' ''/graphspaces/{graphspace}/auth/users'' [] (Some (PyDict [(''user_name'', user_name),
        (''user_password'', user_password), (''user_phone'', user_phone), (''user_email'', user_email)]))"

definition delete_user ::
  "(rat \<Rightarrow> string) \<Rightarrow> 'w client_session \<Rightarrow> pyval \<Rightarrow> ('w, pyval) effect" where
  "delete_user fl s user_id =
     call_json fl s ''DELETE'' ''/graphspaces/{graphspace}/auth/users/{user_id}'' [(''user_id'', user_id)] None"

definition modify_user ::
  "(rat \<Rightarrow> string) \<Rightarrow> 'w client_session \<Rightarrow> pyval \<Rightarrow> pyval \<Rightarrow> pyval \<Rightarrow> pyval \<Rightarrow> pyval \<Rightarrow> ('w, pyval) effect" where
  "modify_user fl s user_id user_name user_password user_phone user_email =
     call_json fl s ''PUT'' ''/graphspaces/{graphspace}/auth/users/{user_id}'' [(''user_id'', user_id)]
        (Some (PyDict [(''user_name'', user_name), (''user_password'', user_password), (''user_phone'', user_phone),
        (''user_email'', user_email)]))"

definition get_user ::
  "(rat \<Rightarrow> string) \<Rightarrow> 'w client_session \<Rightarrow> pyval \<Rightarrow> ('w, pyval) effect" where
  "get_user fl s user_id =
     call_json fl s ''GET'' ''/graphspaces/{graphspace}/auth/users/{user_id}'' [(''user_id'', user_id)] None"

definition list_groups ::
  "(rat \<Rightarrow> string) \<Rightarrow> 'w client_session \<Rightarrow> pyval \<Rightarrow> ('w, pyval) effect" where
  "list_groups fl s limit =
     routed fl s JsonContent ''GET'' ''/auth/groups'' [] (given [(''limit'', limit)]) None"

definition create_group ::
  "(rat \<Rightarrow> string) \<Rightarrow> 'w client_session \<Rightarrow> pyval \<Rightarrow> pyval \<Rightarrow> ('w, pyval) effect" where
  "create_group fl s group_name group_description =
     call_json fl s ''POST'' ''/auth/groups'' [] (Some (PyDict [(''group_name'', group_name),
        (''group_description'', group_description)]))"

definition delete_group ::
  "(rat \<Rightarrow> string) \<Rightarrow> 'w client_session \<Rightarrow> pyval \<Rightarrow> ('w, pyval) effect" where
  "delete_group fl s group_id =
     call_json fl s ''DELETE'' ''/auth/groups/{group_id}'' [(''group_id'', group_id)] None"

definition modify_group ::
  "(rat \<Rightarrow> string) \<Rightarrow> 'w client_session \<Rightarrow> pyval \<Rightarrow> pyval \<Rightarrow> pyval \<Rightarrow> ('w, pyval) effect" where
  "modify_group fl s group_id group_name group_description =
     call_json fl s ''PUT'' ''/auth/groups/{group_id}'' [(''group_id'', group_id)]
        (Some (PyDict [(''group_name'', group_name), (''group_description'', group_description)]))"

definition get_group ::
  "(rat \<Rightarrow> string) \<Rightarrow> 'w client_session \<Rightarrow> pyval \<Rightarrow> ('w, pyval) effect" where
  "get_group fl s group_id =
     call_json fl s ''GET'' ''/auth/groups/{group_id}'' [(''group_id'', group_id)] None"

definition grant_accesses ::
  "(rat \<Rightarrow> string) \<Rightarrow> 'w client_session \<Rightarrow> pyval \<Rightarrow> pyval \<Rightarrow> pyval \<Rightarrow> ('w, pyval) effect" where
  "grant_accesses fl s group_id target_id access_permission =
     call_json fl s ''POST'' ''/graphspaces/{graphspace}/auth/accesses'' [] (Some (PyDict [(''group'', group_id),
        (''target'', target_id), (''access_permission'', access_permission)]))"

definition revoke_accesses ::
  "(rat \<Rightarrow> string) \<Rightarrow> 'w client_session \<Rightarrow> pyval \<Rightarrow> ('w, pyval) effect" where
  "revoke_accesses fl s access_id =
     call_json fl s ''DELETE'' ''/graphspaces/{graphspace}/auth/accesses/{access_id}'' [(''access_id'', access_id)] None"

definition modify_accesses ::
  "(rat \<Rightarrow> string) \<Rightarrow> 'w client_session \<Rightarrow> pyval \<Rightarrow> pyval \<Rightarrow> ('w, pyval) effect" where
  "modify_accesses fl s access_id access_description =
     call_json fl s ''PUT'' ''/graphspaces/{graphspace}/auth/accesses/{access_id}'' [(''access_id'', access_id)]
        (Some (PyDict [(''access_description'', access_description)]))"

definition get_accesses ::
  "(rat \<Rightarrow> string) \<Rightarrow> 'w client_session \<Rightarrow> pyval \<Rightarrow> ('w, pyval) effect" where
  "get_accesses fl s access_id =
     call_json fl s ''GET'' ''/graphspaces/{graphspace}/auth/accesses/{access_id}'' [(''access_id'', access_id)] None"

definition list_accesses ::
  "(rat \<Rightarrow> string) \<Rightarrow> 'w client_session \<Rightarrow> ('w, pyval) effect" where
  "list_accesses fl s =
     call_json fl s ''GET'' ''/graphspaces/{graphspace}/auth/accesses'' [] None"

definition create_target ::
  "(rat \<Rightarrow> string) \<Rightarrow> 'w client_session \<Rightarrow> pyval \<Rightarrow> pyval \<Rightarrow> pyval \<Rightarrow> pyval \<Rightarrow> ('w, pyval) effect" where
  "create_target fl s target_name target_graph target_url target_resources =
     call_json fl s ''POST'' ''/graphspaces/{graphspace}/auth/targets'' [] (Some (PyDict [(''target_name'', target_name),
        (''target_graph'', target_graph), (''target_url'', target_url), (''target_resources'', target_resources)]))"

definition delete_target ::
  "(rat \<Rightarrow> string) \<Rightarrow> 'w client_session \<Rightarrow> pyval \<Rightarrow> ('w, pyval) effect" where
  "delete_target fl s target_id =
     call_json fl s ''DELETE'' ''/graphspaces/{graphspace}/auth/targets/{target_id}'' [(''target_id'', target_id)] None"

definition update_target ::
  "(rat \<Rightarrow> string) \<Rightarrow> 'w client_session \<Rightarrow> pyval \<Rightarrow> pyval \<Rightarrow> pyval \<Rightarrow> pyval \<Rightarrow> pyval \<Rightarrow> ('w, pyval) effect" where
  "update_target fl s target_id target_name target_graph target_url target_resources =
     call_json fl s ''PUT'' ''/graphspaces/{graphspace}/auth/targets/{target_id}'' [(''target_id'', target_id)]
        (Some (PyDict [(''target_name'', target_name), (''target_graph'', target_graph), (''target_url'', target_url),
        (''target_resources'', target_resources)]))"

definition get_target ::
  "(rat \<Rightarrow> string) \<Rightarrow> 'w client_session \<Rightarrow> pyval \<Rightarrow> ('w, pyval) effect" where
  "get_target fl s target_id =
     call_json fl s ''GET'' ''/graphspaces/{graphspace}/auth/targets/{target_id}'' [(''target_id'', target_id)] None"

definition list_targets ::
  "(rat \<Rightarrow> string) \<Rightarrow> 'w client_session \<Rightarrow> ('w, pyval) effect" where
  "list_targets fl s =
     call_json fl s ''GET'' ''/graphspaces/{graphspace}/auth/targets'' [] None"

definition create_belong ::
  "(rat \<Rightarrow> string) \<Rightarrow> 'w client_session \<Rightarrow> pyval \<Rightarrow> pyval \<Rightarrow> ('w, pyval) effect" where
  "create_belong fl s user_id group_id =
     call_json fl s ''POST'' ''/graphspaces/{graphspace}/auth/belongs'' [] (Some (PyDict [(''user'', user_id),
        (''group'', group_id)]))"

definition delete_belong ::
  "(rat \<Rightarrow> string) \<Rightarrow> 'w client_session \<Rightarrow> pyval \<Rightarrow> ('w, pyval) effect" where
  "delete_belong fl s belong_id =
     call_json fl s ''DELETE'' ''/graphspaces/{graphspace}/auth/belongs/{belong_id}'' [(''belong_id'', belong_id)] None"

definition update_belong ::
  "(rat \<Rightarrow> string) \<Rightarrow> 'w client_session \<Rightarrow> pyval \<Rightarrow> pyval \<Rightarrow> ('w, pyval) effect" where
  "update_belong fl s belong_id description =
     call_json fl s ''PUT'' ''/graphspaces/{graphspace}/auth/belongs/{belong_id}'' [(''belong_id'', belong_id)]
        (Some (PyDict [(''belong_description'', description)]))"

definition get_belong ::
  "(rat \<Rightarrow> string) \<Rightarrow> 'w client_session \<Rightarrow> pyval \<Rightarrow> ('w, pyval) effect" where
  "get_belong fl s belong_id =
     call_json fl s ''GET'' ''/graphspaces/{graphspace}/auth/belongs/{belong_id}'' [(''belong_id'', belong_id)] None"

definition list_belongs ::
  "(rat \<Rightarrow> string) \<Rightarrow> 'w client_session \<Rightarrow> ('w, pyval) effect" where
  "list_belongs fl s =
     call_json fl s ''GET'' ''/graphspaces/{graphspace}/auth/belongs'' [] None"

section \<open>Graphs, tasks, variables, metrics\<close>

definition get_all_graphs ::
  "(rat \<Rightarrow> string) \<Rightarrow> 'w client_session \<Rightarrow> ('w, pyval) effect" where
  "get_all_graphs fl s =
     routed fl s TextContent ''GET'' ''/graphs'' [] [] None"

definition get_version ::
  "(rat \<Rightarrow> string) \<Rightarrow> 'w client_session \<Rightarrow> ('w, pyval) effect" where
  "get_version fl s =
     routed fl s TextContent ''GET'' ''/versions'' [] [] None"

definition get_graph_info ::
  "(rat \<Rightarrow> string) \<Rightarrow> 'w client_session \<Rightarrow> ('w, pyval) effect" where
  "get_graph_info fl s =
     routed fl s TextContent ''GET'' '''' [] [] None"

definition clear_graph_all_data :: "(rat \<Rightarrow> string) \<Rightarrow> 'w client_session \<Rightarrow> ('w, pyval) effect" where
  "clear_graph_all_data fl s =
     (let v = (case cc_version (cs_config s) of a # b # c # _ \<Rightarrow> (a, b, c) | _ \<Rightarrow> (0, 0, 0)) in
      if cc_gs_supported (cs_config s) \<and> \<not> version_less v (3, 0, 0)
      then client_request fl s TextContent ''PUT'' [] [] (Some (PyDict [(''action'', PyStr ''clear''),
        (''clear_schema'', PyBool True)]))
      else client_request fl s TextContent ''DELETE'' ''clear?confirm_message=I%27m+sure+to+delete+all+data'' [] None)"

definition get_graph_config ::
  "(rat \<Rightarrow> string) \<Rightarrow> 'w client_session \<Rightarrow> ('w, pyval) effect" where
  "get_graph_config fl s =
     routed fl s TextContent ''GET'' ''conf'' [] [] None"

definition list_tasks ::
  "(rat \<Rightarrow> string) \<Rightarrow> 'w client_session \<Rightarrow> pyval \<Rightarrow> pyval \<Rightarrow> ('w, pyval) effect" where
  "list_tasks fl s task_status limit =
     routed fl s JsonContent ''GET'' ''tasks'' [] (given [(''status'', task_status), (''limit'', limit)]) None"

definition get_task ::
  "(rat \<Rightarrow> string) \<Rightarrow> 'w client_session \<Rightarrow> pyval \<Rightarrow> ('w, pyval) effect" where
  "get_task fl s task_id =
     call_json fl s ''GET'' ''tasks/{task_id}'' [(''task_id'', task_id)] None"

definition delete_task ::
  "(rat \<Rightarrow> string) \<Rightarrow> 'w client_session \<Rightarrow> pyval \<Rightarrow> ('w, pyval) effect" where
  "delete_task fl s task_id =
     call_json fl s ''DELETE'' ''tasks/{task_id}'' [(''task_id'', task_id)] None"

definition cancel_task ::
  "(rat \<Rightarrow> string) \<Rightarrow> 'w client_session \<Rightarrow> pyval \<Rightarrow> ('w, pyval) effect" where
  "cancel_task fl s task_id =
     call_json fl s ''PUT'' ''tasks/{task_id}?action=cancel'' [(''task_id'', task_id)] None"

text \<open>\<open>set\<close>, \<open>get\<close>, \<open>all\<close> and \<open>remove\<close> of \<open>VariableManager\<close>.\<close>

definition set_variable ::
  "(rat \<Rightarrow> string) \<Rightarrow> 'w client_session \<Rightarrow> pyval \<Rightarrow> pyval \<Rightarrow> ('w, pyval) effect" where
  "set_variable fl s key v =
     call_json fl s ''PUT'' ''variables/{key}'' [(''key'', key)] (Some (PyDict [(''data'', v)]))"

definition get_variable ::
  "(rat \<Rightarrow> string) \<Rightarrow> 'w client_session \<Rightarrow> pyval \<Rightarrow> ('w, pyval) effect" where
  "get_variable fl s key =
     call_json fl s ''GET'' ''variables/{key}'' [(''key'', key)] None"

definition all_variables ::
  "(rat \<Rightarrow> string) \<Rightarrow> 'w client_session \<Rightarrow> ('w, pyval) effect" where
  "all_variables fl s =
     call_json fl s ''GET'' ''variables'' [] None"

definition remove_variable ::
  "(rat \<Rightarrow> string) \<Rightarrow> 'w client_session \<Rightarrow> pyval \<Rightarrow> ('w, pyval) effect" where
  "remove_variable fl s key =
     call_json fl s ''DELETE'' ''variables/{key}'' [(''key'', key)] None"

definition get_all_basic_metrics ::
  "(rat \<Rightarrow> string) \<Rightarrow> 'w client_session \<Rightarrow> ('w, pyval) effect" where
  "get_all_basic_metrics fl s =
     call_json fl s ''GET'' ''/metrics/?type=json'' [] None"

definition get_gauges_metrics ::
  "(rat \<Rightarrow> string) \<Rightarrow> 'w client_session \<Rightarrow> ('w, pyval) effect" where
  "get_gauges_metrics fl s =
     call_json fl s ''GET'' ''/metrics/gauges'' [] None"

definition get_counters_metrics ::
  "(rat \<Rightarrow> string) \<Rightarrow> 'w client_session \<Rightarrow> ('w, pyval) effect" where
  "get_counters_metrics fl s =
     call_json fl s ''GET'' ''/metrics/counters'' [] None"

definition get_histograms_metrics ::
  "(rat \<Rightarrow> string) \<Rightarrow> 'w client_session \<Rightarrow> ('w, pyval) effect" where
  "get_histograms_metrics fl s =
     call_json fl s ''GET'' ''/metrics/gauges'' [] None"

definition get_meters_metrics ::
  "(rat \<Rightarrow> string) \<Rightarrow> 'w client_session \<Rightarrow> ('w, pyval) effect" where
  "get_meters_metrics fl s =
     call_json fl s ''GET'' ''/metrics/meters'' [] None"

definition get_timers_metrics ::
  "(rat \<Rightarrow> string) \<Rightarrow> 'w client_session \<Rightarrow> ('w, pyval) effect" where
  "get_timers_metrics fl s =
     call_json fl s ''GET'' ''/metrics/timers'' [] None"

definition get_statistics_metrics ::
  "(rat \<Rightarrow> string) \<Rightarrow> 'w client_session \<Rightarrow> ('w, pyval) effect" where
  "get_statistics_metrics fl s =
     call_json fl s ''GET'' ''/metrics/statistics/?type=json'' [] None"

definition get_system_metrics ::
  "(rat \<Rightarrow> string) \<Rightarrow> 'w client_session \<Rightarrow> ('w, pyval) effect" where
  "get_system_metrics fl s =
     call_json fl s ''GET'' ''/metrics/system'' [] None"

definition get_backend_metrics ::
  "(rat \<Rightarrow> string) \<Rightarrow> 'w client_session \<Rightarrow> ('w, pyval) effect" where
  "get_backend_metrics fl s =
     call_json fl s ''GET'' ''/metrics/backend'' [] None"

definition server_version ::
  "(rat \<Rightarrow> string) \<Rightarrow> 'w client_session \<Rightarrow> ('w, pyval) effect" where
  "server_version fl s =
     call_json fl s ''GET'' ''/versions'' [] None"

definition rebuild_indexlabels ::
  "(rat \<Rightarrow> string) \<Rightarrow> 'w client_session \<Rightarrow> pyval \<Rightarrow> ('w, pyval) effect" where
  "rebuild_indexlabels fl s indexlabel =
     call_json fl s ''PUT'' ''jobs/rebuild/indexlabels/{indexlabel}'' [(''indexlabel'', indexlabel)] None"

definition rebuild_vertexlabels ::
  "(rat \<Rightarrow> string) \<Rightarrow> 'w client_session \<Rightarrow> pyval \<Rightarrow> ('w, pyval) effect" where
  "rebuild_vertexlabels fl s vertexlabel =
     call_json fl s ''PUT'' ''jobs/rebuild/vertexlabels/{vertexlabel}'' [(''vertexlabel'', vertexlabel)] None"

definition rebuild_edgelabels ::
  "(rat \<Rightarrow> string) \<Rightarrow> 'w client_session \<Rightarrow> pyval \<Rightarrow> ('w, pyval) effect" where
  "rebuild_edgelabels fl s edgelabel =
     call_json fl s ''PUT'' ''jobs/rebuild/edgelabels/{edgelabel}'' [(''edgelabel'', edgelabel)] None"

section \<open>Services\<close>

record service_parameters =
  sp_name :: string
  sp_description :: string
  sp_type :: string
  sp_count :: int
  sp_cpu_limit :: int
  sp_memory_limit :: int
  sp_storage_limit :: int
  sp_route_type :: "string option"
  sp_port :: "int option"
  sp_urls :: "string list"
  sp_deployment_type :: "string option"

text \<open>The parameters with the values they have when they are not given.\<close>

definition new_service :: "string \<Rightarrow> string \<Rightarrow> service_parameters" where
  "new_service name description =
     \<lparr>sp_name = name, sp_description = description, sp_type = ''OLTP'', sp_count = 1, sp_cpu_limit = 1, sp_memory_limit = 4,
      sp_storage_limit = 100, sp_route_type = None, sp_port = None, sp_urls = [], sp_deployment_type = None\<rparr>"

definition service_body :: "service_parameters \<Rightarrow> pydict" where
  "service_body p =
     [(''name'', PyStr (sp_name p)), (''description'', PyStr (sp_description p)), (''type'', PyStr (sp_type p)),
      (''count'', PyInt (sp_count p)), (''cpu_limit'', PyInt (sp_cpu_limit p)), (''memory_limit'', PyInt (sp_memory_limit p)),
      (''storage_limit'', PyInt (sp_storage_limit p)), (''route_type'', opt_str (sp_route_type p)), (''port'', opt_int (sp_port p)),
      (''urls'', PyList (map PyStr (sp_urls p))), (''deployment_type'', opt_str (sp_deployment_type p))]"

definition create_services ::
  "(rat \<Rightarrow> string) \<Rightarrow> 'w client_session \<Rightarrow> pyval \<Rightarrow> service_parameters \<Rightarrow> ('w, pyval) effect" where
  "create_services fl s graphspace p =
     call_json fl s ''POST'' ''/graphspaces/{graphspace}/services'' [(''graphspace'', graphspace)] (Some (PyDict (service_body p)))"

definition list_services ::
  "(rat \<Rightarrow> string) \<Rightarrow> 'w client_session \<Rightarrow> pyval \<Rightarrow> ('w, pyval) effect" where
  "list_services fl s graphspace =
     call_json fl s ''GET'' ''/graphspaces/{graphspace}/services'' [(''graphspace'', graphspace)] None"

definition get_service ::
  "(rat \<Rightarrow> string) \<Rightarrow> 'w client_session \<Rightarrow> pyval \<Rightarrow> pyval \<Rightarrow> ('w, pyval) effect" where
  "get_service fl s graphspace service =
     call_json fl s ''GET'' ''/graphspaces/{graphspace}/services/{service}'' [(''graphspace'', graphspace),
        (''service'', service)] None"

definition delete_service ::
  "(rat \<Rightarrow> string) \<Rightarrow> 'w client_session \<Rightarrow> pyval \<Rightarrow> pyval \<Rightarrow> ('w, pyval) effect" where
  "delete_service fl s graphspace service =
     client_request fl s JsonContent ''DELETE'' (''/graphspaces/'' @ py_str fl graphspace @ ''/services/'' @ py_str fl service @
       ''?confirm_message=I'' @ [CHR 0x27] @ ''m sure to delete the service'') [] None"

section \<open>Traversals\<close>

fun vertex_params :: "(string \<times> pyval) list \<Rightarrow> py_exception + (string \<times> pyval) list" where
  "vertex_params [] = Inr []"
| "vertex_params ((name, v) # ps) =
     and_then (id_path (format_vertex_id v)) (\<lambda>t. map_sum id (\<lambda>rest. (name, PyStr t) # rest) (vertex_params ps))"

definition get_with_vertex_ids ::
  "(rat \<Rightarrow> string) \<Rightarrow> 'w client_session \<Rightarrow> string \<Rightarrow> (string \<times> pyval) list \<Rightarrow> (string \<times> pyval) list \<Rightarrow> ('w, pyval) effect" where
  "get_with_vertex_ids fl s endpoint vertices query =
     effect_bind (effect_of (vertex_params vertices)) (\<lambda>params.
       client_request fl s JsonContent ''GET'' (endpoint @ ''?'' @ urlencode fl (params @ query)) [] None)"

definition k_out ::
  "(rat \<Rightarrow> string) \<Rightarrow> 'w client_session \<Rightarrow> pyval \<Rightarrow> pyval \<Rightarrow> ('w, pyval) effect" where
  "k_out fl s source_id max_depth =
     get_with_vertex_ids fl s ''traversers/kout'' [(''source'', source_id)] [(''max_depth'', max_depth)]"

definition k_neighbor ::
  "(rat \<Rightarrow> string) \<Rightarrow> 'w client_session \<Rightarrow> pyval \<Rightarrow> pyval \<Rightarrow> ('w, pyval) effect" where
  "k_neighbor fl s source_id max_depth =
     get_with_vertex_ids fl s ''traversers/kneighbor'' [(''source'', source_id)] [(''max_depth'', max_depth)]"

definition same_neighbors ::
  "(rat \<Rightarrow> string) \<Rightarrow> 'w client_session \<Rightarrow> pyval \<Rightarrow> pyval \<Rightarrow> ('w, pyval) effect" where
  "same_neighbors fl s vertex_id other_id =
     get_with_vertex_ids fl s ''traversers/sameneighbors'' [(''vertex'', vertex_id), (''other'', other_id)] []"

definition jaccard_similarity ::
  "(rat \<Rightarrow> string) \<Rightarrow> 'w client_session \<Rightarrow> pyval \<Rightarrow> pyval \<Rightarrow> ('w, pyval) effect" where
  "jaccard_similarity fl s vertex_id other_id =
     get_with_vertex_ids fl s ''traversers/jaccardsimilarity'' [(''vertex'', vertex_id), (''other'', other_id)] []"

definition shortest_path ::
  "(rat \<Rightarrow> string) \<Rightarrow> 'w client_session \<Rightarrow> pyval \<Rightarrow> pyval \<Rightarrow> pyval \<Rightarrow> ('w, pyval) effect" where
  "shortest_path fl s source_id target_id max_depth =
     get_with_vertex_ids fl s ''traversers/shortestpath'' [(''source'', source_id),
        (''target'', target_id)] [(''max_depth'', max_depth)]"

definition all_shortest_paths ::
  "(rat \<Rightarrow> string) \<Rightarrow> 'w client_session \<Rightarrow> pyval \<Rightarrow> pyval \<Rightarrow> pyval \<Rightarrow> ('w, pyval) effect" where
  "all_shortest_paths fl s source_id target_id max_depth =
     get_with_vertex_ids fl s ''traversers/allshortestpaths'' [(''source'', source_id),
        (''target'', target_id)] [(''max_depth'', max_depth)]"

definition weighted_shortest_path ::
  "(rat \<Rightarrow> string) \<Rightarrow> 'w client_session \<Rightarrow> pyval \<Rightarrow> pyval \<Rightarrow> pyval \<Rightarrow> pyval \<Rightarrow> ('w, pyval) effect" where
  "weighted_shortest_path fl s source_id target_id weight max_depth =
     get_with_vertex_ids fl s ''traversers/weightedshortestpath'' [(''source'', source_id),
        (''target'', target_id)] [(''weight'', weight), (''max_depth'', max_depth)]"

definition single_source_shortest_path ::
  "(rat \<Rightarrow> string) \<Rightarrow> 'w client_session \<Rightarrow> pyval \<Rightarrow> pyval \<Rightarrow> ('w, pyval) effect" where
  "single_source_shortest_path fl s source_id max_depth =
     get_with_vertex_ids fl s ''traversers/singlesourceshortestpath'' [(''source'', source_id)] [(''max_depth'', max_depth)]"

definition multi_node_shortest_path ::
  "(rat \<Rightarrow> string) \<Rightarrow> 'w client_session \<Rightarrow> pyval \<Rightarrow> pyval \<Rightarrow> pyval \<Rightarrow> pyval \<Rightarrow> pyval \<Rightarrow> pyval \<Rightarrow> ('w, pyval) effect" where
  "multi_node_shortest_path fl s vertices direction properties max_depth capacity with_vertex =
     call_json fl s ''POST'' ''traversers/multinodeshortestpath'' [] (Some (PyDict
       [(''vertices'', PyDict [(''ids'', vertices)]),
        (''step'', PyDict [(''direction'', direction), (''properties'', if properties = PyNone then PyDict [] else properties)]),
        (''max_depth'', max_depth), (''capacity'', capacity), (''with_vertex'', with_vertex)]))"

definition paths_between ::
  "(rat \<Rightarrow> string) \<Rightarrow> 'w client_session \<Rightarrow> pyval \<Rightarrow> pyval \<Rightarrow> pyval \<Rightarrow> ('w, pyval) effect" where
  "paths_between fl s source_id target_id max_depth =
     get_with_vertex_ids fl s ''traversers/paths'' [(''source'', source_id), (''target'', target_id)] [(''max_depth'', max_depth)]"

definition advanced_paths ::
  "(rat \<Rightarrow> string) \<Rightarrow> 'w client_session \<Rightarrow> pyval \<Rightarrow> pyval \<Rightarrow> pyval \<Rightarrow> pyval \<Rightarrow> pyval \<Rightarrow> pyval \<Rightarrow> pyval \<Rightarrow> pyval \<Rightarrow> ('w, pyval) effect" where
  "advanced_paths fl s sources targets step max_depth nearest capacity limit with_vertex =
     call_json fl s ''POST'' ''traversers/paths'' [] (Some (PyDict [(''sources'', sources), (''targets'', targets),
        (''step'', step), (''max_depth'', max_depth), (''nearest'', nearest), (''capacity'', capacity), (''limit'', limit),
        (''with_vertex'', with_vertex)]))"

definition customized_paths ::
  "(rat \<Rightarrow> string) \<Rightarrow> 'w client_session \<Rightarrow> pyval \<Rightarrow> pyval \<Rightarrow> pyval \<Rightarrow> pyval \<Rightarrow> pyval \<Rightarrow> pyval \<Rightarrow> ('w, pyval) effect" where
  "customized_paths fl s sources steps sort_by with_vertex capacity limit =
     call_json fl s ''POST'' ''traversers/customizedpaths'' [] (Some (PyDict [(''sources'', sources), (''steps'', steps),
        (''sort_by'', sort_by), (''with_vertex'', with_vertex), (''capacity'', capacity), (''limit'', limit)]))"

definition template_paths ::
  "(rat \<Rightarrow> string) \<Rightarrow> 'w client_session \<Rightarrow> pyval \<Rightarrow> pyval \<Rightarrow> pyval \<Rightarrow> pyval \<Rightarrow> pyval \<Rightarrow> pyval \<Rightarrow> ('w, pyval) effect" where
  "template_paths fl s sources targets steps capacity limit with_vertex =
     call_json fl s ''POST'' ''traversers/templatepaths'' [] (Some (PyDict [(''sources'', sources), (''targets'', targets),
        (''steps'', steps), (''capacity'', capacity), (''limit'', limit), (''with_vertex'', with_vertex)]))"

definition crosspoints ::
  "(rat \<Rightarrow> string) \<Rightarrow> 'w client_session \<Rightarrow> pyval \<Rightarrow> pyval \<Rightarrow> pyval \<Rightarrow> ('w, pyval) effect" where
  "crosspoints fl s source_id target_id max_depth =
     get_with_vertex_ids fl s ''traversers/crosspoints'' [(''source'', source_id),
        (''target'', target_id)] [(''max_depth'', max_depth)]"

definition customized_crosspoints ::
  "(rat \<Rightarrow> string) \<Rightarrow> 'w client_session \<Rightarrow> pyval \<Rightarrow> pyval \<Rightarrow> pyval \<Rightarrow> pyval \<Rightarrow> pyval \<Rightarrow> pyval \<Rightarrow> ('w, pyval) effect" where
  "customized_crosspoints fl s sources path_patterns with_path with_vertex capacity limit =
     call_json fl s ''POST'' ''traversers/customizedcrosspoints'' [] (Some (PyDict [(''sources'', sources),
        (''path_patterns'', path_patterns), (''with_path'', with_path), (''with_vertex'', with_vertex),
        (''capacity'', capacity), (''limit'', limit)]))"

definition rings ::
  "(rat \<Rightarrow> string) \<Rightarrow> 'w client_session \<Rightarrow> pyval \<Rightarrow> pyval \<Rightarrow> ('w, pyval) effect" where
  "rings fl s source_id max_depth =
     get_with_vertex_ids fl s ''traversers/rings'' [(''source'', source_id)] [(''max_depth'', max_depth)]"

definition rays ::
  "(rat \<Rightarrow> string) \<Rightarrow> 'w client_session \<Rightarrow> pyval \<Rightarrow> pyval \<Rightarrow> ('w, pyval) effect" where
  "rays fl s source_id max_depth =
     get_with_vertex_ids fl s ''traversers/rays'' [(''source'', source_id)] [(''max_depth'', max_depth)]"

definition fusiform_similarity ::
  "(rat \<Rightarrow> string) \<Rightarrow> 'w client_session \<Rightarrow> pyval \<Rightarrow> pyval \<Rightarrow> pyval \<Rightarrow> pyval \<Rightarrow> pyval \<Rightarrow> pyval \<Rightarrow> pyval \<Rightarrow> pyval \<Rightarrow> pyval \<Rightarrow> pyval \<Rightarrow> pyval \<Rightarrow> pyval \<Rightarrow> pyval \<Rightarrow> pyval \<Rightarrow> ('w, pyval) effect" where
  "fusiform_similarity fl s sources label direction min_neighbors alpha min_similars top_n group_property min_groups max_degree capacity limit with_intermediary with_vertex =
     call_json fl s ''POST'' ''traversers/fusiformsimilarity'' [] (Some (PyDict
       [(''sources'', sources), (''label'', label), (''direction'', direction), (''min_neighbors'', min_neighbors),
        (''alpha'', alpha), (''min_similars'', min_similars), (''top'', top_n), (''group_property'', group_property),
        (''min_groups'', min_groups), (''max_degree'', max_degree), (''capacity'', capacity), (''limit'', limit),
        (''with_intermediary'', with_intermediary), (''with_vertex'', with_vertex)]))"

definition vertices_by_ids :: "(rat \<Rightarrow> string) \<Rightarrow> 'w client_session \<Rightarrow> pyval \<Rightarrow> ('w, pyval) effect" where
  "vertices_by_ids fl s ids =
     effect_bind (effect_of (id_path (format_vertex_id ids))) (\<lambda>t.
       routed fl s JsonContent ''GET'' ''traversers/vertices'' [] [(''ids'', PyStr t)] None)"

definition edges_by_ids ::
  "(rat \<Rightarrow> string) \<Rightarrow> 'w client_session \<Rightarrow> pyval \<Rightarrow> ('w, pyval) effect" where
  "edges_by_ids fl s ids =
     routed fl s JsonContent ''GET'' ''traversers/edges'' [] [(''ids'', ids)] None"

section \<open>Ranks\<close>

record neighbor_rank_step =
  ns_direction :: string
  ns_labels :: "string list"
  ns_max_degree :: int
  ns_top :: int

record neighbor_rank_parameters =
  nr_source :: pyval
  nr_label :: string
  nr_alpha :: rat
  nr_capacity :: int
  nr_steps :: "neighbor_rank_step list"

record personal_rank_parameters =
  pr_source :: pyval
  pr_label :: string
  pr_alpha :: rat
  pr_max_degree :: int
  pr_max_depth :: int
  pr_limit :: int
  pr_max_diff :: rat
  pr_sorted :: bool
  pr_with_label :: string

definition rank_step_body :: "neighbor_rank_step \<Rightarrow> pydict" where
  "rank_step_body p =
     [(''direction'', PyStr (ns_direction p)), (''labels'', PyList (map PyStr (ns_labels p))),
        (''max_degree'', PyInt (ns_max_degree p)),
      (''top'', PyInt (ns_top p))]"

definition neighbor_rank_body :: "neighbor_rank_parameters \<Rightarrow> pydict" where
  "neighbor_rank_body p =
     [(''source'', nr_source p), (''label'', PyStr (nr_label p)), (''alpha'', PyFloat (Finite (nr_alpha p))),
      (''capacity'', PyInt (nr_capacity p)), (''steps'', PyList (map (\<lambda>x. PyDict (rank_step_body x)) (nr_steps p)))]"

definition personal_rank_body :: "personal_rank_parameters \<Rightarrow> pydict" where
  "personal_rank_body p =
     [(''source'', pr_source p), (''label'', PyStr (pr_label p)), (''alpha'', PyFloat (Finite (pr_alpha p))),
      (''max_degree'', PyInt (pr_max_degree p)), (''max_depth'', PyInt (pr_max_depth p)), (''limit'', PyInt (pr_limit p)),
      (''max_diff'', PyFloat (Finite (pr_max_diff p))), (''sorted'', PyBool (pr_sorted p)),
        (''with_label'', PyStr (pr_with_label p))]"

definition personal_rank ::
  "(rat \<Rightarrow> string) \<Rightarrow> 'w client_session \<Rightarrow> personal_rank_parameters \<Rightarrow> ('w, pyval) effect" where
  "personal_rank fl s p = call_json fl s ''POST'' ''traversers/personalrank'' [] (Some (PyDict (personal_rank_body p)))"

definition neighbor_rank ::
  "(rat \<Rightarrow> string) \<Rightarrow> 'w client_session \<Rightarrow> neighbor_rank_parameters \<Rightarrow> ('w, pyval) effect" where
  "neighbor_rank fl s p = call_json fl s ''POST'' ''traversers/neighborrank'' [] (Some (PyDict (neighbor_rank_body p)))"

section \<open>Gremlin\<close>

definition gremlin_aliases :: "client_config \<Rightarrow> pydict" where
  "gremlin_aliases cfg =
     (let graph = (if cc_gs_supported cfg then optional_text (cc_graphspace cfg) @ ''-'' @ cc_graph_name cfg else cc_graph_name cfg)
      in [(''graph'', PyStr graph), (''g'', PyStr (''__g_'' @ graph))])"

definition gremlin_body :: "client_config \<Rightarrow> pyval \<Rightarrow> pydict" where
  "gremlin_body cfg gremlin =
     filter (\<lambda>(k, v). v \<noteq> PyNone)
       [(''gremlin'', gremlin), (''bindings'', PyDict []), (''language'', PyStr ''gremlin-groovy''),
        (''aliases'', PyDict (gremlin_aliases cfg))]"

definition gremlin_result :: "(rat \<Rightarrow> string) \<Rightarrow> pyval \<Rightarrow> py_exception + pyval" where
  "gremlin_result fl response =
     (if response = PyNone then Inr PyNone
      else case response of
        PyDict d \<Rightarrow>
          (case (map_of d ''requestId'', map_of d ''status'', map_of d ''result'') of
             (Some _, Some _, Some result) \<Rightarrow> Inr result
           | _ \<Rightarrow> Inl (RaisesNamed ''ResponseParseError'' (''Invalid Gremlin response payload: '' @ py_str fl response)))
      | _ \<Rightarrow> Inl (RaisesNamed ''ResponseParseError'' (''Invalid Gremlin response payload: '' @ py_str fl response)))"

text \<open>\<open>GremlinManager.exec\<close>\<close>

definition exec_gremlin :: "(rat \<Rightarrow> string) \<Rightarrow> 'w client_session \<Rightarrow> pyval \<Rightarrow> ('w, pyval) effect" where
  "exec_gremlin fl s gremlin =
     effect_bind (call_json fl s ''POST'' ''/gremlin'' [] (Some (PyDict (gremlin_body (cs_config s) gremlin))))
       (\<lambda>response. effect_of (gremlin_result fl response))"

end
