(* ===== verification/Client_Properties.thy ===== *)
theory Client_Properties
  imports Client_Session
begin

text \<open>
  Which servers a client accepts, which path a route takes, and where a request goes: the URL of a vertex
  or an edge is its collection and one segment, whatever the identifier is, while an argument of a route
  can move a request to another resource.
\<close>

section \<open>Clean paths\<close>

text \<open>A segment without separators that is not a dot segment.\<close>

definition clean_segment :: "string \<Rightarrow> bool" where
  "clean_segment s \<longleftrightarrow> s \<noteq> [] \<and> list_all segment_char s \<and> s \<notin> {''.'', ''..''}"

definition slashed :: "string list \<Rightarrow> string" where
  "slashed segs = concat (map (\<lambda>s. s @ ''/'') segs)"

lemma slashed_append [simp]: "slashed (xs @ ys) = slashed xs @ slashed ys"
  by (simp add: slashed_def)

lemma slashed_simps [simp]: "slashed [] = []" "slashed (s # segs) = s @ ''/'' @ slashed segs"
  by (simp_all add: slashed_def)

lemma split_on_piece: "c \<notin> set s \<Longrightarrow> split_on c s = [s]"
  by (induction s) auto

lemma split_on_Cons: "c \<notin> set s \<Longrightarrow> split_on c (s @ c # rest) = s # split_on c rest"
  by (induction s) auto

lemma split_slashed:
  "list_all (\<lambda>s. CHR ''/'' \<notin> set s) segs \<Longrightarrow> CHR ''/'' \<notin> set l \<Longrightarrow> split_on (CHR ''/'') (slashed segs @ l) = segs @ [l]"
  by (induction segs) (simp_all add: split_on_piece split_on_Cons)

lemma join_slashed: "join ''/'' (segs @ [l]) = slashed segs @ l"
proof (induction segs)
  case (Cons s segs)
  then show ?case by (cases segs) simp_all
qed simp

text \<open>The characters of clean paths.\<close>

lemma segment_char_plain:
  "segment_char c \<Longrightarrow> c \<noteq> CHR ''/'' \<and> c \<noteq> CHR '':'' \<and> c \<noteq> CHR ''?'' \<and> c \<noteq> CHR ''#'' \<and> c \<noteq> CHR '';'' \<and> 32 < code_point c"
  by (auto simp: segment_char_def always_safe_def code_point_def)

definition path_char :: "char \<Rightarrow> bool" where
  "path_char c \<longleftrightarrow> segment_char c \<or> c = CHR ''/''"

lemma path_char_plain:
  "path_char c \<Longrightarrow> c \<noteq> CHR '':'' \<and> c \<noteq> CHR ''?'' \<and> c \<noteq> CHR ''#'' \<and> c \<noteq> CHR '';'' \<and> 32 < code_point c"
  using segment_char_plain [of c] by (auto simp: path_char_def code_point_def)

lemma slashed_chars: "list_all (list_all segment_char) segs \<Longrightarrow> list_all path_char (slashed segs)"
  by (induction segs) (auto simp: path_char_def list_all_iff)

lemma clean_chars: "clean_segment s \<Longrightarrow> list_all segment_char s"
  by (simp add: clean_segment_def)

lemma segment_no_slash: "list_all segment_char s \<Longrightarrow> CHR ''/'' \<notin> set s"
  using segment_char_plain by (fastforce simp: list_all_iff)

section \<open>Joining a clean path\<close>

lemma url_text_plain: "list_all (\<lambda>c. 32 < code_point c) s \<Longrightarrow> url_text s = s"
proof -
  assume plain: "list_all (\<lambda>c. 32 < code_point c) s"
  then have "dropWhile (\<lambda>c. code_point c \<le> 32) s = s" by (cases s) auto
  moreover have "filter (\<lambda>c. c \<notin> {CHR 0x09, CHR 0x0A, CHR 0x0D}) s = s"
    using plain by (intro filter_True) (auto simp: list_all_iff code_point_def)
  ultimately show ?thesis by (simp add: url_text_def)
qed

lemma split_at_absent: "c \<notin> set s \<Longrightarrow> split_at c s = (s, [])"
proof -
  assume "c \<notin> set s"
  then have "dropWhile (\<lambda>x. x \<noteq> c) s = []" "takeWhile (\<lambda>x. x \<noteq> c) s = s"
    by (auto simp: dropWhile_eq_Nil_conv takeWhile_eq_all_conv)
  then show "split_at c s = (s, [])" by (simp only: split_at_def drop_Nil)
qed

lemma split_params_absent: "CHR '';'' \<notin> set path \<Longrightarrow> split_params scheme path = (path, [])"
proof -
  have "set (last_segment path) \<subseteq> set path" by (auto simp: last_segment_def dest: set_takeWhileD)
  then show "CHR '';'' \<notin> set path \<Longrightarrow> ?thesis" by (auto simp: split_params_def Let_def)
qed

lemma parse_reference:
  assumes "list_all path_char p" "take 2 p \<noteq> ''//''"
  shows "url_parse scheme p = \<lparr>up_scheme = scheme, up_netloc = [], up_path = p, up_params = [], up_query = [], up_fragment = []\<rparr>"
proof -
  have chars: "32 < code_point c" "c \<noteq> CHR '':''" "c \<noteq> CHR ''#''" "c \<noteq> CHR ''?''" "c \<noteq> CHR '';''" if "c \<in> set p" for c
    using path_char_plain [of c] assms(1) that by (auto simp: list_all_iff)
  have "url_text p = p" using chars(1) by (intro url_text_plain) (auto simp: list_all_iff)
  moreover have "CHR '':'' \<notin> set p" "CHR ''#'' \<notin> set p" "CHR ''?'' \<notin> set p" "CHR '';'' \<notin> set p"
    using chars by fast+
  ultimately show ?thesis
    using assms(2) by (simp add: url_parse_def url_scheme_def split_at_absent split_params_absent Let_def)
qed

definition host_char :: "char \<Rightarrow> bool" where
  "host_char c \<longleftrightarrow> segment_char c \<or> c = CHR '':''"

lemma takeWhile_until: "c \<notin> set s \<Longrightarrow> takeWhile (\<lambda>x. x \<noteq> c) (s @ c # r) = s"
  by (subst takeWhile_append2) auto

definition web_scheme :: "string \<Rightarrow> bool" where
  "web_scheme s \<longleftrightarrow>
     CHR '':'' \<notin> set s \<and> list_all scheme_char s \<and> url_letter (hd s) \<and> s \<noteq> [] \<and> py_lower s = s \<and> list_all (\<lambda>c. 32 < code_point c) s \<and>
     s \<in> set uses_relative \<and> take 1 s \<noteq> ''/''"

lemma web_schemes: "web_scheme ''http''" "web_scheme ''https''"
  by code_simp+

text \<open>The text of a base URL: scheme, host and clean segments.\<close>

definition base_text :: "string \<Rightarrow> string \<Rightarrow> string list \<Rightarrow> string" where
  "base_text sch host pre = sch @ ''://'' @ host @ ''/'' @ slashed pre"

definition good_base :: "string \<Rightarrow> string \<Rightarrow> string list \<Rightarrow> bool" where
  "good_base sch host pre \<longleftrightarrow>
     web_scheme sch \<and> host \<noteq> [] \<and> list_all host_char host \<and> list_all clean_segment pre"

lemma parse_base:
  assumes "good_base sch host pre"
  shows "url_parse [] (base_text sch host pre) =
    \<lparr>up_scheme = sch, up_netloc = host, up_path = ''/'' @ slashed pre, up_params = [], up_query = [], up_fragment = []\<rparr>"
proof -
  have sch: "web_scheme sch" and host: "list_all host_char host" and pre: "list_all clean_segment pre"
    using assms by (simp_all add: good_base_def)
  note web = sch [unfolded web_scheme_def]
  have path: "list_all path_char (''/'' @ slashed pre)"
    using slashed_chars pre by (auto simp: path_char_def clean_segment_def list_all_iff)
  have chars: "c \<noteq> CHR ''#'' \<and> c \<noteq> CHR ''?'' \<and> c \<noteq> CHR '';'' \<and> 32 < code_point c" if "c \<in> set (''/'' @ slashed pre)" for c
    using path_char_plain [of c] path that by (auto simp: list_all_iff)
  have colon: "CHR '':'' \<noteq> CHR ''/'' \<and> CHR '':'' \<noteq> CHR ''?'' \<and> CHR '':'' \<noteq> CHR ''#'' \<and> 32 < code_point (CHR '':'')" by code_simp
  have hchars: "c \<noteq> CHR ''/'' \<and> c \<noteq> CHR ''?'' \<and> c \<noteq> CHR ''#'' \<and> 32 < code_point c" if "c \<in> set host" for c
    using segment_char_plain [of c] host that colon unfolding list_all_iff host_char_def by blast
  have "list_all (\<lambda>c. 32 < code_point c) ''://''" by code_simp
  moreover have "list_all (\<lambda>c. 32 < code_point c) host" "list_all (\<lambda>c. 32 < code_point c) (''/'' @ slashed pre)"
    using chars hchars unfolding list_all_iff by blast+
  ultimately have "list_all (\<lambda>c. 32 < code_point c) (base_text sch host pre)"
    unfolding base_text_def list_all_append using web by blast
  then have plain: "url_text (base_text sch host pre) = base_text sch host pre" by (rule url_text_plain)
  have scheme: "url_scheme (base_text sch host pre) = Some sch"
    using web takeWhile_until [OF conjunct1 [OF web], of "''//'' @ host @ ''/'' @ slashed pre"]
    by (simp add: url_scheme_def base_text_def hd_append)
  have rest: "drop (Suc (length sch)) (base_text sch host pre) = ''//'' @ host @ ''/'' @ slashed pre"
    by (simp add: base_text_def)
  have netloc: "takeWhile (\<lambda>c. c \<notin> {CHR ''/'', CHR ''?'', CHR ''#''}) (host @ ''/'' @ slashed pre) = host"
    using hchars by (subst takeWhile_append2) auto
  have path: "drop (2 + length host) (''//'' @ host @ ''/'' @ slashed pre) = ''/'' @ slashed pre" by simp
  have "CHR ''#'' \<notin> set (''/'' @ slashed pre)" "CHR ''?'' \<notin> set (''/'' @ slashed pre)" "CHR '';'' \<notin> set (''/'' @ slashed pre)"
    using chars by blast+
  then have splits: "split_at (CHR ''#'') (''/'' @ slashed pre) = (''/'' @ slashed pre, [])"
      "split_at (CHR ''?'') (''/'' @ slashed pre) = (''/'' @ slashed pre, [])"
      "split_params sch (''/'' @ slashed pre) = (''/'' @ slashed pre, [])"
    by (simp_all only: split_at_absent split_params_absent not_False_eq_True)
  have drop2: "take 2 (''//'' @ host @ ''/'' @ slashed pre) = ''//''" "drop 2 (''//'' @ host @ ''/'' @ slashed pre) = host @ ''/'' @ slashed pre"
    by simp_all
  have lower: "py_lower sch = sch" using web by blast
  show ?thesis
    unfolding url_parse_def plain scheme Let_def option.case rest drop2 lower simp_thms if_True netloc path splits prod.case ..
qed

lemma walk_clean: "list_all (\<lambda>s. s \<notin> {''.'', ''..''}) segs \<Longrightarrow> foldl walk_segment walked segs = walked @ segs"
  by (induction segs arbitrary: walked) (auto simp: walk_segment_def)

lemma head_not_slash:
  assumes "list_all clean_segment cs" "l = [] \<or> clean_segment l" "slashed cs @ l \<noteq> []"
  shows "\<exists>c r. slashed cs @ l = c # r \<and> c \<noteq> CHR ''/''"
proof -
  have clean: "\<exists>c r. s = c # r \<and> c \<noteq> CHR ''/''" if "clean_segment s" for s
    using that segment_char_plain by (cases s) (auto simp: clean_segment_def)
  show ?thesis
  proof (cases cs)
    case Nil
    then show ?thesis using assms clean [of l] by auto
  next
    case (Cons s segs)
    then show ?thesis using assms(1) clean [of s] by auto
  qed
qed

lemma resolved_clean:
  assumes "list_all clean_segment pre" "list_all clean_segment cs" "l = [] \<or> clean_segment l" "slashed cs @ l \<noteq> []"
  shows "resolved_path (''/'' @ slashed pre) (slashed cs @ l) = ''/'' @ slashed pre @ slashed cs @ l"
proof -
  have no_slash: "list_all (\<lambda>s. CHR ''/'' \<notin> set s) pre" "list_all (\<lambda>s. CHR ''/'' \<notin> set s) cs" "CHR ''/'' \<notin> set l"
    using assms segment_no_slash by (auto simp: clean_segment_def list_all_iff)
  have base: "split_on (CHR ''/'') (''/'' @ slashed pre) = [] # pre @ [[]]"
    using split_slashed [OF no_slash(1), of "[]"] by simp
  have ref: "split_on (CHR ''/'') (slashed cs @ l) = cs @ [l]"
    by (rule split_slashed [OF no_slash(2,3)])
  obtain c r where start: "slashed cs @ l = c # r" "c \<noteq> CHR ''/''" using head_not_slash [OF assms(2-4)] by auto
  have head: "(take 1 (slashed cs @ l) = ''/'') = False"
    unfolding start(1) using start(2) by simp
  have squeezed: "squeeze (([] # pre @ [[]]) @ cs @ [l]) = [] # pre @ cs @ [l]"
    using assms(1,2) by (auto simp: squeeze_def clean_segment_def list_all_iff butlast_append intro!: filter_True)
  have walked: "foldl walk_segment [] ([] # pre @ cs @ [l]) = [] # pre @ cs @ [l]"
    using assms(1,2,3) by (subst walk_clean) (auto simp: clean_segment_def list_all_iff)
  have last_ones: "(last ([] # pre @ [[]]) = []) = True" "(last ([] # pre @ cs @ [l]) \<in> {''.'', ''..''}) = False"
    using assms(3) by (auto simp: clean_segment_def)
  have joined: "join ''/'' ([] # pre @ cs @ [l]) = ''/'' @ slashed pre @ slashed cs @ l"
    using join_slashed [of "[] # pre @ cs" l] by simp
  have not_empty: "(''/'' @ slashed pre @ slashed cs @ l = []) = False" by simp
  show ?thesis
    unfolding resolved_path_def Let_def base ref last_ones if_True head if_False squeezed walked append_Nil2 joined not_empty ..
qed

lemma join_clean:
  assumes "good_base sch host pre" "list_all clean_segment cs" "l = [] \<or> clean_segment l" "slashed cs @ l \<noteq> []"
  shows "urljoin (base_text sch host pre) (slashed cs @ l) = base_text sch host pre @ slashed cs @ l"
proof -
  have chars: "list_all path_char (slashed cs @ l)"
    using assms(2,3) slashed_chars [of cs] by (auto simp: path_char_def clean_segment_def list_all_iff)
  obtain c r where start: "slashed cs @ l = c # r" "c \<noteq> CHR ''/''" using head_not_slash [OF assms(2-4)] by auto
  have "take 2 (slashed cs @ l) \<noteq> ''//''"
    unfolding start(1) using start(2) by simp
  note ref = parse_reference [OF chars this]
  have pre: "list_all clean_segment pre" and sch: "web_scheme sch" and host: "host \<noteq> []"
    using assms(1) by (simp_all add: good_base_def)
  note web = sch [unfolded web_scheme_def]
  have base: "base_text sch host pre \<noteq> []" using web by (simp add: base_text_def)
  have flags: "(base_text sch host pre = []) = False" "(slashed cs @ l = []) = False" "(host \<noteq> []) = True"
      "(sch \<noteq> sch) = False" "(sch \<notin> set uses_relative) = False" "([] \<noteq> []) = False"
    using base assms(4) host web by blast+
  show ?thesis
    unfolding urljoin_def flags if_False Let_def parse_base [OF assms(1)] ref url_parts.select_convs url_parts.update_convs
      simp_thms resolved_clean [OF pre assms(2-4)] url_unparse_def
    using web by (simp add: base_text_def)
qed

section \<open>The URL of a vertex or an edge\<close>

text \<open>A configuration whose URL, graphspace and graph are made of clean segments.\<close>

definition graph_root :: "client_config \<Rightarrow> string list" where
  "graph_root cfg =
     (if cc_gs_supported cfg then [''graphspaces'', optional_text (cc_graphspace cfg), ''graphs'', cc_graph_name cfg]
      else [''graphs'', cc_graph_name cfg])"

definition clean_config :: "client_config \<Rightarrow> string \<Rightarrow> string \<Rightarrow> string list \<Rightarrow> bool" where
  "clean_config cfg sch host pre \<longleftrightarrow>
     good_base sch host pre \<and> cc_url cfg @ ''/'' = base_text sch host pre \<and> list_all clean_segment (graph_root cfg)"

lemma graph_base_clean:
  assumes "clean_config cfg sch host pre"
  shows "graph_base cfg = base_text sch host (pre @ graph_root cfg)" "good_base sch host (pre @ graph_root cfg)"
proof -
  have root: "list_all clean_segment (graph_root cfg)" "slashed (graph_root cfg) @ [] \<noteq> []"
    using assms by (auto simp: clean_config_def graph_root_def)
  have "graph_base cfg = urljoin (base_text sch host pre) (slashed (graph_root cfg) @ [])"
    using assms by (simp add: graph_base_def clean_config_def graph_root_def)
  then show "graph_base cfg = base_text sch host (pre @ graph_root cfg)"
    using join_clean [of sch host pre "graph_root cfg" "[]"] root assms by (simp add: clean_config_def base_text_def)
  show "good_base sch host (pre @ graph_root cfg)"
    using assms by (simp add: clean_config_def good_base_def)
qed

lemma strip_slashes_plain:
  assumes "s \<noteq> []" "hd s \<noteq> CHR ''/''" "last s \<noteq> CHR ''/''"
  shows "strip_slashes s = s"
proof -
  have "dropWhile (\<lambda>c. c = CHR ''/'') s = s" using assms(1,2) by (cases s) auto
  moreover have "dropWhile (\<lambda>c. c = CHR ''/'') (rev s) = rev s"
    using assms(1,3) by (cases "rev s") (auto simp: last_rev [symmetric] dest: rev_eq_Cons_iff [THEN iffD1])
  ultimately show ?thesis by (simp add: strip_slashes_def)
qed

lemma resolve_clean:
  assumes "clean_config cfg sch host pre" "list_all clean_segment cs" "clean_segment l"
  shows "resolve cfg (slashed cs @ l) = graph_base cfg @ slashed cs @ l"
proof -
  have l: "l \<noteq> []" "CHR ''/'' \<notin> set l" using assms(3) segment_no_slash by (auto simp: clean_segment_def)
  then have last: "last l \<noteq> CHR ''/''" using last_in_set by metis
  have sch: "web_scheme sch" using assms(1) by (simp add: clean_config_def good_base_def)
  then have head: "sch \<noteq> [] \<and> hd sch \<noteq> CHR ''/''" by (cases sch) (auto simp: web_scheme_def)
  have "urljoin (graph_base cfg) (slashed cs @ l) = graph_base cfg @ slashed cs @ l"
    using join_clean [OF graph_base_clean(2) [OF assms(1)] assms(2), of l] assms(3) l
    by (simp add: graph_base_clean(1) [OF assms(1)])
  moreover have "strip_slashes (graph_base cfg @ slashed cs @ l) = graph_base cfg @ slashed cs @ l"
    using head l last by (intro strip_slashes_plain) (auto simp: graph_base_clean(1) [OF assms(1)] base_text_def hd_append)
  ultimately show ?thesis by (simp add: resolve_def)
qed

lemma unquoted_dots: "url_unquote [] = []" "url_unquote ''.'' = ''.''" "url_unquote ''..'' = ''..''"
proof -
  have "code_point (CHR ''.'') < 128" "CHR ''.'' \<noteq> CHR ''%''" by code_simp+
  then show "url_unquote [] = []" "url_unquote ''.'' = ''.''" "url_unquote ''..'' = ''..''"
    by (simp_all add: url_unquote_def char_of_code_point)
qed

lemma clean_quoted: "s \<notin> {[], ''.'', ''..''} \<Longrightarrow> clean_segment (url_quote s)"
  using segment_chars [of s] unquote_quote [of s] unquoted_dots by (auto simp: clean_segment_def)

lemma formatted_id_not_dots:
  assumes "format_vertex_id v = Inr t"
  shows "t \<notin> {[], ''.'', ''..''}"
proof -
  have dot: "code_point (CHR ''.'') < 48" "CHR ''.'' \<noteq> CHR ''-''" by code_simp+
  have "show_nat n \<noteq> []" for n using digits_value_show_nat [of n] by (subst show_nat.simps) auto
  then have "show_int n \<noteq> [] \<and> CHR ''.'' \<notin> set (show_int n)" for n
    using no_digit [OF dot(1)] dot(2) by (auto simp: show_int_def)
  then have int: "show_int n \<notin> {[], ''.'', ''..''}" for n
    by (metis empty_iff insert_iff list.set_intros(1))
  have "json_ascii s \<notin> {[], ''.'', ''..''}" for s by (auto simp: json_ascii_def)
  with int show ?thesis
    using assms unfolding format_vertex_id_def by (cases v) (simp_all del: insert_iff split: if_split_asm, blast+)
qed


definition local_config :: client_config where
  "local_config =
     \<lparr>cc_url = ''http://h:8080'', cc_username = ''admin'', cc_password = ''admin'', cc_graph_name = ''g'', cc_graphspace = None,
      cc_timeout = (1 / 2, 15), cc_gs_supported = False, cc_version = [1, 5, 0]\<rparr>"

lemma local_config_clean: "clean_config local_config ''http'' ''h:8080'' []"
  by code_simp

lemma local_base: "graph_base local_config = ''http://h:8080/graphs/g/''"
  by code_simp


text \<open>A server that records the requests it gets.\<close>

definition recording_session :: "(string \<times> string) list client_session" where
  "recording_session =
     \<lparr>cs_config = local_config, cs_http = (\<lambda>method url params body calls.
        (Inr \<lparr>ha_status = 204, ha_json = None, ha_text = [], ha_content = []\<rparr>, calls @ [(method, url)]))\<rparr>"

text \<open>
  The arguments of a route are not quoted: removing a variable can delete a vertex label, and the empty
  name addresses all variables. Two dots are not quoted either, so an edge identifier can leave the edges.
\<close>

lemma recorded_request:
  "snd (client_request fl recording_session content method path params body calls) = calls @ [(method, resolve local_config path)]"
  by (simp add: client_request_def recording_session_def effect_bind_def effect_of_def)

theorem route_argument_moves_the_request:
  "snd (remove_variable (\<lambda>_. []) recording_session (PyStr ''../schema/vertexlabels/person'') []) =
     [(''DELETE'', ''http://h:8080/graphs/g/schema/vertexlabels/person'')] \<and>
   snd (remove_variable (\<lambda>_. []) recording_session (PyStr []) []) = [(''DELETE'', ''http://h:8080/graphs/g/variables'')]"
proof -
  have config: "cs_config recording_session = local_config" by (simp add: recording_session_def)
  have paths: "route_path (\<lambda>_. []) local_config ''variables/{key}'' [(''key'', PyStr ''../schema/vertexlabels/person'')] =
        Inr ''variables/../schema/vertexlabels/person''"
      "route_path (\<lambda>_. []) local_config ''variables/{key}'' [(''key'', PyStr [])] = Inr ''variables/''"
    by code_simp+
  have urls: "resolve local_config ''variables/../schema/vertexlabels/person'' = ''http://h:8080/graphs/g/schema/vertexlabels/person''"
      "resolve local_config ''variables/'' = ''http://h:8080/graphs/g/variables''"
    by code_simp+
  show ?thesis
    by (simp add: remove_variable_def routed_def config paths effect_bind_def effect_of_def recorded_request urls)
qed

theorem dotted_edge_id_leaves_the_edges:
  "snd (removeEdgeById fl (session_transport recording_session) (PyStr ''..'') []) = [(''DELETE'', ''http://h:8080/graphs/g/graph'')]"
proof -
  have dot: "code_point (CHR ''.'') = 46" "always_safe 46" "char_of (46 :: nat) = CHR ''.''" by code_simp+
  then have "edge_path fl (PyStr ''..'') = Inr ''graph/edges/..''"
    by (simp add: edge_path_def id_path_def format_edge_id_path_def url_quote_def utf8_char_def quote_byte_def)
  moreover have "resolve local_config ''graph/edges/..'' = ''http://h:8080/graphs/g/graph''" by code_simp
  ultimately show ?thesis
    by (simp add: removeEdgeById_def send_def session_request_def session_transport_def effect_bind_def effect_of_def recording_session_def
        validate_response_def)
qed

section \<open>Sessions and routes\<close>

lemma format_literal:
  "CHR ''{'' \<notin> set s \<Longrightarrow> format_path fl args (s @ r) = map_sum id (\<lambda>p. s @ p) (format_path fl args r)"
proof (induction s)
  case Nil
  then show ?case by (cases "format_path fl args r") simp_all
next
  case (Cons c s)
  then show ?case by (cases "format_path fl args r") (auto simp: format_path.simps(2))
qed

lemma format_field:
  assumes "CHR ''}'' \<notin> set name" "map_of args name = Some v"
  shows "format_path fl args (CHR ''{'' # name @ CHR ''}'' # r) = map_sum id (\<lambda>p. py_str fl v @ p) (format_path fl args r)"
proof -
  have "takeWhile (\<lambda>x. x \<noteq> CHR ''}'') (name @ CHR ''}'' # r) = name" "dropWhile (\<lambda>x. x \<noteq> CHR ''}'') (name @ CHR ''}'' # r) = CHR ''}'' # r"
    using assms(1) by (induction name) auto
  then show ?thesis using assms(2) by (simp add: format_path.simps(2) item_of_def)
qed

lemma has_placeholder_append: "has_placeholder b \<Longrightarrow> has_placeholder (a @ b)"
  by (induction a) auto

lemma has_placeholder_field:
  assumes "list_all word_char name" "name \<noteq> []"
  shows "has_placeholder (CHR ''{'' # name @ CHR ''}'' # r)"
proof -
  have "\<not> word_char (CHR ''}'')" by code_simp
  then have "takeWhile word_char (name @ CHR ''}'' # r) = name" "dropWhile word_char (name @ CHR ''}'' # r) = CHR ''}'' # r"
    using assms(1) by (induction name) auto
  then show ?thesis using assms(2) by simp
qed

definition auth_template :: "string \<Rightarrow> string" where
  "auth_template rest = ''/graphspaces/{graphspace}/auth/'' @ rest"

lemma auth_route:
  assumes "dict_get args ''graphspace'' = PyNone" "cc_gs_supported cfg \<longrightarrow> cc_graphspace cfg = Some gs \<and> gs \<noteq> []"
  shows "route_path fl cfg (auth_template rest) args =
    (if cc_gs_supported cfg
     then map_sum id (\<lambda>p. ''/graphspaces/'' @ gs @ ''/auth/'' @ p) (format_path fl (AList.update ''graphspace'' (PyStr gs) args) rest)
     else map_sum id (\<lambda>p. ''/auth/'' @ p) (format_path fl args rest))"
proof -
  have name: "list_all word_char ''graphspace''" "CHR ''}'' \<notin> set ''graphspace''" by code_simp+
  have template: "auth_template rest = ''/graphspaces/'' @ (CHR ''{'' # ''graphspace'' @ CHR ''}'' # (''/auth/'' @ rest))"
    by (simp add: auth_template_def)
  have placeholder: "has_placeholder (auth_template rest)"
    unfolding template by (intro has_placeholder_append has_placeholder_field name) simp
  have mentioned: "py_contains ''{graphspace}'' (auth_template rest)"
    unfolding py_contains_iff_sublist template sublist_def
    by (intro exI [of _ "''/graphspaces/''"] exI [of _ "''/auth/'' @ rest"]) simp
  have parts: "take (length graphspace_prefix + 1) (auth_template rest) = graphspace_prefix @ ''/''"
      "take (length graphspace_prefix + 6) (auth_template rest) = graphspace_prefix @ ''/auth/''"
      "drop (length graphspace_prefix) (auth_template rest) = ''/auth/'' @ rest"
    by (simp_all add: auth_template_def graphspace_prefix_def)
  have brace: "CHR ''{'' \<notin> set ''/auth/''" "CHR ''{'' \<notin> set ''/graphspaces/''" by simp_all
  show ?thesis
  proof (cases "cc_gs_supported cfg")
    case True
    have "map_of (AList.update ''graphspace'' (PyStr gs) args) ''graphspace'' = Some (PyStr gs)" by simp
    note field = format_field [OF name(2) this, of fl "''/auth/'' @ rest", unfolded py_str_PyStr]
    have "route_path fl cfg (auth_template rest) args = format_path fl (AList.update ''graphspace'' (PyStr gs) args) (auth_template rest)"
      unfolding route_path_def parts using True assms placeholder mentioned by (simp add: opt_str_def)
    also have "\<dots> = map_sum id (\<lambda>p. ''/graphspaces/'' @ p) (map_sum id (\<lambda>p. gs @ p) (map_sum id (\<lambda>p. ''/auth/'' @ p)
        (format_path fl (AList.update ''graphspace'' (PyStr gs) args) rest)))"
      unfolding template format_literal [OF brace(2)] field format_literal [OF brace(1)] ..
    finally show ?thesis using True
      by (cases "format_path fl (AList.update ''graphspace'' (PyStr gs) args) rest") simp_all
  next
    case False
    then have "route_path fl cfg (auth_template rest) args = format_path fl args (''/auth/'' @ rest)"
      unfolding route_path_def parts using placeholder mentioned by simp
    then show ?thesis using False by (simp only: if_False format_literal [OF brace(1)])
  qed
qed


definition answering_probe :: "string \<Rightarrow> nat version_probe" where
  "answering_probe core url w = (Inr (PyDict [(''versions'', PyDict [(''core'', PyStr core)])]), Suc w)"

definition probed_session :: client_config where
  "probed_session =
     \<lparr>cc_url = ''http://h:8080'', cc_username = ''admin'', cc_password = ''pw'', cc_graph_name = ''g'', cc_graphspace = Some ''DEFAULT'',
      cc_timeout = (1 / 2, 15), cc_gs_supported = True, cc_version = [1, 7, 0]\<rparr>"

lemma probed_sessions:
  "client_config_of (answering_probe ''1.7.0'') ''h:8080'' ''admin'' ''pw'' ''g'' None (1 / 2, 15) 0 = (Inr probed_session, 1)"
  "fst (client_config_of (answering_probe ''hugegraph-1.3.0'') ''h:8080'' ''admin'' ''pw'' ''g'' None (1 / 2, 15) 0) =
     Inl (unsupported_version (1, 3, 0))"
  by code_simp+


text \<open>
  Only a probe learns the version, and none is made when a graphspace is given: then a server of version 3
  is cleared in the old way.
\<close>

theorem given_graphspace_hides_the_version:
  assumes "client_config_of probe url user pwd graph (Some graphspace) timeout w = (Inr cfg, w')" "py_strip graphspace \<noteq> []"
  shows "w' = w \<and> clear_graph_all_data fl \<lparr>cs_config = cfg, cs_http = http\<rparr> =
    client_request fl \<lparr>cs_config = cfg, cs_http = http\<rparr> TextContent ''DELETE''
      ''clear?confirm_message=I%27m+sure+to+delete+all+data'' [] None"
  using assms by (auto simp: client_config_of_def clear_graph_all_data_def version_less_def Let_def)

text \<open>A host whose name begins with \<open>http\<close> is taken for a URL with a scheme.\<close>

theorem host_named_http_gets_no_scheme: "server_url ''httpd.local:8080'' = ''httpd.local:8080''"
  by code_simp

text \<open>Two calls of one method on a shared manager: the second path is stored before the first call reads its own.\<close>

theorem interleaved_calls_share_a_request:
  "snd (invoke_stored fl recording_session JsonContent ''delete_user'' [] None
     (store_request ''delete_user'' ''/auth/users/b'' ''DELETE'' (store_request ''delete_user'' ''/auth/users/a'' ''DELETE'' slots)) []) =
   [(''DELETE'', resolve local_config ''/auth/users/b'')]"
  by (simp add: invoke_stored_def store_request_def recorded_request)

end
