(* ===== verification/Spec2Isabelle.thy ===== *)
theory Spec2Isabelle
  imports Plan_Shape Plan_Persistence Executor_Properties Reconciler Confirmable_Workflow Gremlin_Safety Graph_Gremlin Error_Mapping Write_Boundary Backend_Capabilities Gremlin_Reads Graph_Mapping Graph_Adapter_Properties Schema_Validity Schema_Samples Schema_Sending Graph_Payload_Properties Mutation_Properties Query_Properties Graph_Data_Properties Graph_Import Inspect_Properties Client_Properties
begin

text \<open>
  Verification of the write path of \<open>hugegraph-mcp\<close>, the server that gives language models tools to
  read and change a HugeGraph database, and of the part of \<open>hugegraph-python-client\<close> it drives. File names
  below are under \<open>src/hugegraph-mcp/hugegraph_mcp/\<close> unless they start with \<open>pyhugegraph/\<close>, which is
  \<open>src/hugegraph-python-client/src/pyhugegraph/\<close>.

  \<^bold>\<open>The program.\<close> A write takes two calls. A dry run validates the request against the live schema,
  previews it, issues a single-use confirmation (a plan hash and a nonce) to a ledger and saves an
  immutable plan in a durable store. A confirmation then either goes to the tool itself, which consumes
  the ledger entry and writes, or to the executor, which claims the stored plan under a lease and
  dispatches its operations one by one to adapters. Adapters read, write through the Gremlin execution
  layer or the client's schema builders, read again and answer with a receipt. What stays unknown is
  settled by a reconciler, which only reads. Several processes share the two databases. Reads go through
  a classifier that lets only queries pass it understands completely.

  \<^bold>\<open>Foundations.\<close> \<open>Prelude\<close>: texts, dictionaries, SQL statements, the locales of transition systems.
  \<open>Py_Values\<close>: Python values, equality, truth, exceptions. \<open>Envelope\<close>: replies of \<open>envelope.py\<close>.
  \<open>Json_Text\<close>: \<open>json.dumps\<close>. \<open>Effects\<close>: calls that change the world and may raise. \<open>Tool_Session\<close>: the state and the
  inputs of one tool call.

  \<^bold>\<open>Plans, ledger and store.\<close> \<open>Write_Plan\<close> (\<open>write_plan.py\<close>) has the statuses, their transition table, plans,
  operations and receipts with the checks of their constructors. \<open>Confirmation_Store\<close>
  (\<open>confirmation_store.py\<close>) is the ledger: three tables, one function per method. \<open>Plan_Store\<close> and
  \<open>Plan_Transitions\<close> (\<open>plan_store.py\<close>) are \<open>SQLitePlanStore\<close>: schema versions and migration, reading,
  and every writing method as one transaction. \<open>Plan_Ledger\<close> makes the methods the steps of a
  transition system, so that a run is any interleaving of any number of processes, and states the
  abstract machine they refine; \<open>Plan_Transitions\<close> has the lemmas of the refinement. \<open>Plan_Properties\<close>, \<open>Plan_Persistence\<close>
  and \<open>Plan_Shape\<close> derive single dispatch, single claim, fencing, final outcomes, the round trip through the
  store, migration, and two runs in which the store breaks a promise.

  \<^bold>\<open>Execution.\<close> \<open>Write_Executor\<close> (\<open>write_executor.py\<close>) and \<open>Reconciler\<close> (\<open>reconciler.py\<close>) run over store, world and
  clock; what other processes do between two transactions is an argument, restricted to the protocol
  of the store, with triples over executor runs. \<open>Executor_Properties\<close>: only protocol steps, effective once, in order, no token revealed.
  \<open>Plan_Hash\<close> (\<open>plan_hash.py\<close>), \<open>Mcp_Config\<close> (\<open>config.py\<close>, \<open>guard.py\<close>, \<open>toolsets.py\<close>), \<open>Confirmable_Workflow\<close>
  (\<open>confirmable_workflow.py\<close>) and \<open>Write_Boundary\<close> (\<open>write_contract.py\<close>, \<open>write_limits.py\<close>) are what stands in
  front of a write.

  \<^bold>\<open>Gremlin.\<close> \<open>Gremlin_Lexer\<close> and \<open>Gremlin_Policy\<close> (\<open>gremlin_policy.py\<close>) are the scanner and the classifier,
  \<open>Graph_Gremlin\<close> (\<open>tools/graph_data_gremlin.py\<close>) the generated queries, \<open>Gremlin_Tools\<close> (\<open>gremlin_tools.py\<close>)
  the execution layer with \<open>Error_Mapping\<close> (\<open>error_mapping.py\<close>) and \<open>Backend_Capabilities\<close>
  (\<open>backend_capabilities.py\<close>). \<open>Gremlin_Safety\<close>, \<open>Graph_Gremlin\<close>, \<open>Gremlin_Rewrite\<close> and \<open>Gremlin_Reads\<close>: a safe
  query names no write step, a rendered value is one literal, appended text is scanned on its own,
  only safe queries reach the server.

  \<^bold>\<open>Graph data.\<close> \<open>Schema_Model\<close> (\<open>tools/schema_contract.py\<close>, \<open>tools/schema_utils.py\<close>) and \<open>Property_Validation\<close>
  (\<open>tools/property_validation.py\<close>); \<open>Graph_Mapping\<close> (\<open>tools/graph_data_mapping.py\<close>), \<open>Graph_Validate\<close>
  (\<open>tools/graph_data_validate.py\<close>), \<open>Graph_Dry_Run\<close> and \<open>Graph_Execute\<close> (\<open>tools/graph_data_execute.py\<close>) over
  \<open>Graph_Backend\<close>, \<open>Graph_Plan\<close> (\<open>tools/graph_write_plan.py\<close>), \<open>Graph_Adapter\<close> (\<open>tools/graph_write_adapter.py\<close>).
  \<open>Graph_Validity\<close>: validation accepts exactly the conforming plans. \<open>Graph_Compilation\<close>: a dry run only
  reads and its plan is accepted by the store. \<open>Graph_Execution\<close>: replies describe a prefix of the plan.
  \<open>Graph_Adapter_Properties\<close>: the adapters fulfil the contract of \<open>Adapters\<close>. \<open>Graph_Payload\<close>
  (\<open>validate_graph_payload\<close> of \<open>tools/ingest_graph_data.py\<close>) with \<open>Graph_Payload_Properties\<close>: exactly the
  conforming payloads are accepted. \<open>Manage_Graph_Data\<close> (\<open>tools/manage_graph_data.py\<close>) is the tool over all of
  this, with its safety chain; \<open>Graph_Data_Properties\<close>: it writes only by executing
  the plan the server issued, in a call that consumed its confirmation. \<open>Url_Text\<close>
  (\<open>pyhugegraph/utils/id_format.py\<close>): an identifier stays in its path segment. \<open>Graph_Client\<close>
  (\<open>pyhugegraph/api/graph.py\<close>, \<open>pyhugegraph/structure/\<close>) is \<open>GraphManager\<close>. \<open>Mutate_Properties\<close>
  (\<open>tools/mutate_graph_properties.py\<close>) with \<open>Mutation_Properties\<close>: the tool never writes and its preview is the
  requested change. \<open>Query_Graph_Data\<close> (\<open>tools/query_graph_data.py\<close>) with \<open>Query_Properties\<close>: one GET request at
  most, and an answer within its limit.

  \<^bold>\<open>HugeGraph-AI and descriptions.\<close> \<open>Ai_Client\<close> (\<open>hugegraph_ai_client.py\<close>) sends requests to the AI service and
  reads its envelopes; \<open>Ai_Tools\<close> (\<open>tools/extract_graph_data.py\<close>, \<open>tools/generate_gremlin.py\<close>,
  \<open>tools/refresh_vid_embeddings.py\<close>) are the tools over it. \<open>Ai_Properties\<close>: a success is what the service sent,
  a generated query runs only when it is safe, a refresh only after the service validates targets.
  \<open>Graph_Import\<close> (\<open>tools/ingest_graph_data.py\<close>) is the import over the service, with when
  its hash depends on the order of the items, and that it never writes. \<open>Graph_Client\<close> reads schema objects too
  (\<open>pyhugegraph/api/schema.py\<close>); \<open>Inspect_Tools\<close> (\<open>tools/inspect_graph.py\<close>, \<open>tools/inspect_schema.py\<close>) with
  \<open>Inspect_Properties\<close>: descriptions only read.

  \<^bold>\<open>Schema.\<close> \<open>Schema_Validate\<close>, \<open>Schema_Match\<close>, \<open>Schema_Apply\<close>, \<open>Manage_Schema\<close>
  (\<open>tools/manage_schema.py\<close>, \<open>schema_tools.py\<close>, \<open>tools/live_schema.py\<close>), \<open>Schema_Plan\<close>
  (\<open>tools/schema_write_adapter.py\<close>) and the client they drive, \<open>Schema_Client\<close>
  (\<open>pyhugegraph/utils/util.py\<close>, \<open>pyhugegraph/api/common.py\<close>, \<open>pyhugegraph/api/schema_manage/\<close>). \<open>Schema_Validity\<close>: an
  accepted batch can be applied in its order. \<open>Schema_Apply_Properties\<close>: a status is an observation, no
  write without a consumed confirmation. \<open>Schema_Sending\<close>: the posted body is the requested object.
  \<open>Schema_Requests\<close>: a call makes a bounded number of requests. \<open>Schema_Samples\<close>: runs against a server in memory.

  \<^bold>\<open>Client.\<close> \<open>Url_Text\<close> has the part of \<open>urllib.parse\<close> that joins URLs. \<open>Client_Session\<close>
  (\<open>pyhugegraph/utils/huge_config.py\<close>, \<open>huge_requests.py\<close>, \<open>huge_router.py\<close>) has configurations, the resolution of
  paths and routes, and the managers of \<open>pyhugegraph/api/\<close> that administrate and analyse.
  \<open>Client_Properties\<close>: a session follows the version of its server, the URL of a vertex or an edge is its
  collection and one segment, and an argument of a route can lead elsewhere.

  \<^bold>\<open>Interfaces.\<close> The laws a component relies on are locales, interpreted on the model of the component that
  provides them: \<open>guarded_system\<close> and its extension \<open>outcome_ledger\<close> by the ledger and the store, \<open>write_adapter\<close> by the
  graph and schema adapters; what the executor assumes of an adapter is what the interpretations prove.

  \<^bold>\<open>Parameters.\<close> What is not code of the repository is an argument: SHA-256, the tokens of \<open>uuid4\<close> and
  fresh nonces, readings of the clock, whether a disk access succeeds, the text of a float and of an
  exception, the Gremlin client and the HTTP library, the order in which a Python set is listed,
  \<open>datetime.fromisoformat\<close>, base64 decoding. A theorem that needs a law of one of them names it as a
  hypothesis.

  \<^bold>\<open>Loops and bounds.\<close> Every loop of the code ends and is a structural recursion over what it walks through
  (characters, tokens, operations, rows); the scanner, which moves an index, recurses over the rest of
  the text. No fuel is used. Python integers are \<open>int\<close>; the bounds of settings, property values and
  limits are the code's own. Texts are lists of Latin-1 characters and floats are exact rationals with
  infinities and NaN.

  \<^bold>\<open>Not modelled.\<close> The \<open>meta\<close> block of an envelope, its warnings and next actions, and the redaction of secrets;
  log output; text outside Latin-1 and the rounding of floats; sets and enumeration members inside
  plan states (plans come from JSON); retries of the HTTP adapter; branches for replies of an
  older shape that the execution layer no longer produces. Of the client: \<open>userdata\<close>,
  \<open>append\<close> and \<open>eliminate\<close> of schema objects. Of the tools:
  the registration in \<open>server.py\<close>, and the code that converts results of an import over HugeGraph-AI, which
  has no caller since that import is disabled. The packages \<open>hugegraph-llm\<close> (prompts, pipelines and vector indexes around external
  models), \<open>hugegraph-ml\<close> (PyTorch and DGL models) and \<open>vermeer-python-client\<close> (a thin HTTP wrapper) are
  outside this library.
\<close>

end
